(* ===== verification/Linura_Prelude.thy ===== *)
theory Linura_Prelude
  imports
    Main
    "HOL-Library.Word"
    "HOL-Library.Char_ord"
    "HOL-Library.List_Lexorder"
    "HOL-Library.Product_Lexorder"
    "HOL-Library.Sublist"
    "HOL-Library.Code_Target_Nat"
begin

text \<open>
  Shared vocabulary of the development: the Rust types and standard-library operations the
  Linura crates use, and the generic lemmas the component theories rest on.

  \<^item> \<open>u64\<close> is \<^typ>\<open>64 word\<close>; \<open>usize\<close> lengths are \<^typ>\<open>nat\<close>; a byte is a \<^typ>\<open>char\<close>.
  \<^item> \<open>String\<close>/\<open>str\<close> is its sequence of UTF-8 bytes, a \<^typ>\<open>string\<close>: \<^const>\<open>length\<close> is \<open>str::len\<close>,
    the lexicographic order on lists is \<open>Ord for str\<close>, and \<open>utf8_chars\<close> is \<open>str::chars\<close>.
  \<^item> \<open>Result<T, E>\<close> is a sum with \<^const>\<open>Inl\<close> for \<open>Err\<close>; \<open>and_then\<close> is the \<open>?\<close> operator.
  \<^item> \<open>BTreeMap\<close> is an association list in strictly increasing key order, \<open>BTreeSet\<close> a finite
    set iterated through \<^const>\<open>sorted_list_of_set\<close>.
  \<^item> \<open>format!\<close> output that only names a cause is kept as its template and its arguments.
\<close>

type_synonym u64 = "64 word"
type_synonym bytes = string
type_synonym ('k, 'v) btree_map = "('k \<times> 'v) list"

named_theorems result_simps \<open>rewriting of the Result combinators\<close>
named_theorems encoding_simps \<open>lengths and injectivity of the canonical encodings\<close>

section \<open>Results\<close>

definition and_then :: "'e + 'a \<Rightarrow> ('a \<Rightarrow> 'e + 'b) \<Rightarrow> 'e + 'b" where
  "and_then r f = (case r of Inl e \<Rightarrow> Inl e | Inr a \<Rightarrow> f a)"

definition ensure :: "bool \<Rightarrow> 'e \<Rightarrow> 'e + unit" where
  "ensure P e = (if P then Inr () else Inl e)"

definition map_err :: "('e \<Rightarrow> 'f) \<Rightarrow> 'e + 'a \<Rightarrow> 'f + 'a" where
  "map_err f r = (case r of Inl e \<Rightarrow> Inl (f e) | Inr a \<Rightarrow> Inr a)"

definition ok_or :: "'a option \<Rightarrow> 'e \<Rightarrow> 'e + 'a" where
  "ok_or x e = (case x of None \<Rightarrow> Inl e | Some a \<Rightarrow> Inr a)"

definition is_ok :: "'e + 'a \<Rightarrow> bool" where
  "is_ok r = (case r of Inl _ \<Rightarrow> False | Inr _ \<Rightarrow> True)"

text \<open>A \<open>for\<close> loop whose body may return early with an error.\<close>

fun for_each :: "'a list \<Rightarrow> ('a \<Rightarrow> 'e + unit) \<Rightarrow> 'e + unit" where
  "for_each [] f = Inr ()"
| "for_each (x # xs) f = and_then (f x) (\<lambda>_. for_each xs f)"

text \<open>The same loop collecting one value per iteration into a \<open>Vec\<close>.\<close>

fun try_map :: "('a \<Rightarrow> 'e + 'b) \<Rightarrow> 'a list \<Rightarrow> 'e + 'b list" where
  "try_map f [] = Inr []"
| "try_map f (x # xs) = and_then (f x) (\<lambda>y. and_then (try_map f xs) (\<lambda>ys. Inr (y # ys)))"

text \<open>The loop threading an accumulator.\<close>

fun try_fold :: "('s \<Rightarrow> 'a \<Rightarrow> 'e + 's) \<Rightarrow> 's \<Rightarrow> 'a list \<Rightarrow> 'e + 's" where
  "try_fold f s [] = Inr s"
| "try_fold f s (x # xs) = and_then (f s x) (\<lambda>s'. try_fold f s' xs)"

lemma and_then_simps [simp]:
  "and_then (Inl e) f = Inl e"
  "and_then (Inr a) f = f a"
  by (simp_all add: and_then_def)

lemma and_then_eq_Inr [result_simps]:
  "and_then r f = Inr b \<longleftrightarrow> (\<exists>a. r = Inr a \<and> f a = Inr b)"
  by (cases r) simp_all

lemma and_then_eq_Inl [result_simps]:
  "and_then r f = Inl e \<longleftrightarrow> r = Inl e \<or> (\<exists>a. r = Inr a \<and> f a = Inl e)"
  by (cases r) simp_all

lemma ensure_eq [result_simps, simp]:
  "ensure P e = Inr u \<longleftrightarrow> P"
  "ensure P e = Inl e' \<longleftrightarrow> \<not> P \<and> e' = e"
  by (auto simp: ensure_def)

lemma ensure_True [simp]: "ensure True e = Inr ()"
  by (simp add: ensure_def)

lemma ensure_False [simp]: "ensure False e = Inl e"
  by (simp add: ensure_def)

lemma map_err_eq [result_simps, simp]:
  "map_err f r = Inr a \<longleftrightarrow> r = Inr a"
  "map_err f r = Inl e \<longleftrightarrow> (\<exists>d. r = Inl d \<and> e = f d)"
  by (auto simp: map_err_def split: sum.splits)

lemma map_err_simps [simp]:
  "map_err f (Inr a) = Inr a"
  "map_err f (Inl e) = Inl (f e)"
  by (simp_all add: map_err_def)

lemma ok_or_eq [result_simps, simp]:
  "ok_or x e = Inr a \<longleftrightarrow> x = Some a"
  "ok_or x e = Inl e' \<longleftrightarrow> x = None \<and> e' = e"
  by (auto simp: ok_or_def split: option.splits)

lemma ok_or_simps [simp]: "ok_or (Some a) e = Inr a" "ok_or None e = Inl e"
  by (simp_all add: ok_or_def)

lemma is_ok_iff: "is_ok r \<longleftrightarrow> (\<exists>a. r = Inr a)"
  by (cases r) (simp_all add: is_ok_def)

lemma is_ok_simps [simp]: "is_ok (Inr a)" "\<not> is_ok (Inl e)"
  by (simp_all add: is_ok_def)

lemma for_each_ok: "for_each xs f = Inr u \<longleftrightarrow> (\<forall>x \<in> set xs. f x = Inr ())"
  by (induction xs) (auto simp: result_simps)

lemma for_each_err:
  "for_each xs f = Inl e \<Longrightarrow> \<exists>x \<in> set xs. f x = Inl e"
  by (induction xs) (auto simp: result_simps)

lemma try_map_ok:
  "try_map f xs = Inr ys \<longleftrightarrow> list_all2 (\<lambda>x y. f x = Inr y) xs ys"
proof (induction xs arbitrary: ys)
  case Nil
  then show ?case by auto
next
  case (Cons x xs)
  then show ?case by (cases ys) (auto simp: result_simps)
qed

lemma try_map_Inr_id: "(\<And>x. x \<in> set xs \<Longrightarrow> f x = Inr (g x)) \<Longrightarrow> try_map f xs = Inr (map g xs)"
  by (induction xs) auto

lemma try_fold_append:
  "try_fold f s (xs @ ys) = and_then (try_fold f s xs) (\<lambda>s'. try_fold f s' ys)"
proof (induction xs arbitrary: s)
  case (Cons x xs)
  then show ?case by (cases "f s x") simp_all
qed simp

lemma try_fold_invariant:
  assumes "try_fold f s xs = Inr t" and "P s"
    and "\<And>s x s'. P s \<Longrightarrow> x \<in> set xs \<Longrightarrow> f s x = Inr s' \<Longrightarrow> P s'"
  shows "P t"
  using assms
proof (induction xs arbitrary: s)
  case (Cons x xs)
  from Cons.prems(1) obtain s' where s': "f s x = Inr s'" "try_fold f s' xs = Inr t"
    by (auto simp: result_simps)
  with Cons.prems(2,3) have "P s'" by (meson list.set_intros(1))
  with Cons.IH[OF s'(2)] Cons.prems(3) show ?case by (meson list.set_intros(2))
qed simp

lemma try_fold_collect:
  assumes "try_fold f s xs = Inr t" and "I D s"
    and "\<And>s x s' D. I D s \<Longrightarrow> f s x = Inr s' \<Longrightarrow> I (D \<union> g x) s'"
  shows "I (D \<union> (\<Union>x \<in> set xs. g x)) t"
  using assms(1,2)
proof (induction xs arbitrary: s D)
  case (Cons x xs)
  then obtain s' where "f s x = Inr s'" "try_fold f s' xs = Inr t" by (auto simp: result_simps)
  with Cons.IH [of s' "D \<union> g x"] assms(3) [OF Cons.prems(2)] show ?case by (simp add: Un_assoc)
qed simp

section \<open>Machine integers\<close>

definition checked_add :: "u64 \<Rightarrow> u64 \<Rightarrow> u64 option" where
  "checked_add a b = (if unat a + unat b < 2 ^ 64 then Some (a + b) else None)"

definition checked_sub :: "u64 \<Rightarrow> u64 \<Rightarrow> u64 option" where
  "checked_sub a b = (if b \<le> a then Some (a - b) else None)"

definition checked_mul :: "u64 \<Rightarrow> u64 \<Rightarrow> u64 option" where
  "checked_mul a b = (if unat a * unat b < 2 ^ 64 then Some (a * b) else None)"

definition saturating_add :: "u64 \<Rightarrow> u64 \<Rightarrow> u64" where
  "saturating_add a b = (if unat a + unat b < 2 ^ 64 then a + b else - 1)"

text \<open>\<open>usize\<close> arithmetic on a 64-bit target.\<close>

definition usize_saturating_add :: "nat \<Rightarrow> nat \<Rightarrow> nat" where
  "usize_saturating_add a b = min (a + b) (2 ^ 64 - 1)"

definition usize_checked_add :: "nat \<Rightarrow> nat \<Rightarrow> nat option" where
  "usize_checked_add a b = (if a + b < 2 ^ 64 then Some (a + b) else None)"

lemma usize_checked_add_Some [simp]: "usize_checked_add a b = Some c \<longleftrightarrow> c = a + b \<and> a + b < 2 ^ 64"
  by (auto simp: usize_checked_add_def)

lemma unat_lt_64: "unat (a :: u64) < 18446744073709551616"
  using unsigned_less [of a] by simp

lemma checked_add_eq_Some:
  "checked_add a b = Some c \<longleftrightarrow> unat a + unat b < 2 ^ 64 \<and> c = a + b"
  by (auto simp: checked_add_def)

lemma unat_checked_add: "checked_add a b = Some c \<Longrightarrow> unat c = unat a + unat b"
  by (auto simp: checked_add_eq_Some unat_word_ariths)

lemma unat_checked_sub: "checked_sub a b = Some c \<Longrightarrow> unat c = unat a - unat b \<and> unat b \<le> unat a"
  by (auto simp: checked_sub_def word_le_nat_alt unat_sub split: if_splits)

lemma unat_checked_mul: "checked_mul a b = Some c \<Longrightarrow> unat c = unat a * unat b"
  by (auto simp: checked_mul_def unat_word_ariths split: if_splits)

lemma unat_saturating_add: "unat (saturating_add a b) = min (unat a + unat b) (2 ^ 64 - 1)"
  by (auto simp: saturating_add_def unat_word_ariths unsigned_minus_1_eq_mask mask_eq_exp_minus_1)

section \<open>Text\<close>

definition utf8_cont :: "string \<Rightarrow> nat \<Rightarrow> nat" where
  "utf8_cont bs i = (if i < length bs then of_char (bs ! i) mod 64 else 0)"

fun utf8_chars :: "string \<Rightarrow> nat list" where
  "utf8_chars [] = []"
| "utf8_chars (b # bs) = (let n = of_char b in
     if n < 128 then n # utf8_chars bs
     else if n < 224 then (n mod 32 * 64 + utf8_cont bs 0) # utf8_chars (drop 1 bs)
     else if n < 240 then
       (n mod 16 * 4096 + utf8_cont bs 0 * 64 + utf8_cont bs 1) # utf8_chars (drop 2 bs)
     else (n mod 8 * 262144 + utf8_cont bs 0 * 4096 + utf8_cont bs 1 * 64 + utf8_cont bs 2)
       # utf8_chars (drop 3 bs))"

text \<open>\<open>char::is_control\<close> (category Cc) and \<open>char::is_whitespace\<close> (property White\_Space).\<close>

definition char_is_control :: "nat \<Rightarrow> bool" where
  "char_is_control c \<longleftrightarrow> c < 32 \<or> (127 \<le> c \<and> c < 160)"

definition char_is_whitespace :: "nat \<Rightarrow> bool" where
  "char_is_whitespace c \<longleftrightarrow> (9 \<le> c \<and> c \<le> 13) \<or> c = 32 \<or> c = 133 \<or> c = 160 \<or> c = 5760
     \<or> (8192 \<le> c \<and> c \<le> 8202) \<or> c = 8232 \<or> c = 8233 \<or> c = 8239 \<or> c = 8287 \<or> c = 12288"

text \<open>\<open>s.trim().is_empty()\<close> and \<open>s.chars().any(char::is_control)\<close>.\<close>

definition trim_is_empty :: "string \<Rightarrow> bool" where
  "trim_is_empty s \<longleftrightarrow> list_all char_is_whitespace (utf8_chars s)"

definition has_control :: "string \<Rightarrow> bool" where
  "has_control s \<longleftrightarrow> list_ex char_is_control (utf8_chars s)"

definition has_whitespace :: "string \<Rightarrow> bool" where
  "has_whitespace s \<longleftrightarrow> list_ex char_is_whitespace (utf8_chars s)"

definition to_ascii_lowercase :: "string \<Rightarrow> string" where
  "to_ascii_lowercase s =
     map (\<lambda>c. if CHR ''A'' \<le> c \<and> c \<le> CHR ''Z'' then char_of (of_char c + 32 :: nat) else c) s"

lemma utf8_chars_eq_Nil [simp]: "utf8_chars s = [] \<longleftrightarrow> s = []"
  by (cases s) (simp_all add: Let_def)

lemma trim_is_empty_Nil [simp]: "trim_is_empty []"
  by (simp add: trim_is_empty_def)

section \<open>Decimal and hexadecimal text\<close>

definition digit_char :: "nat \<Rightarrow> char" where
  "digit_char d = char_of (48 + d)"

definition digit_val :: "char \<Rightarrow> nat" where
  "digit_val c = of_char c - 48"

definition is_digit :: "char \<Rightarrow> bool" where
  "is_digit c \<longleftrightarrow> 48 \<le> (of_char c :: nat) \<and> (of_char c :: nat) \<le> 57"

fun nat_to_dec :: "nat \<Rightarrow> string" where
  "nat_to_dec n = (if n < 10 then [digit_char n] else nat_to_dec (n div 10) @ [digit_char (n mod 10)])"

declare nat_to_dec.simps [simp del]

definition dec_val :: "string \<Rightarrow> nat" where
  "dec_val s = foldl (\<lambda>acc c. 10 * acc + digit_val c) 0 s"

definition u64_to_dec :: "u64 \<Rightarrow> string" where
  "u64_to_dec w = nat_to_dec (unat w)"

lemma digit_val_char: "d < 10 \<Longrightarrow> digit_val (digit_char d) = d"
  by (simp add: digit_val_def digit_char_def)

lemma is_digit_char: "d < 10 \<Longrightarrow> is_digit (digit_char d)"
  by (simp add: is_digit_def digit_char_def)

lemma dec_val_nat_to_dec [simp]: "dec_val (nat_to_dec n) = n"
proof (induction n rule: nat_to_dec.induct)
  case (1 n)
  show ?case
  proof (cases "n < 10")
    case True
    then show ?thesis by (simp add: nat_to_dec.simps [of n] dec_val_def digit_val_char)
  next
    case False
    with 1 have "dec_val (nat_to_dec (n div 10)) = n div 10" by simp
    with False show ?thesis
      by (subst nat_to_dec.simps) (simp add: dec_val_def digit_val_char)
  qed
qed

lemma nat_to_dec_digits: "c \<in> set (nat_to_dec n) \<Longrightarrow> is_digit c"
proof (induction n rule: nat_to_dec.induct)
  case (1 n)
  then show ?case
    by (cases "n < 10") (auto simp: nat_to_dec.simps [of n] is_digit_char)
qed

lemma nat_to_dec_inject [simp, encoding_simps]: "nat_to_dec m = nat_to_dec n \<longleftrightarrow> m = n"
  by (metis dec_val_nat_to_dec)

lemma u64_to_dec_inject [simp, encoding_simps]: "u64_to_dec a = u64_to_dec b \<longleftrightarrow> a = b"
  by (simp add: u64_to_dec_def word_unat_eq_iff)

text \<open>\<open>str::parse::<u64>\<close>: an optional plus sign, then at least one digit, within range.\<close>

definition parse_u64 :: "string \<Rightarrow> u64 option" where
  "parse_u64 s = (let d = (case s of [] \<Rightarrow> [] | c # cs \<Rightarrow> if c = CHR ''+'' then cs else s) in
     if d = [] \<or> \<not> list_all is_digit d then None
     else if dec_val d < 2 ^ 64 then Some (word_of_nat (dec_val d)) else None)"

text \<open>\<open>Display for i64\<close> and \<open>Display for bool\<close>.\<close>

definition i64_to_dec :: "u64 \<Rightarrow> string" where
  "i64_to_dec w = (if sint w < 0 then CHR ''-'' # nat_to_dec (nat (- sint w))
     else nat_to_dec (nat (sint w)))"

definition bool_text :: "bool \<Rightarrow> string" where
  "bool_text b = (if b then ''true'' else ''false'')"

lemma nat_to_dec_nonempty [simp]: "nat_to_dec n \<noteq> []"
  by (simp add: nat_to_dec.simps [of n])

lemma plus_not_digit [simp]: "\<not> is_digit (CHR ''+'')"
  by (simp add: is_digit_def)

lemma colon_not_digit [simp]: "\<not> is_digit (CHR '':'')"
  by (simp add: is_digit_def)

lemma parse_u64_to_dec [simp]: "parse_u64 (u64_to_dec w) = Some w"
proof -
  obtain c cs where cs: "u64_to_dec w = c # cs"
    by (metis list.exhaust nat_to_dec_nonempty u64_to_dec_def)
  then have "is_digit c" "list_all is_digit (c # cs)"
    using nat_to_dec_digits [of _ "unat w"] by (auto simp: u64_to_dec_def list_all_iff)
  moreover have "dec_val (c # cs) = unat w"
    using cs by (simp add: u64_to_dec_def flip: cs)
  ultimately show ?thesis
    using cs unat_lt_64 [of w] by (auto simp: parse_u64_def Let_def)
qed

text \<open>A decimal number followed by a colon is a self-delimiting prefix.\<close>

lemma dec_colon_inject:
  "nat_to_dec m @ CHR '':'' # x = nat_to_dec n @ CHR '':'' # y \<longleftrightarrow> m = n \<and> x = y"
proof
  have tw: "takeWhile is_digit (nat_to_dec k @ CHR '':'' # z) = nat_to_dec k" for k z
    using nat_to_dec_digits by (simp add: takeWhile_append2)
  assume eq: "nat_to_dec m @ CHR '':'' # x = nat_to_dec n @ CHR '':'' # y"
  then have "nat_to_dec m = nat_to_dec n" by (metis tw)
  with eq show "m = n \<and> x = y" by simp
qed simp

definition nibble_char :: "nat \<Rightarrow> char" where
  "nibble_char d = (if d < 10 then char_of (48 + d) else char_of (87 + d))"

definition is_lower_hex :: "char \<Rightarrow> bool" where
  "is_lower_hex c \<longleftrightarrow> is_digit c \<or> (97 \<le> (of_char c :: nat) \<and> (of_char c :: nat) \<le> 102)"

definition hex_byte :: "char \<Rightarrow> string" where
  "hex_byte b = [nibble_char (of_char b div 16), nibble_char (of_char b mod 16)]"

definition hex_bytes :: "bytes \<Rightarrow> string" where
  "hex_bytes bs = concat (map hex_byte bs)"

lemma of_nibble_char: "d < 16 \<Longrightarrow> of_char (nibble_char d) = (if d < 10 then 48 + d else 87 + d)"
  by (simp add: nibble_char_def)

lemma nibble_char_inject:
  assumes "d < 16" "e < 16"
  shows "nibble_char d = nibble_char e \<longleftrightarrow> d = e"
proof
  assume "nibble_char d = nibble_char e"
  then have "(if d < 10 then 48 + d else 87 + d) = (if e < 10 then 48 + e else 87 + e)"
    using assms by (metis of_nibble_char)
  then show "d = e" by (simp split: if_splits)
qed simp

lemma nibble_char_hex: "d < 16 \<Longrightarrow> is_lower_hex (nibble_char d)"
  by (auto simp: is_lower_hex_def is_digit_def nibble_char_def)

lemma hex_byte_inject: "hex_byte a = hex_byte b \<longleftrightarrow> a = b"
proof
  assume "hex_byte a = hex_byte b"
  then have "(of_char a :: nat) div 16 = of_char b div 16" "(of_char a :: nat) mod 16 = of_char b mod 16"
    using nat_of_char_less_256 [of a] nat_of_char_less_256 [of b]
    by (simp_all add: hex_byte_def nibble_char_inject less_mult_imp_div_less)
  then have "(of_char a :: nat) = of_char b" by (metis div_mult_mod_eq)
  then show "a = b" by simp
qed simp

lemma length_hex_bytes [simp, encoding_simps]: "length (hex_bytes bs) = 2 * length bs"
  by (induction bs) (simp_all add: hex_bytes_def hex_byte_def)

lemma hex_bytes_inject [simp, encoding_simps]: "hex_bytes a = hex_bytes b \<longleftrightarrow> a = b"
proof (induction a arbitrary: b)
  case Nil
  then show ?case by (cases b) (simp_all add: hex_bytes_def hex_byte_def)
next
  case (Cons x a)
  show ?case
  proof (cases b)
    case Nil
    then show ?thesis by (simp add: hex_bytes_def hex_byte_def)
  next
    case (Cons y b')
    have "hex_bytes (x # a) = hex_bytes (y # b')
        \<longleftrightarrow> hex_byte x = hex_byte y \<and> hex_bytes a = hex_bytes b'"
      by (auto simp: hex_bytes_def hex_byte_def)
    with Cons.IH Cons show ?thesis by (simp add: hex_byte_inject)
  qed
qed

lemma hex_bytes_chars: "c \<in> set (hex_bytes bs) \<Longrightarrow> is_lower_hex c"
  using nat_of_char_less_256
  by (auto simp: hex_bytes_def hex_byte_def less_mult_imp_div_less intro!: nibble_char_hex)

text \<open>Evaluation of \<open>hex_byte\<close> on the bits of a character.\<close>

definition hex_digit :: "bool \<Rightarrow> bool \<Rightarrow> bool \<Rightarrow> bool \<Rightarrow> char" where
  "hex_digit b3 b2 b1 b0 =
     (if b3 then if b2 then if b1 then if b0 then CHR ''f'' else CHR ''e'' else if b0 then CHR ''d'' else CHR ''c''
        else if b1 then if b0 then CHR ''b'' else CHR ''a'' else if b0 then CHR ''9'' else CHR ''8''
      else if b2 then if b1 then if b0 then CHR ''7'' else CHR ''6'' else if b0 then CHR ''5'' else CHR ''4''
        else if b1 then if b0 then CHR ''3'' else CHR ''2'' else if b0 then CHR ''1'' else CHR ''0'')"

lemma hex_digit_nibble:
  "nibble_char (of_bool b0 + 2 * (of_bool b1 + 2 * (of_bool b2 + 2 * of_bool b3))) = hex_digit b3 b2 b1 b0"
  by (cases b0; cases b1; cases b2; cases b3)
    (simp_all add: nibble_char_def hex_digit_def char_of_def bit_iff_odd)

lemma hex_byte_code [code]:
  "hex_byte (Char b0 b1 b2 b3 b4 b5 b6 b7) = [hex_digit b7 b6 b5 b4, hex_digit b3 b2 b1 b0]"
proof -
  let ?lo = "of_bool b0 + 2 * (of_bool b1 + 2 * (of_bool b2 + 2 * of_bool b3)) :: nat"
  let ?hi = "of_bool b4 + 2 * (of_bool b5 + 2 * (of_bool b6 + 2 * of_bool b7)) :: nat"
  have "(of_char (Char b0 b1 b2 b3 b4 b5 b6 b7) :: nat) = ?lo + 16 * ?hi" by simp
  moreover have "?lo < 16" by (cases b0; cases b1; cases b2; cases b3) simp_all
  ultimately have "(of_char (Char b0 b1 b2 b3 b4 b5 b6 b7) :: nat) div 16 = ?hi"
      "(of_char (Char b0 b1 b2 b3 b4 b5 b6 b7) :: nat) mod 16 = ?lo"
    by (simp_all only: div_mult_self2 mod_mult_self2 div_less mod_less add_0)
  then show ?thesis by (simp only: hex_byte_def hex_digit_nibble)
qed

section \<open>Splitting at colons\<close>

text \<open>\<open>str::split_once(':')\<close> splits at the first colon.\<close>

fun split_once_colon :: "string \<Rightarrow> (string \<times> string) option" where
  "split_once_colon [] = None"
| "split_once_colon (c # cs) =
     (if c = CHR '':'' then Some ([], cs)
      else map_option (\<lambda>(a, b). (c # a, b)) (split_once_colon cs))"

definition is_ascii_alphanumeric :: "char \<Rightarrow> bool" where
  "is_ascii_alphanumeric c \<longleftrightarrow> is_digit c
     \<or> (65 \<le> (of_char c :: nat) \<and> (of_char c :: nat) \<le> 90)
     \<or> (97 \<le> (of_char c :: nat) \<and> (of_char c :: nat) \<le> 122)"

text \<open>\<open>str::rsplit_once(':')\<close> splits at the last colon, \<open>str::split(':')\<close> at every one.\<close>

definition rsplit_once_colon :: "string \<Rightarrow> (string \<times> string) option" where
  "rsplit_once_colon s = map_option (\<lambda>(a, b). (rev b, rev a)) (split_once_colon (rev s))"

fun split_colon :: "string \<Rightarrow> string list" where
  "split_colon [] = [[]]"
| "split_colon (c # cs) =
     (if c = CHR '':'' then [] # split_colon cs
      else case split_colon cs of [] \<Rightarrow> [[c]] | f # fs \<Rightarrow> (c # f) # fs)"

fun join_colon :: "string list \<Rightarrow> string" where
  "join_colon [] = []"
| "join_colon [f] = f"
| "join_colon (f # fs) = f @ CHR '':'' # join_colon fs"

text \<open>\<open>str::strip_prefix\<close>.\<close>

definition strip_prefix :: "string \<Rightarrow> string \<Rightarrow> string option" where
  "strip_prefix p s = (if prefix p s then Some (drop (length p) s) else None)"

lemma strip_prefix_Some: "strip_prefix p s = Some t \<longleftrightarrow> s = p @ t"
  by (auto simp: strip_prefix_def prefix_def)

lemma split_once_colon_Some:
  "split_once_colon v = Some (a, b) \<longleftrightarrow> v = a @ CHR '':'' # b \<and> CHR '':'' \<notin> set a"
proof (induction v arbitrary: a)
  case (Cons c v)
  then show ?case by (cases a) (auto split: prod.splits)
qed simp

lemma rsplit_once_colon_Some:
  "rsplit_once_colon v = Some (a, b) \<longleftrightarrow> v = a @ CHR '':'' # b \<and> CHR '':'' \<notin> set b"
proof -
  have "rsplit_once_colon v = Some (a, b) \<longleftrightarrow> split_once_colon (rev v) = Some (rev b, rev a)"
    by (auto simp: rsplit_once_colon_def)
  also have "\<dots> \<longleftrightarrow> v = a @ CHR '':'' # b \<and> CHR '':'' \<notin> set b"
    by (simp add: split_once_colon_Some rev_swap)
  finally show ?thesis .
qed

lemma split_colon_nonempty [simp]: "split_colon s \<noteq> []"
  by (cases s) (simp_all split: list.splits)

lemma join_split_colon: "join_colon (split_colon s) = s"
proof (induction s)
  case (Cons c s)
  then show ?case
    by (cases "split_colon s"; cases "tl (split_colon s)") (auto split: list.splits)
qed simp

lemma split_colon_fields: "f \<in> set (split_colon s) \<Longrightarrow> CHR '':'' \<notin> set f"
proof (induction s arbitrary: f)
  case (Cons c s)
  then show ?case by (cases "split_colon s") (auto split: if_splits)
qed simp

lemma split_colon_field: "CHR '':'' \<notin> set f \<Longrightarrow> split_colon f = [f]"
  by (induction f) auto

lemma split_colon_append: "CHR '':'' \<notin> set f \<Longrightarrow> split_colon (f @ CHR '':'' # s) = f # split_colon s"
  by (induction f) auto

lemma split_colon_eq4:
  "split_colon s = [a, b, c, d] \<longleftrightarrow> s = a @ '':'' @ b @ '':'' @ c @ '':'' @ d
     \<and> CHR '':'' \<notin> set a \<and> CHR '':'' \<notin> set b \<and> CHR '':'' \<notin> set c \<and> CHR '':'' \<notin> set d"
proof
  assume eq: "split_colon s = [a, b, c, d]"
  have "s = join_colon [a, b, c, d]" using join_split_colon [of s] by (simp add: eq)
  moreover have "\<forall>f \<in> {a, b, c, d}. CHR '':'' \<notin> set f"
    using split_colon_fields [of _ s] by (auto simp: eq)
  ultimately show "s = a @ '':'' @ b @ '':'' @ c @ '':'' @ d
     \<and> CHR '':'' \<notin> set a \<and> CHR '':'' \<notin> set b \<and> CHR '':'' \<notin> set c \<and> CHR '':'' \<notin> set d" by simp
qed (simp add: split_colon_append split_colon_field)

section \<open>Canonical decimals\<close>

lemma nat_to_dec_step: "0 < m \<Longrightarrow> d < 10 \<Longrightarrow> nat_to_dec (10 * m + d) = nat_to_dec m @ [digit_char d]"
  by (subst nat_to_dec.simps) simp

lemma digit_char_val: "is_digit c \<Longrightarrow> digit_char (digit_val c) = c"
  by (simp add: is_digit_def digit_char_def digit_val_def)

lemma digit_val_lt: "is_digit c \<Longrightarrow> digit_val c < 10"
  by (auto simp: is_digit_def digit_val_def)

lemma dec_val_snoc: "dec_val (s @ [c]) = 10 * dec_val s + digit_val c"
  by (simp add: dec_val_def)

lemma dec_val_pos:
  "s \<noteq> [] \<Longrightarrow> list_all is_digit s \<Longrightarrow> hd s \<noteq> CHR ''0'' \<Longrightarrow> 0 < dec_val s"
proof (induction s rule: rev_induct)
  case (snoc c s)
  show ?case
  proof (cases "s = []")
    case True
    with snoc.prems have "of_char c \<noteq> (of_char (CHR ''0'') :: nat)" "is_digit c"
      by (simp_all only: of_char_eq_iff) auto
    then have "of_char c \<noteq> (48 :: nat)" "is_digit c" by simp_all
    with True show ?thesis by (simp add: dec_val_def digit_val_def is_digit_def)
  next
    case False
    with snoc show ?thesis by (simp add: dec_val_snoc)
  qed
qed simp

lemma nat_to_dec_dec_val:
  "s \<noteq> [] \<Longrightarrow> list_all is_digit s \<Longrightarrow> (1 < length s \<longrightarrow> hd s \<noteq> CHR ''0'') \<Longrightarrow> nat_to_dec (dec_val s) = s"
proof (induction s rule: rev_induct)
  case (snoc c s)
  show ?case
  proof (cases "s = []")
    case True
    with snoc.prems show ?thesis
      by (simp add: dec_val_def nat_to_dec.simps digit_val_lt digit_char_val)
  next
    case False
    with snoc have "nat_to_dec (dec_val s) = s" by simp
    moreover have "0 < dec_val s" using snoc.prems False by (intro dec_val_pos) auto
    ultimately show ?thesis
      using snoc.prems by (simp add: dec_val_snoc nat_to_dec_step digit_val_lt digit_char_val)
  qed
qed simp

lemma nat_to_dec_canonical: "1 < length (nat_to_dec n) \<Longrightarrow> hd (nat_to_dec n) \<noteq> CHR ''0''"
proof (induction n rule: nat_to_dec.induct)
  case (1 n)
  show ?case
  proof (cases "n < 10")
    case True
    with 1(2) show ?thesis by (simp add: nat_to_dec.simps [of n])
  next
    case False
    have eq: "nat_to_dec n = nat_to_dec (n div 10) @ [digit_char (n mod 10)]"
      using False by (subst nat_to_dec.simps) simp
    show ?thesis
    proof (cases "n div 10 < 10")
      case True
      have "digit_char m \<noteq> CHR ''0''" if "0 < m" "m < 10" for m
        using that digit_val_char [of m] by (auto simp: digit_val_def)
      with True False show ?thesis by (simp add: eq nat_to_dec.simps [of "n div 10"])
    next
      case big: False
      then have "1 < length (nat_to_dec (n div 10))"
        by (subst nat_to_dec.simps) (simp add: nat_to_dec_nonempty Suc_lessI length_greater_0_conv)
      with 1(1) [OF False] show ?thesis by (simp add: eq)
    qed
  qed
qed

lemma length_nat_to_dec: "n < 10 ^ k \<Longrightarrow> 0 < k \<Longrightarrow> length (nat_to_dec n) \<le> k"
proof (induction n arbitrary: k rule: nat_to_dec.induct)
  case (1 n)
  show ?case
  proof (cases "n < 10")
    case True
    with 1(3) show ?thesis by (simp add: nat_to_dec.simps [of n])
  next
    case False
    then obtain j where j: "k = Suc j" "0 < j" using 1(2,3) by (cases k; cases "k - 1") auto
    then have "n div 10 < 10 ^ j" using 1(2) by (simp add: less_mult_imp_div_less mult.commute)
    with 1(1) [OF False this j(2)] False j show ?thesis by (subst nat_to_dec.simps) simp
  qed
qed

lemma length_u64_to_dec: "length (u64_to_dec w) \<le> 20"
proof -
  have "unat w < 10 ^ 20" using unat_lt_64 [of w] by simp
  then show ?thesis unfolding u64_to_dec_def by (rule length_nat_to_dec) simp
qed

lemma colon_notin_dec [simp]: "CHR '':'' \<notin> set (nat_to_dec n)" "CHR '':'' \<notin> set (u64_to_dec w)"
  using nat_to_dec_digits [of "CHR '':''"] by (auto simp: u64_to_dec_def is_digit_def)

text \<open>Plain ASCII text has no control characters when each byte is printable.\<close>

lemma utf8_chars_ascii: "list_all (\<lambda>c. of_char c < (128 :: nat)) s \<Longrightarrow> utf8_chars s = map of_char s"
  by (induction s) (simp_all add: Let_def)

definition is_ascii_graphic :: "char \<Rightarrow> bool" where
  "is_ascii_graphic c \<longleftrightarrow> 32 < (of_char c :: nat) \<and> (of_char c :: nat) < 127"

lemma graphic_no_control: "list_all is_ascii_graphic s \<Longrightarrow> \<not> has_control s"
proof -
  assume g: "list_all is_ascii_graphic s"
  then have "utf8_chars s = map of_char s"
    by (intro utf8_chars_ascii) (auto simp: is_ascii_graphic_def list_all_iff)
  with g show ?thesis
    by (auto simp: has_control_def list_ex_iff char_is_control_def is_ascii_graphic_def list_all_iff)
qed

lemma dec_graphic: "list_all is_ascii_graphic (u64_to_dec w)" "list_all is_ascii_graphic (nat_to_dec n)"
  using nat_to_dec_digits
  by (force simp: u64_to_dec_def list_all_iff is_digit_def is_ascii_graphic_def)+

section \<open>Big-endian integers and length-prefixed fields\<close>

definition be64 :: "u64 \<Rightarrow> bytes" where
  "be64 w = map (\<lambda>i. char_of (unat w div 256 ^ i)) [7, 6, 5, 4, 3, 2, 1, 0]"

definition len_u64 :: "'a list \<Rightarrow> u64" where
  "len_u64 xs = word_of_nat (length xs)"

definition frame :: "bytes \<Rightarrow> bytes" where
  "frame bs = be64 (len_u64 bs) @ bs"

lemma length_be64 [simp, encoding_simps]: "length (be64 w) = 8"
  by (simp add: be64_def)

lemma be64_inject [simp, encoding_simps]: "be64 a = be64 b \<longleftrightarrow> a = b"
proof
  assume eq: "be64 a = be64 b"
  have digit: "unat a div 256 ^ i mod 256 = unat b div 256 ^ i mod 256" if "i < 8" for i
  proof -
    from that have "i \<in> set [7, 6, 5, 4, 3, 2, 1, 0]" by auto
    then have "(char_of (unat a div 256 ^ i) :: char) = char_of (unat b div 256 ^ i)"
      using eq unfolding be64_def by (simp only: map_eq_conv)
    then have "(of_char (char_of (unat a div 256 ^ i) :: char) :: nat) = of_char (char_of (unat b div 256 ^ i) :: char)"
      by (rule arg_cong)
    then show ?thesis by simp
  qed
  have "unat a mod 256 ^ i = unat b mod 256 ^ i" if "i \<le> 8" for i
    using that
  proof (induction i)
    case (Suc i)
    have "n mod 256 ^ Suc i = n mod 256 ^ i + 256 ^ i * (n div 256 ^ i mod 256)" for n :: nat
      using mod_mult2_eq [of n "256 ^ i" 256] by (simp add: mult.commute)
    with Suc digit [of i] show ?case by simp
  qed simp
  from this [of 8] have "unat a = unat b"
    using unat_lt_64 [of a] unat_lt_64 [of b] by simp
  then show "a = b" by (simp add: word_unat_eq_iff)
qed simp

text \<open>Evaluation of the two with the length kept as a natural number.\<close>

definition be_nat :: "nat \<Rightarrow> bytes" where
  "be_nat n =
     (if n < 65536 then [CHR 0x00, CHR 0x00, CHR 0x00, CHR 0x00, CHR 0x00, CHR 0x00,
       if n < 256 then CHR 0x00 else char_of (n div 256), char_of n]
     else map (\<lambda>i. char_of (n div 256 ^ i)) [7, 6, 5, 4, 3, 2, 1, 0])"

lemma be64_code [code]: "be64 w = be_nat (unat w)"
proof -
  have "(char_of (0 :: nat) :: char) = CHR 0x00" by (simp add: char_of_def)
  then show ?thesis by (simp add: be64_def be_nat_def)
qed

lemma frame_code [code]:
  "frame bs = (let n = length bs in if n < 18446744073709551616 then be_nat n @ bs else be64 (len_u64 bs) @ bs)"
  by (simp add: frame_def be64_code len_u64_def Let_def unat_of_nat)

lemma length_frame [simp, encoding_simps]: "length (frame bs) = 8 + length bs"
  by (simp add: frame_def)

lemma len_u64_inject:
  assumes "length xs < 2 ^ 64" "length ys < 2 ^ 64" "len_u64 xs = len_u64 ys"
  shows "length xs = length ys"
proof -
  have "unat (len_u64 xs) = length xs" "unat (len_u64 ys) = length ys"
    using assms(1,2) by (simp_all add: len_u64_def unat_of_nat)
  with assms(3) show ?thesis by simp
qed

lemma frame_append_inject:
  assumes "length a < 2 ^ 64" "length b < 2 ^ 64"
  shows "frame a @ x = frame b @ y \<longleftrightarrow> a = b \<and> x = y"
  using len_u64_inject [OF assms] by (auto simp: frame_def)

section \<open>Messages\<close>

text \<open>An error text that is only reported: the \<open>format!\<close> template and its arguments in order.\<close>

datatype message = Message string "string list"

text \<open>
  \<open>{:?}\<close> of a \<open>str\<close> inside a text the program stores. Characters above U+007F are kept as they
  are; Rust additionally escapes the unprintable ones among them.
\<close>

fun escape_debug :: "char \<Rightarrow> string" where
  "escape_debug c = (let n = of_char c :: nat in
     if n = 0 then [CHR 0x5C, CHR ''0'']
     else if n = 9 then [CHR 0x5C, CHR ''t'']
     else if n = 10 then [CHR 0x5C, CHR ''n'']
     else if n = 13 then [CHR 0x5C, CHR ''r'']
     else if n = 34 \<or> n = 92 then [CHR 0x5C, c]
     else if n < 32 \<or> n = 127
       then [CHR 0x5C, CHR ''u'', CHR 0x7B]
         @ (if n < 16 then [nibble_char n] else [nibble_char (n div 16), nibble_char (n mod 16)])
         @ [CHR 0x7D]
     else [c])"

definition debug_str :: "string \<Rightarrow> string" where
  "debug_str s = [CHR 0x22] @ concat (map escape_debug s) @ [CHR 0x22]"

section \<open>Ordered maps\<close>

fun bt_insert :: "'k::linorder \<Rightarrow> 'v \<Rightarrow> ('k, 'v) btree_map \<Rightarrow> ('k, 'v) btree_map" where
  "bt_insert k v [] = [(k, v)]"
| "bt_insert k v (e # m) =
     (if fst e < k then e # bt_insert k v m
      else if fst e = k then (k, v) # m
      else (k, v) # e # m)"

definition bt_get :: "('k, 'v) btree_map \<Rightarrow> 'k \<Rightarrow> 'v option" where
  "bt_get m k = map_of m k"

definition bt_contains :: "('k, 'v) btree_map \<Rightarrow> 'k \<Rightarrow> bool" where
  "bt_contains m k \<longleftrightarrow> bt_get m k \<noteq> None"

definition bt_remove :: "'k \<Rightarrow> ('k, 'v) btree_map \<Rightarrow> ('k, 'v) btree_map" where
  "bt_remove k m = filter (\<lambda>e. fst e \<noteq> k) m"

definition bt_keys :: "('k, 'v) btree_map \<Rightarrow> 'k list" where
  "bt_keys m = map fst m"

definition bt_wf :: "('k::linorder, 'v) btree_map \<Rightarrow> bool" where
  "bt_wf m \<longleftrightarrow> sorted_wrt (<) (bt_keys m)"

lemma bt_wf_Nil [simp]: "bt_wf []"
  by (simp add: bt_wf_def bt_keys_def)

lemma bt_keys_simps [simp]: "bt_keys [] = []" "bt_keys (e # m) = fst e # bt_keys m"
  by (simp_all add: bt_keys_def)

lemma bt_wf_Cons: "bt_wf (e # m) \<longleftrightarrow> (\<forall>k \<in> set (bt_keys m). fst e < k) \<and> bt_wf m"
  by (simp add: bt_wf_def)

lemma set_bt_keys: "set (bt_keys m) = {k. bt_get m k \<noteq> None}"
  by (auto simp: bt_keys_def bt_get_def map_of_eq_None_iff)

lemma bt_contains_keys: "bt_contains m k \<longleftrightarrow> k \<in> set (bt_keys m)"
  by (simp add: set_bt_keys bt_contains_def)

lemma bt_get_insert: "bt_get (bt_insert k v m) = (bt_get m)(k \<mapsto> v)"
proof (rule ext)
  show "bt_get (bt_insert k v m) x = ((bt_get m)(k \<mapsto> v)) x" for x
    by (induction m) (auto simp: bt_get_def)
qed

lemma bt_keys_insert: "set (bt_keys (bt_insert k v m)) = insert k (set (bt_keys m))"
  by (auto simp: set_bt_keys bt_get_insert)

lemma bt_insert_wf [intro]: "bt_wf m \<Longrightarrow> bt_wf (bt_insert k v m)"
proof (induction m)
  case (Cons e m)
  then show ?case
    by (cases "fst e" k rule: linorder_cases) (auto simp: bt_wf_Cons bt_keys_insert)
qed (simp add: bt_wf_Cons)

lemma bt_insert_last:
  "\<forall>k' \<in> set (bt_keys m). k' < k \<Longrightarrow> bt_insert k v m = m @ [(k, v)]"
  by (induction m) auto

lemma bt_wf_distinct: "bt_wf m \<Longrightarrow> distinct (bt_keys m)"
  by (simp add: bt_wf_def strict_sorted_iff)

lemma bt_get_remove: "bt_get (bt_remove k m) = (bt_get m)(k := None)"
proof (rule ext)
  show "bt_get (bt_remove k m) x = ((bt_get m)(k := None)) x" for x
    by (induction m) (auto simp: bt_get_def bt_remove_def)
qed

lemma bt_remove_wf [intro]: "bt_wf m \<Longrightarrow> bt_wf (bt_remove k m)"
  by (induction m) (auto simp: bt_wf_Cons bt_remove_def bt_keys_def)

lemma bt_get_in: "bt_get m k = Some v \<Longrightarrow> (k, v) \<in> set m"
  by (simp add: bt_get_def map_of_SomeD)

lemma bt_get_wf_iff: "bt_wf m \<Longrightarrow> bt_get m k = Some v \<longleftrightarrow> (k, v) \<in> set m"
  using bt_wf_distinct [of m] by (simp add: bt_get_def bt_keys_def)

lemma length_bt_insert:
  "bt_wf m \<Longrightarrow> length (bt_insert k v m) = length m + (if bt_contains m k then 0 else 1)"
proof -
  assume wf: "bt_wf m"
  have "distinct (bt_keys (bt_insert k v m))" "distinct (bt_keys m)"
    using wf by (auto intro!: bt_wf_distinct)
  then have "length (bt_insert k v m) = card (insert k (set (bt_keys m)))"
      "length m = card (set (bt_keys m))"
    by (metis bt_keys_def bt_keys_insert distinct_card length_map)+
  then show ?thesis by (simp add: card_insert_if bt_contains_keys)
qed

lemma length_bt_remove:
  "bt_wf m \<Longrightarrow> length (bt_remove k m) = length m - (if bt_contains m k then 1 else 0)"
proof -
  assume wf: "bt_wf m"
  have "set (bt_keys (bt_remove k m)) = set (bt_keys m) - {k}"
    by (auto simp: set_bt_keys bt_get_remove)
  moreover have "distinct (bt_keys (bt_remove k m))" "distinct (bt_keys m)"
    using wf by (auto intro!: bt_wf_distinct)
  ultimately have "length (bt_remove k m) = card (set (bt_keys m) - {k})"
      "length m = card (set (bt_keys m))"
    by (metis bt_keys_def distinct_card length_map)+
  then show ?thesis by (simp add: card_Diff_singleton_if bt_contains_keys)
qed

text \<open>Two ordered maps with the same lookups are the same value, as \<open>PartialEq\<close> has it.\<close>

lemma bt_eqI:
  assumes "bt_wf m" "bt_wf n" "\<And>k. bt_get m k = bt_get n k"
  shows "m = n"
proof -
  have "set m = set n"
    using assms by (auto simp: bt_get_wf_iff [symmetric])
  moreover have "sorted (bt_keys m)" "distinct (bt_keys m)" "sorted (bt_keys n)" "distinct (bt_keys n)"
    using assms(1,2) by (simp_all add: bt_wf_def strict_sorted_iff)
  ultimately show ?thesis
    by (intro map_sorted_distinct_set_unique [of fst]) (auto simp: bt_keys_def distinct_map)
qed

text \<open>Sums over the values of a map.\<close>

definition bt_sum :: "('v \<Rightarrow> nat) \<Rightarrow> ('k, 'v) btree_map \<Rightarrow> nat" where
  "bt_sum f m = sum_list (map (f \<circ> snd) m)"

lemma bt_sum_Nil [simp]: "bt_sum f [] = 0"
  by (simp add: bt_sum_def)

lemma bt_sum_insert_new: "\<not> bt_contains m k \<Longrightarrow> bt_sum f (bt_insert k v m) = f v + bt_sum f m"
  by (induction m) (auto simp: bt_sum_def bt_contains_keys)

lemma bt_sum_insert_update:
  "bt_wf m \<Longrightarrow> bt_get m k = Some w \<Longrightarrow> f v = f w \<Longrightarrow> bt_sum f (bt_insert k v m) = bt_sum f m"
proof (induction m)
  case (Cons e m)
  show ?case
  proof (cases "fst e = k")
    case True
    with Cons show ?thesis by (auto simp: bt_sum_def bt_get_def)
  next
    case False
    then have "bt_get m k = Some w" using Cons.prems(2) by (cases e) (simp add: bt_get_def)
    then have "k \<in> set (bt_keys m)" by (simp add: set_bt_keys)
    then have "fst e < k" using Cons.prems(1) by (simp add: bt_wf_Cons)
    with Cons False \<open>bt_get m k = Some w\<close> show ?thesis by (simp add: bt_sum_def bt_wf_Cons)
  qed
qed (simp add: bt_get_def)

lemma bt_remove_absent: "\<not> bt_contains m k \<Longrightarrow> bt_remove k m = m"
  by (auto simp: bt_remove_def bt_contains_keys bt_keys_def intro!: filter_True)

lemma bt_sum_remove:
  "bt_wf m \<Longrightarrow> bt_get m k = Some v \<Longrightarrow> bt_sum f m = f v + bt_sum f (bt_remove k m)"
proof (induction m)
  case (Cons e m)
  show ?case
  proof (cases "fst e = k")
    case True
    have "k \<notin> set (bt_keys m)" using Cons.prems(1) True by (auto simp: bt_wf_Cons)
    then have "bt_remove k m = m" by (simp add: bt_remove_absent bt_contains_keys)
    with True Cons.prems(2) show ?thesis
      by (cases e) (auto simp: bt_sum_def bt_get_def bt_remove_def)
  next
    case False
    with Cons show ?thesis
      by (cases e) (auto simp: bt_sum_def bt_get_def bt_remove_def bt_wf_Cons)
  qed
qed (simp add: bt_get_def)

section \<open>Results with state\<close>

text \<open>The \<open>?\<close> operator in a method on \<open>&mut self\<close>: an error returns the state reached so far.\<close>

definition then_with :: "('e + 'a) \<times> 's \<Rightarrow> ('a \<Rightarrow> 's \<Rightarrow> ('e + 'b) \<times> 's) \<Rightarrow> ('e + 'b) \<times> 's" where
  "then_with r f = (case r of (Inl e, s) \<Rightarrow> (Inl e, s) | (Inr a, s) \<Rightarrow> f a s)"

lemma then_with_simps [simp]:
  "then_with (Inl e, s) f = (Inl e, s)"
  "then_with (Inr a, s) f = f a s"
  by (simp_all add: then_with_def)

lemma then_with_eq_Inr [result_simps]:
  "then_with r f = (Inr b, t) \<longleftrightarrow> (\<exists>a s. r = (Inr a, s) \<and> f a s = (Inr b, t))"
  by (cases r; cases "fst r") auto

lemma then_with_eq_Inl:
  "then_with r f = (Inl e, t) \<longleftrightarrow> r = (Inl e, t) \<or> (\<exists>a s. r = (Inr a, s) \<and> f a s = (Inl e, t))"
  by (cases r; cases "fst r") auto

text \<open>What holds after each part holds after the whole.\<close>

lemma then_with_state:
  assumes "P (snd r)" "\<And>a s. r = (Inr a, s) \<Longrightarrow> P s \<Longrightarrow> P (snd (f a s))"
  shows "P (snd (then_with r f))"
  using assms by (cases r; cases "fst r") auto

end
