(* ===== verification/Linura_Core.thy ===== *)
theory Linura_Core
  imports Linura_Prelude
begin

text \<open>
  The vocabulary crate \<open>crates/linura-core/src/lib.rs\<close>: typed identifiers with their token
  validation, actors, operation and risk classes, and semantic reasons.

  A typed identifier is the string it wraps; the value of \<open>X::new\<close> is \<open>typed_id_new\<close> at the
  label the \<open>typed_id!\<close> invocation gives.
\<close>

datatype validation_error =
    Empty string
  | TooLong string
  | ControlCharacter string
  | MissingSemanticOrigin
  | DuplicateSemanticOrigin string

fun validation_error_text :: "validation_error \<Rightarrow> string" where
  "validation_error_text (Empty label) = label @ '' cannot be empty''"
| "validation_error_text (TooLong label) = label @ '' is too long''"
| "validation_error_text (ControlCharacter label) = label @ '' contains control characters''"
| "validation_error_text MissingSemanticOrigin =
     ''managed state must retain an intent, requirement, or capability origin''"
| "validation_error_text (DuplicateSemanticOrigin kind) =
     ''semantic reason contains duplicate '' @ kind @ '' origin''"

definition validate_token :: "string \<Rightarrow> string \<Rightarrow> validation_error + unit" where
  "validate_token label v =
     (if v = [] then Inl (Empty label)
      else if length v > 256 then Inl (TooLong label)
      else if has_control v then Inl (ControlCharacter label)
      else Inr ())"

definition typed_id_new :: "string \<Rightarrow> string \<Rightarrow> validation_error + string" where
  "typed_id_new label v = and_then (validate_token label v) (\<lambda>_. Inr v)"

type_synonym actor_id = string
type_synonym principal_id = string
type_synonym request_id = string
type_synonym operation_id = string
type_synonym plan_id = string
type_synonym approval_request_id = string
type_synonym approval_evidence_id = string
type_synonym intent_id = string
type_synonym setup_id = string
type_synonym requirement_id = string
type_synonym resource_id = string
type_synonym capability_id = string
type_synonym provider_id = string
type_synonym profile_id = string
type_synonym policy_id = string
type_synonym policy_revision_id = string

text \<open>\<open>has_duplicates\<close> scans once with a set of the values seen so far.\<close>

fun any_seen :: "'a set \<Rightarrow> 'a list \<Rightarrow> bool" where
  "any_seen seen [] = False"
| "any_seen seen (x # xs) = (if x \<in> seen then True else any_seen (insert x seen) xs)"

definition has_duplicates :: "'a list \<Rightarrow> bool" where
  "has_duplicates xs = any_seen {} xs"

datatype actor_kind = Human | Service | Agent | Remote

record actor =
  actor_id :: actor_id
  actor_kind :: actor_kind
  actor_interactive :: bool

datatype support_level = Supported | Unsupported | SupportDegraded | SupportUnknown

record capability =
  cap_id :: capability_id
  cap_support :: support_level
  cap_provider :: "provider_id option"
  cap_reason :: "string option"

datatype operation_class =
    ExperienceEphemeral
  | AuthoritativeQuery
  | LinuraOwnedState
  | TransientExternalEffect
  | ManagedExternalEffect

fun operation_class_as_str :: "operation_class \<Rightarrow> string" where
  "operation_class_as_str ExperienceEphemeral = ''experience-ephemeral''"
| "operation_class_as_str AuthoritativeQuery = ''authoritative-query''"
| "operation_class_as_str LinuraOwnedState = ''linura-owned-state''"
| "operation_class_as_str TransientExternalEffect = ''transient-external-effect''"
| "operation_class_as_str ManagedExternalEffect = ''managed-external-effect''"

definition control_mediated :: "operation_class \<Rightarrow> bool" where
  "control_mediated c \<longleftrightarrow> c \<noteq> ExperienceEphemeral"

definition permits_privileged_executor :: "operation_class \<Rightarrow> bool" where
  "permits_privileged_executor c \<longleftrightarrow> c = ManagedExternalEffect"

definition requires_plan_bound_external_authorization :: "operation_class \<Rightarrow> bool" where
  "requires_plan_bound_external_authorization c \<longleftrightarrow>
     c = TransientExternalEffect \<or> c = ManagedExternalEffect"

definition requires_canonical_managed_lifecycle :: "operation_class \<Rightarrow> bool" where
  "requires_canonical_managed_lifecycle c \<longleftrightarrow> c = ManagedExternalEffect"

datatype risk_class = ReadOnly | UserState | SystemMutation | SecuritySensitive | Destructive

text \<open>The derived order is the order of declaration.\<close>

fun risk_rank :: "risk_class \<Rightarrow> nat" where
  "risk_rank ReadOnly = 0"
| "risk_rank UserState = 1"
| "risk_rank SystemMutation = 2"
| "risk_rank SecuritySensitive = 3"
| "risk_rank Destructive = 4"

lemma risk_rank_inject: "risk_rank a = risk_rank b \<longleftrightarrow> a = b"
  by (cases a; cases b) simp_all

instantiation risk_class :: linorder
begin

definition less_eq_risk_class :: "risk_class \<Rightarrow> risk_class \<Rightarrow> bool" where
  "less_eq_risk_class a b \<longleftrightarrow> risk_rank a \<le> risk_rank b"

definition less_risk_class :: "risk_class \<Rightarrow> risk_class \<Rightarrow> bool" where
  "less_risk_class a b \<longleftrightarrow> risk_rank a < risk_rank b"

instance
  by standard (auto simp: less_eq_risk_class_def less_risk_class_def risk_rank_inject)

end

datatype authority_class = AuthObserved | AuthDeclared | AuthInferred | AuthProposed

record semantic_reason =
  reason_summary :: string
  reason_intent_ids :: "intent_id list"
  reason_requirement_ids :: "requirement_id list"
  reason_capability_ids :: "capability_id list"

definition semantic_reason_validate :: "semantic_reason \<Rightarrow> validation_error + unit" where
  "semantic_reason_validate r =
     (if trim_is_empty (reason_summary r) then Inl (Empty ''semantic reason'')
      else if reason_intent_ids r = [] \<and> reason_requirement_ids r = [] \<and> reason_capability_ids r = []
        then Inl MissingSemanticOrigin
      else if has_duplicates (reason_intent_ids r) then Inl (DuplicateSemanticOrigin ''intent'')
      else if has_duplicates (reason_requirement_ids r)
        then Inl (DuplicateSemanticOrigin ''requirement'')
      else if has_duplicates (reason_capability_ids r)
        then Inl (DuplicateSemanticOrigin ''capability'')
      else Inr ())"

lemma any_seen_iff: "any_seen seen xs \<longleftrightarrow> \<not> (distinct xs \<and> set xs \<inter> seen = {})"
  by (induction xs arbitrary: seen) auto

lemma has_duplicates_iff: "has_duplicates xs \<longleftrightarrow> \<not> distinct xs"
  by (simp add: has_duplicates_def any_seen_iff)

lemma validate_token_ok:
  "validate_token label v = Inr u \<longleftrightarrow> v \<noteq> [] \<and> length v \<le> 256 \<and> \<not> has_control v"
  by (auto simp: validate_token_def)

lemma typed_id_new_ok:
  "typed_id_new label v = Inr i \<longleftrightarrow> i = v \<and> v \<noteq> [] \<and> length v \<le> 256 \<and> \<not> has_control v"
  by (auto simp: typed_id_new_def validate_token_ok result_simps)

lemma semantic_reason_validate_ok:
  "semantic_reason_validate r = Inr u \<longleftrightarrow>
     \<not> trim_is_empty (reason_summary r)
     \<and> (reason_intent_ids r \<noteq> [] \<or> reason_requirement_ids r \<noteq> [] \<or> reason_capability_ids r \<noteq> [])
     \<and> distinct (reason_intent_ids r) \<and> distinct (reason_requirement_ids r)
     \<and> distinct (reason_capability_ids r)"
  by (auto simp: semantic_reason_validate_def has_duplicates_iff)

end
