(* ===== verification/Lifecycle.thy ===== *)
theory Lifecycle
  imports Linura_Core
begin

text \<open>
  \<open>crates/linura-lifecycle/src/lib.rs\<close>: the canonical stages of a managed mutation, the progress
  value that may only be advanced one stage at a time, and lifecycle workflows.
\<close>

datatype mutation_stage =
    RequestIntent | Observe | Plan | Validate | Authorize | Prepare
  | Execute | Verify | Commit | Audit | Reconcile

definition MUTATION_STAGES :: "mutation_stage list" where
  "MUTATION_STAGES = [RequestIntent, Observe, Plan, Validate, Authorize, Prepare,
     Execute, Verify, Commit, Audit, Reconcile]"

fun mutation_stage_as_str :: "mutation_stage \<Rightarrow> string" where
  "mutation_stage_as_str RequestIntent = ''request-intent''"
| "mutation_stage_as_str Observe = ''observe''"
| "mutation_stage_as_str Plan = ''plan''"
| "mutation_stage_as_str Validate = ''validate''"
| "mutation_stage_as_str Authorize = ''authorize''"
| "mutation_stage_as_str Prepare = ''prepare''"
| "mutation_stage_as_str Execute = ''execute''"
| "mutation_stage_as_str Verify = ''verify''"
| "mutation_stage_as_str Commit = ''commit''"
| "mutation_stage_as_str Audit = ''audit''"
| "mutation_stage_as_str Reconcile = ''reconcile''"

fun next_stage :: "mutation_stage \<Rightarrow> mutation_stage option" where
  "next_stage RequestIntent = Some Observe"
| "next_stage Observe = Some Plan"
| "next_stage Plan = Some Validate"
| "next_stage Validate = Some Authorize"
| "next_stage Authorize = Some Prepare"
| "next_stage Prepare = Some Execute"
| "next_stage Execute = Some Verify"
| "next_stage Verify = Some Commit"
| "next_stage Commit = Some Audit"
| "next_stage Audit = Some Reconcile"
| "next_stage Reconcile = None"

record mutation_progress =
  completed :: "mutation_stage list"

definition progress_new :: mutation_progress where
  "progress_new = \<lparr> completed = [RequestIntent] \<rparr>"

definition progress_current :: "mutation_progress \<Rightarrow> mutation_stage" where
  "progress_current p = (if completed p = [] then RequestIntent else last (completed p))"

definition progress_is_complete :: "mutation_progress \<Rightarrow> bool" where
  "progress_is_complete p \<longleftrightarrow> progress_current p = Reconcile"

record mutation_transition_error =
  mte_current :: mutation_stage
  mte_expected :: "mutation_stage option"
  mte_attempted :: mutation_stage

definition advance ::
  "mutation_progress \<Rightarrow> mutation_stage \<Rightarrow> (mutation_transition_error + unit) \<times> mutation_progress" where
  "advance p attempted =
     (let current = progress_current p; expected = next_stage current in
      if expected = Some attempted
      then (Inr (), p\<lparr> completed := completed p @ [attempted] \<rparr>)
      else (Inl \<lparr> mte_current = current, mte_expected = expected, mte_attempted = attempted \<rparr>, p))"

datatype lifecycle_event =
    BeforeBootstrap | AfterBootstrap | BeforeUpdate | AfterUpdate
  | BeforeReconcile | AfterReconcile | BeforeRecovery | AfterRecovery

record lifecycle_step =
  step_capability :: string
  step_operation :: string
  step_required_permissions :: "string list"

record lifecycle_workflow =
  workflow_id :: string
  workflow_event :: lifecycle_event
  workflow_steps :: "lifecycle_step list"

definition workflow_validate :: "lifecycle_workflow \<Rightarrow> string + unit" where
  "workflow_validate w =
     (if trim_is_empty (workflow_id w) then Inl ''workflow id cannot be empty''
      else if workflow_steps w = []
        then Inl ''lifecycle workflow must have at least one typed step''
      else if list_ex (\<lambda>s. trim_is_empty (step_capability s) \<or> trim_is_empty (step_operation s))
          (workflow_steps w)
        then Inl ''lifecycle steps require capability and operation''
      else Inr ())"

text \<open>Any sequence of attempted advances, whatever the outcome of each.\<close>

definition run_advances :: "mutation_progress \<Rightarrow> mutation_stage list \<Rightarrow> mutation_progress" where
  "run_advances p ss = foldl (\<lambda>q s. snd (advance q s)) p ss"

lemma next_stage_nth:
  "i < 11 \<Longrightarrow> next_stage (MUTATION_STAGES ! i) =
     (if Suc i < 11 then Some (MUTATION_STAGES ! Suc i) else None)"
proof -
  assume "i < 11"
  then have "i \<in> set [0..<11]" by simp
  then show ?thesis by (auto simp: MUTATION_STAGES_def upt_rec)
qed

lemma length_stages [simp]: "length MUTATION_STAGES = 11"
  by (simp add: MUTATION_STAGES_def)

definition canonical_prefix :: "mutation_progress \<Rightarrow> bool" where
  "canonical_prefix p \<longleftrightarrow> (\<exists>n. 0 < n \<and> n \<le> 11 \<and> completed p = take n MUTATION_STAGES)"

lemma current_of_prefix:
  assumes "0 < n" "n \<le> 11" "completed p = take n MUTATION_STAGES"
  shows "progress_current p = MUTATION_STAGES ! (n - 1)"
proof -
  have "length (completed p) = n" using assms by simp
  moreover from this assms(1) have "completed p \<noteq> []" by auto
  ultimately show ?thesis using assms by (simp add: progress_current_def last_conv_nth)
qed

lemma advance_canonical: "canonical_prefix p \<Longrightarrow> canonical_prefix (snd (advance p s))"
proof -
  assume "canonical_prefix p"
  then obtain n where n: "0 < n" "n \<le> 11" "completed p = take n MUTATION_STAGES"
    by (auto simp: canonical_prefix_def)
  have nx: "next_stage (progress_current p) = (if n < 11 then Some (MUTATION_STAGES ! n) else None)"
    using n next_stage_nth [of "n - 1"] by (simp add: current_of_prefix)
  show ?thesis
  proof (cases "next_stage (progress_current p) = Some s")
    case True
    with nx n have "n < 11" "completed (snd (advance p s)) = take (Suc n) MUTATION_STAGES"
      by (auto simp: advance_def Let_def take_Suc_conv_app_nth split: if_splits)
    then show ?thesis by (auto simp: canonical_prefix_def intro!: exI [of _ "Suc n"])
  next
    case False
    with n show ?thesis by (auto simp: advance_def canonical_prefix_def Let_def)
  qed
qed

lemma new_canonical: "canonical_prefix progress_new"
  by (auto simp: canonical_prefix_def progress_new_def MUTATION_STAGES_def intro!: exI [of _ 1])

lemma run_advances_canonical: "canonical_prefix p \<Longrightarrow> canonical_prefix (run_advances p ss)"
  by (induction ss arbitrary: p) (simp_all add: run_advances_def advance_canonical)

lemma canonical_complete_iff:
  assumes "canonical_prefix p"
  shows "progress_is_complete p \<longleftrightarrow> completed p = MUTATION_STAGES"
proof -
  from assms obtain n where n: "0 < n" "n \<le> 11" "completed p = take n MUTATION_STAGES"
    by (auto simp: canonical_prefix_def)
  have "MUTATION_STAGES ! (n - 1) = Reconcile \<longleftrightarrow> n = 11"
  proof -
    have "n - 1 \<in> set [0..<11]" using n by simp
    then show ?thesis using n by (auto simp: MUTATION_STAGES_def upt_rec)
  qed
  moreover have "completed p = MUTATION_STAGES \<longleftrightarrow> n = 11"
    using n by (metis length_stages length_take min.absorb2 take_all_iff order_refl)
  ultimately show ?thesis using n by (simp add: progress_is_complete_def current_of_prefix)
qed

text \<open>
  C30. Whatever stages a caller attempts, in whatever order, the stages recorded as completed are
  an initial segment of the canonical lifecycle (none skipped, none repeated, none reordered), and
  the progress counts as complete exactly when all eleven stages have been recorded. Attempting
  the stages in canonical order completes it.
\<close>

theorem lifecycle_is_canonical:
  "(\<exists>n. 0 < n \<and> n \<le> length MUTATION_STAGES
       \<and> completed (run_advances progress_new ss) = take n MUTATION_STAGES)
   \<and> (progress_is_complete (run_advances progress_new ss)
        \<longleftrightarrow> completed (run_advances progress_new ss) = MUTATION_STAGES)
   \<and> progress_is_complete (run_advances progress_new (tl MUTATION_STAGES))"
proof -
  have can: "canonical_prefix (run_advances progress_new ss)" for ss
    by (rule run_advances_canonical) (rule new_canonical)
  have "progress_is_complete (run_advances progress_new (tl MUTATION_STAGES))"
    by (simp add: run_advances_def progress_new_def MUTATION_STAGES_def advance_def
        progress_current_def progress_is_complete_def)
  with can [of ss] canonical_complete_iff [OF can] show ?thesis
    by (simp add: canonical_prefix_def)
qed

end
