(* ===== verification/Observation.thy ===== *)
theory Observation
  imports Linura_Core
begin

text \<open>
  \<open>crates/linura-observation/src/lib.rs\<close>: observation envelopes, their validation against the
  identity a client expects, their freshness at a clock reading, and the evidence identifier that
  names one envelope.
\<close>

datatype observation_authority = NativeApi | Kernel | Filesystem | SyntheticTest

fun observation_authority_as_str :: "observation_authority \<Rightarrow> string" where
  "observation_authority_as_str NativeApi = ''native-api''"
| "observation_authority_as_str Kernel = ''kernel''"
| "observation_authority_as_str Filesystem = ''filesystem''"
| "observation_authority_as_str SyntheticTest = ''synthetic-test''"

datatype observed_value = ObsText string | ObsBool bool | ObsU64 u64 | ObsI64 u64

fun observed_value_text :: "observed_value \<Rightarrow> string" where
  "observed_value_text (ObsText s) = s"
| "observed_value_text (ObsBool b) = bool_text b"
| "observed_value_text (ObsU64 n) = u64_to_dec n"
| "observed_value_text (ObsI64 n) = i64_to_dec n"

datatype provider_availability = Available | Degraded | Unavailable

fun provider_availability_as_str :: "provider_availability \<Rightarrow> string" where
  "provider_availability_as_str Available = ''available''"
| "provider_availability_as_str Degraded = ''degraded''"
| "provider_availability_as_str Unavailable = ''unavailable''"

record provider_health =
  health_provider :: provider_id
  health_availability :: provider_availability
  health_reason :: "string option"

datatype freshness_state = Current | Stale | Future

fun freshness_as_str :: "freshness_state \<Rightarrow> string" where
  "freshness_as_str Current = ''current''"
| "freshness_as_str Stale = ''stale''"
| "freshness_as_str Future = ''future''"

record observation_envelope =
  env_provider :: provider_id
  env_resource :: resource_id
  env_capability :: capability_id
  env_authority :: observation_authority
  observed_at_unix_ms :: u64
  valid_for_ms :: u64
  env_sequence :: u64
  env_attributes :: "(string, observed_value) btree_map"

datatype observation_validation_error =
    ProviderMismatch | ResourceMismatch | CapabilityMismatch | MissingTimestamp
  | InvalidValidityWindow | EmptyEvidence | InvalidAttributeKey | StaleEvidence | FutureEvidence

fun observation_validation_error_text :: "observation_validation_error \<Rightarrow> string" where
  "observation_validation_error_text ProviderMismatch = ''observation provider identity mismatch''"
| "observation_validation_error_text ResourceMismatch = ''observation resource identity mismatch''"
| "observation_validation_error_text CapabilityMismatch = ''observation capability identity mismatch''"
| "observation_validation_error_text MissingTimestamp = ''observation timestamp is missing''"
| "observation_validation_error_text InvalidValidityWindow =
     ''observation validity window must be greater than zero''"
| "observation_validation_error_text EmptyEvidence = ''observation evidence cannot be empty''"
| "observation_validation_error_text InvalidAttributeKey = ''observation attribute key is invalid''"
| "observation_validation_error_text StaleEvidence = ''observation evidence is stale''"
| "observation_validation_error_text FutureEvidence = ''observation timestamp is in the future''"

definition envelope_validate ::
  "observation_envelope \<Rightarrow> provider_id \<Rightarrow> resource_id \<Rightarrow> capability_id
     \<Rightarrow> observation_validation_error + unit" where
  "envelope_validate ob expected_provider expected_resource expected_capability =
     (if env_provider ob \<noteq> expected_provider then Inl ProviderMismatch
      else if env_resource ob \<noteq> expected_resource then Inl ResourceMismatch
      else if env_capability ob \<noteq> expected_capability then Inl CapabilityMismatch
      else if observed_at_unix_ms ob = 0 then Inl MissingTimestamp
      else if valid_for_ms ob = 0 then Inl InvalidValidityWindow
      else if env_attributes ob = [] then Inl EmptyEvidence
      else for_each (bt_keys (env_attributes ob))
        (\<lambda>key. if trim_is_empty key \<or> has_control key then Inl InvalidAttributeKey else Inr ()))"

definition freshness_at :: "observation_envelope \<Rightarrow> u64 \<Rightarrow> freshness_state" where
  "freshness_at ob now_unix_ms =
     (if now_unix_ms < observed_at_unix_ms ob then Future
      else let expires_at = saturating_add (observed_at_unix_ms ob) (valid_for_ms ob) in
        if now_unix_ms \<le> expires_at then Current else Stale)"

definition require_current :: "observation_envelope \<Rightarrow> u64 \<Rightarrow> observation_validation_error + unit" where
  "require_current ob now_unix_ms =
     (case freshness_at ob now_unix_ms of
        Current \<Rightarrow> Inr ()
      | Stale \<Rightarrow> Inl StaleEvidence
      | Future \<Rightarrow> Inl FutureEvidence)"

definition evidence_id :: "observation_envelope \<Rightarrow> string" where
  "evidence_id ob =
     (let provider = env_provider ob; resource = env_resource ob; capability = env_capability ob in
      ''observation:v1:'' @ nat_to_dec (length provider) @ '':'' @ provider
        @ '':'' @ nat_to_dec (length resource) @ '':'' @ resource
        @ '':'' @ nat_to_dec (length capability) @ '':'' @ capability
        @ '':'' @ u64_to_dec (observed_at_unix_ms ob) @ '':'' @ u64_to_dec (env_sequence ob))"

lemma envelope_validate_ok:
  "envelope_validate ob p r c = Inr u \<longleftrightarrow>
     env_provider ob = p \<and> env_resource ob = r \<and> env_capability ob = c
     \<and> observed_at_unix_ms ob \<noteq> 0 \<and> valid_for_ms ob \<noteq> 0 \<and> env_attributes ob \<noteq> []
     \<and> (\<forall>k \<in> set (bt_keys (env_attributes ob)). \<not> trim_is_empty k \<and> \<not> has_control k)"
  by (auto simp: envelope_validate_def for_each_ok)

lemma freshness_current_iff:
  "freshness_at ob now = Current \<longleftrightarrow>
     unat (observed_at_unix_ms ob) \<le> unat now
     \<and> unat now \<le> unat (observed_at_unix_ms ob) + unat (valid_for_ms ob)"
  using unat_lt_64 [of now]
  by (auto simp: freshness_at_def Let_def word_less_nat_alt word_le_nat_alt unat_saturating_add)

lemma freshness_future_iff: "freshness_at ob now = Future \<longleftrightarrow> now < observed_at_unix_ms ob"
  by (simp add: freshness_at_def Let_def)

lemma require_current_ok: "require_current ob now = Inr u \<longleftrightarrow> freshness_at ob now = Current"
  by (simp add: require_current_def split: freshness_state.splits)

lemma prefixed_field_inject:
  "nat_to_dec (length a) @ '':'' @ a @ '':'' @ x = nat_to_dec (length b) @ '':'' @ b @ '':'' @ y
     \<longleftrightarrow> a = b \<and> x = y"
  using dec_colon_inject [of "length a" "a @ '':'' @ x" "length b" "b @ '':'' @ y"] by auto

text \<open>
  Evidence is usable exactly in its closed validity window: \<open>require_current\<close> accepts an
  envelope at a clock reading if and only if the reading is not before the observation time and
  not after observation time plus validity, computed without wrap-around (the sum that would
  exceed the 64-bit range saturates instead of expiring the evidence early).
\<close>

theorem require_current_window:
  "require_current ob now = Inr () \<longleftrightarrow>
     unat (observed_at_unix_ms ob) \<le> unat now
     \<and> unat now \<le> unat (observed_at_unix_ms ob) + unat (valid_for_ms ob)"
  by (simp add: require_current_ok freshness_current_iff)

text \<open>
  The evidence identifier names one observation: two envelopes have the same identifier
  exactly when they agree on provider, resource, capability, observation time and sequence, even
  though the identifiers inside may themselves contain colons and digits.
\<close>

theorem evidence_id_inject:
  "evidence_id a = evidence_id b \<longleftrightarrow>
     env_provider a = env_provider b \<and> env_resource a = env_resource b
     \<and> env_capability a = env_capability b
     \<and> observed_at_unix_ms a = observed_at_unix_ms b \<and> env_sequence a = env_sequence b"
proof -
  have "u64_to_dec (observed_at_unix_ms a) @ '':'' @ u64_to_dec (env_sequence a)
        = u64_to_dec (observed_at_unix_ms b) @ '':'' @ u64_to_dec (env_sequence b)
      \<longleftrightarrow> observed_at_unix_ms a = observed_at_unix_ms b \<and> env_sequence a = env_sequence b"
    by (simp add: u64_to_dec_def dec_colon_inject word_unat_eq_iff)
  then show ?thesis
    by (simp only: evidence_id_def Let_def same_append_eq prefixed_field_inject)
qed

end
