(* ===== verification/Graph.thy ===== *)
theory Graph
  imports Observation
begin

text \<open>
  \<open>crates/linura-graph/src/lib.rs\<close>: the in-memory system graph, its node and edge operations, the
  recording of observations, and the impact of retiring an origin.
\<close>

datatype node_id =
    IntentNode intent_id
  | SetupNode setup_id
  | RequirementNode requirement_id
  | CapabilityNode capability_id
  | ProviderNode provider_id
  | ResourceNode resource_id
  | EvidenceNode string
  | WorkflowNode string

text \<open>The derived order compares the variant first, then the content.\<close>

fun node_key :: "node_id \<Rightarrow> nat \<times> string" where
  "node_key (IntentNode s) = (0, s)"
| "node_key (SetupNode s) = (1, s)"
| "node_key (RequirementNode s) = (2, s)"
| "node_key (CapabilityNode s) = (3, s)"
| "node_key (ProviderNode s) = (4, s)"
| "node_key (ResourceNode s) = (5, s)"
| "node_key (EvidenceNode s) = (6, s)"
| "node_key (WorkflowNode s) = (7, s)"

lemma node_key_inject: "node_key a = node_key b \<longleftrightarrow> a = b"
  by (cases a; cases b) simp_all

instantiation node_id :: linorder
begin

definition less_eq_node_id :: "node_id \<Rightarrow> node_id \<Rightarrow> bool" where
  "less_eq_node_id a b \<longleftrightarrow> node_key a \<le> node_key b"

definition less_node_id :: "node_id \<Rightarrow> node_id \<Rightarrow> bool" where
  "less_node_id a b \<longleftrightarrow> node_key a < node_key b"

instance
proof
  fix x y z :: node_id
  show "(x < y) = (x \<le> y \<and> \<not> y \<le> x)"
    by (simp add: less_eq_node_id_def less_node_id_def less_le_not_le)
  show "x \<le> x" by (simp add: less_eq_node_id_def)
  show "x \<le> y \<Longrightarrow> y \<le> z \<Longrightarrow> x \<le> z" by (simp add: less_eq_node_id_def)
  show "x \<le> y \<Longrightarrow> y \<le> x \<Longrightarrow> x = y" by (simp add: less_eq_node_id_def flip: node_key_inject)
  show "x \<le> y \<or> y \<le> x" by (simp add: less_eq_node_id_def linear)
qed

end

record node =
  node_ident :: node_id
  node_attributes :: "(string, string) btree_map"

datatype edge_kind =
    Requires | Provides | Conflicts | Replaces | Recommends | Optional
  | Owns | SharedBy | DerivedFrom | Realizes | ObservedBy | EvidenceFor

record edge =
  edge_from :: node_id
  edge_to :: node_id
  edge_kind :: edge_kind
  edge_reason :: string

datatype observation_record_outcome = CurrentStateUpdated | HistoricalEvidenceRetained

record system_graph =
  graph_nodes :: "(node_id, node) btree_map"
  graph_edges :: "edge list"

definition graph_default :: system_graph where
  "graph_default = \<lparr> graph_nodes = [], graph_edges = [] \<rparr>"

record impact =
  removable :: "node_id set"
  retained_shared :: "node_id set"
  impact_conflicts :: "edge list"

definition upsert_node :: "node \<Rightarrow> system_graph \<Rightarrow> system_graph" where
  "upsert_node n g = g\<lparr> graph_nodes := bt_insert (node_ident n) n (graph_nodes g) \<rparr>"

definition remove_node :: "node_id \<Rightarrow> system_graph \<Rightarrow> node option \<times> system_graph" where
  "remove_node i g =
     (let removed = bt_get (graph_nodes g) i;
          g' = g\<lparr> graph_nodes := bt_remove i (graph_nodes g) \<rparr> in
      (removed,
       if removed \<noteq> None
       then g'\<lparr> graph_edges := filter (\<lambda>e. edge_from e \<noteq> i \<and> edge_to e \<noteq> i) (graph_edges g') \<rparr>
       else g'))"

definition graph_node :: "system_graph \<Rightarrow> node_id \<Rightarrow> node option" where
  "graph_node g i = bt_get (graph_nodes g) i"

definition add_edge :: "edge \<Rightarrow> system_graph \<Rightarrow> system_graph" where
  "add_edge e g =
     (if e \<in> set (graph_edges g) then g else g\<lparr> graph_edges := graph_edges g @ [e] \<rparr>)"

definition attr_map :: "(string \<times> string) list \<Rightarrow> (string, string) btree_map" where
  "attr_map kvs = foldl (\<lambda>m (k, v). bt_insert k v m) [] kvs"

definition observation_is_newer :: "node \<Rightarrow> observation_envelope \<Rightarrow> bool" where
  "observation_is_newer current incoming =
     (let current_time = Option.bind (bt_get (node_attributes current) ''observed_at_unix_ms'') parse_u64;
          current_sequence = Option.bind (bt_get (node_attributes current) ''sequence'') parse_u64;
          current_provider = bt_get (node_attributes current) ''provider'' in
      case (current_provider, current_time, current_sequence) of
        (Some provider, t, Some sq) \<Rightarrow>
          if provider = env_provider incoming then env_sequence incoming > sq
          else (case t of
              Some time \<Rightarrow> (observed_at_unix_ms incoming, env_sequence incoming) > (time, sq)
            | None \<Rightarrow> True)
      | (None, Some time, Some sq) \<Rightarrow>
          (observed_at_unix_ms incoming, env_sequence incoming) > (time, sq)
      | _ \<Rightarrow> True)"

definition evidence_attributes :: "observation_envelope \<Rightarrow> freshness_state \<Rightarrow> (string, string) btree_map" where
  "evidence_attributes ob fr = attr_map [
     (''kind'', ''observation-evidence''),
     (''provider'', env_provider ob),
     (''resource'', env_resource ob),
     (''capability'', env_capability ob),
     (''authority'', observation_authority_as_str (env_authority ob)),
     (''observed_at_unix_ms'', u64_to_dec (observed_at_unix_ms ob)),
     (''sequence'', u64_to_dec (env_sequence ob)),
     (''freshness'', freshness_as_str fr)]"

definition resource_attributes :: "observation_envelope \<Rightarrow> freshness_state \<Rightarrow> (string, string) btree_map" where
  "resource_attributes ob fr = foldl
     (\<lambda>m (key, v). bt_insert (''observed.'' @ key) (observed_value_text v) m)
     (attr_map [
       (''kind'', ''resource''),
       (''provider'', env_provider ob),
       (''capability'', env_capability ob),
       (''observed_at_unix_ms'', u64_to_dec (observed_at_unix_ms ob)),
       (''sequence'', u64_to_dec (env_sequence ob)),
       (''freshness'', freshness_as_str fr),
       (''authority'', observation_authority_as_str (env_authority ob)),
       (''evidence_id'', evidence_id ob)])
     (env_attributes ob)"

text \<open>The part of \<open>record_observation\<close> before the decision whether the resource state moves.\<close>

definition record_evidence :: "observation_envelope \<Rightarrow> freshness_state \<Rightarrow> system_graph \<Rightarrow> system_graph" where
  "record_evidence ob fr g =
     (let provider = ProviderNode (env_provider ob);
          resource = ResourceNode (env_resource ob);
          capability = CapabilityNode (env_capability ob);
          evidence = EvidenceNode (evidence_id ob);
          g = upsert_node \<lparr> node_ident = provider,
                node_attributes = attr_map [(''kind'', ''provider'')] \<rparr> g;
          g = upsert_node \<lparr> node_ident = capability,
                node_attributes = attr_map [(''kind'', ''capability'')] \<rparr> g;
          g = upsert_node \<lparr> node_ident = evidence,
                node_attributes = evidence_attributes ob fr \<rparr> g;
          g = add_edge \<lparr> edge_from = provider, edge_to = capability, edge_kind = Provides,
                edge_reason = ''provider declares observation capability'' \<rparr> g;
          g = add_edge \<lparr> edge_from = resource, edge_to = provider, edge_kind = ObservedBy,
                edge_reason = ''resource has evidence from this authoritative provider'' \<rparr> g;
          g = add_edge \<lparr> edge_from = capability, edge_to = resource, edge_kind = Realizes,
                edge_reason = ''observation capability realizes this resource view'' \<rparr> g
      in add_edge \<lparr> edge_from = evidence, edge_to = resource, edge_kind = EvidenceFor,
           edge_reason = ''observation envelope is evidence for the resource state'' \<rparr> g)"

definition record_observation ::
  "observation_envelope \<Rightarrow> freshness_state \<Rightarrow> system_graph
     \<Rightarrow> observation_record_outcome \<times> system_graph" where
  "record_observation ob fr g =
     (let resource = ResourceNode (env_resource ob);
          g = record_evidence ob fr g;
          should_update = (fr = Current \<and> (case bt_get (graph_nodes g) resource of
              None \<Rightarrow> True
            | Some current \<Rightarrow> observation_is_newer current ob)) in
      if should_update
      then (CurrentStateUpdated,
            upsert_node \<lparr> node_ident = resource, node_attributes = resource_attributes ob fr \<rparr> g)
      else (HistoricalEvidenceRetained,
            if bt_contains (graph_nodes g) resource then g
            else upsert_node \<lparr> node_ident = resource,
                   node_attributes = attr_map [(''kind'', ''resource'')] \<rparr> g))"

definition conflicts_for :: "system_graph \<Rightarrow> node_id \<Rightarrow> edge list" where
  "conflicts_for g n =
     filter (\<lambda>e. edge_kind e = Conflicts \<and> (edge_from e = n \<or> edge_to e = n)) (graph_edges g)"

definition reasons_for :: "system_graph \<Rightarrow> node_id \<Rightarrow> edge list" where
  "reasons_for g n =
     filter (\<lambda>e. edge_to e = n
       \<and> edge_kind e \<in> {DerivedFrom, Realizes, Requires, Owns, EvidenceFor}) (graph_edges g)"

definition is_origin_edge :: "edge \<Rightarrow> bool" where
  "is_origin_edge e \<longleftrightarrow> edge_kind e \<in> {DerivedFrom, Owns, Requires, Realizes}"

definition origins_by_target :: "edge list \<Rightarrow> (node_id, node_id set) btree_map" where
  "origins_by_target es = foldl
     (\<lambda>m e. if is_origin_edge e
        then bt_insert (edge_to e)
          (insert (edge_from e) (case bt_get m (edge_to e) of None \<Rightarrow> {} | Some s \<Rightarrow> s)) m
        else m) [] es"

definition removal_impact :: "system_graph \<Rightarrow> node_id \<Rightarrow> impact" where
  "removal_impact g retired_origin =
     (let impact = foldl
        (\<lambda>im (target, origins).
           if retired_origin \<in> origins
           then if card origins = 1
             then im\<lparr> removable := insert target (removable im) \<rparr>
             else im\<lparr> retained_shared := insert target (retained_shared im) \<rparr>
           else im)
        \<lparr> removable = {}, retained_shared = {}, impact_conflicts = [] \<rparr>
        (origins_by_target (graph_edges g)) in
      impact\<lparr> impact_conflicts := filter (\<lambda>e. edge_kind e = Conflicts
         \<and> (edge_from e = retired_origin \<or> edge_to e = retired_origin)) (graph_edges g) \<rparr>)"

section \<open>Graph well-formedness\<close>

text \<open>
  \<open>graph_inv R g\<close>: the node map is ordered and keyed by the nodes' own identifiers, no edge is
  recorded twice, and every endpoint is a node of the graph or one of the pending ids \<open>R\<close>.
\<close>

definition graph_inv :: "node_id set \<Rightarrow> system_graph \<Rightarrow> bool" where
  "graph_inv R g \<longleftrightarrow> bt_wf (graph_nodes g)
     \<and> (\<forall>k n. graph_node g k = Some n \<longrightarrow> node_ident n = k)
     \<and> distinct (graph_edges g)
     \<and> (\<forall>e \<in> set (graph_edges g).
          {edge_from e, edge_to e} \<subseteq> set (bt_keys (graph_nodes g)) \<union> R)"

definition graph_wf :: "system_graph \<Rightarrow> bool" where
  "graph_wf g \<longleftrightarrow> graph_inv {} g"

datatype graph_op =
    UpsertNode node
  | RemoveNode node_id
  | RecordObservation observation_envelope freshness_state

fun graph_step :: "system_graph \<Rightarrow> graph_op \<Rightarrow> system_graph" where
  "graph_step g (UpsertNode n) = upsert_node n g"
| "graph_step g (RemoveNode i) = snd (remove_node i g)"
| "graph_step g (RecordObservation ob fr) = snd (record_observation ob fr g)"

lemma graph_node_upsert: "graph_node (upsert_node n g) = (graph_node g)(node_ident n \<mapsto> n)"
  by (rule ext) (simp add: graph_node_def upsert_node_def bt_get_insert)

lemma graph_node_add_edge [simp]: "graph_node (add_edge e g) = graph_node g"
  by (rule ext) (simp add: graph_node_def add_edge_def)

lemma graph_keys_upsert:
  "set (bt_keys (graph_nodes (upsert_node n g))) = insert (node_ident n) (set (bt_keys (graph_nodes g)))"
  by (simp add: upsert_node_def bt_keys_insert)

lemma graph_keys_add_edge [simp]: "graph_nodes (add_edge e g) = graph_nodes g"
  by (simp add: add_edge_def)

lemma graph_edges_upsert [simp]: "graph_edges (upsert_node n g) = graph_edges g"
  by (simp add: upsert_node_def)

lemma upsert_inv: "graph_inv R g \<Longrightarrow> graph_inv (R - {node_ident n}) (upsert_node n g)"
  unfolding graph_inv_def graph_keys_upsert graph_edges_upsert graph_node_upsert
  by (auto simp: upsert_node_def)

lemma upsert_inv_mono: "graph_inv R g \<Longrightarrow> graph_inv R (upsert_node n g)"
  unfolding graph_inv_def graph_keys_upsert graph_edges_upsert graph_node_upsert
  by (auto simp: upsert_node_def)

lemma add_edge_inv:
  "graph_inv R g \<Longrightarrow> {edge_from e, edge_to e} \<subseteq> set (bt_keys (graph_nodes g)) \<union> R
     \<Longrightarrow> graph_inv R (add_edge e g)"
  by (auto simp: graph_inv_def add_edge_def graph_node_def)

lemma graph_inv_mono: "graph_inv R g \<Longrightarrow> R \<subseteq> S \<Longrightarrow> graph_inv S g"
  by (auto simp: graph_inv_def)

lemma remove_node_wf: "graph_wf g \<Longrightarrow> graph_wf (snd (remove_node i g))"
proof -
  assume wf: "graph_wf g"
  have keys: "set (bt_keys (bt_remove i (graph_nodes g))) = set (bt_keys (graph_nodes g)) - {i}"
    by (auto simp: set_bt_keys bt_get_remove)
  show ?thesis
  proof (cases "bt_get (graph_nodes g) i")
    case None
    then have "i \<notin> set (bt_keys (graph_nodes g))" by (simp add: set_bt_keys)
    with None wf keys show ?thesis
      by (auto simp: graph_wf_def graph_inv_def remove_node_def graph_node_def bt_get_remove
          split: if_splits)
  next
    case (Some n)
    with wf keys show ?thesis
      by (auto simp: graph_wf_def graph_inv_def remove_node_def graph_node_def bt_get_remove
          split: if_splits)
  qed
qed

lemma record_evidence_inv:
  assumes "graph_inv R g" "ResourceNode (env_resource ob) \<in> R"
  shows "graph_inv R (record_evidence ob fr g)"
  unfolding record_evidence_def Let_def
  using assms by (intro add_edge_inv upsert_inv_mono) (auto simp: graph_keys_upsert)

lemma record_observation_wf: "graph_wf g \<Longrightarrow> graph_wf (snd (record_observation ob fr g))"
proof -
  assume "graph_wf g"
  let ?r = "ResourceNode (env_resource ob)" and ?g = "record_evidence ob fr g"
  have inv: "graph_inv {?r} ?g"
    using \<open>graph_wf g\<close> by (intro record_evidence_inv) (auto simp: graph_wf_def intro: graph_inv_mono)
  have up: "graph_wf (upsert_node \<lparr> node_ident = ?r, node_attributes = a \<rparr> ?g)" for a
    using upsert_inv [OF inv, of "\<lparr> node_ident = ?r, node_attributes = a \<rparr>"] by (simp add: graph_wf_def)
  have "bt_contains (graph_nodes ?g) ?r \<Longrightarrow> graph_wf ?g"
    using inv by (auto simp: graph_wf_def graph_inv_def bt_contains_keys)
  with up show ?thesis by (auto simp: record_observation_def Let_def)
qed

lemma upsert_wf: "graph_wf g \<Longrightarrow> graph_wf (upsert_node n g)"
  by (simp add: graph_wf_def upsert_inv_mono)

lemma graph_step_wf: "graph_wf g \<Longrightarrow> graph_wf (graph_step g oper)"
  by (cases oper) (simp_all add: remove_node_wf record_observation_wf upsert_wf)

lemma graph_node_default [simp]: "graph_node graph_default i = None"
  by (simp add: graph_node_def graph_default_def bt_get_def)

lemma graph_default_wf: "graph_wf graph_default"
  by (simp add: graph_wf_def graph_inv_def graph_default_def graph_node_def bt_get_def)

lemma graph_run_wf: "graph_wf g \<Longrightarrow> graph_wf (foldl graph_step g ops)"
  by (induction ops arbitrary: g) (simp_all add: graph_step_wf)

section \<open>Recorded resource state\<close>

lemma attr_map_get: "bt_get (attr_map kvs) k = map_of (rev kvs) k"
proof -
  have "bt_get (foldl (\<lambda>m (k, v). bt_insert k v m) m kvs) = bt_get m ++ map_of (rev kvs)" for m
    by (induction kvs arbitrary: m) (auto simp: bt_get_insert map_add_def fun_eq_iff split: option.splits)
  from this [of "[]"] show ?thesis by (simp add: attr_map_def bt_get_def [of "[]"] map_add_def split: option.splits)
qed

lemma observed_attrs_frame:
  assumes "\<And>key. k \<noteq> ''observed.'' @ key"
  shows "bt_get (foldl (\<lambda>m (key, v). bt_insert (''observed.'' @ key) (observed_value_text v) m) m as) k
    = bt_get m k"
proof (induction as arbitrary: m)
  case (Cons a as)
  then show ?case using assms [of "fst a"] by (cases a) (simp add: bt_get_insert)
qed simp

lemma resource_attributes_get:
  "bt_get (resource_attributes ob fr) ''provider'' = Some (env_provider ob)"
  "bt_get (resource_attributes ob fr) ''sequence'' = Some (u64_to_dec (env_sequence ob))"
  "bt_get (resource_attributes ob fr) ''observed_at_unix_ms'' = Some (u64_to_dec (observed_at_unix_ms ob))"
  "bt_get (resource_attributes ob fr) ''evidence_id'' = Some (evidence_id ob)"
  unfolding resource_attributes_def
  by (subst observed_attrs_frame; simp add: attr_map_get)+

lemma record_evidence_resource [simp]:
  "graph_node (record_evidence ob fr g) (ResourceNode r) = graph_node g (ResourceNode r)"
  by (simp add: record_evidence_def Let_def graph_node_upsert)

definition node_is_current :: "node \<Rightarrow> observation_envelope \<Rightarrow> bool" where
  "node_is_current n ob \<longleftrightarrow>
     bt_get (node_attributes n) ''provider'' = Some (env_provider ob)
     \<and> bt_get (node_attributes n) ''sequence'' = Some (u64_to_dec (env_sequence ob))
     \<and> bt_get (node_attributes n) ''observed_at_unix_ms'' = Some (u64_to_dec (observed_at_unix_ms ob))
     \<and> bt_get (node_attributes n) ''evidence_id'' = Some (evidence_id ob)"

lemma newer_than_current:
  assumes "node_is_current n ob"
  shows "observation_is_newer n ob' \<longleftrightarrow>
    (if env_provider ob' = env_provider ob then env_sequence ob < env_sequence ob'
     else (observed_at_unix_ms ob, env_sequence ob) < (observed_at_unix_ms ob', env_sequence ob'))"
  using assms by (auto simp: node_is_current_def observation_is_newer_def)

lemma record_observation_resource:
  "graph_node (snd (record_observation ob fr g)) (ResourceNode r) =
     (if r = env_resource ob \<and> fst (record_observation ob fr g) = CurrentStateUpdated
      then Some \<lparr> node_ident = ResourceNode r, node_attributes = resource_attributes ob fr \<rparr>
      else if r = env_resource ob \<and> graph_node g (ResourceNode r) = None
      then Some \<lparr> node_ident = ResourceNode r, node_attributes = attr_map [(''kind'', ''resource'')] \<rparr>
      else graph_node g (ResourceNode r))"
  using record_evidence_resource [of ob fr g r]
  by (auto simp: record_observation_def Let_def graph_node_upsert bt_contains_def
      simp flip: graph_node_def simp del: record_evidence_resource split: option.splits)

lemma record_observation_updates:
  "fst (record_observation ob fr g) = CurrentStateUpdated \<longleftrightarrow>
     fr = Current \<and> (case graph_node g (ResourceNode (env_resource ob)) of
        None \<Rightarrow> True | Some n \<Rightarrow> observation_is_newer n ob)"
  by (simp add: record_observation_def Let_def flip: graph_node_def split: option.splits)

text \<open>
  The live graph never dangles: after any sequence of node upserts, node removals and recorded
  observations from the empty graph, the node map is ordered and keyed by the nodes' own ids, no
  edge is duplicated and both endpoints of every edge are nodes of the graph.
\<close>

theorem graph_never_dangles: "graph_wf (foldl graph_step graph_default ops)"
  by (rule graph_run_wf) (rule graph_default_wf)

text \<open>
  Recording evidence cannot roll a resource back. When the resource node was written from
  observation \<open>old\<close>, a further observation of that resource replaces it exactly when it is fresh
  and newer: by sequence number if it comes from the same provider (whatever the clocks say),
  otherwise by the pair of observation time and sequence. In every other case the node is left as
  it is, while nodes of other resources are never touched.
\<close>

theorem record_observation_no_rollback:
  assumes "graph_node g (ResourceNode (env_resource ob)) = Some n" "node_is_current n old"
  shows "graph_node (snd (record_observation ob fr g)) (ResourceNode r) =
    (if r = env_resource ob \<and> fr = Current
        \<and> (if env_provider ob = env_provider old then env_sequence old < env_sequence ob
            else (observed_at_unix_ms old, env_sequence old) < (observed_at_unix_ms ob, env_sequence ob))
     then Some \<lparr> node_ident = ResourceNode r, node_attributes = resource_attributes ob fr \<rparr>
     else graph_node g (ResourceNode r))
    \<and> node_is_current \<lparr> node_ident = ResourceNode r, node_attributes = resource_attributes ob fr \<rparr> ob"
proof -
  have "node_is_current \<lparr> node_ident = ResourceNode r, node_attributes = resource_attributes ob fr \<rparr> ob"
    by (simp add: node_is_current_def resource_attributes_get)
  with assms show ?thesis
    by (auto simp: record_observation_resource record_observation_updates newer_than_current)
qed

definition witness_observation :: "u64 \<Rightarrow> u64 \<Rightarrow> observation_envelope" where
  "witness_observation t sq = \<lparr> env_provider = ''p'', env_resource = ''r'', env_capability = ''c'',
     env_authority = Kernel, observed_at_unix_ms = t, valid_for_ms = 100, env_sequence = sq,
     env_attributes = [(''a'', ObsBool True)] \<rparr>"

text \<open>At work: a clock that stepped back from 50 to 40 does not hide sequence 8 behind sequence 7.\<close>

lemma record_observation_no_rollback_witness:
  "let old = witness_observation 50 7; new = witness_observation 40 8;
       g = snd (record_observation old Current graph_default) in
   graph_node (snd (record_observation new Current g)) (ResourceNode ''r'')
     = Some \<lparr> node_ident = ResourceNode ''r'', node_attributes = resource_attributes new Current \<rparr>"
proof -
  let ?old = "witness_observation 50 7" and ?new = "witness_observation 40 8"
  let ?n = "\<lparr> node_ident = ResourceNode ''r'', node_attributes = resource_attributes ?old Current \<rparr>"
  have "graph_node (snd (record_observation ?old Current graph_default)) (ResourceNode (env_resource ?new))
      = Some ?n"
    by (simp add: record_observation_resource record_observation_updates witness_observation_def
        graph_node_default)
  moreover have "node_is_current ?n ?old"
    by (simp add: node_is_current_def resource_attributes_get)
  ultimately show ?thesis
    using record_observation_no_rollback [where r = "''r''" and fr = Current and ob = ?new and old = ?old
        and n = ?n and g = "snd (record_observation ?old Current graph_default)"]
    by (simp add: witness_observation_def)
qed

definition origins_of :: "edge list \<Rightarrow> node_id \<Rightarrow> node_id set" where
  "origins_of es t = edge_from ` {e \<in> set es. is_origin_edge e \<and> edge_to e = t}"

lemma origins_by_target_get:
  "bt_wf (origins_by_target es)
   \<and> bt_get (origins_by_target es) t = (if origins_of es t = {} then None else Some (origins_of es t))"
proof (induction es arbitrary: t rule: rev_induct)
  case Nil
  then show ?case by (simp add: origins_by_target_def origins_of_def bt_get_def)
next
  case (snoc e es)
  have step: "origins_of (es @ [e]) t =
      (if is_origin_edge e \<and> edge_to e = t then insert (edge_from e) (origins_of es t) else origins_of es t)"
    for t by (auto simp: origins_of_def)
  show ?case
    using snoc.IH [of t] snoc.IH [of "edge_to e"]
    by (auto simp: step origins_by_target_def [of "es @ [e]"] bt_get_insert
        simp flip: origins_by_target_def)
qed

lemma finite_origins_of [simp]: "finite (origins_of es t)"
  by (simp add: origins_of_def)

lemma removal_impact_fold:
  fixes m :: "(node_id, node_id set) btree_map" and r :: node_id
  defines "f \<equiv> \<lambda>im (target, origins).
      if r \<in> origins
      then if card origins = 1
        then im\<lparr> removable := insert target (removable im) \<rparr>
        else im\<lparr> retained_shared := insert target (retained_shared im) \<rparr>
      else (im :: impact)"
  shows "removable (foldl f im m) = removable im \<union> {t. \<exists>s. (t, s) \<in> set m \<and> r \<in> s \<and> card s = 1}"
    and "retained_shared (foldl f im m)
      = retained_shared im \<union> {t. \<exists>s. (t, s) \<in> set m \<and> r \<in> s \<and> card s \<noteq> 1}"
  by (induction m arbitrary: im) (auto simp: f_def split: prod.splits)

text \<open>
  C33. Retiring an origin only removes what nothing else justifies: a node is removable exactly
  when the retired origin is its only recorded origin (through a derived-from, owns, requires or
  realizes edge), it is retained exactly when some other origin also justifies it, and the reported
  conflicts are exactly the conflict edges that touch the retired origin.
\<close>

theorem removal_impact_exact:
  "(t \<in> removable (removal_impact g r) \<longleftrightarrow> origins_of (graph_edges g) t = {r})
   \<and> (t \<in> retained_shared (removal_impact g r) \<longleftrightarrow>
        r \<in> origins_of (graph_edges g) t \<and> (\<exists>q. q \<noteq> r \<and> q \<in> origins_of (graph_edges g) t))
   \<and> impact_conflicts (removal_impact g r) = conflicts_for g r"
proof (intro conjI)
  let ?m = "origins_by_target (graph_edges g)" and ?o = "origins_of (graph_edges g) t"
  have mem: "(t, s) \<in> set ?m \<longleftrightarrow> s = ?o \<and> ?o \<noteq> {}" for s
    using origins_by_target_get [of "graph_edges g" t] bt_get_wf_iff [of ?m t s]
    by (auto split: if_splits)
  have one: "r \<in> ?o \<Longrightarrow> card ?o = 1 \<longleftrightarrow> ?o = {r}"
    by (auto simp: card_1_singleton_iff)
  show "t \<in> removable (removal_impact g r) \<longleftrightarrow> ?o = {r}"
    using mem one by (auto simp: removal_impact_def Let_def removal_impact_fold)
  show "t \<in> retained_shared (removal_impact g r) \<longleftrightarrow> r \<in> ?o \<and> (\<exists>q. q \<noteq> r \<and> q \<in> ?o)"
    using mem one by (auto simp: removal_impact_def Let_def removal_impact_fold)
  show "impact_conflicts (removal_impact g r) = conflicts_for g r"
    by (simp add: removal_impact_def Let_def conflicts_for_def)
qed

end
