(* ===== verification/Capability.thy ===== *)
theory Capability
  imports Linura_Core
begin

text \<open>
  \<open>crates/linura-capability-sdk/src/lib.rs\<close>: effect bindings, operation descriptors and their
  registry, capability blueprints, and the resolution of a capability request to its closure
  under the requires relation with the conflicts inside it.
\<close>

section \<open>Operation descriptors\<close>

datatype operation_effect_binding_error =
    EmptyResourcePrefix | ResourcePrefixTooLong | ResourcePrefixControlCharacter
  | EmptyResourceSuffix | ResourceSuffixTooLong | ResourceSuffixControlCharacter
  | EmptyChangeKeys | InvalidChangeKey | DuplicateChangeKey

record operation_effect_binding =
  eb_provider :: provider_id
  eb_observation_capability :: capability_id
  eb_resource_prefix :: string
  eb_resource_suffix :: "string option"
  eb_change_keys :: "string set"

definition add_change_key :: "string set \<Rightarrow> string \<Rightarrow> operation_effect_binding_error + string set" where
  "add_change_key keys key =
     (if trim_is_empty key \<or> length key > 256 \<or> has_control key then Inl InvalidChangeKey
      else if key \<in> keys then Inl DuplicateChangeKey
      else Inr (insert key keys))"

definition effect_binding_try_new ::
  "provider_id \<Rightarrow> capability_id \<Rightarrow> string \<Rightarrow> string list
     \<Rightarrow> operation_effect_binding_error + operation_effect_binding" where
  "effect_binding_try_new provider observation_capability resource_prefix change_keys =
     (if trim_is_empty resource_prefix then Inl EmptyResourcePrefix
      else if length resource_prefix > 256 then Inl ResourcePrefixTooLong
      else if has_control resource_prefix then Inl ResourcePrefixControlCharacter
      else if change_keys = [] then Inl EmptyChangeKeys
      else and_then (try_fold add_change_key {} change_keys) (\<lambda>canonical_change_keys.
        Inr \<lparr> eb_provider = provider, eb_observation_capability = observation_capability,
              eb_resource_prefix = resource_prefix, eb_resource_suffix = None,
              eb_change_keys = canonical_change_keys \<rparr>))"

definition with_resource_suffix ::
  "operation_effect_binding \<Rightarrow> string \<Rightarrow> operation_effect_binding_error + operation_effect_binding" where
  "with_resource_suffix b resource_suffix =
     (if resource_suffix = [] then Inl EmptyResourceSuffix
      else if length resource_suffix > 256 then Inl ResourceSuffixTooLong
      else if has_control resource_suffix then Inl ResourceSuffixControlCharacter
      else Inr (b\<lparr> eb_resource_suffix := Some resource_suffix \<rparr>))"

definition matches_resource :: "operation_effect_binding \<Rightarrow> resource_id \<Rightarrow> bool" where
  "matches_resource b resource \<longleftrightarrow>
     prefix (eb_resource_prefix b) resource
     \<and> (case eb_resource_suffix b of None \<Rightarrow> True | Some sfx \<Rightarrow> suffix sfx resource)"

datatype operation_descriptor_error =
    MissingRiskFloor | UnexpectedRiskFloor | InvalidRiskFloor
  | MissingEffectBinding | UnexpectedEffectBinding

record operation_descriptor =
  od_id :: operation_id
  od_class :: operation_class
  od_risk_floor :: "risk_class option"
  od_effect_binding :: "operation_effect_binding option"

definition mutation_floor :: "risk_class option \<Rightarrow> operation_descriptor_error + unit" where
  "mutation_floor risk_floor =
     (case risk_floor of
        Some ReadOnly \<Rightarrow> Inl InvalidRiskFloor
      | Some _ \<Rightarrow> Inr ()
      | None \<Rightarrow> Inl MissingRiskFloor)"

definition descriptor_try_new ::
  "operation_id \<Rightarrow> operation_class \<Rightarrow> risk_class option \<Rightarrow> operation_effect_binding option
     \<Rightarrow> operation_descriptor_error + operation_descriptor" where
  "descriptor_try_new ident c risk_floor effect_binding =
     and_then
       (case c of
          ExperienceEphemeral \<Rightarrow>
            and_then (ensure (risk_floor = None) UnexpectedRiskFloor) (\<lambda>_.
            ensure (effect_binding = None) UnexpectedEffectBinding)
        | AuthoritativeQuery \<Rightarrow>
            and_then (ensure (risk_floor = Some ReadOnly) InvalidRiskFloor) (\<lambda>_.
            ensure (effect_binding = None) UnexpectedEffectBinding)
        | LinuraOwnedState \<Rightarrow>
            and_then (mutation_floor risk_floor) (\<lambda>_.
            ensure (effect_binding = None) UnexpectedEffectBinding)
        | ManagedExternalEffect \<Rightarrow>
            and_then (mutation_floor risk_floor) (\<lambda>_.
            ensure (effect_binding \<noteq> None) MissingEffectBinding)
        | TransientExternalEffect \<Rightarrow>
            and_then (ensure (risk_floor = Some UserState) InvalidRiskFloor) (\<lambda>_.
            ensure (effect_binding \<noteq> None) MissingEffectBinding))
       (\<lambda>_. Inr \<lparr> od_id = ident, od_class = c, od_risk_floor = risk_floor,
                   od_effect_binding = effect_binding \<rparr>)"

datatype operation_registry_error = DuplicateOperation operation_id

type_synonym operation_registry = "(operation_id, operation_descriptor) btree_map"

definition registry_register ::
  "operation_registry \<Rightarrow> operation_descriptor
     \<Rightarrow> (operation_registry_error + unit) \<times> operation_registry" where
  "registry_register reg d =
     (if bt_contains reg (od_id d) then (Inl (DuplicateOperation (od_id d)), reg)
      else (Inr (), bt_insert (od_id d) d reg))"

section \<open>Capability resolution\<close>

datatype capability_relation_kind =
    RelRequires | RelProvides | RelConflicts | RelReplaces | RelRecommends | RelOptional

record capability_relation =
  rel_kind :: capability_relation_kind
  rel_capability :: capability_id

record desired_resource_blueprint =
  drb_provider :: provider_id
  drb_resource :: resource_id
  drb_observation_capability :: capability_id
  drb_state :: "(string, string) btree_map"

record capability_blueprint =
  bp_id :: capability_id
  bp_title :: string
  bp_relations :: "capability_relation list"
  bp_desired_resources :: "desired_resource_blueprint list"

type_synonym capability_catalog = "(capability_id, capability_blueprint) btree_map"

record resolution =
  selected :: "capability_id set"
  conflicts :: "(capability_id \<times> capability_id) list"
  missing :: "capability_id set"

definition canonical_conflict_pair :: "capability_id \<Rightarrow> capability_id \<Rightarrow> capability_id \<times> capability_id" where
  "canonical_conflict_pair left right = (if left \<le> right then (left, right) else (right, left))"

definition catalog_register :: "capability_blueprint \<Rightarrow> capability_catalog \<Rightarrow> capability_catalog" where
  "catalog_register bp cat = bt_insert (bp_id bp) bp cat"

definition push_conflict ::
  "capability_id \<times> capability_id \<Rightarrow> (capability_id \<times> capability_id) list
     \<Rightarrow> (capability_id \<times> capability_id) list" where
  "push_conflict pair cs = (if pair \<in> set cs then cs else cs @ [pair])"

text \<open>
  The relation loop of one visited capability. The work vector is a stack whose top, the end of
  the \<open>Vec\<close>, is the head of the list.
\<close>

fun visit_relations ::
  "capability_id \<Rightarrow> capability_id set \<Rightarrow> capability_relation list
     \<Rightarrow> capability_id list \<Rightarrow> (capability_id \<times> capability_id) list
     \<Rightarrow> capability_id list \<times> (capability_id \<times> capability_id) list" where
  "visit_relations ident sel [] pending cs = (pending, cs)"
| "visit_relations ident sel (r # rs) pending cs =
     (case rel_kind r of
        RelRequires \<Rightarrow> visit_relations ident sel rs (rel_capability r # pending) cs
      | RelConflicts \<Rightarrow>
          if rel_capability r \<in> sel
          then visit_relations ident sel rs pending
                 (push_conflict (canonical_conflict_pair ident (rel_capability r)) cs)
          else visit_relations ident sel rs pending cs
      | _ \<Rightarrow> visit_relations ident sel rs pending cs)"

function resolve_loop :: "capability_catalog \<Rightarrow> capability_id list \<Rightarrow> resolution \<Rightarrow> resolution" where
  "resolve_loop cat [] result = result"
| "resolve_loop cat (ident # pending) result =
     (if ident \<in> selected result then resolve_loop cat pending result
      else let result = result\<lparr> selected := insert ident (selected result) \<rparr> in
        case bt_get cat ident of
          None \<Rightarrow> resolve_loop cat pending (result\<lparr> missing := insert ident (missing result) \<rparr>)
        | Some blueprint \<Rightarrow>
            let (pending, cs) = visit_relations ident (selected result) (bp_relations blueprint)
                  pending (conflicts result)
            in resolve_loop cat pending (result\<lparr> conflicts := cs \<rparr>))"
  by pat_completeness auto

text \<open>Every iteration visits a catalog entry for the first time or shortens the stack.\<close>

termination
proof (relation "measures [\<lambda>(cat, pending, r). card (set (bt_keys cat) - selected r),
    \<lambda>(cat, pending, r). length pending]", goal_cases)
  case 1
  then show ?case by simp
next
  case (2 cat ident pending r)
  then show ?case by simp
next
  case (3 cat ident pending r x)
  then have "ident \<notin> set (bt_keys cat)" by (simp add: set_bt_keys)
  with 3 show ?case by (simp add: insert_absorb Diff_insert0)
next
  case (4 cat ident pending r x bp p q)
  then have "ident \<in> set (bt_keys cat) - selected r" by (simp add: set_bt_keys)
  then have "card (set (bt_keys cat) - insert ident (selected r)) < card (set (bt_keys cat) - selected r)"
    by (intro psubset_card_mono) auto
  with 4 show ?case by simp
qed

text \<open>The second pass over the selected capabilities, which sees every pair.\<close>

fun conflict_relations ::
  "capability_id \<Rightarrow> capability_id set \<Rightarrow> capability_relation list
     \<Rightarrow> (capability_id \<times> capability_id) list \<Rightarrow> (capability_id \<times> capability_id) list" where
  "conflict_relations ident sel [] cs = cs"
| "conflict_relations ident sel (r # rs) cs =
     conflict_relations ident sel rs
       (if rel_kind r = RelConflicts \<and> rel_capability r \<in> sel
        then push_conflict (canonical_conflict_pair ident (rel_capability r)) cs else cs)"

definition conflict_pass ::
  "capability_catalog \<Rightarrow> capability_id set \<Rightarrow> (capability_id \<times> capability_id) list
     \<Rightarrow> (capability_id \<times> capability_id) list" where
  "conflict_pass cat sel cs = foldl
     (\<lambda>cs ident. case bt_get cat ident of
        None \<Rightarrow> cs
      | Some blueprint \<Rightarrow> conflict_relations ident sel (bp_relations blueprint) cs)
     cs (sorted_list_of_set sel)"

definition resolve :: "capability_catalog \<Rightarrow> capability_id list \<Rightarrow> resolution" where
  "resolve cat requested =
     (let result = resolve_loop cat (rev requested)
            \<lparr> selected = {}, conflicts = [], missing = {} \<rparr>
      in result\<lparr> conflicts := sort (conflict_pass cat (selected result) (conflicts result)) \<rparr>)"

section \<open>What resolution computes\<close>

definition requires_edge :: "capability_catalog \<Rightarrow> capability_id \<Rightarrow> capability_id \<Rightarrow> bool" where
  "requires_edge cat a b \<longleftrightarrow> (\<exists>bp. bt_get cat a = Some bp
     \<and> (\<exists>r \<in> set (bp_relations bp). rel_kind r = RelRequires \<and> rel_capability r = b))"

definition conflicts_edge :: "capability_catalog \<Rightarrow> capability_id \<Rightarrow> capability_id \<Rightarrow> bool" where
  "conflicts_edge cat a b \<longleftrightarrow> (\<exists>bp. bt_get cat a = Some bp
     \<and> (\<exists>r \<in> set (bp_relations bp). rel_kind r = RelConflicts \<and> rel_capability r = b))"

definition required_closure :: "capability_catalog \<Rightarrow> capability_id set \<Rightarrow> capability_id set" where
  "required_closure cat req = {c. \<exists>q \<in> req. (requires_edge cat)\<^sup>*\<^sup>* q c}"

definition conflict_pairs :: "capability_catalog \<Rightarrow> capability_id set \<Rightarrow> (capability_id \<times> capability_id) set" where
  "conflict_pairs cat sel =
     {canonical_conflict_pair a b | a b. a \<in> sel \<and> b \<in> sel \<and> conflicts_edge cat a b}"

definition conflicts_sound :: "capability_catalog \<Rightarrow> resolution \<Rightarrow> bool" where
  "conflicts_sound cat r \<longleftrightarrow>
     distinct (conflicts r) \<and> set (conflicts r) \<subseteq> conflict_pairs cat (selected r)"

lemma set_push_conflict [simp]: "set (push_conflict p cs) = insert p (set cs)"
  by (auto simp: push_conflict_def)

lemma distinct_push_conflict: "distinct cs \<Longrightarrow> distinct (push_conflict p cs)"
  by (simp add: push_conflict_def)

lemma visit_relations_spec:
  assumes "visit_relations ident sel rs pending cs = (pending', cs')"
  shows "set pending' = set pending \<union> {rel_capability r | r. r \<in> set rs \<and> rel_kind r = RelRequires}"
    and "set cs' = set cs \<union> {canonical_conflict_pair ident (rel_capability r) | r.
          r \<in> set rs \<and> rel_kind r = RelConflicts \<and> rel_capability r \<in> sel}"
    and "distinct cs \<Longrightarrow> distinct cs'"
  using assms
proof (induction rs arbitrary: pending cs)
  case (Cons r rs)
  {
    case 1
    with Cons.IH(1) show ?case by (auto split: capability_relation_kind.splits if_splits)
  next
    case 2
    with Cons.IH(2) show ?case by (auto split: capability_relation_kind.splits if_splits)
  next
    case 3
    with Cons.IH(3) show ?case
      using Cons.IH(3) [OF distinct_push_conflict]
      by (auto split: capability_relation_kind.splits if_splits)
  }
qed auto

lemma conflict_relations_spec:
  "set (conflict_relations ident sel rs cs) = set cs \<union> {canonical_conflict_pair ident (rel_capability r) | r.
      r \<in> set rs \<and> rel_kind r = RelConflicts \<and> rel_capability r \<in> sel}"
  "distinct cs \<Longrightarrow> distinct (conflict_relations ident sel rs cs)"
  by (induction rs arbitrary: cs) (auto simp: distinct_push_conflict)

text \<open>
  The loop invariant: a requirement of a selected capability is selected or still on the stack,
  the missing capabilities are the selected ones without a blueprint, and recorded conflicts are
  genuine.
\<close>

definition loop_inv :: "capability_catalog \<Rightarrow> capability_id list \<Rightarrow> resolution \<Rightarrow> bool" where
  "loop_inv cat pending r \<longleftrightarrow>
     (\<forall>a \<in> selected r. \<forall>b. requires_edge cat a b \<longrightarrow> b \<in> selected r \<union> set pending)
     \<and> missing r = selected r - set (bt_keys cat)
     \<and> conflicts_sound cat r \<and> finite (selected r)"

lemma conflict_pairs_mono: "A \<subseteq> B \<Longrightarrow> conflict_pairs cat A \<subseteq> conflict_pairs cat B"
  by (auto simp: conflict_pairs_def)

lemma visit_inv:
  assumes inv: "loop_inv cat (ident # pending) r" and bp: "bt_get cat ident = Some bp"
    and visit: "visit_relations ident (insert ident (selected r)) (bp_relations bp) pending (conflicts r)
      = (pending', cs)"
  shows "loop_inv cat pending' (r\<lparr> selected := insert ident (selected r), conflicts := cs \<rparr>)"
proof -
  have "ident \<in> set (bt_keys cat)" using bp by (simp add: set_bt_keys)
  then have "missing r = insert ident (selected r) - set (bt_keys cat)"
    using inv by (auto simp: loop_inv_def)
  moreover have "b \<in> insert ident (selected r) \<union> set pending'"
    if "a \<in> insert ident (selected r)" "requires_edge cat a b" for a b
  proof (cases "a = ident")
    case True
    with that(2) bp visit_relations_spec(1) [OF visit] show ?thesis by (auto simp: requires_edge_def)
  next
    case False
    with that inv have "b \<in> selected r \<union> set (ident # pending)" unfolding loop_inv_def by blast
    with visit_relations_spec(1) [OF visit] show ?thesis by auto
  qed
  moreover have "set cs \<subseteq> conflict_pairs cat (insert ident (selected r))"
  proof -
    have "set (conflicts r) \<subseteq> conflict_pairs cat (insert ident (selected r))"
      using inv conflict_pairs_mono [OF subset_insertI, of cat "selected r" ident]
      by (auto simp: loop_inv_def conflicts_sound_def)
    with bp visit_relations_spec(2) [OF visit] show ?thesis
      by (auto simp: conflict_pairs_def conflicts_edge_def)
  qed
  moreover have "distinct cs"
    using inv visit_relations_spec(3) [OF visit] by (simp add: loop_inv_def conflicts_sound_def)
  ultimately show ?thesis
    using inv by (simp add: loop_inv_def conflicts_sound_def)
qed

lemma missing_inv:
  assumes inv: "loop_inv cat (ident # pending) r" and bp: "bt_get cat ident = None"
  shows "loop_inv cat pending (r\<lparr> selected := insert ident (selected r), missing := insert ident (missing r) \<rparr>)"
proof -
  have "ident \<notin> set (bt_keys cat)" using bp by (simp add: set_bt_keys)
  moreover have "\<not> requires_edge cat ident b" for b using bp by (simp add: requires_edge_def)
  moreover have "conflict_pairs cat (selected r) \<subseteq> conflict_pairs cat (insert ident (selected r))"
    by (rule conflict_pairs_mono) auto
  ultimately show ?thesis using inv by (auto simp: loop_inv_def conflicts_sound_def)
qed

lemma skip_inv: "loop_inv cat (ident # pending) r \<Longrightarrow> ident \<in> selected r \<Longrightarrow> loop_inv cat pending r"
  by (simp add: loop_inv_def) blast

lemma resolve_loop_inv:
  "loop_inv cat pending r \<Longrightarrow>
     loop_inv cat [] (resolve_loop cat pending r)
     \<and> selected r \<union> set pending \<subseteq> selected (resolve_loop cat pending r)"
proof (induction cat pending r rule: resolve_loop.induct)
  case (1 cat r)
  then show ?case by simp
next
  case (2 cat ident pending r)
  show ?case
  proof (cases "ident \<in> selected r")
    case True
    with 2(1) [OF True] skip_inv [OF 2(4) True] True show ?thesis by auto
  next
    case new: False
    show ?thesis
    proof (cases "bt_get cat ident")
      case None
      from 2(2) [OF new refl None] missing_inv [OF 2(4) None] new None show ?thesis
        by (simp add: Let_def)
    next
      case (Some bp)
      obtain pending' cs where v: "visit_relations ident (insert ident (selected r)) (bp_relations bp)
          pending (conflicts r) = (pending', cs)" by fastforce
      let ?R = "resolve_loop cat pending' (r\<lparr> selected := insert ident (selected r), conflicts := cs \<rparr>)"
      have "set pending \<subseteq> set pending'" using visit_relations_spec(1) [OF v] by auto
      moreover have "loop_inv cat [] ?R \<and> insert ident (selected r) \<union> set pending' \<subseteq> selected ?R"
        using 2(3) [OF new refl Some] visit_inv [OF 2(4) Some v] v by simp
      moreover have "resolve_loop cat (ident # pending) r = ?R" using new Some v by (simp add: Let_def)
      ultimately show ?thesis by auto
    qed
  qed
qed

lemma resolve_loop_upper:
  assumes "\<And>a b. a \<in> S \<Longrightarrow> requires_edge cat a b \<Longrightarrow> b \<in> S"
  shows "selected r \<union> set pending \<subseteq> S \<Longrightarrow> selected (resolve_loop cat pending r) \<subseteq> S"
  using assms
proof (induction cat pending r rule: resolve_loop.induct)
  case (2 cat ident pending r)
  show ?case
  proof (cases "ident \<in> selected r")
    case True
    with 2 show ?thesis by auto
  next
    case new: False
    show ?thesis
    proof (cases "bt_get cat ident")
      case None
      with 2(2) [OF new refl None] 2(4,5) new show ?thesis by (simp add: Let_def)
    next
      case (Some bp)
      obtain pending' cs where v: "visit_relations ident (insert ident (selected r)) (bp_relations bp)
          pending (conflicts r) = (pending', cs)" by fastforce
      have "set pending' \<subseteq> S"
        using visit_relations_spec(1) [OF v] 2(4) 2(5) [of ident] Some
        by (auto simp: requires_edge_def)
      with 2(3) [OF new refl Some] 2(4,5) new Some v show ?thesis by (simp add: Let_def)
    qed
  qed
qed simp

lemma closure_closed: "a \<in> required_closure cat R \<Longrightarrow> requires_edge cat a b \<Longrightarrow> b \<in> required_closure cat R"
  by (auto simp: required_closure_def intro: rtranclp.rtrancl_into_rtrancl)

lemma closure_least:
  assumes "R \<subseteq> S" "\<And>a b. a \<in> S \<Longrightarrow> requires_edge cat a b \<Longrightarrow> b \<in> S"
  shows "required_closure cat R \<subseteq> S"
proof
  fix c assume "c \<in> required_closure cat R"
  then obtain q where "q \<in> S" "(requires_edge cat)\<^sup>*\<^sup>* q c"
    using assms(1) by (auto simp: required_closure_def)
  from this(2,1) show "c \<in> S" by (induction) (auto dest: assms(2))
qed

lemma conflict_pass_spec:
  assumes "finite sel" "set cs \<subseteq> conflict_pairs cat sel" "distinct cs"
  shows "set (conflict_pass cat sel cs) = conflict_pairs cat sel" "distinct (conflict_pass cat sel cs)"
proof -
  define f where "f = (\<lambda>cs ident. case bt_get cat ident of None \<Rightarrow> cs
     | Some blueprint \<Rightarrow> conflict_relations ident sel (bp_relations blueprint) cs)"
  have step: "set (f cs i) = set cs \<union> {canonical_conflict_pair i b | b. b \<in> sel \<and> conflicts_edge cat i b}"
    for cs i by (auto simp: f_def conflict_relations_spec conflicts_edge_def split: option.splits)
  have set: "set (foldl f cs ids) = set cs \<union>
      {canonical_conflict_pair a b | a b. a \<in> set ids \<and> b \<in> sel \<and> conflicts_edge cat a b}" for ids cs
    by (induction ids arbitrary: cs) (auto simp: step)
  have dist: "distinct cs \<Longrightarrow> distinct (foldl f cs ids)" for ids cs
    by (induction ids arbitrary: cs) (auto simp: f_def conflict_relations_spec split: option.splits)
  show "set (conflict_pass cat sel cs) = conflict_pairs cat sel"
    using assms by (auto simp: conflict_pass_def simp flip: f_def simp: set conflict_pairs_def)
  show "distinct (conflict_pass cat sel cs)"
    using assms(3) by (simp add: conflict_pass_def dist flip: f_def)
qed

lemma resolve_spec:
  "resolve cat requested =
     (let sel = required_closure cat (set requested) in
      \<lparr> selected = sel,
        conflicts = sorted_list_of_set (conflict_pairs cat sel),
        missing = {c \<in> sel. bt_get cat c = None} \<rparr>)"
proof -
  let ?init = "\<lparr> selected = {}, conflicts = [], missing = {} \<rparr>" and ?S = "required_closure cat (set requested)"
  let ?r = "resolve_loop cat (rev requested) ?init"
  have "loop_inv cat (rev requested) ?init" by (simp add: loop_inv_def conflicts_sound_def)
  from resolve_loop_inv [OF this]
  have inv: "loop_inv cat [] ?r" and sub: "set requested \<subseteq> selected ?r" by simp_all
  have "selected ?r \<subseteq> ?S"
  proof (rule resolve_loop_upper)
    show "selected ?init \<union> set (rev requested) \<subseteq> ?S" by (auto simp: required_closure_def)
  qed (rule closure_closed)
  moreover have "?S \<subseteq> selected ?r"
    using inv by (intro closure_least [OF sub]) (auto simp: loop_inv_def)
  ultimately have sel: "selected ?r = ?S" by blast
  have mis: "missing ?r = {c \<in> ?S. bt_get cat c = None}"
    using inv sel by (auto simp: loop_inv_def set_bt_keys)
  note pass = conflict_pass_spec [of ?S "conflicts ?r" cat]
  have "sort (conflict_pass cat ?S (conflicts ?r)) = sorted_list_of_set (conflict_pairs cat ?S)"
    using pass inv sel
    by (metis conflicts_sound_def distinct_remdups_id loop_inv_def sorted_list_of_set_sort_remdups)
  with sel mis show ?thesis by (simp add: resolve_def Let_def)
qed

lemma finite_selected_resolve: "finite (selected (resolve cat requested))"
proof -
  have "loop_inv cat (rev requested) \<lparr> selected = {}, conflicts = [], missing = {} \<rparr>"
    by (simp add: loop_inv_def conflicts_sound_def)
  from resolve_loop_inv [OF this] show ?thesis by (simp add: resolve_def Let_def loop_inv_def)
qed

lemma finite_required_closure: "finite (required_closure cat (set requested))"
  using finite_selected_resolve [of cat requested] by (simp add: resolve_spec Let_def)

lemma descriptor_shape:
  assumes "descriptor_try_new i c f b = Inr d"
  shows "(requires_plan_bound_external_authorization (od_class d) \<longleftrightarrow> od_effect_binding d \<noteq> None)
    \<and> (control_mediated (od_class d) \<longleftrightarrow> od_risk_floor d \<noteq> None)
    \<and> (od_class d = AuthoritativeQuery \<longleftrightarrow> od_risk_floor d = Some ReadOnly)"
  using assms
  by (cases c)
    (auto simp: descriptor_try_new_def mutation_floor_def requires_plan_bound_external_authorization_def
      control_mediated_def result_simps split: option.splits risk_class.splits)

text \<open>
  C11. Capability resolution computes exactly the contract it stands for: it terminates on every
  catalog, cyclic ones included, and returns the least set that contains the request and is closed
  under the requires relation, the members of it that have no blueprint, and the sorted list, without
  repetition, of the unordered pairs of selected capabilities one of which declares a conflict
  with the other. The result depends only on the set of requested capabilities.
\<close>

theorem resolve_exact:
  "resolve cat requested =
     (let sel = required_closure cat (set requested) in
      \<lparr> selected = sel,
        conflicts = sorted_list_of_set (conflict_pairs cat sel),
        missing = {c \<in> sel. bt_get cat c = None} \<rparr>)"
  by (rule resolve_spec)

end
