(* ===== verification/Intent_Model.thy ===== *)
theory Intent_Model
  imports Linura_Core
begin

text \<open>
  \<open>crates/linura-intent/src/model.rs\<close>: intents, setups with their validation, secret references
  and machine profiles.
\<close>

datatype intent_status = Proposed | Active | Suspended | Superseded | Retired

datatype requirement_kind = Goal | Constraint | Preference | Prohibition

record requirement =
  req_id :: requirement_id
  req_kind :: requirement_kind
  req_statement :: string

record intent =
  intent_id :: intent_id
  intent_actor :: actor
  intent_statement :: string
  intent_status :: intent_status
  intent_requirements :: "requirement list"
  intent_supersedes :: "intent_id list"

record intent_setup =
  setup_id :: setup_id
  setup_name :: string
  setup_description :: string
  setup_revision :: "32 word"
  setup_intent_ids :: "intent_id list"
  setup_included_setup_ids :: "setup_id list"
  setup_portable_constraints :: "string list"
  setup_required_secret_refs :: "string list"
  setup_hardware_hints :: "string list"

datatype setup_validation_error =
    EmptyName | ZeroRevision | EmptyComposition | SelfReference
  | EmptySecretReference | InvalidSecretReference

definition MAX_SECRET_REFERENCE_BYTES :: nat where
  "MAX_SECRET_REFERENCE_BYTES = 256"

datatype secret_reference_validation_error =
    SecretEmpty | SecretTooLong | SecretInvalidForm | SecretUnsupportedCharacter

definition validate_secret_reference :: "string \<Rightarrow> secret_reference_validation_error + unit" where
  "validate_secret_reference v =
     (if trim_is_empty v then Inl SecretEmpty
      else if length v > MAX_SECRET_REFERENCE_BYTES then Inl SecretTooLong
      else case split_once_colon v of
        None \<Rightarrow> Inl SecretInvalidForm
      | Some (namespace, name) \<Rightarrow>
          if namespace = [] \<or> name = [] \<or> CHR '':'' \<in> set name then Inl SecretInvalidForm
          else if \<not> list_all (\<lambda>c. is_ascii_alphanumeric c \<or> c \<in> set ''-_.:'') v
            then Inl SecretUnsupportedCharacter
          else Inr ())"

definition setup_validate :: "intent_setup \<Rightarrow> setup_validation_error + unit" where
  "setup_validate s =
     (if trim_is_empty (setup_name s) then Inl EmptyName
      else if setup_revision s = 0 then Inl ZeroRevision
      else if setup_intent_ids s = [] \<and> setup_included_setup_ids s = [] then Inl EmptyComposition
      else if list_ex (\<lambda>i. i = setup_id s) (setup_included_setup_ids s) then Inl SelfReference
      else for_each (setup_required_secret_refs s) (\<lambda>reference.
        case validate_secret_reference reference of
          Inr _ \<Rightarrow> Inr ()
        | Inl SecretEmpty \<Rightarrow> Inl EmptySecretReference
        | Inl _ \<Rightarrow> Inl InvalidSecretReference))"

datatype machine_class = Workstation | Server | Edge

fun machine_class_as_str :: "machine_class \<Rightarrow> string" where
  "machine_class_as_str Workstation = ''workstation''"
| "machine_class_as_str Server = ''server''"
| "machine_class_as_str Edge = ''edge''"

record machine_profile =
  profile_id :: profile_id
  profile_name :: string
  profile_machine_class :: machine_class
  profile_setup_ids :: "setup_id list"
  profile_intent_ids :: "intent_id list"
  profile_portable_constraints :: "string list"
  profile_hardware_hints :: "string list"

definition is_managed :: "intent \<Rightarrow> bool" where
  "is_managed i \<longleftrightarrow> intent_status i = Active"

definition is_retained :: "intent \<Rightarrow> bool" where
  "is_retained i \<longleftrightarrow> intent_status i = Active \<or> intent_status i = Suspended"

lemma validate_secret_reference_form:
  assumes "validate_secret_reference v = Inr u"
  shows "\<exists>namespace name. v = namespace @ CHR '':'' # name \<and> namespace \<noteq> [] \<and> name \<noteq> []
    \<and> CHR '':'' \<notin> set namespace \<and> CHR '':'' \<notin> set name
    \<and> list_all (\<lambda>c. is_ascii_alphanumeric c \<or> c \<in> set ''-_.'') (namespace @ name)"
  using assms
  by (auto simp: validate_secret_reference_def split_once_colon_Some list_all_iff
      split: if_splits option.splits prod.splits)

lemma secret_reference_case_ok:
  "(case r of Inr _ \<Rightarrow> Inr () | Inl SecretEmpty \<Rightarrow> Inl EmptySecretReference
     | Inl _ \<Rightarrow> Inl InvalidSecretReference) = Inr u \<longleftrightarrow> r = Inr ()"
  by (cases r) (auto split: secret_reference_validation_error.splits)

lemma setup_validate_ok:
  "setup_validate s = Inr u \<longleftrightarrow>
     \<not> trim_is_empty (setup_name s) \<and> setup_revision s \<noteq> 0
     \<and> (setup_intent_ids s \<noteq> [] \<or> setup_included_setup_ids s \<noteq> [])
     \<and> setup_id s \<notin> set (setup_included_setup_ids s)
     \<and> (\<forall>r \<in> set (setup_required_secret_refs s). validate_secret_reference r = Inr ())"
  by (auto simp: setup_validate_def for_each_ok list_ex_iff secret_reference_case_ok)

end
