(* ===== verification/Planner.thy ===== *)
theory Planner
  imports Capability Intent_Model
begin

text \<open>
  \<open>crates/linura-planner/src/lib.rs\<close>: desired state and its validation, compilation of an intent
  into desired state, the reconciliation plan of one resource against one observation, and the
  bounded plan store.
\<close>

definition DEFAULT_PLAN_STORE_CAPACITY :: nat where
  "DEFAULT_PLAN_STORE_CAPACITY = 256"

type_synonym desired_resource_key = "provider_id \<times> resource_id \<times> capability_id"

record desired_resource_contribution =
  contrib_state :: "(string, string) btree_map"
  contrib_capabilities :: "capability_id set"

type_synonym desired_resource_contributions =
  "(desired_resource_key, desired_resource_contribution) btree_map"

record desired_resource =
  dr_provider :: provider_id
  dr_resource :: resource_id
  dr_observation_capability :: capability_id
  dr_state :: "(string, string) btree_map"
  dr_reason :: semantic_reason

record desired_state =
  ds_resources :: "desired_resource list"

datatype desired_state_validation_error =
    EmptyDesiredState
  | DuplicateResource resource_id
  | EmptyResourceState resource_id
  | DesiredInvalidAttributeKey resource_id string
  | DesiredInvalidAttributeValue resource_id string
  | InvalidSemanticReason resource_id string

fun desired_state_validation_error_text :: "desired_state_validation_error \<Rightarrow> string" where
  "desired_state_validation_error_text EmptyDesiredState =
     ''desired state must contain at least one resource''"
| "desired_state_validation_error_text (DuplicateResource r) =
     ''desired state contains duplicate resource '' @ r"
| "desired_state_validation_error_text (EmptyResourceState r) =
     ''desired resource '' @ r @ '' must contain at least one state attribute''"
| "desired_state_validation_error_text (DesiredInvalidAttributeKey r key) =
     ''desired resource '' @ r @ '' contains invalid attribute key '' @ debug_str key"
| "desired_state_validation_error_text (DesiredInvalidAttributeValue r key) =
     ''desired resource '' @ r @ '' contains an invalid value for attribute '' @ debug_str key"
| "desired_state_validation_error_text (InvalidSemanticReason r reason) =
     ''desired resource '' @ r @ '' has invalid semantic provenance: '' @ reason"

definition validate_desired_resource :: "desired_resource \<Rightarrow> desired_state_validation_error + unit" where
  "validate_desired_resource desired =
     (if dr_state desired = [] then Inl (EmptyResourceState (dr_resource desired))
      else and_then
        (for_each (dr_state desired) (\<lambda>(key, v).
           if trim_is_empty key \<or> length key > 256 \<or> has_control key
             then Inl (DesiredInvalidAttributeKey (dr_resource desired) key)
           else if length v > 4096 \<or> has_control v
             then Inl (DesiredInvalidAttributeValue (dr_resource desired) key)
           else Inr ()))
        (\<lambda>_. map_err (\<lambda>e. InvalidSemanticReason (dr_resource desired) (validation_error_text e))
           (semantic_reason_validate (dr_reason desired))))"

fun validate_resources ::
  "resource_id set \<Rightarrow> desired_resource list \<Rightarrow> desired_state_validation_error + unit" where
  "validate_resources seen [] = Inr ()"
| "validate_resources seen (desired # rest) =
     (if dr_resource desired \<in> seen then Inl (DuplicateResource (dr_resource desired))
      else and_then (validate_desired_resource desired)
        (\<lambda>_. validate_resources (insert (dr_resource desired) seen) rest))"

definition desired_state_validate :: "desired_state \<Rightarrow> desired_state_validation_error + unit" where
  "desired_state_validate ds =
     (if ds_resources ds = [] then Inl EmptyDesiredState
      else validate_resources {} (ds_resources ds))"

record intent_plan =
  ip_intent_id :: intent_id
  ip_capability_resolution :: resolution
  ip_desired_state :: desired_state
  ip_warnings :: "string list"

datatype planning_freshness = PlanCurrent | PlanStale | PlanFuture

fun planning_freshness_as_str :: "planning_freshness \<Rightarrow> string" where
  "planning_freshness_as_str PlanCurrent = ''current''"
| "planning_freshness_as_str PlanStale = ''stale''"
| "planning_freshness_as_str PlanFuture = ''future''"

record planning_observation =
  po_provider :: provider_id
  po_resource :: resource_id
  po_observation_capability :: capability_id
  po_authority :: string
  po_evidence_id :: string
  po_freshness :: planning_freshness
  po_attributes :: "(string, string) btree_map"

datatype plan_status = NoChange | ChangeProposed | PlanBlocked

fun plan_status_as_str :: "plan_status \<Rightarrow> string" where
  "plan_status_as_str NoChange = ''no-change''"
| "plan_status_as_str ChangeProposed = ''change-proposed''"
| "plan_status_as_str PlanBlocked = ''blocked''"

datatype plan_finding_level = Pass | Warning | Blocker

fun plan_finding_level_as_str :: "plan_finding_level \<Rightarrow> string" where
  "plan_finding_level_as_str Pass = ''pass''"
| "plan_finding_level_as_str Warning = ''warning''"
| "plan_finding_level_as_str Blocker = ''blocker''"

record plan_finding =
  finding_code :: string
  finding_level :: plan_finding_level
  finding_message :: string

record state_change =
  change_key :: string
  change_current :: "string option"
  change_desired :: string

datatype execution_authority = Disabled

record reconciliation_plan =
  plan_id :: plan_id
  plan_request_id :: request_id
  plan_actor :: actor
  plan_provider :: provider_id
  plan_resource_id :: resource_id
  plan_observation_capability :: capability_id
  plan_reason :: semantic_reason
  plan_observed_evidence_id :: string
  plan_prospective_risk :: risk_class
  plan_status :: plan_status
  plan_execution_authority :: execution_authority
  plan_changes :: "state_change list"
  plan_findings :: "plan_finding list"

definition plan_has_blockers :: "reconciliation_plan \<Rightarrow> bool" where
  "plan_has_blockers p \<longleftrightarrow> list_ex (\<lambda>f. finding_level f = Blocker) (plan_findings p)"

definition execution_authorized :: "reconciliation_plan \<Rightarrow> bool" where
  "execution_authorized p = (case plan_execution_authority p of Disabled \<Rightarrow> False)"

datatype planning_error =
    RetiredIntent
  | MissingCapability capability_id
  | Conflict capability_id capability_id
  | EmptyIntentStatement
  | DesiredStateConflict resource_id string string string
  | InvalidDesiredState string
  | InvalidObservation string
  | ObservationIdentityMismatch string
  | ObservationNotCurrent planning_freshness
  | InvalidPlanId string

fun planning_error_text :: "planning_error \<Rightarrow> string" where
  "planning_error_text RetiredIntent = ''intent is not in a managed state''"
| "planning_error_text (MissingCapability c) = ''missing capability '' @ c"
| "planning_error_text (Conflict left right) =
     ''capability conflict between '' @ left @ '' and '' @ right"
| "planning_error_text EmptyIntentStatement = ''intent statement cannot be empty''"
| "planning_error_text (DesiredStateConflict r key first second) =
     ''desired-state conflict for '' @ r @ '' attribute '' @ debug_str key @ '': ''
       @ debug_str first @ '' != '' @ debug_str second"
| "planning_error_text (InvalidDesiredState reason) = ''invalid desired state: '' @ reason"
| "planning_error_text (InvalidObservation reason) = ''invalid planning observation: '' @ reason"
| "planning_error_text (ObservationIdentityMismatch reason) =
     ''authoritative observation identity mismatch: '' @ reason"
| "planning_error_text (ObservationNotCurrent freshness) =
     ''planning requires current authoritative observation, got '' @ planning_freshness_as_str freshness"
| "planning_error_text (InvalidPlanId reason) = ''invalid deterministic plan id: '' @ reason"

section \<open>Compilation of an intent\<close>

definition resolve_capabilities ::
  "intent \<Rightarrow> capability_catalog \<Rightarrow> capability_id list \<Rightarrow> planning_error + resolution" where
  "resolve_capabilities intent catalog requested =
     (if \<not> is_managed intent then Inl RetiredIntent
      else let resolution = resolve catalog requested in
        case sorted_list_of_set (missing resolution) of
          m # _ \<Rightarrow> Inl (MissingCapability m)
        | [] \<Rightarrow> (case conflicts resolution of
            (left, right) # _ \<Rightarrow> Inl (Conflict left right)
          | [] \<Rightarrow> Inr resolution))"

definition template_key :: "desired_resource_blueprint \<Rightarrow> desired_resource_key" where
  "template_key t = (drb_provider t, drb_resource t, drb_observation_capability t)"

definition merge_attribute ::
  "resource_id \<Rightarrow> (string, string) btree_map \<Rightarrow> string \<times> string
     \<Rightarrow> planning_error + (string, string) btree_map" where
  "merge_attribute r state kv = (case kv of (attribute, v) \<Rightarrow>
     (case bt_get state attribute of
        Some existing \<Rightarrow>
          if existing \<noteq> v then Inl (DesiredStateConflict r attribute existing v)
          else Inr (bt_insert attribute v state)
      | None \<Rightarrow> Inr (bt_insert attribute v state)))"

definition add_template ::
  "capability_id \<Rightarrow> desired_resource_contributions \<Rightarrow> desired_resource_blueprint
     \<Rightarrow> planning_error + desired_resource_contributions" where
  "add_template capability contributions template =
     (let key = template_key template;
          entry = (case bt_get contributions key of
              Some e \<Rightarrow> e
            | None \<Rightarrow> \<lparr> contrib_state = [], contrib_capabilities = {} \<rparr>) in
      and_then (try_fold (merge_attribute (drb_resource template)) (contrib_state entry)
          (drb_state template)) (\<lambda>state.
        Inr (bt_insert key \<lparr> contrib_state = state,
               contrib_capabilities = insert capability (contrib_capabilities entry) \<rparr>
             contributions)))"

definition add_capability ::
  "capability_catalog \<Rightarrow> desired_resource_contributions \<times> string list \<Rightarrow> capability_id
     \<Rightarrow> planning_error + desired_resource_contributions \<times> string list" where
  "add_capability catalog acc capability =
     (case bt_get catalog capability of
        None \<Rightarrow> Inl (MissingCapability capability)
      | Some blueprint \<Rightarrow>
          let warnings = (if bp_desired_resources blueprint = []
                then snd acc @ [''capability '' @ capability @ '' contributes no desired resources'']
                else snd acc) in
          and_then (try_fold (add_template capability) (fst acc) (bp_desired_resources blueprint))
            (\<lambda>contributions. Inr (contributions, warnings)))"

definition contributed_resource ::
  "intent \<Rightarrow> desired_resource_key \<times> desired_resource_contribution \<Rightarrow> desired_resource" where
  "contributed_resource intent kc = (case kc of ((provider, resource, observation_capability), c) \<Rightarrow>
     \<lparr> dr_provider = provider, dr_resource = resource,
       dr_observation_capability = observation_capability,
       dr_state = contrib_state c,
       dr_reason = \<lparr> reason_summary = intent_statement intent,
         reason_intent_ids = [intent_id intent], reason_requirement_ids = [],
         reason_capability_ids = sorted_list_of_set (contrib_capabilities c) \<rparr> \<rparr>)"

definition compile_intent ::
  "intent \<Rightarrow> capability_catalog \<Rightarrow> capability_id list \<Rightarrow> planning_error + intent_plan" where
  "compile_intent intent catalog requested =
     (if trim_is_empty (intent_statement intent) then Inl EmptyIntentStatement
      else
        and_then (resolve_capabilities intent catalog requested) (\<lambda>resolution.
        and_then (try_fold (add_capability catalog) ([], [])
          (sorted_list_of_set (selected resolution))) (\<lambda>(contributions, warnings).
        let desired_state = \<lparr> ds_resources = map (contributed_resource intent) contributions \<rparr> in
        and_then (map_err (\<lambda>e. InvalidDesiredState (desired_state_validation_error_text e))
          (desired_state_validate desired_state)) (\<lambda>_.
        Inr \<lparr> ip_intent_id = intent_id intent, ip_capability_resolution = resolution,
              ip_desired_state = desired_state, ip_warnings = sort warnings \<rparr>))))"

section \<open>Reconciliation plan of one resource\<close>

definition validate_planning_observation :: "planning_observation \<Rightarrow> planning_error + unit" where
  "validate_planning_observation ob =
     (if trim_is_empty (po_authority ob) then Inl (InvalidObservation ''authority cannot be empty'')
      else if trim_is_empty (po_evidence_id ob)
        then Inl (InvalidObservation ''evidence id cannot be empty'')
      else if po_attributes ob = []
        then Inl (InvalidObservation ''authoritative attributes cannot be empty'')
      else Inr ())"

definition baseline_findings :: "planning_observation \<Rightarrow> plan_finding list" where
  "baseline_findings ob = [
     \<lparr> finding_code = ''semantic-origin'', finding_level = Pass,
       finding_message = ''desired state retains semantic provenance'' \<rparr>,
     \<lparr> finding_code = ''authoritative-observation'', finding_level = Pass,
       finding_message = ''planning is bound to current '' @ po_authority ob @ '' evidence ''
         @ po_evidence_id ob \<rparr>,
     \<lparr> finding_code = ''execution-disabled'', finding_level = Pass,
       finding_message = ''v0.2 planning produces no executable effects and grants no mutation authority'' \<rparr>]"

fun diff_attributes ::
  "(string, string) btree_map \<Rightarrow> (string, string) btree_map
     \<Rightarrow> state_change list \<times> plan_finding list \<Rightarrow> state_change list \<times> plan_finding list" where
  "diff_attributes observed [] acc = acc"
| "diff_attributes observed ((key, desired_value) # rest) (changes, findings) =
     diff_attributes observed rest
       (case bt_get observed key of
          Some current \<Rightarrow>
            if current \<noteq> desired_value
            then (changes @ [\<lparr> change_key = key, change_current = Some current,
                    change_desired = desired_value \<rparr>], findings)
            else (changes, findings)
        | None \<Rightarrow>
            (changes @ [\<lparr> change_key = key, change_current = None,
               change_desired = desired_value \<rparr>],
             findings @ [\<lparr> finding_code = ''attribute-not-observed'', finding_level = Blocker,
               finding_message = ''authoritative observation does not expose desired attribute ''
                 @ debug_str key @ ''; planning fails closed'' \<rparr>]))"

definition plan_resource ::
  "request_id \<Rightarrow> actor \<Rightarrow> desired_resource \<Rightarrow> planning_observation
     \<Rightarrow> planning_error + reconciliation_plan" where
  "plan_resource request_id actor desired observation =
     and_then (map_err (\<lambda>e. InvalidDesiredState (desired_state_validation_error_text e))
       (validate_desired_resource desired)) (\<lambda>_.
     and_then (validate_planning_observation observation) (\<lambda>_.
     if po_freshness observation \<noteq> PlanCurrent
       then Inl (ObservationNotCurrent (po_freshness observation))
     else if po_provider observation \<noteq> dr_provider desired
       then Inl (ObservationIdentityMismatch ''provider differs from desired-state observation route'')
     else if po_resource observation \<noteq> dr_resource desired
       then Inl (ObservationIdentityMismatch ''resource differs from desired-state resource'')
     else if po_observation_capability observation \<noteq> dr_observation_capability desired
       then Inl (ObservationIdentityMismatch ''capability differs from desired-state observation route'')
     else
       let (changes, findings) = diff_attributes (po_attributes observation) (dr_state desired)
             ([], baseline_findings observation);
           blocked = list_ex (\<lambda>f. finding_level f = Blocker) findings;
           status = (if blocked then PlanBlocked else if changes = [] then NoChange else ChangeProposed);
           risk = (if changes = [] then ReadOnly else SystemMutation) in
       and_then (map_err (\<lambda>e. InvalidPlanId (validation_error_text e))
         (typed_id_new ''plan id'' request_id)) (\<lambda>ident.
       Inr \<lparr> plan_id = ident, plan_request_id = request_id, plan_actor = actor,
             plan_provider = dr_provider desired, plan_resource_id = dr_resource desired,
             plan_observation_capability = dr_observation_capability desired,
             plan_reason = dr_reason desired,
             plan_observed_evidence_id = po_evidence_id observation,
             plan_prospective_risk = risk, plan_status = status,
             plan_execution_authority = Disabled,
             plan_changes = changes, plan_findings = findings \<rparr>)))"

section \<open>Plan store\<close>

datatype plan_store_error = InvalidCapacity | IdempotencyConflict plan_id

fun plan_store_error_text :: "plan_store_error \<Rightarrow> string" where
  "plan_store_error_text InvalidCapacity = ''plan store capacity must be greater than zero''"
| "plan_store_error_text (IdempotencyConflict i) =
     ''request/plan id '' @ i @ '' already identifies a different plan''"

record plan_store =
  ps_capacity :: nat
  ps_plans :: "(plan_id, reconciliation_plan) btree_map"
  ps_order :: "plan_id list"

definition plan_store_default :: plan_store where
  "plan_store_default = \<lparr> ps_capacity = DEFAULT_PLAN_STORE_CAPACITY, ps_plans = [], ps_order = [] \<rparr>"

definition plan_store_with_capacity :: "nat \<Rightarrow> plan_store_error + plan_store" where
  "plan_store_with_capacity capacity =
     (if capacity = 0 then Inl InvalidCapacity
      else Inr \<lparr> ps_capacity = capacity, ps_plans = [], ps_order = [] \<rparr>)"

fun evict_oldest ::
  "nat \<Rightarrow> (plan_id, reconciliation_plan) btree_map \<Rightarrow> plan_id list
     \<Rightarrow> (plan_id, reconciliation_plan) btree_map \<times> plan_id list" where
  "evict_oldest capacity plans [] = (plans, [])"
| "evict_oldest capacity plans (oldest # order) =
     (if length plans \<ge> capacity then evict_oldest capacity (bt_remove oldest plans) order
      else (plans, oldest # order))"

definition plan_store_insert ::
  "plan_store \<Rightarrow> reconciliation_plan \<Rightarrow> (plan_store_error + unit) \<times> plan_store" where
  "plan_store_insert st plan =
     (case bt_get (ps_plans st) (plan_id plan) of
        Some existing \<Rightarrow>
          if existing = plan then (Inr (), st) else (Inl (IdempotencyConflict (plan_id plan)), st)
      | None \<Rightarrow>
          let (plans, order) = evict_oldest (ps_capacity st) (ps_plans st) (ps_order st) in
          (Inr (), st\<lparr> ps_plans := bt_insert (plan_id plan) plan plans,
                      ps_order := order @ [plan_id plan] \<rparr>))"

definition plan_store_get :: "plan_store \<Rightarrow> plan_id \<Rightarrow> reconciliation_plan option" where
  "plan_store_get st i = bt_get (ps_plans st) i"

section \<open>Compilation is exact\<close>

definition desired_key :: "desired_resource \<Rightarrow> desired_resource_key" where
  "desired_key d = (dr_provider d, dr_resource d, dr_observation_capability d)"

text \<open>Capability \<open>c\<close> of the selection contributes template \<open>t\<close>.\<close>

definition contributes ::
  "capability_catalog \<Rightarrow> capability_id set \<Rightarrow> capability_id \<Rightarrow> desired_resource_blueprint \<Rightarrow> bool" where
  "contributes cat sel c t \<longleftrightarrow>
     c \<in> sel \<and> (\<exists>bp. bt_get cat c = Some bp \<and> t \<in> set (bp_desired_resources bp))"

definition entry_ok ::
  "(capability_id \<times> desired_resource_blueprint) set \<Rightarrow> desired_resource_key
     \<Rightarrow> desired_resource_contribution option \<Rightarrow> bool" where
  "entry_ok D key x = (case x of
      None \<Rightarrow> (\<forall>(c, t) \<in> D. template_key t \<noteq> key)
    | Some e \<Rightarrow>
        contrib_capabilities e = {c. \<exists>t. (c, t) \<in> D \<and> template_key t = key}
        \<and> contrib_capabilities e \<noteq> {}
        \<and> (\<forall>k v. bt_get (contrib_state e) k = Some v \<longleftrightarrow>
              (\<exists>c t. (c, t) \<in> D \<and> template_key t = key \<and> (k, v) \<in> set (drb_state t))))"

definition contrib_inv ::
  "(capability_id \<times> desired_resource_blueprint) set \<Rightarrow> desired_resource_contributions \<Rightarrow> bool" where
  "contrib_inv D m \<longleftrightarrow> finite D \<and> bt_wf m \<and> (\<forall>key. entry_ok D key (bt_get m key))"

lemma merge_attribute_ok:
  "merge_attribute r st (a, x) = Inr st' \<longleftrightarrow>
     st' = bt_insert a x st \<and> (bt_get st a = None \<or> bt_get st a = Some x)"
  by (auto simp: merge_attribute_def split: option.splits)

lemma merge_state_get:
  "try_fold (merge_attribute r) st kvs = Inr st' \<Longrightarrow>
     bt_get st' k = Some v \<longleftrightarrow> bt_get st k = Some v \<or> (k, v) \<in> set kvs"
proof (induction kvs arbitrary: st)
  case (Cons kv kvs)
  obtain a x where kv: "kv = (a, x)" by fastforce
  with Cons.prems obtain st1 where st1: "st1 = bt_insert a x st" "bt_get st a = None \<or> bt_get st a = Some x"
      "try_fold (merge_attribute r) st1 kvs = Inr st'"
    by (auto simp: result_simps merge_attribute_ok)
  from Cons.IH [OF st1(3)] st1(1,2) show ?case by (auto simp: kv bt_get_insert)
qed simp

lemma add_template_inv:
  assumes inv: "contrib_inv D m" and ok: "add_template c m t = Inr m'"
  shows "contrib_inv (D \<union> {(c, t)}) m'"
proof -
  let ?key = "template_key t"
  define e where "e = (case bt_get m ?key of Some e \<Rightarrow> e
     | None \<Rightarrow> \<lparr> contrib_state = [], contrib_capabilities = {} \<rparr>)"
  from ok obtain st where st: "try_fold (merge_attribute (drb_resource t)) (contrib_state e) (drb_state t) = Inr st"
      and m': "m' = bt_insert ?key \<lparr> contrib_state = st,
        contrib_capabilities = insert c (contrib_capabilities e) \<rparr> m"
    by (auto simp: add_template_def Let_def e_def result_simps)
  have key: "entry_ok D key (bt_get m key)" for key
    using inv by (simp only: contrib_inv_def)
  have caps: "contrib_capabilities e = {c. \<exists>t. (c, t) \<in> D \<and> template_key t = ?key}"
    using key [of ?key] by (auto simp: e_def entry_ok_def split: option.splits)
  have state: "bt_get (contrib_state e) k = Some v \<longleftrightarrow>
      (\<exists>c t. (c, t) \<in> D \<and> template_key t = ?key \<and> (k, v) \<in> set (drb_state t))" for k v
    using key [of ?key] by (auto simp: e_def entry_ok_def bt_get_def [of "[]"] split: option.splits)
  have "entry_ok (D \<union> {(c, t)}) key (bt_get m' key)" for key
  proof (cases "key = ?key")
    case True
    then show ?thesis
      by (auto simp: entry_ok_def m' bt_get_insert caps merge_state_get [OF st] state)
  next
    case False
    with key [of key] show ?thesis
      by (auto simp: entry_ok_def m' bt_get_insert split: option.splits)
  qed
  moreover have "bt_wf m'" "finite D" using inv by (auto simp: contrib_inv_def m')
  ultimately show ?thesis by (simp add: contrib_inv_def)
qed

lemma contrib_inv_empty: "contrib_inv {} []"
  by (simp add: contrib_inv_def entry_ok_def bt_get_def)

lemma add_capability_inv:
  assumes "contrib_inv D (fst acc)" "add_capability cat acc c = Inr acc'"
  shows "contrib_inv (D \<union> {c} \<times> {t. contributes cat {c} c t}) (fst acc')"
proof -
  from assms(2) obtain bp where bp: "bt_get cat c = Some bp"
      and f: "try_fold (add_template c) (fst acc) (bp_desired_resources bp) = Inr (fst acc')"
    by (auto simp: add_capability_def Let_def result_simps split: option.splits)
  have "contrib_inv (D \<union> (\<Union>t \<in> set (bp_desired_resources bp). {(c, t)})) (fst acc')"
    by (rule try_fold_collect [OF f, where I = contrib_inv]) (use assms(1) add_template_inv in auto)
  moreover have "(\<Union>t \<in> set (bp_desired_resources bp). {(c, t)}) = {c} \<times> {t. contributes cat {c} c t}"
    using bp by (auto simp: contributes_def)
  ultimately show ?thesis by simp
qed

lemma compile_contributions:
  assumes "try_fold (add_capability cat) ([], []) (sorted_list_of_set sel) = Inr (m, w)" "finite sel"
  shows "contrib_inv {(c, t). contributes cat sel c t} m"
proof -
  have "contrib_inv ({} \<union> (\<Union>c \<in> set (sorted_list_of_set sel). {c} \<times> {t. contributes cat {c} c t})) (fst (m, w))"
    by (rule try_fold_collect [OF assms(1), where I = "\<lambda>D acc. contrib_inv D (fst acc)"])
      (simp_all add: contrib_inv_empty add_capability_inv)
  moreover have "(\<Union>c \<in> set (sorted_list_of_set sel). {c} \<times> {t. contributes cat {c} c t})
      = {(c, t). contributes cat sel c t}"
    using assms(2) by (auto simp: contributes_def)
  ultimately show ?thesis by simp
qed

lemma resolve_capabilities_ok:
  assumes "resolve_capabilities i cat requested = Inr r"
  shows "is_managed i" "selected r = required_closure cat (set requested)"
    "finite (selected r)" "r = resolve cat requested"
    "\<forall>c \<in> selected r. bt_get cat c \<noteq> None" "conflict_pairs cat (selected r) = {}"
proof -
  let ?r = "resolve cat requested"
  from assms have r: "is_managed i" "r = ?r" "sorted_list_of_set (missing ?r) = []" "conflicts ?r = []"
    by (auto simp: resolve_capabilities_def Let_def split: if_splits list.splits prod.splits)
  then show "is_managed i" "r = ?r" by simp_all
  show sel: "selected r = required_closure cat (set requested)"
    using r(2) by (simp add: resolve_spec Let_def)
  show fin: "finite (selected r)" using r(2) by (simp add: finite_selected_resolve)
  have "missing ?r = {}" using r(3) fin r(2)
    by (simp add: resolve_spec Let_def)
  then show "\<forall>c \<in> selected r. bt_get cat c \<noteq> None"
    using r(2) by (auto simp: resolve_spec Let_def)
  have "finite (conflict_pairs cat (selected r))"
  proof (rule finite_subset)
    show "conflict_pairs cat (selected r) \<subseteq> (\<lambda>(a, b). canonical_conflict_pair a b) ` (selected r \<times> selected r)"
      by (auto simp: conflict_pairs_def)
  qed (use fin in simp)
  with r(2,4) show "conflict_pairs cat (selected r) = {}"
    by (simp add: resolve_spec Let_def)
qed

lemma compile_intent_ok:
  assumes "compile_intent i cat requested = Inr plan"
  shows "\<exists>r m. resolve_capabilities i cat requested = Inr r
    \<and> contrib_inv {(c, t). contributes cat (required_closure cat (set requested)) c t} m
    \<and> ds_resources (ip_desired_state plan) = map (contributed_resource i) m
    \<and> ip_capability_resolution plan = r
    \<and> desired_state_validate (ip_desired_state plan) = Inr ()"
proof -
  from assms obtain r m w where rw: "resolve_capabilities i cat requested = Inr r"
      "try_fold (add_capability cat) ([], []) (sorted_list_of_set (selected r)) = Inr (m, w)"
      "desired_state_validate \<lparr> ds_resources = map (contributed_resource i) m \<rparr> = Inr ()"
      "ip_desired_state plan = \<lparr> ds_resources = map (contributed_resource i) m \<rparr>"
      "ip_capability_resolution plan = r"
    by (auto simp: compile_intent_def Let_def result_simps split: if_splits)
  moreover note resolve_capabilities_ok [OF rw(1)] compile_contributions [OF rw(2)]
  ultimately show ?thesis by auto
qed

definition compiled_exactly ::
  "capability_catalog \<Rightarrow> capability_id set \<Rightarrow> desired_resource list \<Rightarrow> bool" where
  "compiled_exactly cat sel ds \<longleftrightarrow>
     distinct (map desired_key ds)
     \<and> desired_key ` set ds = {template_key t | c t. contributes cat sel c t}
     \<and> (\<forall>d \<in> set ds.
          (\<forall>k v. bt_get (dr_state d) k = Some v \<longleftrightarrow>
             (\<exists>c t. contributes cat sel c t \<and> template_key t = desired_key d \<and> (k, v) \<in> set (drb_state t)))
          \<and> set (reason_capability_ids (dr_reason d))
              = {c. \<exists>t. contributes cat sel c t \<and> template_key t = desired_key d})"

lemma desired_key_contributed [simp]: "desired_key (contributed_resource i kc) = fst kc"
  by (auto simp: desired_key_def contributed_resource_def split: prod.splits)

lemma contributed_resource_fields [simp]:
  "dr_state (contributed_resource i kc) = contrib_state (snd kc)"
  "reason_capability_ids (dr_reason (contributed_resource i kc))
     = sorted_list_of_set (contrib_capabilities (snd kc))"
  by (simp_all add: contributed_resource_def split: prod.splits)

lemma contrib_inv_exact:
  assumes inv: "contrib_inv {(c, t). contributes cat sel c t} m"
  shows "compiled_exactly cat sel (map (contributed_resource i) m)"
proof -
  let ?D = "{(c, t). contributes cat sel c t}"
  have wf: "bt_wf m" and fin: "finite ?D" and entry: "\<And>key. entry_ok ?D key (bt_get m key)"
    using inv by (simp_all only: contrib_inv_def)
  have keys: "set (bt_keys m) = {template_key t | c t. contributes cat sel c t}" (is "_ = ?K")
  proof (intro set_eqI)
    fix key
    show "key \<in> set (bt_keys m) \<longleftrightarrow> key \<in> ?K"
      using entry [of key] by (auto simp: set_bt_keys entry_ok_def split: option.splits)
  qed
  have each: "(\<forall>k v. bt_get (contrib_state e) k = Some v \<longleftrightarrow>
        (\<exists>c t. contributes cat sel c t \<and> template_key t = key \<and> (k, v) \<in> set (drb_state t)))
      \<and> set (sorted_list_of_set (contrib_capabilities e))
        = {c. \<exists>t. contributes cat sel c t \<and> template_key t = key}"
    if "(key, e) \<in> set m" for key e
  proof -
    from that wf have "bt_get m key = Some e" by (simp add: bt_get_wf_iff)
    with entry [of key] have e: "entry_ok ?D key (Some e)" by simp
    then have caps: "contrib_capabilities e = {c. \<exists>t. contributes cat sel c t \<and> template_key t = key}"
      by (simp add: entry_ok_def)
    have "finite (contrib_capabilities e)"
      by (rule finite_subset [OF _ finite_imageI [OF fin, of fst]]) (auto simp: caps image_iff)
    with e caps show ?thesis by (simp add: entry_ok_def)
  qed
  have "map desired_key (map (contributed_resource i) m) = bt_keys m"
    by (simp add: bt_keys_def)
  with wf keys have "distinct (map desired_key (map (contributed_resource i) m))"
      "desired_key ` set (map (contributed_resource i) m) = ?K"
    using bt_wf_distinct by (metis, metis list.set_map)
  moreover have "\<forall>kc \<in> set m.
      (\<forall>k v. bt_get (contrib_state (snd kc)) k = Some v \<longleftrightarrow>
        (\<exists>c t. contributes cat sel c t \<and> template_key t = fst kc \<and> (k, v) \<in> set (drb_state t)))
      \<and> set (sorted_list_of_set (contrib_capabilities (snd kc)))
        = {c. \<exists>t. contributes cat sel c t \<and> template_key t = fst kc}"
    by (intro ballI each) simp
  ultimately show ?thesis by (simp add: compiled_exactly_def ball_simps)
qed

text \<open>
  C9. Compiling an intent is exact and fails closed. A successful compilation of an intent (which is
  then active, with every selected capability known and no two of them in conflict) yields one
  desired resource per observation route the selected capabilities contribute to, and no other; its
  state holds attribute \<open>k\<close> with value \<open>v\<close> exactly when some selected capability's template for
  that route states it, so contradicting templates never compile; and its recorded provenance is
  exactly the set of capabilities that contributed to it.
\<close>

theorem compile_intent_exact:
  assumes "compile_intent i cat requested = Inr plan"
  shows "is_managed i
    \<and> (\<forall>c \<in> required_closure cat (set requested). bt_get cat c \<noteq> None)
    \<and> conflict_pairs cat (required_closure cat (set requested)) = {}
    \<and> compiled_exactly cat (required_closure cat (set requested)) (ds_resources (ip_desired_state plan))"
proof -
  from compile_intent_ok [OF assms] obtain r m where r: "resolve_capabilities i cat requested = Inr r"
      and m: "contrib_inv {(c, t). contributes cat (required_closure cat (set requested)) c t} m"
      and ds: "ds_resources (ip_desired_state plan) = map (contributed_resource i) m" by auto
  from resolve_capabilities_ok [OF r] contrib_inv_exact [OF m] ds show ?thesis by simp
qed

section \<open>Plans\<close>

definition diff_change :: "(string, string) btree_map \<Rightarrow> string \<times> string \<Rightarrow> state_change" where
  "diff_change observed kv = \<lparr> change_key = fst kv, change_current = bt_get observed (fst kv),
     change_desired = snd kv \<rparr>"

definition apply_changes ::
  "(string, string) btree_map \<Rightarrow> state_change list \<Rightarrow> (string, string) btree_map" where
  "apply_changes observed changes =
     foldl (\<lambda>m c. bt_insert (change_key c) (change_desired c) m) observed changes"

lemma diff_attributes_changes:
  "fst (diff_attributes observed kvs acc) =
     fst acc @ map (diff_change observed) (filter (\<lambda>kv. bt_get observed (fst kv) \<noteq> Some (snd kv)) kvs)"
  by (induction observed kvs acc rule: diff_attributes.induct)
    (auto simp: diff_change_def split: option.splits)

lemma diff_attributes_blockers:
  "list_ex (\<lambda>f. finding_level f = Blocker) (snd (diff_attributes observed kvs acc)) \<longleftrightarrow>
     list_ex (\<lambda>f. finding_level f = Blocker) (snd acc) \<or> (\<exists>kv \<in> set kvs. bt_get observed (fst kv) = None)"
  by (induction observed kvs acc rule: diff_attributes.induct) (auto split: option.splits)

lemma plan_resource_ok:
  assumes "plan_resource rq ac d ob = Inr p"
  shows "validate_desired_resource d = Inr ()" "validate_planning_observation ob = Inr ()"
    "po_freshness ob = PlanCurrent"
    "po_provider ob = dr_provider d" "po_resource ob = dr_resource d"
    "po_observation_capability ob = dr_observation_capability d"
    "plan_changes p = fst (diff_attributes (po_attributes ob) (dr_state d) ([], baseline_findings ob))"
    "plan_findings p = snd (diff_attributes (po_attributes ob) (dr_state d) ([], baseline_findings ob))"
    "plan_status p = (if plan_has_blockers p then PlanBlocked
       else if plan_changes p = [] then NoChange else ChangeProposed)"
    "plan_prospective_risk p = (if plan_changes p = [] then ReadOnly else SystemMutation)"
    "plan_observed_evidence_id p = po_evidence_id ob" "plan_id p = rq" "plan_request_id p = rq"
    "plan_resource_id p = dr_resource d" "plan_provider p = dr_provider d"
    "plan_observation_capability p = dr_observation_capability d" "plan_reason p = dr_reason d"
    "plan_actor p = ac"
  using assms
  by (auto simp: plan_resource_def result_simps typed_id_new_ok plan_has_blockers_def Let_def
      split: if_splits prod.splits)

lemma plan_resource_Inr:
  assumes "validate_desired_resource d = Inr ()" "validate_planning_observation ob = Inr ()"
    "po_freshness ob = PlanCurrent" "po_provider ob = dr_provider d" "po_resource ob = dr_resource d"
    "po_observation_capability ob = dr_observation_capability d" "typed_id_new ''plan id'' rq = Inr rq"
  shows "\<exists>p. plan_resource rq ac d ob = Inr p"
  using assms by (simp add: plan_resource_def Let_def split: prod.splits)

text \<open>
  C10. A reconciliation plan is the exact difference between desired state and current authoritative
  evidence for the same route: its changes list, in key order, the desired attributes whose observed
  value differs or is absent; it is no-change exactly when every desired attribute is observed as
  desired, blocked exactly when some desired attribute is not observed at all (which is when it
  carries blockers), its prospective risk is read-only exactly when nothing changes, and it never
  carries execution authority.
\<close>

theorem plan_resource_exact:
  assumes "plan_resource rq ac d ob = Inr p"
  shows "po_freshness ob = PlanCurrent
    \<and> (po_provider ob, po_resource ob, po_observation_capability ob) = desired_key d
    \<and> plan_observed_evidence_id p = po_evidence_id ob
    \<and> plan_changes p = map (diff_change (po_attributes ob))
        (filter (\<lambda>kv. bt_get (po_attributes ob) (fst kv) \<noteq> Some (snd kv)) (dr_state d))
    \<and> (plan_status p = NoChange \<longleftrightarrow> (\<forall>(k, v) \<in> set (dr_state d). bt_get (po_attributes ob) k = Some v))
    \<and> (plan_status p = PlanBlocked \<longleftrightarrow> (\<exists>(k, v) \<in> set (dr_state d). bt_get (po_attributes ob) k = None))
    \<and> (plan_status p = PlanBlocked \<longleftrightarrow> plan_has_blockers p)
    \<and> (plan_prospective_risk p = ReadOnly \<longleftrightarrow> plan_status p = NoChange)
    \<and> \<not> execution_authorized p"
proof -
  note ok = plan_resource_ok [OF assms]
  have ch: "plan_changes p = map (diff_change (po_attributes ob))
      (filter (\<lambda>kv. bt_get (po_attributes ob) (fst kv) \<noteq> Some (snd kv)) (dr_state d))"
    by (simp add: ok(7) diff_attributes_changes)
  have bl: "plan_has_blockers p \<longleftrightarrow> (\<exists>(k, v) \<in> set (dr_state d). bt_get (po_attributes ob) k = None)"
    by (force simp: plan_has_blockers_def ok(8) diff_attributes_blockers baseline_findings_def)
  have nil: "plan_changes p = [] \<longleftrightarrow> (\<forall>(k, v) \<in> set (dr_state d). bt_get (po_attributes ob) k = Some v)"
    by (auto simp: ch filter_empty_conv)
  have "plan_has_blockers p \<Longrightarrow> plan_changes p \<noteq> []" using bl nil by fastforce
  then show ?thesis
    unfolding ch [symmetric] bl [symmetric] nil [symmetric]
    using ok by (auto simp: desired_key_def execution_authorized_def split: execution_authority.splits)
qed

lemma apply_diff_get:
  assumes "distinct (map fst kvs)"
  shows "bt_get (apply_changes m (map (diff_change observed) kvs)) k =
    (case map_of kvs k of Some v \<Rightarrow> Some v | None \<Rightarrow> bt_get m k)"
  using assms
proof (induction kvs arbitrary: m)
  case (Cons kv kvs)
  then have "map_of kvs (fst kv) = None" by (simp add: map_of_eq_None_iff)
  with Cons show ?case
    by (cases kv) (auto simp: apply_changes_def diff_change_def bt_get_insert split: option.splits)
qed (simp add: apply_changes_def)

lemma apply_changes_nonempty: "m \<noteq> [] \<Longrightarrow> apply_changes m cs \<noteq> []"
proof (induction cs arbitrary: m)
  case (Cons c cs)
  have "bt_insert k v m \<noteq> []" for k v by (cases m) simp_all
  with Cons show ?case by (simp add: apply_changes_def)
qed (simp add: apply_changes_def)

lemma plan_apply_get:
  assumes "plan_resource rq ac d ob = Inr p" "bt_wf (dr_state d)"
  shows "bt_get (apply_changes (po_attributes ob) (plan_changes p)) k =
    (case bt_get (dr_state d) k of Some v \<Rightarrow> Some v | None \<Rightarrow> bt_get (po_attributes ob) k)"
proof -
  let ?q = "\<lambda>kv. bt_get (po_attributes ob) (fst kv) \<noteq> Some (snd kv)"
  let ?kvs = "filter ?q (dr_state d)"
  have dist: "distinct (map fst (dr_state d))"
    using bt_wf_distinct [OF assms(2)] by (simp add: bt_keys_def)
  then have distf: "distinct (map fst ?kvs)" by (rule distinct_map_filter)
  have "plan_changes p = map (diff_change (po_attributes ob)) ?kvs"
    by (simp add: plan_resource_ok(7) [OF assms(1)] diff_attributes_changes)
  moreover have "map_of ?kvs k = (case bt_get (dr_state d) k of None \<Rightarrow> None
      | Some v \<Rightarrow> if ?q (k, v) then Some v else None)"
    using dist distf
    by (auto simp: bt_get_def [of "dr_state d"] map_of_eq_None_iff image_iff
        dest: eq_key_imp_eq_value split: option.splits)
  ultimately show ?thesis
    using apply_diff_get [OF distf] by (auto split: option.splits)
qed

text \<open>
  C24. Reconciliation converges in one step: if the changes of a plan are applied to the attributes it
  was planned against, planning the same desired state again reports no change, and attributes the
  desired state does not mention keep their observed value.
\<close>

theorem plan_resource_converges:
  assumes "plan_resource rq ac d ob = Inr p" "bt_wf (dr_state d)"
  shows "let ob' = ob\<lparr> po_attributes := apply_changes (po_attributes ob) (plan_changes p) \<rparr> in
    (\<exists>p'. plan_resource rq ac d ob' = Inr p' \<and> plan_status p' = NoChange)
    \<and> (\<forall>k. bt_get (dr_state d) k = None \<longrightarrow> bt_get (po_attributes ob') k = bt_get (po_attributes ob) k)"
proof -
  let ?ob = "ob\<lparr> po_attributes := apply_changes (po_attributes ob) (plan_changes p) \<rparr>"
  note ok = plan_resource_ok [OF assms(1)]
  have "validate_planning_observation ?ob = Inr ()"
    using ok(2) apply_changes_nonempty by (auto simp: validate_planning_observation_def split: if_splits)
  moreover have "typed_id_new ''plan id'' rq = Inr rq"
    using assms(1)
    by (auto simp: plan_resource_def result_simps typed_id_new_ok Let_def split: if_splits prod.splits)
  ultimately obtain p' where p': "plan_resource rq ac d ?ob = Inr p'"
    using plan_resource_Inr [of d ?ob rq] ok by auto
  note ok' = plan_resource_ok [OF p']
  have sat: "bt_get (po_attributes ?ob) (fst kv) = Some (snd kv)" if "kv \<in> set (dr_state d)" for kv
  proof -
    have "bt_get (dr_state d) (fst kv) = Some (snd kv)" using that assms(2) by (simp add: bt_get_wf_iff)
    with plan_apply_get [OF assms, of "fst kv"] show ?thesis by simp
  qed
  then have "plan_changes p' = []"
    by (simp add: ok'(7) diff_attributes_changes filter_empty_conv)
  moreover have "\<not> plan_has_blockers p'"
    using sat by (auto simp: plan_has_blockers_def ok'(8) diff_attributes_blockers baseline_findings_def)
  ultimately show ?thesis
    using p' ok'(9) plan_apply_get [OF assms] by (auto simp: Let_def)
qed

section \<open>The plan store is a bounded queue\<close>

definition plan_store_inv :: "plan_store \<Rightarrow> bool" where
  "plan_store_inv st \<longleftrightarrow> 0 < ps_capacity st \<and> bt_wf (ps_plans st) \<and> distinct (ps_order st)
     \<and> set (ps_order st) = set (bt_keys (ps_plans st))
     \<and> (\<forall>k p. bt_get (ps_plans st) k = Some p \<longrightarrow> plan_id p = k)
     \<and> length (ps_plans st) \<le> ps_capacity st"

definition retained :: "plan_store \<Rightarrow> reconciliation_plan list" where
  "retained st = map (\<lambda>i. the (bt_get (ps_plans st) i)) (ps_order st)"

text \<open>The specification: a queue of at most \<open>c\<close> plans with distinct ids, oldest first.\<close>

definition queue_insert :: "nat \<Rightarrow> reconciliation_plan list \<Rightarrow> reconciliation_plan \<Rightarrow> reconciliation_plan list" where
  "queue_insert c q p =
     (if plan_id p \<in> plan_id ` set q then q else (if length q < c then q else tl q) @ [p])"

lemma inv_length_order: "plan_store_inv st \<Longrightarrow> length (ps_order st) = length (ps_plans st)"
  by (metis bt_keys_def bt_wf_distinct distinct_card length_map plan_store_inv_def)

lemma evict_inv:
  assumes "plan_store_inv st"
  shows "evict_oldest (ps_capacity st) (ps_plans st) (ps_order st) =
    (if length (ps_plans st) < ps_capacity st then (ps_plans st, ps_order st)
     else (bt_remove (hd (ps_order st)) (ps_plans st), tl (ps_order st)))"
proof (cases "ps_order st")
  case Nil
  then show ?thesis using inv_length_order [OF assms] assms by (simp add: plan_store_inv_def)
next
  case (Cons i order)
  have len: "length (ps_plans st) = Suc (length order)"
    using inv_length_order [OF assms] Cons by simp
  have "bt_contains (ps_plans st) i"
    using assms Cons by (auto simp: plan_store_inv_def bt_contains_keys)
  then have "length (bt_remove i (ps_plans st)) < length (ps_plans st)"
    using assms len by (simp add: length_bt_remove plan_store_inv_def)
  with assms Cons show ?thesis
    by (cases order) (auto simp: plan_store_inv_def)
qed

lemma retained_ids:
  assumes "plan_store_inv st"
  shows "plan_id ` set (retained st) = set (bt_keys (ps_plans st))"
proof -
  have "plan_id (the (bt_get (ps_plans st) i)) = i" if "i \<in> set (ps_order st)" for i
    using assms that by (auto simp: plan_store_inv_def set_bt_keys)
  with assms show ?thesis by (force simp: retained_def plan_store_inv_def image_iff)
qed

lemma plan_store_insert_refines:
  assumes inv: "plan_store_inv st"
  shows "plan_store_inv (snd (plan_store_insert st p))
    \<and> retained (snd (plan_store_insert st p)) = queue_insert (ps_capacity st) (retained st) p
    \<and> ps_capacity (snd (plan_store_insert st p)) = ps_capacity st"
proof (cases "bt_get (ps_plans st) (plan_id p)")
  case (Some e)
  then have "plan_id p \<in> plan_id ` set (retained st)"
    using retained_ids [OF inv] by (simp add: set_bt_keys)
  with Some inv show ?thesis by (simp add: plan_store_insert_def queue_insert_def)
next
  case None
  then have new: "plan_id p \<notin> plan_id ` set (retained st)" "plan_id p \<notin> set (ps_order st)"
    using retained_ids [OF inv] inv by (simp_all add: set_bt_keys plan_store_inv_def)
  have len: "length (retained st) = length (ps_plans st)" "length (ps_order st) = length (ps_plans st)"
    using inv_length_order [OF inv] by (simp_all add: retained_def)
  show ?thesis
  proof (cases "length (ps_plans st) < ps_capacity st")
    case True
    with None inv new len show ?thesis
      by (auto simp: plan_store_insert_def evict_inv [OF inv] queue_insert_def retained_def
          plan_store_inv_def bt_get_insert bt_keys_insert length_bt_insert bt_contains_def)
  next
    case False
    then obtain i order where io: "ps_order st = i # order"
      using len inv by (cases "ps_order st") (auto simp: plan_store_inv_def)
    have i: "bt_contains (ps_plans st) i" "i \<notin> set order" "i \<noteq> plan_id p"
      using inv io new by (auto simp: plan_store_inv_def bt_contains_keys)
    have keys: "set (bt_keys (bt_remove i (ps_plans st))) = set order"
      using inv io i(2) by (auto simp: set_bt_keys bt_get_remove plan_store_inv_def)
    let ?plans = "bt_insert (plan_id p) p (bt_remove i (ps_plans st))"
    have ins: "plan_store_insert st p =
        (Inr (), st\<lparr> ps_plans := ?plans, ps_order := order @ [plan_id p] \<rparr>)"
      using evict_inv [OF inv] None False io
      by (simp add: plan_store_insert_def del: evict_oldest.simps)
    have get: "bt_get ?plans k = (if k = plan_id p then Some p else if k = i then None
        else bt_get (ps_plans st) k)" for k
      by (simp add: bt_get_insert bt_get_remove)
    have "\<not> bt_contains (bt_remove i (ps_plans st)) (plan_id p)"
      using None by (simp add: bt_contains_def bt_get_remove)
    then have "length ?plans = length (ps_plans st)"
      using inv i(1) io len(2)
      by (auto simp: length_bt_insert bt_remove_wf length_bt_remove plan_store_inv_def)
    then have "plan_store_inv (st\<lparr> ps_plans := ?plans, ps_order := order @ [plan_id p] \<rparr>)"
      using inv io new(2) keys get
      by (auto simp: plan_store_inv_def bt_keys_insert split: if_splits)
    moreover have "map (\<lambda>k. the (bt_get ?plans k)) order = map (\<lambda>k. the (bt_get (ps_plans st) k)) order"
      using new(2) io i(2) by (intro map_cong) (auto simp: get)
    ultimately show ?thesis
      using False new(1) len io by (simp add: ins retained_def queue_insert_def get)
  qed
qed

lemma plan_store_run_refines:
  assumes "plan_store_inv st"
  shows "let st' = foldl (\<lambda>s p. snd (plan_store_insert s p)) st ps in
    plan_store_inv st' \<and> retained st' = foldl (queue_insert (ps_capacity st)) (retained st) ps
    \<and> ps_capacity st' = ps_capacity st"
  using assms
proof (induction ps arbitrary: st)
  case (Cons p ps)
  with plan_store_insert_refines [OF Cons.prems, of p]
    Cons.IH [of "snd (plan_store_insert st p)"] show ?case by (simp add: Let_def)
qed (simp add: Let_def)

text \<open>
  C23. The plan store refines a bounded queue: from an empty store of any positive capacity, after any
  sequence of insertions the retained plans are those of a first-in first-out queue of that capacity
  in which a plan whose id is already present changes nothing; lookups return exactly the retained
  plans, and there are never more than the capacity.
\<close>

theorem plan_store_refines_queue:
  assumes "plan_store_with_capacity c = Inr st0"
  shows "let st = foldl (\<lambda>s p. snd (plan_store_insert s p)) st0 ps in
    retained st = foldl (queue_insert c) [] ps
    \<and> length (ps_plans st) \<le> c
    \<and> (\<forall>i p. plan_store_get st i = Some p \<longleftrightarrow> p \<in> set (retained st) \<and> plan_id p = i)"
proof -
  define st where "st = foldl (\<lambda>s p. snd (plan_store_insert s p)) st0 ps"
  have st0: "st0 = \<lparr> ps_capacity = c, ps_plans = [], ps_order = [] \<rparr>" "0 < c"
    using assms(1) by (auto simp: plan_store_with_capacity_def split: if_splits)
  then have "plan_store_inv st0" by (simp add: plan_store_inv_def bt_get_def)
  from plan_store_run_refines [OF this, of ps]
  have inv: "plan_store_inv st" and ret: "retained st = foldl (queue_insert c) [] ps" "ps_capacity st = c"
    using st0 by (simp_all add: Let_def st_def retained_def)
  have "plan_store_get st i = Some p \<longleftrightarrow> p \<in> set (retained st) \<and> plan_id p = i" for i p
    using inv by (auto simp: plan_store_get_def retained_def plan_store_inv_def set_bt_keys image_iff)
  with inv ret show ?thesis by (simp add: plan_store_inv_def Let_def flip: st_def)
qed

section \<open>Instances\<close>

definition example_intent :: intent where
  "example_intent = \<lparr> intent_id = ''intent:edit'', intent_actor = \<lparr> actor_id = ''uid:1000'',
     actor_kind = Human, actor_interactive = True \<rparr>, intent_statement = ''edit text'',
     intent_status = Active, intent_requirements = [], intent_supersedes = [] \<rparr>"

definition example_template :: "string \<Rightarrow> desired_resource_blueprint" where
  "example_template key = \<lparr> drb_provider = ''systemd'', drb_resource = ''unit:editor'',
     drb_observation_capability = ''observe.unit'', drb_state = [(key, ''yes'')] \<rparr>"

definition example_catalog :: capability_catalog where
  "example_catalog =
     catalog_register \<lparr> bp_id = ''editor'', bp_title = ''Editor'',
       bp_relations = [\<lparr> rel_kind = RelRequires, rel_capability = ''fonts'' \<rparr>],
       bp_desired_resources = [example_template ''active''] \<rparr>
     (catalog_register \<lparr> bp_id = ''fonts'', bp_title = ''Fonts'',
       bp_relations = [\<lparr> rel_kind = RelRequires, rel_capability = ''editor'' \<rparr>],
       bp_desired_resources = [example_template ''enabled''] \<rparr> [])"

definition example_desired :: desired_resource where
  "example_desired = \<lparr> dr_provider = ''systemd'', dr_resource = ''unit:editor'',
     dr_observation_capability = ''observe.unit'', dr_state = [(''active'', ''yes''), (''enabled'', ''yes'')],
     dr_reason = \<lparr> reason_summary = ''edit text'', reason_intent_ids = [''intent:edit''],
       reason_requirement_ids = [], reason_capability_ids = [''editor'', ''fonts''] \<rparr> \<rparr>"

definition example_observation :: planning_observation where
  "example_observation = \<lparr> po_provider = ''systemd'', po_resource = ''unit:editor'',
     po_observation_capability = ''observe.unit'', po_authority = ''native-api'', po_evidence_id = ''e1'',
     po_freshness = PlanCurrent, po_attributes = [(''active'', ''no''), (''enabled'', ''yes'')] \<rparr>"

text \<open>Two capabilities that require each other and contribute to one route.\<close>

lemma compile_intent_exact_witness:
  "\<exists>plan. compile_intent example_intent example_catalog [''editor''] = Inr plan
     \<and> compiled_exactly example_catalog (required_closure example_catalog (set [''editor'']))
         (ds_resources (ip_desired_state plan))"
proof -
  have "is_ok (compile_intent example_intent example_catalog [''editor''])" by code_simp
  then obtain plan where "compile_intent example_intent example_catalog [''editor''] = Inr plan"
    by (auto simp: is_ok_iff)
  with compile_intent_exact [OF this] show ?thesis by blast
qed

lemma plan_resource_exact_witness:
  "\<exists>p. plan_resource ''request:1'' (intent_actor example_intent) example_desired example_observation = Inr p
     \<and> plan_changes p = [diff_change (po_attributes example_observation) (''active'', ''yes'')]
     \<and> plan_prospective_risk p \<noteq> ReadOnly"
proof -
  let ?plan = "plan_resource ''request:1'' (intent_actor example_intent) example_desired example_observation"
  have "is_ok ?plan" by code_simp
  then obtain p where p: "?plan = Inr p" by (auto simp: is_ok_iff)
  note exact = plan_resource_exact [OF p]
  have "filter (\<lambda>kv. bt_get (po_attributes example_observation) (fst kv) \<noteq> Some (snd kv))
      (dr_state example_desired) = [(''active'', ''yes'')]" by code_simp
  moreover have "\<not> (\<forall>(k, v) \<in> set (dr_state example_desired).
      bt_get (po_attributes example_observation) k = Some v)" by code_simp
  ultimately have "plan_changes p = [diff_change (po_attributes example_observation) (''active'', ''yes'')]
      \<and> plan_prospective_risk p \<noteq> ReadOnly"
    using exact by (simp only: list.map) blast
  with p show ?thesis by blast
qed

lemma plan_resource_converges_witness:
  "\<exists>p p'. plan_resource ''request:1'' (intent_actor example_intent) example_desired example_observation = Inr p
     \<and> plan_changes p \<noteq> []
     \<and> plan_resource ''request:1'' (intent_actor example_intent) example_desired
         (example_observation\<lparr> po_attributes := apply_changes (po_attributes example_observation) (plan_changes p) \<rparr>)
       = Inr p' \<and> plan_status p' = NoChange"
proof -
  let ?plan = "plan_resource ''request:1'' (intent_actor example_intent) example_desired example_observation"
  have "\<not> (case ?plan of Inl _ \<Rightarrow> True | Inr p \<Rightarrow> plan_changes p = [])" by code_simp
  then obtain p where p: "?plan = Inr p" "plan_changes p \<noteq> []" by (auto split: sum.splits)
  have "bt_wf (dr_state example_desired)" by code_simp
  from plan_resource_converges [OF p(1) this] p show ?thesis by (auto simp: Let_def)
qed

definition example_plan :: "string \<Rightarrow> reconciliation_plan" where
  "example_plan i = \<lparr> plan_id = i, plan_request_id = i, plan_actor = intent_actor example_intent,
     plan_provider = ''systemd'', plan_resource_id = ''unit:editor'',
     plan_observation_capability = ''observe.unit'', plan_reason = dr_reason example_desired,
     plan_observed_evidence_id = ''e1'', plan_prospective_risk = ReadOnly, plan_status = NoChange,
     plan_execution_authority = Disabled, plan_changes = [], plan_findings = [] \<rparr>"

lemma plan_store_refines_queue_witness:
  "\<exists>st0. plan_store_with_capacity 2 = Inr st0
     \<and> map plan_id (retained (foldl (\<lambda>s p. snd (plan_store_insert s p)) st0
          (map example_plan [''a'', ''b'', ''a'', ''c'']))) = [''b'', ''c'']"
proof -
  let ?ps = "map example_plan [''a'', ''b'', ''a'', ''c'']"
  have ok: "plan_store_with_capacity 2 = Inr \<lparr> ps_capacity = 2, ps_plans = [], ps_order = [] \<rparr>" (is "_ = Inr ?st0")
    by (simp add: plan_store_with_capacity_def)
  have "map plan_id (foldl (queue_insert 2) [] ?ps) = [''b'', ''c'']"
    by (simp add: queue_insert_def example_plan_def)
  moreover have "retained (foldl (\<lambda>s p. snd (plan_store_insert s p)) ?st0 ?ps) = foldl (queue_insert 2) [] ?ps"
    using plan_store_refines_queue [OF ok, of ?ps] unfolding Let_def by (rule conjunct1)
  ultimately show ?thesis
    by (intro exI [of _ ?st0] conjI ok) (simp only:)
qed

end
