(* ===== verification/Session_Identity.thy ===== *)
theory Session_Identity
  imports Linura_Core
begin

text \<open>
  Session resource identities: \<open>session_epoch.rs\<close>, \<open>session_transition.rs\<close> and
  \<open>sleep_invocation.rs\<close> of \<open>crates/linura-core/src\<close>. Each identity has one canonical resource
  text; the theory shows that printing always succeeds and that parsing and printing are inverse.
\<close>

section \<open>Session epochs and native locks\<close>

datatype session_epoch_error =
    InvalidBootId | InvalidSessionId | InvalidCreationGeneration | InvalidLockGeneration
  | InvalidSecurityOwnerInvocation | InvalidResource

fun session_epoch_error_text :: "session_epoch_error \<Rightarrow> string" where
  "session_epoch_error_text InvalidBootId =
     ''boot identity must be a nonzero canonical lowercase UUID''"
| "session_epoch_error_text InvalidSessionId =
     ''session identity must be 1..64 ASCII letters, digits, '' @ [CHR 0x27, CHR ''_'', CHR 0x27]
       @ '' or '' @ [CHR 0x27, CHR ''-'', CHR 0x27] @ '', excluding ambient logind aliases''"
| "session_epoch_error_text InvalidCreationGeneration =
     ''session creation generation must be nonzero''"
| "session_epoch_error_text InvalidLockGeneration = ''native lock generation must be nonzero''"
| "session_epoch_error_text InvalidSecurityOwnerInvocation =
     ''security-owner invocation must be a nonzero canonical lowercase UUID''"
| "session_epoch_error_text InvalidResource = ''session epoch resource is not canonical''"

definition RESOURCE_PREFIX :: string where
  "RESOURCE_PREFIX = ''session:epoch:''"

definition MAX_SESSION_ID_BYTES :: nat where
  "MAX_SESSION_ID_BYTES = 64"

definition canonical_nonzero_uuid :: "string \<Rightarrow> bool" where
  "canonical_nonzero_uuid v \<longleftrightarrow>
     length v = 36
     \<and> v \<noteq> ''00000000-0000-0000-0000-000000000000''
     \<and> list_all (\<lambda>(index, b). if index = 8 \<or> index = 13 \<or> index = 18 \<or> index = 23
          then b = CHR ''-'' else is_lower_hex b) (enumerate 0 v)"

definition boot_id_new :: "string \<Rightarrow> session_epoch_error + string" where
  "boot_id_new v = (if \<not> canonical_nonzero_uuid v then Inl InvalidBootId else Inr v)"

definition security_owner_invocation_new :: "string \<Rightarrow> session_epoch_error + string" where
  "security_owner_invocation_new v =
     (if \<not> canonical_nonzero_uuid v then Inl InvalidSecurityOwnerInvocation else Inr v)"

record session_epoch =
  ep_boot :: string
  ep_uid :: "32 word"
  ep_session_id :: string
  ep_created_monotonic_us :: u64

definition session_epoch_new ::
  "string \<Rightarrow> 32 word \<Rightarrow> string \<Rightarrow> u64 \<Rightarrow> session_epoch_error + session_epoch" where
  "session_epoch_new boot uid session_id created =
     (if session_id = [] \<or> length session_id > MAX_SESSION_ID_BYTES
         \<or> session_id \<in> {''self'', ''auto'', ''current''}
         \<or> \<not> list_all (\<lambda>b. is_ascii_alphanumeric b \<or> b = CHR ''_'' \<or> b = CHR ''-'') session_id
      then Inl InvalidSessionId
      else if created = 0 then Inl InvalidCreationGeneration
      else Inr \<lparr> ep_boot = boot, ep_uid = uid, ep_session_id = session_id,
                 ep_created_monotonic_us = created \<rparr>)"

definition canonical_u64 :: "string \<Rightarrow> session_epoch_error + u64" where
  "canonical_u64 v =
     (if v = [] \<or> (length v > 1 \<and> prefix ''0'' v) \<or> \<not> list_all is_digit v
      then Inl InvalidResource
      else ok_or (parse_u64 v) InvalidResource)"

definition session_epoch_from_resource :: "resource_id \<Rightarrow> session_epoch_error + session_epoch" where
  "session_epoch_from_resource resource =
     and_then (ok_or (strip_prefix RESOURCE_PREFIX resource) InvalidResource) (\<lambda>sfx.
     case split_colon sfx of
       [boot, uid, session_id, created] \<Rightarrow>
         and_then (canonical_u64 uid) (\<lambda>uid.
         and_then (if unat uid < 2 ^ 32 then Inr (ucast uid) else Inl InvalidResource) (\<lambda>uid.
         and_then (boot_id_new boot) (\<lambda>boot.
         and_then (canonical_u64 created) (\<lambda>created.
         session_epoch_new boot uid session_id created))))
     | _ \<Rightarrow> Inl InvalidResource)"

definition session_epoch_suffix :: "session_epoch \<Rightarrow> string" where
  "session_epoch_suffix e = ep_boot e @ '':'' @ nat_to_dec (unat (ep_uid e)) @ '':''
     @ ep_session_id e @ '':'' @ u64_to_dec (ep_created_monotonic_us e)"

definition session_epoch_resource_id :: "session_epoch \<Rightarrow> session_epoch_error + resource_id" where
  "session_epoch_resource_id e =
     map_err (\<lambda>_. InvalidResource)
       (typed_id_new ''resource id'' (RESOURCE_PREFIX @ session_epoch_suffix e))"

record session_lock_id =
  lock_epoch :: session_epoch
  lock_security_owner_invocation :: string
  lock_generation :: u64

definition session_lock_id_new ::
  "session_epoch \<Rightarrow> string \<Rightarrow> u64 \<Rightarrow> session_epoch_error + session_lock_id" where
  "session_lock_id_new epoch security_owner_invocation generation =
     (if generation = 0 then Inl InvalidLockGeneration
      else Inr \<lparr> lock_epoch = epoch,
             lock_security_owner_invocation = security_owner_invocation,
             lock_generation = generation \<rparr>)"

definition session_lock_id_from_resource :: "resource_id \<Rightarrow> session_epoch_error + session_lock_id" where
  "session_lock_id_from_resource resource =
     and_then (ok_or (strip_prefix ''session:lock:'' resource) InvalidResource) (\<lambda>sfx.
     and_then (ok_or (rsplit_once_colon sfx) InvalidResource) (\<lambda>(scope, generation).
     and_then (ok_or (rsplit_once_colon scope) InvalidResource) (\<lambda>(epoch, invocation).
     and_then (map_err (\<lambda>_. InvalidResource) (typed_id_new ''resource id'' (RESOURCE_PREFIX @ epoch)))
       (\<lambda>epoch.
     and_then (session_epoch_from_resource epoch) (\<lambda>epoch.
     and_then (security_owner_invocation_new invocation) (\<lambda>invocation.
     and_then (canonical_u64 generation) (\<lambda>generation.
     session_lock_id_new epoch invocation generation)))))))"

definition session_lock_id_resource_id :: "session_lock_id \<Rightarrow> session_epoch_error + resource_id" where
  "session_lock_id_resource_id l =
     and_then (session_epoch_resource_id (lock_epoch l)) (\<lambda>epoch.
     and_then (ok_or (strip_prefix RESOURCE_PREFIX epoch) InvalidResource) (\<lambda>sfx.
     map_err (\<lambda>_. InvalidResource) (typed_id_new ''resource id''
       (''session:lock:'' @ sfx @ '':'' @ lock_security_owner_invocation l @ '':''
          @ u64_to_dec (lock_generation l)))))"

section \<open>Transitions\<close>

datatype session_transition = Suspend u64 | Logout | Reboot | PowerOff

fun session_transition_as_str :: "session_transition \<Rightarrow> string" where
  "session_transition_as_str (Suspend _) = ''suspend''"
| "session_transition_as_str Logout = ''logout''"
| "session_transition_as_str Reboot = ''reboot''"
| "session_transition_as_str PowerOff = ''power-off''"

fun successful_cycles_before :: "session_transition \<Rightarrow> u64 option" where
  "successful_cycles_before (Suspend n) = Some n"
| "successful_cycles_before _ = None"

datatype session_transition_error =
    UnsupportedOwner | ExhaustedSuspendGeneration | InvalidTransitionResource

record session_transition_id =
  tr_lock :: session_lock_id
  tr_transition :: session_transition

definition session_transition_id_new ::
  "session_lock_id \<Rightarrow> session_transition \<Rightarrow> session_transition_error + session_transition_id" where
  "session_transition_id_new lock transition =
     (if ep_uid (lock_epoch lock) = 0 then Inl UnsupportedOwner
      else if successful_cycles_before transition = Some (- 1) then Inl ExhaustedSuspendGeneration
      else Inr \<lparr> tr_lock = lock, tr_transition = transition \<rparr>)"

definition TRANSITION_PREFIX :: string where
  "TRANSITION_PREFIX = ''session:transition:''"

definition PERMISSION_PREFIX :: string where
  "PERMISSION_PREFIX = ''session:power-permission:''"

definition parse_transition :: "string \<Rightarrow> u64 \<Rightarrow> session_transition option" where
  "parse_transition action baseline =
     (if action = ''suspend'' then Some (Suspend baseline)
      else if action = ''logout'' \<and> baseline = 0 then Some Logout
      else if action = ''reboot'' \<and> baseline = 0 then Some Reboot
      else if action = ''power-off'' \<and> baseline = 0 then Some PowerOff
      else None)"

definition session_transition_id_from_resource ::
  "resource_id \<Rightarrow> session_transition_error + session_transition_id" where
  "session_transition_id_from_resource resource =
     (if length resource > 256 then Inl InvalidTransitionResource
      else
      and_then (ok_or (strip_prefix TRANSITION_PREFIX resource) InvalidTransitionResource) (\<lambda>sfx.
      and_then (ok_or (split_once_colon sfx) InvalidTransitionResource) (\<lambda>(action, rest).
      and_then (ok_or (split_once_colon rest) InvalidTransitionResource) (\<lambda>(baseline, lock_suffix).
      if baseline = [] \<or> length baseline > 20 \<or> (length baseline > 1 \<and> prefix ''0'' baseline)
         \<or> \<not> list_all is_digit baseline
      then Inl InvalidTransitionResource
      else
      and_then (ok_or (parse_u64 baseline) InvalidTransitionResource) (\<lambda>baseline.
      and_then (ok_or (parse_transition action baseline) InvalidTransitionResource) (\<lambda>transition.
      and_then (map_err (\<lambda>_. InvalidTransitionResource)
        (typed_id_new ''resource id'' (''session:lock:'' @ lock_suffix))) (\<lambda>lock_resource.
      and_then (map_err (\<lambda>_. InvalidTransitionResource)
        (session_lock_id_from_resource lock_resource)) (\<lambda>lock.
      session_transition_id_new lock transition))))))))"

definition session_transition_id_resource_id ::
  "session_transition_id \<Rightarrow> session_transition_error + resource_id" where
  "session_transition_id_resource_id t =
     and_then (map_err (\<lambda>_. InvalidTransitionResource) (session_lock_id_resource_id (tr_lock t)))
       (\<lambda>lock.
     and_then (ok_or (strip_prefix ''session:lock:'' lock) InvalidTransitionResource) (\<lambda>sfx.
     let text = TRANSITION_PREFIX @ session_transition_as_str (tr_transition t) @ '':''
           @ u64_to_dec (case successful_cycles_before (tr_transition t) of None \<Rightarrow> 0 | Some n \<Rightarrow> n)
           @ '':'' @ sfx in
     if length text > 256 then Inl InvalidTransitionResource
     else map_err (\<lambda>_. InvalidTransitionResource) (typed_id_new ''resource id'' text)))"

definition permission_resource_id ::
  "session_transition_id \<Rightarrow> session_transition_error + resource_id" where
  "permission_resource_id t =
     and_then (session_transition_id_resource_id t) (\<lambda>transition.
     and_then (ok_or (strip_prefix TRANSITION_PREFIX transition) InvalidTransitionResource) (\<lambda>sfx.
     let text = PERMISSION_PREFIX @ sfx in
     if length text > 256 \<or> tr_transition t = Logout then Inl InvalidTransitionResource
     else map_err (\<lambda>_. InvalidTransitionResource) (typed_id_new ''resource id'' text)))"

definition from_permission_resource ::
  "resource_id \<Rightarrow> session_transition_error + session_transition_id" where
  "from_permission_resource resource =
     (if length resource > 256 then Inl InvalidTransitionResource
      else
      and_then (ok_or (strip_prefix PERMISSION_PREFIX resource) InvalidTransitionResource) (\<lambda>sfx.
      and_then (map_err (\<lambda>_. InvalidTransitionResource)
        (typed_id_new ''resource id'' (TRANSITION_PREFIX @ sfx))) (\<lambda>transition_resource.
      and_then (session_transition_id_from_resource transition_resource) (\<lambda>target.
      and_then (permission_resource_id target) (\<lambda>permission.
      if permission \<noteq> resource then Inl InvalidTransitionResource else Inr target)))))"

section \<open>Sleep invocations\<close>

datatype sleep_invocation_error = SleepInvocationError

record sleep_invocation_id =
  sleep_boot :: string
  sleep_invocation :: string

definition sleep_invocation_id_new ::
  "string \<Rightarrow> string \<Rightarrow> sleep_invocation_error + sleep_invocation_id" where
  "sleep_invocation_id_new boot invocation =
     (if \<not> canonical_nonzero_uuid invocation then Inl SleepInvocationError
      else Inr \<lparr> sleep_boot = boot, sleep_invocation = invocation \<rparr>)"

definition sleep_resource_id :: "sleep_invocation_id \<Rightarrow> sleep_invocation_error + resource_id" where
  "sleep_resource_id s = map_err (\<lambda>_. SleepInvocationError)
     (typed_id_new ''resource id''
       (''session:sleep-entry:'' @ sleep_boot s @ '':'' @ sleep_invocation s))"

definition protective_request_id ::
  "sleep_invocation_id \<Rightarrow> session_epoch \<Rightarrow> sleep_invocation_error + request_id" where
  "protective_request_id s epoch =
     (if sleep_boot s \<noteq> ep_boot epoch \<or> ep_uid epoch = 0 then Inl SleepInvocationError
      else map_err (\<lambda>_. SleepInvocationError) (typed_id_new ''request id''
        (''request:v010:protective-lock:'' @ sleep_boot s @ '':'' @ sleep_invocation s @ '':''
           @ nat_to_dec (unat (ep_uid epoch)) @ '':'' @ ep_session_id epoch @ '':''
           @ u64_to_dec (ep_created_monotonic_us epoch))))"

definition from_protective_request_id ::
  "request_id \<Rightarrow> session_epoch \<Rightarrow> sleep_invocation_error + sleep_invocation_id" where
  "from_protective_request_id request epoch =
     and_then (ok_or (strip_prefix ''request:v010:protective-lock:'' request) SleepInvocationError)
       (\<lambda>sfx.
     case split_colon sfx of
       boot # rest \<Rightarrow>
         and_then (map_err (\<lambda>_. SleepInvocationError) (boot_id_new boot)) (\<lambda>boot.
         case rest of
           invocation # _ \<Rightarrow>
             and_then (sleep_invocation_id_new boot invocation) (\<lambda>event.
             and_then (protective_request_id event epoch) (\<lambda>again.
             if again \<noteq> request then Inl SleepInvocationError else Inr event))
         | [] \<Rightarrow> Inl SleepInvocationError)
     | [] \<Rightarrow> Inl SleepInvocationError)"

section \<open>Canonical identities\<close>

definition epoch_valid :: "session_epoch \<Rightarrow> bool" where
  "epoch_valid e \<longleftrightarrow> canonical_nonzero_uuid (ep_boot e)
     \<and> is_ok (session_epoch_new (ep_boot e) (ep_uid e) (ep_session_id e) (ep_created_monotonic_us e))"

definition lock_valid :: "session_lock_id \<Rightarrow> bool" where
  "lock_valid l \<longleftrightarrow> epoch_valid (lock_epoch l)
     \<and> canonical_nonzero_uuid (lock_security_owner_invocation l) \<and> lock_generation l \<noteq> 0"

definition transition_valid :: "session_transition_id \<Rightarrow> bool" where
  "transition_valid t \<longleftrightarrow> lock_valid (tr_lock t) \<and> ep_uid (lock_epoch (tr_lock t)) \<noteq> 0
     \<and> successful_cycles_before (tr_transition t) \<noteq> Some (- 1)"

definition session_lock_suffix :: "session_lock_id \<Rightarrow> string" where
  "session_lock_suffix l = session_epoch_suffix (lock_epoch l) @ '':''
     @ lock_security_owner_invocation l @ '':'' @ u64_to_dec (lock_generation l)"

definition transition_baseline :: "session_transition \<Rightarrow> u64" where
  "transition_baseline t = (case successful_cycles_before t of None \<Rightarrow> 0 | Some n \<Rightarrow> n)"

definition session_transition_suffix :: "session_transition_id \<Rightarrow> string" where
  "session_transition_suffix t = session_transition_as_str (tr_transition t) @ '':''
     @ u64_to_dec (transition_baseline (tr_transition t)) @ '':'' @ session_lock_suffix (tr_lock t)"

lemma graphic_typed_id:
  "list_all is_ascii_graphic s \<Longrightarrow> s \<noteq> [] \<Longrightarrow> length s \<le> 256 \<Longrightarrow> typed_id_new label s = Inr s"
  by (simp add: typed_id_new_ok graphic_no_control)

lemma canonical_u64_iff: "canonical_u64 v = Inr w \<longleftrightarrow> v = u64_to_dec w"
proof
  assume v: "v = u64_to_dec w"
  have "list_all is_digit v" using nat_to_dec_digits by (auto simp: v u64_to_dec_def list_all_iff)
  moreover have "\<not> prefix ''0'' v" if "1 < length v"
    using nat_to_dec_canonical [of "unat w"] that by (auto simp: v u64_to_dec_def prefix_def)
  moreover have "v \<noteq> []" by (simp add: v u64_to_dec_def)
  ultimately show "canonical_u64 v = Inr w" by (auto simp: canonical_u64_def v)
next
  assume ok: "canonical_u64 v = Inr w"
  then have d: "v \<noteq> []" "list_all is_digit v" "1 < length v \<longrightarrow> \<not> prefix ''0'' v" "parse_u64 v = Some w"
    by (auto simp: canonical_u64_def split: if_splits)
  have h: "1 < length v \<longrightarrow> hd v \<noteq> CHR ''0''"
    using d(1,3) by (cases v) auto
  have "hd v \<noteq> CHR ''+''" using d(1,2) by (cases v) auto
  then have "dec_val v < 2 ^ 64" "w = word_of_nat (dec_val v)"
    using d by (auto simp: parse_u64_def Let_def split: list.splits if_splits)
  then have "unat w = dec_val v" by (simp add: unat_of_nat)
  then show "v = u64_to_dec w"
    using nat_to_dec_dec_val [OF d(1,2) h] by (simp add: u64_to_dec_def)
qed

lemma lower_hex_graphic: "is_lower_hex c \<Longrightarrow> is_ascii_graphic c \<and> c \<noteq> CHR '':''"
  by (auto simp: is_lower_hex_def is_digit_def is_ascii_graphic_def)

lemma uuid_facts:
  assumes "canonical_nonzero_uuid v"
  shows "length v = 36" "CHR '':'' \<notin> set v" "list_all is_ascii_graphic v"
proof -
  show "length v = 36" using assms by (simp add: canonical_nonzero_uuid_def)
  have "c = CHR ''-'' \<or> is_lower_hex c" if "c \<in> set v" for c
  proof -
    from that obtain i where "i < length v" "v ! i = c" by (auto simp: in_set_conv_nth)
    then have "(i, c) \<in> set (enumerate 0 v)" by (auto simp: in_set_enumerate_eq)
    with assms show ?thesis
      by (auto simp: canonical_nonzero_uuid_def list_all_iff split: if_splits)
  qed
  then show "CHR '':'' \<notin> set v" "list_all is_ascii_graphic v"
    using lower_hex_graphic by (fastforce simp: list_all_iff is_ascii_graphic_def)+
qed

lemma session_id_facts:
  assumes "session_epoch_new b u s c = Inr e"
  shows "CHR '':'' \<notin> set s" "list_all is_ascii_graphic s" "length s \<le> 64"
proof -
  have "\<forall>x \<in> set s. is_ascii_alphanumeric x \<or> x = CHR ''_'' \<or> x = CHR ''-''" "length s \<le> 64"
    using assms by (auto simp: session_epoch_new_def list_all_iff MAX_SESSION_ID_BYTES_def split: if_splits)
  then show "CHR '':'' \<notin> set s" "list_all is_ascii_graphic s" "length s \<le> 64"
    by (fastforce simp: list_all_iff is_ascii_graphic_def is_ascii_alphanumeric_def is_digit_def)+
qed

lemma epoch_valid_new:
  "epoch_valid e \<longleftrightarrow> canonical_nonzero_uuid (ep_boot e)
     \<and> session_epoch_new (ep_boot e) (ep_uid e) (ep_session_id e) (ep_created_monotonic_us e) = Inr e"
  by (auto simp: epoch_valid_def is_ok_iff session_epoch_new_def split: if_splits)

lemma length_u32_to_dec: "length (nat_to_dec (unat (u :: 32 word))) \<le> 10"
proof (rule length_nat_to_dec)
  show "unat u < 10 ^ 10" using unsigned_less [of u, where 'a = nat] by simp
qed simp

lemma epoch_suffix_facts:
  assumes "epoch_valid e"
  shows "length (session_epoch_suffix e) \<le> 133" "list_all is_ascii_graphic (session_epoch_suffix e)"
proof -
  note e = assms [unfolded epoch_valid_new]
  note b = uuid_facts [OF conjunct1 [OF e]] and s = session_id_facts [OF conjunct2 [OF e]]
  show "length (session_epoch_suffix e) \<le> 133"
    using e b(1) s(3) length_u32_to_dec [of "ep_uid e"] length_u64_to_dec [of "ep_created_monotonic_us e"]
    by (simp add: session_epoch_suffix_def)
  show "list_all is_ascii_graphic (session_epoch_suffix e)"
    using e b(3) s(2) dec_graphic by (simp add: session_epoch_suffix_def is_ascii_graphic_def)
qed

lemma session_epoch_resource_id_valid:
  assumes "epoch_valid e"
  shows "session_epoch_resource_id e = Inr (RESOURCE_PREFIX @ session_epoch_suffix e)"
    "typed_id_new label (RESOURCE_PREFIX @ session_epoch_suffix e) = Inr (RESOURCE_PREFIX @ session_epoch_suffix e)"
  using epoch_suffix_facts [OF assms]
  by (simp_all add: session_epoch_resource_id_def graphic_typed_id RESOURCE_PREFIX_def is_ascii_graphic_def)

lemma u32_round_trip:
  "(\<exists>w :: u64. v = u64_to_dec w \<and> unat w < 2 ^ 32 \<and> u = (ucast w :: 32 word)) \<longleftrightarrow> v = nat_to_dec (unat u)"
proof
  assume "\<exists>w :: u64. v = u64_to_dec w \<and> unat w < 2 ^ 32 \<and> u = (ucast w :: 32 word)"
  then obtain w :: u64 where "v = u64_to_dec w" "unat w < 2 ^ 32" "u = ucast w" by blast
  then show "v = nat_to_dec (unat u)" by (simp add: u64_to_dec_def unsigned_ucast_eq take_bit_eq_mod)
next
  assume v: "v = nat_to_dec (unat u)"
  have "unat u < 2 ^ 32" using unsigned_less [of u, where 'a = nat] by simp
  then have "unat (ucast u :: u64) = unat u" by (simp add: unsigned_ucast_eq take_bit_eq_mod)
  moreover have "(ucast (ucast u :: u64) :: 32 word) = u" by transfer simp
  ultimately show "\<exists>w :: u64. v = u64_to_dec w \<and> unat w < 2 ^ 32 \<and> u = (ucast w :: 32 word)"
    using v \<open>unat u < 2 ^ 32\<close> by (metis u64_to_dec_def)
qed

lemma four_fields:
  "(case xs of [a, b, c, d] \<Rightarrow> f a b c d | _ \<Rightarrow> Inl err) = Inr y
     \<longleftrightarrow> (\<exists>a b c d. xs = [a, b, c, d] \<and> f a b c d = Inr y)"
  by (auto split: list.splits)

lemma session_epoch_from_resource_iff:
  "session_epoch_from_resource r = Inr e \<longleftrightarrow> epoch_valid e \<and> r = RESOURCE_PREFIX @ session_epoch_suffix e"
proof
  assume "session_epoch_from_resource r = Inr e"
  then obtain boot uid sid created w c where *: "r = RESOURCE_PREFIX @ boot @ '':'' @ uid @ '':'' @ sid @ '':'' @ created"
      "canonical_u64 uid = Inr w" "unat w < 2 ^ 32" "boot_id_new boot = Inr boot" "canonical_u64 created = Inr c"
      "session_epoch_new boot (ucast w) sid c = Inr e"
    by (auto simp: session_epoch_from_resource_def result_simps four_fields strip_prefix_Some
        boot_id_new_def split_colon_eq4 split: if_splits)
  have e: "e = \<lparr> ep_boot = boot, ep_uid = ucast w, ep_session_id = sid, ep_created_monotonic_us = c \<rparr>"
    using *(6) by (auto simp: session_epoch_new_def split: if_splits)
  have "uid = nat_to_dec (unat (ucast w :: 32 word))"
    using u32_round_trip [of uid "ucast w"] *(2,3) by (auto simp: canonical_u64_iff)
  with * e show "epoch_valid e \<and> r = RESOURCE_PREFIX @ session_epoch_suffix e"
    by (auto simp: epoch_valid_new session_epoch_suffix_def canonical_u64_iff boot_id_new_def split: if_splits)
next
  assume asm: "epoch_valid e \<and> r = RESOURCE_PREFIX @ session_epoch_suffix e"
  then have e: "canonical_nonzero_uuid (ep_boot e)"
      "session_epoch_new (ep_boot e) (ep_uid e) (ep_session_id e) (ep_created_monotonic_us e) = Inr e"
    by (simp_all add: epoch_valid_new)
  have split: "split_colon (session_epoch_suffix e) =
      [ep_boot e, nat_to_dec (unat (ep_uid e)), ep_session_id e, u64_to_dec (ep_created_monotonic_us e)]"
    using uuid_facts(2) [OF e(1)] session_id_facts(1) [OF e(2)]
    by (simp add: split_colon_eq4 session_epoch_suffix_def)
  obtain w :: u64 where w: "nat_to_dec (unat (ep_uid e)) = u64_to_dec w" "unat w < 2 ^ 32" "ep_uid e = ucast w"
    using u32_round_trip [of "nat_to_dec (unat (ep_uid e))" "ep_uid e"] by blast
  have "canonical_u64 (nat_to_dec (unat (ep_uid e))) = Inr w"
      "canonical_u64 (u64_to_dec (ep_created_monotonic_us e)) = Inr (ep_created_monotonic_us e)"
    by (simp_all add: canonical_u64_iff w(1))
  moreover have "strip_prefix RESOURCE_PREFIX r = Some (session_epoch_suffix e)"
    using asm by (simp only: strip_prefix_Some)
  ultimately show "session_epoch_from_resource r = Inr e"
    using e w(2,3) by (simp add: session_epoch_from_resource_def split boot_id_new_def)
qed

lemma lock_suffix_facts:
  assumes "lock_valid l"
  shows "length (session_lock_suffix l) \<le> 191" "list_all is_ascii_graphic (session_lock_suffix l)"
  using assms epoch_suffix_facts [of "lock_epoch l"] uuid_facts [of "lock_security_owner_invocation l"]
    length_u64_to_dec [of "lock_generation l"] dec_graphic
  by (auto simp: lock_valid_def session_lock_suffix_def is_ascii_graphic_def)

lemma session_lock_id_resource_id_valid:
  assumes "lock_valid l"
  shows "session_lock_id_resource_id l = Inr (''session:lock:'' @ session_lock_suffix l)"
    "typed_id_new label (''session:lock:'' @ session_lock_suffix l) = Inr (''session:lock:'' @ session_lock_suffix l)"
proof -
  show typed: "typed_id_new label (''session:lock:'' @ session_lock_suffix l)
      = Inr (''session:lock:'' @ session_lock_suffix l)" for label
    using lock_suffix_facts [OF assms] by (intro graphic_typed_id) (simp_all add: is_ascii_graphic_def)
  have e: "session_epoch_resource_id (lock_epoch l) = Inr (RESOURCE_PREFIX @ session_epoch_suffix (lock_epoch l))"
    using assms by (simp add: lock_valid_def session_epoch_resource_id_valid)
  have s: "strip_prefix RESOURCE_PREFIX (RESOURCE_PREFIX @ session_epoch_suffix (lock_epoch l))
      = Some (session_epoch_suffix (lock_epoch l))" by (simp only: strip_prefix_Some)
  show "session_lock_id_resource_id l = Inr (''session:lock:'' @ session_lock_suffix l)"
    using typed [unfolded session_lock_suffix_def]
    by (simp add: session_lock_id_resource_id_def e s session_lock_suffix_def)
qed

lemma session_lock_id_from_resource_iff:
  "session_lock_id_from_resource r = Inr l \<longleftrightarrow> lock_valid l \<and> r = ''session:lock:'' @ session_lock_suffix l"
proof
  assume "session_lock_id_from_resource r = Inr l"
  then obtain scope gen ep inv e g where *: "r = ''session:lock:'' @ scope @ '':'' @ gen"
      "scope = ep @ '':'' @ inv" "session_epoch_from_resource (RESOURCE_PREFIX @ ep) = Inr e"
      "canonical_nonzero_uuid inv" "canonical_u64 gen = Inr g" "session_lock_id_new e inv g = Inr l"
    by (auto simp: session_lock_id_from_resource_def result_simps rsplit_once_colon_Some typed_id_new_ok
        strip_prefix_Some
        security_owner_invocation_new_def split: if_splits)
  then show "lock_valid l \<and> r = ''session:lock:'' @ session_lock_suffix l"
    by (auto simp: session_epoch_from_resource_iff canonical_u64_iff session_lock_id_new_def lock_valid_def
        session_lock_suffix_def split: if_splits)
next
  assume asm: "lock_valid l \<and> r = ''session:lock:'' @ session_lock_suffix l"
  let ?e = "lock_epoch l" and ?i = "lock_security_owner_invocation l"
  have v: "epoch_valid ?e" "canonical_nonzero_uuid ?i" "lock_generation l \<noteq> 0"
    using asm by (auto simp: lock_valid_def)
  have "strip_prefix ''session:lock:'' r = Some (session_lock_suffix l)"
    using asm by (simp only: strip_prefix_Some)
  moreover have "rsplit_once_colon (session_lock_suffix l)
      = Some (session_epoch_suffix ?e @ '':'' @ ?i, u64_to_dec (lock_generation l))"
    by (simp add: rsplit_once_colon_Some session_lock_suffix_def)
  moreover have "rsplit_once_colon (session_epoch_suffix ?e @ '':'' @ ?i) = Some (session_epoch_suffix ?e, ?i)"
    using uuid_facts(2) [OF v(2)] by (simp add: rsplit_once_colon_Some)
  moreover have "session_epoch_from_resource (RESOURCE_PREFIX @ session_epoch_suffix ?e) = Inr ?e"
    using v(1) by (simp add: session_epoch_from_resource_iff)
  moreover have "canonical_u64 (u64_to_dec (lock_generation l)) = Inr (lock_generation l)"
    by (simp add: canonical_u64_iff)
  ultimately show "session_lock_id_from_resource r = Inr l"
    using v session_epoch_resource_id_valid(2) [OF v(1)]
    by (simp add: session_lock_id_from_resource_def security_owner_invocation_new_def session_lock_id_new_def)
qed

text \<open>
  C31. A native lock has exactly one resource identity: for every valid lock (canonical boot and owner
  invocation, valid session id, nonzero creation time and generation) printing succeeds and parsing
  the printed text gives the lock back; and any text that parses as a lock is the printed text of that
  lock, which is valid. So an approval bound to one lock generation can never name another.
\<close>

theorem session_lock_identity_exact:
  "session_lock_id_from_resource r = Inr l \<longleftrightarrow> lock_valid l \<and> session_lock_id_resource_id l = Inr r"
  by (auto simp: session_lock_id_from_resource_iff session_lock_id_resource_id_valid)

lemma baseline_iff:
  "\<not> (v = [] \<or> length v > 20 \<or> (length v > 1 \<and> prefix ''0'' v) \<or> \<not> list_all is_digit v)
     \<and> parse_u64 v = Some b \<longleftrightarrow> v = u64_to_dec b"
proof -
  have "v = u64_to_dec b \<longleftrightarrow> canonical_u64 v = Inr b \<and> length v \<le> 20"
    using length_u64_to_dec [of b] by (auto simp: canonical_u64_iff)
  then show ?thesis by (auto simp: canonical_u64_def split: if_splits)
qed

lemma parse_transition_iff:
  "parse_transition a b = Some t \<longleftrightarrow> a = session_transition_as_str t \<and> b = transition_baseline t"
  by (cases t) (auto simp: parse_transition_def transition_baseline_def)

lemma transition_as_str_facts:
  "CHR '':'' \<notin> set (session_transition_as_str t)" "list_all is_ascii_graphic (session_transition_as_str t)"
  "length (session_transition_as_str t) \<le> 9"
  by (cases t; simp add: is_ascii_graphic_def)+

lemma transition_suffix_facts:
  assumes "lock_valid (tr_lock t)"
  shows "length (session_transition_suffix t) \<le> 222" "list_all is_ascii_graphic (session_transition_suffix t)"
  using assms lock_suffix_facts [of "tr_lock t"] transition_as_str_facts [of "tr_transition t"]
    length_u64_to_dec [of "transition_baseline (tr_transition t)"] dec_graphic
  by (auto simp: session_transition_suffix_def is_ascii_graphic_def)

lemma session_transition_id_resource_id_valid:
  assumes "lock_valid (tr_lock t)"
  shows "session_transition_id_resource_id t = Inr (TRANSITION_PREFIX @ session_transition_suffix t)"
proof -
  let ?text = "TRANSITION_PREFIX @ session_transition_suffix t"
  have typed: "typed_id_new ''resource id'' ?text = Inr ?text" "\<not> length ?text > 256"
    using transition_suffix_facts [OF assms]
    by (auto simp: TRANSITION_PREFIX_def is_ascii_graphic_def intro!: graphic_typed_id)
  have "strip_prefix ''session:lock:'' (''session:lock:'' @ session_lock_suffix (tr_lock t))
      = Some (session_lock_suffix (tr_lock t))" by (simp only: strip_prefix_Some)
  with typed show ?thesis
    unfolding session_transition_suffix_def transition_baseline_def
    by (simp only: session_transition_id_resource_id_def session_lock_id_resource_id_valid [OF assms]
        map_err_simps and_then_simps ok_or_simps Let_def if_False)
qed

lemma session_transition_id_from_resource_iff:
  "session_transition_id_from_resource r = Inr t
     \<longleftrightarrow> transition_valid t \<and> r = TRANSITION_PREFIX @ session_transition_suffix t"
proof
  assume "session_transition_id_from_resource r = Inr t"
  then obtain action base ls b tr l where
      r: "r = TRANSITION_PREFIX @ action @ '':'' @ base @ '':'' @ ls"
      and base: "\<not> (base = [] \<or> length base > 20 \<or> (length base > 1 \<and> prefix ''0'' base) \<or> \<not> list_all is_digit base)"
        "parse_u64 base = Some b"
      and tr: "parse_transition action b = Some tr"
      and l: "session_lock_id_from_resource (''session:lock:'' @ ls) = Inr l"
      and t: "session_transition_id_new l tr = Inr t"
    by (auto simp: session_transition_id_from_resource_def result_simps strip_prefix_Some
        split_once_colon_Some typed_id_new_ok split: if_splits)
  have "base = u64_to_dec b" using base baseline_iff by blast
  moreover have "lock_valid l" "ls = session_lock_suffix l"
    using l by (auto simp: session_lock_id_from_resource_iff)
  moreover have "t = \<lparr> tr_lock = l, tr_transition = tr \<rparr>" "ep_uid (lock_epoch l) \<noteq> 0"
      "successful_cycles_before tr \<noteq> Some (- 1)"
    using t by (auto simp: session_transition_id_new_def split: if_splits)
  ultimately show "transition_valid t \<and> r = TRANSITION_PREFIX @ session_transition_suffix t"
    using tr r by (simp add: transition_valid_def session_transition_suffix_def parse_transition_iff)
next
  assume asm: "transition_valid t \<and> r = TRANSITION_PREFIX @ session_transition_suffix t"
  let ?l = "tr_lock t" and ?b = "transition_baseline (tr_transition t)"
  have lv: "lock_valid ?l" using asm by (simp add: transition_valid_def)
  have len: "\<not> length r > 256"
    using asm transition_suffix_facts(1) [OF lv] by (simp add: TRANSITION_PREFIX_def)
  have s1: "strip_prefix TRANSITION_PREFIX r = Some (session_transition_suffix t)"
    using asm by (simp only: strip_prefix_Some)
  have s2: "split_once_colon (session_transition_suffix t) =
      Some (session_transition_as_str (tr_transition t), u64_to_dec ?b @ '':'' @ session_lock_suffix ?l)"
    using transition_as_str_facts(1) by (simp add: split_once_colon_Some session_transition_suffix_def)
  have s3: "split_once_colon (u64_to_dec ?b @ '':'' @ session_lock_suffix ?l) =
      Some (u64_to_dec ?b, session_lock_suffix ?l)"
    by (simp add: split_once_colon_Some)
  have b: "\<not> (u64_to_dec ?b = [] \<or> length (u64_to_dec ?b) > 20
      \<or> (length (u64_to_dec ?b) > 1 \<and> prefix ''0'' (u64_to_dec ?b)) \<or> \<not> list_all is_digit (u64_to_dec ?b))"
    using baseline_iff [of "u64_to_dec ?b" ?b] by blast
  have p: "parse_transition (session_transition_as_str (tr_transition t)) ?b = Some (tr_transition t)"
    by (simp add: parse_transition_iff)
  have l: "session_lock_id_from_resource (''session:lock:'' @ session_lock_suffix ?l) = Inr ?l"
    using lv by (simp only: session_lock_id_from_resource_iff)
  have n: "session_transition_id_new ?l (tr_transition t) = Inr t"
    using asm by (simp add: transition_valid_def session_transition_id_new_def)
  show "session_transition_id_from_resource r = Inr t"
    unfolding session_transition_id_from_resource_def
    by (simp only: len if_False s1 s2 s3 b p l n parse_u64_to_dec and_then_simps ok_or_simps map_err_simps
        prod.case session_lock_id_resource_id_valid(2) [OF lv])
qed

text \<open>
  C32. A session transition (suspend with its cycle baseline, logout, reboot, power-off, each on one
  exact lock of a non-root session) has exactly one resource identity: a text parses to the transition
  if and only if the transition is valid and the text is what it prints.
\<close>

theorem session_transition_identity_exact:
  "session_transition_id_from_resource r = Inr t
     \<longleftrightarrow> transition_valid t \<and> session_transition_id_resource_id t = Inr r"
  by (auto simp: session_transition_id_from_resource_iff transition_valid_def
      session_transition_id_resource_id_valid)

lemma protective_request_round_trip:
  assumes "canonical_nonzero_uuid (sleep_boot ev)" "canonical_nonzero_uuid (sleep_invocation ev)"
    and ok: "protective_request_id ev epoch = Inr request"
  shows "from_protective_request_id request epoch = Inr ev"
proof -
  let ?sfx = "sleep_boot ev @ '':'' @ sleep_invocation ev @ '':'' @ nat_to_dec (unat (ep_uid epoch)) @ '':''
     @ ep_session_id epoch @ '':'' @ u64_to_dec (ep_created_monotonic_us epoch)"
  have request: "request = ''request:v010:protective-lock:'' @ ?sfx"
    using ok by (auto simp: protective_request_id_def typed_id_new_ok split: if_splits)
  then have s: "strip_prefix ''request:v010:protective-lock:'' request = Some ?sfx"
    by (simp only: strip_prefix_Some)
  obtain rest where "split_colon ?sfx = sleep_boot ev # sleep_invocation ev # rest"
    using uuid_facts(2) [OF assms(1)] uuid_facts(2) [OF assms(2)] by (simp add: split_colon_append)
  then show ?thesis
    using s assms
    by (cases ev) (simp add: from_protective_request_id_def boot_id_new_def sleep_invocation_id_new_def)
qed

end
