(* ===== verification/Policy.thy ===== *)
theory Policy
  imports Planner Session_Identity
begin

text \<open>
  \<open>crates/linura-policy/src\<close>: the validated policy subject (\<open>lib.rs\<close>), the \<open>PolicyEngine\<close> trait
  as a locale, and its three implementations: the baseline policy (\<open>lib.rs\<close>), the session-lock
  policy (\<open>session_lock.rs\<close>) and the protective-lock policy (\<open>protective_lock.rs\<close>).
\<close>

section \<open>Subjects and decisions\<close>

definition MAX_EVIDENCE_ID_BYTES :: nat where
  "MAX_EVIDENCE_ID_BYTES = 1024"

definition MAX_REVIEW_CHANGES :: nat where
  "MAX_REVIEW_CHANGES = 256"

definition MAX_REVIEW_FINDINGS :: nat where
  "MAX_REVIEW_FINDINGS = 256"

datatype approval_class =
  InteractiveUser | SessionOwnerAuthentication | Administrator | DestructiveAction

fun approval_rank :: "approval_class \<Rightarrow> nat" where
  "approval_rank InteractiveUser = 0"
| "approval_rank SessionOwnerAuthentication = 1"
| "approval_rank Administrator = 2"
| "approval_rank DestructiveAction = 3"

lemma approval_rank_inject: "approval_rank a = approval_rank b \<longleftrightarrow> a = b"
  by (cases a; cases b) simp_all

instantiation approval_class :: linorder
begin

definition less_eq_approval_class :: "approval_class \<Rightarrow> approval_class \<Rightarrow> bool" where
  "less_eq_approval_class a b \<longleftrightarrow> approval_rank a \<le> approval_rank b"

definition less_approval_class :: "approval_class \<Rightarrow> approval_class \<Rightarrow> bool" where
  "less_approval_class a b \<longleftrightarrow> approval_rank a < approval_rank b"

instance
  by standard (auto simp: less_eq_approval_class_def less_approval_class_def approval_rank_inject)

end

datatype review_plan_status = ReviewNoChange | ReviewChangeProposed | ReviewBlocked

datatype review_finding_level = ReviewPass | ReviewWarning | ReviewBlocker

record reviewed_change =
  rc_key :: string
  rc_current :: "string option"
  rc_desired :: string

record reviewed_finding =
  rf_code :: string
  rf_level :: review_finding_level
  rf_message :: string

record policy_snapshot =
  snap_policy_id :: policy_id
  snap_revision_id :: policy_revision_id

datatype policy_subject_validation_error =
    SubjectInvalidSemanticReason string
  | EmptyEvidenceId
  | EvidenceIdTooLong
  | TooManyChanges
  | TooManyFindings
  | EmptyChangeKey
  | SubjectDuplicateChangeKey string
  | EmptyFindingCode
  | EmptyFindingMessage
  | NoChangeContainsChanges
  | NoChangeHasNonReadOnlyRisk
  | ChangeProposedWithoutChanges
  | ChangeProposedIsReadOnly
  | NonBlockedSubjectHasBlocker
  | BlockedSubjectHasNoBlocker

fun policy_subject_validation_error_text :: "policy_subject_validation_error \<Rightarrow> string" where
  "policy_subject_validation_error_text (SubjectInvalidSemanticReason reason) =
     ''invalid semantic reason: '' @ reason"
| "policy_subject_validation_error_text EmptyEvidenceId = ''policy subject evidence id cannot be empty''"
| "policy_subject_validation_error_text EvidenceIdTooLong =
     ''policy subject evidence id exceeds '' @ nat_to_dec MAX_EVIDENCE_ID_BYTES @ '' UTF-8 bytes''"
| "policy_subject_validation_error_text TooManyChanges =
     ''policy subject exceeds the '' @ nat_to_dec MAX_REVIEW_CHANGES @ ''-change review bound''"
| "policy_subject_validation_error_text TooManyFindings =
     ''policy subject exceeds the '' @ nat_to_dec MAX_REVIEW_FINDINGS @ ''-finding review bound''"
| "policy_subject_validation_error_text EmptyChangeKey = ''policy subject change key cannot be empty''"
| "policy_subject_validation_error_text (SubjectDuplicateChangeKey key) =
     ''policy subject contains duplicate change key '' @ debug_str key"
| "policy_subject_validation_error_text EmptyFindingCode =
     ''policy subject finding code cannot be empty''"
| "policy_subject_validation_error_text EmptyFindingMessage =
     ''policy subject finding message cannot be empty''"
| "policy_subject_validation_error_text NoChangeContainsChanges =
     ''no-change policy subject cannot contain planned changes''"
| "policy_subject_validation_error_text NoChangeHasNonReadOnlyRisk =
     ''no-change policy subject must carry read-only prospective risk''"
| "policy_subject_validation_error_text ChangeProposedWithoutChanges =
     ''change-proposed policy subject must contain a planned change''"
| "policy_subject_validation_error_text ChangeProposedIsReadOnly =
     ''change-proposed policy subject cannot carry read-only risk''"
| "policy_subject_validation_error_text NonBlockedSubjectHasBlocker =
     ''non-blocked policy subject cannot contain blocker findings''"
| "policy_subject_validation_error_text BlockedSubjectHasNoBlocker =
     ''blocked policy subject must contain at least one blocker finding''"

record policy_subject =
  subj_principal :: principal_id
  subj_plan_id :: plan_id
  subj_request_id :: request_id
  subj_actor :: actor
  subj_provider :: provider_id
  subj_resource :: resource_id
  subj_capability :: capability_id
  subj_reason :: semantic_reason
  subj_observed_evidence_id :: string
  subj_prospective_risk :: risk_class
  subj_status :: review_plan_status
  subj_changes :: "reviewed_change list"
  subj_findings :: "reviewed_finding list"

definition check_change_key ::
  "string set \<Rightarrow> reviewed_change \<Rightarrow> policy_subject_validation_error + string set" where
  "check_change_key keys change =
     (if trim_is_empty (rc_key change) then Inl EmptyChangeKey
      else if rc_key change \<in> keys then Inl (SubjectDuplicateChangeKey (rc_key change))
      else Inr (insert (rc_key change) keys))"

definition check_finding :: "reviewed_finding \<Rightarrow> policy_subject_validation_error + unit" where
  "check_finding f =
     (if trim_is_empty (rf_code f) then Inl EmptyFindingCode
      else if trim_is_empty (rf_message f) then Inl EmptyFindingMessage
      else Inr ())"

definition has_blocker_finding :: "reviewed_finding list \<Rightarrow> bool" where
  "has_blocker_finding fs \<longleftrightarrow> list_ex (\<lambda>f. rf_level f = ReviewBlocker) fs"

definition check_subject_status ::
  "risk_class \<Rightarrow> review_plan_status \<Rightarrow> reviewed_change list \<Rightarrow> reviewed_finding list
     \<Rightarrow> policy_subject_validation_error + unit" where
  "check_subject_status risk status changes findings =
     (case status of
        ReviewNoChange \<Rightarrow>
          if changes \<noteq> [] then Inl NoChangeContainsChanges
          else if risk \<noteq> ReadOnly then Inl NoChangeHasNonReadOnlyRisk
          else if has_blocker_finding findings then Inl NonBlockedSubjectHasBlocker
          else Inr ()
      | ReviewChangeProposed \<Rightarrow>
          if changes = [] then Inl ChangeProposedWithoutChanges
          else if risk = ReadOnly then Inl ChangeProposedIsReadOnly
          else if has_blocker_finding findings then Inl NonBlockedSubjectHasBlocker
          else Inr ()
      | ReviewBlocked \<Rightarrow>
          if \<not> has_blocker_finding findings then Inl BlockedSubjectHasNoBlocker else Inr ())"

text \<open>The thirteen arguments of \<open>PolicySubject::try_new\<close> are the fields of the record it returns.\<close>

definition policy_subject_try_new ::
  "policy_subject \<Rightarrow> policy_subject_validation_error + policy_subject" where
  "policy_subject_try_new s =
     and_then (map_err (\<lambda>e. SubjectInvalidSemanticReason (validation_error_text e))
       (semantic_reason_validate (subj_reason s))) (\<lambda>_.
     if trim_is_empty (subj_observed_evidence_id s) then Inl EmptyEvidenceId
     else if length (subj_observed_evidence_id s) > MAX_EVIDENCE_ID_BYTES then Inl EvidenceIdTooLong
     else if length (subj_changes s) > MAX_REVIEW_CHANGES then Inl TooManyChanges
     else if length (subj_findings s) > MAX_REVIEW_FINDINGS then Inl TooManyFindings
     else
       and_then (try_fold check_change_key {} (subj_changes s)) (\<lambda>_.
       and_then (for_each (subj_findings s) check_finding) (\<lambda>_.
       and_then (check_subject_status (subj_prospective_risk s) (subj_status s) (subj_changes s)
         (subj_findings s)) (\<lambda>_.
       Inr s))))"

definition subject_has_blockers :: "policy_subject \<Rightarrow> bool" where
  "subject_has_blockers s = has_blocker_finding (subj_findings s)"

record review_binding =
  rb_principal :: principal_id
  rb_plan_id :: plan_id
  rb_request_id :: request_id
  rb_observed_evidence_id :: string
  rb_provider :: provider_id
  rb_resource :: resource_id
  rb_capability :: capability_id
  rb_policy_id :: policy_id
  rb_policy_revision_id :: policy_revision_id

datatype policy_decision =
    Allow
  | Deny string
  | RequireApproval approval_class string
  | DecisionBlocked string

record policy_evaluation =
  ev_subject :: policy_subject
  ev_binding :: review_binding
  ev_decision :: policy_decision

text \<open>The provided method \<open>PolicyEngine::evaluate\<close> over an engine's two required methods.\<close>

definition evaluate ::
  "policy_snapshot \<Rightarrow> (policy_subject \<Rightarrow> policy_decision) \<Rightarrow> policy_subject \<Rightarrow> policy_evaluation" where
  "evaluate snapshot evaluate_decision s =
     \<lparr> ev_subject = s,
       ev_binding = \<lparr> rb_principal = subj_principal s, rb_plan_id = subj_plan_id s,
         rb_request_id = subj_request_id s, rb_observed_evidence_id = subj_observed_evidence_id s,
         rb_provider = subj_provider s, rb_resource = subj_resource s,
         rb_capability = subj_capability s, rb_policy_id = snap_policy_id snapshot,
         rb_policy_revision_id = snap_revision_id snapshot \<rparr>,
       ev_decision = evaluate_decision s \<rparr>"

section \<open>The engines\<close>

definition baseline_snapshot :: policy_snapshot where
  "baseline_snapshot = \<lparr> snap_policy_id = ''policy:baseline'',
     snap_revision_id = ''policy:baseline:v1'' \<rparr>"

definition baseline_decision :: "policy_subject \<Rightarrow> policy_decision" where
  "baseline_decision s =
     (if subj_status s = ReviewBlocked \<or> subject_has_blockers s
      then DecisionBlocked ''plan contains blockers and cannot enter approval review''
      else if actor_kind (subj_actor s) = Remote
      then Deny ''remote actors are disabled in the initial profile''
      else let agent_proposal = (actor_kind (subj_actor s) = Agent) in
        case subj_prospective_risk s of
          ReadOnly \<Rightarrow> Allow
        | UserState \<Rightarrow> Allow
        | SystemMutation \<Rightarrow> RequireApproval InteractiveUser
            (if agent_proposal then ''agent-proposed system mutation requires interactive approval''
             else ''system mutation requires interactive approval'')
        | SecuritySensitive \<Rightarrow> RequireApproval Administrator
            (if agent_proposal
             then ''agent-proposed security-sensitive mutation requires administrator approval''
             else ''security-sensitive mutation requires administrator approval'')
        | Destructive \<Rightarrow> RequireApproval DestructiveAction
            (if agent_proposal
             then ''agent-proposed destructive mutation requires dedicated destructive approval''
             else ''destructive mutation requires dedicated approval''))"

definition session_lock_snapshot :: policy_snapshot where
  "session_lock_snapshot = \<lparr> snap_policy_id = ''policy:session-lock'',
     snap_revision_id = ''policy:session-lock:v1'' \<rparr>"

definition session_lock_decision :: "policy_subject \<Rightarrow> policy_decision" where
  "session_lock_decision s =
     (if subj_status s = ReviewBlocked \<or> subject_has_blockers s
      then DecisionBlocked ''session-lock plan contains blockers''
      else let deny = Deny ''session-lock policy requires an exact owner-bound native lock plan'' in
        case session_lock_id_from_resource (subj_resource s) of
          Inl _ \<Rightarrow> deny
        | Inr lock \<Rightarrow>
            if ep_uid (lock_epoch lock) = 0
               \<or> subj_provider s \<noteq> ''session-locker''
               \<or> subj_capability s \<noteq> ''session.secure-lock.observe''
               \<or> subj_principal s \<noteq> ''unix:uid:'' @ nat_to_dec (unat (ep_uid (lock_epoch lock)))
               \<or> actor_kind (subj_actor s) \<noteq> Human
               \<or> \<not> actor_interactive (subj_actor s)
            then deny
            else if subj_status s = ReviewNoChange \<and> subj_prospective_risk s = ReadOnly
               \<and> subj_changes s = []
            then Allow
            else if subj_status s \<noteq> ReviewChangeProposed \<or> subj_prospective_risk s \<noteq> SecuritySensitive
            then deny
            else case subj_changes s of
                [change] \<Rightarrow>
                  if rc_key change \<noteq> ''secure'' then deny
                  else if rc_current change = Some ''false'' \<and> rc_desired change = ''true''
                  then RequireApproval InteractiveUser
                    ''explicit owner request to secure this native lock generation''
                  else if rc_current change = Some ''true'' \<and> rc_desired change = ''false''
                  then RequireApproval SessionOwnerAuthentication
                    ''native session-owner authentication for this exact unlock only''
                  else deny
              | _ \<Rightarrow> deny)"

definition PROTECTIVE_SLEEP_PRINCIPAL :: string where
  "PROTECTIVE_SLEEP_PRINCIPAL = ''service:system-sleep-protection''"

definition PROTECTIVE_SLEEP_ACTOR :: string where
  "PROTECTIVE_SLEEP_ACTOR = ''actor:system-sleep-protection''"

record protective_lock_setting =
  pls_owner :: principal_id
  pls_epoch :: session_epoch
  pls_intent :: intent_id
  pls_revision :: policy_revision_id
  pls_enabled :: bool

definition protective_lock_setting_new ::
  "principal_id \<Rightarrow> session_epoch \<Rightarrow> intent_id \<Rightarrow> policy_revision_id \<Rightarrow> bool
     \<Rightarrow> string + protective_lock_setting" where
  "protective_lock_setting_new owner epoch intent revision enabled =
     (case strip_prefix ''policy:protective-lock:v1:'' revision of
        None \<Rightarrow> Inl ''protective-lock revision is not a canonical record digest''
      | Some digest \<Rightarrow>
          if length digest \<noteq> 64 \<or> \<not> list_all is_lower_hex digest
          then Inl ''protective-lock revision is not a canonical record digest''
          else if ep_uid epoch = 0 \<or> owner \<noteq> ''unix:uid:'' @ nat_to_dec (unat (ep_uid epoch))
          then Inl ''protective-lock setting must belong to the exact non-root session owner''
          else Inr \<lparr> pls_owner = owner, pls_epoch = epoch, pls_intent = intent,
                     pls_revision = revision, pls_enabled = enabled \<rparr>)"

record protective_lock_policy =
  plp_snapshot :: policy_snapshot
  plp_setting :: protective_lock_setting
  plp_event :: sleep_invocation_id
  plp_lock :: session_lock_id

definition protective_lock_policy_new ::
  "protective_lock_setting \<Rightarrow> sleep_invocation_id \<Rightarrow> session_lock_id \<Rightarrow> protective_lock_policy" where
  "protective_lock_policy_new setting event lock =
     \<lparr> plp_snapshot = \<lparr> snap_policy_id = ''policy:protective-lock'',
         snap_revision_id = pls_revision setting \<rparr>,
       plp_setting = setting, plp_event = event, plp_lock = lock \<rparr>"

definition protective_lock_decision :: "protective_lock_policy \<Rightarrow> policy_subject \<Rightarrow> policy_decision" where
  "protective_lock_decision p s =
     (if subj_status s = ReviewBlocked \<or> subject_has_blockers s
      then DecisionBlocked ''protective-lock plan contains blockers''
      else let deny = Deny
          ''protective-lock policy does not cover this exact event and canonical lock plan'' in
        case (protective_request_id (plp_event p) (pls_epoch (plp_setting p)),
              session_lock_id_resource_id (plp_lock p)) of
          (Inr request, Inr resource) \<Rightarrow>
            if \<not> pls_enabled (plp_setting p)
               \<or> lock_epoch (plp_lock p) \<noteq> pls_epoch (plp_setting p)
               \<or> subj_principal s \<noteq> PROTECTIVE_SLEEP_PRINCIPAL
               \<or> actor_kind (subj_actor s) \<noteq> Service
               \<or> actor_interactive (subj_actor s)
               \<or> actor_id (subj_actor s) \<noteq> PROTECTIVE_SLEEP_ACTOR
               \<or> subj_provider s \<noteq> ''session-locker''
               \<or> subj_capability s \<noteq> ''session.secure-lock.observe''
               \<or> subj_resource s \<noteq> resource
               \<or> subj_request_id s \<noteq> request
               \<or> subj_plan_id s \<noteq> request
               \<or> reason_intent_ids (subj_reason s) \<noteq> [pls_intent (plp_setting p)]
            then deny
            else if subj_status s = ReviewNoChange \<and> subj_prospective_risk s = ReadOnly
               \<and> subj_changes s = []
            then Allow
            else if subj_status s \<noteq> ReviewChangeProposed \<or> subj_prospective_risk s \<noteq> SecuritySensitive
            then deny
            else (case subj_changes s of
                [change] \<Rightarrow>
                  if rc_key change = ''secure'' \<and> rc_current change = Some ''false''
                     \<and> rc_desired change = ''true''
                  then Allow else deny
              | _ \<Rightarrow> deny)
        | _ \<Rightarrow> deny)"

section \<open>The engine contract\<close>

text \<open>
  What Control relies on in a \<open>PolicyEngine\<close>: a subject is reported blocked exactly when it is
  blocked or carries a blocker finding; a remote actor is never allowed nor offered an approval; and
  nothing above user state is allowed outright except a non-interactive service's protective securing
  of a session.
\<close>

definition protective_change :: "policy_subject \<Rightarrow> bool" where
  "protective_change s \<longleftrightarrow> actor_kind (subj_actor s) = Service \<and> \<not> actor_interactive (subj_actor s)
     \<and> subj_principal s = PROTECTIVE_SLEEP_PRINCIPAL
     \<and> (\<exists>c. subj_changes s = [c] \<and> rc_key c = ''secure'' \<and> rc_current c = Some ''false''
          \<and> rc_desired c = ''true'')"

definition is_deny_or_blocked :: "policy_decision \<Rightarrow> bool" where
  "is_deny_or_blocked d = (case d of Deny _ \<Rightarrow> True | DecisionBlocked _ \<Rightarrow> True | _ \<Rightarrow> False)"

definition is_blocked :: "policy_decision \<Rightarrow> bool" where
  "is_blocked d = (case d of DecisionBlocked _ \<Rightarrow> True | _ \<Rightarrow> False)"

locale policy_engine =
  fixes snapshot :: policy_snapshot and decide :: "policy_subject \<Rightarrow> policy_decision"
  assumes blocked_iff:
      "is_blocked (decide s) \<longleftrightarrow> subj_status s = ReviewBlocked \<or> subject_has_blockers s"
    and remote_denied: "actor_kind (subj_actor s) = Remote \<Longrightarrow> is_deny_or_blocked (decide s)"
    and allow_bounded:
      "decide s = Allow \<Longrightarrow> subj_prospective_risk s \<le> UserState \<or> protective_change s"
begin

lemma evaluate_binds_subject:
  "ev_subject (evaluate snapshot decide s) = s
   \<and> rb_principal (ev_binding (evaluate snapshot decide s)) = subj_principal s
   \<and> rb_plan_id (ev_binding (evaluate snapshot decide s)) = subj_plan_id s
   \<and> rb_request_id (ev_binding (evaluate snapshot decide s)) = subj_request_id s
   \<and> rb_observed_evidence_id (ev_binding (evaluate snapshot decide s)) = subj_observed_evidence_id s
   \<and> rb_resource (ev_binding (evaluate snapshot decide s)) = subj_resource s
   \<and> rb_policy_revision_id (ev_binding (evaluate snapshot decide s)) = snap_revision_id snapshot"
  by (simp add: evaluate_def)

lemma interactive_mutation_not_allowed:
  assumes "UserState < subj_prospective_risk s" "actor_kind (subj_actor s) \<noteq> Service"
  shows "ev_decision (evaluate snapshot decide s) \<noteq> Allow"
  using assms allow_bounded [of s] by (auto simp: evaluate_def protective_change_def)

lemma blocked_never_allowed:
  assumes "subj_status s = ReviewBlocked \<or> subject_has_blockers s"
  shows "is_blocked (ev_decision (evaluate snapshot decide s))"
  using assms blocked_iff [of s] by (simp add: evaluate_def)

lemma remote_never_served:
  assumes "actor_kind (subj_actor s) = Remote"
  shows "is_deny_or_blocked (ev_decision (evaluate snapshot decide s))"
  using remote_denied [OF assms] by (simp add: evaluate_def)

end

lemmas decision_simps = is_blocked_def is_deny_or_blocked_def less_eq_risk_class_def less_risk_class_def

interpretation baseline: policy_engine baseline_snapshot baseline_decision
proof
  fix s
  show "is_blocked (baseline_decision s) \<longleftrightarrow> subj_status s = ReviewBlocked \<or> subject_has_blockers s"
    by (auto simp: baseline_decision_def decision_simps Let_def split: risk_class.splits)
  show "is_deny_or_blocked (baseline_decision s)" if "actor_kind (subj_actor s) = Remote"
    using that by (simp add: baseline_decision_def decision_simps)
  show "subj_prospective_risk s \<le> UserState \<or> protective_change s" if "baseline_decision s = Allow"
    using that by (auto simp: baseline_decision_def decision_simps Let_def split: if_splits risk_class.splits)
qed

interpretation session_lock: policy_engine session_lock_snapshot session_lock_decision
proof
  fix s
  show "is_blocked (session_lock_decision s) \<longleftrightarrow> subj_status s = ReviewBlocked \<or> subject_has_blockers s"
    by (auto simp: session_lock_decision_def decision_simps Let_def split: sum.splits list.splits if_splits)
  show "is_deny_or_blocked (session_lock_decision s)" if "actor_kind (subj_actor s) = Remote"
    using that by (auto simp: session_lock_decision_def decision_simps Let_def split: sum.splits)
  show "subj_prospective_risk s \<le> UserState \<or> protective_change s" if "session_lock_decision s = Allow"
    using that
    by (auto simp: session_lock_decision_def decision_simps Let_def split: sum.splits list.splits if_splits)
qed

interpretation protective_lock: policy_engine "plp_snapshot p" "protective_lock_decision p" for p
proof
  fix s
  show "is_blocked (protective_lock_decision p s) \<longleftrightarrow> subj_status s = ReviewBlocked \<or> subject_has_blockers s"
    by (auto simp: protective_lock_decision_def decision_simps Let_def split: sum.splits list.splits if_splits)
  show "is_deny_or_blocked (protective_lock_decision p s)" if "actor_kind (subj_actor s) = Remote"
    using that by (auto simp: protective_lock_decision_def decision_simps Let_def split: sum.splits)
  show "subj_prospective_risk s \<le> UserState \<or> protective_change s" if "protective_lock_decision p s = Allow"
    using that
    by (auto simp: protective_lock_decision_def decision_simps Let_def protective_change_def
        split: sum.splits list.splits if_splits)
qed

section \<open>Subject invariants\<close>

definition subject_valid :: "policy_subject \<Rightarrow> bool" where
  "subject_valid s \<longleftrightarrow>
     semantic_reason_validate (subj_reason s) = Inr ()
     \<and> \<not> trim_is_empty (subj_observed_evidence_id s)
     \<and> length (subj_observed_evidence_id s) \<le> 1024
     \<and> length (subj_changes s) \<le> 256 \<and> length (subj_findings s) \<le> 256
     \<and> distinct (map rc_key (subj_changes s))
     \<and> (\<forall>c \<in> set (subj_changes s). \<not> trim_is_empty (rc_key c))
     \<and> (\<forall>f \<in> set (subj_findings s). \<not> trim_is_empty (rf_code f) \<and> \<not> trim_is_empty (rf_message f))
     \<and> (subj_status s = ReviewBlocked \<longleftrightarrow> subject_has_blockers s)
     \<and> (subj_status s = ReviewNoChange \<longrightarrow> subj_changes s = [] \<and> subj_prospective_risk s = ReadOnly)
     \<and> (subj_status s = ReviewChangeProposed \<longrightarrow>
          subj_changes s \<noteq> [] \<and> subj_prospective_risk s \<noteq> ReadOnly)"

lemma check_change_keys_ok:
  "(\<exists>r. try_fold check_change_key keys cs = Inr r) \<longleftrightarrow>
     distinct (map rc_key cs) \<and> set (map rc_key cs) \<inter> keys = {}
     \<and> (\<forall>c \<in> set cs. \<not> trim_is_empty (rc_key c))"
proof (induction cs arbitrary: keys)
  case (Cons c cs)
  show ?case
  proof (cases "trim_is_empty (rc_key c) \<or> rc_key c \<in> keys")
    case True
    then show ?thesis by (auto simp: check_change_key_def)
  next
    case False
    then have "check_change_key keys c = Inr (insert (rc_key c) keys)" by (simp add: check_change_key_def)
    with Cons [of "insert (rc_key c) keys"] False show ?thesis by auto
  qed
qed simp

lemma check_findings_ok:
  "for_each fs check_finding = Inr u \<longleftrightarrow>
     (\<forall>f \<in> set fs. \<not> trim_is_empty (rf_code f) \<and> \<not> trim_is_empty (rf_message f))"
  by (auto simp: for_each_ok check_finding_def)

lemma check_subject_status_ok:
  "check_subject_status risk status changes findings = Inr u \<longleftrightarrow>
     (status = ReviewBlocked \<longleftrightarrow> has_blocker_finding findings)
     \<and> (status = ReviewNoChange \<longrightarrow> changes = [] \<and> risk = ReadOnly)
     \<and> (status = ReviewChangeProposed \<longrightarrow> changes \<noteq> [] \<and> risk \<noteq> ReadOnly)"
  by (cases status) (auto simp: check_subject_status_def)

lemma policy_subject_try_new_iff: "policy_subject_try_new s = Inr t \<longleftrightarrow> t = s \<and> subject_valid s"
proof -
  have "policy_subject_try_new s = Inr t \<longleftrightarrow> t = s
      \<and> semantic_reason_validate (subj_reason s) = Inr ()
      \<and> \<not> trim_is_empty (subj_observed_evidence_id s)
      \<and> length (subj_observed_evidence_id s) \<le> 1024
      \<and> length (subj_changes s) \<le> 256 \<and> length (subj_findings s) \<le> 256
      \<and> (\<exists>r. try_fold check_change_key {} (subj_changes s) = Inr r)
      \<and> for_each (subj_findings s) check_finding = Inr ()
      \<and> check_subject_status (subj_prospective_risk s) (subj_status s) (subj_changes s) (subj_findings s) = Inr ()"
    by (auto simp: policy_subject_try_new_def result_simps MAX_EVIDENCE_ID_BYTES_def
        MAX_REVIEW_CHANGES_def MAX_REVIEW_FINDINGS_def split: if_splits)
  then show ?thesis
    by (simp add: subject_valid_def check_change_keys_ok check_findings_ok check_subject_status_ok
        subject_has_blockers_def)
qed

text \<open>
  C26. The approval the baseline policy asks for grows with risk: on subjects that are not blocked and
  not from a remote actor, read-only and user-state work is allowed, and above that the class of
  approval demanded is monotone in the reviewed risk and exactly interactive for system mutations,
  administrator for security-sensitive work and the dedicated class for destructive work. Which actor
  proposes the work, an agent included, never weakens it.
\<close>

theorem baseline_approval_strength:
  assumes "subj_status s \<noteq> ReviewBlocked" "\<not> subject_has_blockers s" "actor_kind (subj_actor s) \<noteq> Remote"
  shows "(baseline_decision s = Allow \<longleftrightarrow> subj_prospective_risk s \<le> UserState)
    \<and> (\<forall>c. (\<exists>r. baseline_decision s = RequireApproval c r) \<longleftrightarrow>
         UserState < subj_prospective_risk s
         \<and> c = (if subj_prospective_risk s = SystemMutation then InteractiveUser
                else if subj_prospective_risk s = SecuritySensitive then Administrator
                else DestructiveAction))
    \<and> (\<forall>s' c c' r r'. baseline_decision s = RequireApproval c r \<longrightarrow> baseline_decision s' = RequireApproval c' r'
         \<longrightarrow> subj_prospective_risk s \<le> subj_prospective_risk s' \<longrightarrow> c \<le> c')"
proof (intro conjI allI impI)
  show "baseline_decision s = Allow \<longleftrightarrow> subj_prospective_risk s \<le> UserState"
    using assms by (auto simp: baseline_decision_def decision_simps Let_def split: risk_class.splits)
  show "(\<exists>r. baseline_decision s = RequireApproval c r) \<longleftrightarrow> UserState < subj_prospective_risk s
      \<and> c = (if subj_prospective_risk s = SystemMutation then InteractiveUser
             else if subj_prospective_risk s = SecuritySensitive then Administrator
             else DestructiveAction)" for c
    using assms by (auto simp: baseline_decision_def decision_simps Let_def split: risk_class.splits)
  fix s' c c' r r'
  assume "baseline_decision s = RequireApproval c r" "baseline_decision s' = RequireApproval c' r'"
    "subj_prospective_risk s \<le> subj_prospective_risk s'"
  then show "c \<le> c'"
    by (auto simp: baseline_decision_def decision_simps less_eq_approval_class_def Let_def
        split: if_splits risk_class.splits)
qed

definition example_subject :: "risk_class \<Rightarrow> policy_subject" where
  "example_subject risk = \<lparr> subj_principal = ''unix:uid:1000'', subj_plan_id = ''request:1'',
     subj_request_id = ''request:1'',
     subj_actor = \<lparr> actor_id = ''agent:1'', actor_kind = Agent, actor_interactive = False \<rparr>,
     subj_provider = ''systemd'', subj_resource = ''systemd:unit:ssh.service'',
     subj_capability = ''systemd.unit.observe'',
     subj_reason = dr_reason example_desired, subj_observed_evidence_id = ''e1'',
     subj_prospective_risk = risk, subj_status = ReviewChangeProposed,
     subj_changes = [\<lparr> rc_key = ''active_state'', rc_current = Some ''inactive'', rc_desired = ''active'' \<rparr>],
     subj_findings = [] \<rparr>"

lemma baseline_approval_strength_witness:
  "(\<exists>r. baseline_decision (example_subject SecuritySensitive) = RequireApproval Administrator r)
   \<and> baseline_decision (example_subject SystemMutation) \<noteq> Allow"
  using baseline_approval_strength [of "example_subject SecuritySensitive"]
    baseline_approval_strength [of "example_subject SystemMutation"]
  by (simp add: example_subject_def subject_has_blockers_def has_blocker_finding_def decision_simps)

end
