(* ===== verification/Risk_Classification.thy ===== *)
theory Risk_Classification
  imports Planner
begin

text \<open>
  Trusted risk classification in \<open>crates/linura-control/src\<close>: the builtin operation registry
  (\<open>operation_registry.rs\<close>) and the risk rules applied to a canonical plan
  (\<open>risk_classification.rs\<close>).
\<close>

section \<open>The builtin operation registry\<close>

definition MANAGED_SYSTEMD_REGISTERED_OPERATION_ID :: string where
  "MANAGED_SYSTEMD_REGISTERED_OPERATION_ID = ''operation:systemd.unit.set-active-state''"

definition MANAGED_SYSTEMD_PROVIDER :: string where
  "MANAGED_SYSTEMD_PROVIDER = ''systemd''"

definition MANAGED_SYSTEMD_CAPABILITY :: string where
  "MANAGED_SYSTEMD_CAPABILITY = ''systemd.unit.observe''"

definition MANAGED_SYSTEMD_RESOURCE_PREFIX :: string where
  "MANAGED_SYSTEMD_RESOURCE_PREFIX = ''systemd:unit:linura-managed-''"

definition MANAGED_SYSTEMD_RESOURCE_SUFFIX :: string where
  "MANAGED_SYSTEMD_RESOURCE_SUFFIX = ''.service''"

definition MANAGED_SYSTEMD_CHANGE_KEY :: string where
  "MANAGED_SYSTEMD_CHANGE_KEY = ''active_state''"

definition TRANSIENT_AUDIO_VOLUME_OPERATION_ID :: string where
  "TRANSIENT_AUDIO_VOLUME_OPERATION_ID = ''operation:audio.output.set-session-volume''"

definition MANAGED_SESSION_LOCK_OPERATION_ID :: string where
  "MANAGED_SESSION_LOCK_OPERATION_ID = ''operation:session.lock.set-secure''"

definition MANAGED_SESSION_LOCK_PROVIDER :: string where
  "MANAGED_SESSION_LOCK_PROVIDER = ''session-locker''"

definition MANAGED_SESSION_LOCK_CAPABILITY :: string where
  "MANAGED_SESSION_LOCK_CAPABILITY = ''session.secure-lock.observe''"

definition MANAGED_SESSION_TRANSITION_PROVIDER :: string where
  "MANAGED_SESSION_TRANSITION_PROVIDER = ''logind''"

definition MANAGED_SESSION_TRANSITION_CAPABILITY :: string where
  "MANAGED_SESSION_TRANSITION_CAPABILITY = ''session.transition.observe''"

definition SESSION_TRANSITION_ROUTES :: "(string \<times> string \<times> string \<times> string \<times> risk_class) list" where
  "SESSION_TRANSITION_ROUTES = [
     (''suspend'', ''operation:session.suspend'', ''session:transition:suspend:'',
      ''operation-registry.managed-session-suspend.risk-floor'', SecuritySensitive),
     (''logout'', ''operation:session.logout'', ''session:transition:logout:'',
      ''operation-registry.managed-session-logout.risk-floor'', Destructive),
     (''reboot'', ''operation:session.reboot'', ''session:transition:reboot:'',
      ''operation-registry.managed-session-reboot.risk-floor'', Destructive),
     (''power-off'', ''operation:session.power-off'', ''session:transition:power-off:'',
      ''operation-registry.managed-session-power-off.risk-floor'', Destructive)]"

definition TRANSIENT_AUDIO_PROVIDER :: string where
  "TRANSIENT_AUDIO_PROVIDER = ''pipewire''"

definition TRANSIENT_AUDIO_CAPABILITY :: string where
  "TRANSIENT_AUDIO_CAPABILITY = ''audio.session.observe''"

definition TRANSIENT_AUDIO_RESOURCE_PREFIX :: string where
  "TRANSIENT_AUDIO_RESOURCE_PREFIX = ''audio:session:output:''"

definition TRANSIENT_AUDIO_VOLUME_CHANGE_KEY :: string where
  "TRANSIENT_AUDIO_VOLUME_CHANGE_KEY = ''volume_percent''"

datatype trusted_operation_registry_error =
    RegistryIdentifier string
  | RegistryEffectBinding operation_effect_binding_error
  | RegistryDescriptor operation_descriptor_error
  | RegistryRejected operation_registry_error

text \<open>\<open>X::new(text)?\<close> under the \<open>From<ValidationError>\<close> conversion of the registry error.\<close>

definition trusted_id :: "string \<Rightarrow> string \<Rightarrow> trusted_operation_registry_error + string" where
  "trusted_id label v = map_err (\<lambda>e. RegistryIdentifier (validation_error_text e)) (typed_id_new label v)"

definition trusted_binding ::
  "string \<Rightarrow> string \<Rightarrow> string \<Rightarrow> string list
     \<Rightarrow> trusted_operation_registry_error + operation_effect_binding" where
  "trusted_binding provider capability pfx keys =
     and_then (trusted_id ''provider id'' provider) (\<lambda>provider.
     and_then (trusted_id ''capability id'' capability) (\<lambda>capability.
     map_err RegistryEffectBinding (effect_binding_try_new provider capability pfx keys)))"

definition trusted_descriptor ::
  "string \<Rightarrow> operation_class \<Rightarrow> risk_class \<Rightarrow> operation_effect_binding
     \<Rightarrow> trusted_operation_registry_error + operation_descriptor" where
  "trusted_descriptor operation c risk binding =
     and_then (trusted_id ''operation id'' operation) (\<lambda>operation.
     map_err RegistryDescriptor (descriptor_try_new operation c (Some risk) (Some binding)))"

definition managed_session_lock_descriptor ::
  "trusted_operation_registry_error + operation_descriptor" where
  "managed_session_lock_descriptor =
     and_then (trusted_binding MANAGED_SESSION_LOCK_PROVIDER MANAGED_SESSION_LOCK_CAPABILITY
       ''session:lock:'' [''secure'']) (\<lambda>binding.
     trusted_descriptor MANAGED_SESSION_LOCK_OPERATION_ID ManagedExternalEffect SecuritySensitive binding)"

definition managed_systemd_active_state_descriptor ::
  "trusted_operation_registry_error + operation_descriptor" where
  "managed_systemd_active_state_descriptor =
     and_then (trusted_binding MANAGED_SYSTEMD_PROVIDER MANAGED_SYSTEMD_CAPABILITY
       MANAGED_SYSTEMD_RESOURCE_PREFIX [MANAGED_SYSTEMD_CHANGE_KEY]) (\<lambda>binding.
     and_then (map_err RegistryEffectBinding
       (with_resource_suffix binding MANAGED_SYSTEMD_RESOURCE_SUFFIX)) (\<lambda>binding.
     trusted_descriptor MANAGED_SYSTEMD_REGISTERED_OPERATION_ID ManagedExternalEffect
       SecuritySensitive binding))"

definition transient_audio_volume_descriptor ::
  "trusted_operation_registry_error + operation_descriptor" where
  "transient_audio_volume_descriptor =
     and_then (trusted_binding TRANSIENT_AUDIO_PROVIDER TRANSIENT_AUDIO_CAPABILITY
       TRANSIENT_AUDIO_RESOURCE_PREFIX [TRANSIENT_AUDIO_VOLUME_CHANGE_KEY]) (\<lambda>binding.
     trusted_descriptor TRANSIENT_AUDIO_VOLUME_OPERATION_ID TransientExternalEffect UserState binding)"

definition trusted_register ::
  "operation_registry \<Rightarrow> trusted_operation_registry_error + operation_descriptor
     \<Rightarrow> trusted_operation_registry_error + operation_registry" where
  "trusted_register registry descriptor =
     and_then descriptor (\<lambda>d.
     case registry_register registry d of
       (Inl e, _) \<Rightarrow> Inl (RegistryRejected e)
     | (Inr _, registry) \<Rightarrow> Inr registry)"

definition trusted_builtin_operation_registry ::
  "trusted_operation_registry_error + operation_registry" where
  "trusted_builtin_operation_registry =
     and_then (trusted_register [] managed_systemd_active_state_descriptor) (\<lambda>registry.
     and_then (trusted_register registry transient_audio_volume_descriptor) (\<lambda>registry.
     and_then (trusted_register registry managed_session_lock_descriptor) (\<lambda>registry.
     try_fold (\<lambda>registry (_, operation, pfx, _, risk).
       trusted_register registry
         (and_then (trusted_id ''operation id'' operation) (\<lambda>operation.
          and_then (trusted_binding MANAGED_SESSION_TRANSITION_PROVIDER
            MANAGED_SESSION_TRANSITION_CAPABILITY pfx [''completed'']) (\<lambda>binding.
          map_err RegistryDescriptor
            (descriptor_try_new operation ManagedExternalEffect (Some risk) (Some binding))))))
       registry SESSION_TRANSITION_ROUTES)))"

section \<open>Risk rules\<close>

definition BASELINE_RISK_POLICY_REVISION :: string where
  "BASELINE_RISK_POLICY_REVISION = ''risk-policy:v0.3:1''"

definition SESSION_LOCK_RISK_POLICY_REVISION :: string where
  "SESSION_LOCK_RISK_POLICY_REVISION = ''risk-policy:v0.10:session-lock:1''"

definition REGISTERED_OPERATION_RISK_POLICY_REVISION :: string where
  "REGISTERED_OPERATION_RISK_POLICY_REVISION = ''risk-policy:v0.10:registered-operation-floor''"

definition REGISTERED_TRANSIENT_RISK_POLICY_REVISION :: string where
  "REGISTERED_TRANSIENT_RISK_POLICY_REVISION = ''risk-policy:v0.10:registered-transient-refinement''"

record risk_rule =
  rule_id :: string
  rule_provider :: string
  rule_capability :: string
  rule_resource_prefix :: string
  rule_change_keys :: "string list"
  rule_risk :: risk_class

definition matches_material_keys :: "risk_rule \<Rightarrow> reconciliation_plan \<Rightarrow> string list \<Rightarrow> bool" where
  "matches_material_keys rule plan material_keys \<longleftrightarrow>
     plan_provider plan = rule_provider rule
     \<and> plan_observation_capability plan = rule_capability rule
     \<and> prefix (rule_resource_prefix rule) (plan_resource_id plan)
     \<and> material_keys \<noteq> []
     \<and> list_all (\<lambda>key. key \<in> set (rule_change_keys rule)) material_keys"

definition rule_matches :: "risk_rule \<Rightarrow> reconciliation_plan \<Rightarrow> bool" where
  "rule_matches rule plan = matches_material_keys rule plan (map change_key (plan_changes plan))"

datatype risk_classification =
    NotApplicable risk_class
  | Classified risk_class string "string list"
  | Unclassified string string
  | DowngradeRejected string risk_class risk_class "string list"

record risk_policy =
  rp_revision :: string
  rp_rules :: "risk_rule list"

definition baseline_risk_policy :: risk_policy where
  "baseline_risk_policy = \<lparr> rp_revision = BASELINE_RISK_POLICY_REVISION, rp_rules = [
     \<lparr> rule_id = ''systemd.unit.active-state.security-sensitive'', rule_provider = ''systemd'',
       rule_capability = ''systemd.unit.observe'', rule_resource_prefix = ''systemd:unit:'',
       rule_change_keys = [''active_state''], rule_risk = SecuritySensitive \<rparr>,
     \<lparr> rule_id = ''audio.session.output-state.user-state'', rule_provider = ''pipewire'',
       rule_capability = ''audio.session.observe'', rule_resource_prefix = ''audio:session:'',
       rule_change_keys = [''muted'', ''volume_percent''], rule_risk = UserState \<rparr>] \<rparr>"

text \<open>\<open>{:?}\<close> of a \<open>Vec<&str>\<close>.\<close>

fun debug_str_items :: "string list \<Rightarrow> string" where
  "debug_str_items [] = []"
| "debug_str_items [s] = debug_str s"
| "debug_str_items (s # ss) = debug_str s @ '', '' @ debug_str_items ss"

definition debug_str_list :: "string list \<Rightarrow> string" where
  "debug_str_list ss = ''['' @ debug_str_items ss @ '']''"

definition classify_with_registered_transient_refinement ::
  "risk_policy \<Rightarrow> reconciliation_plan \<Rightarrow> bool \<Rightarrow> (string, string) btree_map option
     \<Rightarrow> risk_classification" where
  "classify_with_registered_transient_refinement policy plan refinement requested_state =
     (if plan_status plan \<noteq> ChangeProposed \<or> plan_changes plan = []
      then NotApplicable (plan_prospective_risk plan)
      else
        let material_keys = (case requested_state of
              None \<Rightarrow> map change_key (plan_changes plan)
            | Some state \<Rightarrow> bt_keys state) in
        if material_keys = []
        then Unclassified (rp_revision policy) ''registered transient requested state is empty''
        else
          let matched = sort_key rule_id (filter (\<lambda>rule.
                if refinement then matches_material_keys rule plan material_keys
                else rule_matches rule plan) (rp_rules policy)) in
          if matched = []
          then Unclassified (rp_revision policy)
            (''no trusted risk rule covers provider='' @ plan_provider plan @ '' resource=''
               @ plan_resource_id plan @ '' capability='' @ plan_observation_capability plan
               @ '' material_keys='' @ debug_str_list material_keys)
          else
            let classified = fold max (map rule_risk (tl matched)) (rule_risk (hd matched));
                rule_ids = map rule_id matched in
            if classified < plan_prospective_risk plan \<and> \<not> refinement
            then DowngradeRejected (rp_revision policy) (plan_prospective_risk plan) classified rule_ids
            else Classified classified
              (if classified < plan_prospective_risk plan
               then REGISTERED_TRANSIENT_RISK_POLICY_REVISION else rp_revision policy)
              rule_ids)"

definition classify :: "risk_policy \<Rightarrow> reconciliation_plan \<Rightarrow> risk_classification" where
  "classify policy plan = classify_with_registered_transient_refinement policy plan False None"

definition classify_registered_transient ::
  "risk_policy \<Rightarrow> reconciliation_plan \<Rightarrow> (string, string) btree_map \<Rightarrow> risk_classification" where
  "classify_registered_transient policy plan requested_state =
     classify_with_registered_transient_refinement policy plan True (Some requested_state)"

definition session_transition_risk_policy :: risk_policy where
  "session_transition_risk_policy = \<lparr> rp_revision = ''risk-policy:v0.10:session-transition:1'',
     rp_rules = map (\<lambda>(_, _, resource_prefix, ident, risk).
       \<lparr> rule_id = ident, rule_provider = ''logind'', rule_capability = ''session.transition.observe'',
         rule_resource_prefix = resource_prefix, rule_change_keys = [''completed''],
         rule_risk = risk \<rparr>) SESSION_TRANSITION_ROUTES \<rparr>"

definition session_lock_risk_policy :: risk_policy where
  "session_lock_risk_policy = \<lparr> rp_revision = SESSION_LOCK_RISK_POLICY_REVISION, rp_rules = [
     \<lparr> rule_id = ''session.native-lock.security-sensitive'', rule_provider = ''session-locker'',
       rule_capability = ''session.secure-lock.observe'', rule_resource_prefix = ''session:lock:'',
       rule_change_keys = [''secure''], rule_risk = SecuritySensitive \<rparr>] \<rparr>"

definition classify_plan_risk :: "reconciliation_plan \<Rightarrow> risk_classification" where
  "classify_plan_risk plan =
     (if plan_provider plan = MANAGED_SESSION_TRANSITION_PROVIDER
         \<and> plan_observation_capability plan = MANAGED_SESSION_TRANSITION_CAPABILITY
      then classify session_transition_risk_policy plan
      else if plan_provider plan = ''session-locker''
      then classify session_lock_risk_policy plan
      else classify baseline_risk_policy plan)"

definition classify_exact_registered_transient_risk ::
  "reconciliation_plan \<Rightarrow> (string, string) btree_map \<Rightarrow> risk_classification" where
  "classify_exact_registered_transient_risk plan requested_state =
     classify_registered_transient baseline_risk_policy plan requested_state"

definition classify_plan_risk_with_floor ::
  "reconciliation_plan \<Rightarrow> risk_class \<Rightarrow> string \<Rightarrow> risk_classification" where
  "classify_plan_risk_with_floor plan floor floor_rule_id =
     (case classify_plan_risk plan of
        Classified risk _ rule_ids \<Rightarrow>
          Classified (max risk floor) REGISTERED_OPERATION_RISK_POLICY_REVISION
            (remdups_adj (sort (rule_ids @ [floor_rule_id])))
      | NotApplicable risk \<Rightarrow> NotApplicable (max risk floor)
      | other \<Rightarrow> other)"

section \<open>Classification never lowers risk\<close>

lemma fold_max_ge: "x \<le> fold max xs (x :: 'a :: linorder)" "y \<in> set xs \<Longrightarrow> y \<le> fold max xs x"
proof (induction xs arbitrary: x)
  case (Cons z xs)
  {
    case 1
    then show ?case using Cons.IH(1) [of "max z x"] by (simp add: max.coboundedI2)
  next
    case 2
    then show ?case using Cons.IH(1) [of "max z x"] Cons.IH(2) [of "max z x"] by auto
  }
qed simp_all

lemma fold_max_in: "fold max xs (x :: 'a :: linorder) \<in> insert x (set xs)"
proof (induction xs arbitrary: x)
  case (Cons z xs)
  from Cons [of "max z x"] show ?case by (auto simp: max_def split: if_splits)
qed simp

lemma matched_max:
  fixes rules :: "risk_rule list"
  assumes "matched = sort_key rule_id rules" "matched \<noteq> []"
  shows "\<And>r. r \<in> set rules \<Longrightarrow> rule_risk r \<le> fold max (map rule_risk (tl matched)) (rule_risk (hd matched))"
    "\<exists>r \<in> set rules. rule_risk r = fold max (map rule_risk (tl matched)) (rule_risk (hd matched))"
proof -
  have sets: "set matched = set rules" using assms(1) by simp
  have split: "set matched = insert (hd matched) (set (tl matched))"
    using assms(2) by (metis list.collapse list.simps(15))
  show "\<And>r. r \<in> set rules \<Longrightarrow> rule_risk r \<le> fold max (map rule_risk (tl matched)) (rule_risk (hd matched))"
    using split sets fold_max_ge by (metis (no_types, lifting) image_eqI insertE list.set_map)
  have "fold max (map rule_risk (tl matched)) (rule_risk (hd matched)) \<in> rule_risk ` set matched"
    using fold_max_in [of "map rule_risk (tl matched)" "rule_risk (hd matched)"] split by auto
  then show "\<exists>r \<in> set rules. rule_risk r = fold max (map rule_risk (tl matched)) (rule_risk (hd matched))"
    using sets by auto
qed

text \<open>
  What a classification by a rule set means: the highest risk among the rules that cover every
  material change of the plan, and at least the planner's own risk.
\<close>

lemma classify_Classified:
  assumes "classify policy plan = Classified risk revision ids"
  shows "plan_prospective_risk plan \<le> risk"
    "plan_status plan = ChangeProposed" "plan_changes plan \<noteq> []"
    "\<exists>r \<in> set (rp_rules policy). rule_matches r plan \<and> rule_risk r = risk"
    "\<And>r. r \<in> set (rp_rules policy) \<Longrightarrow> rule_matches r plan \<Longrightarrow> rule_risk r \<le> risk"
proof -
  let ?rules = "filter (\<lambda>rule. rule_matches rule plan) (rp_rules policy)"
  let ?m = "sort_key rule_id ?rules"
  from assms have c: "risk = fold max (map rule_risk (tl ?m)) (rule_risk (hd ?m))" "?m \<noteq> []"
      "plan_prospective_risk plan \<le> risk" "plan_status plan = ChangeProposed" "plan_changes plan \<noteq> []"
    by (auto simp: classify_def classify_with_registered_transient_refinement_def Let_def split: if_splits)
  show "plan_prospective_risk plan \<le> risk" "plan_status plan = ChangeProposed" "plan_changes plan \<noteq> []"
    by (fact c)+
  show "\<exists>r \<in> set (rp_rules policy). rule_matches r plan \<and> rule_risk r = risk"
    using matched_max(2) [OF refl c(2)] c(1) by auto
  show "\<And>r. r \<in> set (rp_rules policy) \<Longrightarrow> rule_matches r plan \<Longrightarrow> rule_risk r \<le> risk"
    using matched_max(1) [OF refl c(2)] c(1) by auto
qed

lemma classify_NotApplicable:
  "classify policy plan = NotApplicable risk \<longleftrightarrow>
     risk = plan_prospective_risk plan \<and> (plan_status plan \<noteq> ChangeProposed \<or> plan_changes plan = [])"
  by (auto simp: classify_def classify_with_registered_transient_refinement_def Let_def)

lemma classify_plan_risk_policy: "\<exists>policy. classify_plan_risk plan = classify policy plan"
  by (auto simp: classify_plan_risk_def)

lemma classify_plan_risk_bound:
  "classify_plan_risk plan = Classified risk revision ids \<Longrightarrow>
     plan_prospective_risk plan \<le> risk \<and> plan_status plan = ChangeProposed"
  "classify_plan_risk plan = NotApplicable risk \<Longrightarrow>
     risk = plan_prospective_risk plan \<and> (plan_status plan \<noteq> ChangeProposed \<or> plan_changes plan = [])"
  using classify_plan_risk_policy [of plan]
  by (metis classify_Classified(1,2), metis classify_NotApplicable)

text \<open>
  The rules of a policy that cover a plan's route and all of the given keys, independent of the order in which
  the code scans them.
\<close>

definition covering_rules :: "risk_policy \<Rightarrow> reconciliation_plan \<Rightarrow> string set \<Rightarrow> risk_rule set" where
  "covering_rules policy plan keys = {r \<in> set (rp_rules policy). rule_provider r = plan_provider plan
     \<and> rule_capability r = plan_observation_capability plan
     \<and> prefix (rule_resource_prefix r) (plan_resource_id plan) \<and> keys \<subseteq> set (rule_change_keys r)}"

lemma matched_rules:
  assumes "keys \<noteq> []"
  shows "set (filter (\<lambda>r. matches_material_keys r plan keys) (rp_rules policy)) = covering_rules policy plan (set keys)"
  using assms by (auto simp: covering_rules_def matches_material_keys_def list_all_iff)

lemma sorted_matched_Max:
  fixes rules :: "risk_rule list"
  assumes "set rules = C" "C \<noteq> {}"
  shows "fold max (map rule_risk (tl (sort_key rule_id rules))) (rule_risk (hd (sort_key rule_id rules)))
    = Max (rule_risk ` C)"
proof -
  have ne: "sort_key rule_id rules \<noteq> []" using assms by (metis set_empty set_sort)
  have "finite (rule_risk ` C)" using assms(1) by auto
  moreover have "fold max (map rule_risk (tl (sort_key rule_id rules))) (rule_risk (hd (sort_key rule_id rules)))
      \<in> rule_risk ` C"
    using matched_max(2) [OF refl ne] assms(1) by (metis imageI)
  ultimately show ?thesis using matched_max(1) [OF refl ne] assms(1) by (intro Max_eqI [symmetric]) auto
qed

text \<open>
  The classifier on a plan that proposes changes, for either set of material keys: nothing covers them, or the
  highest risk of the covering rules is compared with the planner's.
\<close>

lemma refinement_exact:
  fixes policy :: risk_policy and requested :: "(string, string) btree_map option"
  assumes "plan_status plan = ChangeProposed" "plan_changes plan \<noteq> []"
    and "keys = (case requested of None \<Rightarrow> map change_key (plan_changes plan) | Some state \<Rightarrow> bt_keys state)"
      "keys \<noteq> []" "refinement \<longleftrightarrow> requested \<noteq> None"
    and C: "C = covering_rules policy plan (set keys)" and highest: "highest = Max (rule_risk ` C)"
  shows "\<exists>ids reason. sorted ids \<and> set ids = rule_id ` C
    \<and> classify_with_registered_transient_refinement policy plan refinement requested =
        (if C = {} then Unclassified (rp_revision policy) reason
         else if highest < plan_prospective_risk plan \<and> \<not> refinement
         then DowngradeRejected (rp_revision policy) (plan_prospective_risk plan) highest ids
         else Classified highest (if highest < plan_prospective_risk plan then REGISTERED_TRANSIENT_RISK_POLICY_REVISION
           else rp_revision policy) ids)"
proof -
  let ?rules = "filter (\<lambda>r. matches_material_keys r plan keys) (rp_rules policy)"
  let ?m = "sort_key rule_id ?rules"
  have rules: "set ?rules = C" using matched_rules [OF assms(4)] C by simp
  have scan: "(\<lambda>r. if refinement then matches_material_keys r plan keys else rule_matches r plan)
      = (\<lambda>r. matches_material_keys r plan keys)"
    using assms(3,5) by (auto simp: rule_matches_def split: option.splits)
  have keys: "(case requested of None \<Rightarrow> map change_key (plan_changes plan) | Some state \<Rightarrow> bt_keys state) = keys"
    by (simp add: assms(3))
  have ids: "sorted (map rule_id ?m)" "set (map rule_id ?m) = rule_id ` C" using rules by (simp, simp only: set_map set_sort)
  have "?m = [] \<longleftrightarrow> C = {}" using rules by (metis set_empty set_sort)
  moreover have "C \<noteq> {} \<Longrightarrow> fold max (map rule_risk (tl ?m)) (rule_risk (hd ?m)) = highest"
    using sorted_matched_Max [OF rules] highest by simp
  ultimately have "\<exists>reason. classify_with_registered_transient_refinement policy plan refinement requested =
        (if C = {} then Unclassified (rp_revision policy) reason
         else if highest < plan_prospective_risk plan \<and> \<not> refinement
         then DowngradeRejected (rp_revision policy) (plan_prospective_risk plan) highest (map rule_id ?m)
         else Classified highest (if highest < plan_prospective_risk plan then REGISTERED_TRANSIENT_RISK_POLICY_REVISION
           else rp_revision policy) (map rule_id ?m))"
    unfolding classify_with_registered_transient_refinement_def keys Let_def scan using assms(1,2,4) by auto
  with ids show ?thesis by blast
qed

lemma classify_exact:
  fixes policy :: risk_policy
  assumes "plan_status plan = ChangeProposed" "plan_changes plan \<noteq> []"
    and C: "C = covering_rules policy plan (change_key ` set (plan_changes plan))"
  shows "\<exists>ids reason. set ids = rule_id ` C \<and> classify policy plan =
    (if C = {} then Unclassified (rp_revision policy) reason
     else if Max (rule_risk ` C) < plan_prospective_risk plan
     then DowngradeRejected (rp_revision policy) (plan_prospective_risk plan) (Max (rule_risk ` C)) ids
     else Classified (Max (rule_risk ` C)) (rp_revision policy) ids)"
proof -
  have "C = covering_rules policy plan (set (map change_key (plan_changes plan)))" by (simp add: C)
  from refinement_exact [OF assms(1,2) _ _ _ this refl, of None False] assms(2) obtain ids reason where
    "set ids = rule_id ` C" "classify policy plan = (if C = {} then Unclassified (rp_revision policy) reason
       else if Max (rule_risk ` C) < plan_prospective_risk plan \<and> \<not> False
       then DowngradeRejected (rp_revision policy) (plan_prospective_risk plan) (Max (rule_risk ` C)) ids
       else Classified (Max (rule_risk ` C)) (if Max (rule_risk ` C) < plan_prospective_risk plan
         then REGISTERED_TRANSIENT_RISK_POLICY_REVISION else rp_revision policy) ids)"
    unfolding classify_def by auto
  then show ?thesis by (intro exI [of _ ids] exI [of _ reason]) simp
qed

lemma registered_transient_exact:
  fixes policy :: risk_policy
  assumes "plan_status plan = ChangeProposed" "plan_changes plan \<noteq> []" "state \<noteq> []"
    and T: "T = covering_rules policy plan (set (bt_keys state))"
  shows "\<exists>ids reason. set ids = rule_id ` T \<and> classify_registered_transient policy plan state =
    (if T = {} then Unclassified (rp_revision policy) reason
     else Classified (Max (rule_risk ` T)) (if Max (rule_risk ` T) < plan_prospective_risk plan
       then REGISTERED_TRANSIENT_RISK_POLICY_REVISION else rp_revision policy) ids)"
proof -
  have "bt_keys state \<noteq> []" using assms(3) by (simp add: bt_keys_def)
  from refinement_exact [OF assms(1,2) _ this _ T refl, of "Some state" True] obtain ids reason where
    "set ids = rule_id ` T" "classify_registered_transient policy plan state =
      (if T = {} then Unclassified (rp_revision policy) reason
       else if Max (rule_risk ` T) < plan_prospective_risk plan \<and> \<not> True
       then DowngradeRejected (rp_revision policy) (plan_prospective_risk plan) (Max (rule_risk ` T)) ids
       else Classified (Max (rule_risk ` T)) (if Max (rule_risk ` T) < plan_prospective_risk plan
         then REGISTERED_TRANSIENT_RISK_POLICY_REVISION else rp_revision policy) ids)"
    unfolding classify_registered_transient_def by auto
  then show ?thesis by (intro exI [of _ ids] exI [of _ reason]) simp
qed

text \<open>
  C25. Risk classification is exact. For a plan that proposes changes, take the rules of a policy that cover the
  plan's provider, capability, resource and every change key. With no such rule the plan is unclassified; otherwise
  the class is the highest risk of those rules, refused when it is below the planner's risk and reported with the
  ids of exactly those rules when it is not. Each route of the ordinary classifier consults one fixed policy, and
  the floor of a registered operation only raises the class and adds its rule. Only the registered-transient
  refinement may go below the planner's risk: then the rules must cover every requested key instead of the
  changed ones, the class is again their highest risk, and the reported revision says that it was lowered.
\<close>

theorem risk_classification_exact:
  fixes policy :: risk_policy
  assumes "plan_status plan = ChangeProposed" "plan_changes plan \<noteq> []"
  defines "C \<equiv> covering_rules policy plan (change_key ` set (plan_changes plan))"
    and "T \<equiv> \<lambda>state. covering_rules policy plan (set (bt_keys state))"
    and "planner \<equiv> plan_prospective_risk plan"
  shows "(C = {} \<longrightarrow> (\<exists>reason. classify policy plan = Unclassified (rp_revision policy) reason))
    \<and> (C \<noteq> {} \<and> Max (rule_risk ` C) < planner \<longrightarrow> (\<exists>ids. set ids = rule_id ` C
         \<and> classify policy plan = DowngradeRejected (rp_revision policy) planner (Max (rule_risk ` C)) ids))
    \<and> (C \<noteq> {} \<and> planner \<le> Max (rule_risk ` C) \<longrightarrow> (\<exists>ids. set ids = rule_id ` C
         \<and> classify policy plan = Classified (Max (rule_risk ` C)) (rp_revision policy) ids))
    \<and> classify_plan_risk plan = classify
        (if plan_provider plan = ''logind'' \<and> plan_observation_capability plan = ''session.transition.observe''
         then session_transition_risk_policy
         else if plan_provider plan = ''session-locker'' then session_lock_risk_policy else baseline_risk_policy) plan
    \<and> (\<forall>floor rule. case classify_plan_risk plan of
         Classified risk _ ids \<Rightarrow> (\<exists>ids'. set ids' = insert rule (set ids)
           \<and> classify_plan_risk_with_floor plan floor rule
             = Classified (max risk floor) REGISTERED_OPERATION_RISK_POLICY_REVISION ids')
       | c \<Rightarrow> classify_plan_risk_with_floor plan floor rule = c)
    \<and> (\<forall>state. state \<noteq> [] \<longrightarrow>
         (if T state = {} then \<exists>reason. classify_registered_transient policy plan state = Unclassified (rp_revision policy) reason
          else \<exists>ids. set ids = rule_id ` T state \<and> classify_registered_transient policy plan state
            = Classified (Max (rule_risk ` T state))
                (if Max (rule_risk ` T state) < planner then REGISTERED_TRANSIENT_RISK_POLICY_REVISION
                 else rp_revision policy) ids))"
proof -
  from classify_exact [OF assms(1,2) C_def [THEN meta_eq_to_obj_eq]] obtain ids reason where c: "set ids = rule_id ` C"
      "classify policy plan = (if C = {} then Unclassified (rp_revision policy) reason
         else if Max (rule_risk ` C) < planner
         then DowngradeRejected (rp_revision policy) planner (Max (rule_risk ` C)) ids
         else Classified (Max (rule_risk ` C)) (rp_revision policy) ids)"
    unfolding planner_def by blast
  have route: "classify_plan_risk plan = classify
      (if plan_provider plan = ''logind'' \<and> plan_observation_capability plan = ''session.transition.observe''
       then session_transition_risk_policy
       else if plan_provider plan = ''session-locker'' then session_lock_risk_policy else baseline_risk_policy) plan"
    by (simp add: classify_plan_risk_def MANAGED_SESSION_TRANSITION_PROVIDER_def MANAGED_SESSION_TRANSITION_CAPABILITY_def)
  have "classify_plan_risk plan \<noteq> NotApplicable risk" for risk
    using classify_plan_risk_bound(2) [of plan risk] assms(1,2) by blast
  then have floor: "case classify_plan_risk plan of
       Classified risk _ ids \<Rightarrow> (\<exists>ids'. set ids' = insert rule (set ids)
         \<and> classify_plan_risk_with_floor plan floor rule
           = Classified (max risk floor) REGISTERED_OPERATION_RISK_POLICY_REVISION ids')
     | c \<Rightarrow> classify_plan_risk_with_floor plan floor rule = c" for floor rule
    by (auto simp: classify_plan_risk_with_floor_def split: risk_classification.splits)
  have transient: "if T state = {} then \<exists>reason. classify_registered_transient policy plan state
        = Unclassified (rp_revision policy) reason
      else \<exists>ids. set ids = rule_id ` T state \<and> classify_registered_transient policy plan state
        = Classified (Max (rule_risk ` T state))
            (if Max (rule_risk ` T state) < planner then REGISTERED_TRANSIENT_RISK_POLICY_REVISION
             else rp_revision policy) ids" if "state \<noteq> []" for state
  proof -
    have "T state = covering_rules policy plan (set (bt_keys state))" by (simp add: T_def)
    from registered_transient_exact [OF assms(1,2) that this] show ?thesis
      by (cases "T state = {}") (auto simp: planner_def)
  qed
  from c show ?thesis by (intro conjI allI impI route floor transient) auto
qed

text \<open>
  At work: muting audio is a system mutation to the planner and user state to the only rule that covers it. The
  ordinary classifier refuses the downgrade; the registered-transient refinement makes it and says so.
\<close>

definition example_audio_plan :: reconciliation_plan where
  "example_audio_plan = \<lparr> plan_id = ''request:1'', plan_request_id = ''request:1'',
     plan_actor = intent_actor example_intent, plan_provider = ''pipewire'',
     plan_resource_id = ''audio:session:output:1'', plan_observation_capability = ''audio.session.observe'',
     plan_reason = dr_reason example_desired, plan_observed_evidence_id = ''e1'',
     plan_prospective_risk = SystemMutation, plan_status = ChangeProposed, plan_execution_authority = Disabled,
     plan_changes = [\<lparr> change_key = ''muted'', change_current = Some ''false'', change_desired = ''true'' \<rparr>],
     plan_findings = [] \<rparr>"

lemma example_audio_covering:
  "covering_rules baseline_risk_policy example_audio_plan {''muted''} =
     {\<lparr> rule_id = ''audio.session.output-state.user-state'', rule_provider = ''pipewire'',
       rule_capability = ''audio.session.observe'', rule_resource_prefix = ''audio:session:'',
       rule_change_keys = [''muted'', ''volume_percent''], rule_risk = UserState \<rparr>}"
proof -
  have "covering_rules baseline_risk_policy example_audio_plan {''muted''}
      = set (filter (\<lambda>r. rule_provider r = ''pipewire'' \<and> rule_capability r = ''audio.session.observe''
          \<and> prefix (rule_resource_prefix r) ''audio:session:output:1'' \<and> {''muted''} \<subseteq> set (rule_change_keys r))
          (rp_rules baseline_risk_policy))"
    by (simp add: covering_rules_def example_audio_plan_def)
  then show ?thesis by (simp add: baseline_risk_policy_def)
qed

theorem risk_classification_exact_witness:
  "(\<exists>ids. classify baseline_risk_policy example_audio_plan
       = DowngradeRejected BASELINE_RISK_POLICY_REVISION SystemMutation UserState ids)
   \<and> (\<exists>ids. classify_exact_registered_transient_risk example_audio_plan [(''muted'', ''true'')]
       = Classified UserState REGISTERED_TRANSIENT_RISK_POLICY_REVISION ids)"
proof -
  have plan: "plan_status example_audio_plan = ChangeProposed" "plan_changes example_audio_plan \<noteq> []"
      "change_key ` set (plan_changes example_audio_plan) = {''muted''}"
      "plan_prospective_risk example_audio_plan = SystemMutation"
    by (simp_all add: example_audio_plan_def)
  have keys: "set (bt_keys [(''muted'', ''true'')]) = {''muted''}" by (simp add: bt_keys_def)
  have low: "UserState < SystemMutation" by (simp add: less_risk_class_def)
  have revision: "rp_revision baseline_risk_policy = BASELINE_RISK_POLICY_REVISION" by (simp add: baseline_risk_policy_def)
  note exact = risk_classification_exact [OF plan(1,2), of baseline_risk_policy, unfolded plan(3,4) example_audio_covering revision]
  note downgrade = exact [THEN conjunct2, THEN conjunct1]
  note transient = exact [THEN conjunct2, THEN conjunct2, THEN conjunct2, THEN conjunct2, THEN conjunct2, THEN spec,
      of "[(''muted'', ''true'')]", unfolded keys example_audio_covering]
  from downgrade have "\<exists>ids. classify baseline_risk_policy example_audio_plan
      = DowngradeRejected BASELINE_RISK_POLICY_REVISION SystemMutation UserState ids"
    by (auto simp: low)
  moreover from transient have "\<exists>ids. classify_registered_transient baseline_risk_policy example_audio_plan [(''muted'', ''true'')]
      = Classified UserState REGISTERED_TRANSIENT_RISK_POLICY_REVISION ids"
    by (auto simp: low)
  ultimately show ?thesis by (simp add: classify_exact_registered_transient_risk_def)
qed

text \<open>The builtin registry is well formed: construction succeeds, with seven distinct operations.\<close>

lemma trusted_registry_ok:
  "case trusted_builtin_operation_registry of
     Inl _ \<Rightarrow> False
   | Inr registry \<Rightarrow> length registry = 7 \<and> bt_wf registry
       \<and> list_all (\<lambda>(k, d). k = od_id d) registry"
  by code_simp

end
