(* ===== verification/Policy_Review.thy ===== *)
theory Policy_Review
  imports Policy Risk_Classification
begin

text \<open>
  \<open>crates/linura-control/src/policy_review.rs\<close> and the projection in \<open>review_projection.rs\<close>:
  Control derives the policy subject from the canonical plan under the trusted risk classification
  and evaluates it with the engine the route selects.
\<close>

datatype policy_subject_error = InvalidPrincipal string | InvalidSubject string

record trusted_policy_review =
  tpr_evaluation :: policy_evaluation

definition map_principal_error :: "validation_error \<Rightarrow> policy_subject_error" where
  "map_principal_error e = InvalidPrincipal (validation_error_text e)"

definition map_subject_error :: "policy_subject_validation_error \<Rightarrow> policy_subject_error" where
  "map_subject_error e = InvalidSubject (policy_subject_validation_error_text e)"

fun map_status :: "plan_status \<Rightarrow> review_plan_status" where
  "map_status NoChange = ReviewNoChange"
| "map_status ChangeProposed = ReviewChangeProposed"
| "map_status PlanBlocked = ReviewBlocked"

fun map_finding_level :: "plan_finding_level \<Rightarrow> review_finding_level" where
  "map_finding_level Pass = ReviewPass"
| "map_finding_level Warning = ReviewWarning"
| "map_finding_level Blocker = ReviewBlocker"

fun risk_name :: "risk_class \<Rightarrow> string" where
  "risk_name ReadOnly = ''read-only''"
| "risk_name UserState = ''user-state''"
| "risk_name SystemMutation = ''system-mutation''"
| "risk_name SecuritySensitive = ''security-sensitive''"
| "risk_name Destructive = ''destructive''"

text \<open>\<open>rule_ids.join(",")\<close>.\<close>

fun join_comma :: "string list \<Rightarrow> string" where
  "join_comma [] = []"
| "join_comma [s] = s"
| "join_comma (s # ss) = s @ '','' @ join_comma ss"

definition reviewed_finding_of :: "plan_finding \<Rightarrow> reviewed_finding" where
  "reviewed_finding_of f = \<lparr> rf_code = finding_code f, rf_level = map_finding_level (finding_level f),
     rf_message = finding_message f \<rparr>"

definition reviewed_change_of :: "state_change \<Rightarrow> reviewed_change" where
  "reviewed_change_of c = \<lparr> rc_key = change_key c, rc_current = change_current c,
     rc_desired = change_desired c \<rparr>"

text \<open>The status, risk and findings after the \<open>match classification\<close>.\<close>

fun apply_classification ::
  "risk_classification \<Rightarrow> review_plan_status \<Rightarrow> risk_class \<Rightarrow> reviewed_finding list
     \<Rightarrow> review_plan_status \<times> risk_class \<times> reviewed_finding list" where
  "apply_classification (NotApplicable classified_risk) status risk findings =
     (status, classified_risk, findings)"
| "apply_classification (Classified classified_risk revision rule_ids) status risk findings =
     (status, classified_risk, findings @ [\<lparr> rf_code = ''authority-risk-classified'',
        rf_level = ReviewPass,
        rf_message = ''trusted risk policy '' @ revision @ '' classified the canonical plan as ''
          @ risk_name classified_risk @ '' using rules '' @ join_comma rule_ids \<rparr>])"
| "apply_classification (Unclassified revision reason) status risk findings =
     (ReviewBlocked, risk, findings @ [\<lparr> rf_code = ''authority-risk-unclassified'',
        rf_level = ReviewBlocker,
        rf_message = ''trusted risk policy '' @ revision
          @ '' cannot classify this mutation safely: '' @ reason \<rparr>])"
| "apply_classification (DowngradeRejected revision floor classified rule_ids) status risk findings =
     (ReviewBlocked, risk, findings @ [\<lparr> rf_code = ''authority-risk-downgrade-rejected'',
        rf_level = ReviewBlocker,
        rf_message = ''trusted risk policy '' @ revision
          @ '' attempted to classify below the planner floor: floor='' @ risk_name floor
          @ '' classified='' @ risk_name classified @ '' rules='' @ join_comma rule_ids \<rparr>])"

definition policy_subject_from_plan_with_classification ::
  "string \<Rightarrow> reconciliation_plan \<Rightarrow> risk_classification \<Rightarrow> policy_subject_error + policy_subject" where
  "policy_subject_from_plan_with_classification prin plan classification =
     and_then (map_err map_principal_error (typed_id_new ''principal id'' prin)) (\<lambda>prin.
     let (status, risk, findings) = apply_classification classification
           (map_status (plan_status plan)) (plan_prospective_risk plan)
           (map reviewed_finding_of (plan_findings plan)) in
     map_err map_subject_error (policy_subject_try_new
       \<lparr> subj_principal = prin, subj_plan_id = plan_id plan,
         subj_request_id = plan_request_id plan, subj_actor = plan_actor plan,
         subj_provider = plan_provider plan, subj_resource = plan_resource_id plan,
         subj_capability = plan_observation_capability plan, subj_reason = plan_reason plan,
         subj_observed_evidence_id = plan_observed_evidence_id plan,
         subj_prospective_risk = risk, subj_status = status,
         subj_changes = map reviewed_change_of (plan_changes plan),
         subj_findings = findings \<rparr>))"

definition policy_subject_from_plan ::
  "string \<Rightarrow> reconciliation_plan \<Rightarrow> policy_subject_error + policy_subject" where
  "policy_subject_from_plan prin plan =
     policy_subject_from_plan_with_classification prin plan (classify_plan_risk plan)"

definition review_subject_for_control :: "policy_subject \<Rightarrow> trusted_policy_review" where
  "review_subject_for_control s = \<lparr> tpr_evaluation =
     (if subj_provider s = ''session-locker''
      then evaluate session_lock_snapshot session_lock_decision s
      else evaluate baseline_snapshot baseline_decision s) \<rparr>"

definition review_plan ::
  "string \<Rightarrow> reconciliation_plan \<Rightarrow> policy_subject_error + trusted_policy_review" where
  "review_plan prin plan =
     and_then (policy_subject_from_plan prin plan) (\<lambda>s. Inr (review_subject_for_control s))"

definition review_plan_with_classification ::
  "string \<Rightarrow> reconciliation_plan \<Rightarrow> risk_classification \<Rightarrow> policy_subject_error + trusted_policy_review" where
  "review_plan_with_classification prin plan classification =
     and_then (policy_subject_from_plan_with_classification prin plan classification)
       (\<lambda>s. Inr (review_subject_for_control s))"

definition review_protective_plan ::
  "string \<Rightarrow> reconciliation_plan \<Rightarrow> risk_classification \<Rightarrow> protective_lock_policy
     \<Rightarrow> policy_subject_error + trusted_policy_review" where
  "review_protective_plan prin plan classification policy =
     and_then (policy_subject_from_plan_with_classification prin plan classification) (\<lambda>s.
     Inr \<lparr> tpr_evaluation = evaluate (plp_snapshot policy) (protective_lock_decision policy) s \<rparr>)"

abbreviation review_subject :: "trusted_policy_review \<Rightarrow> policy_subject" where
  "review_subject r \<equiv> ev_subject (tpr_evaluation r)"

abbreviation review_decision :: "trusted_policy_review \<Rightarrow> policy_decision" where
  "review_decision r \<equiv> ev_decision (tpr_evaluation r)"

section \<open>Projection of a review\<close>

datatype plan_review_decision = ProjAllow | ProjDeny | ProjRequireApproval | ProjBlocked

record plan_review =
  pr_plan_id :: plan_id
  pr_request_id :: request_id
  pr_principal :: principal_id
  pr_actor :: actor
  pr_provider :: provider_id
  pr_resource :: resource_id
  pr_observation_capability :: capability_id
  pr_reason :: semantic_reason
  pr_observed_evidence_id :: string
  pr_planner_risk_floor :: risk_class
  pr_reviewed_risk :: risk_class
  pr_status :: review_plan_status
  pr_policy_id :: policy_id
  pr_policy_revision_id :: policy_revision_id
  pr_decision :: plan_review_decision
  pr_approval_class :: "approval_class option"
  pr_decision_reason :: string
  pr_execution_authorized :: bool
  pr_changes :: "reviewed_change list"
  pr_findings :: "reviewed_finding list"

fun project_decision :: "policy_decision \<Rightarrow> plan_review_decision \<times> approval_class option \<times> string" where
  "project_decision Allow = (ProjAllow, None, [])"
| "project_decision (Deny reason) = (ProjDeny, None, reason)"
| "project_decision (RequireApproval c reason) = (ProjRequireApproval, Some c, reason)"
| "project_decision (DecisionBlocked reason) = (ProjBlocked, None, reason)"

definition plan_review_projection :: "risk_class \<Rightarrow> trusted_policy_review \<Rightarrow> plan_review" where
  "plan_review_projection planner_risk_floor review =
     (let s = review_subject review; b = ev_binding (tpr_evaluation review);
          (decision, approval, reason) = project_decision (review_decision review) in
      \<lparr> pr_plan_id = subj_plan_id s, pr_request_id = subj_request_id s,
        pr_principal = subj_principal s, pr_actor = subj_actor s, pr_provider = subj_provider s,
        pr_resource = subj_resource s, pr_observation_capability = subj_capability s,
        pr_reason = subj_reason s, pr_observed_evidence_id = subj_observed_evidence_id s,
        pr_planner_risk_floor = planner_risk_floor, pr_reviewed_risk = subj_prospective_risk s,
        pr_status = subj_status s, pr_policy_id = rb_policy_id b,
        pr_policy_revision_id = rb_policy_revision_id b, pr_decision = decision,
        pr_approval_class = approval, pr_decision_reason = reason, pr_execution_authorized = False,
        pr_changes = subj_changes s, pr_findings = subj_findings s \<rparr>)"

section \<open>Review fails closed\<close>

lemma subject_from_plan_ok:
  assumes "policy_subject_from_plan_with_classification prin plan c = Inr s"
  shows "subject_valid s" "subj_actor s = plan_actor plan" "subj_provider s = plan_provider plan"
    "subj_principal s = prin" "subj_plan_id s = plan_id plan" "subj_resource s = plan_resource_id plan"
    "subj_observed_evidence_id s = plan_observed_evidence_id plan"
    "subj_capability s = plan_observation_capability plan"
    "subj_changes s = map reviewed_change_of (plan_changes plan)"
    "(subj_status s, subj_prospective_risk s, subj_findings s) =
       apply_classification c (map_status (plan_status plan)) (plan_prospective_risk plan)
         (map reviewed_finding_of (plan_findings plan))"
    "subj_request_id s = plan_request_id plan" "subj_reason s = plan_reason plan"
  using assms
  by (auto simp: policy_subject_from_plan_with_classification_def result_simps typed_id_new_ok
      policy_subject_try_new_iff split: prod.splits)

lemma interactive_allow_risk:
  "baseline_decision s = Allow \<Longrightarrow> subj_prospective_risk s \<le> UserState"
  "session_lock_decision s = Allow \<Longrightarrow> subj_prospective_risk s \<le> UserState"
  by (auto simp: baseline_decision_def session_lock_decision_def less_eq_risk_class_def Let_def
      split: if_splits risk_class.splits sum.splits list.splits)

lemma review_for_control_decision:
  "ev_decision (tpr_evaluation (review_subject_for_control s)) = Allow \<Longrightarrow>
     subj_prospective_risk s \<le> UserState \<and> actor_kind (subj_actor s) \<noteq> Remote
     \<and> subj_status s \<noteq> ReviewBlocked"
  using interactive_allow_risk [of s]
    baseline.remote_never_served [of s] session_lock.remote_never_served [of s]
    baseline.blocked_never_allowed [of s] session_lock.blocked_never_allowed [of s]
  by (auto simp: review_subject_for_control_def evaluate_def is_deny_or_blocked_def is_blocked_def
      split: if_splits)

text \<open>The decision on a proposed change under a given classification, whichever engine the route selects.\<close>

lemma classified_change_decision:
  assumes "policy_subject_from_plan_with_classification prin plan (Classified risk revision ids) = Inr s"
    "plan_status plan = ChangeProposed"
  shows "review_decision (review_subject_for_control s) = Allow \<longleftrightarrow>
    risk \<le> UserState \<and> actor_kind (plan_actor plan) \<noteq> Remote \<and> plan_provider plan \<noteq> ''session-locker''"
proof -
  note ok = subject_from_plan_ok [OF assms(1)]
  have s: "subj_status s = ReviewChangeProposed" "subj_prospective_risk s = risk" using ok(10) assms(2) by auto
  then have "\<not> subject_has_blockers s" using ok(1) by (simp add: subject_valid_def)
  with s ok(2,3) show ?thesis
    by (cases risk) (auto simp: review_subject_for_control_def evaluate_def baseline_decision_def
        session_lock_decision_def less_eq_risk_class_def Let_def split: sum.splits list.splits)
qed

lemma refused_classification_blocks:
  assumes "policy_subject_from_plan_with_classification prin plan c = Inr s"
    "\<And>risk. c \<noteq> NotApplicable risk" "\<And>risk revision ids. c \<noteq> Classified risk revision ids"
  shows "review_decision (review_subject_for_control s) \<noteq> Allow"
proof -
  have "subj_status s = ReviewBlocked"
    using subject_from_plan_ok(10) [OF assms(1)] assms(2,3) by (cases c) auto
  then show ?thesis using review_for_control_decision [of s] by blast
qed

text \<open>The two classifications of the managed path: with and without the floor of a registered operation.\<close>

lemma managed_classification_bound:
  assumes "plan_status plan = ChangeProposed" "plan_changes plan \<noteq> []"
    "c = classify_plan_risk plan \<or> (\<exists>floor rule. c = classify_plan_risk_with_floor plan floor rule)"
  shows "c \<noteq> NotApplicable risk" "c = Classified risk revision ids \<Longrightarrow> plan_prospective_risk plan \<le> risk"
proof -
  have n: "classify_plan_risk plan \<noteq> NotApplicable r" for r
    using classify_plan_risk_bound(2) [of plan r] assms(1,2) by blast
  with assms(3) show "c \<noteq> NotApplicable risk"
    by (cases "classify_plan_risk plan") (auto simp: classify_plan_risk_with_floor_def)
  show "plan_prospective_risk plan \<le> risk" if "c = Classified risk revision ids"
    using assms(3) that
    by (cases "classify_plan_risk plan")
      (auto simp: classify_plan_risk_with_floor_def le_max_iff_disj dest: classify_plan_risk_bound(1))
qed

lemma managed_review_not_allowed:
  assumes "plan_status plan = ChangeProposed" "plan_changes plan \<noteq> []" "SystemMutation \<le> plan_prospective_risk plan"
    "c = classify_plan_risk plan \<or> (\<exists>floor rule. c = classify_plan_risk_with_floor plan floor rule)"
    "review_plan_with_classification prin plan c = Inr review"
  shows "review_decision review \<noteq> Allow"
proof -
  note bound = managed_classification_bound [OF assms(1,2,4)]
  from assms(5) obtain s where s: "policy_subject_from_plan_with_classification prin plan c = Inr s"
      "review = review_subject_for_control s"
    by (auto simp: review_plan_with_classification_def result_simps)
  show ?thesis
  proof (cases "\<exists>risk revision ids. c = Classified risk revision ids")
    case True
    then obtain risk revision ids where c: "c = Classified risk revision ids" by blast
    have "SystemMutation \<le> risk" using bound(2) [OF c] assms(3) by (rule order_trans [rotated])
    then show ?thesis using classified_change_decision [OF s(1) [unfolded c] assms(1)] s(2)
      by (auto simp: less_eq_risk_class_def)
  next
    case False
    then show ?thesis using refused_classification_blocks [OF s(1) bound(1)] s(2) by blast
  qed
qed

lemma transient_review_allowed:
  assumes "plan_status plan = ChangeProposed" "plan_changes plan \<noteq> []"
    and T: "T = covering_rules baseline_risk_policy plan (set (bt_keys state))"
    and "review_plan_with_classification prin plan (classify_exact_registered_transient_risk plan state) = Inr review"
  shows "review_decision review = Allow \<longleftrightarrow> state \<noteq> [] \<and> T \<noteq> {} \<and> (\<forall>r \<in> T. rule_risk r \<le> UserState)
    \<and> actor_kind (plan_actor plan) \<noteq> Remote"
proof -
  from assms(4) obtain s where s: "policy_subject_from_plan_with_classification prin plan
      (classify_registered_transient baseline_risk_policy plan state) = Inr s" "review = review_subject_for_control s"
    by (auto simp: review_plan_with_classification_def result_simps classify_exact_registered_transient_risk_def)
  show ?thesis
  proof (cases "state = []")
    case True
    then have "\<exists>rev reason. classify_registered_transient baseline_risk_policy plan state = Unclassified rev reason"
      using assms(1,2) by (simp add: classify_registered_transient_def classify_with_registered_transient_refinement_def
          bt_keys_def Let_def)
    then show ?thesis using refused_classification_blocks [OF s(1)] s(2) True by auto
  next
    case False
    from registered_transient_exact [OF assms(1,2) False T] obtain ids reason where c:
      "classify_registered_transient baseline_risk_policy plan state =
        (if T = {} then Unclassified (rp_revision baseline_risk_policy) reason
         else Classified (Max (rule_risk ` T)) (if Max (rule_risk ` T) < plan_prospective_risk plan
           then REGISTERED_TRANSIENT_RISK_POLICY_REVISION else rp_revision baseline_risk_policy) ids)" by blast
    show ?thesis
    proof (cases "T = {}")
      case True
      then show ?thesis using refused_classification_blocks [OF s(1)] c s(2) by auto
    next
      case ne: False
      have "finite (rule_risk ` T)" by (simp add: T covering_rules_def)
      then have max: "Max (rule_risk ` T) \<le> UserState \<longleftrightarrow> (\<forall>r \<in> T. rule_risk r \<le> UserState)" using ne by simp
      have "plan_provider plan \<noteq> ''session-locker''"
        using ne by (auto simp: T covering_rules_def baseline_risk_policy_def)
      then show ?thesis
        using classified_change_decision [OF s(1) [unfolded c if_not_P [OF ne]] assms(1)] s(2) ne False max by blast
    qed
  qed
qed

lemma protective_change_allowed:
  assumes "plan_status plan = ChangeProposed" "review_protective_plan prin plan c policy = Inr review"
    "\<And>risk. c \<noteq> NotApplicable risk" "review_decision review = Allow"
  shows "pls_enabled (plp_setting policy) \<and> lock_epoch (plp_lock policy) = pls_epoch (plp_setting policy)
    \<and> prin = PROTECTIVE_SLEEP_PRINCIPAL
    \<and> plan_actor plan = \<lparr> actor_id = PROTECTIVE_SLEEP_ACTOR, actor_kind = Service, actor_interactive = False \<rparr>
    \<and> plan_provider plan = ''session-locker'' \<and> plan_observation_capability plan = ''session.secure-lock.observe''
    \<and> session_lock_id_resource_id (plp_lock policy) = Inr (plan_resource_id plan)
    \<and> protective_request_id (plp_event policy) (pls_epoch (plp_setting policy)) = Inr (plan_request_id plan)
    \<and> reason_intent_ids (plan_reason plan) = [pls_intent (plp_setting policy)]
    \<and> (\<exists>revision ids. c = Classified SecuritySensitive revision ids)
    \<and> plan_changes plan = [\<lparr> change_key = ''secure'', change_current = Some ''false'', change_desired = ''true'' \<rparr>]"
proof -
  from assms(2) obtain s where s: "policy_subject_from_plan_with_classification prin plan c = Inr s"
      "review_decision review = protective_lock_decision policy s"
    by (auto simp: review_protective_plan_def result_simps evaluate_def)
  note ok = subject_from_plan_ok [OF s(1)]
  from s(2) assms(4) have allow: "protective_lock_decision policy s = Allow" by simp
  have "subj_status s \<noteq> ReviewBlocked" using allow by (auto simp: protective_lock_decision_def)
  then have c: "\<exists>revision ids. c = Classified (subj_prospective_risk s) revision ids"
      and st: "subj_status s = ReviewChangeProposed"
    using ok(10) assms(1,3) by (cases c; auto)+
  obtain request resource where ids: "protective_request_id (plp_event policy) (pls_epoch (plp_setting policy)) = Inr request"
      "session_lock_id_resource_id (plp_lock policy) = Inr resource"
    using allow by (auto simp: protective_lock_decision_def Let_def split: if_splits sum.splits)
  note allow' = allow [unfolded protective_lock_decision_def Let_def ids st]
  have one: "\<exists>change. subj_changes s = [change] \<and> rc_key change = ''secure'' \<and> rc_current change = Some ''false''
      \<and> rc_desired change = ''true''"
    using allow' by (auto split: if_splits list.splits)
  then have "plan_changes plan = [\<lparr> change_key = ''secure'', change_current = Some ''false'', change_desired = ''true'' \<rparr>]"
    using ok(9) by (auto simp: reviewed_change_of_def map_eq_Cons_conv)
  moreover have "plan_actor plan = \<lparr> actor_id = PROTECTIVE_SLEEP_ACTOR, actor_kind = Service, actor_interactive = False \<rparr>"
    using allow' ok(2) by (cases "plan_actor plan") (auto split: if_splits)
  moreover have "subj_prospective_risk s = SecuritySensitive" using allow' by (auto split: if_splits)
  ultimately show ?thesis using allow' ids c ok by (auto split: if_splits)
qed

text \<open>
  C6. When policy alone lets a planned change through. Take any plan the planner makes that proposes a change, with
  whatever findings Control appends. The ordinary review never allows it, and neither does the review of the managed
  path under its trusted classification, with or without the floor of a registered operation: such a change needs an
  approval, or is denied or blocked. The registered-transient review allows it exactly when some rule covers the route
  and every requested key, all such rules are at most user state, and the actor is not remote. The protective review
  allows it only when the owner's consent is enabled for the very session of the lock, the fixed non-interactive
  service acts under the request derived from the sleep event, on that lock, for that consent's intent, and the plan
  is the single change that secures the session, classified as security-sensitive.
\<close>

theorem policy_allows_change_exactly:
  assumes "plan_resource rq ac d ob = Inr p" "plan = p\<lparr> plan_findings := fs \<rparr>" "plan_status plan = ChangeProposed"
  shows "(\<forall>review. review_plan prin plan = Inr review \<longrightarrow> review_decision review \<noteq> Allow)
    \<and> (\<forall>floor rule review. review_plan_with_classification prin plan (classify_plan_risk_with_floor plan floor rule)
         = Inr review \<longrightarrow> review_decision review \<noteq> Allow)
    \<and> (\<forall>state review. review_plan_with_classification prin plan (classify_exact_registered_transient_risk plan state)
         = Inr review \<longrightarrow>
         (review_decision review = Allow \<longleftrightarrow>
            (let T = covering_rules baseline_risk_policy plan (set (bt_keys state)) in
             state \<noteq> [] \<and> T \<noteq> {} \<and> (\<forall>r \<in> T. rule_risk r \<le> UserState) \<and> actor_kind ac \<noteq> Remote)))
    \<and> (\<forall>c policy review. (c = classify_plan_risk plan \<or> (\<exists>floor rule. c = classify_plan_risk_with_floor plan floor rule))
         \<and> review_protective_plan prin plan c policy = Inr review \<and> review_decision review = Allow \<longrightarrow>
         (let setting = plp_setting policy in
            pls_enabled setting \<and> lock_epoch (plp_lock policy) = pls_epoch setting
            \<and> prin = PROTECTIVE_SLEEP_PRINCIPAL
            \<and> ac = \<lparr> actor_id = PROTECTIVE_SLEEP_ACTOR, actor_kind = Service, actor_interactive = False \<rparr>
            \<and> session_lock_id_resource_id (plp_lock policy) = Inr (dr_resource d)
            \<and> protective_request_id (plp_event policy) (pls_epoch setting) = Inr rq
            \<and> reason_intent_ids (dr_reason d) = [pls_intent setting]
            \<and> (\<exists>revision ids. c = Classified SecuritySensitive revision ids)
            \<and> plan_changes plan
                = [\<lparr> change_key = ''secure'', change_current = Some ''false'', change_desired = ''true'' \<rparr>]))"
proof -
  note ok = plan_resource_ok [OF assms(1)]
  have changes: "plan_changes plan \<noteq> []" using assms(2,3) ok(9) by (auto split: if_splits)
  have risk: "SystemMutation \<le> plan_prospective_risk plan" using assms(2) changes ok(10) by simp
  have fields: "plan_actor plan = ac" "plan_request_id plan = rq" "plan_resource_id plan = dr_resource d"
      "plan_reason plan = dr_reason d" using assms(2) ok by simp_all
  note managed = managed_review_not_allowed [OF assms(3) changes risk]
  have "review_decision review \<noteq> Allow" if "review_plan prin plan = Inr review" for review
    using managed [of "classify_plan_risk plan" prin review] that
    by (simp add: review_plan_def review_plan_with_classification_def policy_subject_from_plan_def)
  moreover have "review_decision review \<noteq> Allow"
    if "review_plan_with_classification prin plan (classify_plan_risk_with_floor plan floor rule) = Inr review"
    for floor rule review using managed [OF _ that] by blast
  ultimately show ?thesis
    using transient_review_allowed [OF assms(3) changes refl, of prin, unfolded fields]
      protective_change_allowed [OF assms(3) _ managed_classification_bound(1) [OF assms(3) changes], of prin,
        unfolded fields]
    unfolding Let_def by (intro conjI allI impI) (blast, blast, blast, metis+)
qed

definition example_audio_desired :: desired_resource where
  "example_audio_desired = example_desired\<lparr> dr_provider := ''pipewire'',
     dr_resource := ''audio:session:output:1'', dr_observation_capability := ''audio.session.observe'',
     dr_state := [(''muted'', ''true'')] \<rparr>"

definition example_audio_observation :: planning_observation where
  "example_audio_observation = example_observation\<lparr> po_provider := ''pipewire'',
     po_resource := ''audio:session:output:1'', po_observation_capability := ''audio.session.observe'',
     po_attributes := [(''muted'', ''false'')] \<rparr>"

text \<open>
  At work: muting audio is user state to the rules and a system mutation to the planner. The ordinary review does not
  allow it; the registered-transient review of the requested state does.
\<close>

lemma policy_allows_change_exactly_witness:
  "\<exists>plan review review'. plan_resource ''request:1'' (intent_actor example_intent) example_audio_desired
       example_audio_observation = Inr plan
     \<and> plan_status plan = ChangeProposed
     \<and> review_plan ''unix:uid:1000'' plan = Inr review \<and> review_decision review \<noteq> Allow
     \<and> review_plan_with_classification ''unix:uid:1000'' plan
         (classify_exact_registered_transient_risk plan [(''muted'', ''true'')]) = Inr review'
     \<and> review_decision review' = Allow"
proof -
  let ?plan = "plan_resource ''request:1'' (intent_actor example_intent) example_audio_desired
      example_audio_observation"
  have "case ?plan of Inl _ \<Rightarrow> False
    | Inr plan \<Rightarrow> plan_status plan = ChangeProposed \<and> is_ok (review_plan ''unix:uid:1000'' plan)
        \<and> is_ok (review_plan_with_classification ''unix:uid:1000'' plan
            (classify_exact_registered_transient_risk plan [(''muted'', ''true'')]))
        \<and> plan_provider plan = ''pipewire'' \<and> plan_observation_capability plan = ''audio.session.observe''
        \<and> plan_resource_id plan = ''audio:session:output:1''"
    by code_simp
  then obtain plan review review' where p: "?plan = Inr plan" "plan_status plan = ChangeProposed"
      "review_plan ''unix:uid:1000'' plan = Inr review"
      "review_plan_with_classification ''unix:uid:1000'' plan
         (classify_exact_registered_transient_risk plan [(''muted'', ''true'')]) = Inr review'"
      "plan_provider plan = plan_provider example_audio_plan"
      "plan_observation_capability plan = plan_observation_capability example_audio_plan"
      "plan_resource_id plan = plan_resource_id example_audio_plan"
    by (auto simp: is_ok_iff example_audio_plan_def split: sum.splits)
  have T: "covering_rules baseline_risk_policy plan {''muted''}
      = covering_rules baseline_risk_policy example_audio_plan {''muted''}"
    by (simp add: covering_rules_def p(5-7))
  have keys: "set (bt_keys [(''muted'', ''true'')]) = {''muted''}" by (simp add: bt_keys_def)
  have "plan = plan\<lparr> plan_findings := plan_findings plan \<rparr>" by simp
  note exact = policy_allows_change_exactly [OF p(1) this p(2), of "''unix:uid:1000''"]
  have "review_decision review \<noteq> Allow" using exact [THEN conjunct1] p(3) by blast
  moreover have "review_decision review' = Allow"
    using exact [THEN conjunct2, THEN conjunct2, THEN conjunct1, THEN spec, THEN spec, THEN mp, OF p(4)]
    unfolding keys T example_audio_covering by (simp add: example_intent_def)
  ultimately show ?thesis using p by blast
qed

end
