(* ===== verification/Approval.thy ===== *)
theory Approval
  imports Policy_Review
begin

text \<open>
  The process-local approval lifecycle of \<open>crates/linura-control/src\<close>: evidence issuance and
  validation (\<open>approval.rs\<close>) and the bounded store of approvals with replay tombstones
  (\<open>approval_review.rs\<close>). The clock is sampled once per public operation; its reading is an
  argument, absent when the host clock is before the epoch.
\<close>

section \<open>Approval evidence\<close>

definition MAX_APPROVAL_TTL_SECONDS :: u64 where
  "MAX_APPROVAL_TTL_SECONDS = 86400"

record ('b, 'c) approval_requirement =
  areq_class :: 'c
  areq_binding :: 'b

record 'c authenticated_approver =
  approver_principal :: principal_id
  approver_kind :: actor_kind
  approver_classes :: "'c set"

definition can_satisfy :: "'c authenticated_approver \<Rightarrow> 'c \<Rightarrow> bool" where
  "can_satisfy a c \<longleftrightarrow> approver_kind a = Human \<and> c \<in> approver_classes a"

record ('b, 'c) approval_evidence =
  ae_id :: approval_evidence_id
  ae_request_id :: approval_request_id
  ae_requirement :: "('b, 'c) approval_requirement"
  ae_approver :: principal_id
  ae_issued_at :: u64
  ae_expires_at :: u64

record approval_revocation =
  revoked_by :: principal_id
  revoked_at :: u64

datatype 'c approval_issue_error =
    NonHumanApprover
  | MissingApprovalClass 'c
  | InvalidApprovalWindow
  | ValidityWindowTooLong

definition try_issue ::
  "approval_evidence_id \<Rightarrow> approval_request_id \<Rightarrow> ('b, 'c) approval_requirement
     \<Rightarrow> 'c authenticated_approver \<Rightarrow> u64 \<Rightarrow> u64
     \<Rightarrow> 'c approval_issue_error + ('b, 'c) approval_evidence" where
  "try_issue ident request_id requirement approver issued_at expires_at =
     (if approver_kind approver \<noteq> Human then Inl NonHumanApprover
      else if \<not> can_satisfy approver (areq_class requirement)
        then Inl (MissingApprovalClass (areq_class requirement))
      else if expires_at \<le> issued_at then Inl InvalidApprovalWindow
      else if expires_at - issued_at > MAX_APPROVAL_TTL_SECONDS then Inl ValidityWindowTooLong
      else Inr \<lparr> ae_id = ident, ae_request_id = request_id, ae_requirement = requirement,
                 ae_approver = approver_principal approver, ae_issued_at = issued_at,
                 ae_expires_at = expires_at \<rparr>)"

datatype approval_validation = Satisfied | BindingMismatch | NotYetValid | Expired | Revoked

definition validate_approval ::
  "('b, 'c) approval_evidence \<Rightarrow> 'b \<Rightarrow> 'c \<Rightarrow> u64 \<Rightarrow> approval_revocation option
     \<Rightarrow> approval_validation" where
  "validate_approval evidence current_binding current_class now revocation =
     (if areq_binding (ae_requirement evidence) \<noteq> current_binding
         \<or> areq_class (ae_requirement evidence) \<noteq> current_class then BindingMismatch
      else if now < ae_issued_at evidence then NotYetValid
      else if now \<ge> ae_expires_at evidence then Expired
      else if revocation \<noteq> None then Revoked
      else Satisfied)"

section \<open>The approval store\<close>

definition MAX_APPROVAL_ENTRIES :: nat where
  "MAX_APPROVAL_ENTRIES = 256"

definition MAX_APPROVAL_ENTRY_BYTES :: nat where
  "MAX_APPROVAL_ENTRY_BYTES = 256 * 1024"

definition MAX_APPROVAL_TOTAL_BYTES :: nat where
  "MAX_APPROVAL_TOTAL_BYTES = 4 * 1024 * 1024"

definition MAX_APPROVAL_TOMBSTONES :: nat where
  "MAX_APPROVAL_TOMBSTONES = 4096"

definition MAX_APPROVAL_TOMBSTONE_BYTES :: nat where
  "MAX_APPROVAL_TOMBSTONE_BYTES = 2 * 1024 * 1024"

definition APPROVAL_TOMBSTONE_RETENTION_SECONDS :: u64 where
  "APPROVAL_TOMBSTONE_RETENTION_SECONDS = MAX_APPROVAL_TTL_SECONDS"

definition APPROVAL_RECORD_OVERHEAD_BYTES :: nat where
  "APPROVAL_RECORD_OVERHEAD_BYTES = 256"

definition APPROVAL_TOMBSTONE_OVERHEAD_BYTES :: nat where
  "APPROVAL_TOMBSTONE_OVERHEAD_BYTES = 64"

type_synonym policy_approval_requirement = "(policy_evaluation, approval_class) approval_requirement"
type_synonym policy_approval_evidence = "(policy_evaluation, approval_class) approval_evidence"
type_synonym policy_authenticated_approver = "approval_class authenticated_approver"

datatype approval_requirement_error = NotRequired | NotApprovable

definition required_approval_class ::
  "trusted_policy_review \<Rightarrow> approval_requirement_error + approval_class" where
  "required_approval_class review =
     (case review_decision review of
        RequireApproval c _ \<Rightarrow> Inr c
      | Allow \<Rightarrow> Inl NotRequired
      | Deny _ \<Rightarrow> Inl NotApprovable
      | DecisionBlocked _ \<Rightarrow> Inl NotApprovable)"

definition approval_requirement_from_review ::
  "trusted_policy_review \<Rightarrow> approval_class \<Rightarrow> policy_approval_requirement" where
  "approval_requirement_from_review review c = \<lparr> areq_class = c, areq_binding = tpr_evaluation review \<rparr>"

datatype policy_approval_issue_error =
    Requirement approval_requirement_error
  | Evidence "approval_class approval_issue_error"

definition validate_policy_approval ::
  "policy_approval_evidence \<Rightarrow> trusted_policy_review \<Rightarrow> u64 \<Rightarrow> approval_revocation option
     \<Rightarrow> approval_validation" where
  "validate_policy_approval evidence review now revocation =
     (case required_approval_class review of
        Inl _ \<Rightarrow> BindingMismatch
      | Inr c \<Rightarrow> validate_approval evidence (tpr_evaluation review) c now revocation)"

definition add_len :: "nat \<Rightarrow> string \<Rightarrow> nat" where
  "add_len acc v = usize_saturating_add acc (length v)"

text \<open>The strings of an evaluation in the order \<open>approval_binding_bytes\<close> accounts for them.\<close>

definition decision_texts :: "policy_decision \<Rightarrow> string list" where
  "decision_texts d = (case d of
     Allow \<Rightarrow> [] | Deny reason \<Rightarrow> [reason] | RequireApproval _ reason \<Rightarrow> [reason]
   | DecisionBlocked reason \<Rightarrow> [reason])"

definition accounted_texts :: "policy_evaluation \<Rightarrow> string list" where
  "accounted_texts e = (let s = ev_subject e; b = ev_binding e in
     [subj_principal s, subj_plan_id s, subj_request_id s, actor_id (subj_actor s), subj_provider s,
      subj_resource s, subj_capability s, subj_observed_evidence_id s, reason_summary (subj_reason s)]
     @ reason_intent_ids (subj_reason s) @ reason_requirement_ids (subj_reason s)
     @ reason_capability_ids (subj_reason s)
     @ concat (map (\<lambda>c. [rc_key c] @ (case rc_current c of None \<Rightarrow> [] | Some v \<Rightarrow> [v]) @ [rc_desired c])
         (subj_changes s))
     @ concat (map (\<lambda>f. [rf_code f, rf_message f]) (subj_findings s))
     @ [rb_principal b, rb_plan_id b, rb_request_id b, rb_observed_evidence_id b, rb_provider b,
        rb_resource b, rb_capability b, rb_policy_id b, rb_policy_revision_id b]
     @ decision_texts (ev_decision e))"

definition approval_binding_bytes :: "policy_evaluation \<Rightarrow> nat" where
  "approval_binding_bytes e = foldl add_len 0 (accounted_texts e)"

definition approval_tombstone_bytes :: "approval_request_id \<Rightarrow> nat" where
  "approval_tombstone_bytes r = usize_saturating_add (length r) APPROVAL_TOMBSTONE_OVERHEAD_BYTES"

record approval_record =
  arec_evidence :: policy_approval_evidence
  arec_revocation :: "approval_revocation option"
  arec_accounted_bytes :: nat

record approval_tombstone =
  tomb_retired_at :: u64
  tomb_accounted_bytes :: nat

datatype approval_control_error =
    Issue policy_approval_issue_error
  | InvalidEvidenceId validation_error
  | ApprovalIdempotencyConflict
  | ApprovalCapacityExceeded
  | EntryTooLarge
  | TotalCapacityExceeded
  | TombstoneCapacityExceeded
  | TombstoneTotalCapacityExceeded
  | SequenceExhausted
  | EvidenceNotFound
  | RevokerNotAuthorized
  | ApprovalClockUnavailable
  | ClockRollback

record approval_review_control =
  arc_last_authority :: u64
  arc_records :: "(approval_evidence_id, approval_record) btree_map"
  arc_requests :: "(approval_request_id, approval_evidence_id) btree_map"
  arc_tombstones :: "(approval_request_id, approval_tombstone) btree_map"
  arc_next_evidence_sequence :: u64
  arc_total_accounted_bytes :: nat
  arc_tombstone_accounted_bytes :: nat

definition approval_control_new :: approval_review_control where
  "approval_control_new = \<lparr> arc_last_authority = 0, arc_records = [], arc_requests = [],
     arc_tombstones = [], arc_next_evidence_sequence = 0, arc_total_accounted_bytes = 0,
     arc_tombstone_accounted_bytes = 0 \<rparr>"

text \<open>\<open>fetch_max\<close> moves the remembered time up even when the sample is then rejected.\<close>

definition authority_now_unix_seconds ::
  "u64 option \<Rightarrow> approval_review_control \<Rightarrow> (approval_control_error + u64) \<times> approval_review_control" where
  "authority_now_unix_seconds clock c =
     (case clock of
        None \<Rightarrow> (Inl ApprovalClockUnavailable, c)
      | Some sampled \<Rightarrow>
          let previous = arc_last_authority c;
              c = c\<lparr> arc_last_authority := max previous sampled \<rparr> in
          (if sampled < previous then Inl ClockRollback else Inr sampled, c))"

definition drop_tombstone :: "approval_review_control \<Rightarrow> approval_request_id \<Rightarrow> approval_review_control" where
  "drop_tombstone c r =
     (case bt_get (arc_tombstones c) r of
        None \<Rightarrow> c
      | Some t \<Rightarrow> c\<lparr> arc_tombstones := bt_remove r (arc_tombstones c),
                     arc_tombstone_accounted_bytes :=
                       arc_tombstone_accounted_bytes c - tomb_accounted_bytes t \<rparr>)"

definition prune_tombstones :: "u64 \<Rightarrow> approval_review_control \<Rightarrow> approval_review_control" where
  "prune_tombstones now c =
     (let expired = map fst (filter (\<lambda>(_, t).
            saturating_add (tomb_retired_at t) APPROVAL_TOMBSTONE_RETENTION_SECONDS \<le> now)
            (arc_tombstones c))
      in foldl drop_tombstone c expired)"

definition reclaim_candidates ::
  "u64 \<Rightarrow> approval_review_control \<Rightarrow> (approval_evidence_id \<times> approval_request_id \<times> nat) list" where
  "reclaim_candidates now c = map (\<lambda>(evidence_id, r).
       (evidence_id, ae_request_id (arec_evidence r),
        approval_tombstone_bytes (ae_request_id (arec_evidence r))))
     (filter (\<lambda>(_, r). arec_revocation r \<noteq> None \<or> ae_expires_at (arec_evidence r) \<le> now)
        (arc_records c))"

definition retire_record ::
  "u64 \<Rightarrow> approval_review_control \<Rightarrow> approval_evidence_id \<times> approval_request_id \<times> nat
     \<Rightarrow> approval_review_control" where
  "retire_record now c candidate = (case candidate of (evidence_id, request_id, accounted) \<Rightarrow>
     (case bt_get (arc_records c) evidence_id of
        None \<Rightarrow> c
      | Some r \<Rightarrow> c\<lparr>
          arc_records := bt_remove evidence_id (arc_records c),
          arc_requests := bt_remove request_id (arc_requests c),
          arc_total_accounted_bytes := arc_total_accounted_bytes c - arec_accounted_bytes r,
          arc_tombstones := bt_insert request_id
            \<lparr> tomb_retired_at = now, tomb_accounted_bytes = accounted \<rparr> (arc_tombstones c),
          arc_tombstone_accounted_bytes :=
            usize_saturating_add (arc_tombstone_accounted_bytes c) accounted \<rparr>))"

definition reclaim_inactive ::
  "u64 \<Rightarrow> approval_review_control \<Rightarrow> (approval_control_error + unit) \<times> approval_review_control" where
  "reclaim_inactive now c =
     (let c = prune_tombstones now c; candidates = reclaim_candidates now c in
      if candidates = [] then (Inr (), c)
      else case usize_checked_add (length (arc_tombstones c)) (length candidates) of
        None \<Rightarrow> (Inl TombstoneCapacityExceeded, c)
      | Some new_tombstone_count \<Rightarrow>
          if new_tombstone_count > MAX_APPROVAL_TOMBSTONES then (Inl TombstoneCapacityExceeded, c)
          else case and_then (try_fold (\<lambda>acc (_, _, b).
              ok_or (usize_checked_add acc b) TombstoneTotalCapacityExceeded) 0 candidates)
              (\<lambda>candidate_bytes. ok_or (usize_checked_add (arc_tombstone_accounted_bytes c)
                 candidate_bytes) TombstoneTotalCapacityExceeded) of
            Inl e \<Rightarrow> (Inl e, c)
          | Inr new_tombstone_bytes \<Rightarrow>
              if new_tombstone_bytes > MAX_APPROVAL_TOMBSTONE_BYTES
              then (Inl TombstoneTotalCapacityExceeded, c)
              else (Inr (), foldl (retire_record now) c candidates))"

definition evidence_id_text :: "u64 \<Rightarrow> string" where
  "evidence_id_text n = ''approval:evidence:'' @ hex_bytes (be64 n)"

definition record_accounted_bytes ::
  "approval_request_id \<Rightarrow> trusted_policy_review \<Rightarrow> policy_authenticated_approver \<Rightarrow> nat" where
  "record_accounted_bytes request_id review approver =
     usize_saturating_add (usize_saturating_add (usize_saturating_add
       (approval_binding_bytes (tpr_evaluation review)) (length request_id))
       (length (approver_principal approver))) APPROVAL_RECORD_OVERHEAD_BYTES"

text \<open>The part of \<open>issue_at\<close> after the replay checks, for a request that is not retained.\<close>

definition issue_new ::
  "approval_request_id \<Rightarrow> trusted_policy_review \<Rightarrow> policy_authenticated_approver \<Rightarrow> u64 \<Rightarrow> u64
     \<Rightarrow> approval_class \<Rightarrow> approval_review_control
     \<Rightarrow> (approval_control_error + policy_approval_evidence) \<times> approval_review_control" where
  "issue_new request_id review approver issued_at expires_at cl c =
     (let accounted_bytes = record_accounted_bytes request_id review approver in
      if accounted_bytes > MAX_APPROVAL_ENTRY_BYTES then (Inl EntryTooLarge, c)
      else if length (arc_records c) \<ge> MAX_APPROVAL_ENTRIES then (Inl ApprovalCapacityExceeded, c)
      else case usize_checked_add (arc_total_accounted_bytes c) accounted_bytes of
        None \<Rightarrow> (Inl TotalCapacityExceeded, c)
      | Some new_total \<Rightarrow>
          if new_total > MAX_APPROVAL_TOTAL_BYTES then (Inl TotalCapacityExceeded, c)
          else case map_err InvalidEvidenceId (typed_id_new ''approval evidence id''
              (evidence_id_text (arc_next_evidence_sequence c))) of
            Inl e \<Rightarrow> (Inl e, c)
          | Inr evidence_id \<Rightarrow>
              (case checked_add (arc_next_evidence_sequence c) 1 of
                 None \<Rightarrow> (Inl SequenceExhausted, c)
               | Some next \<Rightarrow>
                   let c = c\<lparr> arc_next_evidence_sequence := next \<rparr> in
                   (case try_issue evidence_id request_id
                       (approval_requirement_from_review review cl) approver issued_at expires_at of
                      Inl e \<Rightarrow> (Inl (Issue (Evidence e)), c)
                    | Inr evidence \<Rightarrow> (Inr evidence, c\<lparr>
                        arc_requests := bt_insert request_id evidence_id (arc_requests c),
                        arc_records := bt_insert evidence_id
                          \<lparr> arec_evidence = evidence, arec_revocation = None,
                            arec_accounted_bytes = accounted_bytes \<rparr> (arc_records c),
                        arc_total_accounted_bytes := new_total \<rparr>))))"

definition issue_at ::
  "approval_request_id \<Rightarrow> trusted_policy_review \<Rightarrow> policy_authenticated_approver \<Rightarrow> u64 \<Rightarrow> u64
     \<Rightarrow> approval_review_control
     \<Rightarrow> (approval_control_error + policy_approval_evidence) \<times> approval_review_control" where
  "issue_at request_id review approver issued_at expires_at c =
     (case reclaim_inactive issued_at c of
        (Inl e, c) \<Rightarrow> (Inl e, c)
      | (Inr _, c) \<Rightarrow>
          if bt_contains (arc_tombstones c) request_id then (Inl ApprovalIdempotencyConflict, c)
          else case required_approval_class review of
            Inl e \<Rightarrow> (Inl (Issue (Requirement e)), c)
          | Inr cl \<Rightarrow>
              (case bt_get (arc_requests c) request_id of
                 Some existing_id \<Rightarrow>
                   (case bt_get (arc_records c) existing_id of
                      None \<Rightarrow> (Inl ApprovalIdempotencyConflict, c)
                    | Some existing \<Rightarrow>
                        if areq_binding (ae_requirement (arec_evidence existing)) = tpr_evaluation review
                           \<and> areq_class (ae_requirement (arec_evidence existing)) = cl
                           \<and> ae_approver (arec_evidence existing) = approver_principal approver
                           \<and> ae_expires_at (arec_evidence existing) = expires_at
                        then (Inr (arec_evidence existing), c)
                        else (Inl ApprovalIdempotencyConflict, c))
               | None \<Rightarrow> issue_new request_id review approver issued_at expires_at cl c))"

definition issue ::
  "u64 option \<Rightarrow> approval_request_id \<Rightarrow> trusted_policy_review \<Rightarrow> policy_authenticated_approver \<Rightarrow> u64
     \<Rightarrow> approval_review_control
     \<Rightarrow> (approval_control_error + policy_approval_evidence) \<times> approval_review_control" where
  "issue clock request_id review approver expires_at c =
     (case authority_now_unix_seconds clock c of
        (Inl e, c) \<Rightarrow> (Inl e, c)
      | (Inr now, c) \<Rightarrow> issue_at request_id review approver now expires_at c)"

definition validate_at ::
  "approval_evidence_id \<Rightarrow> trusted_policy_review \<Rightarrow> u64 \<Rightarrow> approval_review_control
     \<Rightarrow> approval_validation" where
  "validate_at evidence_id review now c =
     (case bt_get (arc_records c) evidence_id of
        None \<Rightarrow> BindingMismatch
      | Some r \<Rightarrow> validate_policy_approval (arec_evidence r) review now (arec_revocation r))"

definition validate ::
  "u64 option \<Rightarrow> approval_evidence_id \<Rightarrow> trusted_policy_review \<Rightarrow> approval_review_control
     \<Rightarrow> (approval_control_error + approval_validation) \<times> approval_review_control" where
  "validate clock evidence_id review c =
     (case authority_now_unix_seconds clock c of
        (Inl e, c) \<Rightarrow> (Inl e, c)
      | (Inr now, c) \<Rightarrow> (Inr (validate_at evidence_id review now c), c))"

definition revoke_at ::
  "approval_evidence_id \<Rightarrow> policy_authenticated_approver \<Rightarrow> u64 \<Rightarrow> approval_review_control
     \<Rightarrow> (approval_control_error + unit) \<times> approval_review_control" where
  "revoke_at evidence_id revoker now c =
     (case bt_get (arc_records c) evidence_id of
        None \<Rightarrow> (Inl EvidenceNotFound, c)
      | Some r \<Rightarrow>
          if \<not> can_satisfy revoker (areq_class (ae_requirement (arec_evidence r)))
          then (Inl RevokerNotAuthorized, c)
          else (Inr (), if arec_revocation r = None
            then c\<lparr> arc_records := bt_insert evidence_id (r\<lparr> arec_revocation :=
                   Some \<lparr> revoked_by = approver_principal revoker, revoked_at = now \<rparr> \<rparr>)
                   (arc_records c) \<rparr>
            else c))"

definition revoke ::
  "u64 option \<Rightarrow> approval_evidence_id \<Rightarrow> policy_authenticated_approver \<Rightarrow> approval_review_control
     \<Rightarrow> (approval_control_error + unit) \<times> approval_review_control" where
  "revoke clock evidence_id revoker c =
     (case authority_now_unix_seconds clock c of
        (Inl e, c) \<Rightarrow> (Inl e, c)
      | (Inr now, c) \<Rightarrow> revoke_at evidence_id revoker now c)"

definition get_evidence :: "approval_review_control \<Rightarrow> approval_evidence_id \<Rightarrow> policy_approval_evidence option" where
  "get_evidence c evidence_id = map_option arec_evidence (bt_get (arc_records c) evidence_id)"

end
