(* ===== verification/Approval_History.thy ===== *)
theory Approval_History
  imports Approval
begin

text \<open>
  Correctness of the approval store over its whole history: the invariant every operation keeps
  (exact accounting, the bijection of requests and records, fresh evidence ids), the origin of every
  retained record, and the life of an approval from issue through validation to revocation.
\<close>

section \<open>Store invariant\<close>

definition approval_core :: "approval_review_control \<Rightarrow> bool" where
  "approval_core c \<longleftrightarrow>
     bt_wf (arc_records c) \<and> bt_wf (arc_requests c) \<and> bt_wf (arc_tombstones c)
     \<and> (\<forall>e r. bt_get (arc_records c) e = Some r \<longrightarrow> ae_id (arec_evidence r) = e
          \<and> bt_get (arc_requests c) (ae_request_id (arec_evidence r)) = Some e)
     \<and> (\<forall>q e. bt_get (arc_requests c) q = Some e \<longrightarrow>
          (\<exists>r. bt_get (arc_records c) e = Some r \<and> ae_request_id (arec_evidence r) = q))
     \<and> (\<forall>q. bt_get (arc_tombstones c) q \<noteq> None \<longrightarrow> bt_get (arc_requests c) q = None)
     \<and> (\<forall>e r. bt_get (arc_records c) e = Some r \<longrightarrow>
          (\<exists>n. n < arc_next_evidence_sequence c \<and> e = evidence_id_text n))
     \<and> arc_total_accounted_bytes c = bt_sum arec_accounted_bytes (arc_records c)
     \<and> arc_tombstone_accounted_bytes c = bt_sum tomb_accounted_bytes (arc_tombstones c)
     \<and> length (arc_records c) \<le> MAX_APPROVAL_ENTRIES
     \<and> arc_total_accounted_bytes c \<le> MAX_APPROVAL_TOTAL_BYTES"

definition approval_inv :: "approval_review_control \<Rightarrow> bool" where
  "approval_inv c \<longleftrightarrow> approval_core c
     \<and> length (arc_tombstones c) \<le> MAX_APPROVAL_TOMBSTONES
     \<and> arc_tombstone_accounted_bytes c \<le> MAX_APPROVAL_TOMBSTONE_BYTES"

text \<open>\<open>c'\<close> keeps no record that \<open>c\<close> does not have, with the same sequence.\<close>

definition shrinks :: "approval_review_control \<Rightarrow> approval_review_control \<Rightarrow> bool" where
  "shrinks c c' \<longleftrightarrow> arc_next_evidence_sequence c' = arc_next_evidence_sequence c
     \<and> arc_last_authority c' = arc_last_authority c
     \<and> (\<forall>e r. bt_get (arc_records c') e = Some r \<longrightarrow> bt_get (arc_records c) e = Some r)"

lemma shrinks_refl [simp]: "shrinks c c"
  by (simp add: shrinks_def)

lemma shrinks_trans: "shrinks a b \<Longrightarrow> shrinks b c \<Longrightarrow> shrinks a c"
  by (simp add: shrinks_def)

lemma evidence_id_text_inject [simp]: "evidence_id_text m = evidence_id_text n \<longleftrightarrow> m = n"
  by (simp add: evidence_id_text_def)

lemma new_inv: "approval_inv approval_control_new"
  by (simp add: approval_inv_def approval_core_def approval_control_new_def bt_get_def
      MAX_APPROVAL_TOMBSTONES_def)

lemma authority_now_frame:
  assumes "authority_now_unix_seconds clock c = (r, c')"
  shows "c' = c\<lparr> arc_last_authority := arc_last_authority c' \<rparr>"
    "r = Inr now \<Longrightarrow> clock = Some now \<and> arc_last_authority c \<le> now \<and> arc_last_authority c' = now"
  using assms
  by (auto simp: authority_now_unix_seconds_def Let_def max_def split: option.splits if_splits)

lemma approval_inv_last [simp]:
  "approval_inv (c\<lparr> arc_last_authority := t \<rparr>) = approval_inv c"
  by (simp add: approval_inv_def approval_core_def)

lemma core_record:
  assumes "approval_core c" "bt_get (arc_records c) e = Some r"
  shows "ae_id (arec_evidence r) = e" "bt_get (arc_requests c) (ae_request_id (arec_evidence r)) = Some e"
    "\<exists>n < arc_next_evidence_sequence c. e = evidence_id_text n"
    "bt_get (arc_tombstones c) (ae_request_id (arec_evidence r)) = None"
proof -
  show req: "ae_id (arec_evidence r) = e" "bt_get (arc_requests c) (ae_request_id (arec_evidence r)) = Some e"
      "\<exists>n < arc_next_evidence_sequence c. e = evidence_id_text n"
    using assms by (auto simp: approval_core_def)
  show "bt_get (arc_tombstones c) (ae_request_id (arec_evidence r)) = None"
    using assms(1) req(2) unfolding approval_core_def by (metis option.distinct(1))
qed

lemma core_request:
  assumes "approval_core c" "bt_get (arc_requests c) q = Some e"
  shows "\<exists>r. bt_get (arc_records c) e = Some r \<and> ae_request_id (arec_evidence r) = q"
  using assms by (simp add: approval_core_def)

lemma core_wf:
  assumes "approval_core c"
  shows "bt_wf (arc_records c)" "bt_wf (arc_requests c)" "bt_wf (arc_tombstones c)"
  using assms by (simp_all add: approval_core_def)

lemma core_tombstone:
  assumes "approval_core c" "bt_get (arc_tombstones c) q \<noteq> None"
  shows "bt_get (arc_requests c) q = None"
  using assms unfolding approval_core_def by blast

lemma core_sums:
  assumes "approval_core c"
  shows "arc_total_accounted_bytes c = bt_sum arec_accounted_bytes (arc_records c)"
    "arc_tombstone_accounted_bytes c = bt_sum tomb_accounted_bytes (arc_tombstones c)"
    "length (arc_records c) \<le> MAX_APPROVAL_ENTRIES"
    "arc_total_accounted_bytes c \<le> MAX_APPROVAL_TOTAL_BYTES"
  using assms unfolding approval_core_def by blast+

lemma drop_tombstone_inv:
  assumes "approval_inv c"
  shows "approval_inv (drop_tombstone c q) \<and> shrinks c (drop_tombstone c q)"
proof (cases "bt_get (arc_tombstones c) q")
  case None
  then show ?thesis using assms by (simp add: drop_tombstone_def)
next
  case (Some t)
  have wf: "bt_wf (arc_tombstones c)" using assms by (simp add: approval_inv_def approval_core_def)
  have "bt_sum tomb_accounted_bytes (arc_tombstones c)
      = tomb_accounted_bytes t + bt_sum tomb_accounted_bytes (bt_remove q (arc_tombstones c))"
    by (rule bt_sum_remove [OF wf Some])
  with assms Some wf show ?thesis
    by (auto simp: drop_tombstone_def approval_inv_def approval_core_def shrinks_def bt_get_remove
        length_bt_remove split: if_splits)
qed

lemma prune_inv:
  assumes "approval_inv c"
  shows "approval_inv (prune_tombstones now c) \<and> shrinks c (prune_tombstones now c)"
proof -
  have "approval_inv (foldl drop_tombstone c qs) \<and> shrinks c (foldl drop_tombstone c qs)" for qs
    using assms
  proof (induction qs arbitrary: c)
    case (Cons q qs)
    note step = drop_tombstone_inv [OF Cons.prems, of q]
    from Cons.IH [OF conjunct1 [OF step]] conjunct2 [OF step] show ?case by (auto intro: shrinks_trans)
  qed simp
  then show ?thesis by (simp add: prune_tombstones_def Let_def)
qed

lemma retire_core:
  assumes core: "approval_core c"
    and cand: "\<And>r. bt_get (arc_records c) e = Some r \<Longrightarrow> ae_request_id (arec_evidence r) = q"
    and room: "arc_tombstone_accounted_bytes c + b \<le> MAX_APPROVAL_TOMBSTONE_BYTES"
  shows "approval_core (retire_record now c (e, q, b)) \<and> shrinks c (retire_record now c (e, q, b))
    \<and> arc_tombstone_accounted_bytes (retire_record now c (e, q, b)) \<le> arc_tombstone_accounted_bytes c + b
    \<and> length (arc_tombstones (retire_record now c (e, q, b))) \<le> Suc (length (arc_tombstones c))"
proof (cases "bt_get (arc_records c) e")
  case None
  then show ?thesis using core by (simp add: retire_record_def)
next
  case (Some r)
  have wf: "bt_wf (arc_records c)" "bt_wf (arc_requests c)" "bt_wf (arc_tombstones c)"
    by (rule core_wf [OF core])+
  have req: "bt_get (arc_requests c) q = Some e" and fresh: "bt_get (arc_tombstones c) q = None"
    using core_record [OF core Some] cand [OF Some] by auto
  have sum: "bt_sum arec_accounted_bytes (arc_records c)
      = arec_accounted_bytes r + bt_sum arec_accounted_bytes (bt_remove e (arc_records c))"
    by (rule bt_sum_remove [OF wf(1) Some])
  have sat: "usize_saturating_add (arc_tombstone_accounted_bytes c) b = arc_tombstone_accounted_bytes c + b"
    using room by (simp add: usize_saturating_add_def MAX_APPROVAL_TOMBSTONE_BYTES_def)
  let ?c = "retire_record now c (e, q, b)"
  have c: "?c = c\<lparr> arc_records := bt_remove e (arc_records c),
      arc_requests := bt_remove q (arc_requests c),
      arc_total_accounted_bytes := arc_total_accounted_bytes c - arec_accounted_bytes r,
      arc_tombstones := bt_insert q \<lparr> tomb_retired_at = now, tomb_accounted_bytes = b \<rparr> (arc_tombstones c),
      arc_tombstone_accounted_bytes := arc_tombstone_accounted_bytes c + b \<rparr>"
    using Some sat by (simp add: retire_record_def)
  have uniq: "bt_get (arc_requests c) q' = Some e \<Longrightarrow> q' = q" for q'
    using core_request [OF core, of q' e] Some cand by auto
  have "approval_core ?c"
    unfolding approval_core_def
  proof (intro conjI)
    show "\<forall>e' r'. bt_get (arc_records ?c) e' = Some r' \<longrightarrow> ae_id (arec_evidence r') = e'
        \<and> bt_get (arc_requests ?c) (ae_request_id (arec_evidence r')) = Some e'"
    proof (intro allI impI)
      fix e' r' assume "bt_get (arc_records ?c) e' = Some r'"
      then have "bt_get (arc_records c) e' = Some r'" "e' \<noteq> e"
        by (auto simp: c bt_get_remove split: if_splits)
      with core_record [OF core this(1)] req show "ae_id (arec_evidence r') = e'
          \<and> bt_get (arc_requests ?c) (ae_request_id (arec_evidence r')) = Some e'"
        by (auto simp: c bt_get_remove)
    qed
    show "\<forall>q' e'. bt_get (arc_requests ?c) q' = Some e' \<longrightarrow>
        (\<exists>r'. bt_get (arc_records ?c) e' = Some r' \<and> ae_request_id (arec_evidence r') = q')"
    proof (intro allI impI)
      fix q' e' assume "bt_get (arc_requests ?c) q' = Some e'"
      then have q': "bt_get (arc_requests c) q' = Some e'" "q' \<noteq> q"
        by (auto simp: c bt_get_remove split: if_splits)
      with uniq have "e' \<noteq> e" by auto
      with core_request [OF core q'(1)] show "\<exists>r'. bt_get (arc_records ?c) e' = Some r'
          \<and> ae_request_id (arec_evidence r') = q'"
        by (simp add: c bt_get_remove)
    qed
    show "\<forall>q'. bt_get (arc_tombstones ?c) q' \<noteq> None \<longrightarrow> bt_get (arc_requests ?c) q' = None"
      using core by (simp add: c bt_get_remove bt_get_insert approval_core_def)
    show "\<forall>e' r'. bt_get (arc_records ?c) e' = Some r' \<longrightarrow>
        (\<exists>n < arc_next_evidence_sequence ?c. e' = evidence_id_text n)"
      using core by (simp add: c bt_get_remove approval_core_def)
    show "arc_total_accounted_bytes ?c = bt_sum arec_accounted_bytes (arc_records ?c)"
        "arc_total_accounted_bytes ?c \<le> MAX_APPROVAL_TOTAL_BYTES"
      using core sum by (auto simp: c approval_core_def)
    show "arc_tombstone_accounted_bytes ?c = bt_sum tomb_accounted_bytes (arc_tombstones ?c)"
      using core fresh by (auto simp: c approval_core_def bt_sum_insert_new bt_contains_def)
    show "length (arc_records ?c) \<le> MAX_APPROVAL_ENTRIES"
      using core wf by (auto simp: c approval_core_def length_bt_remove)
  qed (use wf in \<open>auto simp: c\<close>)
  moreover have "shrinks c ?c" by (auto simp: c shrinks_def bt_get_remove split: if_splits)
  ultimately show ?thesis using wf(3) fresh by (simp add: c length_bt_insert bt_contains_def)
qed

lemma retire_fold:
  assumes "approval_core c"
    and "\<forall>(e, q, b) \<in> set cands. \<forall>r. bt_get (arc_records c) e = Some r \<longrightarrow> ae_request_id (arec_evidence r) = q"
    and "arc_tombstone_accounted_bytes c + sum_list (map (\<lambda>(_, _, b). b) cands) \<le> MAX_APPROVAL_TOMBSTONE_BYTES"
    and "length (arc_tombstones c) + length cands \<le> MAX_APPROVAL_TOMBSTONES"
  shows "approval_inv (foldl (retire_record now) c cands) \<and> shrinks c (foldl (retire_record now) c cands)"
  using assms
proof (induction cands arbitrary: c)
  case Nil
  then show ?case by (simp add: approval_inv_def)
next
  case (Cons cand cands)
  obtain e q b where cand: "cand = (e, q, b)" by (cases cand)
  let ?c = "retire_record now c (e, q, b)"
  have step: "approval_core ?c" "shrinks c ?c"
      "arc_tombstone_accounted_bytes ?c \<le> arc_tombstone_accounted_bytes c + b"
      "length (arc_tombstones ?c) \<le> Suc (length (arc_tombstones c))"
    using retire_core [of c e q b now] Cons.prems cand by auto
  have "approval_inv (foldl (retire_record now) ?c cands) \<and> shrinks ?c (foldl (retire_record now) ?c cands)"
  proof (rule Cons.IH [OF step(1)])
    show "\<forall>(e, q, b) \<in> set cands. \<forall>r. bt_get (arc_records ?c) e = Some r \<longrightarrow> ae_request_id (arec_evidence r) = q"
      using Cons.prems(2) step(2) by (fastforce simp: shrinks_def)
  qed (use Cons.prems(3,4) step(3,4) cand in auto)
  with step(2) show ?case by (auto simp: cand intro: shrinks_trans)
qed

lemma checked_sum:
  "try_fold (\<lambda>acc (_, _, b). ok_or (usize_checked_add acc b) err) s cands = Inr t
     \<Longrightarrow> t = s + sum_list (map (\<lambda>(_, _, b). b) cands)"
proof (induction cands arbitrary: s)
  case (Cons cand cands)
  obtain e q b where cand: "cand = (e, q, b)" by (cases cand)
  with Cons.prems Cons.IH [of "s + b"] show ?case by (auto simp: result_simps)
qed simp

lemma reclaim_inv:
  assumes "approval_inv c" "reclaim_inactive now c = (r, c')"
  shows "approval_inv c' \<and> shrinks c c'"
proof -
  let ?p = "prune_tombstones now c"
  let ?cands = "reclaim_candidates now ?p"
  have p: "approval_inv ?p" "shrinks c ?p" using prune_inv [OF assms(1)] by auto
  have match: "\<forall>(e, q, b) \<in> set ?cands. \<forall>r. bt_get (arc_records ?p) e = Some r
      \<longrightarrow> ae_request_id (arec_evidence r) = q"
    using p(1) by (auto simp: reclaim_candidates_def approval_inv_def approval_core_def bt_get_wf_iff
        dest: bt_wf_distinct [unfolded bt_keys_def, THEN eq_key_imp_eq_value])
  consider "c' = ?p" | t where "c' = foldl (retire_record now) ?p ?cands"
      "length (arc_tombstones ?p) + length ?cands \<le> MAX_APPROVAL_TOMBSTONES"
      "try_fold (\<lambda>acc (_, _, b). ok_or (usize_checked_add acc b) TombstoneTotalCapacityExceeded) 0 ?cands = Inr t"
      "arc_tombstone_accounted_bytes ?p + t \<le> MAX_APPROVAL_TOMBSTONE_BYTES"
    using assms(2)
    by (auto simp: reclaim_inactive_def Let_def result_simps split: if_splits option.splits sum.splits)
  then show ?thesis
  proof cases
    case 1
    with p show ?thesis by simp
  next
    case (2 t)
    have "approval_inv c' \<and> shrinks ?p c'"
      unfolding 2(1)
    proof (rule retire_fold [OF _ match])
      show "approval_core ?p" using p(1) by (simp add: approval_inv_def)
    qed (use 2(2,4) checked_sum [OF 2(3)] in simp_all)
    with p(2) show ?thesis by (auto intro: shrinks_trans)
  qed
qed

lemma next_sequence_less: "checked_add n 1 = Some m \<Longrightarrow> n < m"
  using unat_checked_add [of n 1 m] by (simp add: word_less_nat_alt)

lemma try_issue_ok:
  "try_issue i q req a issued expires = Inr ev \<longleftrightarrow>
     can_satisfy a (areq_class req) \<and> issued < expires \<and> expires - issued \<le> MAX_APPROVAL_TTL_SECONDS
     \<and> ev = \<lparr> ae_id = i, ae_request_id = q, ae_requirement = req, ae_approver = approver_principal a,
             ae_issued_at = issued, ae_expires_at = expires \<rparr>"
  by (auto simp: try_issue_def can_satisfy_def not_le not_less)

lemma issue_new_cases:
  fixes q review approver
  defines "b \<equiv> record_accounted_bytes q review approver"
  assumes "issue_new q review approver issued expires cl c = (r, c')"
  shows "(\<exists>e. r = Inl e \<and> c' = c)
    \<or> (\<exists>e n. r = Inl e \<and> checked_add (arc_next_evidence_sequence c) 1 = Some n
        \<and> c' = c\<lparr> arc_next_evidence_sequence := n \<rparr>)
    \<or> (\<exists>ev n. r = Inr ev \<and> checked_add (arc_next_evidence_sequence c) 1 = Some n
        \<and> try_issue (evidence_id_text (arc_next_evidence_sequence c)) q
             (approval_requirement_from_review review cl) approver issued expires = Inr ev
        \<and> length (arc_records c) < MAX_APPROVAL_ENTRIES
        \<and> arc_total_accounted_bytes c + b \<le> MAX_APPROVAL_TOTAL_BYTES
        \<and> c' = c\<lparr> arc_next_evidence_sequence := n,
             arc_requests := bt_insert q (ae_id ev) (arc_requests c),
             arc_records := bt_insert (ae_id ev) \<lparr> arec_evidence = ev, arec_revocation = None,
               arec_accounted_bytes = b \<rparr> (arc_records c),
             arc_total_accounted_bytes := arc_total_accounted_bytes c + b \<rparr>)"
proof (cases r)
  case (Inl e)
  with assms(2) show ?thesis
    by (auto simp: issue_new_def Let_def split: if_splits option.splits sum.splits)
next
  case (Inr ev)
  with assms(2) have "try_issue (evidence_id_text (arc_next_evidence_sequence c)) q
      (approval_requirement_from_review review cl) approver issued expires = Inr ev"
    by (auto simp: issue_new_def Let_def typed_id_new_ok split: if_splits option.splits sum.splits)
  moreover from this have "ae_id ev = evidence_id_text (arc_next_evidence_sequence c)"
    by (simp add: try_issue_ok)
  ultimately show ?thesis
    using assms(2) Inr
    by (auto simp: issue_new_def Let_def typed_id_new_ok b_def split: if_splits option.splits sum.splits)
qed

lemma bump_inv:
  assumes "approval_inv c" "arc_next_evidence_sequence c < n"
  shows "approval_inv (c\<lparr> arc_next_evidence_sequence := n \<rparr>)"
proof -
  have "\<exists>m. m < n \<and> e = evidence_id_text m" if "bt_get (arc_records c) e = Some r" for e r
    using core_record(3) [OF _ that] assms less_trans unfolding approval_inv_def by blast
  then show ?thesis using assms(1) by (simp add: approval_inv_def approval_core_def)
qed

lemma insert_core:
  assumes core: "approval_core c"
    and fresh: "bt_get (arc_requests c) q = None" "bt_get (arc_tombstones c) q = None"
    and ev: "ae_id ev = evidence_id_text (arc_next_evidence_sequence c)" "ae_request_id ev = q"
    and n: "arc_next_evidence_sequence c < n"
    and room: "length (arc_records c) < MAX_APPROVAL_ENTRIES" "arc_total_accounted_bytes c + b \<le> MAX_APPROVAL_TOTAL_BYTES"
  shows "approval_core (c\<lparr> arc_next_evidence_sequence := n,
      arc_requests := bt_insert q (ae_id ev) (arc_requests c),
      arc_records := bt_insert (ae_id ev) \<lparr> arec_evidence = ev, arec_revocation = None,
        arec_accounted_bytes = b \<rparr> (arc_records c),
      arc_total_accounted_bytes := arc_total_accounted_bytes c + b \<rparr>)" (is "approval_core ?c")
proof -
  have new: "bt_get (arc_records c) (ae_id ev) = None"
  proof (rule ccontr)
    assume "bt_get (arc_records c) (ae_id ev) \<noteq> None"
    then obtain r where "bt_get (arc_records c) (ae_id ev) = Some r" by auto
    from core_record(3) [OF core this] ev(1) show False by auto
  qed
  show ?thesis
    unfolding approval_core_def
  proof (intro conjI)
    show "\<forall>e' r'. bt_get (arc_records ?c) e' = Some r' \<longrightarrow> ae_id (arec_evidence r') = e'
        \<and> bt_get (arc_requests ?c) (ae_request_id (arec_evidence r')) = Some e'"
    proof (intro allI impI)
      fix e' r' assume "bt_get (arc_records ?c) e' = Some r'"
      then consider "e' = ae_id ev" "arec_evidence r' = ev" | "e' \<noteq> ae_id ev" "bt_get (arc_records c) e' = Some r'"
        by (auto simp: bt_get_insert split: if_splits)
      then show "ae_id (arec_evidence r') = e' \<and> bt_get (arc_requests ?c) (ae_request_id (arec_evidence r')) = Some e'"
      proof cases
        case 1
        then show ?thesis using ev(2) by (simp add: bt_get_insert)
      next
        case 2
        have "ae_request_id (arec_evidence r') \<noteq> q"
          using core_record(2) [OF core 2(2)] fresh(1) by auto
        then show ?thesis using core_record(1,2) [OF core 2(2)] by (simp add: bt_get_insert)
      qed
    qed
    show "\<forall>q' e'. bt_get (arc_requests ?c) q' = Some e' \<longrightarrow>
        (\<exists>r'. bt_get (arc_records ?c) e' = Some r' \<and> ae_request_id (arec_evidence r') = q')"
    proof (intro allI impI)
      fix q' e' assume q': "bt_get (arc_requests ?c) q' = Some e'"
      show "\<exists>r'. bt_get (arc_records ?c) e' = Some r' \<and> ae_request_id (arec_evidence r') = q'"
      proof (cases "q' = q")
        case True
        with q' ev(2) show ?thesis by (simp add: bt_get_insert)
      next
        case False
        with q' have "bt_get (arc_requests c) q' = Some e'" by (simp add: bt_get_insert)
        from core_request [OF core this] obtain r' where
          "bt_get (arc_records c) e' = Some r'" "ae_request_id (arec_evidence r') = q'" by blast
        moreover from this(1) new have "e' \<noteq> ae_id ev" by auto
        ultimately show ?thesis by (simp add: bt_get_insert)
      qed
    qed
    show "\<forall>q'. bt_get (arc_tombstones ?c) q' \<noteq> None \<longrightarrow> bt_get (arc_requests ?c) q' = None"
    proof (intro allI impI)
      fix q' assume t: "bt_get (arc_tombstones ?c) q' \<noteq> None"
      have "bt_get (arc_requests c) q' = None" using core_tombstone [OF core] t by simp
      with t fresh(2) show "bt_get (arc_requests ?c) q' = None" by (auto simp: bt_get_insert)
    qed
    show "\<forall>e' r'. bt_get (arc_records ?c) e' = Some r' \<longrightarrow>
        (\<exists>m < arc_next_evidence_sequence ?c. e' = evidence_id_text m)"
    proof (intro allI impI)
      fix e' r' assume "bt_get (arc_records ?c) e' = Some r'"
      then consider "e' = ae_id ev" | "bt_get (arc_records c) e' = Some r'"
        by (auto simp: bt_get_insert split: if_splits)
      then show "\<exists>m < arc_next_evidence_sequence ?c. e' = evidence_id_text m"
      proof cases
        case 1
        with n ev(1) show ?thesis by auto
      next
        case 2
        from core_record(3) [OF core this] obtain m
          where "m < arc_next_evidence_sequence c" "e' = evidence_id_text m" by blast
        moreover from this(1) n have "m < n" by (rule less_trans)
        ultimately show ?thesis by auto
      qed
    qed
    show "arc_total_accounted_bytes ?c = bt_sum arec_accounted_bytes (arc_records ?c)"
      using new core_sums(1) [OF core] by (simp add: bt_sum_insert_new bt_contains_def)
    show "length (arc_records ?c) \<le> MAX_APPROVAL_ENTRIES"
      using core_wf(1) [OF core] new room(1) by (simp add: length_bt_insert bt_contains_def)
    show "bt_wf (arc_records ?c)" "bt_wf (arc_requests ?c)" "bt_wf (arc_tombstones ?c)"
      using core_wf [OF core] by (auto intro: bt_insert_wf)
    show "arc_tombstone_accounted_bytes ?c = bt_sum tomb_accounted_bytes (arc_tombstones ?c)"
      using core_sums(2) [OF core] by simp
    show "arc_total_accounted_bytes ?c \<le> MAX_APPROVAL_TOTAL_BYTES"
      using room(2) by simp
  qed
qed

text \<open>What \<open>issue_at\<close> can do to the store: shrink it, and then possibly append one fresh record.\<close>

lemma issue_at_cases:
  assumes inv: "approval_inv c" and iss: "issue_at q review approver issued expires c = (r, c')"
  shows "approval_inv c' \<and> (\<exists>d. approval_inv d \<and> shrinks c d \<and>
    ((arc_records c' = arc_records d \<and> arc_next_evidence_sequence d \<le> arc_next_evidence_sequence c')
     \<or> (\<exists>ev cl rec. r = Inr ev \<and> required_approval_class review = Inr cl
         \<and> try_issue (evidence_id_text (arc_next_evidence_sequence d)) q
             (approval_requirement_from_review review cl) approver issued expires = Inr ev
         \<and> arec_evidence rec = ev \<and> arec_revocation rec = None
         \<and> arc_records c' = bt_insert (ae_id ev) rec (arc_records d)
         \<and> arc_next_evidence_sequence d < arc_next_evidence_sequence c')))"
proof -
  obtain rr d where rc: "reclaim_inactive issued c = (rr, d)" by fastforce
  have d: "approval_inv d" "shrinks c d" using reclaim_inv [OF inv rc] by auto
  show ?thesis
  proof (cases "c' = d")
    case True
    with d show ?thesis by auto
  next
    case False
    with iss rc obtain cl where cl: "required_approval_class review = Inr cl"
        and fresh: "bt_get (arc_tombstones d) q = None" "bt_get (arc_requests d) q = None"
        and new: "issue_new q review approver issued expires cl d = (r, c')"
      by (auto simp: issue_at_def bt_contains_def split: sum.splits if_splits option.splits)
    from issue_new_cases [OF new] False consider
        (skip) n where "checked_add (arc_next_evidence_sequence d) 1 = Some n"
          "c' = d\<lparr> arc_next_evidence_sequence := n \<rparr>"
      | (add) ev n b where "r = Inr ev" "checked_add (arc_next_evidence_sequence d) 1 = Some n"
          "try_issue (evidence_id_text (arc_next_evidence_sequence d)) q
             (approval_requirement_from_review review cl) approver issued expires = Inr ev"
          "length (arc_records d) < MAX_APPROVAL_ENTRIES" "arc_total_accounted_bytes d + b \<le> MAX_APPROVAL_TOTAL_BYTES"
          "c' = d\<lparr> arc_next_evidence_sequence := n,
             arc_requests := bt_insert q (ae_id ev) (arc_requests d),
             arc_records := bt_insert (ae_id ev) \<lparr> arec_evidence = ev, arec_revocation = None,
               arec_accounted_bytes = b \<rparr> (arc_records d),
             arc_total_accounted_bytes := arc_total_accounted_bytes d + b \<rparr>"
      by auto
    then show ?thesis
    proof cases
      case skip
      have lt: "arc_next_evidence_sequence d < n" by (rule next_sequence_less [OF skip(1)])
      have "approval_inv c'"
        using bump_inv [OF d(1) lt] by (simp add: skip(2))
      with d lt show ?thesis by (auto simp: skip(2))
    next
      case add
      have lt: "arc_next_evidence_sequence d < n" by (rule next_sequence_less [OF add(2)])
      have "approval_core c'"
        unfolding add(6)
        using d(1) fresh add(3,4,5) lt by (intro insert_core) (auto simp: approval_inv_def try_issue_ok)
      then have "approval_inv c'" using d(1) by (simp add: approval_inv_def add(6))
      moreover have "\<exists>rec. arec_evidence rec = ev \<and> arec_revocation rec = None
          \<and> arc_records c' = bt_insert (ae_id ev) rec (arc_records d)"
        by (rule exI [of _ "\<lparr> arec_evidence = ev, arec_revocation = None, arec_accounted_bytes = b \<rparr>"])
          (simp add: add(6))
      ultimately show ?thesis using d cl add(1,3,6) lt by auto
    qed
  qed
qed

section \<open>Histories of the store\<close>

datatype approval_op =
    IssueOp "u64 option" approval_request_id trusted_policy_review policy_authenticated_approver u64
  | ValidateOp "u64 option" approval_evidence_id trusted_policy_review
  | RevokeOp "u64 option" approval_evidence_id policy_authenticated_approver

primrec approval_step :: "approval_op \<Rightarrow> approval_review_control \<Rightarrow> approval_review_control" where
  "approval_step (IssueOp clock q review approver expires) c = snd (issue clock q review approver expires c)"
| "approval_step (ValidateOp clock e review) c = snd (validate clock e review c)"
| "approval_step (RevokeOp clock e revoker) c = snd (revoke clock e revoker c)"

definition approval_run :: "approval_op list \<Rightarrow> approval_review_control" where
  "approval_run ops = foldl (\<lambda>c x. approval_step x c) approval_control_new ops"

definition revokes :: "approval_op \<Rightarrow> approval_evidence_id \<Rightarrow> approval_review_control \<Rightarrow> bool" where
  "revokes x e c \<longleftrightarrow> (case x of RevokeOp clock e' revoker \<Rightarrow> e' = e \<and> fst (revoke clock e revoker c) = Inr ()
     | _ \<Rightarrow> False)"

text \<open>\<open>x\<close>, run on \<open>c\<close>, creates the record holding \<open>ev\<close>: an issue by an approver who may satisfy
  the class the review demands, bound to that review's evaluation, for a window within the limit.\<close>

definition grants :: "approval_op \<Rightarrow> policy_approval_evidence \<Rightarrow> approval_review_control \<Rightarrow> bool" where
  "grants x ev c \<longleftrightarrow> (\<exists>issued q review approver expires cl.
     x = IssueOp (Some issued) q review approver expires
     \<and> fst (issue (Some issued) q review approver expires c) = Inr ev
     \<and> required_approval_class review = Inr cl \<and> can_satisfy approver cl
     \<and> ae_requirement ev = \<lparr> areq_class = cl, areq_binding = tpr_evaluation review \<rparr>
     \<and> ae_request_id ev = q \<and> ae_approver ev = approver_principal approver
     \<and> ae_issued_at ev = issued \<and> ae_expires_at ev = expires
     \<and> issued < expires \<and> unat expires \<le> unat issued + 86400)"

lemma approval_run_simps [simp]:
  "approval_run [] = approval_control_new"
  "approval_run (ops @ [x]) = approval_step x (approval_run ops)"
  by (simp_all add: approval_run_def)

lemma try_issue_window:
  assumes "try_issue ident q req approver issued expires = Inr ev"
  shows "issued < expires" "unat expires \<le> unat issued + 86400" "can_satisfy approver (areq_class req)"
    "ev = \<lparr> ae_id = ident, ae_request_id = q, ae_requirement = req,
       ae_approver = approver_principal approver, ae_issued_at = issued, ae_expires_at = expires \<rparr>"
proof -
  have ok: "issued < expires" "expires - issued \<le> 86400" "can_satisfy approver (areq_class req)"
      "ev = \<lparr> ae_id = ident, ae_request_id = q, ae_requirement = req,
       ae_approver = approver_principal approver, ae_issued_at = issued, ae_expires_at = expires \<rparr>"
    using assms by (auto simp: try_issue_def MAX_APPROVAL_TTL_SECONDS_def split: if_splits)
  then have "unat (expires - issued) = unat expires - unat issued"
    by (simp add: unat_sub less_imp_le)
  with ok(2) have "unat expires - unat issued \<le> 86400"
    by (simp add: word_le_nat_alt)
  with ok show "issued < expires" "unat expires \<le> unat issued + 86400"
    "can_satisfy approver (areq_class req)"
    "ev = \<lparr> ae_id = ident, ae_request_id = q, ae_requirement = req,
       ae_approver = approver_principal approver, ae_issued_at = issued, ae_expires_at = expires \<rparr>"
    by simp_all
qed

lemma issue_step:
  assumes inv: "approval_inv c" and c': "c' = snd (issue clock q review approver expires c)"
  shows "approval_inv c' \<and> arc_next_evidence_sequence c \<le> arc_next_evidence_sequence c'
    \<and> (\<forall>e r. bt_get (arc_records c') e = Some r \<longrightarrow> bt_get (arc_records c) e = Some r
         \<or> (arec_revocation r = None \<and> grants (IssueOp clock q review approver expires) (arec_evidence r) c
            \<and> e = ae_id (arec_evidence r)
            \<and> (\<exists>n \<ge> arc_next_evidence_sequence c. e = evidence_id_text n)))"
proof -
  obtain a c1 where a: "authority_now_unix_seconds clock c = (a, c1)" by fastforce
  note fr = authority_now_frame [OF a]
  have inv1: "approval_inv c1" using inv by (subst fr(1)) simp
  have same: "arc_records c1 = arc_records c" "arc_next_evidence_sequence c1 = arc_next_evidence_sequence c"
    by (subst fr(1), simp)+
  show ?thesis
  proof (cases a)
    case (Inl e)
    with c' a inv1 same show ?thesis by (simp add: issue_def)
  next
    case (Inr now)
    obtain r c2 where iss: "issue_at q review approver now expires c1 = (r, c2)" by fastforce
    have c'2: "c' = c2" and res: "fst (issue clock q review approver expires c) = r" and clk: "clock = Some now"
      using c' a Inr iss fr(2) by (auto simp: issue_def)
    from issue_at_cases [OF inv1 iss] obtain d where inv2: "approval_inv c2" and sh: "shrinks c1 d" and
      alt: "(arc_records c2 = arc_records d \<and> arc_next_evidence_sequence d \<le> arc_next_evidence_sequence c2)
       \<or> (\<exists>ev cl rec. r = Inr ev \<and> required_approval_class review = Inr cl
         \<and> try_issue (evidence_id_text (arc_next_evidence_sequence d)) q
             (approval_requirement_from_review review cl) approver now expires = Inr ev
         \<and> arec_evidence rec = ev \<and> arec_revocation rec = None
         \<and> arc_records c2 = bt_insert (ae_id ev) rec (arc_records d)
         \<and> arc_next_evidence_sequence d < arc_next_evidence_sequence c2)" by blast
    have seq: "arc_next_evidence_sequence d = arc_next_evidence_sequence c"
      and old: "bt_get (arc_records d) e = Some r \<Longrightarrow> bt_get (arc_records c) e = Some r" for e r
      using sh same by (auto simp: shrinks_def)
    from alt show ?thesis
    proof (elim disjE exE conjE)
      assume "arc_records c2 = arc_records d" "arc_next_evidence_sequence d \<le> arc_next_evidence_sequence c2"
      with inv2 seq old c'2 show ?thesis by simp
    next
      fix ev cl rec
      assume new: "r = Inr ev" "required_approval_class review = Inr cl"
          "try_issue (evidence_id_text (arc_next_evidence_sequence d)) q
             (approval_requirement_from_review review cl) approver now expires = Inr ev"
          "arec_evidence rec = ev" "arec_revocation rec = None"
          "arc_records c2 = bt_insert (ae_id ev) rec (arc_records d)"
          "arc_next_evidence_sequence d < arc_next_evidence_sequence c2"
      note w = try_issue_window [OF new(3)]
      have "grants (IssueOp clock q review approver expires) ev c"
        using new(1,2) w res clk by (simp add: grants_def approval_requirement_from_review_def)
      moreover have "ae_id ev = evidence_id_text (arc_next_evidence_sequence c)"
        using w(4) seq by simp
      ultimately have grant: "arec_revocation rec = None
          \<and> grants (IssueOp clock q review approver expires) (arec_evidence rec) c
          \<and> ae_id ev = ae_id (arec_evidence rec)
          \<and> (\<exists>n \<ge> arc_next_evidence_sequence c. ae_id ev = evidence_id_text n)"
        using new(4,5) by auto
      have "bt_get (arc_records c') e = Some s \<Longrightarrow> s = rec \<and> e = ae_id ev \<or> bt_get (arc_records c) e = Some s"
        for e s using new(6) old c'2 by (cases "e = ae_id ev") (simp_all add: bt_get_insert)
      with grant inv2 new(7) seq c'2 show ?thesis by (metis order_less_imp_le)
    qed
  qed
qed

lemma validate_step:
  assumes "approval_inv c" "c' = snd (validate clock e review c)"
  shows "approval_inv c' \<and> arc_next_evidence_sequence c' = arc_next_evidence_sequence c
    \<and> arc_records c' = arc_records c"
proof -
  obtain a c1 where a: "authority_now_unix_seconds clock c = (a, c1)" by fastforce
  have "c' = c1" using assms(2) a by (simp add: validate_def split: sum.splits)
  then have c': "c' = c\<lparr> arc_last_authority := arc_last_authority c' \<rparr>"
    using authority_now_frame(1) [OF a] by simp
  show ?thesis using assms(1) by (subst c', subst (2) c', subst (3) c') simp
qed

lemma revoke_record_inv:
  assumes inv: "approval_inv c" and r: "bt_get (arc_records c) e = Some r"
  shows "approval_inv (c\<lparr> arc_records := bt_insert e (r\<lparr> arec_revocation := x \<rparr>) (arc_records c) \<rparr>)"
    (is "approval_inv ?c")
proof -
  let ?r = "r\<lparr> arec_revocation := x \<rparr>"
  have core: "approval_core c" using inv by (simp add: approval_inv_def)
  note wf = core_wf [OF core]
  have get: "bt_get (arc_records ?c) e' = (if e' = e then Some ?r else bt_get (arc_records c) e')" for e'
    by (simp add: bt_get_insert)
  have bwd: "\<exists>r0. bt_get (arc_records c) e' = Some r0 \<and> arec_evidence r' = arec_evidence r0"
    if "bt_get (arc_records ?c) e' = Some r'" for e' r'
    using that r unfolding get by (auto split: if_splits)
  have fwd: "\<exists>r'. bt_get (arc_records ?c) e' = Some r' \<and> arec_evidence r' = arec_evidence r0"
    if "bt_get (arc_records c) e' = Some r0" for e' r0
    using that r unfolding get by auto
  have "approval_core ?c"
    unfolding approval_core_def
  proof (intro conjI)
    show "\<forall>e' r'. bt_get (arc_records ?c) e' = Some r' \<longrightarrow> ae_id (arec_evidence r') = e'
        \<and> bt_get (arc_requests ?c) (ae_request_id (arec_evidence r')) = Some e'"
      using bwd core_record(1,2) [OF core] by fastforce
    show "\<forall>q' e'. bt_get (arc_requests ?c) q' = Some e' \<longrightarrow>
        (\<exists>r'. bt_get (arc_records ?c) e' = Some r' \<and> ae_request_id (arec_evidence r') = q')"
    proof (intro allI impI)
      fix q' e' assume "bt_get (arc_requests ?c) q' = Some e'"
      then have "bt_get (arc_requests c) q' = Some e'" by simp
      from core_request [OF core this] show "\<exists>r'. bt_get (arc_records ?c) e' = Some r'
          \<and> ae_request_id (arec_evidence r') = q'" using fwd by metis
    qed
    show "\<forall>q'. bt_get (arc_tombstones ?c) q' \<noteq> None \<longrightarrow> bt_get (arc_requests ?c) q' = None"
      using core_tombstone [OF core] by simp
    show "\<forall>e' r'. bt_get (arc_records ?c) e' = Some r' \<longrightarrow>
        (\<exists>n. n < arc_next_evidence_sequence ?c \<and> e' = evidence_id_text n)"
      using bwd core_record(3) [OF core] by fastforce
    show "arc_total_accounted_bytes ?c = bt_sum arec_accounted_bytes (arc_records ?c)"
      using core_sums(1) [OF core] bt_sum_insert_update [OF wf(1) r, of arec_accounted_bytes ?r] by simp
    show "length (arc_records ?c) \<le> MAX_APPROVAL_ENTRIES"
      using core_sums(3) [OF core] wf(1) r by (simp add: length_bt_insert bt_contains_def)
    show "bt_wf (arc_records ?c)" "bt_wf (arc_requests ?c)" "bt_wf (arc_tombstones ?c)"
      using wf by (auto intro: bt_insert_wf)
  qed (use core_sums [OF core] in simp_all)
  with inv show ?thesis by (simp add: approval_inv_def)
qed

lemma revoke_step:
  assumes inv: "approval_inv c" and c': "c' = snd (revoke clock e revoker c)"
  shows "approval_inv c' \<and> arc_next_evidence_sequence c' = arc_next_evidence_sequence c
    \<and> (\<forall>e'. bt_get (arc_records c') e' = bt_get (arc_records c) e' \<or>
         e' = e \<and> (\<exists>r x. bt_get (arc_records c) e = Some r
           \<and> bt_get (arc_records c') e = Some (r\<lparr> arec_revocation := Some x \<rparr>)))
    \<and> (fst (revoke clock e revoker c) = Inr () \<longrightarrow>
         (\<exists>r x. bt_get (arc_records c') e = Some r \<and> arec_revocation r = Some x))"
proof -
  obtain a c1 where a: "authority_now_unix_seconds clock c = (a, c1)" by fastforce
  note fr = authority_now_frame [OF a]
  have inv1: "approval_inv c1" using inv by (subst fr(1)) simp
  have same: "arc_records c1 = arc_records c" "arc_next_evidence_sequence c1 = arc_next_evidence_sequence c"
    by (subst fr(1), simp)+
  show ?thesis
  proof (cases a)
    case (Inl err)
    with c' a inv1 same show ?thesis by (simp add: revoke_def)
  next
    case (Inr now)
    with c' a have rv: "c' = snd (revoke_at e revoker now c1)"
        "fst (revoke clock e revoker c) = fst (revoke_at e revoker now c1)"
      by (simp_all add: revoke_def)
    show ?thesis
    proof (cases "bt_get (arc_records c) e")
      case None
      with rv inv1 same show ?thesis by (simp add: revoke_at_def)
    next
      case (Some r)
      with revoke_record_inv [OF inv1] same inv1 show ?thesis
        unfolding rv by (auto simp: revoke_at_def bt_get_insert)
    qed
  qed
qed

lemma approval_step_inv:
  assumes "approval_inv c"
  shows "approval_inv (approval_step x c)
    \<and> arc_next_evidence_sequence c \<le> arc_next_evidence_sequence (approval_step x c)"
proof (cases x)
  case (IssueOp clock q review approver expires)
  then show ?thesis using issue_step [OF assms refl, of clock q review approver expires] by simp
next
  case (ValidateOp clock e review)
  then show ?thesis using validate_step [OF assms refl, of clock e review] by simp
next
  case (RevokeOp clock e revoker)
  then show ?thesis using revoke_step [OF assms refl, of clock e revoker] by simp
qed

lemma approval_run_inv: "approval_inv (approval_run ops)"
  by (induction ops rule: rev_induct) (simp_all add: new_inv approval_step_inv)

lemma approval_step_record:
  assumes inv: "approval_inv c" and rec: "bt_get (arc_records (approval_step x c)) e = Some r"
  shows "(bt_get (arc_records c) e = Some r \<and> \<not> (revokes x e c \<and> arec_revocation r = None))
    \<or> (arec_revocation r = None \<and> grants x (arec_evidence r) c \<and> ae_id (arec_evidence r) = e
        \<and> (\<exists>n \<ge> arc_next_evidence_sequence c. e = evidence_id_text n))
    \<or> (\<exists>r0 v. bt_get (arc_records c) e = Some r0 \<and> r = r0\<lparr> arec_revocation := Some v \<rparr>)"
proof (cases x)
  case (IssueOp clock q review approver expires)
  then show ?thesis
    using rec issue_step [OF inv refl, of clock q review approver expires] by (auto simp: revokes_def)
next
  case (ValidateOp clock e' review)
  then show ?thesis using rec validate_step [OF inv refl, of clock e' review] by (auto simp: revokes_def)
next
  case (RevokeOp clock e' revoker)
  note st = revoke_step [OF inv refl, of clock e' revoker]
  have rec': "bt_get (arc_records (snd (revoke clock e' revoker c))) e = Some r" using rec RevokeOp by simp
  from st have "bt_get (arc_records (snd (revoke clock e' revoker c))) e = bt_get (arc_records c) e
      \<or> e = e' \<and> (\<exists>r x. bt_get (arc_records c) e' = Some r
        \<and> bt_get (arc_records (snd (revoke clock e' revoker c))) e' = Some (r\<lparr> arec_revocation := Some x \<rparr>))"
    by blast
  with rec' have "bt_get (arc_records c) e = Some r
      \<or> (\<exists>r0 v. bt_get (arc_records c) e = Some r0 \<and> r = r0\<lparr> arec_revocation := Some v \<rparr>)" by auto
  moreover have "\<not> (revokes x e c \<and> arec_revocation r = None)"
    using st rec' RevokeOp by (auto simp: revokes_def)
  ultimately show ?thesis by blast
qed

text \<open>Every retained record comes from one issue of the history, and an unrevoked one has not been
  revoked since.\<close>

lemma record_origin:
  "bt_get (arc_records (approval_run ops)) e = Some r \<Longrightarrow>
     \<exists>pre x post. ops = pre @ x # post \<and> grants x (arec_evidence r) (approval_run pre)
       \<and> ae_id (arec_evidence r) = e
       \<and> (arec_revocation r = None \<longrightarrow>
            (\<forall>p y s. post = p @ y # s \<longrightarrow> \<not> revokes y e (approval_run (pre @ x # p))))"
proof (induction ops arbitrary: r rule: rev_induct)
  case Nil
  then show ?case by (simp add: approval_control_new_def bt_get_def)
next
  case (snoc x ops)
  let ?c = "approval_run ops"
  have keep: ?case if r0: "bt_get (arc_records ?c) e = Some r0" "arec_evidence r0 = arec_evidence r"
    and nr: "arec_revocation r = None \<longrightarrow> arec_revocation r0 = None \<and> \<not> revokes x e ?c" for r0
  proof -
    from snoc.IH [OF r0(1)] obtain pre y post where h: "ops = pre @ y # post"
        "grants y (arec_evidence r) (approval_run pre)" "ae_id (arec_evidence r) = e"
        "arec_revocation r0 = None \<longrightarrow>
           (\<forall>p z s. post = p @ z # s \<longrightarrow> \<not> revokes z e (approval_run (pre @ y # p)))"
      using r0(2) by auto
    have "\<not> revokes z e (approval_run (pre @ y # p))"
      if "arec_revocation r = None" "post @ [x] = p @ z # s" for p z s
      using that(2) nr that(1) h(1,4) by (cases s rule: rev_cases) auto
    with h(1-3) show ?thesis by (intro exI [of _ pre] exI [of _ y] exI [of _ "post @ [x]"]) auto
  qed
  from approval_step_record [OF approval_run_inv snoc.prems [unfolded approval_run_simps]]
  consider (old) "bt_get (arc_records ?c) e = Some r" "\<not> (revokes x e ?c \<and> arec_revocation r = None)"
    | (new) "grants x (arec_evidence r) ?c" "ae_id (arec_evidence r) = e"
    | (rev) r0 v where "bt_get (arc_records ?c) e = Some r0" "r = r0\<lparr> arec_revocation := Some v \<rparr>"
    by blast
  then show ?case
  proof cases
    case old
    then show ?thesis by (intro keep [of r]) auto
  next
    case new
    then show ?thesis by (intro exI [of _ ops] exI [of _ x] exI [of _ "[]"]) simp
  next
    case rev
    then show ?thesis by (intro keep [of r0]) auto
  qed
qed

text \<open>An identifier that was issued and is now revoked or gone.\<close>

definition dead :: "approval_evidence_id \<Rightarrow> approval_review_control \<Rightarrow> bool" where
  "dead e c \<longleftrightarrow> (\<exists>n < arc_next_evidence_sequence c. e = evidence_id_text n)
     \<and> (\<forall>r. bt_get (arc_records c) e = Some r \<longrightarrow> arec_revocation r \<noteq> None)"

lemma dead_step:
  assumes inv: "approval_inv c" and d: "dead e c"
  shows "dead e (approval_step x c)"
proof -
  from d obtain n where n: "n < arc_next_evidence_sequence c" "e = evidence_id_text n"
    by (auto simp: dead_def)
  have "n < arc_next_evidence_sequence (approval_step x c)"
    using n(1) approval_step_inv [OF inv, of x] by (auto intro: less_le_trans)
  moreover have "arec_revocation r \<noteq> None" if "bt_get (arc_records (approval_step x c)) e = Some r" for r
    using approval_step_record [OF inv that] d n by (auto simp: dead_def)
  ultimately show ?thesis using n(2) by (auto simp: dead_def)
qed

lemma revokes_dead:
  assumes inv: "approval_inv c" and rv: "revokes x e c"
  shows "dead e (approval_step x c)"
proof -
  from rv obtain clock revoker where x: "x = RevokeOp clock e revoker"
      and ok: "fst (revoke clock e revoker c) = Inr ()" by (auto simp: revokes_def split: approval_op.splits)
  note st = revoke_step [OF inv refl, of clock e revoker]
  from st ok obtain r v where r: "bt_get (arc_records (approval_step x c)) e = Some r"
    "arec_revocation r = Some v" by (auto simp: x)
  have "approval_core (approval_step x c)" using st by (simp add: x approval_inv_def)
  from core_record(3) [OF this r(1)] r show ?thesis by (auto simp: dead_def)
qed

lemma dead_run: "dead e (approval_run pre) \<Longrightarrow> dead e (approval_run (pre @ post))"
proof (induction post rule: rev_induct)
  case (snoc x post)
  then show ?case using dead_step [OF approval_run_inv, of e "pre @ post" x]
    by (simp flip: append_assoc)
qed simp

lemma validate_satisfied:
  assumes "fst (validate clock e review c) = Inr Satisfied"
  obtains now r cl where "clock = Some now" "bt_get (arc_records c) e = Some r" "arec_revocation r = None"
    "required_approval_class review = Inr cl"
    "ae_requirement (arec_evidence r) = \<lparr> areq_class = cl, areq_binding = tpr_evaluation review \<rparr>"
    "ae_issued_at (arec_evidence r) \<le> now" "now < ae_expires_at (arec_evidence r)"
proof -
  obtain a c1 where a: "authority_now_unix_seconds clock c = (a, c1)" by fastforce
  note fr = authority_now_frame [OF a]
  from assms a obtain now where now: "a = Inr now" "validate_at e review now c1 = Satisfied"
    by (auto simp: validate_def split: sum.splits)
  have same: "arc_records c1 = arc_records c" by (subst fr(1)) simp
  from now(2) obtain r cl where r: "bt_get (arc_records c) e = Some r" "required_approval_class review = Inr cl"
      "validate_approval (arec_evidence r) (tpr_evaluation review) cl now (arec_revocation r) = Satisfied"
    by (auto simp: validate_at_def validate_policy_approval_def same split: option.splits sum.splits)
  show thesis
    using r(3) fr(2) [OF now(1)] r(1,2)
    by (intro that [of now r cl]) (auto simp: validate_approval_def split: if_splits)
qed

section \<open>An issued approval is usable\<close>

lemma retire_fold_absent:
  "bt_get (arc_records c) e = None \<Longrightarrow> bt_get (arc_records (foldl (retire_record now) c cands)) e = None"
proof (induction cands arbitrary: c)
  case (Cons cand cands)
  have "bt_get (arc_records (retire_record now c cand)) e = None"
    using Cons.prems by (simp add: retire_record_def bt_get_remove split: prod.split option.split)
  from Cons.IH [OF this] show ?case by simp
qed simp

lemma retire_fold_gone:
  "(e, q, b) \<in> set cands \<Longrightarrow> bt_get (arc_records (foldl (retire_record now) c cands)) e = None"
proof (induction cands arbitrary: c)
  case (Cons cand cands)
  have "bt_get (arc_records (retire_record now c (e, q, b))) e = None"
    by (simp add: retire_record_def bt_get_remove split: option.split)
  with Cons show ?case by (auto intro: retire_fold_absent)
qed simp

lemma reclaim_active:
  assumes inv: "approval_inv c" and ok: "reclaim_inactive now c = (Inr (), c')"
    and r: "bt_get (arc_records c') e = Some r"
  shows "arec_revocation r = None \<and> now < ae_expires_at (arec_evidence r)"
proof (rule ccontr)
  let ?p = "prune_tombstones now c"
  assume inactive: "\<not> ?thesis"
  have p: "approval_core ?p" using prune_inv [OF inv] by (simp add: approval_inv_def)
  have c': "c' = foldl (retire_record now) ?p (reclaim_candidates now ?p)"
    using ok by (auto simp: reclaim_inactive_def Let_def split: if_splits option.splits sum.splits)
  have "bt_get (arc_records ?p) e = Some r"
  proof (rule ccontr)
    assume other: "bt_get (arc_records ?p) e \<noteq> Some r"
    have "bt_get (arc_records (foldl (retire_record now) d cands)) e = Some r \<Longrightarrow>
        bt_get (arc_records d) e = Some r" for d cands
    proof (induction cands arbitrary: d)
      case (Cons cand cands)
      from Cons.IH [of "retire_record now d cand"] Cons.prems show ?case
        by (auto simp: retire_record_def bt_get_remove split: prod.splits option.splits if_splits)
    qed simp
    with r c' other show False by blast
  qed
  then have "(e, r) \<in> set (arc_records ?p)" by (rule bt_get_in)
  with inactive have "(e, ae_request_id (arec_evidence r),
      approval_tombstone_bytes (ae_request_id (arec_evidence r))) \<in> set (reclaim_candidates now ?p)"
    by (auto simp: reclaim_candidates_def not_less intro!: image_eqI [of _ _ "(e, r)"])
  from retire_fold_gone [OF this, of now ?p] r show False by (simp add: c')
qed

lemma issue_at_result:
  assumes inv: "approval_inv c" and iss: "issue_at q review approver issued expires c = (Inr ev, c')"
  shows "arc_last_authority c' = arc_last_authority c \<and> (\<exists>r cl. bt_get (arc_records c') (ae_id ev) = Some r
    \<and> arec_evidence r = ev \<and> arec_revocation r = None \<and> required_approval_class review = Inr cl
    \<and> ae_requirement ev = \<lparr> areq_class = cl, areq_binding = tpr_evaluation review \<rparr>
    \<and> ae_expires_at ev = expires
    \<and> (bt_get (arc_records c) (ae_id ev) = Some r \<or> ae_issued_at ev = issued))"
proof -
  obtain rr d where rc: "reclaim_inactive issued c = (rr, d)" by fastforce
  have d: "approval_inv d" "shrinks c d" using reclaim_inv [OF inv rc] by auto
  from iss rc have rr: "rr = Inr ()" by (cases rr) (auto simp: issue_at_def)
  obtain cl where cl: "required_approval_class review = Inr cl"
    using iss rc rr by (auto simp: issue_at_def split: sum.splits if_splits)
  show ?thesis
  proof (cases "bt_get (arc_requests d) q")
    case None
    with iss rc rr cl have "issue_new q review approver issued expires cl d = (Inr ev, c')"
      by (auto simp: issue_at_def split: if_splits)
    from issue_new_cases [OF this] cl d(2) show ?thesis
      by (auto simp: bt_get_insert try_issue_ok approval_requirement_from_review_def shrinks_def)
  next
    case (Some e)
    with iss rc rr cl obtain r where r: "bt_get (arc_records d) e = Some r" "c' = d" "ev = arec_evidence r"
        "areq_binding (ae_requirement ev) = tpr_evaluation review" "areq_class (ae_requirement ev) = cl"
        "ae_expires_at ev = expires"
      by (auto simp: issue_at_def split: if_splits option.splits)
    have "approval_core d" using d(1) by (simp add: approval_inv_def)
    from core_record(1) [OF this r(1)] have "ae_id ev = e" using r(3) by simp
    moreover have "arec_revocation r = None" using reclaim_active [OF inv rc [unfolded rr] r(1)] by simp
    moreover have "ae_requirement ev = \<lparr> areq_class = cl, areq_binding = tpr_evaluation review \<rparr>"
      using r(4,5) by simp
    ultimately show ?thesis using r cl d(2) by (auto simp: shrinks_def)
  qed
qed

lemma issue_at_last:
  assumes "approval_inv c"
  shows "arc_last_authority (snd (issue_at q review approver issued expires c)) = arc_last_authority c"
proof -
  obtain rr d where rc: "reclaim_inactive issued c = (rr, d)" by fastforce
  have "shrinks c d" using reclaim_inv [OF assms rc] by auto
  then show ?thesis
    by (auto simp: issue_at_def rc issue_new_def Let_def shrinks_def
        split: sum.splits option.splits if_splits)
qed

definition issued_in_past :: "approval_review_control \<Rightarrow> bool" where
  "issued_in_past c \<longleftrightarrow> (\<forall>e r. bt_get (arc_records c) e = Some r \<longrightarrow>
     ae_issued_at (arec_evidence r) \<le> arc_last_authority c)"

lemma approval_step_last:
  assumes inv: "approval_inv c"
  shows "arc_last_authority c \<le> arc_last_authority (approval_step x c)"
    and "grants x ev c \<Longrightarrow> ae_issued_at ev \<le> arc_last_authority (approval_step x c)"
proof -
  have mono: "arc_last_authority c \<le> arc_last_authority (snd (authority_now_unix_seconds clock c))" for clock
    by (auto simp: authority_now_unix_seconds_def Let_def split: option.splits)
  have iss: "arc_last_authority (snd (issue clock q review approver expires c))
      = arc_last_authority (snd (authority_now_unix_seconds clock c))" for clock q review approver expires
  proof -
    obtain a c1 where a: "authority_now_unix_seconds clock c = (a, c1)" by fastforce
    have "approval_inv c1" using inv by (subst authority_now_frame(1) [OF a]) simp
    then show ?thesis by (cases a) (simp_all add: issue_def a issue_at_last)
  qed
  show "arc_last_authority c \<le> arc_last_authority (approval_step x c)"
    using mono by (cases x) (auto simp: iss validate_def revoke_def revoke_at_def
      split: prod.split sum.split option.split, (metis snd_conv)+)
  show "ae_issued_at ev \<le> arc_last_authority (approval_step x c)" if "grants x ev c"
    using that unfolding grants_def
    by (auto simp: iss authority_now_unix_seconds_def Let_def)
qed

lemma approval_run_past: "issued_in_past (approval_run ops)"
proof (induction ops rule: rev_induct)
  case Nil
  then show ?case by (simp add: issued_in_past_def approval_control_new_def bt_get_def)
next
  case (snoc x ops)
  note inv = approval_run_inv [of ops]
  show ?case
    unfolding issued_in_past_def approval_run_simps
  proof (intro allI impI)
    fix e r assume r: "bt_get (arc_records (approval_step x (approval_run ops))) e = Some r"
    have "ae_issued_at (arec_evidence r) \<le> arc_last_authority (approval_run ops)
        \<or> grants x (arec_evidence r) (approval_run ops)"
      using approval_step_record [OF inv r] snoc.IH unfolding issued_in_past_def by fastforce
    then show "ae_issued_at (arec_evidence r) \<le> arc_last_authority (approval_step x (approval_run ops))"
      using approval_step_last [OF inv, of x] by (auto intro: order_trans)
  qed
qed

lemma validate_intro:
  assumes "bt_get (arc_records c) e = Some r" "arec_revocation r = None"
    and "required_approval_class review = Inr cl"
    and "ae_requirement (arec_evidence r) = \<lparr> areq_class = cl, areq_binding = tpr_evaluation review \<rparr>"
    and "ae_issued_at (arec_evidence r) \<le> now" "now < ae_expires_at (arec_evidence r)"
    and "arc_last_authority c \<le> now"
  shows "fst (validate (Some now) e review c) = Inr Satisfied"
  using assms by (auto simp: validate_def authority_now_unix_seconds_def Let_def validate_at_def
      validate_policy_approval_def validate_approval_def)

text \<open>
  C3. An approval counts only if a human granted it for exactly this review. Take any history of
  issue, validate and revoke calls on the approval store. If validation of an evidence id against a
  review then reports it satisfied, the history contains an issue call, by a human approver holding the
  approval class the review demands, for a review with the same evaluation (principal, plan, request,
  evidence, policy revision and decision), that returned this very evidence id; the validation time
  lies in the window the call opened, which is at most 24 hours; and no revocation of the id succeeded
  after that call.
\<close>

theorem approval_satisfied_was_granted:
  assumes "fst (validate clock e review (approval_run ops)) = Inr Satisfied"
  shows "\<exists>pre issued q review' approver expires post now ev cl.
    ops = pre @ IssueOp (Some issued) q review' approver expires # post
    \<and> fst (issue (Some issued) q review' approver expires (approval_run pre)) = Inr ev \<and> ae_id ev = e
    \<and> tpr_evaluation review' = tpr_evaluation review \<and> required_approval_class review = Inr cl
    \<and> approver_kind approver = Human \<and> cl \<in> approver_classes approver
    \<and> clock = Some now \<and> issued \<le> now \<and> now < expires \<and> unat expires \<le> unat issued + 86400
    \<and> (\<forall>p t revoker s. post = p @ RevokeOp t e revoker # s \<longrightarrow>
         fst (revoke t e revoker
           (approval_run (pre @ IssueOp (Some issued) q review' approver expires # p))) \<noteq> Inr ())"
proof -
  from validate_satisfied [OF assms] obtain now r cl where v: "clock = Some now"
      "bt_get (arc_records (approval_run ops)) e = Some r" "arec_revocation r = None"
      "required_approval_class review = Inr cl"
      "ae_requirement (arec_evidence r) = \<lparr> areq_class = cl, areq_binding = tpr_evaluation review \<rparr>"
      "ae_issued_at (arec_evidence r) \<le> now" "now < ae_expires_at (arec_evidence r)" .
  from record_origin [OF v(2)] v(3) obtain pre x post where h: "ops = pre @ x # post"
      "grants x (arec_evidence r) (approval_run pre)" "ae_id (arec_evidence r) = e"
      "\<And>p y s. post = p @ y # s \<Longrightarrow> \<not> revokes y e (approval_run (pre @ x # p))" by blast
  from h(2) obtain issued q review' approver expires cl' where g:
      "x = IssueOp (Some issued) q review' approver expires"
      "fst (issue (Some issued) q review' approver expires (approval_run pre)) = Inr (arec_evidence r)"
      "can_satisfy approver cl'"
      "ae_requirement (arec_evidence r) = \<lparr> areq_class = cl', areq_binding = tpr_evaluation review' \<rparr>"
      "ae_issued_at (arec_evidence r) = issued" "ae_expires_at (arec_evidence r) = expires"
      "unat expires \<le> unat issued + 86400"
    unfolding grants_def by blast
  have "fst (revoke t e revoker (approval_run (pre @ x # p))) \<noteq> Inr ()"
    if "post = p @ RevokeOp t e revoker # s" for p t revoker s
    using h(4) [OF that] by (simp add: revokes_def)
  with h(1,3) g v show ?thesis
    by (intro exI [of _ pre] exI [of _ issued] exI [of _ q] exI [of _ review'] exI [of _ approver]
        exI [of _ expires] exI [of _ post] exI [of _ now] exI [of _ "arec_evidence r"] exI [of _ cl])
      (auto simp: can_satisfy_def)
qed

text \<open>
  C27. Revocation is final: once a revocation of an evidence id has succeeded, no later sequence of
  operations, further issues included, makes validation of that id report it satisfied again. In
  particular evidence ids are never reused.
\<close>

theorem approval_revocation_is_final:
  assumes "fst (revoke t e revoker (approval_run pre)) = Inr ()"
  shows "fst (validate clock e review (approval_run (pre @ RevokeOp t e revoker # post))) \<noteq> Inr Satisfied"
proof
  assume "fst (validate clock e review (approval_run (pre @ RevokeOp t e revoker # post))) = Inr Satisfied"
  from validate_satisfied [OF this] obtain r
    where r: "bt_get (arc_records (approval_run (pre @ RevokeOp t e revoker # post))) e = Some r"
      "arec_revocation r = None" by blast
  have "revokes (RevokeOp t e revoker) e (approval_run pre)" using assms by (simp add: revokes_def)
  from revokes_dead [OF approval_run_inv this] have "dead e (approval_run (pre @ [RevokeOp t e revoker]))"
    by simp
  from dead_run [OF this, of post] r show False by (simp add: dead_def)
qed

text \<open>
  C29. An issued approval can be used: whatever the history, when issue returns evidence, validating its
  id against the same review succeeds at every time from the issue on until the requested expiry, on an
  idempotent replay that returns earlier evidence too.
\<close>

theorem approval_issue_then_satisfied:
  assumes "fst (issue (Some t) q review approver expires (approval_run ops)) = Inr ev"
    and "t \<le> now" "now < expires"
  shows "fst (validate (Some now) (ae_id ev) review
    (approval_run (ops @ [IssueOp (Some t) q review approver expires]))) = Inr Satisfied"
proof -
  let ?c = "approval_run ops" let ?c1 = "?c\<lparr> arc_last_authority := t \<rparr>"
  have le: "arc_last_authority ?c \<le> t"
    and iss: "fst (issue_at q review approver t expires ?c1) = Inr ev"
    and step: "snd (issue (Some t) q review approver expires ?c) = snd (issue_at q review approver t expires ?c1)"
    using assms(1) by (auto simp: issue_def authority_now_unix_seconds_def Let_def not_less max_def
        split: if_splits)
  have inv: "approval_inv ?c1" using approval_run_inv by simp
  obtain c' where c': "issue_at q review approver t expires ?c1 = (Inr ev, c')"
    using iss by (cases "issue_at q review approver t expires ?c1") auto
  from issue_at_result [OF inv c'] obtain r cl where r: "arc_last_authority c' = t"
      "bt_get (arc_records c') (ae_id ev) = Some r" "arec_evidence r = ev" "arec_revocation r = None"
      "required_approval_class review = Inr cl"
      "ae_requirement ev = \<lparr> areq_class = cl, areq_binding = tpr_evaluation review \<rparr>" "ae_expires_at ev = expires"
      "bt_get (arc_records ?c) (ae_id ev) = Some r \<or> ae_issued_at ev = t" by auto
  have "ae_issued_at ev \<le> t"
    using r(3,8) approval_run_past [of ops] le unfolding issued_in_past_def by (metis order_refl order_trans)
  with validate_intro [OF r(2,4,5)] r assms(2,3) step c' show ?thesis by (auto intro: order_trans)
qed

text \<open>
  C28. The approval store stays within its limits and never loses count: after any history there are at
  most 256 records and 4096 tombstones, the two byte counters equal the sums over what is retained and
  respect their limits, request ids and records correspond one to one, and no request is both active
  and retired.
\<close>

theorem approval_store_accounts_exactly:
  "let c = approval_run ops in
     length (arc_records c) \<le> 256 \<and> length (arc_tombstones c) \<le> 4096
     \<and> arc_total_accounted_bytes c = bt_sum arec_accounted_bytes (arc_records c)
     \<and> arc_total_accounted_bytes c \<le> 4 * 1024 * 1024
     \<and> arc_tombstone_accounted_bytes c = bt_sum tomb_accounted_bytes (arc_tombstones c)
     \<and> arc_tombstone_accounted_bytes c \<le> 2 * 1024 * 1024
     \<and> (\<forall>q e. bt_get (arc_requests c) q = Some e \<longleftrightarrow>
          (\<exists>r. bt_get (arc_records c) e = Some r \<and> ae_request_id (arec_evidence r) = q))
     \<and> \<not> (\<exists>q. bt_contains (arc_tombstones c) q \<and> bt_contains (arc_requests c) q)"
proof -
  let ?c = "approval_run ops"
  have inv: "approval_inv ?c" by (rule approval_run_inv)
  then have core: "approval_core ?c" by (simp add: approval_inv_def)
  have "bt_get (arc_requests ?c) q = Some e \<longleftrightarrow>
      (\<exists>r. bt_get (arc_records ?c) e = Some r \<and> ae_request_id (arec_evidence r) = q)" for q e
    using core_request [OF core] core_record(2) [OF core] by blast
  moreover have "\<not> (bt_contains (arc_tombstones ?c) q \<and> bt_contains (arc_requests ?c) q)" for q
    using core_tombstone [OF core, of q]
    by (cases "bt_get (arc_tombstones ?c) q") (auto simp: bt_contains_def)
  moreover have "length (arc_tombstones ?c) \<le> 4096" "arc_tombstone_accounted_bytes ?c \<le> 2 * 1024 * 1024"
    using inv by (simp_all add: approval_inv_def MAX_APPROVAL_TOMBSTONES_def MAX_APPROVAL_TOMBSTONE_BYTES_def)
  ultimately show ?thesis
    using core_sums [OF core] by (simp add: Let_def MAX_APPROVAL_ENTRIES_def MAX_APPROVAL_TOTAL_BYTES_def)
qed

section \<open>Instances\<close>

definition example_review :: trusted_policy_review where
  "example_review = review_subject_for_control (example_subject SystemMutation)"

definition example_approver :: policy_authenticated_approver where
  "example_approver = \<lparr> approver_principal = ''user:alice'', approver_kind = Human,
     approver_classes = {InteractiveUser} \<rparr>"

definition example_issue :: approval_op where
  "example_issue = IssueOp (Some 100) ''approve-1'' example_review example_approver 200"

lemma approval_satisfied_was_granted_witness:
  "fst (validate (Some 150) (evidence_id_text 0) example_review (approval_run [example_issue])) = Inr Satisfied
   \<and> (\<exists>pre issued q review' approver expires post.
        [example_issue] = pre @ IssueOp (Some issued) q review' approver expires # post
        \<and> tpr_evaluation review' = tpr_evaluation example_review \<and> approver_kind approver = Human
        \<and> issued \<le> 150 \<and> 150 < expires)"
proof -
  have sat: "fst (validate (Some 150) (evidence_id_text 0) example_review (approval_run [example_issue]))
      = Inr Satisfied" by code_simp
  from approval_satisfied_was_granted [OF sat] sat show ?thesis by blast
qed

lemma approval_revocation_is_final_witness:
  "fst (revoke (Some 120) (evidence_id_text 0) example_approver (approval_run [example_issue])) = Inr ()
   \<and> fst (validate (Some 150) (evidence_id_text 0) example_review
        (approval_run ([example_issue] @ RevokeOp (Some 120) (evidence_id_text 0) example_approver
           # [IssueOp (Some 130) ''approve-2'' example_review example_approver 200]))) \<noteq> Inr Satisfied"
proof -
  have ok: "fst (revoke (Some 120) (evidence_id_text 0) example_approver (approval_run [example_issue])) = Inr ()"
    by code_simp
  from approval_revocation_is_final [OF ok] ok show ?thesis by blast
qed

lemma approval_issue_then_satisfied_witness:
  "\<exists>ev. fst (issue (Some 100) ''approve-1'' example_review example_approver 200 (approval_run [])) = Inr ev
     \<and> fst (validate (Some 199) (ae_id ev) example_review (approval_run [example_issue])) = Inr Satisfied"
proof -
  have "is_ok (fst (issue (Some 100) ''approve-1'' example_review example_approver 200 (approval_run [])))"
    by code_simp
  then obtain ev where ev: "fst (issue (Some 100) ''approve-1'' example_review example_approver 200
      (approval_run [])) = Inr ev" by (auto simp: is_ok_def split: sum.splits)
  from approval_issue_then_satisfied [OF ev, of 199] ev show ?thesis by (auto simp: example_issue_def)
qed

end
