(* ===== verification/Transaction.thy ===== *)
theory Transaction
  imports Linura_Core
begin

text \<open>
  The durable transaction contract of \<open>crates/linura-transaction/src/lib.rs\<close>: content digests, the
  canonical authority binding, transaction states, and the sealed mutation requests that Control
  signs and persistence verifies.

  SHA-256 and HMAC-SHA-256 come from third-party crates. They are the two functions of a \<open>crypto\<close>
  argument, on byte strings; what is relied on is stated where it is used, as hypotheses about the
  messages at hand. A \<open>ContentDigest\<close> and a \<open>TransactionId\<close> are the strings they wrap.
\<close>

type_synonym content_digest = string
type_synonym transaction_id = string

record crypto =
  sha256 :: "bytes \<Rightarrow> bytes"
  hmac_sha256 :: "bytes \<Rightarrow> bytes \<Rightarrow> bytes option"

text \<open>\<open>hmac_sha256\<close> is absent when \<open>new_from_slice\<close> rejects the key.\<close>

definition MAX_AUTHORITY_BINDING_BYTES :: nat where
  "MAX_AUTHORITY_BINDING_BYTES = 256 * 1024"

definition MAX_RISK_RULES :: nat where
  "MAX_RISK_RULES = 128"

definition MAX_RISK_RULE_ID_BYTES :: nat where
  "MAX_RISK_RULE_ID_BYTES = 512"

definition MAX_REVISION_BYTES :: nat where
  "MAX_REVISION_BYTES = 1024"

definition MAX_TRANSACTION_GENERATIONS :: u64 where
  "MAX_TRANSACTION_GENERATIONS = 64"

datatype transaction_validation_error =
    InvalidToken string
  | TokenTooLong string
  | InvalidDigest
  | BindingTooLarge
  | TooManyRiskRules
  | DuplicateRiskRule
  | InvalidAuthorization
  | InvalidAuthorityKey
  | InvalidAuthorityMutation
  | InvalidState
  | CoreError string

fun transaction_validation_error_text :: "transaction_validation_error \<Rightarrow> string" where
  "transaction_validation_error_text (InvalidToken label) = label @ '' is empty or contains control characters''"
| "transaction_validation_error_text (TokenTooLong label) = label @ '' exceeds its UTF-8 byte bound''"
| "transaction_validation_error_text InvalidDigest = ''content digest must be sha256:<64 lowercase hex>''"
| "transaction_validation_error_text BindingTooLarge =
     ''authority binding exceeds '' @ nat_to_dec MAX_AUTHORITY_BINDING_BYTES @ '' bytes''"
| "transaction_validation_error_text TooManyRiskRules =
     ''authority binding exceeds '' @ nat_to_dec MAX_RISK_RULES @ '' risk rules''"
| "transaction_validation_error_text DuplicateRiskRule = ''authority binding contains duplicate risk rule''"
| "transaction_validation_error_text InvalidAuthorization = ''authority authorization basis is invalid''"
| "transaction_validation_error_text InvalidAuthorityKey =
     ''durable transaction authority key must be a non-zero 256-bit secret''"
| "transaction_validation_error_text InvalidAuthorityMutation =
     ''durable transaction authority mutation request is invalid''"
| "transaction_validation_error_text InvalidState = ''durable transaction state is invalid''"
| "transaction_validation_error_text (CoreError reason) = ''invalid core identity: '' @ reason"

definition tx_validate_token :: "string \<Rightarrow> string \<Rightarrow> nat \<Rightarrow> transaction_validation_error + unit" where
  "tx_validate_token label v max_bytes =
     (if trim_is_empty v \<or> has_control v then Inl (InvalidToken label)
      else if length v > max_bytes then Inl (TokenTooLong label)
      else Inr ())"

section \<open>Digests and identifiers\<close>

definition DIGEST_PREFIX :: string where
  "DIGEST_PREFIX = ''sha256:''"

definition content_digest_new :: "string \<Rightarrow> transaction_validation_error + content_digest" where
  "content_digest_new v =
     (case strip_prefix DIGEST_PREFIX v of
        None \<Rightarrow> Inl InvalidDigest
      | Some hex \<Rightarrow>
          if length hex \<noteq> 64 \<or> \<not> list_all is_lower_hex hex then Inl InvalidDigest else Inr v)"

definition zero_digest :: content_digest where
  "zero_digest = DIGEST_PREFIX @ replicate 64 (CHR ''0'')"

definition digest_hex :: "content_digest \<Rightarrow> string" where
  "digest_hex d = drop (length DIGEST_PREFIX) d"

definition digest_parts :: "crypto \<Rightarrow> string \<Rightarrow> bytes list \<Rightarrow> content_digest" where
  "digest_parts cr domain parts =
     DIGEST_PREFIX @ hex_bytes (sha256 cr (concat (map frame (domain # parts))))"

definition digest_bytes :: "crypto \<Rightarrow> string \<Rightarrow> bytes \<Rightarrow> content_digest" where
  "digest_bytes cr domain bs = digest_parts cr domain [bs]"

definition transaction_id_new :: "string \<Rightarrow> transaction_validation_error + transaction_id" where
  "transaction_id_new v = and_then (tx_validate_token ''transaction id'' v 256) (\<lambda>_. Inr v)"

definition for_namespace :: "crypto \<Rightarrow> principal_id \<Rightarrow> request_id \<Rightarrow> transaction_id" where
  "for_namespace cr prin request_id =
     ''transaction:v1:'' @ digest_hex (digest_parts cr ''linura.transaction.id.v1''
        [prin, request_id])"

section \<open>Authority bindings\<close>

fun tx_risk_name :: "risk_class \<Rightarrow> string" where
  "tx_risk_name ReadOnly = ''read-only''"
| "tx_risk_name UserState = ''user-state''"
| "tx_risk_name SystemMutation = ''system-mutation''"
| "tx_risk_name SecuritySensitive = ''security-sensitive''"
| "tx_risk_name Destructive = ''destructive''"

record approval_authority =
  aa_evidence_id :: approval_evidence_id
  aa_request_id :: approval_request_id
  aa_approver :: principal_id
  aa_approval_class :: string
  aa_issued_at :: u64
  aa_expires_at :: u64

definition approval_authority_try_new ::
  "approval_evidence_id \<Rightarrow> approval_request_id \<Rightarrow> principal_id \<Rightarrow> string \<Rightarrow> u64 \<Rightarrow> u64
     \<Rightarrow> transaction_validation_error + approval_authority" where
  "approval_authority_try_new evidence_id request_id approver approval_class issued_at expires_at =
     and_then (tx_validate_token ''approval class'' approval_class 256) (\<lambda>_.
     if issued_at = 0 \<or> expires_at \<le> issued_at then Inl InvalidAuthorization
     else Inr \<lparr> aa_evidence_id = evidence_id, aa_request_id = request_id, aa_approver = approver,
                aa_approval_class = approval_class, aa_issued_at = issued_at,
                aa_expires_at = expires_at \<rparr>)"

datatype authorization_basis = PolicyAllow | ApprovalBasis approval_authority

text \<open>The arguments of \<open>AuthorityBinding::try_new\<close>, and the binding it builds from them.\<close>

record binding_material =
  ab_principal :: principal_id
  ab_request_id :: request_id
  ab_plan_id :: plan_id
  ab_request_digest :: content_digest
  ab_precondition_digest :: content_digest
  ab_observation_digest :: content_digest
  ab_provider :: provider_id
  ab_resource :: resource_id
  ab_capability :: capability_id
  ab_policy_id :: policy_id
  ab_policy_revision_id :: policy_revision_id
  ab_trusted_risk :: risk_class
  ab_risk_policy_revision :: string
  ab_risk_rule_ids :: "string list"
  ab_review_digest :: content_digest
  ab_authorization :: authorization_basis

record authority_binding = binding_material +
  ab_canonical :: bytes
  ab_digest :: content_digest

text \<open>\<open>windows(2).any(|pair| pair[0] == pair[1])\<close>.\<close>

fun adjacent_equal :: "'a list \<Rightarrow> bool" where
  "adjacent_equal (x # y # zs) \<longleftrightarrow> x = y \<or> adjacent_equal (y # zs)"
| "adjacent_equal _ \<longleftrightarrow> False"

definition encode_str :: "bytes \<Rightarrow> string \<Rightarrow> transaction_validation_error + bytes" where
  "encode_str buffer v =
     (let buffer = buffer @ frame v in
      if length buffer > MAX_AUTHORITY_BINDING_BYTES then Inl BindingTooLarge else Inr buffer)"

definition authorization_fields :: "authorization_basis \<Rightarrow> string list" where
  "authorization_fields a = (case a of
     PolicyAllow \<Rightarrow> [''policy-allow'']
   | ApprovalBasis ap \<Rightarrow>
       [''approval'', aa_evidence_id ap, aa_request_id ap, aa_approver ap, aa_approval_class ap,
        u64_to_dec (aa_issued_at ap), u64_to_dec (aa_expires_at ap)])"

text \<open>The strings the canonical form encodes, in order.\<close>

definition binding_fields :: "('a) binding_material_scheme \<Rightarrow> string list" where
  "binding_fields m =
     [''linura.authority-binding.v1'', ab_principal m, ab_request_id m, ab_plan_id m,
      ab_request_digest m, ab_precondition_digest m, ab_observation_digest m, ab_provider m,
      ab_resource m, ab_capability m, ab_policy_id m, ab_policy_revision_id m,
      tx_risk_name (ab_trusted_risk m), ab_risk_policy_revision m,
      nat_to_dec (length (ab_risk_rule_ids m))]
     @ ab_risk_rule_ids m @ [ab_review_digest m] @ authorization_fields (ab_authorization m)"

definition binding_try_new ::
  "crypto \<Rightarrow> binding_material \<Rightarrow> transaction_validation_error + authority_binding" where
  "binding_try_new cr m =
     and_then (tx_validate_token ''risk-policy revision'' (ab_risk_policy_revision m) MAX_REVISION_BYTES) (\<lambda>_.
     and_then (ensure (length (ab_risk_rule_ids m) \<le> MAX_RISK_RULES) TooManyRiskRules) (\<lambda>_.
     let m = m\<lparr> ab_risk_rule_ids := sort (ab_risk_rule_ids m) \<rparr> in
     and_then (ensure (\<not> adjacent_equal (ab_risk_rule_ids m)) DuplicateRiskRule) (\<lambda>_.
     and_then (for_each (ab_risk_rule_ids m)
       (\<lambda>rule. tx_validate_token ''risk rule id'' rule MAX_RISK_RULE_ID_BYTES)) (\<lambda>_.
     and_then (try_fold encode_str [] (binding_fields m)) (\<lambda>canonical.
     and_then (ensure (length canonical \<le> MAX_AUTHORITY_BINDING_BYTES) BindingTooLarge) (\<lambda>_.
     Inr (binding_material.extend m \<lparr> ab_canonical = canonical,
            ab_digest = digest_bytes cr ''linura.authority-binding.digest.v1'' canonical \<rparr>)))))))"

definition binding_transaction_id :: "crypto \<Rightarrow> authority_binding \<Rightarrow> transaction_id" where
  "binding_transaction_id cr b = for_namespace cr (ab_principal b) (ab_request_id b)"

section \<open>Transaction states and snapshots\<close>

datatype transaction_state =
  TxPrepared | TxIndeterminate | TxVerified | TxCommitted | TxAborted | TxRecoveryBlocked

fun transaction_state_as_str :: "transaction_state \<Rightarrow> string" where
  "transaction_state_as_str TxPrepared = ''prepared''"
| "transaction_state_as_str TxIndeterminate = ''indeterminate''"
| "transaction_state_as_str TxVerified = ''verified''"
| "transaction_state_as_str TxCommitted = ''committed''"
| "transaction_state_as_str TxAborted = ''aborted''"
| "transaction_state_as_str TxRecoveryBlocked = ''recovery-blocked''"

definition transaction_state_parse :: "string \<Rightarrow> transaction_validation_error + transaction_state" where
  "transaction_state_parse v =
     (if v = ''prepared'' then Inr TxPrepared
      else if v = ''indeterminate'' then Inr TxIndeterminate
      else if v = ''verified'' then Inr TxVerified
      else if v = ''committed'' then Inr TxCommitted
      else if v = ''aborted'' then Inr TxAborted
      else if v = ''recovery-blocked'' then Inr TxRecoveryBlocked
      else Inl InvalidState)"

record transaction_snapshot =
  snap_transaction_id :: transaction_id
  snap_principal :: principal_id
  snap_request_id :: request_id
  snap_current_generation :: u64
  snap_state_version :: u64
  snap_state :: transaction_state
  snap_binding_digest :: content_digest

datatype prepare_outcome = PrepareCreated transaction_snapshot | PrepareExisting transaction_snapshot

record recovery_anchor_view =
  anchor_snapshot :: transaction_snapshot
  anchor_request_digest :: content_digest
  anchor_precondition_digest :: content_digest

record commit_material_view =
  material_snapshot :: transaction_snapshot
  material_desired_state_digest :: content_digest
  material_graph_digest :: content_digest
  material_provenance_digest :: content_digest

section \<open>Sealed mutation requests\<close>

text \<open>The signer and the verifier that \<open>TransactionAuthorityKey::split\<close> returns hold the same key
  bytes; here both are the key.\<close>

type_synonym authority_key = bytes

definition AUTHORITY_MUTATION_KEY_BYTES :: nat where
  "AUTHORITY_MUTATION_KEY_BYTES = 32"

definition AUTHORITY_MUTATION_TAG_BYTES :: nat where
  "AUTHORITY_MUTATION_TAG_BYTES = 32"

definition authority_key_new :: "bytes \<Rightarrow> transaction_validation_error + authority_key" where
  "authority_key_new bs =
     (if length bs \<noteq> AUTHORITY_MUTATION_KEY_BYTES \<or> list_all (\<lambda>b. b = CHR 0x00) bs then Inl InvalidAuthorityKey
      else Inr bs)"

definition verifier_fingerprint :: "crypto \<Rightarrow> authority_key \<Rightarrow> content_digest" where
  "verifier_fingerprint cr key = digest_bytes cr ''linura.transaction-authority.verifier-fingerprint.v1'' key"

definition mutation_mac_input :: "string \<Rightarrow> bytes \<Rightarrow> bytes" where
  "mutation_mac_input domain canonical = frame domain @ frame canonical"

definition authority_tag ::
  "crypto \<Rightarrow> authority_key \<Rightarrow> string \<Rightarrow> bytes \<Rightarrow> transaction_validation_error + bytes" where
  "authority_tag cr key domain canonical =
     ok_or (hmac_sha256 cr key (mutation_mac_input domain canonical)) InvalidAuthorityKey"

definition verify_authority_tag :: "crypto \<Rightarrow> authority_key \<Rightarrow> string \<Rightarrow> bytes \<Rightarrow> bytes \<Rightarrow> bool" where
  "verify_authority_tag cr key domain canonical tag \<longleftrightarrow>
     (case hmac_sha256 cr key (mutation_mac_input domain canonical) of
        None \<Rightarrow> False
      | Some expected \<Rightarrow> expected = tag)"

text \<open>\<open>mutation_field\<close> appends one length-prefixed field; a canonical form is a list of fields.\<close>

definition mutation_fields :: "bytes list \<Rightarrow> bytes" where
  "mutation_fields parts = concat (map frame parts)"

definition HANDOFF_DOMAIN :: string where
  "HANDOFF_DOMAIN = ''linura.transaction-authority.handoff.v1''"

definition RECOVERY_DOMAIN :: string where
  "RECOVERY_DOMAIN = ''linura.transaction-authority.recovery.v1''"

definition COMMIT_DOMAIN :: string where
  "COMMIT_DOMAIN = ''linura.transaction-authority.commit.v1''"

record handoff_request =
  hr_transaction_id :: transaction_id
  hr_expected_generation :: u64
  hr_expected_state_version :: u64
  hr_expected_binding_digest :: content_digest
  hr_authority_use_digest :: content_digest
  hr_authorized_at :: u64
  hr_expires_at :: u64
  hr_authority_tag :: bytes

definition handoff_canonical :: "handoff_request \<Rightarrow> bytes" where
  "handoff_canonical r = mutation_fields
     [(hr_transaction_id r), be64 (hr_expected_generation r), be64 (hr_expected_state_version r),
      (hr_expected_binding_digest r), (hr_authority_use_digest r),
      be64 (hr_authorized_at r), be64 (hr_expires_at r)]"

definition verify_handoff :: "crypto \<Rightarrow> authority_key \<Rightarrow> handoff_request \<Rightarrow> bool" where
  "verify_handoff cr key r = verify_authority_tag cr key HANDOFF_DOMAIN (handoff_canonical r) (hr_authority_tag r)"

definition authorize_handoff ::
  "crypto \<Rightarrow> authority_key \<Rightarrow> transaction_snapshot \<Rightarrow> content_digest \<Rightarrow> u64 \<Rightarrow> u64
     \<Rightarrow> transaction_validation_error + handoff_request" where
  "authorize_handoff cr key snapshot authority_use_digest authorized_at expires_at =
     (if snap_state snapshot \<noteq> TxPrepared \<or> authority_use_digest = zero_digest
         \<or> authorized_at = 0 \<or> expires_at < authorized_at
      then Inl InvalidAuthorityMutation
      else let r = \<lparr> hr_transaction_id = snap_transaction_id snapshot,
             hr_expected_generation = snap_current_generation snapshot,
             hr_expected_state_version = snap_state_version snapshot,
             hr_expected_binding_digest = snap_binding_digest snapshot,
             hr_authority_use_digest = authority_use_digest,
             hr_authorized_at = authorized_at, hr_expires_at = expires_at,
             hr_authority_tag = replicate AUTHORITY_MUTATION_TAG_BYTES (CHR 0x00) \<rparr> in
        and_then (authority_tag cr key HANDOFF_DOMAIN (handoff_canonical r)) (\<lambda>tag.
        Inr (r\<lparr> hr_authority_tag := tag \<rparr>)))"

record handoff_commit =
  hc_transaction_id :: transaction_id
  hc_generation :: u64
  hc_state_version :: u64
  hc_binding_digest :: content_digest
  hc_authority_use_digest :: content_digest

datatype recovery_resolution =
    IntendedStateVerified content_digest content_digest content_digest content_digest
  | IntendedEffectAbsent content_digest authority_binding
  | ConflictingState content_digest
  | Ambiguous content_digest

fun resolution_fields :: "recovery_resolution \<Rightarrow> bytes list" where
  "resolution_fields (IntendedStateVerified observation desired graph provenance) =
     [''intended-state-verified'', observation, desired,
      graph, provenance]"
| "resolution_fields (IntendedEffectAbsent observation next_binding) =
     [''intended-effect-absent'', observation, (ab_digest next_binding)]"
| "resolution_fields (ConflictingState observation) =
     [''conflicting-state'', observation]"
| "resolution_fields (Ambiguous observation) = [''ambiguous'', observation]"

record recovery_request =
  rr_transaction_id :: transaction_id
  rr_expected_generation :: u64
  rr_expected_state_version :: u64
  rr_expected_binding_digest :: content_digest
  rr_authorized_at :: u64
  rr_expires_at :: u64
  rr_resolution :: recovery_resolution
  rr_authority_tag :: bytes

definition recovery_canonical :: "recovery_request \<Rightarrow> bytes" where
  "recovery_canonical r = mutation_fields
     ([(rr_transaction_id r), be64 (rr_expected_generation r), be64 (rr_expected_state_version r),
       (rr_expected_binding_digest r), be64 (rr_authorized_at r), be64 (rr_expires_at r)]
      @ resolution_fields (rr_resolution r))"

definition verify_recovery :: "crypto \<Rightarrow> authority_key \<Rightarrow> recovery_request \<Rightarrow> bool" where
  "verify_recovery cr key r = verify_authority_tag cr key RECOVERY_DOMAIN (recovery_canonical r) (rr_authority_tag r)"

definition resolution_authorizable :: "crypto \<Rightarrow> transaction_snapshot \<Rightarrow> recovery_resolution \<Rightarrow> bool" where
  "resolution_authorizable cr snapshot resolution = (case resolution of
     IntendedEffectAbsent _ next_binding \<Rightarrow>
       binding_transaction_id cr next_binding = snap_transaction_id snapshot
   | IntendedStateVerified _ desired graph provenance \<Rightarrow>
       desired \<noteq> zero_digest \<and> graph \<noteq> zero_digest \<and> provenance \<noteq> zero_digest
   | _ \<Rightarrow> True)"

definition authorize_recovery ::
  "crypto \<Rightarrow> authority_key \<Rightarrow> transaction_snapshot \<Rightarrow> recovery_resolution \<Rightarrow> u64 \<Rightarrow> u64
     \<Rightarrow> transaction_validation_error + recovery_request" where
  "authorize_recovery cr key snapshot resolution authorized_at expires_at =
     (if snap_state snapshot \<noteq> TxIndeterminate \<or> authorized_at = 0 \<or> expires_at < authorized_at
      then Inl InvalidAuthorityMutation
      else if \<not> resolution_authorizable cr snapshot resolution then Inl InvalidAuthorityMutation
      else let r = \<lparr> rr_transaction_id = snap_transaction_id snapshot,
             rr_expected_generation = snap_current_generation snapshot,
             rr_expected_state_version = snap_state_version snapshot,
             rr_expected_binding_digest = snap_binding_digest snapshot,
             rr_authorized_at = authorized_at, rr_expires_at = expires_at, rr_resolution = resolution,
             rr_authority_tag = replicate AUTHORITY_MUTATION_TAG_BYTES (CHR 0x00) \<rparr> in
        and_then (authority_tag cr key RECOVERY_DOMAIN (recovery_canonical r)) (\<lambda>tag.
        Inr (r\<lparr> rr_authority_tag := tag \<rparr>)))"

datatype recovery_outcome =
    RecoveredVerified transaction_snapshot
  | RecoveredReprepared transaction_snapshot
  | RecoveredBlocked transaction_snapshot
  | StillIndeterminate transaction_snapshot

record commit_request =
  cr_transaction_id :: transaction_id
  cr_expected_generation :: u64
  cr_expected_state_version :: u64
  cr_expected_binding_digest :: content_digest
  cr_desired_state_digest :: content_digest
  cr_graph_digest :: content_digest
  cr_provenance_digest :: content_digest
  cr_authority_tag :: bytes

definition commit_canonical :: "commit_request \<Rightarrow> bytes" where
  "commit_canonical r = mutation_fields
     [(cr_transaction_id r), be64 (cr_expected_generation r), be64 (cr_expected_state_version r),
      (cr_expected_binding_digest r), (cr_desired_state_digest r),
      (cr_graph_digest r), (cr_provenance_digest r)]"

definition verify_commit :: "crypto \<Rightarrow> authority_key \<Rightarrow> commit_request \<Rightarrow> bool" where
  "verify_commit cr key r = verify_authority_tag cr key COMMIT_DOMAIN (commit_canonical r) (cr_authority_tag r)"

definition authorize_commit ::
  "crypto \<Rightarrow> authority_key \<Rightarrow> transaction_snapshot \<Rightarrow> content_digest \<Rightarrow> content_digest \<Rightarrow> content_digest
     \<Rightarrow> transaction_validation_error + commit_request" where
  "authorize_commit cr key snapshot desired graph provenance =
     (if snap_state snapshot \<noteq> TxVerified \<or> desired = zero_digest \<or> graph = zero_digest
         \<or> provenance = zero_digest
      then Inl InvalidAuthorityMutation
      else let r = \<lparr> cr_transaction_id = snap_transaction_id snapshot,
             cr_expected_generation = snap_current_generation snapshot,
             cr_expected_state_version = snap_state_version snapshot,
             cr_expected_binding_digest = snap_binding_digest snapshot,
             cr_desired_state_digest = desired, cr_graph_digest = graph, cr_provenance_digest = provenance,
             cr_authority_tag = replicate AUTHORITY_MUTATION_TAG_BYTES (CHR 0x00) \<rparr> in
        and_then (authority_tag cr key COMMIT_DOMAIN (commit_canonical r)) (\<lambda>tag.
        Inr (r\<lparr> cr_authority_tag := tag \<rparr>)))"

record abort_request =
  ar_transaction_id :: transaction_id
  ar_expected_generation :: u64
  ar_expected_state_version :: u64
  ar_reason_digest :: content_digest

datatype transaction_store_error =
    TxIdempotencyConflict
  | TxStateConflict
  | TxNotFound
  | TxCapacityExceeded
  | TxAuthorityRejected
  | TxCorruption string
  | TxUnsupportedSchema string
  | TxStorage string

fun transaction_store_error_text :: "transaction_store_error \<Rightarrow> string" where
  "transaction_store_error_text TxIdempotencyConflict = ''durable request idempotency conflict''"
| "transaction_store_error_text TxStateConflict = ''durable transaction state/version conflict''"
| "transaction_store_error_text TxNotFound = ''durable transaction not found''"
| "transaction_store_error_text TxCapacityExceeded = ''durable transaction capacity exceeded''"
| "transaction_store_error_text TxAuthorityRejected = ''durable transaction mutation authority rejected''"
| "transaction_store_error_text (TxCorruption reason) = ''durable transaction corruption: '' @ reason"
| "transaction_store_error_text (TxUnsupportedSchema reason) =
     ''unsupported durable transaction schema: '' @ reason"
| "transaction_store_error_text (TxStorage reason) = ''durable transaction storage failure: '' @ reason"

end
