(* ===== verification/Sqlite_Records.thy ===== *)
theory Sqlite_Records
  imports Transaction
begin

text \<open>
  The persisted records of \<open>crates/linura-persistence-sqlite/src\<close>: the record-integrity key
  (\<open>integrity.rs\<close>), the tables with the constraints and triggers of \<open>schema.rs\<close>, and the
  authenticated reads and capacity checks of \<open>validation_base.rs\<close>.

  A table is an ordered map keyed by its primary key. SQLite and the filesystem are third-party: a
  statement may fail with any error on any state of the database (\<open>env_fault\<close>); the pragmas, the
  schema-identity queries, the reserve function the trigger calls and the sidecar validation answer as
  the environment says; the clock is a reading. An \<open>INTEGER\<close> column is a 64-bit pattern, negative
  from \<open>2 ^ 63\<close> on; lengths and row counts are naturals.
\<close>

section \<open>Record integrity\<close>

definition INTEGRITY_KEY_BYTES :: nat where
  "INTEGRITY_KEY_BYTES = 32"

definition INTEGRITY_TAG_BYTES :: nat where
  "INTEGRITY_TAG_BYTES = 32"

definition SHA256_BLOCK_BYTES :: nat where
  "SHA256_BLOCK_BYTES = 64"

type_synonym integrity_key = bytes

definition integrity_key_new :: "bytes \<Rightarrow> transaction_store_error + integrity_key" where
  "integrity_key_new bs =
     (if length bs \<noteq> INTEGRITY_KEY_BYTES \<or> list_all (\<lambda>b. b = CHR 0x00) bs then Inl TxAuthorityRejected
      else Inr bs)"

definition integrity_fingerprint :: "crypto \<Rightarrow> integrity_key \<Rightarrow> content_digest" where
  "integrity_fingerprint cr key = digest_bytes cr ''linura.sqlite.record-integrity-key-fingerprint.v1'' key"

fun char_xor :: "char \<Rightarrow> char \<Rightarrow> char" where
  "char_xor (Char a0 a1 a2 a3 a4 a5 a6 a7) (Char b0 b1 b2 b3 b4 b5 b6 b7) =
     Char (a0 \<noteq> b0) (a1 \<noteq> b1) (a2 \<noteq> b2) (a3 \<noteq> b3) (a4 \<noteq> b4) (a5 \<noteq> b5) (a6 \<noteq> b6) (a7 \<noteq> b7)"

fun char_or :: "char \<Rightarrow> char \<Rightarrow> char" where
  "char_or (Char a0 a1 a2 a3 a4 a5 a6 a7) (Char b0 b1 b2 b3 b4 b5 b6 b7) =
     Char (a0 \<or> b0) (a1 \<or> b1) (a2 \<or> b2) (a3 \<or> b3) (a4 \<or> b4) (a5 \<or> b5) (a6 \<or> b6) (a7 \<or> b7)"

definition key_block :: "crypto \<Rightarrow> bytes \<Rightarrow> bytes" where
  "key_block cr key =
     (let k = (if length key > SHA256_BLOCK_BYTES then sha256 cr key else key) in
      k @ replicate (SHA256_BLOCK_BYTES - length k) (CHR 0x00))"

definition integrity_hmac :: "crypto \<Rightarrow> bytes \<Rightarrow> bytes list \<Rightarrow> bytes" where
  "integrity_hmac cr key parts =
     (let block = key_block cr key;
          inner_pad = map (char_xor (CHR 0x36)) block;
          outer_pad = map (char_xor (CHR 0x5C)) block in
      sha256 cr (outer_pad @ sha256 cr (inner_pad @ concat (map frame parts))))"

definition integrity_tag :: "crypto \<Rightarrow> integrity_key \<Rightarrow> string \<Rightarrow> bytes \<Rightarrow> bytes" where
  "integrity_tag cr key record_domain canonical =
     integrity_hmac cr key [''linura.sqlite.record-integrity.v1'', record_domain, canonical]"

definition constant_time_eq :: "bytes \<Rightarrow> bytes \<Rightarrow> bool" where
  "constant_time_eq expected actual \<longleftrightarrow>
     foldl (\<lambda>difference (left, right). char_or difference (char_xor left right)) (CHR 0x00)
       (zip expected actual) = CHR 0x00"

definition integrity_verify :: "crypto \<Rightarrow> integrity_key \<Rightarrow> string \<Rightarrow> bytes \<Rightarrow> bytes \<Rightarrow> bool" where
  "integrity_verify cr key record_domain canonical tag \<longleftrightarrow>
     length tag = INTEGRITY_TAG_BYTES
     \<and> constant_time_eq (integrity_tag cr key record_domain canonical) tag"

definition canonical_optional :: "string option \<Rightarrow> bytes list" where
  "canonical_optional v = (case v of Some s \<Rightarrow> [[CHR 0x01], s] | None \<Rightarrow> [[CHR 0x00]])"

section \<open>Stored records and tables\<close>

record stored_transaction =
  st_transaction_id :: string
  st_principal :: string
  st_request_id :: string
  st_current_generation :: u64
  st_state_version :: u64
  st_integrity_tag :: bytes

record stored_generation =
  sg_transaction_id :: string
  sg_generation :: u64
  sg_state :: string
  sg_binding_digest :: string
  sg_binding_canonical :: bytes
  sg_request_digest :: string
  sg_precondition_digest :: string
  sg_observation_digest :: string
  sg_desired_state_digest :: "string option"
  sg_graph_digest :: "string option"
  sg_provenance_digest :: "string option"
  sg_integrity_tag :: bytes

record stored_audit_event =
  sa_transaction_id :: string
  sa_event_sequence :: u64
  sa_generation :: u64
  sa_state_version :: u64
  sa_event_kind :: string
  sa_payload_digest :: string
  sa_previous_digest :: string
  sa_event_digest :: string
  sa_integrity_tag :: bytes

record sqlite_db =
  db_transactions :: "(string, stored_transaction) btree_map"
  db_generations :: "(string \<times> u64, stored_generation) btree_map"
  db_audit_events :: "(string \<times> u64, stored_audit_event) btree_map"
  db_reservations :: "(string \<times> u64, nat) btree_map"

datatype sql_statement =
    SqlBegin | SqlCommit
  | SelectTransaction | SelectGeneration | SelectAudit | SelectReservations | SelectCount
  | InsertTransaction | InsertGeneration | InsertAudit | InsertReservation
  | UpdateTransaction | UpdateGeneration | DeleteReservation

record sqlite_env =
  env_now_ms :: "u64 option"
  env_fault :: "sql_statement \<Rightarrow> sqlite_db \<Rightarrow> transaction_store_error option"
  env_pragma_i64 :: "string \<Rightarrow> transaction_store_error + int"
  env_pragma_string :: "string \<Rightarrow> transaction_store_error + string"
  env_no_ckpt_on_close :: "transaction_store_error + bool"
  env_schema_identity :: "content_digest \<Rightarrow> content_digest \<Rightarrow> transaction_store_error + unit"
  env_release_headroom :: "transaction_store_error + bool"
  env_configure_connection :: "transaction_store_error + unit"
  env_initialize_schema :: "content_digest \<Rightarrow> content_digest \<Rightarrow> transaction_store_error + unit"
  env_foreign_key_violation :: "transaction_store_error + bool"
  env_fs_reserve_slots :: "nat \<Rightarrow> int"
  env_fs_validate :: "nat \<Rightarrow> nat \<Rightarrow> bool \<Rightarrow> transaction_store_error + unit"

definition sql :: "sqlite_env \<Rightarrow> sql_statement \<Rightarrow> sqlite_db \<Rightarrow> transaction_store_error + unit" where
  "sql env st db = (case env_fault env st db of Some e \<Rightarrow> Inl e | None \<Rightarrow> Inr ())"

definition as_i64 :: "u64 \<Rightarrow> transaction_store_error + u64" where
  "as_i64 v = (if unat v < 2 ^ 63 then Inr v else Inl TxCapacityExceeded)"

text \<open>\<open>u64::try_from\<close> of an \<open>INTEGER\<close> column.\<close>

definition column_u64 :: "u64 \<Rightarrow> string \<Rightarrow> transaction_store_error + u64" where
  "column_u64 v what = (if unat v < 2 ^ 63 then Inr v else Inl (TxCorruption (''negative '' @ what)))"

record store_limits =
  max_transactions :: u64
  max_generations :: u64
  max_audit_events :: u64
  max_pages :: u64

definition store_limits_default :: store_limits where
  "store_limits_default = \<lparr> max_transactions = 4096, max_generations = 16384,
     max_audit_events = 131072, max_pages = 262144 \<rparr>"

definition store_limits_validate :: "store_limits \<Rightarrow> transaction_store_error + store_limits" where
  "store_limits_validate l =
     (if max_transactions l = 0 \<or> max_generations l = 0 \<or> max_audit_events l = 0 \<or> max_pages l = 0
      then Inl TxCapacityExceeded else Inr l)"

definition CONTENT_DIGEST_TEXT_BYTES :: nat where
  "CONTENT_DIGEST_TEXT_BYTES = 71"

definition MAX_AUDIT_EVENT_KIND_BYTES :: nat where
  "MAX_AUDIT_EVENT_KIND_BYTES = 64"

definition MAX_TRANSACTION_ID_BYTES :: nat where
  "MAX_TRANSACTION_ID_BYTES = 256"

definition MAX_PERSISTED_PRINCIPAL_BYTES :: nat where
  "MAX_PERSISTED_PRINCIPAL_BYTES = 1024"

definition MAX_PERSISTED_REQUEST_ID_BYTES :: nat where
  "MAX_PERSISTED_REQUEST_ID_BYTES = 1024"

definition MIN_SQLITE_PAGE_SIZE :: nat where
  "MIN_SQLITE_PAGE_SIZE = 4096"

definition MAX_SQLITE_PAGE_SIZE :: nat where
  "MAX_SQLITE_PAGE_SIZE = 65536"

definition MAX_STATE_TEXT_BYTES :: nat where
  "MAX_STATE_TEXT_BYTES = 32"

section \<open>Constraints and triggers\<close>

definition between :: "nat \<Rightarrow> nat \<Rightarrow> nat \<Rightarrow> bool" where
  "between lo hi n \<longleftrightarrow> lo \<le> n \<and> n \<le> hi"

definition digest_text :: "string \<Rightarrow> bool" where
  "digest_text d \<longleftrightarrow> length d = CONTENT_DIGEST_TEXT_BYTES"

definition optional_digest_text :: "string option \<Rightarrow> bool" where
  "optional_digest_text d \<longleftrightarrow> (case d of None \<Rightarrow> True | Some s \<Rightarrow> digest_text s)"

definition transactions_check :: "stored_transaction \<Rightarrow> bool" where
  "transactions_check r \<longleftrightarrow>
     between 1 256 (length (st_transaction_id r)) \<and> between 1 1024 (length (st_principal r))
     \<and> between 1 1024 (length (st_request_id r))
     \<and> unat (st_current_generation r) < 2 ^ 63
     \<and> 1 \<le> unat (st_state_version r) \<and> unat (st_state_version r) < 2 ^ 63
     \<and> length (st_integrity_tag r) = 32"

definition generation_states :: "string list" where
  "generation_states = [''prepared'', ''indeterminate'', ''verified'', ''committed'', ''aborted'', ''recovery-blocked'']"

definition generations_check :: "stored_generation \<Rightarrow> bool" where
  "generations_check r \<longleftrightarrow>
     between 1 256 (length (sg_transaction_id r)) \<and> unat (sg_generation r) < 2 ^ 63
     \<and> sg_state r \<in> set generation_states \<and> digest_text (sg_binding_digest r)
     \<and> length (sg_binding_canonical r) \<le> 262144
     \<and> digest_text (sg_request_digest r) \<and> digest_text (sg_precondition_digest r)
     \<and> digest_text (sg_observation_digest r)
     \<and> optional_digest_text (sg_desired_state_digest r) \<and> optional_digest_text (sg_graph_digest r)
     \<and> optional_digest_text (sg_provenance_digest r)
     \<and> length (sg_integrity_tag r) = 32"

definition audit_events_check :: "stored_audit_event \<Rightarrow> bool" where
  "audit_events_check r \<longleftrightarrow>
     between 1 256 (length (sa_transaction_id r)) \<and> unat (sa_event_sequence r) < 2 ^ 63
     \<and> unat (sa_generation r) < 2 ^ 63
     \<and> 1 \<le> unat (sa_state_version r) \<and> unat (sa_state_version r) < 2 ^ 63
     \<and> between 1 64 (length (sa_event_kind r))
     \<and> digest_text (sa_payload_digest r) \<and> digest_text (sa_previous_digest r)
     \<and> digest_text (sa_event_digest r) \<and> length (sa_integrity_tag r) = 32"

text \<open>\<open>BEFORE INSERT\<close> triggers, checks, keys and the foreign key, in the order SQLite applies them.\<close>

definition insert_transaction_row ::
  "sqlite_env \<Rightarrow> stored_transaction \<Rightarrow> sqlite_db \<Rightarrow> transaction_store_error + sqlite_db" where
  "insert_transaction_row env r db =
     and_then (sql env InsertTransaction db) (\<lambda>_.
     if list_ex (\<lambda>(tid, row). tid = st_transaction_id r
          \<or> (st_principal row = st_principal r \<and> st_request_id row = st_request_id r)) (db_transactions db)
     then Inl (TxStorage ''immutable transaction identity conflict'')
     else if \<not> transactions_check r then Inl (TxStorage ''CHECK constraint failed'')
     else Inr (db\<lparr> db_transactions := bt_insert (st_transaction_id r) r (db_transactions db) \<rparr>))"

definition insert_generation_row ::
  "sqlite_env \<Rightarrow> stored_generation \<Rightarrow> sqlite_db \<Rightarrow> transaction_store_error + sqlite_db" where
  "insert_generation_row env r db =
     and_then (sql env InsertGeneration db) (\<lambda>_.
     let k = (sg_transaction_id r, sg_generation r) in
     if bt_contains (db_generations db) k then Inl (TxStorage ''immutable generation history conflict'')
     else if \<not> generations_check r then Inl (TxStorage ''CHECK constraint failed'')
     else if \<not> bt_contains (db_transactions db) (sg_transaction_id r)
       then Inl (TxStorage ''FOREIGN KEY constraint failed'')
     else Inr (db\<lparr> db_generations := bt_insert k r (db_generations db) \<rparr>))"

definition insert_audit_row ::
  "sqlite_env \<Rightarrow> stored_audit_event \<Rightarrow> sqlite_db \<Rightarrow> transaction_store_error + sqlite_db" where
  "insert_audit_row env r db =
     and_then (sql env InsertAudit db) (\<lambda>_.
     let k = (sa_transaction_id r, sa_event_sequence r) in
     if bt_contains (db_audit_events db) k then Inl (TxStorage ''append-only audit history conflict'')
     else if \<not> audit_events_check r then Inl (TxStorage ''CHECK constraint failed'')
     else if \<not> bt_contains (db_transactions db) (sa_transaction_id r)
       then Inl (TxStorage ''FOREIGN KEY constraint failed'')
     else Inr (db\<lparr> db_audit_events := bt_insert k r (db_audit_events db) \<rparr>))"

definition insert_reservation_row ::
  "sqlite_env \<Rightarrow> string \<Rightarrow> u64 \<Rightarrow> nat \<Rightarrow> sqlite_db \<Rightarrow> transaction_store_error + sqlite_db" where
  "insert_reservation_row env tid slot reserved db =
     and_then (sql env InsertReservation db) (\<lambda>_.
     let answer = env_fs_reserve_slots env (length (db_reservations db) + 2) in
     if answer = 0 then Inl (TxStorage ''filesystem recovery reserve capacity exceeded'')
     else if answer \<noteq> 1 then Inl (TxStorage ''filesystem recovery reserve failure'')
     else if \<not> between 1 256 (length tid) \<or> \<not> between 8192 131072 reserved
       then Inl (TxStorage ''CHECK constraint failed'')
     else if bt_contains (db_reservations db) (tid, slot) then Inl (TxStorage ''UNIQUE constraint failed'')
     else if \<not> bt_contains (db_transactions db) tid then Inl (TxStorage ''FOREIGN KEY constraint failed'')
     else Inr (db\<lparr> db_reservations := bt_insert (tid, slot) reserved (db_reservations db) \<rparr>))"

section \<open>Canonical forms and tags\<close>

definition transaction_canonical :: "stored_transaction \<Rightarrow> bytes" where
  "transaction_canonical r = concat (map frame
     [st_transaction_id r, st_principal r, st_request_id r,
      be64 (st_current_generation r), be64 (st_state_version r)])"

definition generation_canonical :: "stored_generation \<Rightarrow> bytes" where
  "generation_canonical r = concat (map frame
     ([sg_transaction_id r, be64 (sg_generation r), sg_state r, sg_binding_digest r,
       sg_binding_canonical r, sg_request_digest r, sg_precondition_digest r, sg_observation_digest r]
      @ canonical_optional (sg_desired_state_digest r) @ canonical_optional (sg_graph_digest r)
      @ canonical_optional (sg_provenance_digest r)))"

definition audit_canonical :: "stored_audit_event \<Rightarrow> bytes" where
  "audit_canonical r = concat (map frame
     [sa_transaction_id r, be64 (sa_event_sequence r), be64 (sa_generation r), be64 (sa_state_version r),
      sa_event_kind r, sa_payload_digest r, sa_previous_digest r, sa_event_digest r])"

definition transaction_tag :: "crypto \<Rightarrow> integrity_key \<Rightarrow> stored_transaction \<Rightarrow> bytes" where
  "transaction_tag cr key r =
     integrity_tag cr key ''linura.sqlite.transaction-record.v1'' (transaction_canonical r)"

definition generation_tag :: "crypto \<Rightarrow> integrity_key \<Rightarrow> stored_generation \<Rightarrow> bytes" where
  "generation_tag cr key r =
     integrity_tag cr key ''linura.sqlite.generation-record.v1'' (generation_canonical r)"

definition audit_tag :: "crypto \<Rightarrow> integrity_key \<Rightarrow> stored_audit_event \<Rightarrow> bytes" where
  "audit_tag cr key r =
     integrity_tag cr key ''linura.sqlite.audit-record.v1'' (audit_canonical r)"

definition authenticate_transaction ::
  "crypto \<Rightarrow> integrity_key \<Rightarrow> stored_transaction \<Rightarrow> transaction_store_error + unit" where
  "authenticate_transaction cr key r =
     ensure (integrity_verify cr key ''linura.sqlite.transaction-record.v1'' (transaction_canonical r)
       (st_integrity_tag r)) (TxCorruption ''transaction record integrity tag mismatch'')"

definition authenticate_generation ::
  "crypto \<Rightarrow> integrity_key \<Rightarrow> stored_generation \<Rightarrow> transaction_store_error + unit" where
  "authenticate_generation cr key r =
     ensure (integrity_verify cr key ''linura.sqlite.generation-record.v1'' (generation_canonical r)
       (sg_integrity_tag r)) (TxCorruption ''generation record integrity tag mismatch'')"

definition authenticate_audit ::
  "crypto \<Rightarrow> integrity_key \<Rightarrow> stored_audit_event \<Rightarrow> transaction_store_error + unit" where
  "authenticate_audit cr key r =
     ensure (integrity_verify cr key ''linura.sqlite.audit-record.v1'' (audit_canonical r)
       (sa_integrity_tag r)) (TxCorruption ''audit record integrity tag mismatch'')"

section \<open>Authenticated reads\<close>

text \<open>A column outside its bounds is withheld by the query, and the bounds check that follows rejects
  the row; no later step then sees an absent text.\<close>

definition load_transaction ::
  "crypto \<Rightarrow> sqlite_env \<Rightarrow> integrity_key \<Rightarrow> sqlite_db \<Rightarrow> transaction_id
     \<Rightarrow> transaction_store_error + stored_transaction" where
  "load_transaction cr env key db tid =
     and_then (sql env SelectTransaction db) (\<lambda>_.
     and_then (ok_or (bt_get (db_transactions db) tid) TxNotFound) (\<lambda>r.
     and_then (ensure (between 1 MAX_TRANSACTION_ID_BYTES (length (st_transaction_id r))
         \<and> between 1 MAX_PERSISTED_PRINCIPAL_BYTES (length (st_principal r))
         \<and> between 1 MAX_PERSISTED_REQUEST_ID_BYTES (length (st_request_id r))
         \<and> length (st_integrity_tag r) = INTEGRITY_TAG_BYTES)
       (TxCorruption ''transaction record exceeds persisted byte bounds'')) (\<lambda>_.
     and_then (column_u64 (st_current_generation r) ''current generation'') (\<lambda>_.
     and_then (column_u64 (st_state_version r) ''state version'') (\<lambda>_.
     and_then (authenticate_transaction cr key r) (\<lambda>_. Inr r))))))"

definition generation_bounds :: "stored_generation \<Rightarrow> bool" where
  "generation_bounds r \<longleftrightarrow>
     between 1 MAX_TRANSACTION_ID_BYTES (length (sg_transaction_id r))
     \<and> between 1 MAX_STATE_TEXT_BYTES (length (sg_state r)) \<and> digest_text (sg_binding_digest r)
     \<and> length (sg_binding_canonical r) \<le> MAX_AUTHORITY_BINDING_BYTES
     \<and> digest_text (sg_request_digest r) \<and> digest_text (sg_precondition_digest r)
     \<and> digest_text (sg_observation_digest r)
     \<and> optional_digest_text (sg_desired_state_digest r) \<and> optional_digest_text (sg_graph_digest r)
     \<and> optional_digest_text (sg_provenance_digest r)
     \<and> length (sg_integrity_tag r) = INTEGRITY_TAG_BYTES"

definition load_generation ::
  "crypto \<Rightarrow> sqlite_env \<Rightarrow> integrity_key \<Rightarrow> sqlite_db \<Rightarrow> transaction_id \<Rightarrow> u64
     \<Rightarrow> transaction_store_error + stored_generation" where
  "load_generation cr env key db tid generation =
     and_then (as_i64 generation) (\<lambda>_.
     and_then (sql env SelectGeneration db) (\<lambda>_.
     and_then (ok_or (bt_get (db_generations db) (tid, generation)) TxNotFound) (\<lambda>r.
     and_then (ensure (generation_bounds r)
       (TxCorruption ''generation record exceeds persisted byte bounds'')) (\<lambda>_.
     and_then (column_u64 (sg_generation r) ''generation'') (\<lambda>_.
     and_then (authenticate_generation cr key r) (\<lambda>_. Inr r))))))"

definition audit_bounds :: "stored_audit_event \<Rightarrow> bool" where
  "audit_bounds r \<longleftrightarrow>
     between 1 MAX_TRANSACTION_ID_BYTES (length (sa_transaction_id r))
     \<and> between 1 MAX_AUDIT_EVENT_KIND_BYTES (length (sa_event_kind r))
     \<and> digest_text (sa_payload_digest r) \<and> digest_text (sa_previous_digest r)
     \<and> digest_text (sa_event_digest r) \<and> length (sa_integrity_tag r) = INTEGRITY_TAG_BYTES"

definition read_audit_event ::
  "crypto \<Rightarrow> integrity_key \<Rightarrow> stored_audit_event \<Rightarrow> transaction_store_error + stored_audit_event" where
  "read_audit_event cr key r =
     and_then (ensure (audit_bounds r) (TxCorruption ''audit record exceeds persisted byte bounds'')) (\<lambda>_.
     and_then (column_u64 (sa_event_sequence r) ''audit event sequence'') (\<lambda>_.
     and_then (column_u64 (sa_generation r) ''audit generation'') (\<lambda>_.
     and_then (column_u64 (sa_state_version r) ''audit state version'') (\<lambda>_.
     and_then (authenticate_audit cr key r) (\<lambda>_. Inr r)))))"

text \<open>The rows of one transaction in key order, which is \<open>ORDER BY event_sequence\<close> (or \<open>slot\<close>).\<close>

definition rows_of :: "string \<Rightarrow> (string \<times> u64, 'r) btree_map \<Rightarrow> (u64 \<times> 'r) list" where
  "rows_of tid t = map (\<lambda>((_, n), r). (n, r)) (filter (\<lambda>((i, _), _). i = tid) t)"

definition load_all_audit_events ::
  "crypto \<Rightarrow> sqlite_env \<Rightarrow> integrity_key \<Rightarrow> sqlite_db \<Rightarrow> transaction_id
     \<Rightarrow> transaction_store_error + stored_audit_event list" where
  "load_all_audit_events cr env key db tid =
     and_then (sql env SelectAudit db) (\<lambda>_.
     try_map (read_audit_event cr key) (map snd (rows_of tid (db_audit_events db))))"

definition load_last_audit_event ::
  "crypto \<Rightarrow> sqlite_env \<Rightarrow> integrity_key \<Rightarrow> sqlite_db \<Rightarrow> transaction_id
     \<Rightarrow> transaction_store_error + stored_audit_event option" where
  "load_last_audit_event cr env key db tid =
     and_then (sql env SelectAudit db) (\<lambda>_.
     let rows = map snd (rows_of tid (db_audit_events db)) in
     if rows = [] then Inr None
     else and_then (read_audit_event cr key (last rows)) (\<lambda>e. Inr (Some e)))"

definition state_for_event_kind :: "string \<Rightarrow> transaction_store_error + transaction_state" where
  "state_for_event_kind kind =
     (if kind = ''prepared'' \<or> kind = ''recovery-reprepared'' then Inr TxPrepared
      else if kind = ''handoff-indeterminate'' \<or> kind = ''recovery-ambiguous'' then Inr TxIndeterminate
      else if kind = ''recovery-verified'' then Inr TxVerified
      else if kind = ''committed'' then Inr TxCommitted
      else if kind = ''aborted-prepared'' \<or> kind = ''recovery-retired-no-effect'' then Inr TxAborted
      else if kind = ''recovery-blocked'' then Inr TxRecoveryBlocked
      else Inl (TxCorruption (''unknown audit event kind '' @ debug_str kind)))"

definition corrupt :: "transaction_validation_error + 'a \<Rightarrow> transaction_store_error + 'a" where
  "corrupt r = map_err (\<lambda>e. TxCorruption (transaction_validation_error_text e)) r"

definition corrupt_id :: "validation_error + 'a \<Rightarrow> transaction_store_error + 'a" where
  "corrupt_id r = map_err (\<lambda>e. TxCorruption (validation_error_text e)) r"

definition snapshot_from_records ::
  "crypto \<Rightarrow> stored_transaction \<Rightarrow> stored_generation \<Rightarrow> transaction_store_error + transaction_snapshot" where
  "snapshot_from_records cr t g =
     and_then (ensure (st_transaction_id t = sg_transaction_id g
         \<and> st_current_generation t = sg_generation g)
       (TxCorruption ''transaction pointer does not identify the authenticated generation'')) (\<lambda>_.
     and_then (corrupt (transaction_id_new (st_transaction_id t))) (\<lambda>tid.
     and_then (corrupt_id (typed_id_new ''principal id'' (st_principal t))) (\<lambda>prin.
     and_then (corrupt_id (typed_id_new ''request id'' (st_request_id t))) (\<lambda>request.
     and_then (ensure (for_namespace cr prin request = tid)
       (TxCorruption ''transaction identity does not match principal/request namespace'')) (\<lambda>_.
     and_then (corrupt (transaction_state_parse (sg_state g))) (\<lambda>state.
     and_then (corrupt (content_digest_new (sg_binding_digest g))) (\<lambda>digest.
     Inr \<lparr> snap_transaction_id = tid, snap_principal = prin, snap_request_id = request,
           snap_current_generation = st_current_generation t, snap_state_version = st_state_version t,
           snap_state = state, snap_binding_digest = digest \<rparr>)))))))"

definition load_current ::
  "crypto \<Rightarrow> sqlite_env \<Rightarrow> integrity_key \<Rightarrow> sqlite_db \<Rightarrow> transaction_id
     \<Rightarrow> transaction_store_error + (stored_transaction \<times> stored_generation \<times> transaction_snapshot)" where
  "load_current cr env key db tid =
     and_then (load_transaction cr env key db tid) (\<lambda>t.
     and_then (load_generation cr env key db tid (st_current_generation t)) (\<lambda>g.
     and_then (snapshot_from_records cr t g) (\<lambda>snap.
     and_then (load_last_audit_event cr env key db tid) (\<lambda>l.
     and_then (ok_or l (TxCorruption ''transaction has no authenticated audit history'')) (\<lambda>tail.
     and_then (if sa_generation tail \<noteq> snap_current_generation snap
           \<or> sa_state_version tail \<noteq> snap_state_version snap
         then Inl (TxCorruption ''authenticated audit tail disagrees with current transaction state'')
         else and_then (state_for_event_kind (sa_event_kind tail)) (\<lambda>st.
           ensure (st = snap_state snap)
             (TxCorruption ''authenticated audit tail disagrees with current transaction state''))) (\<lambda>_.
     Inr (t, g, snap)))))))"

definition audit_digest ::
  "crypto \<Rightarrow> transaction_id \<Rightarrow> u64 \<Rightarrow> u64 \<Rightarrow> u64 \<Rightarrow> string \<Rightarrow> content_digest \<Rightarrow> content_digest
     \<Rightarrow> content_digest" where
  "audit_digest cr tid sequence generation state_version event_kind payload previous =
     digest_parts cr ''linura.sqlite.audit-event.v1''
       [tid, u64_to_dec sequence, u64_to_dec generation, u64_to_dec state_version, event_kind,
        payload, previous]"

section \<open>Capacity\<close>

definition check_count_capacity ::
  "sqlite_env \<Rightarrow> (sqlite_db \<Rightarrow> nat) \<Rightarrow> u64 \<Rightarrow> nat \<Rightarrow> sqlite_db \<Rightarrow> transaction_store_error + unit" where
  "check_count_capacity env count maximum additional db =
     and_then (sql env SelectCount db) (\<lambda>_.
     ensure (usize_saturating_add (count db) additional \<le> unat maximum) TxCapacityExceeded)"

definition nonterminal_states :: "string list" where
  "nonterminal_states = [''prepared'', ''indeterminate'', ''verified'']"

definition nonterminal_count :: "sqlite_db \<Rightarrow> nat" where
  "nonterminal_count db = length (filter (\<lambda>(tid, t).
     case bt_get (db_generations db) (tid, st_current_generation t) of
       Some g \<Rightarrow> sg_state g \<in> set nonterminal_states
     | None \<Rightarrow> False) (db_transactions db))"

definition check_logical_audit_reserve ::
  "sqlite_env \<Rightarrow> store_limits \<Rightarrow> nat \<Rightarrow> int \<Rightarrow> sqlite_db \<Rightarrow> transaction_store_error + unit" where
  "check_logical_audit_reserve env limits additional_events nonterminal_delta db =
     and_then (sql env SelectCount db) (\<lambda>_.
     let audit_count = length (db_audit_events db); nonterminal = nonterminal_count db in
     and_then (if nonterminal_delta \<ge> 0
         then ok_or (usize_checked_add nonterminal (nat nonterminal_delta)) TxCapacityExceeded
         else if nat (- nonterminal_delta) \<le> nonterminal then Inr (nonterminal - nat (- nonterminal_delta))
         else Inl (TxCorruption ''nonterminal reserve underflow'')) (\<lambda>resulting.
     and_then (ok_or (Option.bind (usize_checked_add audit_count additional_events)
         (\<lambda>v. usize_checked_add v resulting)) TxCapacityExceeded) (\<lambda>required.
     ensure (required \<le> unat (max_audit_events limits)) TxCapacityExceeded)))"

definition page_size :: "sqlite_env \<Rightarrow> transaction_store_error + nat" where
  "page_size env =
     and_then (env_pragma_i64 env ''page_size'') (\<lambda>v.
     if v < 0 then Inl (TxUnsupportedSchema ''negative page_size'') else Inr (nat v))"

definition reservation_bytes :: "sqlite_env \<Rightarrow> transaction_store_error + nat" where
  "reservation_bytes env =
     and_then (page_size env) (\<lambda>page.
     if page * 2 < 2 ^ 64 then Inr (page * 2) else Inl TxCapacityExceeded)"

text \<open>The three counted tables of the capacity checks.\<close>

definition count_transactions :: "sqlite_db \<Rightarrow> nat" where
  "count_transactions db = length (db_transactions db)"

definition count_generations :: "sqlite_db \<Rightarrow> nat" where
  "count_generations db = length (db_generations db)"

definition count_audit_events :: "sqlite_db \<Rightarrow> nat" where
  "count_audit_events db = length (db_audit_events db)"

section \<open>Updates and deletion\<close>

text \<open>Each returns the number of rows it changed.\<close>

definition update_transaction_row ::
  "sqlite_env \<Rightarrow> stored_transaction \<Rightarrow> u64 \<Rightarrow> u64 \<Rightarrow> bytes \<Rightarrow> sqlite_db
     \<Rightarrow> transaction_store_error + (nat \<times> sqlite_db)" where
  "update_transaction_row env old generation version tag db =
     and_then (sql env UpdateTransaction db) (\<lambda>_.
     case bt_get (db_transactions db) (st_transaction_id old) of
       None \<Rightarrow> Inr (0, db)
     | Some row \<Rightarrow>
         if st_current_generation row = st_current_generation old
           \<and> st_state_version row = st_state_version old \<and> st_integrity_tag row = st_integrity_tag old
         then let row' = row\<lparr> st_current_generation := generation, st_state_version := version,
                              st_integrity_tag := tag \<rparr> in
           if \<not> transactions_check row' then Inl (TxStorage ''CHECK constraint failed'')
           else Inr (1, db\<lparr> db_transactions := bt_insert (st_transaction_id old) row' (db_transactions db) \<rparr>)
         else Inr (0, db))"

definition update_generation_state_row ::
  "sqlite_env \<Rightarrow> stored_generation \<Rightarrow> string \<Rightarrow> string \<Rightarrow> bytes \<Rightarrow> sqlite_db
     \<Rightarrow> transaction_store_error + (nat \<times> sqlite_db)" where
  "update_generation_state_row env old expected_state next_state tag db =
     and_then (sql env UpdateGeneration db) (\<lambda>_.
     let k = (sg_transaction_id old, sg_generation old) in
     case bt_get (db_generations db) k of
       None \<Rightarrow> Inr (0, db)
     | Some row \<Rightarrow>
         if sg_state row = expected_state \<and> sg_integrity_tag row = sg_integrity_tag old
         then let row' = row\<lparr> sg_state := next_state, sg_integrity_tag := tag \<rparr> in
           if \<not> generations_check row' then Inl (TxStorage ''CHECK constraint failed'')
           else Inr (1, db\<lparr> db_generations := bt_insert k row' (db_generations db) \<rparr>)
         else Inr (0, db))"

text \<open>This one also sets the commit material, so the provenance guard fires before it.\<close>

definition commit_provenance_guard :: "stored_generation \<Rightarrow> stored_generation \<Rightarrow> bool" where
  "commit_provenance_guard old new \<longleftrightarrow>
     sg_state old = ''indeterminate'' \<and> sg_state new = ''verified''
     \<and> sg_desired_state_digest old = None \<and> sg_graph_digest old = None \<and> sg_provenance_digest old = None
     \<and> sg_desired_state_digest new \<noteq> None \<and> sg_graph_digest new \<noteq> None \<and> sg_provenance_digest new \<noteq> None"

definition update_generation_verified_row ::
  "sqlite_env \<Rightarrow> stored_generation \<Rightarrow> string \<Rightarrow> string \<Rightarrow> string \<Rightarrow> bytes \<Rightarrow> sqlite_db
     \<Rightarrow> transaction_store_error + (nat \<times> sqlite_db)" where
  "update_generation_verified_row env old desired graph provenance tag db =
     and_then (sql env UpdateGeneration db) (\<lambda>_.
     let k = (sg_transaction_id old, sg_generation old) in
     case bt_get (db_generations db) k of
       None \<Rightarrow> Inr (0, db)
     | Some row \<Rightarrow>
         if sg_state row = ''indeterminate'' \<and> sg_integrity_tag row = sg_integrity_tag old
         then let row' = row\<lparr> sg_state := ''verified'', sg_desired_state_digest := Some desired,
                sg_graph_digest := Some graph, sg_provenance_digest := Some provenance,
                sg_integrity_tag := tag \<rparr> in
           if \<not> commit_provenance_guard row row'
             then Inl (TxStorage ''immutable verified commit material'')
           else if \<not> generations_check row' then Inl (TxStorage ''CHECK constraint failed'')
           else Inr (1, db\<lparr> db_generations := bt_insert k row' (db_generations db) \<rparr>)
         else Inr (0, db))"

definition delete_reservation_row ::
  "sqlite_env \<Rightarrow> string \<Rightarrow> u64 \<Rightarrow> sqlite_db \<Rightarrow> transaction_store_error + (nat \<times> sqlite_db)" where
  "delete_reservation_row env tid slot db =
     and_then (sql env DeleteReservation db) (\<lambda>_.
     if bt_contains (db_reservations db) (tid, slot)
     then Inr (1, db\<lparr> db_reservations := bt_remove (tid, slot) (db_reservations db) \<rparr>)
     else Inr (0, db))"

end
