(* ===== verification/Sqlite_Validation.thy ===== *)
theory Sqlite_Validation
  imports Sqlite_Records
begin

text \<open>
  The checks the store makes of a whole database: aggregate capacity, the retained generations and the
  audit chain of each transaction (\<open>validation_base.rs\<close>), the physical reservations and the runtime
  settings (\<open>validation.rs\<close>).
\<close>

section \<open>Whole-database validation\<close>

definition validate_aggregate_capacity ::
  "sqlite_env \<Rightarrow> (sqlite_db \<Rightarrow> nat) \<Rightarrow> u64 \<Rightarrow> sqlite_db \<Rightarrow> transaction_store_error + unit" where
  "validate_aggregate_capacity env count maximum db =
     and_then (sql env SelectCount db) (\<lambda>_. ensure (count db \<le> unat maximum) TxCapacityExceeded)"

definition validate_logical_audit_reserve ::
  "sqlite_env \<Rightarrow> store_limits \<Rightarrow> sqlite_db \<Rightarrow> transaction_store_error + unit" where
  "validate_logical_audit_reserve env limits db =
     and_then (sql env SelectCount db) (\<lambda>_.
     and_then (ok_or (usize_checked_add (count_audit_events db) (nonterminal_count db)) TxCapacityExceeded) (\<lambda>required.
     ensure (required \<le> unat (max_audit_events limits)) TxCapacityExceeded))"

definition list_transaction_ids ::
  "sqlite_env \<Rightarrow> sqlite_db \<Rightarrow> transaction_store_error + transaction_id list" where
  "list_transaction_ids env db =
     and_then (sql env SelectTransaction db) (\<lambda>_.
     try_map (\<lambda>(tid, _).
       and_then (ensure (between 1 MAX_TRANSACTION_ID_BYTES (length tid))
         (TxCorruption ''transaction id exceeds persisted byte bound'')) (\<lambda>_.
       corrupt (transaction_id_new tid))) (db_transactions db))"

definition commit_material_list :: "stored_generation \<Rightarrow> string option list" where
  "commit_material_list g = [sg_desired_state_digest g, sg_graph_digest g, sg_provenance_digest g]"

definition validate_commit_material ::
  "transaction_state \<Rightarrow> string option list \<Rightarrow> transaction_store_error + unit" where
  "validate_commit_material state material =
     (if state = TxVerified \<or> state = TxCommitted
      then if list_ex (\<lambda>v. v = None) material
        then Inl (TxCorruption ''verified/committed generation is missing durable commit material'')
        else for_each (List.map_filter id material)
          (\<lambda>v. and_then (corrupt (content_digest_new v)) (\<lambda>_. Inr ()))
      else ensure (\<not> list_ex (\<lambda>v. v \<noteq> None) material)
        (TxCorruption ''non-verified generation contains durable commit material''))"

definition validate_generation_record ::
  "crypto \<Rightarrow> sqlite_env \<Rightarrow> integrity_key \<Rightarrow> sqlite_db \<Rightarrow> transaction_id \<Rightarrow> u64 \<Rightarrow> u64
     \<Rightarrow> transaction_store_error + unit" where
  "validate_generation_record cr env key db tid current expected =
     and_then (case load_generation cr env key db tid expected of
         Inl TxNotFound \<Rightarrow> Inl (TxCorruption ''retained generation history is not contiguous'')
       | r \<Rightarrow> r) (\<lambda>g.
     and_then (corrupt (transaction_state_parse (sg_state g))) (\<lambda>state.
     and_then (corrupt (content_digest_new (sg_binding_digest g))) (\<lambda>digest.
     and_then (corrupt (content_digest_new (sg_request_digest g))) (\<lambda>_.
     and_then (corrupt (content_digest_new (sg_precondition_digest g))) (\<lambda>_.
     and_then (corrupt (content_digest_new (sg_observation_digest g))) (\<lambda>_.
     and_then (ensure (digest_bytes cr ''linura.authority-binding.digest.v1'' (sg_binding_canonical g) = digest)
       (TxCorruption ''stored authority binding digest mismatch'')) (\<lambda>_.
     and_then (validate_commit_material state (commit_material_list g)) (\<lambda>_.
     ensure (\<not> (expected < current \<and> state \<noteq> TxAborted))
       (TxCorruption ''historical generation is not safely retired'')))))))))"

definition validate_generation_history ::
  "crypto \<Rightarrow> sqlite_env \<Rightarrow> integrity_key \<Rightarrow> sqlite_db \<Rightarrow> transaction_id \<Rightarrow> u64 \<Rightarrow> store_limits
     \<Rightarrow> transaction_store_error + unit" where
  "validate_generation_history cr env key db tid current limits =
     and_then (ensure (current < MAX_TRANSACTION_GENERATIONS)
       (TxCorruption ''current generation exceeds domain bound'')) (\<lambda>_.
     and_then (ok_or (checked_add current 1) TxCapacityExceeded) (\<lambda>expected_rows.
     and_then (ensure (expected_rows \<le> max_generations limits) TxCapacityExceeded) (\<lambda>_.
     and_then (sql env SelectCount db) (\<lambda>_.
     and_then (ensure (length (rows_of tid (db_generations db)) = unat expected_rows)
       (TxCorruption ''retained generation row count disagrees with authenticated current pointer'')) (\<lambda>_.
     for_each (map word_of_nat [0 ..< unat current + 1])
       (validate_generation_record cr env key db tid current))))))"

text \<open>The loop of \<open>validate_audit_chain\<close>: the next expected sequence, the digest of the previous event
  and the last event seen.\<close>

definition audit_chain_step ::
  "crypto \<Rightarrow> transaction_id \<Rightarrow> store_limits \<Rightarrow> u64 \<times> content_digest \<times> (stored_audit_event \<times> content_digest) option
     \<Rightarrow> stored_audit_event
     \<Rightarrow> transaction_store_error + (u64 \<times> content_digest \<times> (stored_audit_event \<times> content_digest) option)" where
  "audit_chain_step cr tid limits acc e = (case acc of (expected, previous, _) \<Rightarrow>
     and_then (ensure (sa_event_sequence e = expected) (TxCorruption ''audit sequence is not contiguous'')) (\<lambda>_.
     and_then (corrupt (content_digest_new (sa_payload_digest e))) (\<lambda>payload.
     and_then (corrupt (content_digest_new (sa_previous_digest e))) (\<lambda>stored_previous.
     and_then (corrupt (content_digest_new (sa_event_digest e))) (\<lambda>stored_digest.
     and_then (ensure (stored_previous = previous)
       (TxCorruption ''audit previous-digest chain is broken'')) (\<lambda>_.
     and_then (ensure (audit_digest cr tid (sa_event_sequence e) (sa_generation e) (sa_state_version e)
         (sa_event_kind e) payload previous = stored_digest)
       (TxCorruption ''audit event digest mismatch'')) (\<lambda>_.
     and_then (ok_or (checked_add expected 1) TxCapacityExceeded) (\<lambda>next_expected.
     and_then (ensure (next_expected \<le> max_audit_events limits) TxCapacityExceeded) (\<lambda>_.
     Inr (next_expected, stored_digest, Some (e, payload)))))))))))"

definition required_digest :: "string option \<Rightarrow> string \<Rightarrow> transaction_store_error + content_digest" where
  "required_digest v reason = and_then (ok_or v (TxCorruption reason)) (\<lambda>d. corrupt (content_digest_new d))"

definition commit_payload :: "crypto \<Rightarrow> content_digest \<Rightarrow> content_digest \<Rightarrow> content_digest \<Rightarrow> content_digest" where
  "commit_payload cr desired graph provenance =
     digest_parts cr ''linura.sqlite.commit-payload.v1'' [desired, graph, provenance]"

definition validate_audit_chain ::
  "crypto \<Rightarrow> sqlite_env \<Rightarrow> integrity_key \<Rightarrow> sqlite_db \<Rightarrow> transaction_id \<Rightarrow> u64 \<Rightarrow> u64 \<Rightarrow> store_limits
     \<Rightarrow> transaction_store_error + unit" where
  "validate_audit_chain cr env key db tid current version limits =
     and_then (load_all_audit_events cr env key db tid) (\<lambda>events.
     and_then (try_fold (audit_chain_step cr tid limits) (0, zero_digest, None) events) (\<lambda>(_, _, l).
     and_then (ok_or l (TxCorruption ''transaction has no audit history'')) (\<lambda>(e, payload).
     and_then (ensure (sa_generation e = current \<and> sa_state_version e = version)
       (TxCorruption ''transaction pointer/version disagrees with authenticated audit tail'')) (\<lambda>_.
     and_then (load_current cr env key db tid) (\<lambda>(_, g, snap).
     and_then (state_for_event_kind (sa_event_kind e)) (\<lambda>st.
     and_then (ensure (st = snap_state snap)
       (TxCorruption ''current transaction state disagrees with authenticated audit tail'')) (\<lambda>_.
     if snap_state snap = TxCommitted then
       and_then (required_digest (sg_desired_state_digest g) ''committed desired-state digest missing'') (\<lambda>desired.
       and_then (required_digest (sg_graph_digest g) ''committed graph digest missing'') (\<lambda>graph.
       and_then (required_digest (sg_provenance_digest g) ''committed provenance digest missing'') (\<lambda>provenance.
       ensure (payload = commit_payload cr desired graph provenance)
         (TxCorruption ''committed provenance digests disagree with audit payload''))))
     else Inr ())))))))"

definition column_of :: "u64 \<Rightarrow> u64 option" where
  "column_of v = (if unat v < 2 ^ 63 then Some v else None)"

text \<open>The slots of one transaction: consecutive from zero, each of the reserved size.\<close>

definition reservation_scan :: "nat \<Rightarrow> (u64 \<times> nat) list \<Rightarrow> transaction_store_error + u64" where
  "reservation_scan expected_bytes rows =
     try_fold (\<lambda>count (slot, len).
       and_then (ensure (column_of slot = Some count \<and> len = expected_bytes)
         (TxCorruption ''physical audit reservation is malformed'')) (\<lambda>_.
       ok_or (checked_add count 1) TxCapacityExceeded)) 0 rows"

definition is_nonterminal :: "transaction_state \<Rightarrow> bool" where
  "is_nonterminal st \<longleftrightarrow> st = TxPrepared \<or> st = TxIndeterminate \<or> st = TxVerified"

definition validate_physical_reservations_locked ::
  "crypto \<Rightarrow> sqlite_env \<Rightarrow> integrity_key \<Rightarrow> bool \<Rightarrow> sqlite_db \<Rightarrow> transaction_store_error + unit" where
  "validate_physical_reservations_locked cr env key opener_released db =
     and_then (reservation_bytes env) (\<lambda>expected_bytes.
     and_then (list_transaction_ids env db) (\<lambda>ids.
     and_then (try_fold (\<lambda>expected_total tid.
       and_then (load_current cr env key db tid) (\<lambda>(_, _, snap).
       let expected = (if is_nonterminal (snap_state snap) then 1 else 0) in
       and_then (ok_or (checked_add expected_total expected) TxCapacityExceeded) (\<lambda>expected_total'.
       and_then (sql env SelectReservations db) (\<lambda>_.
       and_then (reservation_scan expected_bytes (rows_of tid (db_reservations db))) (\<lambda>count.
       and_then (ensure (count = expected)
         (TxCorruption ''physical audit reservation count disagrees with current state'')) (\<lambda>_.
       Inr expected_total')))))) 0 ids) (\<lambda>expected_total.
     and_then (sql env SelectCount db) (\<lambda>_.
     and_then (ensure (length (db_reservations db) = unat expected_total)
       (TxCorruption ''aggregate physical audit reservation count mismatch'')) (\<lambda>_.
     and_then (page_size env) (\<lambda>page.
     env_fs_validate env page (length (db_reservations db)) opener_released))))))"

definition is_power_of_two :: "nat \<Rightarrow> bool" where
  "is_power_of_two n \<longleftrightarrow> list_ex (\<lambda>i. n = 2 ^ i) [0 ..< 64]"

definition validate_runtime_settings ::
  "sqlite_env \<Rightarrow> store_limits \<Rightarrow> transaction_store_error + unit" where
  "validate_runtime_settings env limits =
     and_then (env_pragma_string env ''journal_mode'') (\<lambda>raw.
     let mode = to_ascii_lowercase raw in
     and_then (ensure (mode = ''wal'')
       (TxUnsupportedSchema (''authority database journal mode must be WAL, found '' @ mode))) (\<lambda>_.
     and_then (env_pragma_i64 env ''synchronous'') (\<lambda>v.
     and_then (ensure (v = 2) (TxUnsupportedSchema ''authority database synchronous mode must be FULL'')) (\<lambda>_.
     and_then (env_pragma_i64 env ''foreign_keys'') (\<lambda>v.
     and_then (ensure (v = 1) (TxUnsupportedSchema ''authority database foreign keys must be enabled'')) (\<lambda>_.
     and_then (env_pragma_i64 env ''trusted_schema'') (\<lambda>v.
     and_then (ensure (v = 0) (TxUnsupportedSchema ''authority database trusted_schema must be disabled'')) (\<lambda>_.
     and_then (env_pragma_i64 env ''recursive_triggers'') (\<lambda>v.
     and_then (ensure (v = 1) (TxUnsupportedSchema ''authority database recursive triggers must be enabled'')) (\<lambda>_.
     and_then (env_no_ckpt_on_close env) (\<lambda>no_ckpt.
     and_then (ensure no_ckpt
       (TxUnsupportedSchema ''authority database must disable automatic WAL checkpoint-on-close'')) (\<lambda>_.
     and_then (page_size env) (\<lambda>page.
     and_then (ensure (MIN_SQLITE_PAGE_SIZE \<le> page \<and> page \<le> MAX_SQLITE_PAGE_SIZE \<and> is_power_of_two page)
       (TxUnsupportedSchema (''unsupported SQLite page_size '' @ nat_to_dec page))) (\<lambda>_.
     and_then (env_pragma_i64 env ''max_page_count'') (\<lambda>pages.
     ensure (0 < pages \<and> pages \<le> uint (max_pages limits)) TxCapacityExceeded)))))))))))))))"

end
