(* ===== verification/Sqlite_Store.thy ===== *)
theory Sqlite_Store
  imports Sqlite_Validation
begin

text \<open>
  \<open>SqliteTransactionStore\<close> (\<open>store.rs\<close>): the helpers that write inside an open SQL transaction and the
  operations of the \<open>TransactionStore\<close> trait.

  A helper maps the working copy of the database to an error or an updated copy. An operation runs its
  body between \<open>BEGIN IMMEDIATE\<close> and \<open>COMMIT\<close> (\<open>with_transaction\<close>): an error before the commit, or of the
  commit, rolls back to the database it started from; the reserve reconciliation runs after the commit,
  so its error is returned although the change is durable.
\<close>

record sqlite_store =
  ss_db :: sqlite_db
  ss_limits :: store_limits
  ss_authority_key :: authority_key
  ss_integrity_key :: integrity_key
  ss_opener_released :: bool

section \<open>Helpers inside a transaction\<close>

definition require_normal_open :: "sqlite_store \<Rightarrow> transaction_store_error + unit" where
  "require_normal_open s = ensure (\<not> ss_opener_released s) TxStateConflict"

definition assert_expected ::
  "transaction_snapshot \<Rightarrow> u64 \<Rightarrow> u64 \<Rightarrow> content_digest \<Rightarrow> transaction_state
     \<Rightarrow> transaction_store_error + unit" where
  "assert_expected snap generation version digest state =
     ensure (snap_current_generation snap = generation \<and> snap_state_version snap = version
       \<and> snap_binding_digest snap = digest \<and> snap_state snap = state) TxStateConflict"

definition ensure_audit_reservations ::
  "sqlite_env \<Rightarrow> transaction_id \<Rightarrow> u64 \<Rightarrow> sqlite_db \<Rightarrow> transaction_store_error + sqlite_db" where
  "ensure_audit_reservations env tid required db =
     and_then (reservation_bytes env) (\<lambda>reserve_bytes.
     and_then (sql env SelectReservations db) (\<lambda>_.
     and_then (reservation_scan reserve_bytes (rows_of tid (db_reservations db))) (\<lambda>existing.
     and_then (ensure (existing \<le> required)
       (TxCorruption ''physical audit reservation count exceeds transition requirement'')) (\<lambda>_.
     try_fold (\<lambda>db' slot.
       and_then (as_i64 slot) (\<lambda>slot'.
       and_then (ensure (reserve_bytes < 2 ^ 63) TxCapacityExceeded) (\<lambda>_.
       insert_reservation_row env tid slot' reserve_bytes db'))) db
       (map word_of_nat [unat existing ..< unat required])))))"

definition consume_audit_reservation ::
  "sqlite_env \<Rightarrow> transaction_id \<Rightarrow> sqlite_db \<Rightarrow> transaction_store_error + sqlite_db" where
  "consume_audit_reservation env tid db =
     and_then (reservation_bytes env) (\<lambda>reserve_bytes.
     and_then (sql env SelectReservations db) (\<lambda>_.
     let rows = rows_of tid (db_reservations db) in
     and_then (if rows = [] then Inl (TxCorruption ''required physical audit reservation is missing'')
               else Inr (last rows)) (\<lambda>(slot, len).
     and_then (ensure (len = reserve_bytes)
       (TxCorruption ''physical audit reservation byte length is invalid'')) (\<lambda>_.
     and_then (delete_reservation_row env tid slot db) (\<lambda>(deleted, db').
     and_then (ensure (deleted = 1)
       (TxCorruption ''physical audit reservation could not be consumed'')) (\<lambda>_. Inr db'))))))"

definition audit_successor ::
  "stored_audit_event option \<Rightarrow> transaction_store_error + (u64 \<times> content_digest)" where
  "audit_successor previous = (case previous of
     None \<Rightarrow> Inr (0, zero_digest)
   | Some e \<Rightarrow>
       and_then (corrupt (content_digest_new (sa_event_digest e))) (\<lambda>digest.
       and_then (ok_or (checked_add (sa_event_sequence e) 1) TxCapacityExceeded) (\<lambda>sequence.
       Inr (sequence, digest))))"

definition append_audit ::
  "crypto \<Rightarrow> sqlite_env \<Rightarrow> store_limits \<Rightarrow> integrity_key \<Rightarrow> transaction_id \<Rightarrow> u64 \<Rightarrow> u64 \<Rightarrow> string
     \<Rightarrow> content_digest \<Rightarrow> bool \<Rightarrow> sqlite_db \<Rightarrow> transaction_store_error + sqlite_db" where
  "append_audit cr env limits key tid generation version kind payload consume db =
     and_then (ensure (kind \<noteq> [] \<and> length kind \<le> MAX_AUDIT_EVENT_KIND_BYTES)
       (TxCorruption ''internal audit event kind exceeds persisted byte bound'')) (\<lambda>_.
     and_then (check_count_capacity env count_audit_events (max_audit_events limits) 1 db) (\<lambda>_.
     and_then (load_last_audit_event cr env key db tid) (\<lambda>previous.
     and_then (audit_successor previous) (\<lambda>(sequence, previous_digest).
     and_then (if consume then consume_audit_reservation env tid db else Inr db) (\<lambda>db'.
     let r0 = \<lparr> sa_transaction_id = tid, sa_event_sequence = sequence, sa_generation = generation,
                sa_state_version = version, sa_event_kind = kind, sa_payload_digest = payload,
                sa_previous_digest = previous_digest,
                sa_event_digest = audit_digest cr tid sequence generation version kind payload previous_digest,
                sa_integrity_tag = [] \<rparr>;
         r = r0\<lparr> sa_integrity_tag := audit_tag cr key r0 \<rparr> in
     and_then (as_i64 sequence) (\<lambda>_.
     and_then (as_i64 generation) (\<lambda>_.
     and_then (as_i64 version) (\<lambda>_.
     insert_audit_row env r db'))))))))"

definition update_transaction_pointer ::
  "crypto \<Rightarrow> sqlite_env \<Rightarrow> integrity_key \<Rightarrow> stored_transaction \<Rightarrow> u64 \<Rightarrow> u64 \<Rightarrow> sqlite_db
     \<Rightarrow> transaction_store_error + sqlite_db" where
  "update_transaction_pointer cr env key r next_generation next_version db =
     (let r' = r\<lparr> st_current_generation := next_generation, st_state_version := next_version \<rparr> in
     and_then (as_i64 (st_current_generation r)) (\<lambda>_.
     and_then (as_i64 (st_state_version r)) (\<lambda>_.
     and_then (as_i64 next_generation) (\<lambda>_.
     and_then (as_i64 next_version) (\<lambda>_.
     and_then (update_transaction_row env r next_generation next_version (transaction_tag cr key r') db)
       (\<lambda>(updated, db').
     and_then (ensure (updated = 1) TxStateConflict) (\<lambda>_. Inr db')))))))"

definition update_generation_state ::
  "crypto \<Rightarrow> sqlite_env \<Rightarrow> integrity_key \<Rightarrow> stored_generation \<Rightarrow> transaction_state \<Rightarrow> transaction_state
     \<Rightarrow> sqlite_db \<Rightarrow> transaction_store_error + sqlite_db" where
  "update_generation_state cr env key r expected next_state db =
     and_then (ensure (sg_state r = transaction_state_as_str expected) TxStateConflict) (\<lambda>_.
     let r' = r\<lparr> sg_state := transaction_state_as_str next_state \<rparr> in
     and_then (as_i64 (sg_generation r)) (\<lambda>_.
     and_then (update_generation_state_row env r (transaction_state_as_str expected)
         (transaction_state_as_str next_state) (generation_tag cr key r') db) (\<lambda>(updated, db').
     and_then (ensure (updated = 1) TxStateConflict) (\<lambda>_. Inr db'))))"

definition update_generation_to_verified ::
  "crypto \<Rightarrow> sqlite_env \<Rightarrow> integrity_key \<Rightarrow> stored_generation \<Rightarrow> content_digest \<Rightarrow> content_digest
     \<Rightarrow> content_digest \<Rightarrow> sqlite_db \<Rightarrow> transaction_store_error + sqlite_db" where
  "update_generation_to_verified cr env key r desired graph provenance db =
     and_then (ensure (sg_state r = transaction_state_as_str TxIndeterminate
         \<and> sg_desired_state_digest r = None \<and> sg_graph_digest r = None \<and> sg_provenance_digest r = None)
       TxStateConflict) (\<lambda>_.
     let r' = r\<lparr> sg_state := transaction_state_as_str TxVerified, sg_desired_state_digest := Some desired,
                sg_graph_digest := Some graph, sg_provenance_digest := Some provenance \<rparr> in
     and_then (as_i64 (sg_generation r)) (\<lambda>_.
     and_then (update_generation_verified_row env r desired graph provenance (generation_tag cr key r') db)
       (\<lambda>(updated, db').
     and_then (ensure (updated = 1) TxStateConflict) (\<lambda>_. Inr db'))))"

definition insert_generation ::
  "crypto \<Rightarrow> sqlite_env \<Rightarrow> integrity_key \<Rightarrow> authority_binding \<Rightarrow> u64 \<Rightarrow> sqlite_db
     \<Rightarrow> transaction_store_error + sqlite_db" where
  "insert_generation cr env key binding generation db =
     (let r0 = \<lparr> sg_transaction_id = binding_transaction_id cr binding, sg_generation = generation,
                 sg_state = transaction_state_as_str TxPrepared, sg_binding_digest = ab_digest binding,
                 sg_binding_canonical = ab_canonical binding, sg_request_digest = ab_request_digest binding,
                 sg_precondition_digest = ab_precondition_digest binding,
                 sg_observation_digest = ab_observation_digest binding,
                 sg_desired_state_digest = None, sg_graph_digest = None, sg_provenance_digest = None,
                 sg_integrity_tag = [] \<rparr> in
     and_then (as_i64 generation) (\<lambda>_.
     insert_generation_row env (r0\<lparr> sg_integrity_tag := generation_tag cr key r0 \<rparr>) db))"

definition enforce_authority_window ::
  "sqlite_env \<Rightarrow> u64 \<Rightarrow> u64 \<Rightarrow> transaction_store_error + unit" where
  "enforce_authority_window env authorized_at expires_at =
     and_then (ok_or (env_now_ms env) TxAuthorityRejected) (\<lambda>now.
     ensure (\<not> (now < authorized_at \<or> now > expires_at)) TxAuthorityRejected)"

section \<open>Transactions\<close>

definition with_transaction ::
  "sqlite_env \<Rightarrow> sqlite_store \<Rightarrow> (sqlite_db \<Rightarrow> transaction_store_error + ('a \<times> sqlite_db))
     \<Rightarrow> (sqlite_store \<Rightarrow> transaction_store_error + unit)
     \<Rightarrow> (transaction_store_error + 'a) \<times> sqlite_store" where
  "with_transaction env s body after_commit =
     (case and_then (sql env SqlBegin (ss_db s)) (\<lambda>_.
           and_then (body (ss_db s)) (\<lambda>(out, db').
           and_then (sql env SqlCommit db') (\<lambda>_. Inr (out, db')))) of
        Inl e \<Rightarrow> (Inl e, s)
      | Inr (out, db') \<Rightarrow>
          let s' = s\<lparr> ss_db := db' \<rparr> in
          (and_then (after_commit s') (\<lambda>_. Inr out), s'))"

definition with_immediate_validation ::
  "sqlite_env \<Rightarrow> sqlite_db \<Rightarrow> (sqlite_db \<Rightarrow> transaction_store_error + 'a) \<Rightarrow> transaction_store_error + 'a" where
  "with_immediate_validation env db validate =
     and_then (sql env SqlBegin db) (\<lambda>_.
     and_then (validate db) (\<lambda>v.
     and_then (sql env SqlCommit db) (\<lambda>_. Inr v)))"

definition reconcile_filesystem_reserve_after_commit ::
  "crypto \<Rightarrow> sqlite_env \<Rightarrow> sqlite_store \<Rightarrow> transaction_store_error + unit" where
  "reconcile_filesystem_reserve_after_commit cr env s =
     with_immediate_validation env (ss_db s)
       (validate_physical_reservations_locked cr env (ss_integrity_key s) False)"

definition no_reconcile :: "sqlite_store \<Rightarrow> transaction_store_error + unit" where
  "no_reconcile s = Inr ()"

section \<open>Operations\<close>

definition prepare_new ::
  "crypto \<Rightarrow> sqlite_env \<Rightarrow> store_limits \<Rightarrow> integrity_key \<Rightarrow> authority_binding \<Rightarrow> sqlite_db
     \<Rightarrow> transaction_store_error + (prepare_outcome \<times> sqlite_db)" where
  "prepare_new cr env limits key binding db =
     (let tid = binding_transaction_id cr binding;
          r0 = \<lparr> st_transaction_id = tid, st_principal = ab_principal binding,
                 st_request_id = ab_request_id binding, st_current_generation = 0, st_state_version = 1,
                 st_integrity_tag = [] \<rparr> in
     and_then (check_count_capacity env count_transactions (max_transactions limits) 1 db) (\<lambda>_.
     and_then (check_count_capacity env count_generations (max_generations limits) 1 db) (\<lambda>_.
     and_then (check_logical_audit_reserve env limits 1 1 db) (\<lambda>_.
     and_then (insert_transaction_row env (r0\<lparr> st_integrity_tag := transaction_tag cr key r0 \<rparr>) db) (\<lambda>db.
     and_then (insert_generation cr env key binding 0 db) (\<lambda>db.
     and_then (append_audit cr env limits key tid 0 1 ''prepared'' (ab_digest binding) False db) (\<lambda>db.
     and_then (ensure_audit_reservations env tid 1 db) (\<lambda>db.
     Inr (PrepareCreated \<lparr> snap_transaction_id = tid, snap_principal = ab_principal binding,
            snap_request_id = ab_request_id binding, snap_current_generation = 0,
            snap_state_version = 1, snap_state = TxPrepared, snap_binding_digest = ab_digest binding \<rparr>,
          db)))))))))"

definition prepare_body ::
  "crypto \<Rightarrow> sqlite_env \<Rightarrow> store_limits \<Rightarrow> integrity_key \<Rightarrow> authority_binding \<Rightarrow> sqlite_db
     \<Rightarrow> transaction_store_error + (prepare_outcome \<times> sqlite_db)" where
  "prepare_body cr env limits key binding db =
     (case load_current cr env key db (binding_transaction_id cr binding) of
        Inr (_, _, snap) \<Rightarrow>
          if snap_state snap = TxPrepared \<and> snap_binding_digest snap = ab_digest binding
            \<and> snap_principal snap = ab_principal binding \<and> snap_request_id snap = ab_request_id binding
          then Inr (PrepareExisting snap, db) else Inl TxIdempotencyConflict
      | Inl TxNotFound \<Rightarrow> prepare_new cr env limits key binding db
      | Inl e \<Rightarrow> Inl e)"

definition prepare ::
  "crypto \<Rightarrow> sqlite_env \<Rightarrow> authority_binding \<Rightarrow> sqlite_store
     \<Rightarrow> (transaction_store_error + prepare_outcome) \<times> sqlite_store" where
  "prepare cr env binding s =
     (case require_normal_open s of
        Inl e \<Rightarrow> (Inl e, s)
      | Inr _ \<Rightarrow> with_transaction env s
          (prepare_body cr env (ss_limits s) (ss_integrity_key s) binding) no_reconcile)"

definition handoff_body ::
  "crypto \<Rightarrow> sqlite_env \<Rightarrow> store_limits \<Rightarrow> integrity_key \<Rightarrow> handoff_request \<Rightarrow> sqlite_db
     \<Rightarrow> transaction_store_error + (handoff_commit \<times> sqlite_db)" where
  "handoff_body cr env limits key req db =
     (let tid = hr_transaction_id req in
     and_then (enforce_authority_window env (hr_authorized_at req) (hr_expires_at req)) (\<lambda>_.
     and_then (load_current cr env key db tid) (\<lambda>(t, g, snap).
     and_then (assert_expected snap (hr_expected_generation req) (hr_expected_state_version req)
       (hr_expected_binding_digest req) TxPrepared) (\<lambda>_.
     and_then (ensure (hr_authority_use_digest req \<noteq> zero_digest) TxStateConflict) (\<lambda>_.
     and_then (check_logical_audit_reserve env limits 1 0 db) (\<lambda>_.
     and_then (ensure_audit_reservations env tid 2 db) (\<lambda>db.
     and_then (ok_or (checked_add (snap_state_version snap) 1) TxCapacityExceeded) (\<lambda>next_version.
     and_then (update_generation_state cr env key g TxPrepared TxIndeterminate db) (\<lambda>db.
     and_then (update_transaction_pointer cr env key t (snap_current_generation snap) next_version db) (\<lambda>db.
     and_then (append_audit cr env limits key tid (snap_current_generation snap) next_version
       ''handoff-indeterminate'' (hr_authority_use_digest req) True db) (\<lambda>db.
     Inr (\<lparr> hc_transaction_id = tid, hc_generation = snap_current_generation snap,
            hc_state_version = next_version, hc_binding_digest = snap_binding_digest snap,
            hc_authority_use_digest = hr_authority_use_digest req \<rparr>, db))))))))))))"

definition handoff ::
  "crypto \<Rightarrow> sqlite_env \<Rightarrow> handoff_request \<Rightarrow> sqlite_store
     \<Rightarrow> (transaction_store_error + handoff_commit) \<times> sqlite_store" where
  "handoff cr env req s =
     (case and_then (require_normal_open s) (\<lambda>_.
           ensure (verify_handoff cr (ss_authority_key s) req) TxAuthorityRejected) of
        Inl e \<Rightarrow> (Inl e, s)
      | Inr _ \<Rightarrow> with_transaction env s
          (handoff_body cr env (ss_limits s) (ss_integrity_key s) req)
          (reconcile_filesystem_reserve_after_commit cr env))"

text \<open>The four resolutions of \<open>recover\<close>, on the records and snapshot loaded for the request.\<close>

definition recover_verified ::
  "crypto \<Rightarrow> sqlite_env \<Rightarrow> store_limits \<Rightarrow> integrity_key \<Rightarrow> transaction_id
     \<Rightarrow> stored_transaction \<times> stored_generation \<times> transaction_snapshot \<Rightarrow> u64
     \<Rightarrow> content_digest \<Rightarrow> content_digest \<Rightarrow> content_digest \<Rightarrow> content_digest \<Rightarrow> sqlite_db
     \<Rightarrow> transaction_store_error + (recovery_outcome \<times> sqlite_db)" where
  "recover_verified cr env limits key tid loaded next_version observation desired graph provenance db =
     (case loaded of (t, g, snap) \<Rightarrow>
     and_then (check_logical_audit_reserve env limits 1 0 db) (\<lambda>_.
     and_then (ensure_audit_reservations env tid 2 db) (\<lambda>db.
     and_then (update_generation_to_verified cr env key g desired graph provenance db) (\<lambda>db.
     and_then (update_transaction_pointer cr env key t (snap_current_generation snap) next_version db) (\<lambda>db.
     and_then (append_audit cr env limits key tid (snap_current_generation snap) next_version
       ''recovery-verified'' observation True db) (\<lambda>db.
     Inr (RecoveredVerified (snap\<lparr> snap_state := TxVerified, snap_state_version := next_version \<rparr>), db)))))))"

definition recover_blocked ::
  "crypto \<Rightarrow> sqlite_env \<Rightarrow> store_limits \<Rightarrow> integrity_key \<Rightarrow> transaction_id
     \<Rightarrow> stored_transaction \<times> stored_generation \<times> transaction_snapshot \<Rightarrow> u64 \<Rightarrow> content_digest \<Rightarrow> sqlite_db
     \<Rightarrow> transaction_store_error + (recovery_outcome \<times> sqlite_db)" where
  "recover_blocked cr env limits key tid loaded next_version observation db =
     (case loaded of (t, g, snap) \<Rightarrow>
     and_then (check_logical_audit_reserve env limits 1 (- 1) db) (\<lambda>_.
     and_then (ensure_audit_reservations env tid 1 db) (\<lambda>db.
     and_then (update_generation_state cr env key g TxIndeterminate TxRecoveryBlocked db) (\<lambda>db.
     and_then (update_transaction_pointer cr env key t (snap_current_generation snap) next_version db) (\<lambda>db.
     and_then (append_audit cr env limits key tid (snap_current_generation snap) next_version
       ''recovery-blocked'' observation True db) (\<lambda>db.
     Inr (RecoveredBlocked (snap\<lparr> snap_state := TxRecoveryBlocked, snap_state_version := next_version \<rparr>), db)))))))"

definition recover_ambiguous ::
  "crypto \<Rightarrow> sqlite_env \<Rightarrow> store_limits \<Rightarrow> integrity_key \<Rightarrow> transaction_id
     \<Rightarrow> stored_transaction \<times> stored_generation \<times> transaction_snapshot \<Rightarrow> u64 \<Rightarrow> content_digest \<Rightarrow> sqlite_db
     \<Rightarrow> transaction_store_error + (recovery_outcome \<times> sqlite_db)" where
  "recover_ambiguous cr env limits key tid loaded next_version observation db =
     (case loaded of (t, g, snap) \<Rightarrow>
     and_then (check_logical_audit_reserve env limits 1 0 db) (\<lambda>_.
     and_then (ensure_audit_reservations env tid 2 db) (\<lambda>db.
     and_then (update_transaction_pointer cr env key t (snap_current_generation snap) next_version db) (\<lambda>db.
     and_then (append_audit cr env limits key tid (snap_current_generation snap) next_version
       ''recovery-ambiguous'' observation True db) (\<lambda>db.
     Inr (StillIndeterminate (snap\<lparr> snap_state_version := next_version \<rparr>), db))))))"

definition recover_absent ::
  "crypto \<Rightarrow> sqlite_env \<Rightarrow> store_limits \<Rightarrow> integrity_key \<Rightarrow> transaction_id
     \<Rightarrow> stored_transaction \<times> stored_generation \<times> transaction_snapshot \<Rightarrow> u64 \<Rightarrow> content_digest
     \<Rightarrow> authority_binding \<Rightarrow> sqlite_db \<Rightarrow> transaction_store_error + (recovery_outcome \<times> sqlite_db)" where
  "recover_absent cr env limits key tid loaded next_version observation next_binding db =
     (case loaded of (t, g, snap) \<Rightarrow>
     and_then (ensure (binding_transaction_id cr next_binding = tid) TxIdempotencyConflict) (\<lambda>_.
     and_then (ok_or (checked_add (snap_current_generation snap) 1) TxCapacityExceeded) (\<lambda>next_generation.
     and_then (ensure (next_generation < MAX_TRANSACTION_GENERATIONS) TxCapacityExceeded) (\<lambda>_.
     and_then (check_count_capacity env count_generations (max_generations limits) 1 db) (\<lambda>_.
     and_then (check_logical_audit_reserve env limits 2 0 db) (\<lambda>_.
     and_then (ensure_audit_reservations env tid 3 db) (\<lambda>db.
     and_then (update_generation_state cr env key g TxIndeterminate TxAborted db) (\<lambda>db.
     and_then (insert_generation cr env key next_binding next_generation db) (\<lambda>db.
     and_then (update_transaction_pointer cr env key t next_generation next_version db) (\<lambda>db.
     and_then (append_audit cr env limits key tid (snap_current_generation snap) next_version
       ''recovery-retired-no-effect'' observation True db) (\<lambda>db.
     and_then (append_audit cr env limits key tid next_generation next_version
       ''recovery-reprepared'' (ab_digest next_binding) True db) (\<lambda>db.
     Inr (RecoveredReprepared \<lparr> snap_transaction_id = tid, snap_principal = ab_principal next_binding,
            snap_request_id = ab_request_id next_binding, snap_current_generation = next_generation,
            snap_state_version = next_version, snap_state = TxPrepared,
            snap_binding_digest = ab_digest next_binding \<rparr>, db)))))))))))))"

definition recover_body ::
  "crypto \<Rightarrow> sqlite_env \<Rightarrow> store_limits \<Rightarrow> integrity_key \<Rightarrow> recovery_request \<Rightarrow> sqlite_db
     \<Rightarrow> transaction_store_error + (recovery_outcome \<times> sqlite_db)" where
  "recover_body cr env limits key req db =
     (let tid = rr_transaction_id req in
     and_then (enforce_authority_window env (rr_authorized_at req) (rr_expires_at req)) (\<lambda>_.
     and_then (load_current cr env key db tid) (\<lambda>(t, g, snap).
     and_then (assert_expected snap (rr_expected_generation req) (rr_expected_state_version req)
       (rr_expected_binding_digest req) TxIndeterminate) (\<lambda>_.
     and_then (ok_or (checked_add (snap_state_version snap) 1) TxCapacityExceeded) (\<lambda>next_version.
     case rr_resolution req of
       IntendedStateVerified observation desired graph provenance \<Rightarrow>
         recover_verified cr env limits key tid (t, g, snap) next_version observation desired graph provenance db
     | ConflictingState observation \<Rightarrow>
         recover_blocked cr env limits key tid (t, g, snap) next_version observation db
     | Ambiguous observation \<Rightarrow>
         recover_ambiguous cr env limits key tid (t, g, snap) next_version observation db
     | IntendedEffectAbsent observation next_binding \<Rightarrow>
         recover_absent cr env limits key tid (t, g, snap) next_version observation next_binding db)))))"

definition recover ::
  "crypto \<Rightarrow> sqlite_env \<Rightarrow> recovery_request \<Rightarrow> sqlite_store
     \<Rightarrow> (transaction_store_error + recovery_outcome) \<times> sqlite_store" where
  "recover cr env req s =
     (case and_then (require_normal_open s) (\<lambda>_.
           ensure (verify_recovery cr (ss_authority_key s) req) TxAuthorityRejected) of
        Inl e \<Rightarrow> (Inl e, s)
      | Inr _ \<Rightarrow> with_transaction env s
          (recover_body cr env (ss_limits s) (ss_integrity_key s) req)
          (reconcile_filesystem_reserve_after_commit cr env))"

definition commit_body ::
  "crypto \<Rightarrow> sqlite_env \<Rightarrow> store_limits \<Rightarrow> integrity_key \<Rightarrow> commit_request \<Rightarrow> sqlite_db
     \<Rightarrow> transaction_store_error + (transaction_snapshot \<times> sqlite_db)" where
  "commit_body cr env limits key req db =
     (let tid = cr_transaction_id req in
     and_then (load_current cr env key db tid) (\<lambda>(t, g, snap).
     and_then (assert_expected snap (cr_expected_generation req) (cr_expected_state_version req)
       (cr_expected_binding_digest req) TxVerified) (\<lambda>_.
     and_then (ensure (sg_desired_state_digest g = Some (cr_desired_state_digest req)
         \<and> sg_graph_digest g = Some (cr_graph_digest req)
         \<and> sg_provenance_digest g = Some (cr_provenance_digest req)) TxStateConflict) (\<lambda>_.
     and_then (check_logical_audit_reserve env limits 1 (- 1) db) (\<lambda>_.
     and_then (ensure_audit_reservations env tid 1 db) (\<lambda>db.
     and_then (ok_or (checked_add (snap_state_version snap) 1) TxCapacityExceeded) (\<lambda>next_version.
     and_then (update_generation_state cr env key g TxVerified TxCommitted db) (\<lambda>db.
     and_then (update_transaction_pointer cr env key t (snap_current_generation snap) next_version db) (\<lambda>db.
     and_then (append_audit cr env limits key tid (snap_current_generation snap) next_version ''committed''
       (commit_payload cr (cr_desired_state_digest req) (cr_graph_digest req) (cr_provenance_digest req))
       True db) (\<lambda>db.
     Inr (snap\<lparr> snap_state := TxCommitted, snap_state_version := next_version \<rparr>, db)))))))))))"

definition commit ::
  "crypto \<Rightarrow> sqlite_env \<Rightarrow> commit_request \<Rightarrow> sqlite_store
     \<Rightarrow> (transaction_store_error + transaction_snapshot) \<times> sqlite_store" where
  "commit cr env req s =
     (case and_then (require_normal_open s) (\<lambda>_.
           ensure (verify_commit cr (ss_authority_key s) req) TxAuthorityRejected) of
        Inl e \<Rightarrow> (Inl e, s)
      | Inr _ \<Rightarrow> with_transaction env s
          (commit_body cr env (ss_limits s) (ss_integrity_key s) req)
          (reconcile_filesystem_reserve_after_commit cr env))"

definition abort_body ::
  "crypto \<Rightarrow> sqlite_env \<Rightarrow> store_limits \<Rightarrow> integrity_key \<Rightarrow> abort_request \<Rightarrow> sqlite_db
     \<Rightarrow> transaction_store_error + (transaction_snapshot \<times> sqlite_db)" where
  "abort_body cr env limits key req db =
     (let tid = ar_transaction_id req in
     and_then (load_current cr env key db tid) (\<lambda>(t, g, snap).
     and_then (ensure (snap_current_generation snap = ar_expected_generation req
         \<and> snap_state_version snap = ar_expected_state_version req \<and> snap_state snap = TxPrepared)
       TxStateConflict) (\<lambda>_.
     and_then (check_logical_audit_reserve env limits 1 (- 1) db) (\<lambda>_.
     and_then (ensure_audit_reservations env tid 1 db) (\<lambda>db.
     and_then (ok_or (checked_add (snap_state_version snap) 1) TxCapacityExceeded) (\<lambda>next_version.
     and_then (update_generation_state cr env key g TxPrepared TxAborted db) (\<lambda>db.
     and_then (update_transaction_pointer cr env key t (snap_current_generation snap) next_version db) (\<lambda>db.
     and_then (append_audit cr env limits key tid (snap_current_generation snap) next_version
       ''aborted-prepared'' (ar_reason_digest req) True db) (\<lambda>db.
     Inr (snap\<lparr> snap_state := TxAborted, snap_state_version := next_version \<rparr>, db))))))))))"

definition abort_prepared ::
  "crypto \<Rightarrow> sqlite_env \<Rightarrow> abort_request \<Rightarrow> sqlite_store
     \<Rightarrow> (transaction_store_error + transaction_snapshot) \<times> sqlite_store" where
  "abort_prepared cr env req s =
     (case with_transaction env s
         (abort_body cr env (ss_limits s) (ss_integrity_key s) req)
         (reconcile_filesystem_reserve_after_commit cr env) of
        (Inl e, s') \<Rightarrow> (Inl e, s')
      | (Inr snap, s') \<Rightarrow> (Inr snap, s'\<lparr> ss_opener_released := False \<rparr>))"

section \<open>Queries\<close>

definition snapshot ::
  "crypto \<Rightarrow> sqlite_env \<Rightarrow> sqlite_store \<Rightarrow> transaction_id \<Rightarrow> transaction_store_error + transaction_snapshot" where
  "snapshot cr env s tid =
     and_then (load_current cr env (ss_integrity_key s) (ss_db s) tid) (\<lambda>(_, _, snap). Inr snap)"

definition recovery_anchor ::
  "crypto \<Rightarrow> sqlite_env \<Rightarrow> sqlite_store \<Rightarrow> transaction_id \<Rightarrow> transaction_store_error + recovery_anchor_view" where
  "recovery_anchor cr env s tid =
     and_then (load_current cr env (ss_integrity_key s) (ss_db s) tid) (\<lambda>(_, g, snap).
     and_then (corrupt (content_digest_new (sg_request_digest g))) (\<lambda>request.
     and_then (corrupt (content_digest_new (sg_precondition_digest g))) (\<lambda>precondition.
     Inr \<lparr> anchor_snapshot = snap, anchor_request_digest = request, anchor_precondition_digest = precondition \<rparr>)))"

definition verified_commit_material ::
  "crypto \<Rightarrow> sqlite_env \<Rightarrow> sqlite_store \<Rightarrow> transaction_id \<Rightarrow> transaction_store_error + commit_material_view" where
  "verified_commit_material cr env s tid =
     and_then (load_current cr env (ss_integrity_key s) (ss_db s) tid) (\<lambda>(_, g, snap).
     and_then (ensure (snap_state snap = TxVerified) TxStateConflict) (\<lambda>_.
     and_then (required_digest (sg_desired_state_digest g) ''verified desired-state digest missing'') (\<lambda>desired.
     and_then (required_digest (sg_graph_digest g) ''verified graph digest missing'') (\<lambda>graph.
     and_then (required_digest (sg_provenance_digest g) ''verified provenance digest missing'') (\<lambda>provenance.
     Inr \<lparr> material_snapshot = snap, material_desired_state_digest = desired, material_graph_digest = graph,
           material_provenance_digest = provenance \<rparr>)))))"

definition list_state ::
  "crypto \<Rightarrow> sqlite_env \<Rightarrow> sqlite_store \<Rightarrow> transaction_state
     \<Rightarrow> transaction_store_error + transaction_snapshot list" where
  "list_state cr env s state =
     and_then (list_transaction_ids env (ss_db s)) (\<lambda>ids.
     and_then (try_map (snapshot cr env s) ids) (\<lambda>snaps.
     Inr (filter (\<lambda>snap. snap_state snap = state) snaps)))"

definition integrity_check :: "crypto \<Rightarrow> sqlite_env \<Rightarrow> sqlite_store \<Rightarrow> transaction_store_error + unit" where
  "integrity_check cr env s =
     (let key = ss_integrity_key s; limits = ss_limits s in
     with_immediate_validation env (ss_db s) (\<lambda>db.
     and_then (validate_runtime_settings env limits) (\<lambda>_.
     and_then (env_schema_identity env (verifier_fingerprint cr (ss_authority_key s))
       (integrity_fingerprint cr key)) (\<lambda>_.
     and_then (validate_aggregate_capacity env count_transactions (max_transactions limits) db) (\<lambda>_.
     and_then (validate_aggregate_capacity env count_generations (max_generations limits) db) (\<lambda>_.
     and_then (validate_aggregate_capacity env count_audit_events (max_audit_events limits) db) (\<lambda>_.
     and_then (validate_logical_audit_reserve env limits db) (\<lambda>_.
     and_then (env_pragma_string env ''integrity_check'') (\<lambda>integrity.
     and_then (ensure (integrity = ''ok'')
       (TxCorruption (''SQLite integrity_check returned '' @ debug_str integrity))) (\<lambda>_.
     and_then (env_foreign_key_violation env) (\<lambda>violation.
     and_then (ensure (\<not> violation) (TxCorruption ''SQLite foreign_key_check reported violations'')) (\<lambda>_.
     and_then (list_transaction_ids env db) (\<lambda>ids.
     and_then (for_each ids (\<lambda>tid.
       and_then (load_current cr env key db tid) (\<lambda>(t, _, _).
       and_then (validate_generation_history cr env key db tid (st_current_generation t) limits) (\<lambda>_.
       validate_audit_chain cr env key db tid (st_current_generation t) (st_state_version t) limits)))) (\<lambda>_.
     validate_physical_reservations_locked cr env key (ss_opener_released s) db))))))))))))))"

section \<open>Opening\<close>

text \<open>The database file's content is the argument: a new file is the empty database. Connecting,
  configuring the connection and installing or migrating the schema are the environment's.\<close>

definition open_with_limits_mode ::
  "crypto \<Rightarrow> sqlite_env \<Rightarrow> store_limits \<Rightarrow> authority_key \<Rightarrow> integrity_key \<Rightarrow> bool \<Rightarrow> sqlite_db
     \<Rightarrow> transaction_store_error + sqlite_store" where
  "open_with_limits_mode cr env limits akey ikey terminal_recovery db =
     and_then (store_limits_validate limits) (\<lambda>limits.
     and_then (if terminal_recovery
         then and_then (env_release_headroom env) (\<lambda>released.
              and_then (ensure released TxStateConflict) (\<lambda>_. Inr True))
         else Inr False) (\<lambda>released.
     and_then (env_configure_connection env) (\<lambda>_.
     and_then (env_initialize_schema env (verifier_fingerprint cr akey) (integrity_fingerprint cr ikey)) (\<lambda>_.
     let s = \<lparr> ss_db = db, ss_limits = limits, ss_authority_key = akey, ss_integrity_key = ikey,
               ss_opener_released = released \<rparr> in
     and_then (integrity_check cr env s) (\<lambda>_. Inr s)))))"

end
