(* ===== verification/Transaction_Contract.thy ===== *)
theory Transaction_Contract
  imports Transaction
begin

text \<open>
  What the transaction contract guarantees: canonical encodings are injective, so a digest names one
  binding and a seal fits one request; well-typed bindings are refused only by the stated rules.
  Collision freedom of the digests is a hypothesis about the two messages compared, never global.
\<close>

section \<open>Framing\<close>

lemma concat_frames_inject:
  assumes "concat (map frame xs) = concat (map frame ys)"
    and "\<And>x. x \<in> set xs \<Longrightarrow> length x < 2 ^ 64" "\<And>y. y \<in> set ys \<Longrightarrow> length y < 2 ^ 64"
  shows "xs = ys"
  using assms
proof (induction xs arbitrary: ys)
  case Nil
  then show ?case by (cases ys) (auto simp: frame_def be64_def)
next
  case (Cons x xs)
  from Cons.prems(1) obtain y zs where ys: "ys = y # zs"
    by (cases ys) (auto simp: frame_def be64_def)
  from Cons.prems have "frame x @ concat (map frame xs) = frame y @ concat (map frame zs)" by (simp add: ys)
  moreover have "length x < 2 ^ 64" "length y < 2 ^ 64" using Cons.prems(2,3) ys by auto
  ultimately have "x = y" "concat (map frame xs) = concat (map frame zs)"
    using frame_append_inject by blast+
  with Cons.IH [of zs] Cons.prems(2,3) ys show ?case by auto
qed

lemma frame_le_concat: "x \<in> set xs \<Longrightarrow> length x \<le> length (concat (map frame xs))"
  by (induction xs) auto

text \<open>The bytes hashed into a digest of parts, and what equal digests give without a collision.\<close>

definition digest_message :: "string \<Rightarrow> bytes list \<Rightarrow> bytes" where
  "digest_message domain parts = concat (map frame (domain # parts))"

lemma digest_parts_eq:
  "digest_parts cr d ps = digest_parts cr d' qs \<longleftrightarrow>
     sha256 cr (digest_message d ps) = sha256 cr (digest_message d' qs)"
  by (simp add: digest_parts_def digest_message_def)

lemma digest_parts_inject:
  assumes "digest_parts cr d ps = digest_parts cr d' qs"
    and "inj_on (sha256 cr) {digest_message d ps, digest_message d' qs}"
    and "\<forall>x \<in> set (d # d' # ps @ qs). length x < 2 ^ 64"
  shows "d = d' \<and> ps = qs"
proof -
  have "digest_message d ps = digest_message d' qs"
  proof (rule inj_onD [OF assms(2)])
    show "sha256 cr (digest_message d ps) = sha256 cr (digest_message d' qs)"
      using assms(1) by (simp add: digest_parts_eq)
  qed simp_all
  then have "d # ps = d' # qs"
    using assms(3) unfolding digest_message_def by (intro concat_frames_inject) auto
  then show ?thesis by simp
qed

lemma content_digest_parts:
  assumes "\<And>m. length (sha256 cr m) = 32"
  shows "content_digest_new (digest_parts cr d ps) = Inr (digest_parts cr d ps)"
    "length (digest_parts cr d ps) = 71"
proof -
  have "strip_prefix DIGEST_PREFIX (digest_parts cr d ps)
      = Some (hex_bytes (sha256 cr (concat (map frame (d # ps)))))"
    by (simp only: strip_prefix_Some digest_parts_def)
  then show "content_digest_new (digest_parts cr d ps) = Inr (digest_parts cr d ps)"
    using assms hex_bytes_chars by (simp add: content_digest_new_def list_all_iff)
  show "length (digest_parts cr d ps) = 71"
    using assms by (simp add: digest_parts_def DIGEST_PREFIX_def)
qed

lemma content_digest_length: "content_digest_new d = Inr e \<Longrightarrow> e = d \<and> length d = 71"
proof -
  assume "content_digest_new d = Inr e"
  then obtain h where "strip_prefix DIGEST_PREFIX d = Some h" "length h = 64" "e = d"
    by (auto simp: content_digest_new_def split: option.splits if_splits)
  then have "d = DIGEST_PREFIX @ h" by (simp only: strip_prefix_Some)
  with \<open>length h = 64\<close> \<open>e = d\<close> show ?thesis by (simp add: DIGEST_PREFIX_def)
qed

section \<open>Canonical bindings\<close>

lemma encode_str_Inr:
  "encode_str b s = Inr c \<longleftrightarrow>
     c = b @ frame (s) \<and> length (b @ frame (s)) \<le> MAX_AUTHORITY_BINDING_BYTES"
  by (auto simp: encode_str_def Let_def)

lemma encode_fold:
  "try_fold encode_str b ss = Inr c \<Longrightarrow> c = b @ concat (map frame ss)"
proof (induction ss arbitrary: b)
  case (Cons s ss)
  from Cons.prems have "try_fold encode_str (b @ frame (s)) ss = Inr c"
    by (auto simp: result_simps encode_str_Inr)
  from Cons.IH [OF this] show ?case by simp
qed simp

lemma encode_fold_total:
  "length (b @ concat (map frame ss)) \<le> MAX_AUTHORITY_BINDING_BYTES \<Longrightarrow>
     try_fold encode_str b ss = Inr (b @ concat (map frame ss))"
proof (induction ss arbitrary: b)
  case (Cons s ss)
  have "encode_str b s = Inr (b @ frame (s))"
    using Cons.prems by (simp add: encode_str_Inr)
  with Cons.IH [of "b @ frame (s)"] Cons.prems show ?case by simp
qed simp

lemma binding_try_new_ok:
  "binding_try_new cr m = Inr b \<longleftrightarrow>
     (let m' = m\<lparr> ab_risk_rule_ids := sort (ab_risk_rule_ids m) \<rparr>;
          canonical = concat (map frame (binding_fields m')) in
      tx_validate_token ''risk-policy revision'' (ab_risk_policy_revision m) MAX_REVISION_BYTES = Inr ()
      \<and> length (ab_risk_rule_ids m) \<le> MAX_RISK_RULES \<and> \<not> adjacent_equal (sort (ab_risk_rule_ids m))
      \<and> (\<forall>rule \<in> set (ab_risk_rule_ids m). tx_validate_token ''risk rule id'' rule MAX_RISK_RULE_ID_BYTES = Inr ())
      \<and> length canonical \<le> MAX_AUTHORITY_BINDING_BYTES
      \<and> b = binding_material.extend m' \<lparr> ab_canonical = canonical,
              ab_digest = digest_bytes cr ''linura.authority-binding.digest.v1'' canonical \<rparr>)"
  using encode_fold [of "[]"] encode_fold_total [of "[]"]
  by (auto simp: binding_try_new_def result_simps for_each_ok Let_def)

lemma tx_risk_name_inject [simp]: "tx_risk_name a = tx_risk_name b \<longleftrightarrow> a = b"
  by (cases a; cases b) simp_all

lemma authorization_fields_inject [simp]: "authorization_fields a = authorization_fields b \<longleftrightarrow> a = b"
proof
  assume eq: "authorization_fields a = authorization_fields b"
  show "a = b"
  proof (cases a)
    case PolicyAllow
    with eq show ?thesis by (cases b) (simp_all add: authorization_fields_def)
  next
    case (ApprovalBasis p)
    with eq obtain q where "b = ApprovalBasis q" by (cases b) (simp_all add: authorization_fields_def)
    with eq ApprovalBasis show ?thesis by (cases p; cases q) (simp add: authorization_fields_def)
  qed
qed simp

lemma binding_fields_inject:
  fixes a b :: "'a binding_material_scheme"
  assumes "binding_fields a = binding_fields b"
  shows "binding_material.truncate a = binding_material.truncate b"
proof -
  have n: "length (ab_risk_rule_ids a) = length (ab_risk_rule_ids b)"
    using assms by (simp add: binding_fields_def)
  with assms have "ab_risk_rule_ids a = ab_risk_rule_ids b
      \<and> ab_review_digest a # authorization_fields (ab_authorization a)
        = ab_review_digest b # authorization_fields (ab_authorization b)"
    by (simp add: binding_fields_def)
  with assms show ?thesis by (simp add: binding_fields_def binding_material.defs)
qed

lemma binding_built:
  assumes "binding_try_new cr m = Inr x"
  shows "ab_canonical x = concat (map frame (binding_fields x))"
    "length (ab_canonical x) \<le> MAX_AUTHORITY_BINDING_BYTES"
    "ab_digest x = digest_parts cr ''linura.authority-binding.digest.v1'' [ab_canonical x]"
    "binding_material.truncate x = m\<lparr> ab_risk_rule_ids := sort (ab_risk_rule_ids m) \<rparr>"
  using assms unfolding binding_try_new_ok Let_def
  by (auto simp: binding_material.defs binding_fields_def digest_bytes_def)

lemma binding_canonical_inject:
  assumes x: "binding_try_new cr m = Inr x" and y: "binding_try_new cr n = Inr y"
    and eq: "ab_canonical x = ab_canonical y"
  shows "x = y"
proof -
  have "binding_fields x = binding_fields y"
  proof (rule concat_frames_inject)
    show "concat (map frame (binding_fields x)) = concat (map frame (binding_fields y))"
      using eq binding_built(1) [OF x] binding_built(1) [OF y] by simp
    show "length b < 2 ^ 64" if "b \<in> set (binding_fields x)" for b
      using frame_le_concat [OF that] binding_built(1,2) [OF x] by (simp add: MAX_AUTHORITY_BINDING_BYTES_def)
    show "length b < 2 ^ 64" if "b \<in> set (binding_fields y)" for b
      using frame_le_concat [OF that] binding_built(1,2) [OF y] by (simp add: MAX_AUTHORITY_BINDING_BYTES_def)
  qed
  then have "binding_material.truncate x = binding_material.truncate y" by (rule binding_fields_inject)
  moreover have "ab_digest x = ab_digest y" using eq binding_built(3) [OF x] binding_built(3) [OF y] by simp
  ultimately show ?thesis using eq by (cases x, cases y) (simp add: binding_material.defs)
qed

text \<open>
  C34. The digest of an authority binding identifies it: two bindings built by \<open>try_new\<close> have the same
  digest exactly when they agree in every field (principal, request, plan, digests, route, policy
  revision, trusted risk, risk rules, review and the whole authorization basis), provided SHA-256 does
  not collide on their two encodings. No two bindings share a canonical encoding.
\<close>

theorem binding_digest_identifies:
  assumes "binding_try_new cr m = Inr x" "binding_try_new cr n = Inr y"
    and "inj_on (sha256 cr) {digest_message ''linura.authority-binding.digest.v1'' [ab_canonical x],
                             digest_message ''linura.authority-binding.digest.v1'' [ab_canonical y]}"
  shows "ab_digest x = ab_digest y \<longleftrightarrow> x = y"
proof
  let ?d = "''linura.authority-binding.digest.v1''"
  assume "ab_digest x = ab_digest y"
  then have "digest_parts cr ?d [ab_canonical x] = digest_parts cr ?d [ab_canonical y]"
    using binding_built(3) [OF assms(1)] binding_built(3) [OF assms(2)] by simp
  then have "ab_canonical x = ab_canonical y"
    using digest_parts_inject [OF _ assms(3)] binding_built(2) [OF assms(1)] binding_built(2) [OF assms(2)]
    by (simp add: MAX_AUTHORITY_BINDING_BYTES_def)
  then show "x = y" by (rule binding_canonical_inject [OF assms(1,2)])
qed simp

section \<open>Bounds of a binding\<close>

definition binding_typed :: "binding_material \<Rightarrow> bool" where
  "binding_typed m \<longleftrightarrow>
     (\<forall>i \<in> {ab_principal m, ab_request_id m, ab_plan_id m, ab_provider m, ab_resource m, ab_capability m,
             ab_policy_id m, ab_policy_revision_id m}. length i \<le> 256)
     \<and> (\<forall>d \<in> {ab_request_digest m, ab_precondition_digest m, ab_observation_digest m, ab_review_digest m}.
           content_digest_new d = Inr d)
     \<and> (case ab_authorization m of PolicyAllow \<Rightarrow> True
         | ApprovalBasis p \<Rightarrow> length (aa_evidence_id p) \<le> 256 \<and> length (aa_request_id p) \<le> 256
             \<and> length (aa_approver p) \<le> 256 \<and> length (aa_approval_class p) \<le> 256)"

lemma adjacent_equal_sort: "adjacent_equal (sort xs) \<longleftrightarrow> \<not> distinct (xs :: 'a::linorder list)"
proof -
  have "adjacent_equal ys \<longleftrightarrow> \<not> distinct ys" if "sorted ys" for ys :: "'a list"
    using that by (induction ys rule: adjacent_equal.induct) (auto simp: less_le)
  from this [of "sort xs"] show ?thesis by simp
qed

lemma tx_validate_token_ok:
  "tx_validate_token label v n = Inr u \<longleftrightarrow> \<not> trim_is_empty v \<and> \<not> has_control v \<and> length v \<le> n"
  by (auto simp: tx_validate_token_def)

lemma rules_length:
  "\<forall>r \<in> set rs. length r \<le> 512 \<Longrightarrow> length (concat (map frame rs)) \<le> 520 * length rs"
  by (induction rs) auto

lemma authorization_length:
  assumes "case a of PolicyAllow \<Rightarrow> True
    | ApprovalBasis p \<Rightarrow> length (aa_evidence_id p) \<le> 256 \<and> length (aa_request_id p) \<le> 256
        \<and> length (aa_approver p) \<le> 256 \<and> length (aa_approval_class p) \<le> 256"
  shows "length (concat (map frame (authorization_fields a))) \<le> 1200"
proof (cases a)
  case PolicyAllow
  then show ?thesis by (simp add: authorization_fields_def)
next
  case (ApprovalBasis p)
  with assms length_u64_to_dec [of "aa_issued_at p"] length_u64_to_dec [of "aa_expires_at p"]
  show ?thesis by (simp add: authorization_fields_def)
qed

lemma tx_risk_name_length: "length (tx_risk_name r) \<le> 18"
  by (cases r) simp_all

text \<open>
  C35. Building an authority binding from well-typed identifiers and digests fails only for the reasons
  the rules state: it succeeds exactly when the risk-policy revision is a token of at most 1024 bytes,
  there are at most 128 risk rules, no rule occurs twice and every rule is a token of at most 512
  bytes. The size limit of 256 KiB is never what refuses it.
\<close>

theorem binding_accepted_exactly:
  assumes "binding_typed m"
  shows "is_ok (binding_try_new cr m) \<longleftrightarrow>
    tx_validate_token ''risk-policy revision'' (ab_risk_policy_revision m) 1024 = Inr ()
    \<and> length (ab_risk_rule_ids m) \<le> 128 \<and> distinct (ab_risk_rule_ids m)
    \<and> (\<forall>rule \<in> set (ab_risk_rule_ids m). tx_validate_token ''risk rule id'' rule 512 = Inr ())"
proof -
  let ?m = "m\<lparr> ab_risk_rule_ids := sort (ab_risk_rule_ids m) \<rparr>"
  have size: "length (concat (map frame (binding_fields ?m))) \<le> MAX_AUTHORITY_BINDING_BYTES"
    if "length (ab_risk_policy_revision m) \<le> 1024" "length (ab_risk_rule_ids m) \<le> 128"
      "\<forall>rule \<in> set (ab_risk_rule_ids m). length rule \<le> 512"
  proof -
    have digests: "length (ab_request_digest m) = 71" "length (ab_precondition_digest m) = 71"
        "length (ab_observation_digest m) = 71" "length (ab_review_digest m) = 71"
      using assms content_digest_length by (auto simp: binding_typed_def)
    have rules: "length (concat (map frame (sort (ab_risk_rule_ids m)))) \<le> 520 * 128"
      using rules_length [of "sort (ab_risk_rule_ids m)"] that(2,3) by simp
    have "length (nat_to_dec (length (ab_risk_rule_ids m))) \<le> 3"
      using that(2) by (intro length_nat_to_dec) simp_all
    then show ?thesis
      using assms digests rules that(1) tx_risk_name_length [of "ab_trusted_risk m"]
        authorization_length [of "ab_authorization m"]
      by (simp add: binding_fields_def binding_typed_def MAX_AUTHORITY_BINDING_BYTES_def)
  qed
  show ?thesis
    using size
    by (auto simp: is_ok_iff binding_try_new_ok Let_def adjacent_equal_sort tx_validate_token_ok
        MAX_REVISION_BYTES_def MAX_RISK_RULES_def MAX_RISK_RULE_ID_BYTES_def)
qed

section \<open>Seals\<close>

definition handoff_message :: "handoff_request \<Rightarrow> bytes" where
  "handoff_message r = mutation_mac_input HANDOFF_DOMAIN (handoff_canonical r)"

definition recovery_message :: "recovery_request \<Rightarrow> bytes" where
  "recovery_message r = mutation_mac_input RECOVERY_DOMAIN (recovery_canonical r)"

definition commit_message :: "commit_request \<Rightarrow> bytes" where
  "commit_message r = mutation_mac_input COMMIT_DOMAIN (commit_canonical r)"

lemmas message_defs = handoff_message_def recovery_message_def commit_message_def
lemmas domain_defs = HANDOFF_DOMAIN_def RECOVERY_DOMAIN_def COMMIT_DOMAIN_def

lemma verify_message:
  "verify_handoff cr key r \<longleftrightarrow> hmac_sha256 cr key (handoff_message r) = Some (hr_authority_tag r)"
  "verify_recovery cr key q \<longleftrightarrow> hmac_sha256 cr key (recovery_message q) = Some (rr_authority_tag q)"
  "verify_commit cr key c \<longleftrightarrow> hmac_sha256 cr key (commit_message c) = Some (cr_authority_tag c)"
  by (auto simp: verify_handoff_def verify_recovery_def verify_commit_def verify_authority_tag_def
      message_defs split: option.splits)

lemma canonical_tag_irrelevant [simp]:
  "handoff_canonical (r\<lparr> hr_authority_tag := t \<rparr>) = handoff_canonical r"
  "recovery_canonical (q\<lparr> rr_authority_tag := t \<rparr>) = recovery_canonical q"
  "commit_canonical (c\<lparr> cr_authority_tag := t \<rparr>) = commit_canonical c"
  by (simp_all add: handoff_canonical_def recovery_canonical_def commit_canonical_def)

lemma mac_input_domain:
  "mutation_mac_input d a = mutation_mac_input d' b \<Longrightarrow> length d < 2 ^ 64 \<Longrightarrow> length d' < 2 ^ 64 \<Longrightarrow> d = d'"
  using frame_append_inject [of "d" "d'" "frame a" "frame b"]
  by (simp add: mutation_mac_input_def)

lemma mac_input_canonical:
  assumes "mutation_mac_input d a = mutation_mac_input d b" "length a < 2 ^ 64" "length b < 2 ^ 64"
  shows "a = b"
  using assms frame_append_inject [OF assms(2,3), of "[]" "[]"]
  by (simp add: mutation_mac_input_def)

lemma domains_separate:
  "handoff_message r \<noteq> recovery_message q" "handoff_message r \<noteq> commit_message c"
  "recovery_message q \<noteq> commit_message c"
  unfolding message_defs
  by (auto dest!: mac_input_domain simp: domain_defs)

lemma authorize_handoff_seals:
  assumes "authorize_handoff cr key s d t e = Inr r"
  shows "verify_handoff cr key r"
    "hr_transaction_id r = snap_transaction_id s" "hr_expected_generation r = snap_current_generation s"
    "hr_expected_state_version r = snap_state_version s"
    "hr_expected_binding_digest r = snap_binding_digest s" "hr_authority_use_digest r = d"
    "snap_state s = TxPrepared" "d \<noteq> zero_digest" "hr_authorized_at r = t" "hr_expires_at r = e"
  using assms
  by (auto simp: authorize_handoff_def verify_message authority_tag_def result_simps Let_def message_defs
      handoff_canonical_def split: if_splits)

lemma authorize_recovery_seals:
  assumes "authorize_recovery cr key s res t e = Inr q"
  shows "verify_recovery cr key q" "rr_transaction_id q = snap_transaction_id s" "rr_resolution q = res"
    "snap_state s = TxIndeterminate" "resolution_authorizable cr s res"
  using assms
  by (auto simp: authorize_recovery_def verify_message authority_tag_def result_simps Let_def message_defs
      recovery_canonical_def split: if_splits)

lemma authorize_commit_seals:
  assumes "authorize_commit cr key s d g p = Inr c"
  shows "verify_commit cr key c" "cr_transaction_id c = snap_transaction_id s" "snap_state s = TxVerified"
    "cr_desired_state_digest c = d" "cr_graph_digest c = g" "cr_provenance_digest c = p"
  using assms
  by (auto simp: authorize_commit_def verify_message authority_tag_def result_simps Let_def message_defs
      commit_canonical_def split: if_splits)

lemma handoff_canonical_inject:
  assumes "handoff_canonical a = handoff_canonical b"
    and "\<forall>x \<in> {hr_transaction_id a, hr_expected_binding_digest a, hr_authority_use_digest a,
               hr_transaction_id b, hr_expected_binding_digest b, hr_authority_use_digest b}. length x < 2 ^ 32"
    and "hr_authority_tag a = hr_authority_tag b"
  shows "a = b"
proof -
  have "[(hr_transaction_id a), be64 (hr_expected_generation a), be64 (hr_expected_state_version a),
      (hr_expected_binding_digest a), (hr_authority_use_digest a),
      be64 (hr_authorized_at a), be64 (hr_expires_at a)]
    = [(hr_transaction_id b), be64 (hr_expected_generation b), be64 (hr_expected_state_version b),
      (hr_expected_binding_digest b), (hr_authority_use_digest b),
      be64 (hr_authorized_at b), be64 (hr_expires_at b)]"
    using assms(1,2) unfolding handoff_canonical_def mutation_fields_def
    by (rule_tac concat_frames_inject) auto
  with assms(3) show ?thesis by (cases a, cases b) simp
qed

text \<open>
  C36. Persistence accepts what Control seals: every handoff, recovery and commit request the signer
  produces passes the verifier that holds the same key, and the signer only seals a handoff for a
  prepared transaction, a recovery for an indeterminate one and a commit for a verified one.
\<close>

theorem sealed_requests_verify:
  "(authorize_handoff cr key s d t e = Inr r \<longrightarrow> verify_handoff cr key r \<and> snap_state s = TxPrepared)
   \<and> (authorize_recovery cr key s res t e = Inr q \<longrightarrow> verify_recovery cr key q \<and> snap_state s = TxIndeterminate)
   \<and> (authorize_commit cr key s d g p = Inr c \<longrightarrow> verify_commit cr key c \<and> snap_state s = TxVerified)"
  by (auto dest: authorize_handoff_seals(1,7) authorize_recovery_seals(1,4) authorize_commit_seals(1,3))

text \<open>
  C37. A handoff seal fits only the request it was made for. Against a sealed handoff, a request carrying
  the same tag passes verification exactly when it is that request, field for field (transaction,
  generation, state version, binding, authority use and time window), and the tag is never accepted
  on a recovery or a commit request, provided the MAC does not collide on the messages concerned.
\<close>

theorem handoff_seal_exact:
  assumes "authorize_handoff cr key s d t e = Inr r0"
    and "\<forall>x \<in> {snap_transaction_id s, snap_binding_digest s, d, hr_transaction_id r,
               hr_expected_binding_digest r, hr_authority_use_digest r}. length x < 2 ^ 32"
    and inj: "inj_on (hmac_sha256 cr key) {handoff_message r0, handoff_message r, recovery_message q, commit_message c}"
  shows "(verify_handoff cr key r \<and> hr_authority_tag r = hr_authority_tag r0 \<longleftrightarrow> r = r0)
    \<and> \<not> (verify_recovery cr key q \<and> rr_authority_tag q = hr_authority_tag r0)
    \<and> \<not> (verify_commit cr key c \<and> cr_authority_tag c = hr_authority_tag r0)"
proof (intro conjI)
  note r0 = authorize_handoff_seals [OF assms(1)]
  have mac: "hmac_sha256 cr key (handoff_message r0) = Some (hr_authority_tag r0)"
    using r0(1) by (simp add: verify_message)
  show "verify_handoff cr key r \<and> hr_authority_tag r = hr_authority_tag r0 \<longleftrightarrow> r = r0"
  proof
    assume v: "verify_handoff cr key r \<and> hr_authority_tag r = hr_authority_tag r0"
    then have "hmac_sha256 cr key (handoff_message r) = hmac_sha256 cr key (handoff_message r0)"
      using mac by (simp add: verify_message)
    from inj_onD [OF inj this] have "handoff_message r = handoff_message r0" by simp
    then have "handoff_canonical r = handoff_canonical r0"
      unfolding handoff_message_def
      by (rule mac_input_canonical) (use assms(2) r0 in \<open>simp_all add: handoff_canonical_def mutation_fields_def\<close>)
    then show "r = r0"
      by (rule handoff_canonical_inject) (use assms(2) r0 v in simp_all)
  qed (use r0(1) in simp)
  show "\<not> (verify_recovery cr key q \<and> rr_authority_tag q = hr_authority_tag r0)"
    using mac inj_onD [OF inj, of "handoff_message r0" "recovery_message q"] domains_separate(1)
    by (auto simp: verify_message)
  show "\<not> (verify_commit cr key c \<and> cr_authority_tag c = hr_authority_tag r0)"
    using mac inj_onD [OF inj, of "handoff_message r0" "commit_message c"] domains_separate(2)
    by (auto simp: verify_message)
qed

section \<open>Instances\<close>

text \<open>A 32-byte digest in place of SHA-256 (the tail and the length), keyed by prefixing, for evaluation.\<close>

definition example_sha :: "bytes \<Rightarrow> bytes" where
  "example_sha m = take 24 (rev m @ replicate 24 (CHR 0x00)) @ be64 (len_u64 m)"

definition example_crypto :: crypto where
  "example_crypto = \<lparr> sha256 = example_sha, hmac_sha256 = (\<lambda>k m. Some (example_sha (k @ m))) \<rparr>"

definition example_digest :: "char \<Rightarrow> content_digest" where
  "example_digest c = DIGEST_PREFIX @ replicate 64 c"

definition example_material :: "string \<Rightarrow> binding_material" where
  "example_material request = \<lparr> ab_principal = ''user:alice'', ab_request_id = request, ab_plan_id = request,
     ab_request_digest = example_digest (CHR ''1''), ab_precondition_digest = example_digest (CHR ''2''),
     ab_observation_digest = example_digest (CHR ''3''), ab_provider = ''systemd'',
     ab_resource = ''systemd:unit:ssh.service'', ab_capability = ''systemd.unit.observe'',
     ab_policy_id = ''linura.baseline'', ab_policy_revision_id = ''1'', ab_trusted_risk = SystemMutation,
     ab_risk_policy_revision = ''risk-1'', ab_risk_rule_ids = [''rule-b'', ''rule-a''],
     ab_review_digest = example_digest (CHR ''4''), ab_authorization = PolicyAllow \<rparr>"

definition example_canonical :: "string \<Rightarrow> bytes" where
  "example_canonical request = concat (map frame (binding_fields
     ((example_material request)\<lparr> ab_risk_rule_ids := [''rule-a'', ''rule-b''] \<rparr>)))"

definition example_binding :: "string \<Rightarrow> authority_binding" where
  "example_binding request = binding_material.extend
     ((example_material request)\<lparr> ab_risk_rule_ids := [''rule-a'', ''rule-b''] \<rparr>)
     \<lparr> ab_canonical = example_canonical request,
       ab_digest = digest_bytes example_crypto ''linura.authority-binding.digest.v1'' (example_canonical request) \<rparr>"

definition example_key :: authority_key where
  "example_key = replicate 32 (CHR 0x07)"

definition example_snapshot :: transaction_snapshot where
  "example_snapshot = \<lparr> snap_transaction_id = ''transaction:v1:'' @ replicate 64 (CHR ''e''),
     snap_principal = ''user:alice'', snap_request_id = ''r1'', snap_current_generation = 0,
     snap_state_version = 1, snap_state = TxPrepared, snap_binding_digest = example_digest (CHR ''b'') \<rparr>"

lemma example_material_rules:
  "sort (ab_risk_rule_ids (example_material request)) = [''rule-a'', ''rule-b'']"
  "tx_validate_token ''risk-policy revision'' (ab_risk_policy_revision (example_material request)) 1024 = Inr ()"
  "\<forall>rule \<in> set (ab_risk_rule_ids (example_material request)). tx_validate_token ''risk rule id'' rule 512 = Inr ()"
  "distinct (ab_risk_rule_ids (example_material request))"
  "length (ab_risk_rule_ids (example_material request)) \<le> 128"
  by (simp_all add: example_material_def) code_simp+

lemma example_binding_ok:
  assumes "length (example_canonical request) \<le> MAX_AUTHORITY_BINDING_BYTES"
  shows "binding_try_new example_crypto (example_material request) = Inr (example_binding request)"
  using assms example_material_rules [of request]
  unfolding binding_try_new_ok Let_def example_binding_def example_canonical_def
  by (simp add: adjacent_equal_sort MAX_REVISION_BYTES_def MAX_RISK_RULES_def MAX_RISK_RULE_ID_BYTES_def
      flip: adjacent_equal_sort)

lemma example_canonical_length:
  "length (example_canonical ''r1'') \<le> MAX_AUTHORITY_BINDING_BYTES"
  "length (example_canonical ''r22'') \<le> MAX_AUTHORITY_BINDING_BYTES"
  by code_simp+

lemma binding_digest_identifies_witness:
  "binding_try_new example_crypto (example_material ''r1'') = Inr (example_binding ''r1'')
   \<and> (ab_digest (example_binding ''r1'') = ab_digest (example_binding ''r22'')
        \<longleftrightarrow> example_binding ''r1'' = example_binding ''r22'')
   \<and> ab_digest (example_binding ''r1'') \<noteq> ab_digest (example_binding ''r22'')"
proof -
  note ok = example_canonical_length [THEN example_binding_ok]
  have ne: "ab_digest (example_binding ''r1'') \<noteq> ab_digest (example_binding ''r22'')" by code_simp
  then have "inj_on (sha256 example_crypto)
      {digest_message ''linura.authority-binding.digest.v1'' [ab_canonical (example_binding ''r1'')],
       digest_message ''linura.authority-binding.digest.v1'' [ab_canonical (example_binding ''r22'')]}"
    using binding_built(3) [OF ok(1)] binding_built(3) [OF ok(2)]
    by (auto simp: inj_on_def digest_parts_eq)
  from binding_digest_identifies [OF ok this] ne ok(1) show ?thesis by blast
qed

lemma binding_accepted_exactly_witness:
  "binding_typed (example_material ''r1'') \<and> is_ok (binding_try_new example_crypto (example_material ''r1''))"
proof -
  have "binding_typed (example_material ''r1'')" by code_simp
  with binding_accepted_exactly [of "example_material ''r1''" example_crypto] example_material_rules [of "''r1''"]
  show ?thesis by blast
qed

lemma sealed_requests_verify_witness:
  "\<exists>r. authorize_handoff example_crypto example_key example_snapshot (example_digest (CHR ''5'')) 5 9 = Inr r
     \<and> verify_handoff example_crypto example_key r"
proof -
  have "is_ok (authorize_handoff example_crypto example_key example_snapshot (example_digest (CHR ''5'')) 5 9)"
    by code_simp
  then obtain r where "authorize_handoff example_crypto example_key example_snapshot (example_digest (CHR ''5'')) 5 9 = Inr r"
    by (auto simp: is_ok_iff)
  with sealed_requests_verify [of example_crypto example_key example_snapshot "example_digest (CHR ''5'')" 5 9 r]
  show ?thesis by blast
qed

definition example_unsealed :: handoff_request where
  "example_unsealed = \<lparr> hr_transaction_id = snap_transaction_id example_snapshot, hr_expected_generation = 0,
     hr_expected_state_version = 1, hr_expected_binding_digest = snap_binding_digest example_snapshot,
     hr_authority_use_digest = example_digest (CHR ''5''), hr_authorized_at = 5, hr_expires_at = 9,
     hr_authority_tag = replicate 32 (CHR 0x00) \<rparr>"

definition example_handoff :: handoff_request where
  "example_handoff = example_unsealed\<lparr> hr_authority_tag :=
     example_sha (example_key @ handoff_message example_unsealed) \<rparr>"

definition example_recovery :: recovery_request where
  "example_recovery = \<lparr> rr_transaction_id = snap_transaction_id example_snapshot, rr_expected_generation = 0,
     rr_expected_state_version = 2, rr_expected_binding_digest = snap_binding_digest example_snapshot,
     rr_authorized_at = 6, rr_expires_at = 9, rr_resolution = Ambiguous (example_digest (CHR ''6'')),
     rr_authority_tag = [] \<rparr>"

definition example_commit :: commit_request where
  "example_commit = \<lparr> cr_transaction_id = snap_transaction_id example_snapshot, cr_expected_generation = 0,
     cr_expected_state_version = 3, cr_expected_binding_digest = snap_binding_digest example_snapshot,
     cr_desired_state_digest = example_digest (CHR ''7''), cr_graph_digest = example_digest (CHR ''8''),
     cr_provenance_digest = example_digest (CHR ''9''), cr_authority_tag = [] \<rparr>"

lemma handoff_seal_exact_witness:
  "authorize_handoff example_crypto example_key example_snapshot (example_digest (CHR ''5'')) 5 9 = Inr example_handoff
   \<and> \<not> verify_handoff example_crypto example_key (example_handoff\<lparr> hr_expires_at := 99 \<rparr>)"
proof -
  have ok: "authorize_handoff example_crypto example_key example_snapshot (example_digest (CHR ''5'')) 5 9
      = Inr example_handoff"
    by (simp add: authorize_handoff_def example_snapshot_def authority_tag_def example_crypto_def
        example_handoff_def example_unsealed_def handoff_message_def handoff_canonical_def Let_def
        AUTHORITY_MUTATION_TAG_BYTES_def example_digest_def zero_digest_def)
  have len: "\<forall>x \<in> {snap_transaction_id example_snapshot, snap_binding_digest example_snapshot,
      example_digest (CHR ''5''), hr_transaction_id (example_handoff\<lparr> hr_expires_at := 99 \<rparr>),
      hr_expected_binding_digest (example_handoff\<lparr> hr_expires_at := 99 \<rparr>),
      hr_authority_use_digest (example_handoff\<lparr> hr_expires_at := 99 \<rparr>)}. length x < 2 ^ 32"
    by (simp add: example_handoff_def example_unsealed_def example_snapshot_def example_digest_def
        DIGEST_PREFIX_def)
  have "distinct (map (hmac_sha256 example_crypto example_key) [handoff_message example_handoff,
      handoff_message (example_handoff\<lparr> hr_expires_at := 99 \<rparr>), recovery_message example_recovery,
      commit_message example_commit])"
    by code_simp
  then have inj: "inj_on (hmac_sha256 example_crypto example_key) {handoff_message example_handoff,
      handoff_message (example_handoff\<lparr> hr_expires_at := 99 \<rparr>), recovery_message example_recovery,
      commit_message example_commit}"
    by (simp only: distinct_map list.set)
  have "hr_authority_tag (example_handoff\<lparr> hr_expires_at := 99 \<rparr>) = hr_authority_tag example_handoff"
    "example_handoff\<lparr> hr_expires_at := 99 \<rparr> \<noteq> example_handoff"
    by (simp_all add: example_handoff_def example_unsealed_def)
  with handoff_seal_exact [OF ok len inj] ok show ?thesis by blast
qed

end
