(* ===== verification/Store_Tables.thy ===== *)
theory Store_Tables
  imports Sqlite_Store Transaction_Contract
begin

text \<open>
  Lemmas on the tables of the SQLite store: the rows of one transaction as an ordered map of its own, the
  well-formedness SQLite maintains, what each successful statement did, and the audit reservations as
  consecutive slots.
\<close>

section \<open>The rows of one transaction\<close>

lemma rows_of_Nil [simp]: "rows_of tid [] = []"
  by (simp add: rows_of_def)

lemma rows_of_Cons [simp]:
  "rows_of tid (((i, n), r) # m) = (if i = tid then (n, r) # rows_of tid m else rows_of tid m)"
  by (simp add: rows_of_def)

lemma rows_of_keys: "n \<in> set (bt_keys (rows_of tid m)) \<longleftrightarrow> (tid, n) \<in> set (bt_keys m)"
  by (induction m) (auto split: if_splits)

lemma rows_of_wf: "bt_wf m \<Longrightarrow> bt_wf (rows_of tid m)"
proof (induction m)
  case (Cons e m)
  obtain i n r where e: "e = ((i, n), r)" by (metis surj_pair)
  have "n < x" if "i = tid" "(tid, x) \<in> set (bt_keys m)" for x
  proof -
    have "\<forall>k \<in> set (bt_keys m). (i, n) < k" using Cons.prems e by (simp add: bt_wf_Cons)
    with that(2) have "(i, n) < (tid, x)" by blast
    with that(1) show ?thesis by simp
  qed
  with Cons e show ?case by (auto simp: bt_wf_Cons rows_of_keys)
qed simp

lemma bt_get_rows_of: "bt_get (rows_of tid m) n = bt_get m (tid, n)"
  by (induction m) (auto simp: bt_get_def)

lemma rows_of_insert_same:
  "bt_wf m \<Longrightarrow> rows_of tid (bt_insert (tid, n) r m) = bt_insert n r (rows_of tid m)"
  by (rule bt_eqI) (auto simp: rows_of_wf bt_insert_wf bt_get_rows_of bt_get_insert)

lemma rows_of_insert_other:
  "bt_wf m \<Longrightarrow> tid \<noteq> i \<Longrightarrow> rows_of tid (bt_insert (i, n) r m) = rows_of tid m"
  by (rule bt_eqI) (auto simp: rows_of_wf bt_insert_wf bt_get_rows_of bt_get_insert)

lemma rows_of_remove_same:
  "bt_wf m \<Longrightarrow> rows_of tid (bt_remove (tid, n) m) = bt_remove n (rows_of tid m)"
  by (rule bt_eqI) (auto simp: rows_of_wf bt_remove_wf bt_get_rows_of bt_get_remove)

lemma rows_of_remove_other:
  "bt_wf m \<Longrightarrow> tid \<noteq> i \<Longrightarrow> rows_of tid (bt_remove (i, n) m) = rows_of tid m"
  by (rule bt_eqI) (auto simp: rows_of_wf bt_remove_wf bt_get_rows_of bt_get_remove)

lemmas rows_of_update = rows_of_insert_same rows_of_insert_other rows_of_remove_same rows_of_remove_other

lemma bt_insert_id: "bt_wf m \<Longrightarrow> bt_get m k = Some v \<Longrightarrow> bt_insert k v m = m"
  by (rule bt_eqI) (auto simp: bt_insert_wf bt_get_insert)

lemma bt_insert_insert: "bt_wf m \<Longrightarrow> bt_insert k v (bt_insert k w m) = bt_insert k v m"
  by (rule bt_eqI) (auto simp: bt_insert_wf bt_get_insert)

lemma bt_remove_last: "bt_wf (m @ [(k, v)]) \<Longrightarrow> bt_remove k (m @ [(k, v)]) = m"
  by (induction m) (auto simp: bt_wf_Cons bt_remove_def bt_keys_def)

lemma bt_contains_get: "bt_contains m k \<longleftrightarrow> (\<exists>v. bt_get m k = Some v)"
  by (simp add: bt_contains_def)

lemma bt_wf_last:
  "bt_wf m \<Longrightarrow> m \<noteq> [] \<Longrightarrow> k \<in> set (bt_keys m) \<Longrightarrow> k \<le> fst (last m)"
proof (induction m)
  case (Cons e m)
  show ?case
  proof (cases "m = []")
    case False
    then have "fst (last m) \<in> set (bt_keys m)" by (simp add: bt_keys_def)
    with Cons False show ?thesis by (auto simp: bt_wf_Cons intro: less_imp_le)
  qed (use Cons in simp)
qed simp

section \<open>Well-formed databases\<close>

text \<open>What the table layout itself promises: ordered keys, key columns that agree with the row, and the
  foreign keys.\<close>

definition db_wf :: "sqlite_db \<Rightarrow> bool" where
  "db_wf db \<longleftrightarrow>
     bt_wf (db_transactions db) \<and> bt_wf (db_generations db) \<and> bt_wf (db_audit_events db)
     \<and> bt_wf (db_reservations db)
     \<and> list_all (\<lambda>(tid, t). st_transaction_id t = tid) (db_transactions db)
     \<and> list_all (\<lambda>((tid, n), g). sg_transaction_id g = tid \<and> sg_generation g = n
           \<and> bt_contains (db_transactions db) tid) (db_generations db)
     \<and> list_all (\<lambda>((tid, n), e). sa_transaction_id e = tid \<and> sa_event_sequence e = n
           \<and> bt_contains (db_transactions db) tid) (db_audit_events db)
     \<and> list_all (\<lambda>((tid, _), _). bt_contains (db_transactions db) tid) (db_reservations db)"

lemma bt_list_all:
  "bt_wf m \<Longrightarrow> list_all (\<lambda>(k, v). P k v) m \<longleftrightarrow> (\<forall>k v. bt_get m k = Some v \<longrightarrow> P k v)"
  by (auto simp: list_all_iff bt_get_wf_iff)

lemma db_wf_iff:
  "db_wf db \<longleftrightarrow>
     bt_wf (db_transactions db) \<and> bt_wf (db_generations db) \<and> bt_wf (db_audit_events db)
     \<and> bt_wf (db_reservations db)
     \<and> (\<forall>tid t. bt_get (db_transactions db) tid = Some t \<longrightarrow> st_transaction_id t = tid)
     \<and> (\<forall>tid n g. bt_get (db_generations db) (tid, n) = Some g \<longrightarrow> sg_transaction_id g = tid
          \<and> sg_generation g = n \<and> bt_contains (db_transactions db) tid)
     \<and> (\<forall>tid n e. bt_get (db_audit_events db) (tid, n) = Some e \<longrightarrow> sa_transaction_id e = tid
          \<and> sa_event_sequence e = n \<and> bt_contains (db_transactions db) tid)
     \<and> (\<forall>tid n b. bt_get (db_reservations db) (tid, n) = Some b \<longrightarrow> bt_contains (db_transactions db) tid)"
  unfolding db_wf_def
  by (auto simp: list_all_iff bt_get_wf_iff split: prod.splits) blast

lemma db_wf_D:
  assumes "db_wf db"
  shows "bt_wf (db_transactions db)" "bt_wf (db_generations db)" "bt_wf (db_audit_events db)"
    "bt_wf (db_reservations db)"
    "bt_get (db_transactions db) tid = Some t \<Longrightarrow> st_transaction_id t = tid"
    "bt_get (db_generations db) (tid, n) = Some g \<Longrightarrow> sg_transaction_id g = tid \<and> sg_generation g = n
       \<and> bt_contains (db_transactions db) tid"
    "bt_get (db_audit_events db) (tid, n) = Some e \<Longrightarrow> sa_transaction_id e = tid \<and> sa_event_sequence e = n
       \<and> bt_contains (db_transactions db) tid"
    "bt_get (db_reservations db) (tid, n) = Some b \<Longrightarrow> bt_contains (db_transactions db) tid"
  using assms unfolding db_wf_iff by blast+

lemma db_wf_empty:
  "db_wf \<lparr> db_transactions = [], db_generations = [], db_audit_events = [], db_reservations = [] \<rparr>"
  by (simp add: db_wf_def)

section \<open>Statements that succeed\<close>

named_theorems stmt_ok \<open>what a successful statement did to the database\<close>

lemma insert_transaction_row_ok [stmt_ok]:
  "insert_transaction_row env r db = Inr db' \<Longrightarrow>
     db' = db\<lparr> db_transactions := bt_insert (st_transaction_id r) r (db_transactions db) \<rparr>
     \<and> bt_get (db_transactions db) (st_transaction_id r) = None \<and> transactions_check r
     \<and> (\<forall>(k, row) \<in> set (db_transactions db). \<not> (st_principal row = st_principal r \<and> st_request_id row = st_request_id r))"
  by (force simp: insert_transaction_row_def result_simps list_ex_iff bt_get_def map_of_eq_None_iff
      split: if_splits)

lemma insert_generation_row_ok [stmt_ok]:
  "insert_generation_row env r db = Inr db' \<Longrightarrow>
     db' = db\<lparr> db_generations := bt_insert (sg_transaction_id r, sg_generation r) r (db_generations db) \<rparr>
     \<and> bt_get (db_generations db) (sg_transaction_id r, sg_generation r) = None \<and> generations_check r
     \<and> bt_contains (db_transactions db) (sg_transaction_id r)"
  by (auto simp: insert_generation_row_def result_simps Let_def bt_contains_def split: if_splits)

lemma insert_audit_row_ok [stmt_ok]:
  "insert_audit_row env r db = Inr db' \<Longrightarrow>
     db' = db\<lparr> db_audit_events := bt_insert (sa_transaction_id r, sa_event_sequence r) r (db_audit_events db) \<rparr>
     \<and> bt_get (db_audit_events db) (sa_transaction_id r, sa_event_sequence r) = None
     \<and> audit_events_check r \<and> bt_contains (db_transactions db) (sa_transaction_id r)"
  by (auto simp: insert_audit_row_def result_simps Let_def bt_contains_def split: if_splits)

lemma insert_reservation_row_ok [stmt_ok]:
  "insert_reservation_row env tid slot n db = Inr db' \<Longrightarrow>
     db' = db\<lparr> db_reservations := bt_insert (tid, slot) n (db_reservations db) \<rparr>
     \<and> bt_get (db_reservations db) (tid, slot) = None \<and> bt_contains (db_transactions db) tid"
  by (auto simp: insert_reservation_row_def result_simps Let_def bt_contains_def split: if_splits)

lemma update_transaction_pointer_ok:
  assumes "update_transaction_pointer cr env key t gen ver db = Inr db'"
    and "bt_get (db_transactions db) (st_transaction_id t) = Some t"
  shows "db' = db\<lparr> db_transactions := bt_insert (st_transaction_id t)
      (t\<lparr> st_current_generation := gen, st_state_version := ver,
          st_integrity_tag := transaction_tag cr key (t\<lparr> st_current_generation := gen, st_state_version := ver \<rparr>) \<rparr>)
      (db_transactions db) \<rparr>
    \<and> unat gen < 2 ^ 63 \<and> unat ver < 2 ^ 63"
  using assms
  by (auto simp: update_transaction_pointer_def update_transaction_row_def result_simps Let_def as_i64_def
      split: if_splits)

lemma update_generation_state_ok:
  assumes "update_generation_state cr env key g a b db = Inr db'"
    and "bt_get (db_generations db) (sg_transaction_id g, sg_generation g) = Some g"
  shows "db' = db\<lparr> db_generations := bt_insert (sg_transaction_id g, sg_generation g)
      (g\<lparr> sg_state := transaction_state_as_str b,
          sg_integrity_tag := generation_tag cr key (g\<lparr> sg_state := transaction_state_as_str b \<rparr>) \<rparr>)
      (db_generations db) \<rparr>
    \<and> sg_state g = transaction_state_as_str a"
  using assms
  by (auto simp: update_generation_state_def update_generation_state_row_def result_simps Let_def as_i64_def
      split: if_splits)

lemma update_generation_to_verified_ok:
  assumes "update_generation_to_verified cr env key g d gr p db = Inr db'"
    and "bt_get (db_generations db) (sg_transaction_id g, sg_generation g) = Some g"
  shows "db' = db\<lparr> db_generations := bt_insert (sg_transaction_id g, sg_generation g)
      (g\<lparr> sg_state := transaction_state_as_str TxVerified, sg_desired_state_digest := Some d,
          sg_graph_digest := Some gr, sg_provenance_digest := Some p,
          sg_integrity_tag := generation_tag cr key (g\<lparr> sg_state := transaction_state_as_str TxVerified,
            sg_desired_state_digest := Some d, sg_graph_digest := Some gr, sg_provenance_digest := Some p \<rparr>) \<rparr>)
      (db_generations db) \<rparr>
    \<and> sg_state g = transaction_state_as_str TxIndeterminate \<and> commit_material_list g = [None, None, None]
    \<and> digest_text d \<and> digest_text gr \<and> digest_text p"
  using assms
  by (auto simp: update_generation_to_verified_def update_generation_verified_row_def result_simps Let_def
      as_i64_def commit_material_list_def generations_check_def optional_digest_text_def split: if_splits)

section \<open>Reservations\<close>

definition slots :: "nat \<Rightarrow> nat \<Rightarrow> (u64 \<times> nat) list" where
  "slots b n = map (\<lambda>i. (word_of_nat i, b)) [0 ..< n]"

lemma slots_simps [simp]: "slots b 0 = []" "slots b (Suc n) = slots b n @ [(word_of_nat n, b)]"
  "length (slots b n) = n"
  by (simp_all add: slots_def)

lemma unat_word_of_nat: "n < 2 ^ 64 \<Longrightarrow> unat (word_of_nat n :: u64) = n"
  by (simp add: unsigned_of_nat take_bit_nat_eq_self)

lemma slots_keys_less: "n < 2 ^ 64 \<Longrightarrow> k \<in> set (bt_keys (slots b n)) \<Longrightarrow> k < word_of_nat n"
  by (auto simp: slots_def bt_keys_def word_less_nat_alt unat_word_of_nat)

lemma scan_loop:
  assumes "try_fold (\<lambda>count (slot, len).
      and_then (ensure (column_of slot = Some count \<and> len = b) e) (\<lambda>_.
      ok_or (checked_add count 1) e')) c rows = Inr n"
  shows "rows = map (\<lambda>i. (word_of_nat i, b)) [unat c ..< unat n] \<and> unat n = unat c + length rows"
  using assms
proof (induction rows arbitrary: c)
  case (Cons r rows)
  obtain slot len where r: "r = (slot, len)" by (cases r)
  with Cons.prems obtain c' where c: "column_of slot = Some c" "len = b" and c': "checked_add c 1 = Some c'"
    and t: "try_fold (\<lambda>count (slot, len).
      and_then (ensure (column_of slot = Some count \<and> len = b) e) (\<lambda>_.
      ok_or (checked_add count 1) e')) c' rows = Inr n"
    by (auto simp: result_simps)
  have rest: "rows = map (\<lambda>i. (word_of_nat i, b)) [unat c' ..< unat n] \<and> unat n = unat c' + length rows"
    using Cons.IH [OF t] .
  have "slot = c" using c(1) by (simp add: column_of_def split: if_splits)
  with r c(2) have r: "r = (c, b)" by simp
  have "unat c' = Suc (unat c)" using unat_checked_add [OF c'] by simp
  moreover have n: "unat n = unat c' + length rows" using rest by (rule conjunct2)
  ultimately have "[unat c ..< unat n] = unat c # [unat c' ..< unat n]"
    by (metis add_Suc less_add_Suc1 upt_conv_Cons)
  then have "r # rows = map (\<lambda>i. (word_of_nat i, b)) [unat c ..< unat n]"
    using r conjunct1 [OF rest] by simp
  moreover have "unat n = unat c + length (r # rows)"
    using n \<open>unat c' = Suc (unat c)\<close> by simp
  ultimately show ?case by (rule conjI)
qed simp

lemma reservation_scan_ok:
  "reservation_scan b rows = Inr n \<Longrightarrow> rows = slots b (unat n)"
  unfolding reservation_scan_def slots_def by (drule scan_loop [THEN conjunct1]) simp

lemma reservation_scan_snoc:
  "reservation_scan b (rows @ [(slot, len)]) = and_then (reservation_scan b rows) (\<lambda>count.
     and_then (ensure (column_of slot = Some count \<and> len = b)
       (TxCorruption ''physical audit reservation is malformed'')) (\<lambda>_.
     ok_or (checked_add count 1) TxCapacityExceeded))"
proof -
  have "and_then r Inr = r" for r :: "transaction_store_error + u64" by (cases r) simp_all
  then show ?thesis by (simp add: reservation_scan_def try_fold_append)
qed

lemma reservation_scan_slots: "n < 2 ^ 63 \<Longrightarrow> reservation_scan b (slots b n) = Inr (word_of_nat n)"
proof (induction n)
  case (Suc n)
  then have u: "unat (word_of_nat n :: u64) = n" by (intro unat_word_of_nat) simp
  then have c: "column_of (word_of_nat n) = Some (word_of_nat n)" using Suc.prems by (simp add: column_of_def)
  have "checked_add (word_of_nat n) 1 = Some (word_of_nat (Suc n) :: u64)"
    using Suc.prems u by (simp add: checked_add_def)
  with c Suc show ?case by (simp only: slots_simps reservation_scan_snoc) simp
qed (simp add: reservation_scan_def)

text \<open>Only the slots of one transaction change, from one count to another.\<close>

definition slots_changed :: "transaction_id \<Rightarrow> nat \<Rightarrow> nat \<Rightarrow> nat \<Rightarrow> sqlite_db \<Rightarrow> sqlite_db \<Rightarrow> bool" where
  "slots_changed tid b m n db db' \<longleftrightarrow>
     db' = db\<lparr> db_reservations := db_reservations db' \<rparr>
     \<and> rows_of tid (db_reservations db) = slots b m \<and> rows_of tid (db_reservations db') = slots b n
     \<and> (\<forall>i. i \<noteq> tid \<longrightarrow> rows_of i (db_reservations db') = rows_of i (db_reservations db))
     \<and> length (db_reservations db') + m = length (db_reservations db) + n
     \<and> bt_wf (db_reservations db')
     \<and> (\<forall>i k v. bt_get (db_reservations db') (i, k) = Some v \<longrightarrow>
           bt_get (db_reservations db) (i, k) \<noteq> None \<or> i = tid \<and> bt_contains (db_transactions db) tid)"

lemma slots_changed_refl:
  "bt_wf (db_reservations db) \<Longrightarrow> rows_of tid (db_reservations db) = slots b m
     \<Longrightarrow> slots_changed tid b m m db db"
  by (simp add: slots_changed_def)

lemma slots_changed_fields:
  "slots_changed tid b m n db db' \<Longrightarrow> db_transactions db' = db_transactions db
     \<and> db_generations db' = db_generations db \<and> db_audit_events db' = db_audit_events db"
  by (cases db; cases db') (simp add: slots_changed_def)

lemma slots_changed_trans:
  assumes "slots_changed tid b m n db db'" "slots_changed tid b n k db' db''"
  shows "slots_changed tid b m k db db''"
proof -
  have "db'' = db\<lparr> db_reservations := db_reservations db'' \<rparr>"
    using assms by (cases db; cases db'; cases db'') (simp add: slots_changed_def)
  moreover have t: "db_transactions db' = db_transactions db" using assms(1) by (simp add: slots_changed_fields)
  moreover have "bt_get (db_reservations db) (i, k) \<noteq> None \<or> i = tid \<and> bt_contains (db_transactions db) tid"
    if "bt_get (db_reservations db'') (i, k) = Some v" for i k v
  proof (cases "bt_get (db_reservations db') (i, k)")
    case None
    with that assms(2) have "i = tid \<and> bt_contains (db_transactions db') tid"
      unfolding slots_changed_def by blast
    with t show ?thesis by simp
  next
    case (Some w)
    with assms(1) show ?thesis unfolding slots_changed_def by blast
  qed
  ultimately show ?thesis
    using assms unfolding slots_changed_def by (intro conjI) simp_all
qed

lemma fill_slots:
  assumes "try_fold (\<lambda>db' slot.
       and_then (as_i64 slot) (\<lambda>slot'. and_then (ensure P e) (\<lambda>_.
       insert_reservation_row env tid slot' b db'))) db (map word_of_nat [m ..< n]) = Inr db'"
    and "m \<le> n" and "n < 2 ^ 64"
    and "bt_wf (db_reservations db)" and "rows_of tid (db_reservations db) = slots b m"
  shows "slots_changed tid b m n db db'"
  using assms
proof (induction "n - m" arbitrary: m db)
  case 0
  then show ?case by (simp add: slots_changed_refl)
next
  case (Suc d)
  then have mn: "m < n" by simp
  let ?R = "bt_insert (tid, word_of_nat m) b (db_reservations db)"
  let ?d = "db\<lparr> db_reservations := ?R \<rparr>"
  have split: "map (word_of_nat :: nat \<Rightarrow> u64) [m ..< n] = word_of_nat m # map word_of_nat [Suc m ..< n]"
    using mn by (simp add: upt_conv_Cons)
  obtain d1 where d1: "insert_reservation_row env tid (word_of_nat m) b db = Inr d1"
    and rest: "try_fold (\<lambda>db' slot.
       and_then (as_i64 slot) (\<lambda>slot'. and_then (ensure P e) (\<lambda>_.
       insert_reservation_row env tid slot' b db'))) d1 (map word_of_nat [Suc m ..< n]) = Inr db'"
    using Suc.prems(1) unfolding split by (auto simp: result_simps as_i64_def split: if_splits)
  note ins = insert_reservation_row_ok [OF d1]
  have new: "\<not> bt_contains (db_reservations db) (tid, word_of_nat m)" using ins by (simp add: bt_contains_def)
  have keys: "\<forall>k \<in> set (bt_keys (slots b m)). k < word_of_nat m"
    using slots_keys_less [of m _ b] mn Suc.prems(3) by auto
  have rows: "rows_of tid ?R = slots b (Suc m)"
    using Suc.prems(4,5) bt_insert_last [OF keys, of b] by (simp add: rows_of_update)
  have step: "slots_changed tid b m (Suc m) db d1"
    using ins Suc.prems(4,5) rows new
    by (auto simp: slots_changed_def rows_of_update bt_insert_wf length_bt_insert bt_get_insert split: if_splits)
  have "slots_changed tid b (Suc m) n d1 db'"
  proof (rule Suc.hyps(1))
    show "d = n - Suc m" using Suc.hyps(2) by simp
    show "Suc m \<le> n" using mn by simp
    show "bt_wf (db_reservations d1)" "rows_of tid (db_reservations d1) = slots b (Suc m)"
      using step by (simp_all add: slots_changed_def)
  qed (use rest Suc.prems(3) in auto)
  with step show ?case by (rule slots_changed_trans)
qed

lemma ensure_audit_reservations_ok:
  assumes "ensure_audit_reservations env tid n db = Inr db'" and "bt_wf (db_reservations db)"
  shows "\<exists>b m. reservation_bytes env = Inr b \<and> m \<le> unat n \<and> slots_changed tid b m (unat n) db db'"
proof -
  obtain b c where b: "reservation_bytes env = Inr b"
    and c: "reservation_scan b (rows_of tid (db_reservations db)) = Inr c" "c \<le> n"
    and f: "try_fold (\<lambda>db' slot.
       and_then (as_i64 slot) (\<lambda>slot'. and_then (ensure (b < 2 ^ 63) TxCapacityExceeded) (\<lambda>_.
       insert_reservation_row env tid slot' b db'))) db (map word_of_nat [unat c ..< unat n]) = Inr db'"
    using assms(1) by (auto simp: ensure_audit_reservations_def result_simps)
  have "unat c \<le> unat n" using c(2) by (simp add: word_le_nat_alt)
  moreover have "unat n < 2 ^ 64" using unat_lt_64 [of n] by simp
  ultimately show ?thesis
    using fill_slots [OF f] assms(2) reservation_scan_ok [OF c(1)] b by blast
qed

lemma consume_audit_reservation_ok:
  assumes "consume_audit_reservation env tid db = Inr db'" and "reservation_bytes env = Inr b"
    and "bt_wf (db_reservations db)" and "rows_of tid (db_reservations db) = slots b (Suc n)"
  shows "slots_changed tid b (Suc n) n db db'"
proof -
  let ?k = "(tid, word_of_nat n :: u64)"
  have db': "db' = db\<lparr> db_reservations := bt_remove ?k (db_reservations db) \<rparr>"
    and mem: "bt_contains (db_reservations db) ?k"
    using assms(1,2,4)
    by (auto simp: consume_audit_reservation_def result_simps Let_def delete_reservation_row_def split: if_splits)
  have "bt_wf (slots b n @ [(word_of_nat n, b)])"
    using rows_of_wf [OF assms(3), of tid] assms(4) by simp
  then have "rows_of tid (bt_remove ?k (db_reservations db)) = slots b n"
    using assms(3,4) by (simp add: rows_of_update bt_remove_last)
  moreover have "0 < length (db_reservations db)"
    using mem by (auto simp: bt_contains_keys bt_keys_def)
  ultimately show ?thesis
    using assms(3,4) db' mem
    by (auto simp: slots_changed_def rows_of_update bt_remove_wf length_bt_remove bt_get_remove split: if_splits)
qed

end
