(* ===== verification/Store_Moves.thy ===== *)
theory Store_Moves
  imports Store_Tables
begin

text \<open>
  What each operation of the SQLite store does to the tables when it succeeds: a successful body is one
  \<open>store_move\<close>, which changes the rows of a single transaction and appends to its audit log.
\<close>

section \<open>Reads\<close>

lemma corrupt_ok [simp]: "corrupt r = Inr a \<longleftrightarrow> r = Inr a" "corrupt_id s = Inr b \<longleftrightarrow> s = Inr b"
  by (simp_all add: corrupt_def corrupt_id_def)

lemma state_parse_ok: "transaction_state_parse s = Inr st \<longleftrightarrow> s = transaction_state_as_str st"
  by (cases st) (auto simp: transaction_state_parse_def)

lemma state_as_str_inject [simp]: "transaction_state_as_str a = transaction_state_as_str b \<longleftrightarrow> a = b"
  by (metis state_parse_ok sum.inject(2))

definition audit_rows :: "transaction_id \<Rightarrow> sqlite_db \<Rightarrow> stored_audit_event list" where
  "audit_rows tid db = map snd (rows_of tid (db_audit_events db))"

definition last_event :: "stored_audit_event list \<Rightarrow> stored_audit_event option" where
  "last_event es = (if es = [] then None else Some (last es))"

lemma read_audit_event_ok:
  "read_audit_event cr key r = Inr e \<longleftrightarrow>
     e = r \<and> audit_bounds r \<and> unat (sa_event_sequence r) < 2 ^ 63 \<and> unat (sa_generation r) < 2 ^ 63
     \<and> unat (sa_state_version r) < 2 ^ 63 \<and> authenticate_audit cr key r = Inr ()"
  by (auto simp: read_audit_event_def result_simps column_u64_def split: if_splits)

lemma load_last_audit_event_ok:
  "load_last_audit_event cr env key db tid = Inr l \<Longrightarrow>
     l = last_event (audit_rows tid db) \<and> (\<forall>e. l = Some e \<longrightarrow> read_audit_event cr key e = Inr e)"
  by (auto simp: load_last_audit_event_def result_simps Let_def audit_rows_def last_event_def
      read_audit_event_ok split: if_splits)

lemma load_transaction_ok:
  "load_transaction cr env key db tid = Inr t \<Longrightarrow> bt_get (db_transactions db) tid = Some t
     \<and> authenticate_transaction cr key t = Inr ()"
  by (auto simp: load_transaction_def result_simps)

lemma load_generation_ok:
  "load_generation cr env key db tid n = Inr g \<Longrightarrow> bt_get (db_generations db) (tid, n) = Some g
     \<and> authenticate_generation cr key g = Inr ()"
  by (auto simp: load_generation_def result_simps)

lemma load_current_ok:
  assumes "load_current cr env key db tid = Inr (t, g, snap)" and "db_wf db"
  shows "bt_get (db_transactions db) tid = Some t"
    "bt_get (db_generations db) (tid, st_current_generation t) = Some g"
    "st_transaction_id t = tid" "sg_transaction_id g = tid" "sg_generation g = st_current_generation t"
    "snap = \<lparr> snap_transaction_id = tid, snap_principal = st_principal t, snap_request_id = st_request_id t,
       snap_current_generation = st_current_generation t, snap_state_version = st_state_version t,
       snap_state = snap_state snap, snap_binding_digest = sg_binding_digest g \<rparr>"
    "sg_state g = transaction_state_as_str (snap_state snap)"
    "for_namespace cr (st_principal t) (st_request_id t) = tid"
    "\<exists>e. last_event (audit_rows tid db) = Some e \<and> sa_generation e = st_current_generation t
       \<and> sa_state_version e = st_state_version t \<and> state_for_event_kind (sa_event_kind e) = Inr (snap_state snap)"
    "transaction_id_new tid = Inr tid" "content_digest_new (sg_binding_digest g) = Inr (sg_binding_digest g)"
proof -
  obtain l where t: "load_transaction cr env key db tid = Inr t"
    and g: "load_generation cr env key db tid (st_current_generation t) = Inr g"
    and snap: "snapshot_from_records cr t g = Inr snap"
    and l: "load_last_audit_event cr env key db tid = Inr (Some l)"
    and tail: "sa_generation l = snap_current_generation snap" "sa_state_version l = snap_state_version snap"
      "state_for_event_kind (sa_event_kind l) = Inr (snap_state snap)"
    using assms(1) by (auto simp: load_current_def result_simps split: if_splits)
  show t': "bt_get (db_transactions db) tid = Some t" using load_transaction_ok [OF t] by simp
  show "bt_get (db_generations db) (tid, st_current_generation t) = Some g"
    using load_generation_ok [OF g] by simp
  show tid: "st_transaction_id t = tid" using db_wf_D(5) [OF assms(2) t'] .
  have ids: "st_transaction_id t = sg_transaction_id g" "st_current_generation t = sg_generation g"
    using snap by (auto simp: snapshot_from_records_def result_simps)
  then show "sg_transaction_id g = tid" "sg_generation g = st_current_generation t" using tid by simp_all
  have id: "typed_id_new a b = Inr c \<Longrightarrow> c = b" for a b c by (auto simp: typed_id_new_def result_simps Let_def split: if_splits)
  have tn: "transaction_id_new a = Inr b \<Longrightarrow> b = a" for a b
    by (auto simp: transaction_id_new_def result_simps)
  have dn: "content_digest_new a = Inr b \<Longrightarrow> b = a" for a b using content_digest_length by blast
  have parts: "snap_transaction_id snap = tid \<and> transaction_id_new tid = Inr tid \<and> snap_principal snap = st_principal t
      \<and> snap_request_id snap = st_request_id t \<and> snap_current_generation snap = st_current_generation t
      \<and> snap_state_version snap = st_state_version t \<and> snap_binding_digest snap = sg_binding_digest g
      \<and> content_digest_new (sg_binding_digest g) = Inr (sg_binding_digest g)
      \<and> sg_state g = transaction_state_as_str (snap_state snap)
      \<and> for_namespace cr (st_principal t) (st_request_id t) = tid"
    using snap tid ids unfolding snapshot_from_records_def
    by (auto simp: result_simps state_parse_ok dest: id tn dn)
  show "snap = \<lparr> snap_transaction_id = tid, snap_principal = st_principal t, snap_request_id = st_request_id t,
       snap_current_generation = st_current_generation t, snap_state_version = st_state_version t,
       snap_state = snap_state snap, snap_binding_digest = sg_binding_digest g \<rparr>"
    using parts by (cases snap) simp
  show "sg_state g = transaction_state_as_str (snap_state snap)"
    "for_namespace cr (st_principal t) (st_request_id t) = tid"
    "transaction_id_new tid = Inr tid" "content_digest_new (sg_binding_digest g) = Inr (sg_binding_digest g)"
    using parts by simp_all
  show "\<exists>e. last_event (audit_rows tid db) = Some e \<and> sa_generation e = st_current_generation t
       \<and> sa_state_version e = st_state_version t \<and> state_for_event_kind (sa_event_kind e) = Inr (snap_state snap)"
    using load_last_audit_event_ok [OF l] tail parts by (intro exI [of _ l]) simp
qed

section \<open>Appending to the audit log\<close>

definition audit_row ::
  "crypto \<Rightarrow> integrity_key \<Rightarrow> transaction_id \<Rightarrow> u64 \<Rightarrow> content_digest \<Rightarrow> u64 \<times> u64 \<times> string \<times> content_digest
     \<Rightarrow> stored_audit_event" where
  "audit_row cr key tid sequence previous ev = (case ev of (generation, version, kind, payload) \<Rightarrow>
     let r0 = \<lparr> sa_transaction_id = tid, sa_event_sequence = sequence, sa_generation = generation,
                sa_state_version = version, sa_event_kind = kind, sa_payload_digest = payload,
                sa_previous_digest = previous,
                sa_event_digest = audit_digest cr tid sequence generation version kind payload previous,
                sa_integrity_tag = [] \<rparr> in
     r0\<lparr> sa_integrity_tag := audit_tag cr key r0 \<rparr>)"

lemma audit_row_sel [simp]:
  "sa_transaction_id (audit_row cr key tid n p ev) = tid"
  "sa_event_sequence (audit_row cr key tid n p ev) = n"
  "sa_previous_digest (audit_row cr key tid n p ev) = p"
  "sa_generation (audit_row cr key tid n p ev) = fst ev"
  "sa_state_version (audit_row cr key tid n p ev) = fst (snd ev)"
  "sa_event_kind (audit_row cr key tid n p ev) = fst (snd (snd ev))"
  "sa_payload_digest (audit_row cr key tid n p ev) = snd (snd (snd ev))"
  "sa_event_digest (audit_row cr key tid n p ev) =
     audit_digest cr tid n (fst ev) (fst (snd ev)) (fst (snd (snd ev))) (snd (snd (snd ev))) p"
  by (simp_all add: audit_row_def Let_def split: prod.splits)

text \<open>The rows a list of events adds after the last row present.\<close>

fun audit_extends ::
  "crypto \<Rightarrow> integrity_key \<Rightarrow> transaction_id \<Rightarrow> stored_audit_event option
     \<Rightarrow> (u64 \<times> u64 \<times> string \<times> content_digest) list \<Rightarrow> stored_audit_event list \<Rightarrow> bool" where
  "audit_extends cr key tid l [] es \<longleftrightarrow> es = []"
| "audit_extends cr key tid l (ev # evs) es \<longleftrightarrow>
     (\<exists>n p es'. audit_successor l = Inr (n, p) \<and> unat n < 2 ^ 63
        \<and> audit_events_check (audit_row cr key tid n p ev)
        \<and> es = audit_row cr key tid n p ev # es'
        \<and> audit_extends cr key tid (Some (audit_row cr key tid n p ev)) evs es')"

lemma append_audit_ok:
  assumes "append_audit cr env limits key tid gen ver kind payload consume db = Inr db'"
  shows "\<exists>n p dbc. audit_successor (last_event (audit_rows tid db)) = Inr (n, p) \<and> unat n < 2 ^ 63
    \<and> audit_events_check (audit_row cr key tid n p (gen, ver, kind, payload))
    \<and> (if consume then consume_audit_reservation env tid db = Inr dbc else dbc = db)
    \<and> db' = dbc\<lparr> db_audit_events := bt_insert (tid, n) (audit_row cr key tid n p (gen, ver, kind, payload))
                  (db_audit_events dbc) \<rparr>
    \<and> bt_get (db_audit_events dbc) (tid, n) = None
    \<and> usize_saturating_add (count_audit_events db) 1 \<le> unat (max_audit_events limits)"
proof -
  obtain l n p dbc where l: "load_last_audit_event cr env key db tid = Inr l"
    and np: "audit_successor l = Inr (n, p)" "as_i64 n = Inr n"
    and dbc: "(if consume then consume_audit_reservation env tid db else Inr db) = Inr dbc"
    and ins: "insert_audit_row env (audit_row cr key tid n p (gen, ver, kind, payload)) dbc = Inr db'"
    and cap: "usize_saturating_add (count_audit_events db) 1 \<le> unat (max_audit_events limits)"
    using assms
    by (auto simp: append_audit_def result_simps Let_def audit_row_def check_count_capacity_def as_i64_def
        split: if_splits)
  have "l = last_event (audit_rows tid db)" using load_last_audit_event_ok [OF l] by simp
  with np dbc insert_audit_row_ok [OF ins] cap show ?thesis
    by (intro exI [of _ n] exI [of _ p] exI [of _ dbc]) (auto simp: as_i64_def split: if_splits)
qed

lemma last_event_append [simp]: "last_event (es @ [e]) = Some e"
  by (simp add: last_event_def)

lemma audit_rows_insert:
  assumes "db_wf db" and "audit_successor (last_event (audit_rows tid db)) = Inr (n, p)"
    and "db' = dbc\<lparr> db_audit_events := bt_insert (tid, n) e (db_audit_events dbc) \<rparr>"
    and "db_audit_events dbc = db_audit_events db"
  shows "rows_of tid (db_audit_events db') = rows_of tid (db_audit_events db) @ [(n, e)]"
    "audit_rows tid db' = audit_rows tid db @ [e]"
    "\<And>i. i \<noteq> tid \<Longrightarrow> rows_of i (db_audit_events db') = rows_of i (db_audit_events db)"
proof -
  let ?rows = "rows_of tid (db_audit_events db)"
  note wf = db_wf_D(3) [OF assms(1)]
  have "\<forall>k \<in> set (bt_keys ?rows). k < n"
  proof
    fix k assume k: "k \<in> set (bt_keys ?rows)"
    then have ne: "?rows \<noteq> []" by auto
    then obtain m r where m: "last ?rows = (m, r)" by (metis surj_pair)
    with ne have "(m, r) \<in> set ?rows" by (metis last_in_set)
    then have "bt_get (db_audit_events db) (tid, m) = Some r"
      using bt_get_wf_iff [OF rows_of_wf [OF wf], of tid m r] by (simp add: bt_get_rows_of)
    then have m_seq: "sa_event_sequence r = m" using db_wf_D(7) [OF assms(1)] by blast
    have "last_event (audit_rows tid db) = Some r"
      using ne m by (simp add: last_event_def audit_rows_def last_map)
    then have "checked_add m 1 = Some n" using assms(2) m_seq by (auto simp: audit_successor_def result_simps)
    then have "unat n = unat m + 1" using unat_checked_add by fastforce
    moreover have "k \<le> m" using bt_wf_last [OF rows_of_wf [OF wf] ne k] m by simp
    ultimately show "k < n" by (simp add: word_less_nat_alt word_le_nat_alt)
  qed
  then show r: "rows_of tid (db_audit_events db') = ?rows @ [(n, e)]"
    using assms(3,4) wf by (simp add: rows_of_update bt_insert_last)
  then show "audit_rows tid db' = audit_rows tid db @ [e]" by (simp add: audit_rows_def)
  show "\<And>i. i \<noteq> tid \<Longrightarrow> rows_of i (db_audit_events db') = rows_of i (db_audit_events db)"
    using assms(3,4) wf by (simp add: rows_of_update)
qed

section \<open>Keeping the tables well formed\<close>

lemma db_wf_put_transaction:
  "db_wf db \<Longrightarrow> st_transaction_id t = tid
     \<Longrightarrow> db_wf (db\<lparr> db_transactions := bt_insert tid t (db_transactions db) \<rparr>)"
  unfolding db_wf_iff
  by (auto simp: bt_insert_wf bt_get_insert bt_contains_def split: if_splits)

lemma db_wf_put_generation:
  "db_wf db \<Longrightarrow> sg_transaction_id g = tid \<Longrightarrow> sg_generation g = n \<Longrightarrow> bt_contains (db_transactions db) tid
     \<Longrightarrow> db_wf (db\<lparr> db_generations := bt_insert (tid, n) g (db_generations db) \<rparr>)"
  unfolding db_wf_iff
  by (auto simp: bt_insert_wf bt_get_insert split: if_splits)

lemma db_wf_put_audit:
  "db_wf db \<Longrightarrow> sa_transaction_id e = tid \<Longrightarrow> sa_event_sequence e = n \<Longrightarrow> bt_contains (db_transactions db) tid
     \<Longrightarrow> db_wf (db\<lparr> db_audit_events := bt_insert (tid, n) e (db_audit_events db) \<rparr>)"
  unfolding db_wf_iff
  by (auto simp: bt_insert_wf bt_get_insert split: if_splits)

lemma db_wf_slots_changed:
  assumes "db_wf db" and "slots_changed tid b m n db db'"
  shows "db_wf db'"
proof -
  have eq: "db_transactions db' = db_transactions db" "db_generations db' = db_generations db"
    "db_audit_events db' = db_audit_events db"
    using slots_changed_fields [OF assms(2)] by simp_all
  have "bt_contains (db_transactions db) i" if "bt_get (db_reservations db') (i, k) = Some v" for i k v
  proof (cases "bt_get (db_reservations db) (i, k)")
    case None
    with that assms(2) show ?thesis unfolding slots_changed_def by blast
  next
    case (Some w)
    then show ?thesis by (rule db_wf_D(8) [OF assms(1)])
  qed
  then have fk: "\<forall>i k v. bt_get (db_reservations db') (i, k) = Some v \<longrightarrow> bt_contains (db_transactions db) i"
    by blast
  have wf: "bt_wf (db_reservations db')" using assms(2) by (simp add: slots_changed_def)
  show ?thesis
    using assms(1) fk wf unfolding db_wf_iff eq by (elim conjE, intro conjI) assumption+
qed

section \<open>One transaction moves\<close>

text \<open>The whole effect of an operation on the tables: only transaction \<open>tid\<close> moves, to the pointer row
  \<open>t\<close>, with generation rows \<open>gs\<close> written, audit events \<open>evs\<close> appended and its reservation slots going
  from \<open>m\<close> to \<open>n\<close>.\<close>

definition advanced ::
  "crypto \<Rightarrow> integrity_key \<Rightarrow> transaction_id \<Rightarrow> stored_transaction \<Rightarrow> stored_generation list
     \<Rightarrow> (u64 \<times> u64 \<times> string \<times> content_digest) list \<Rightarrow> nat \<Rightarrow> nat \<Rightarrow> nat \<Rightarrow> sqlite_db \<Rightarrow> sqlite_db \<Rightarrow> bool" where
  "advanced cr key tid t gs evs b m n db db' \<longleftrightarrow>
     db_wf db' \<and> st_transaction_id t = tid
     \<and> db_transactions db' = bt_insert tid t (db_transactions db)
     \<and> db_generations db' = fold (\<lambda>g. bt_insert (tid, sg_generation g) g) gs (db_generations db)
     \<and> (\<exists>es. audit_extends cr key tid (last_event (audit_rows tid db)) evs es
          \<and> audit_rows tid db' = audit_rows tid db @ es)
     \<and> (\<forall>i. i \<noteq> tid \<longrightarrow> rows_of i (db_audit_events db') = rows_of i (db_audit_events db))
     \<and> length (db_audit_events db') = length (db_audit_events db) + length evs
     \<and> rows_of tid (db_reservations db) = slots b m \<and> rows_of tid (db_reservations db') = slots b n
     \<and> (\<forall>i. i \<noteq> tid \<longrightarrow> rows_of i (db_reservations db') = rows_of i (db_reservations db))
     \<and> length (db_reservations db') + m = length (db_reservations db) + n"

lemma advancedD:
  assumes "advanced cr key tid t gs evs b m n db db'"
  shows "db_wf db'" "st_transaction_id t = tid"
    "db_transactions db' = bt_insert tid t (db_transactions db)"
    "db_generations db' = fold (\<lambda>g. bt_insert (tid, sg_generation g) g) gs (db_generations db)"
    "\<exists>es. audit_extends cr key tid (last_event (audit_rows tid db)) evs es
       \<and> audit_rows tid db' = audit_rows tid db @ es"
    "i \<noteq> tid \<Longrightarrow> rows_of i (db_audit_events db') = rows_of i (db_audit_events db)"
    "length (db_audit_events db') = length (db_audit_events db) + length evs"
    "rows_of tid (db_reservations db) = slots b m" "rows_of tid (db_reservations db') = slots b n"
    "i \<noteq> tid \<Longrightarrow> rows_of i (db_reservations db') = rows_of i (db_reservations db)"
    "length (db_reservations db') + m = length (db_reservations db) + n"
    "bt_get (db_transactions db') tid = Some t" "bt_contains (db_transactions db') tid"
  using assms unfolding advanced_def by (simp_all add: bt_get_insert bt_contains_def)

lemma advanced_refl:
  assumes "db_wf db" "bt_get (db_transactions db) tid = Some t" "rows_of tid (db_reservations db) = slots b m"
  shows "advanced cr key tid t [] [] b m m db db"
  using assms db_wf_D(1,5) [OF assms(1)] unfolding advanced_def by (simp add: bt_insert_id)

lemma advanced_put_transaction:
  assumes "advanced cr key tid t gs evs b m n db db'" "st_transaction_id t' = tid" "db_wf db"
  shows "advanced cr key tid t' gs evs b m n db
    (db'\<lparr> db_transactions := bt_insert tid t' (db_transactions db') \<rparr>)"
  using assms db_wf_put_transaction [of db' t' tid] bt_insert_insert [OF db_wf_D(1) [OF assms(3)]]
  unfolding advanced_def by (auto simp: audit_rows_def)

lemma advanced_put_generation:
  assumes "advanced cr key tid t gs evs b m n db db'" "sg_transaction_id g = tid"
  shows "advanced cr key tid t (gs @ [g]) evs b m n db
    (db'\<lparr> db_generations := bt_insert (tid, sg_generation g) g (db_generations db') \<rparr>)"
  using assms advancedD(13) [OF assms(1)] db_wf_put_generation [of db' g tid]
  unfolding advanced_def by (auto simp: audit_rows_def)

lemma advanced_slots:
  assumes "advanced cr key tid t gs evs b m n db db'" "slots_changed tid b n k db' db''"
  shows "advanced cr key tid t gs evs b m k db db''"
proof -
  have "db_wf db''" using advancedD(1) [OF assms(1)] assms(2) by (rule db_wf_slots_changed)
  then show ?thesis
    using assms slots_changed_fields [OF assms(2)] unfolding advanced_def slots_changed_def
    by (auto simp: audit_rows_def)
qed

lemma audit_extends_snoc:
  assumes "audit_extends cr key tid (last_event rows) evs es"
    and "audit_successor (last_event (rows @ es)) = Inr (n, p)" and "unat n < 2 ^ 63"
    and "audit_events_check (audit_row cr key tid n p ev)"
  shows "audit_extends cr key tid (last_event rows) (evs @ [ev]) (es @ [audit_row cr key tid n p ev])"
  using assms
proof (induction evs arbitrary: rows es)
  case (Cons e evs)
  then obtain n' p' es' where e: "audit_successor (last_event rows) = Inr (n', p')" "unat n' < 2 ^ 63"
      "audit_events_check (audit_row cr key tid n' p' e)" "es = audit_row cr key tid n' p' e # es'"
    and rest: "audit_extends cr key tid (Some (audit_row cr key tid n' p' e)) evs es'"
    by auto
  have "audit_extends cr key tid (last_event (rows @ [audit_row cr key tid n' p' e]))
      (evs @ [ev]) (es' @ [audit_row cr key tid n p ev])"
  proof (rule Cons.IH)
    show "audit_extends cr key tid (last_event (rows @ [audit_row cr key tid n' p' e])) evs es'"
      using rest by simp
    show "audit_successor (last_event ((rows @ [audit_row cr key tid n' p' e]) @ es')) = Inr (n, p)"
      using Cons.prems(2) e(4) by simp
  qed (use Cons.prems(3,4) in simp_all)
  with e show ?case by simp
qed simp

lemma advanced_event:
  assumes adv: "advanced cr key tid t gs evs b m n db dbc"
    and succ: "audit_successor (last_event (audit_rows tid dbc)) = Inr (s, p)" "unat s < 2 ^ 63"
    and chk: "audit_events_check (audit_row cr key tid s p ev)"
    and new: "bt_get (db_audit_events dbc) (tid, s) = None"
  shows "advanced cr key tid t gs (evs @ [ev]) b m n db (dbc\<lparr> db_audit_events :=
    bt_insert (tid, s) (audit_row cr key tid s p ev) (db_audit_events dbc) \<rparr>)"
    (is "advanced _ _ _ _ _ _ _ _ _ _ ?d")
proof -
  note wf = advancedD(1) [OF adv]
  obtain es where es: "audit_extends cr key tid (last_event (audit_rows tid db)) evs es"
      "audit_rows tid dbc = audit_rows tid db @ es"
    using advancedD(5) [OF adv] by blast
  note rows = audit_rows_insert [where e = "audit_row cr key tid s p ev", OF wf succ(1) refl refl]
  have "audit_extends cr key tid (last_event (audit_rows tid db)) (evs @ [ev]) (es @ [audit_row cr key tid s p ev])"
    using audit_extends_snoc [OF es(1) _ succ(2) chk] succ(1) es(2) by simp
  moreover have "db_wf ?d" using wf advancedD(13) [OF adv] by (intro db_wf_put_audit) simp_all
  moreover have "length (db_audit_events ?d) = length (db_audit_events dbc) + 1"
    using new length_bt_insert [OF db_wf_D(3) [OF wf]] by (simp add: bt_contains_def)
  ultimately show ?thesis
    using adv rows es(2) unfolding advanced_def by auto
qed

lemma advanced_append:
  assumes adv: "advanced cr key tid t gs evs b m (Suc n) db db'" and b: "reservation_bytes env = Inr b"
    and app: "append_audit cr env limits key tid gen ver kind payload True db' = Inr db''"
  shows "advanced cr key tid t gs (evs @ [(gen, ver, kind, payload)]) b m n db db''"
proof -
  obtain s p dbc where a: "audit_successor (last_event (audit_rows tid db')) = Inr (s, p)" "unat s < 2 ^ 63"
      "audit_events_check (audit_row cr key tid s p (gen, ver, kind, payload))"
      "bt_get (db_audit_events dbc) (tid, s) = None"
    and c: "consume_audit_reservation env tid db' = Inr dbc"
    and db'': "db'' = dbc\<lparr> db_audit_events :=
      bt_insert (tid, s) (audit_row cr key tid s p (gen, ver, kind, payload)) (db_audit_events dbc) \<rparr>"
    using append_audit_ok [OF app] by auto
  have sl: "slots_changed tid b (Suc n) n db' dbc"
    using consume_audit_reservation_ok [OF c b db_wf_D(4) [OF advancedD(1) [OF adv]]] advancedD(9) [OF adv] .
  then have "audit_rows tid dbc = audit_rows tid db'" by (simp add: audit_rows_def slots_changed_fields)
  with advanced_event [OF advanced_slots [OF adv sl]] a db'' show ?thesis by simp
qed

lemma advanced_append_free:
  assumes adv: "advanced cr key tid t gs evs b m n db db'"
    and app: "append_audit cr env limits key tid gen ver kind payload False db' = Inr db''"
  shows "advanced cr key tid t gs (evs @ [(gen, ver, kind, payload)]) b m n db db''"
  using append_audit_ok [OF app] advanced_event [OF adv] by auto

section \<open>The moves of the store\<close>

definition pointed :: "crypto \<Rightarrow> integrity_key \<Rightarrow> stored_transaction \<Rightarrow> u64 \<Rightarrow> u64 \<Rightarrow> stored_transaction" where
  "pointed cr key t gen ver = (let t' = t\<lparr> st_current_generation := gen, st_state_version := ver \<rparr> in
     t'\<lparr> st_integrity_tag := transaction_tag cr key t' \<rparr>)"

definition with_state :: "crypto \<Rightarrow> integrity_key \<Rightarrow> transaction_state \<Rightarrow> stored_generation \<Rightarrow> stored_generation" where
  "with_state cr key st g = (let g' = g\<lparr> sg_state := transaction_state_as_str st \<rparr> in
     g'\<lparr> sg_integrity_tag := generation_tag cr key g' \<rparr>)"

definition with_material ::
  "crypto \<Rightarrow> integrity_key \<Rightarrow> content_digest \<Rightarrow> content_digest \<Rightarrow> content_digest \<Rightarrow> stored_generation
     \<Rightarrow> stored_generation" where
  "with_material cr key d gr p g = (let g' = g\<lparr> sg_state := transaction_state_as_str TxVerified,
       sg_desired_state_digest := Some d, sg_graph_digest := Some gr, sg_provenance_digest := Some p \<rparr> in
     g'\<lparr> sg_integrity_tag := generation_tag cr key g' \<rparr>)"

definition fresh_generation :: "crypto \<Rightarrow> integrity_key \<Rightarrow> authority_binding \<Rightarrow> u64 \<Rightarrow> stored_generation" where
  "fresh_generation cr key binding n = (let g' = \<lparr> sg_transaction_id = binding_transaction_id cr binding,
       sg_generation = n, sg_state = transaction_state_as_str TxPrepared, sg_binding_digest = ab_digest binding,
       sg_binding_canonical = ab_canonical binding, sg_request_digest = ab_request_digest binding,
       sg_precondition_digest = ab_precondition_digest binding,
       sg_observation_digest = ab_observation_digest binding, sg_desired_state_digest = None,
       sg_graph_digest = None, sg_provenance_digest = None, sg_integrity_tag = [] \<rparr> in
     g'\<lparr> sg_integrity_tag := generation_tag cr key g' \<rparr>)"

definition fresh_transaction :: "crypto \<Rightarrow> integrity_key \<Rightarrow> authority_binding \<Rightarrow> stored_transaction" where
  "fresh_transaction cr key binding = (let t' = \<lparr> st_transaction_id = binding_transaction_id cr binding,
       st_principal = ab_principal binding, st_request_id = ab_request_id binding,
       st_current_generation = 0, st_state_version = 1, st_integrity_tag = [] \<rparr> in
     t'\<lparr> st_integrity_tag := transaction_tag cr key t' \<rparr>)"

lemmas row_defs = pointed_def with_state_def with_material_def fresh_generation_def fresh_transaction_def

lemma row_sel [simp]:
  "st_transaction_id (pointed cr key t gen ver) = st_transaction_id t"
  "st_principal (pointed cr key t gen ver) = st_principal t"
  "st_request_id (pointed cr key t gen ver) = st_request_id t"
  "st_current_generation (pointed cr key t gen ver) = gen"
  "st_state_version (pointed cr key t gen ver) = ver"
  "sg_transaction_id (with_state cr key st g) = sg_transaction_id g"
  "sg_generation (with_state cr key st g) = sg_generation g"
  "sg_state (with_state cr key st g) = transaction_state_as_str st"
  "sg_binding_digest (with_state cr key st g) = sg_binding_digest g"
  "commit_material_list (with_state cr key st g) = commit_material_list g"
  "sg_transaction_id (with_material cr key d gr p g) = sg_transaction_id g"
  "sg_generation (with_material cr key d gr p g) = sg_generation g"
  "sg_state (with_material cr key d gr p g) = transaction_state_as_str TxVerified"
  "sg_binding_digest (with_material cr key d gr p g) = sg_binding_digest g"
  "commit_material_list (with_material cr key d gr p g) = [Some d, Some gr, Some p]"
  "sg_transaction_id (fresh_generation cr key b n) = binding_transaction_id cr b"
  "sg_generation (fresh_generation cr key b n) = n"
  "sg_state (fresh_generation cr key b n) = transaction_state_as_str TxPrepared"
  "sg_binding_digest (fresh_generation cr key b n) = ab_digest b"
  "commit_material_list (fresh_generation cr key b n) = [None, None, None]"
  "st_transaction_id (fresh_transaction cr key b) = binding_transaction_id cr b"
  "st_principal (fresh_transaction cr key b) = ab_principal b"
  "st_request_id (fresh_transaction cr key b) = ab_request_id b"
  "st_current_generation (fresh_transaction cr key b) = 0"
  "st_state_version (fresh_transaction cr key b) = 1"
  by (simp_all add: row_defs Let_def commit_material_list_def)

datatype store_call =
    CallPrepare authority_binding
  | CallHandoff handoff_request
  | CallRecover recovery_request
  | CallCommit commit_request
  | CallAbort abort_request

text \<open>The committed effect of each operation, with what the code had checked by then.\<close>

inductive store_move ::
  "crypto \<Rightarrow> sqlite_env \<Rightarrow> store_limits \<Rightarrow> integrity_key \<Rightarrow> store_call \<Rightarrow> sqlite_db \<Rightarrow> sqlite_db \<Rightarrow> bool"
  for cr env limits key where
  move_prepare:
    "\<lbrakk> bt_get (db_transactions db) (binding_transaction_id cr bd) = None;
       usize_saturating_add (count_transactions db) 1 \<le> unat (max_transactions limits);
       usize_saturating_add (count_generations db) 1 \<le> unat (max_generations limits);
       check_logical_audit_reserve env limits 1 1 db = Inr ();
       transactions_check (fresh_transaction cr key bd); generations_check (fresh_generation cr key bd 0);
       reservation_bytes env = Inr b;
       advanced cr key (binding_transaction_id cr bd) (fresh_transaction cr key bd)
         [fresh_generation cr key bd 0] [(0, 1, ''prepared'', ab_digest bd)] b 0 1 db db' \<rbrakk>
     \<Longrightarrow> store_move cr env limits key (CallPrepare bd) db db'"
| move_handoff:
    "\<lbrakk> load_current cr env key db (hr_transaction_id r) = Inr (t, g, snap); snap_state snap = TxPrepared;
       hr_expected_generation r = st_current_generation t; hr_expected_state_version r = st_state_version t;
       hr_expected_binding_digest r = sg_binding_digest g; hr_authority_use_digest r \<noteq> zero_digest;
       enforce_authority_window env (hr_authorized_at r) (hr_expires_at r) = Inr ();
       check_logical_audit_reserve env limits 1 0 db = Inr ();
       checked_add (st_state_version t) 1 = Some v; unat v < 2 ^ 63; reservation_bytes env = Inr b;
       advanced cr key (hr_transaction_id r) (pointed cr key t (st_current_generation t) v)
         [with_state cr key TxIndeterminate g]
         [(st_current_generation t, v, ''handoff-indeterminate'', hr_authority_use_digest r)] b m 1 db db'; m \<le> 2 \<rbrakk>
     \<Longrightarrow> store_move cr env limits key (CallHandoff r) db db'"
| move_verified:
    "\<lbrakk> load_current cr env key db (rr_transaction_id r) = Inr (t, g, snap); snap_state snap = TxIndeterminate;
       rr_expected_generation r = st_current_generation t; rr_expected_state_version r = st_state_version t;
       rr_expected_binding_digest r = sg_binding_digest g;
       enforce_authority_window env (rr_authorized_at r) (rr_expires_at r) = Inr ();
       rr_resolution r = IntendedStateVerified observation d gr p;
       check_logical_audit_reserve env limits 1 0 db = Inr (); commit_material_list g = [None, None, None];
       checked_add (st_state_version t) 1 = Some v; unat v < 2 ^ 63; reservation_bytes env = Inr b;
       digest_text d; digest_text gr; digest_text p;
       advanced cr key (rr_transaction_id r) (pointed cr key t (st_current_generation t) v)
         [with_material cr key d gr p g]
         [(st_current_generation t, v, ''recovery-verified'', observation)] b m 1 db db'; m \<le> 2 \<rbrakk>
     \<Longrightarrow> store_move cr env limits key (CallRecover r) db db'"
| move_blocked:
    "\<lbrakk> load_current cr env key db (rr_transaction_id r) = Inr (t, g, snap); snap_state snap = TxIndeterminate;
       rr_expected_generation r = st_current_generation t; rr_expected_state_version r = st_state_version t;
       rr_expected_binding_digest r = sg_binding_digest g;
       enforce_authority_window env (rr_authorized_at r) (rr_expires_at r) = Inr ();
       rr_resolution r = ConflictingState observation;
       check_logical_audit_reserve env limits 1 (- 1) db = Inr ();
       checked_add (st_state_version t) 1 = Some v; unat v < 2 ^ 63; reservation_bytes env = Inr b;
       advanced cr key (rr_transaction_id r) (pointed cr key t (st_current_generation t) v)
         [with_state cr key TxRecoveryBlocked g]
         [(st_current_generation t, v, ''recovery-blocked'', observation)] b m 0 db db'; m \<le> 1 \<rbrakk>
     \<Longrightarrow> store_move cr env limits key (CallRecover r) db db'"
| move_ambiguous:
    "\<lbrakk> load_current cr env key db (rr_transaction_id r) = Inr (t, g, snap); snap_state snap = TxIndeterminate;
       rr_expected_generation r = st_current_generation t; rr_expected_state_version r = st_state_version t;
       rr_expected_binding_digest r = sg_binding_digest g;
       enforce_authority_window env (rr_authorized_at r) (rr_expires_at r) = Inr ();
       rr_resolution r = Ambiguous observation;
       check_logical_audit_reserve env limits 1 0 db = Inr ();
       checked_add (st_state_version t) 1 = Some v; unat v < 2 ^ 63; reservation_bytes env = Inr b;
       advanced cr key (rr_transaction_id r) (pointed cr key t (st_current_generation t) v)
         [g] [(st_current_generation t, v, ''recovery-ambiguous'', observation)] b m 1 db db'; m \<le> 2 \<rbrakk>
     \<Longrightarrow> store_move cr env limits key (CallRecover r) db db'"
| move_absent:
    "\<lbrakk> load_current cr env key db (rr_transaction_id r) = Inr (t, g, snap); snap_state snap = TxIndeterminate;
       rr_expected_generation r = st_current_generation t; rr_expected_state_version r = st_state_version t;
       rr_expected_binding_digest r = sg_binding_digest g;
       enforce_authority_window env (rr_authorized_at r) (rr_expires_at r) = Inr ();
       rr_resolution r = IntendedEffectAbsent observation bd;
       binding_transaction_id cr bd = rr_transaction_id r;
       checked_add (st_current_generation t) 1 = Some n; n < MAX_TRANSACTION_GENERATIONS;
       usize_saturating_add (count_generations db) 1 \<le> unat (max_generations limits);
       check_logical_audit_reserve env limits 2 0 db = Inr (); generations_check (fresh_generation cr key bd n);
       bt_get (db_generations db) (rr_transaction_id r, n) = None;
       checked_add (st_state_version t) 1 = Some v; unat v < 2 ^ 63; reservation_bytes env = Inr b;
       advanced cr key (rr_transaction_id r) (pointed cr key t n v)
         [with_state cr key TxAborted g, fresh_generation cr key bd n]
         [(st_current_generation t, v, ''recovery-retired-no-effect'', observation),
          (n, v, ''recovery-reprepared'', ab_digest bd)] b m 1 db db'; m \<le> 3 \<rbrakk>
     \<Longrightarrow> store_move cr env limits key (CallRecover r) db db'"
| move_commit:
    "\<lbrakk> load_current cr env key db (cr_transaction_id r) = Inr (t, g, snap); snap_state snap = TxVerified;
       cr_expected_generation r = st_current_generation t; cr_expected_state_version r = st_state_version t;
       cr_expected_binding_digest r = sg_binding_digest g;
       commit_material_list g = [Some (cr_desired_state_digest r), Some (cr_graph_digest r), Some (cr_provenance_digest r)];
       check_logical_audit_reserve env limits 1 (- 1) db = Inr ();
       checked_add (st_state_version t) 1 = Some v; unat v < 2 ^ 63; reservation_bytes env = Inr b;
       advanced cr key (cr_transaction_id r) (pointed cr key t (st_current_generation t) v)
         [with_state cr key TxCommitted g]
         [(st_current_generation t, v, ''committed'',
           commit_payload cr (cr_desired_state_digest r) (cr_graph_digest r) (cr_provenance_digest r))]
         b m 0 db db'; m \<le> 1 \<rbrakk>
     \<Longrightarrow> store_move cr env limits key (CallCommit r) db db'"
| move_abort:
    "\<lbrakk> load_current cr env key db (ar_transaction_id r) = Inr (t, g, snap); snap_state snap = TxPrepared;
       ar_expected_generation r = st_current_generation t; ar_expected_state_version r = st_state_version t;
       check_logical_audit_reserve env limits 1 (- 1) db = Inr ();
       checked_add (st_state_version t) 1 = Some v; unat v < 2 ^ 63; reservation_bytes env = Inr b;
       advanced cr key (ar_transaction_id r) (pointed cr key t (st_current_generation t) v)
         [with_state cr key TxAborted g]
         [(st_current_generation t, v, ''aborted-prepared'', ar_reason_digest r)] b m 0 db db'; m \<le> 1 \<rbrakk>
     \<Longrightarrow> store_move cr env limits key (CallAbort r) db db'"

lemma pointer_advanced:
  assumes "update_transaction_pointer cr env key t gen ver db' = Inr db''"
    and "advanced cr key tid t gs evs b m n db db'" and "db_wf db"
  shows "advanced cr key tid (pointed cr key t gen ver) gs evs b m n db db'' \<and> unat ver < 2 ^ 63"
proof -
  have "bt_get (db_transactions db') (st_transaction_id t) = Some t" "st_transaction_id t = tid"
    using advancedD(2,12) [OF assms(2)] by simp_all
  with update_transaction_pointer_ok [OF assms(1)] show ?thesis
    using advanced_put_transaction [OF assms(2) _ assms(3), of "pointed cr key t gen ver"]
    by (simp add: pointed_def Let_def)
qed

lemma ensure_advanced:
  assumes "ensure_audit_reservations env tid n db = Inr db1" and "db_wf db"
    and "load_current cr env key db tid = Inr (t, g, snap)"
  shows "\<exists>b m. reservation_bytes env = Inr b \<and> m \<le> unat n \<and> advanced cr key tid t [] [] b m (unat n) db db1"
proof -
  obtain b m where b: "reservation_bytes env = Inr b" "m \<le> unat n" "slots_changed tid b m (unat n) db db1"
    using ensure_audit_reservations_ok [OF assms(1) db_wf_D(4) [OF assms(2)]] by blast
  then have "rows_of tid (db_reservations db) = slots b m" by (simp add: slots_changed_def)
  from advanced_slots [OF advanced_refl [OF assms(2) load_current_ok(1) [OF assms(3,2)] this] b(3)] b
  show ?thesis by blast
qed

lemma state_advanced:
  assumes "update_generation_state cr env key g a st db1 = Inr db2"
    and "advanced cr key tid t [] [] b m n db db1" and "db_wf db"
    and "load_current cr env key db tid = Inr (t, g, snap)"
  shows "advanced cr key tid t [with_state cr key st g] [] b m n db db2"
proof -
  note ld = load_current_ok [OF assms(4,3)]
  have "bt_get (db_generations db1) (sg_transaction_id g, sg_generation g) = Some g"
    using ld advancedD(4) [OF assms(2)] by simp
  from update_generation_state_ok [OF assms(1) this]
  show ?thesis
    using advanced_put_generation [OF assms(2), of "with_state cr key st g"] ld(4)
    by (simp add: with_state_def Let_def)
qed

lemma state_tail:
  assumes load: "load_current cr env key db tid = Inr (t, g, snap)" and wf: "db_wf db"
    and ens: "ensure_audit_reservations env tid n db = Inr db1" and n: "unat n = Suc k"
    and upd: "update_generation_state cr env key g a st db1 = Inr db2"
    and ptr: "update_transaction_pointer cr env key t gen v db2 = Inr db3"
    and app: "append_audit cr env limits key tid gen' v' kind payload True db3 = Inr db4"
  shows "\<exists>b m. reservation_bytes env = Inr b \<and> m \<le> Suc k \<and> unat v < 2 ^ 63
    \<and> advanced cr key tid (pointed cr key t gen v) [with_state cr key st g] [(gen', v', kind, payload)] b m k db db4"
proof -
  obtain b m where b: "reservation_bytes env = Inr b" "m \<le> Suc k"
    and a1: "advanced cr key tid t [] [] b m (Suc k) db db1"
    using ensure_advanced [OF ens wf load] n by auto
  have a3: "advanced cr key tid (pointed cr key t gen v) [with_state cr key st g] [] b m (Suc k) db db3
      \<and> unat v < 2 ^ 63"
    using pointer_advanced [OF ptr state_advanced [OF upd a1 wf load] wf] .
  then have "advanced cr key tid (pointed cr key t gen v) [with_state cr key st g] [] b m (Suc k) db db3" ..
  from advanced_append [OF this b(1) app] b a3 show ?thesis by auto
qed

lemma assert_expected_ok [simp]:
  "assert_expected snap gen ver d st = Inr u \<longleftrightarrow>
     snap_current_generation snap = gen \<and> snap_state_version snap = ver \<and> snap_binding_digest snap = d
     \<and> snap_state snap = st"
  by (simp add: assert_expected_def)

lemma load_current_snap:
  assumes "load_current cr env key db tid = Inr (t, g, snap)" and "db_wf db"
  shows "snap_transaction_id snap = tid" "snap_current_generation snap = st_current_generation t"
    "snap_state_version snap = st_state_version t" "snap_binding_digest snap = sg_binding_digest g"
    "snap_principal snap = st_principal t" "snap_request_id snap = st_request_id t"
  using load_current_ok(6) [OF assms] by (metis transaction_snapshot.select_convs)+

lemma handoff_body_moves:
  assumes "handoff_body cr env limits key r db = Inr (out, db')" and wf: "db_wf db"
  shows "store_move cr env limits key (CallHandoff r) db db'"
proof -
  obtain t g snap d1 v d2 d3 where
    w: "enforce_authority_window env (hr_authorized_at r) (hr_expires_at r) = Inr ()"
    and load: "load_current cr env key db (hr_transaction_id r) = Inr (t, g, snap)"
    and exp: "snap_current_generation snap = hr_expected_generation r"
      "snap_state_version snap = hr_expected_state_version r"
      "snap_binding_digest snap = hr_expected_binding_digest r" "snap_state snap = TxPrepared"
    and use: "hr_authority_use_digest r \<noteq> zero_digest"
    and chk: "check_logical_audit_reserve env limits 1 0 db = Inr ()"
    and ens: "ensure_audit_reservations env (hr_transaction_id r) 2 db = Inr d1"
    and v: "checked_add (snap_state_version snap) 1 = Some v"
    and upd: "update_generation_state cr env key g TxPrepared TxIndeterminate d1 = Inr d2"
    and ptr: "update_transaction_pointer cr env key t (snap_current_generation snap) v d2 = Inr d3"
    and app: "append_audit cr env limits key (hr_transaction_id r) (snap_current_generation snap) v
      ''handoff-indeterminate'' (hr_authority_use_digest r) True d3 = Inr db'"
    using assms(1) unfolding handoff_body_def Let_def by (auto simp: result_simps)
  note ld = load_current_snap [OF load wf]
  show ?thesis
    using state_tail [OF load wf ens _ upd ptr app, of 1] load w exp use chk v ld
    by (auto intro!: move_handoff)
qed

lemma commit_body_moves:
  assumes "commit_body cr env limits key r db = Inr (out, db')" and wf: "db_wf db"
  shows "store_move cr env limits key (CallCommit r) db db'"
proof -
  obtain t g snap d1 v d2 d3 where
    load: "load_current cr env key db (cr_transaction_id r) = Inr (t, g, snap)"
    and exp: "snap_current_generation snap = cr_expected_generation r"
      "snap_state_version snap = cr_expected_state_version r"
      "snap_binding_digest snap = cr_expected_binding_digest r" "snap_state snap = TxVerified"
    and mat: "sg_desired_state_digest g = Some (cr_desired_state_digest r)"
      "sg_graph_digest g = Some (cr_graph_digest r)" "sg_provenance_digest g = Some (cr_provenance_digest r)"
    and chk: "check_logical_audit_reserve env limits 1 (- 1) db = Inr ()"
    and ens: "ensure_audit_reservations env (cr_transaction_id r) 1 db = Inr d1"
    and v: "checked_add (snap_state_version snap) 1 = Some v"
    and upd: "update_generation_state cr env key g TxVerified TxCommitted d1 = Inr d2"
    and ptr: "update_transaction_pointer cr env key t (snap_current_generation snap) v d2 = Inr d3"
    and app: "append_audit cr env limits key (cr_transaction_id r) (snap_current_generation snap) v ''committed''
      (commit_payload cr (cr_desired_state_digest r) (cr_graph_digest r) (cr_provenance_digest r)) True d3 = Inr db'"
    using assms(1) unfolding commit_body_def Let_def by (auto simp: result_simps)
  note ld = load_current_snap [OF load wf]
  show ?thesis
    using state_tail [OF load wf ens _ upd ptr app, of 0] load exp mat chk v ld
    by (auto intro!: move_commit simp: commit_material_list_def)
qed

lemma abort_body_moves:
  assumes "abort_body cr env limits key r db = Inr (out, db')" and wf: "db_wf db"
  shows "store_move cr env limits key (CallAbort r) db db'"
proof -
  obtain t g snap d1 v d2 d3 where
    load: "load_current cr env key db (ar_transaction_id r) = Inr (t, g, snap)"
    and exp: "snap_current_generation snap = ar_expected_generation r"
      "snap_state_version snap = ar_expected_state_version r" "snap_state snap = TxPrepared"
    and chk: "check_logical_audit_reserve env limits 1 (- 1) db = Inr ()"
    and ens: "ensure_audit_reservations env (ar_transaction_id r) 1 db = Inr d1"
    and v: "checked_add (snap_state_version snap) 1 = Some v"
    and upd: "update_generation_state cr env key g TxPrepared TxAborted d1 = Inr d2"
    and ptr: "update_transaction_pointer cr env key t (snap_current_generation snap) v d2 = Inr d3"
    and app: "append_audit cr env limits key (ar_transaction_id r) (snap_current_generation snap) v
      ''aborted-prepared'' (ar_reason_digest r) True d3 = Inr db'"
    using assms(1) unfolding abort_body_def Let_def by (auto simp: result_simps)
  note ld = load_current_snap [OF load wf]
  show ?thesis
    using state_tail [OF load wf ens _ upd ptr app, of 0] load exp chk v ld
    by (auto intro!: move_abort)
qed

lemma unat_small: "unat (2 :: u64) = Suc 1" "unat (3 :: u64) = Suc (Suc 1)"
  by simp_all

lemma recover_body_moves:
  assumes "recover_body cr env limits key r db = Inr (out, db')" and wf: "db_wf db"
  shows "store_move cr env limits key (CallRecover r) db db'"
proof -
  obtain t g snap v where
    w: "enforce_authority_window env (rr_authorized_at r) (rr_expires_at r) = Inr ()"
    and load: "load_current cr env key db (rr_transaction_id r) = Inr (t, g, snap)"
    and exp: "snap_current_generation snap = rr_expected_generation r"
      "snap_state_version snap = rr_expected_state_version r"
      "snap_binding_digest snap = rr_expected_binding_digest r" "snap_state snap = TxIndeterminate"
    and v: "checked_add (snap_state_version snap) 1 = Some v"
    and rest: "(case rr_resolution r of
       IntendedStateVerified observation desired graph provenance \<Rightarrow>
         recover_verified cr env limits key (rr_transaction_id r) (t, g, snap) v observation desired graph provenance db
     | ConflictingState observation \<Rightarrow>
         recover_blocked cr env limits key (rr_transaction_id r) (t, g, snap) v observation db
     | Ambiguous observation \<Rightarrow>
         recover_ambiguous cr env limits key (rr_transaction_id r) (t, g, snap) v observation db
     | IntendedEffectAbsent observation next_binding \<Rightarrow>
         recover_absent cr env limits key (rr_transaction_id r) (t, g, snap) v observation next_binding db)
      = Inr (out, db')"
    using assms(1) unfolding recover_body_def Let_def by (auto simp: result_simps)
  note ld = load_current_snap [OF load wf] load_current_ok [OF load wf]
  note common = w load exp v ld(1-4)
  show ?thesis
  proof (cases "rr_resolution r")
    case (IntendedStateVerified observation d gr p)
    then obtain d1 d2 d3 where chk: "check_logical_audit_reserve env limits 1 0 db = Inr ()"
      and ens: "ensure_audit_reservations env (rr_transaction_id r) 2 db = Inr d1"
      and upd: "update_generation_to_verified cr env key g d gr p d1 = Inr d2"
      and ptr: "update_transaction_pointer cr env key t (snap_current_generation snap) v d2 = Inr d3"
      and app: "append_audit cr env limits key (rr_transaction_id r) (snap_current_generation snap) v
        ''recovery-verified'' observation True d3 = Inr db'"
      using rest unfolding recover_verified_def by (auto simp: result_simps)
    obtain b m where b: "reservation_bytes env = Inr b" "m \<le> Suc 1"
      and a1: "advanced cr key (rr_transaction_id r) t [] [] b m (Suc 1) db d1"
      using ensure_advanced [OF ens wf load] unfolding unat_small by blast
    have "bt_get (db_generations d1) (sg_transaction_id g, sg_generation g) = Some g"
      using ld advancedD(4) [OF a1] by simp
    note up = update_generation_to_verified_ok [OF upd this]
    have "advanced cr key (rr_transaction_id r) t [with_material cr key d gr p g] [] b m (Suc 1) db d2"
      using advanced_put_generation [OF a1, of "with_material cr key d gr p g"] up ld
      by (simp add: with_material_def Let_def)
    from pointer_advanced [OF ptr this wf]
    have a3: "advanced cr key (rr_transaction_id r) (pointed cr key t (snap_current_generation snap) v)
        [with_material cr key d gr p g] [] b m (Suc 1) db d3" "unat v < 2 ^ 63" by simp_all
    show ?thesis
      using IntendedStateVerified advanced_append [OF a3(1) b(1) app] a3(2) b chk up common
      by (auto intro!: move_verified)
  next
    case (ConflictingState observation)
    then obtain d1 d2 d3 where chk: "check_logical_audit_reserve env limits 1 (- 1) db = Inr ()"
      and ens: "ensure_audit_reservations env (rr_transaction_id r) 1 db = Inr d1"
      and upd: "update_generation_state cr env key g TxIndeterminate TxRecoveryBlocked d1 = Inr d2"
      and ptr: "update_transaction_pointer cr env key t (snap_current_generation snap) v d2 = Inr d3"
      and app: "append_audit cr env limits key (rr_transaction_id r) (snap_current_generation snap) v
        ''recovery-blocked'' observation True d3 = Inr db'"
      using rest unfolding recover_blocked_def by (auto simp: result_simps)
    show ?thesis
      using state_tail [OF load wf ens _ upd ptr app, of 0] chk ConflictingState common
      by (auto intro!: move_blocked)
  next
    case (Ambiguous observation)
    then obtain d1 d3 where chk: "check_logical_audit_reserve env limits 1 0 db = Inr ()"
      and ens: "ensure_audit_reservations env (rr_transaction_id r) 2 db = Inr d1"
      and ptr: "update_transaction_pointer cr env key t (snap_current_generation snap) v d1 = Inr d3"
      and app: "append_audit cr env limits key (rr_transaction_id r) (snap_current_generation snap) v
        ''recovery-ambiguous'' observation True d3 = Inr db'"
      using rest unfolding recover_ambiguous_def by (auto simp: result_simps)
    obtain b m where b: "reservation_bytes env = Inr b" "m \<le> Suc 1"
      and a1: "advanced cr key (rr_transaction_id r) t [] [] b m (Suc 1) db d1"
      using ensure_advanced [OF ens wf load] unfolding unat_small by blast
    have "d1\<lparr> db_generations := bt_insert (rr_transaction_id r, sg_generation g) g (db_generations d1) \<rparr> = d1"
      using bt_insert_id [OF db_wf_D(2) [OF wf]] ld advancedD(4) [OF a1] by (cases d1) simp
    with advanced_put_generation [OF a1, of g] ld
    have "advanced cr key (rr_transaction_id r) t [g] [] b m (Suc 1) db d1" by simp
    from pointer_advanced [OF ptr this wf]
    have a3: "advanced cr key (rr_transaction_id r) (pointed cr key t (snap_current_generation snap) v)
        [g] [] b m (Suc 1) db d3" "unat v < 2 ^ 63" by simp_all
    show ?thesis
      using Ambiguous advanced_append [OF a3(1) b(1) app] a3(2) b chk common by (auto intro!: move_ambiguous)
  next
    case (IntendedEffectAbsent observation bd)
    then obtain n d1 d2 d3 d4 d5 where tid: "binding_transaction_id cr bd = rr_transaction_id r"
      and n: "checked_add (snap_current_generation snap) 1 = Some n" "n < MAX_TRANSACTION_GENERATIONS"
      and cnt: "check_count_capacity env count_generations (max_generations limits) 1 db = Inr ()"
      and chk: "check_logical_audit_reserve env limits 2 0 db = Inr ()"
      and ens: "ensure_audit_reservations env (rr_transaction_id r) 3 db = Inr d1"
      and upd: "update_generation_state cr env key g TxIndeterminate TxAborted d1 = Inr d2"
      and ins: "insert_generation cr env key bd n d2 = Inr d3"
      and ptr: "update_transaction_pointer cr env key t n v d3 = Inr d4"
      and app1: "append_audit cr env limits key (rr_transaction_id r) (snap_current_generation snap) v
        ''recovery-retired-no-effect'' observation True d4 = Inr d5"
      and app2: "append_audit cr env limits key (rr_transaction_id r) n v ''recovery-reprepared''
        (ab_digest bd) True d5 = Inr db'"
      using rest unfolding recover_absent_def by (auto simp: result_simps)
    obtain b m where b: "reservation_bytes env = Inr b" "m \<le> Suc (Suc 1)"
      and a1: "advanced cr key (rr_transaction_id r) t [] [] b m (Suc (Suc 1)) db d1"
      using ensure_advanced [OF ens wf load] unfolding unat_small by blast
    note a2 = state_advanced [OF upd a1 wf load]
    have ins': "insert_generation_row env (fresh_generation cr key bd n) d2 = Inr d3"
      using ins by (auto simp: insert_generation_def fresh_generation_def Let_def result_simps)
    have "advanced cr key (rr_transaction_id r) t [with_state cr key TxAborted g, fresh_generation cr key bd n]
        [] b m (Suc (Suc 1)) db d3"
      using advanced_put_generation [OF a2, of "fresh_generation cr key bd n"] insert_generation_row_ok [OF ins'] tid
      by simp
    from pointer_advanced [OF ptr this wf]
    have a4: "advanced cr key (rr_transaction_id r) (pointed cr key t n v)
        [with_state cr key TxAborted g, fresh_generation cr key bd n] [] b m (Suc (Suc 1)) db d4"
      "unat v < 2 ^ 63" by simp_all
    note a6 = advanced_append [OF advanced_append [OF a4(1) b(1) app1] b(1) app2]
    have free: "bt_get (db_generations db) (rr_transaction_id r, n) = None"
      using insert_generation_row_ok [OF ins'] advancedD(4) [OF a2] tid by (auto simp: bt_get_insert split: if_splits)
    have gc: "generations_check (fresh_generation cr key bd n)"
      using insert_generation_row_ok [OF ins'] by simp
    have cap: "usize_saturating_add (count_generations db) 1 \<le> unat (max_generations limits)"
      using cnt by (auto simp: check_count_capacity_def result_simps)
    show ?thesis
      using IntendedEffectAbsent a6 a4(2) b chk common tid n free gc cap by (auto intro!: move_absent)
  qed
qed

lemma prepare_body_moves:
  assumes "prepare_body cr env limits key bd db = Inr (out, db')" and wf: "db_wf db"
  shows "(\<exists>snap. out = PrepareExisting snap \<and> db' = db) \<or> store_move cr env limits key (CallPrepare bd) db db'"
proof (cases "load_current cr env key db (binding_transaction_id cr bd)")
  case (Inr c)
  then show ?thesis using assms(1) by (auto simp: prepare_body_def split: if_splits prod.splits)
next
  case (Inl e)
  let ?tid = "binding_transaction_id cr bd"
  from Inl assms(1) have new: "prepare_new cr env limits key bd db = Inr (out, db')"
    by (auto simp: prepare_body_def split: transaction_store_error.splits)
  obtain d1 d2 d3 where
    cap: "check_count_capacity env count_transactions (max_transactions limits) 1 db = Inr ()"
      "check_count_capacity env count_generations (max_generations limits) 1 db = Inr ()"
    and chk: "check_logical_audit_reserve env limits 1 1 db = Inr ()"
    and ti: "insert_transaction_row env (fresh_transaction cr key bd) db = Inr d1"
    and gi: "insert_generation_row env (fresh_generation cr key bd 0) d1 = Inr d2"
    and app: "append_audit cr env limits key ?tid 0 1 ''prepared'' (ab_digest bd) False d2 = Inr d3"
    and ens: "ensure_audit_reservations env ?tid 1 d3 = Inr db'"
    using new unfolding prepare_new_def
    by (auto simp: result_simps Let_def fresh_transaction_def fresh_generation_def insert_generation_def)
  note ti' = insert_transaction_row_ok [OF ti] and gi' = insert_generation_row_ok [OF gi]
  have none: "bt_get (db_transactions db) ?tid = None" using ti' by simp
  have norows: "rows_of ?tid (db_reservations db) = []"
  proof (rule ccontr)
    assume "rows_of ?tid (db_reservations db) \<noteq> []"
    then obtain k v where "(k, v) \<in> set (rows_of ?tid (db_reservations db))" by (metis list.set_intros(1) neq_Nil_conv surj_pair)
    then have "bt_get (db_reservations db) (?tid, k) = Some v"
      using bt_get_wf_iff [OF rows_of_wf [OF db_wf_D(4) [OF wf]], of ?tid k v] by (simp add: bt_get_rows_of)
    with db_wf_D(8) [OF wf this] none show False by (simp add: bt_contains_def)
  qed
  have "advanced cr key ?tid (fresh_transaction cr key bd) [] [] b 0 0 db d1" for b
    using ti' wf norows db_wf_put_transaction [of db "fresh_transaction cr key bd" ?tid]
    unfolding advanced_def by (simp add: audit_rows_def)
  then have "advanced cr key ?tid (fresh_transaction cr key bd) [fresh_generation cr key bd 0] [] b 0 0 db d2" for b
    using advanced_put_generation [of cr key ?tid _ "[]" "[]" b 0 0 db d1 "fresh_generation cr key bd 0"] gi' by simp
  then have a3: "advanced cr key ?tid (fresh_transaction cr key bd) [fresh_generation cr key bd 0]
      [(0, 1, ''prepared'', ab_digest bd)] b 0 0 db d3" for b
    using advanced_append_free [OF _ app] by fastforce
  obtain b m where b: "reservation_bytes env = Inr b" and sl: "slots_changed ?tid b m 1 d3 db'"
    using ensure_audit_reservations_ok [OF ens db_wf_D(4) [OF advancedD(1) [OF a3]]] by auto
  have "slots b m = slots b 0" using sl advancedD(9) [OF a3 [of b]] by (simp add: slots_changed_def)
  then have "m = 0" by (metis slots_simps(3))
  with advanced_slots [OF a3] sl
  have "advanced cr key ?tid (fresh_transaction cr key bd) [fresh_generation cr key bd 0]
      [(0, 1, ''prepared'', ab_digest bd)] b 0 1 db db'" by blast
  with b none ti' gi' cap chk have "store_move cr env limits key (CallPrepare bd) db db'"
    by (intro move_prepare) (auto simp: check_count_capacity_def result_simps)
  then show ?thesis ..
qed

end
