(* ===== verification/Store_Machine.thy ===== *)
theory Store_Machine
  imports Store_Moves
begin

text \<open>
  The transaction machine the \<open>TransactionStore\<close> trait promises, as a step relation on a view of each
  transaction, and the simulation: every call of the SQLite store either leaves the database as it was or
  performs one step of the machine.
\<close>

section \<open>The transaction machine\<close>

record tx_view =
  tv_principal :: principal_id
  tv_request_id :: request_id
  tv_generation :: u64
  tv_version :: u64
  tv_state :: transaction_state
  tv_binding :: content_digest
  tv_material :: "(content_digest \<times> content_digest \<times> content_digest) option"

type_synonym authority_view = "transaction_id \<Rightarrow> tx_view option"

definition in_window :: "u64 option \<Rightarrow> u64 \<Rightarrow> u64 \<Rightarrow> bool" where
  "in_window now from_ms to_ms \<longleftrightarrow> (case now of None \<Rightarrow> False | Some n \<Rightarrow> from_ms \<le> n \<and> n \<le> to_ms)"

definition expects :: "tx_view \<Rightarrow> transaction_state \<Rightarrow> u64 \<Rightarrow> u64 \<Rightarrow> bool" where
  "expects x st gen ver \<longleftrightarrow> tv_state x = st \<and> tv_generation x = gen \<and> tv_version x = ver
     \<and> unat (tv_version x) + 1 < 2 ^ 63"

text \<open>The steps the contract of \<open>TransactionStore\<close> allows, on one transaction at a time.\<close>

inductive tx_step ::
  "crypto \<Rightarrow> authority_key \<Rightarrow> u64 option \<Rightarrow> store_call \<Rightarrow> authority_view \<Rightarrow> authority_view \<Rightarrow> bool"
  for cr akey now where
  tx_prepare:
    "v (binding_transaction_id cr bd) = None
     \<Longrightarrow> tx_step cr akey now (CallPrepare bd) v (v(binding_transaction_id cr bd \<mapsto>
          \<lparr> tv_principal = ab_principal bd, tv_request_id = ab_request_id bd, tv_generation = 0, tv_version = 1,
            tv_state = TxPrepared, tv_binding = ab_digest bd, tv_material = None \<rparr>))"
| tx_handoff:
    "\<lbrakk> v (hr_transaction_id r) = Some x;
       expects x TxPrepared (hr_expected_generation r) (hr_expected_state_version r);
       tv_binding x = hr_expected_binding_digest r; hr_authority_use_digest r \<noteq> zero_digest;
       verify_handoff cr akey r; in_window now (hr_authorized_at r) (hr_expires_at r) \<rbrakk>
     \<Longrightarrow> tx_step cr akey now (CallHandoff r) v (v(hr_transaction_id r \<mapsto>
          x\<lparr> tv_state := TxIndeterminate, tv_version := tv_version x + 1 \<rparr>))"
| tx_verified:
    "\<lbrakk> v (rr_transaction_id r) = Some x;
       expects x TxIndeterminate (rr_expected_generation r) (rr_expected_state_version r);
       tv_binding x = rr_expected_binding_digest r;
       verify_recovery cr akey r; in_window now (rr_authorized_at r) (rr_expires_at r);
       rr_resolution r = IntendedStateVerified observation d g p \<rbrakk>
     \<Longrightarrow> tx_step cr akey now (CallRecover r) v (v(rr_transaction_id r \<mapsto>
          x\<lparr> tv_state := TxVerified, tv_version := tv_version x + 1, tv_material := Some (d, g, p) \<rparr>))"
| tx_blocked:
    "\<lbrakk> v (rr_transaction_id r) = Some x;
       expects x TxIndeterminate (rr_expected_generation r) (rr_expected_state_version r);
       tv_binding x = rr_expected_binding_digest r;
       verify_recovery cr akey r; in_window now (rr_authorized_at r) (rr_expires_at r);
       rr_resolution r = ConflictingState observation \<rbrakk>
     \<Longrightarrow> tx_step cr akey now (CallRecover r) v (v(rr_transaction_id r \<mapsto>
          x\<lparr> tv_state := TxRecoveryBlocked, tv_version := tv_version x + 1 \<rparr>))"
| tx_ambiguous:
    "\<lbrakk> v (rr_transaction_id r) = Some x;
       expects x TxIndeterminate (rr_expected_generation r) (rr_expected_state_version r);
       tv_binding x = rr_expected_binding_digest r;
       verify_recovery cr akey r; in_window now (rr_authorized_at r) (rr_expires_at r);
       rr_resolution r = Ambiguous observation \<rbrakk>
     \<Longrightarrow> tx_step cr akey now (CallRecover r) v (v(rr_transaction_id r \<mapsto> x\<lparr> tv_version := tv_version x + 1 \<rparr>))"
| tx_reprepared:
    "\<lbrakk> v (rr_transaction_id r) = Some x;
       expects x TxIndeterminate (rr_expected_generation r) (rr_expected_state_version r);
       tv_binding x = rr_expected_binding_digest r;
       verify_recovery cr akey r; in_window now (rr_authorized_at r) (rr_expires_at r);
       rr_resolution r = IntendedEffectAbsent observation bd; binding_transaction_id cr bd = rr_transaction_id r;
       unat (tv_generation x) + 1 < unat MAX_TRANSACTION_GENERATIONS \<rbrakk>
     \<Longrightarrow> tx_step cr akey now (CallRecover r) v (v(rr_transaction_id r \<mapsto>
          x\<lparr> tv_state := TxPrepared, tv_version := tv_version x + 1, tv_generation := tv_generation x + 1,
             tv_binding := ab_digest bd, tv_material := None \<rparr>))"
| tx_commit:
    "\<lbrakk> v (cr_transaction_id r) = Some x;
       expects x TxVerified (cr_expected_generation r) (cr_expected_state_version r);
       tv_binding x = cr_expected_binding_digest r; verify_commit cr akey r;
       tv_material x = Some (cr_desired_state_digest r, cr_graph_digest r, cr_provenance_digest r) \<rbrakk>
     \<Longrightarrow> tx_step cr akey now (CallCommit r) v (v(cr_transaction_id r \<mapsto>
          x\<lparr> tv_state := TxCommitted, tv_version := tv_version x + 1 \<rparr>))"
| tx_abort:
    "\<lbrakk> v (ar_transaction_id r) = Some x;
       expects x TxPrepared (ar_expected_generation r) (ar_expected_state_version r) \<rbrakk>
     \<Longrightarrow> tx_step cr akey now (CallAbort r) v (v(ar_transaction_id r \<mapsto>
          x\<lparr> tv_state := TxAborted, tv_version := tv_version x + 1 \<rparr>))"

inductive_cases tx_step_handoffE [elim]: "tx_step cr akey now (CallHandoff r) v v'"
inductive_cases tx_step_recoverE [elim]: "tx_step cr akey now (CallRecover r) v v'"

section \<open>The view of a database\<close>

definition material_of :: "stored_generation \<Rightarrow> (content_digest \<times> content_digest \<times> content_digest) option" where
  "material_of g = (case (sg_desired_state_digest g, sg_graph_digest g, sg_provenance_digest g) of
     (Some d, Some gr, Some p) \<Rightarrow> Some (d, gr, p)
   | _ \<Rightarrow> None)"

definition row_view :: "stored_transaction \<Rightarrow> stored_generation \<Rightarrow> transaction_state \<Rightarrow> tx_view" where
  "row_view t g st = \<lparr> tv_principal = st_principal t, tv_request_id = st_request_id t,
     tv_generation = st_current_generation t, tv_version = st_state_version t, tv_state = st,
     tv_binding = sg_binding_digest g, tv_material = material_of g \<rparr>"

definition store_view :: "sqlite_db \<Rightarrow> authority_view" where
  "store_view db tid = Option.bind (bt_get (db_transactions db) tid) (\<lambda>t.
     Option.bind (bt_get (db_generations db) (tid, st_current_generation t)) (\<lambda>g.
     case transaction_state_parse (sg_state g) of
       Inr st \<Rightarrow> Some (row_view t g st)
     | Inl _ \<Rightarrow> None))"

lemma store_view_rows:
  "bt_get (db_transactions db) tid = Some t \<Longrightarrow> bt_get (db_generations db) (tid, st_current_generation t) = Some g
     \<Longrightarrow> sg_state g = transaction_state_as_str st \<Longrightarrow> store_view db tid = Some (row_view t g st)"
  using state_parse_ok [of "sg_state g" st] by (simp add: store_view_def)

lemma load_current_view:
  "load_current cr env key db tid = Inr (t, g, snap) \<Longrightarrow> db_wf db
     \<Longrightarrow> store_view db tid = Some (row_view t g (snap_state snap))"
  using load_current_ok(1,2,7) by (intro store_view_rows) blast+

lemma fold_insert_other:
  "i \<noteq> tid \<Longrightarrow> bt_get (fold (\<lambda>g. bt_insert (tid, sg_generation g) g) gs m) (i, n) = bt_get m (i, n)"
  by (induction gs arbitrary: m) (simp_all add: bt_get_insert)

lemma view_advanced:
  assumes "advanced cr key tid t gs evs b m n db db'"
    and "bt_get (db_generations db') (tid, st_current_generation t) = Some g"
    and "sg_state g = transaction_state_as_str st"
  shows "store_view db' = (store_view db)(tid \<mapsto> row_view t g st)"
proof
  fix i
  show "store_view db' i = ((store_view db)(tid \<mapsto> row_view t g st)) i"
  proof (cases "i = tid")
    case True
    then show ?thesis using store_view_rows [OF advancedD(12) [OF assms(1)] assms(2,3)] by simp
  next
    case False
    then show ?thesis
      unfolding store_view_def advancedD(3,4) [OF assms(1)] by (simp add: bt_get_insert fold_insert_other)
  qed
qed

lemma material_sel [simp]:
  "material_of (with_state cr key st g) = material_of g"
  "material_of (with_material cr key d gr p g) = Some (d, gr, p)"
  "material_of (fresh_generation cr key b n) = None"
  by (simp_all add: material_of_def row_defs Let_def)

lemma material_list: "commit_material_list g = [Some d, Some gr, Some p] \<Longrightarrow> material_of g = Some (d, gr, p)"
  by (simp add: commit_material_list_def material_of_def)

lemma in_window_iff: "enforce_authority_window env a e = Inr () \<longleftrightarrow> in_window (env_now_ms env) a e"
  by (auto simp: enforce_authority_window_def in_window_def result_simps not_less split: option.splits)

lemma checked_succ: "checked_add a 1 = Some v \<Longrightarrow> v = a + 1 \<and> unat v = unat a + 1"
  using unat_checked_add [of a 1 v] by (simp add: checked_add_eq_Some)

text \<open>A sealed call carries a tag the store's verifier accepts.\<close>

fun sealed :: "crypto \<Rightarrow> authority_key \<Rightarrow> store_call \<Rightarrow> bool" where
  "sealed cr akey (CallHandoff r) = verify_handoff cr akey r"
| "sealed cr akey (CallRecover r) = verify_recovery cr akey r"
| "sealed cr akey (CallCommit r) = verify_commit cr akey r"
| "sealed cr akey _ = True"

lemma row_view_sel [simp]:
  "tv_generation (row_view t g st) = st_current_generation t" "tv_version (row_view t g st) = st_state_version t"
  "tv_state (row_view t g st) = st" "tv_binding (row_view t g st) = sg_binding_digest g"
  "tv_material (row_view t g st) = material_of g"
  by (simp_all add: row_view_def)

lemma expects_state: "expects x st gen ver \<Longrightarrow> tv_state x = st"
  by (simp add: expects_def)

lemma expects_now:
  "checked_add (st_state_version t) 1 = Some v \<Longrightarrow> unat v < 2 ^ 63 \<Longrightarrow>
     expects (row_view t g st) st (st_current_generation t) (st_state_version t)"
  using checked_succ [of "st_state_version t" v] by (simp add: expects_def)

text \<open>The view before and after a move that stays in its generation, whose row becomes \<open>g'\<close>.\<close>

lemma same_generation_view:
  assumes load: "load_current cr env key db tid = Inr (t, g, snap)" and wf: "db_wf db"
    and adv: "advanced cr key tid (pointed cr key t (st_current_generation t) v) [g'] evs b m n db db'"
    and v: "checked_add (st_state_version t) 1 = Some v" "unat v < 2 ^ 63"
    and g': "sg_generation g' = sg_generation g" "sg_binding_digest g' = sg_binding_digest g"
      "sg_state g' = transaction_state_as_str st"
  obtains x where "store_view db tid = Some x"
    "expects x (snap_state snap) (st_current_generation t) (st_state_version t)"
    "tv_binding x = sg_binding_digest g" "tv_material x = material_of g"
    "store_view db' = (store_view db)(tid \<mapsto>
       x\<lparr> tv_state := st, tv_version := tv_version x + 1, tv_material := material_of g' \<rparr>)"
proof
  let ?x = "row_view t g (snap_state snap)"
  note ld = load_current_ok [OF load wf] and vs = checked_succ [OF v(1)]
  show "store_view db tid = Some ?x" by (rule load_current_view [OF load wf])
  show "expects ?x (snap_state snap) (st_current_generation t) (st_state_version t)"
    by (rule expects_now [OF v])
  have "store_view db' = (store_view db)(tid \<mapsto> row_view (pointed cr key t (st_current_generation t) v) g' st)"
    using advancedD(4) [OF adv] ld g' by (intro view_advanced [OF adv]) (simp_all add: bt_get_insert)
  also have "row_view (pointed cr key t (st_current_generation t) v) g' st
      = ?x\<lparr> tv_state := st, tv_version := tv_version ?x + 1, tv_material := material_of g' \<rparr>"
    using g' conjunct1 [OF vs] by (simp add: row_view_def)
  finally show "store_view db' = (store_view db)(tid \<mapsto>
      ?x\<lparr> tv_state := st, tv_version := tv_version ?x + 1, tv_material := material_of g' \<rparr>)" .
qed simp_all

lemma tx_view_keep:
  "tv_material x = m \<Longrightarrow> x\<lparr> tv_state := st, tv_version := v, tv_material := m \<rparr> = x\<lparr> tv_state := st, tv_version := v \<rparr>"
  "tv_state x = st \<Longrightarrow> x\<lparr> tv_state := st, tv_version := v \<rparr> = x\<lparr> tv_version := v \<rparr>"
  "tv_material x = m \<Longrightarrow> x\<lparr> tv_version := v, tv_material := m \<rparr> = x\<lparr> tv_version := v \<rparr>"
  by (cases x, simp)+

lemma prepare_refines:
  assumes "bt_get (db_transactions db) (binding_transaction_id cr bd) = None"
    and adv: "advanced cr key (binding_transaction_id cr bd) (fresh_transaction cr key bd)
      [fresh_generation cr key bd 0] evs b m n db db'"
  shows "tx_step cr akey now (CallPrepare bd) (store_view db) (store_view db')"
proof -
  have "store_view db' = (store_view db)(binding_transaction_id cr bd \<mapsto>
      row_view (fresh_transaction cr key bd) (fresh_generation cr key bd 0) TxPrepared)"
    using advancedD(4) [OF adv] by (intro view_advanced [OF adv]) (simp_all add: bt_get_insert)
  then have eq: "store_view db' = (store_view db)(binding_transaction_id cr bd \<mapsto>
      \<lparr> tv_principal = ab_principal bd, tv_request_id = ab_request_id bd, tv_generation = 0, tv_version = 1,
        tv_state = TxPrepared, tv_binding = ab_digest bd, tv_material = None \<rparr>)"
    by (simp only: row_view_def row_sel material_sel)
  show ?thesis unfolding eq
    by (rule tx_prepare) (use assms(1) in \<open>simp add: store_view_def\<close>)
qed

lemma absent_refines:
  assumes load: "load_current cr env key db (rr_transaction_id r) = Inr (t, g, snap)" "snap_state snap = TxIndeterminate"
    and wf: "db_wf db"
    and exp: "rr_expected_generation r = st_current_generation t" "rr_expected_state_version r = st_state_version t"
      "rr_expected_binding_digest r = sg_binding_digest g"
    and seal: "verify_recovery cr akey r" "in_window now (rr_authorized_at r) (rr_expires_at r)"
    and res: "rr_resolution r = IntendedEffectAbsent observation bd" "binding_transaction_id cr bd = rr_transaction_id r"
    and n: "checked_add (st_current_generation t) 1 = Some n" "n < MAX_TRANSACTION_GENERATIONS"
    and v: "checked_add (st_state_version t) 1 = Some v" "unat v < 2 ^ 63"
    and adv: "advanced cr key (rr_transaction_id r) (pointed cr key t n v)
      [with_state cr key TxAborted g, fresh_generation cr key bd n] evs b m k db db'"
  shows "tx_step cr akey now (CallRecover r) (store_view db) (store_view db')"
proof -
  let ?x = "row_view t g (snap_state snap)"
  note ns = checked_succ [OF n(1)] and vs = checked_succ [OF v(1)]
  have "store_view db' = (store_view db)(rr_transaction_id r \<mapsto>
      row_view (pointed cr key t n v) (fresh_generation cr key bd n) TxPrepared)"
    using advancedD(4) [OF adv] by (intro view_advanced [OF adv]) (simp_all add: bt_get_insert)
  also have "row_view (pointed cr key t n v) (fresh_generation cr key bd n) TxPrepared
      = ?x\<lparr> tv_state := TxPrepared, tv_version := tv_version ?x + 1, tv_generation := tv_generation ?x + 1,
           tv_binding := ab_digest bd, tv_material := None \<rparr>"
    using conjunct1 [OF ns] conjunct1 [OF vs] by (simp add: row_view_def)
  finally have eq: "store_view db' = (store_view db)(rr_transaction_id r \<mapsto>
      ?x\<lparr> tv_state := TxPrepared, tv_version := tv_version ?x + 1, tv_generation := tv_generation ?x + 1,
           tv_binding := ab_digest bd, tv_material := None \<rparr>)" .
  have small: "unat (st_current_generation t) + 1 < unat MAX_TRANSACTION_GENERATIONS"
    using ns n(2) unfolding word_less_nat_alt by metis
  have "expects ?x TxIndeterminate (rr_expected_generation r) (rr_expected_state_version r)"
    using expects_now [OF v, of g "snap_state snap"] load(2) exp by simp
  then show ?thesis
    unfolding eq
    by (intro tx_reprepared [where v = "store_view db" and r = r, OF load_current_view [OF load(1) wf]])
      (use exp seal res small in simp_all)
qed

lemma move_refines:
  assumes "store_move cr env limits key c db db'" and "db_wf db" and "sealed cr akey c"
  shows "tx_step cr akey (env_now_ms env) c (store_view db) (store_view db')"
  using assms
proof (induction rule: store_move.induct)
  case (move_prepare db bd b db')
  then show ?case by (intro prepare_refines)
next
  case (move_handoff db r t g snap v b m db')
  note h = move_handoff
  show ?case
    by (rule same_generation_view [OF h(1) h(14) h(12) h(9,10) row_sel(7,9,8)])
      (use h in \<open>simp only: material_sel tx_view_keep(1), intro tx_handoff, simp_all add: in_window_iff\<close>)
next
  case (move_verified db r t g snap observation d gr p v b m db')
  note h = move_verified
  show ?case
    by (rule same_generation_view [OF h(1) h(18) h(16) h(10,11) row_sel(12,14,13)])
      (use h in \<open>simp only: material_sel, intro tx_verified, simp_all add: in_window_iff\<close>)
next
  case (move_blocked db r t g snap observation v b m db')
  note h = move_blocked
  show ?case
    by (rule same_generation_view [OF h(1) h(14) h(12) h(9,10) row_sel(7,9,8)])
      (use h in \<open>simp only: material_sel tx_view_keep(1), intro tx_blocked, simp_all add: in_window_iff\<close>)
next
  case (move_ambiguous db r t g snap observation v b m db')
  note h = move_ambiguous
  show ?case
    by (rule same_generation_view [OF h(1) h(14) h(12) h(9,10) refl refl load_current_ok(7) [OF h(1,14)]], frule expects_state)
      (use h in \<open>simp only: tx_view_keep, intro tx_ambiguous, simp_all add: in_window_iff\<close>)
next
  case (move_absent db r t g snap observation bd n v b m db')
  note h = move_absent
  show ?case
    by (rule absent_refines [OF h(1,2) h(20) h(3,4,5) _ _ h(7,8,9,10,15,16,18)]) (use h in \<open>simp_all add: in_window_iff\<close>)
next
  case (move_commit db r t g snap v b m db')
  note h = move_commit
  show ?case
    by (rule same_generation_view [OF h(1) h(13) h(11) h(8,9) row_sel(7,9,8)])
      (use h in \<open>simp only: material_sel tx_view_keep(1), intro tx_commit, simp_all add: in_window_iff material_list\<close>)
next
  case (move_abort db r t g snap v b m db')
  note h = move_abort
  show ?case
    by (rule same_generation_view [OF h(1) h(11) h(9) h(6,7) row_sel(7,9,8)])
      (use h in \<open>simp only: material_sel tx_view_keep(1), intro tx_abort, simp_all add: in_window_iff\<close>)
qed

section \<open>Calls of the store\<close>

definition exec_call :: "crypto \<Rightarrow> sqlite_env \<Rightarrow> store_call \<Rightarrow> sqlite_store \<Rightarrow> bool \<times> sqlite_store" where
  "exec_call cr env c s = (case c of
     CallPrepare bd \<Rightarrow> map_prod is_ok id (prepare cr env bd s)
   | CallHandoff r \<Rightarrow> map_prod is_ok id (handoff cr env r s)
   | CallRecover r \<Rightarrow> map_prod is_ok id (recover cr env r s)
   | CallCommit r \<Rightarrow> map_prod is_ok id (commit cr env r s)
   | CallAbort r \<Rightarrow> map_prod is_ok id (abort_prepared cr env r s))"

text \<open>\<open>BEGIN IMMEDIATE\<close> to \<open>COMMIT\<close>: nothing, or the whole body.\<close>

lemma with_transaction_cases:
  assumes "with_transaction env s body after_commit = (r, s')"
  obtains (rolled_back) e where "r = Inl e" "s' = s"
  | (committed) out db' where "body (ss_db s) = Inr (out, db')" "s' = s\<lparr> ss_db := db' \<rparr>"
      "r = and_then (after_commit s') (\<lambda>_. Inr out)"
proof (cases "and_then (sql env SqlBegin (ss_db s)) (\<lambda>_. and_then (body (ss_db s)) (\<lambda>(out, db').
    and_then (sql env SqlCommit db') (\<lambda>_. Inr (out, db'))))")
  case (Inl e)
  with assms show ?thesis by (intro rolled_back [of e]) (simp_all add: with_transaction_def)
next
  case (Inr q)
  obtain out db' where q: "q = (out, db')" by (cases q)
  have body: "body (ss_db s) = Inr (out, db')" using Inr q by (auto simp: result_simps)
  show ?thesis
    using assms Inr q by (intro committed [OF body]) (auto simp: with_transaction_def Let_def)
qed

lemma guarded_cases:
  assumes "(case guard of Inl e \<Rightarrow> (Inl e, s) | Inr _ \<Rightarrow> with_transaction env s body after_commit) = (r, s')"
  obtains (nothing) e where "r = Inl e" "s' = s"
  | (committed) out db' where "is_ok guard" "body (ss_db s) = Inr (out, db')" "s' = s\<lparr> ss_db := db' \<rparr>"
      "r = and_then (after_commit s') (\<lambda>_. Inr out)"
proof (cases guard)
  case (Inl e)
  with assms have "r = Inl e" "s' = s" by simp_all
  then show ?thesis by (rule nothing)
next
  case (Inr u)
  with assms have w: "with_transaction env s body after_commit = (r, s')" by simp
  from w show ?thesis
  proof (cases rule: with_transaction_cases)
    case (rolled_back e)
    then show ?thesis by (rule nothing)
  next
    case (committed out db')
    with Inr show ?thesis by (intro that(2)) simp_all
  qed
qed

definition prepared_already :: "crypto \<Rightarrow> store_call \<Rightarrow> authority_view \<Rightarrow> bool" where
  "prepared_already cr c v \<longleftrightarrow> (\<exists>bd x. c = CallPrepare bd \<and> v (binding_transaction_id cr bd) = Some x
     \<and> tv_state x = TxPrepared \<and> tv_binding x = ab_digest bd \<and> tv_principal x = ab_principal bd
     \<and> tv_request_id x = ab_request_id bd)"

definition same_config :: "sqlite_store \<Rightarrow> sqlite_store \<Rightarrow> bool" where
  "same_config s s' \<longleftrightarrow> ss_limits s' = ss_limits s \<and> ss_authority_key s' = ss_authority_key s
     \<and> ss_integrity_key s' = ss_integrity_key s"

lemma prepare_existing:
  assumes "prepare_body cr env limits key bd db = Inr (PrepareExisting snap, db)" and "db_wf db"
    and "\<not> store_move cr env limits key (CallPrepare bd) db db"
  shows "prepared_already cr (CallPrepare bd) (store_view db)"
proof (cases "load_current cr env key db (binding_transaction_id cr bd)")
  case (Inl e)
  with assms(1) have "prepare_new cr env limits key bd db = Inr (PrepareExisting snap, db)"
    by (auto simp: prepare_body_def split: transaction_store_error.splits)
  then show ?thesis by (auto simp: prepare_new_def result_simps Let_def)
next
  case (Inr c)
  obtain t g s where c: "c = (t, g, s)" by (cases c)
  note ld = load_current_snap [OF Inr [unfolded c] assms(2)]
  have "snap_state s = TxPrepared \<and> snap_binding_digest s = ab_digest bd \<and> snap_principal s = ab_principal bd
      \<and> snap_request_id s = ab_request_id bd"
    using assms(1) Inr c by (auto simp: prepare_body_def split: if_splits)
  with load_current_view [OF Inr [unfolded c] assms(2)] ld show ?thesis
    by (auto simp: prepared_already_def row_view_def)
qed

lemma exec_prepare_cases:
  assumes "prepare cr env bd s = (r, s')" and wf: "db_wf (ss_db s)"
  obtains (nothing) e where "r = Inl e" "s' = s"
  | (existing) out where "s' = s" "r = Inr out" "prepared_already cr (CallPrepare bd) (store_view (ss_db s))"
  | (moved) "store_move cr env (ss_limits s) (ss_integrity_key s) (CallPrepare bd) (ss_db s) (ss_db s')"
      "same_config s s'"
  using assms(1) unfolding prepare_def
proof (cases rule: guarded_cases)
  case (nothing e)
  then show ?thesis by (rule that(1))
next
  case (committed out db')
  let ?mv = "store_move cr env (ss_limits s) (ss_integrity_key s) (CallPrepare bd) (ss_db s) db'"
  show ?thesis
  proof (cases ?mv)
    case True
    with committed show ?thesis by (intro that(3)) (simp_all add: same_config_def)
  next
    case False
    with prepare_body_moves [OF committed(2) wf] obtain snap where
      e: "out = PrepareExisting snap" "db' = ss_db s" by blast
    have "prepared_already cr (CallPrepare bd) (store_view (ss_db s))"
      using prepare_existing [OF _ wf] committed(2) False e by simp
    with committed e show ?thesis by (intro that(2) [of out]) (simp_all add: no_reconcile_def)
  qed
qed

lemma guard_ok: "is_ok (and_then (require_normal_open s) (\<lambda>_. ensure P e)) \<longleftrightarrow> \<not> ss_opener_released s \<and> P"
  by (auto simp: require_normal_open_def is_ok_iff result_simps)

lemma sealed_cases:
  assumes "(case guard of Inl e \<Rightarrow> (Inl e, s) | Inr _ \<Rightarrow> with_transaction env s body after_commit) = (r, s')"
    and "\<And>out db'. body (ss_db s) = Inr (out, db') \<Longrightarrow>
      store_move cr env (ss_limits s) (ss_integrity_key s) c (ss_db s) db'"
    and "is_ok guard \<Longrightarrow> sealed cr (ss_authority_key s) c"
  obtains (nothing) "\<not> is_ok r" "s' = s"
  | (moved) "store_move cr env (ss_limits s) (ss_integrity_key s) c (ss_db s) (ss_db s')"
      "sealed cr (ss_authority_key s) c" "same_config s s'"
  using assms(1)
proof (cases rule: guarded_cases)
  case (nothing e)
  then show ?thesis by (intro that(1)) simp_all
next
  case (committed out db')
  with assms(2,3) show ?thesis by (intro that(2)) (simp_all add: same_config_def)
qed

lemma exec_cases:
  assumes "exec_call cr env c s = (ok, s')" and wf: "db_wf (ss_db s)"
  obtains (nothing) "\<not> ok" "s' = s"
  | (existing) "s' = s" "ok" "prepared_already cr c (store_view (ss_db s))"
  | (moved) "store_move cr env (ss_limits s) (ss_integrity_key s) c (ss_db s) (ss_db s')"
      "sealed cr (ss_authority_key s) c" "same_config s s'"
proof (cases c)
  case (CallPrepare bd)
  then obtain r where r: "prepare cr env bd s = (r, s')" "ok = is_ok r"
    using assms(1) by (cases "prepare cr env bd s") (auto simp: exec_call_def)
  from r(1) wf show ?thesis
    using r(2) CallPrepare by (cases rule: exec_prepare_cases) (auto intro: that)
next
  case (CallHandoff q)
  then obtain r where r: "handoff cr env q s = (r, s')" "ok = is_ok r"
    using assms(1) by (cases "handoff cr env q s") (auto simp: exec_call_def)
  show ?thesis
    by (rule sealed_cases [OF r(1) [unfolded handoff_def]], erule handoff_body_moves [OF _ wf],
        simp add: guard_ok, rule nothing, simp add: r(2), assumption, rule moved) (simp_all add: CallHandoff)
next
  case (CallRecover q)
  then obtain r where r: "recover cr env q s = (r, s')" "ok = is_ok r"
    using assms(1) by (cases "recover cr env q s") (auto simp: exec_call_def)
  show ?thesis
    by (rule sealed_cases [OF r(1) [unfolded recover_def]], erule recover_body_moves [OF _ wf],
        simp add: guard_ok, rule nothing, simp add: r(2), assumption, rule moved) (simp_all add: CallRecover)
next
  case (CallCommit q)
  then obtain r where r: "commit cr env q s = (r, s')" "ok = is_ok r"
    using assms(1) by (cases "commit cr env q s") (auto simp: exec_call_def)
  show ?thesis
    by (rule sealed_cases [OF r(1) [unfolded commit_def]], erule commit_body_moves [OF _ wf],
        simp add: guard_ok, rule nothing, simp add: r(2), assumption, rule moved) (simp_all add: CallCommit)
next
  case (CallAbort q)
  let ?run = "with_transaction env s (abort_body cr env (ss_limits s) (ss_integrity_key s) q)
    (reconcile_filesystem_reserve_after_commit cr env)"
  obtain r s1 where r: "?run = (r, s1)" by (cases ?run)
  then have rs: "ok = is_ok r" "ss_db s' = ss_db s1" "same_config s1 s'" "\<not> is_ok r \<longrightarrow> s' = s1"
    using assms(1) CallAbort by (auto simp: exec_call_def abort_prepared_def same_config_def split: sum.splits)
  from r show ?thesis
  proof (cases rule: with_transaction_cases)
    case (rolled_back e)
    with rs show ?thesis by - (rule nothing, simp_all)
  next
    case (committed out db')
    with rs CallAbort abort_body_moves [OF committed(1) wf] show ?thesis
      by - (rule moved, simp_all add: same_config_def)
  qed
qed

end
