(* ===== verification/Store_Example.thy ===== *)
theory Store_Example
  imports Store_Machine
begin

text \<open>
  One transaction taken through the store from preparation to commit, with primitives that answer a
  constant and an environment without faults. The runs below instantiate the properties of
  \<open>Store_History\<close>.
\<close>

definition demo_crypto :: crypto where
  "demo_crypto = \<lparr> sha256 = \<lambda>_. replicate 32 (CHR 0x11), hmac_sha256 = \<lambda>_ _. Some (replicate 32 (CHR 0x22)) \<rparr>"

definition demo_tag :: bytes where
  "demo_tag = replicate 32 (CHR 0x11)"

definition demo_digest :: content_digest where
  "demo_digest = DIGEST_PREFIX @ replicate 64 (CHR ''1'')"

definition demo_id :: transaction_id where
  "demo_id = ''transaction:v1:'' @ replicate 64 (CHR ''1'')"

definition demo_env :: sqlite_env where
  "demo_env = \<lparr> env_now_ms = Some 10, env_fault = \<lambda>_ _. None, env_pragma_i64 = \<lambda>_. Inr 4096,
     env_pragma_string = \<lambda>_. Inr ''wal'', env_no_ckpt_on_close = Inr True,
     env_schema_identity = \<lambda>_ _. Inr (), env_release_headroom = Inr True, env_configure_connection = Inr (),
     env_initialize_schema = \<lambda>_ _. Inr (), env_foreign_key_violation = Inr False,
     env_fs_reserve_slots = \<lambda>_. 1, env_fs_validate = \<lambda>_ _ _. Inr () \<rparr>"

definition demo_binding :: authority_binding where
  "demo_binding = \<lparr> ab_principal = ''p'', ab_request_id = ''r'', ab_plan_id = ''l'',
     ab_request_digest = demo_digest, ab_precondition_digest = demo_digest, ab_observation_digest = demo_digest,
     ab_provider = ''v'', ab_resource = ''s'', ab_capability = ''c'', ab_policy_id = ''y'',
     ab_policy_revision_id = ''n'', ab_trusted_risk = UserState, ab_risk_policy_revision = ''k'',
     ab_risk_rule_ids = [], ab_review_digest = demo_digest, ab_authorization = PolicyAllow,
     ab_canonical = [], ab_digest = demo_digest \<rparr>"

definition demo_store :: sqlite_store where
  "demo_store = \<lparr> ss_db = \<lparr> db_transactions = [], db_generations = [], db_audit_events = [], db_reservations = [] \<rparr>,
     ss_limits = store_limits_default, ss_authority_key = [], ss_integrity_key = [], ss_opener_released = False \<rparr>"

lemma demo_digest_parts: "digest_parts demo_crypto d ps = demo_digest"
  by (simp add: digest_parts_def demo_crypto_def demo_digest_def, code_simp)

lemma demo_namespace: "for_namespace demo_crypto p r = demo_id"
  by (simp add: for_namespace_def demo_digest_parts digest_hex_def demo_digest_def demo_id_def)

lemma demo_integrity_tag: "integrity_tag demo_crypto k d c = demo_tag"
  by (simp add: integrity_tag_def integrity_hmac_def demo_crypto_def demo_tag_def Let_def)

lemma demo_verify: "integrity_verify demo_crypto k d c demo_tag"
  unfolding integrity_verify_def demo_integrity_tag by code_simp

lemma demo_lengths [simp]: "length demo_digest = 71" "length demo_id = 79" "length demo_tag = 32"
  by (simp_all add: demo_digest_def demo_id_def demo_tag_def DIGEST_PREFIX_def)

lemma demo_digest_valid: "content_digest_new demo_digest = Inr demo_digest"
  by code_simp

lemma demo_id_valid: "transaction_id_new demo_id = Inr demo_id"
  by code_simp

lemma demo_names: "typed_id_new ''principal id'' ''p'' = Inr ''p''" "typed_id_new ''request id'' ''r'' = Inr ''r''"
  by code_simp+

lemma demo_not_zero: "demo_digest \<noteq> zero_digest"
  by code_simp


definition demo_state ::
  "u64 \<Rightarrow> string \<Rightarrow> content_digest option \<Rightarrow> string list \<Rightarrow> (u64 \<times> nat) list \<Rightarrow> sqlite_store" where
  "demo_state v st m kinds res = demo_store\<lparr> ss_db := \<lparr>
     db_transactions = [(demo_id, \<lparr> st_transaction_id = demo_id, st_principal = ''p'', st_request_id = ''r'',
       st_current_generation = 0, st_state_version = v, st_integrity_tag = demo_tag \<rparr>)],
     db_generations = [((demo_id, 0), \<lparr> sg_transaction_id = demo_id, sg_generation = 0, sg_state = st,
       sg_binding_digest = demo_digest, sg_binding_canonical = [], sg_request_digest = demo_digest,
       sg_precondition_digest = demo_digest, sg_observation_digest = demo_digest,
       sg_desired_state_digest = m, sg_graph_digest = m, sg_provenance_digest = m, sg_integrity_tag = demo_tag \<rparr>)],
     db_audit_events = map (\<lambda>(n, k). ((demo_id, n), \<lparr> sa_transaction_id = demo_id, sa_event_sequence = n,
       sa_generation = 0, sa_state_version = n + 1, sa_event_kind = k, sa_payload_digest = demo_digest,
       sa_previous_digest = (if n = 0 then zero_digest else demo_digest), sa_event_digest = demo_digest,
       sa_integrity_tag = demo_tag \<rparr>)) (zip [0, 1, 2, 3] kinds),
     db_reservations = map (\<lambda>(n, b). ((demo_id, n), b)) res \<rparr> \<rparr>"

lemmas demo_facts = demo_digest_parts demo_namespace demo_integrity_tag demo_verify demo_digest_valid demo_id_valid
  demo_names demo_not_zero demo_not_zero [symmetric]

lemmas demo_defs = sql_def with_transaction_def require_normal_open_def assert_expected_def
  load_current_def load_transaction_def load_generation_def load_last_audit_event_def read_audit_event_def
  snapshot_from_records_def corrupt_def corrupt_id_def rows_of_def
  check_count_capacity_def check_logical_audit_reserve_def nonterminal_count_def nonterminal_states_def
  count_transactions_def count_generations_def count_audit_events_def
  usize_saturating_add_def usize_checked_add_def checked_add_def as_i64_def column_u64_def
  insert_transaction_row_def insert_generation_row_def insert_audit_row_def insert_reservation_row_def
  insert_generation_def append_audit_def audit_successor_def audit_digest_def
  transactions_check_def generations_check_def audit_events_check_def generation_states_def
  between_def digest_text_def optional_digest_text_def CONTENT_DIGEST_TEXT_BYTES_def
  transaction_tag_def generation_tag_def audit_tag_def authenticate_transaction_def authenticate_generation_def
  authenticate_audit_def generation_bounds_def audit_bounds_def
  MAX_AUDIT_EVENT_KIND_BYTES_def MAX_TRANSACTION_ID_BYTES_def MAX_PERSISTED_PRINCIPAL_BYTES_def
  MAX_PERSISTED_REQUEST_ID_BYTES_def MAX_STATE_TEXT_BYTES_def MAX_AUTHORITY_BINDING_BYTES_def
  INTEGRITY_TAG_BYTES_def reservation_bytes_def page_size_def reservation_scan_def ensure_audit_reservations_def
  consume_audit_reservation_def delete_reservation_row_def column_of_def
  update_transaction_pointer_def update_transaction_row_def update_generation_state_def
  update_generation_state_row_def update_generation_to_verified_def update_generation_verified_row_def
  commit_provenance_guard_def enforce_authority_window_def store_limits_default_def Let_def

lemma zero_digest_len: "length zero_digest = 71"
  by (simp add: zero_digest_def DIGEST_PREFIX_def)

definition demo_handoff :: handoff_request where
  "demo_handoff = \<lparr> hr_transaction_id = demo_id, hr_expected_generation = 0, hr_expected_state_version = 1,
     hr_expected_binding_digest = demo_digest, hr_authority_use_digest = demo_digest, hr_authorized_at = 1,
     hr_expires_at = 20, hr_authority_tag = replicate 32 (CHR 0x22) \<rparr>"

definition demo_recovery :: recovery_request where
  "demo_recovery = \<lparr> rr_transaction_id = demo_id, rr_expected_generation = 0, rr_expected_state_version = 2,
     rr_expected_binding_digest = demo_digest, rr_authorized_at = 1, rr_expires_at = 20,
     rr_resolution = IntendedStateVerified demo_digest demo_digest demo_digest demo_digest,
     rr_authority_tag = replicate 32 (CHR 0x22) \<rparr>"

definition demo_commit :: commit_request where
  "demo_commit = \<lparr> cr_transaction_id = demo_id, cr_expected_generation = 0, cr_expected_state_version = 3,
     cr_expected_binding_digest = demo_digest, cr_desired_state_digest = demo_digest,
     cr_graph_digest = demo_digest, cr_provenance_digest = demo_digest,
     cr_authority_tag = replicate 32 (CHR 0x22) \<rparr>"

lemma demo_sealed: "verify_authority_tag demo_crypto k d c (replicate 32 (CHR 0x22))"
  by (simp add: verify_authority_tag_def demo_crypto_def)

lemmas demo_eval = exec_call_def prepare_def prepare_body_def prepare_new_def handoff_def handoff_body_def recover_def
  recover_body_def recover_verified_def commit_def commit_body_def binding_transaction_id_def demo_binding_def
  demo_handoff_def demo_recovery_def demo_commit_def verify_handoff_def verify_recovery_def verify_commit_def
  demo_env_def demo_store_def demo_state_def demo_facts demo_defs demo_sealed no_reconcile_def bt_get_def
  bt_contains_def bt_remove_def zero_digest_len reconcile_filesystem_reserve_after_commit_def with_immediate_validation_def
  validate_physical_reservations_locked_def list_transaction_ids_def is_nonterminal_def state_for_event_kind_def
  transaction_state_parse_def commit_material_list_def commit_payload_def validate_commit_material_def

text \<open>The four calls, evaluated.\<close>

lemma upt_small: "[Suc 0..<2] = [1]"
  by (simp add: upt_rec)

lemma demo_prepare:
  "exec_call demo_crypto demo_env (CallPrepare demo_binding) demo_store
     = (True, demo_state 1 ''prepared'' None [''prepared''] [(0, 8192)])"
  by (simp add: demo_eval upt_small)

lemma demo_handed_off:
  "exec_call demo_crypto demo_env (CallHandoff demo_handoff) (demo_state 1 ''prepared'' None [''prepared''] [(0, 8192)])
     = (True, demo_state 2 ''indeterminate'' None [''prepared'', ''handoff-indeterminate''] [(0, 8192)])"
  by (simp add: demo_eval upt_small)


lemma demo_verified:
  "exec_call demo_crypto demo_env (CallRecover demo_recovery)
     (demo_state 2 ''indeterminate'' None [''prepared'', ''handoff-indeterminate''] [(0, 8192)])
     = (True, demo_state 3 ''verified'' (Some demo_digest)
          [''prepared'', ''handoff-indeterminate'', ''recovery-verified''] [(0, 8192)])"
  by (simp add: demo_eval upt_small)

lemma demo_committed:
  "exec_call demo_crypto demo_env (CallCommit demo_commit)
     (demo_state 3 ''verified'' (Some demo_digest)
        [''prepared'', ''handoff-indeterminate'', ''recovery-verified''] [(0, 8192)])
     = (True, demo_state 4 ''committed'' (Some demo_digest)
          [''prepared'', ''handoff-indeterminate'', ''recovery-verified'', ''committed''] [])"
  by (simp add: demo_eval upt_small)

end
