(* ===== verification/Machine_Refinement.thy ===== *)
theory Machine_Refinement
  imports Linura_Prelude
begin

text \<open>
  The interface between a component with durable state and a machine on an abstract view of it: each call,
  in an environment that may make it fail at any point, leaves the view as it was or makes one step of the
  machine. What every step keeps then holds after any history of calls.
\<close>

definition run_calls :: "('e \<Rightarrow> 'c \<Rightarrow> 's \<Rightarrow> 'a \<times> 's) \<Rightarrow> ('e \<times> 'c) list \<Rightarrow> 's \<Rightarrow> 's" where
  "run_calls exec hist s = foldl (\<lambda>s (e, c). snd (exec e c s)) s hist"

lemma run_calls_Nil [simp]: "run_calls exec [] s = s"
  by (simp add: run_calls_def)

lemma run_calls_snoc [simp]: "run_calls exec (hist @ [(e, c)]) s = snd (exec e c (run_calls exec hist s))"
  by (simp add: run_calls_def)

lemma run_calls_append: "run_calls exec (h1 @ h2) s = run_calls exec h2 (run_calls exec h1 s)"
  by (simp add: run_calls_def)

locale machine_refinement =
  fixes exec :: "'e \<Rightarrow> 'c \<Rightarrow> 's \<Rightarrow> 'a \<times> 's"
    and view :: "'s \<Rightarrow> 'v"
    and inv :: "'s \<Rightarrow> bool"
    and step :: "'e \<Rightarrow> 'c \<Rightarrow> 'v \<Rightarrow> 'v \<Rightarrow> bool"
  assumes inv_exec: "inv s \<Longrightarrow> inv (snd (exec e c s))"
    and refines: "inv s \<Longrightarrow> view (snd (exec e c s)) = view s \<or> step e c (view s) (view (snd (exec e c s)))"
begin

lemma run_inv: "inv s \<Longrightarrow> inv (run_calls exec hist s)"
proof (induction hist rule: rev_induct)
  case (snoc ec hist)
  then show ?case by (cases ec) (simp add: inv_exec)
qed simp

text \<open>A property of the history and the view that standing still and stepping keep.\<close>

lemma run_history:
  assumes "inv s" and "Q [] (view s)"
    and stays: "\<And>H e c v. Q H v \<Longrightarrow> Q (H @ [(e, c)]) v"
    and steps: "\<And>H e c v v'. Q H v \<Longrightarrow> step e c v v' \<Longrightarrow> Q (H @ [(e, c)]) v'"
  shows "Q hist (view (run_calls exec hist s))"
proof (induction hist rule: rev_induct)
  case Nil
  then show ?case using assms(2) by simp
next
  case (snoc ec hist)
  obtain e c where ec: "ec = (e, c)" by (cases ec)
  let ?s = "run_calls exec hist s"
  from refines [OF run_inv [OF assms(1)], of e c hist] show ?case
  proof
    assume "view (snd (exec e c ?s)) = view ?s"
    with stays [OF snoc] ec show ?thesis by simp
  next
    assume "step e c (view ?s) (view (snd (exec e c ?s)))"
    from steps [OF snoc this] ec show ?thesis by simp
  qed
qed

lemma run_keeps:
  assumes "inv s" and "P (view s)" and "\<And>e c v v'. step e c v v' \<Longrightarrow> P v \<Longrightarrow> P v'"
  shows "P (view (run_calls exec hist s))"
  using run_history [of s "\<lambda>_. P"] assms by blast

end

end
