(* ===== verification/Store_History.thy ===== *)
theory Store_History
  imports Store_Example Machine_Refinement
begin

text \<open>
  What a history of calls guarantees: the lemmas on steps of the transaction machine, the interface a
  client of the store relies on with its consequences, its interpretation on the SQLite store, and the
  growth of the audit log.
\<close>

section \<open>What one step keeps\<close>

lemma tx_step_terminal:
  "tx_step cr akey now c v v' \<Longrightarrow> v tid = Some x \<Longrightarrow> \<not> is_nonterminal (tv_state x) \<Longrightarrow> v' tid = Some x"
  by (erule tx_step.cases) (auto simp: expects_def is_nonterminal_def)

text \<open>Past a handoff of generation \<open>n\<close>: later generations, or this one outside \<open>Prepared\<close>.\<close>

definition past_handoff :: "u64 \<Rightarrow> tx_view \<Rightarrow> bool" where
  "past_handoff n x \<longleftrightarrow> n < tv_generation x \<or> n = tv_generation x \<and> tv_state x \<noteq> TxPrepared"

lemma generation_succ:
  "unat (g :: u64) + 1 < unat MAX_TRANSACTION_GENERATIONS \<Longrightarrow> unat (g + 1) = unat g + 1"
  using unat_checked_add [of g 1 "g + 1"] by (simp add: checked_add_def MAX_TRANSACTION_GENERATIONS_def)

lemma tx_step_past_handoff:
  assumes "tx_step cr akey now c v v'" and "v tid = Some x" and "past_handoff n x"
  shows "\<exists>y. v' tid = Some y \<and> past_handoff n y"
  using assms(1)
proof (cases rule: tx_step.cases)
  case (tx_reprepared r y observation bd)
  show ?thesis
  proof (cases "tid = rr_transaction_id r")
    case True
    have "unat (tv_generation x + 1) = unat (tv_generation x) + 1"
      using generation_succ tx_reprepared True assms(2) by simp
    moreover have "n \<le> tv_generation x" using assms(3) by (auto simp: past_handoff_def)
    ultimately have "n < tv_generation x + 1" by (simp add: word_less_nat_alt word_le_nat_alt)
    with tx_reprepared True assms(2) show ?thesis by (auto simp: past_handoff_def)
  next
    case False
    with tx_reprepared assms show ?thesis by auto
  qed
qed (use assms in \<open>auto simp: past_handoff_def expects_def\<close>)

text \<open>The sealed requests that account for a transaction's state, in the order they were made.\<close>

fun seals_handoff :: "crypto \<Rightarrow> authority_key \<Rightarrow> ('e \<Rightarrow> u64 option) \<Rightarrow> transaction_id \<Rightarrow> tx_view \<Rightarrow> 'e \<times> store_call \<Rightarrow> bool" where
  "seals_handoff cr akey now_of tid x (e, CallHandoff h) \<longleftrightarrow> verify_handoff cr akey h \<and> hr_transaction_id h = tid
     \<and> hr_expected_generation h = tv_generation x \<and> hr_expected_binding_digest h = tv_binding x
     \<and> in_window (now_of e) (hr_authorized_at h) (hr_expires_at h)"
| "seals_handoff cr akey now_of tid x _ \<longleftrightarrow> False"

fun seals_effect :: "crypto \<Rightarrow> authority_key \<Rightarrow> ('e \<Rightarrow> u64 option) \<Rightarrow> transaction_id \<Rightarrow> tx_view \<Rightarrow> 'e \<times> store_call \<Rightarrow> bool" where
  "seals_effect cr akey now_of tid x (e, CallRecover r) \<longleftrightarrow> verify_recovery cr akey r \<and> rr_transaction_id r = tid
     \<and> rr_expected_generation r = tv_generation x \<and> rr_expected_binding_digest r = tv_binding x
     \<and> in_window (now_of e) (rr_authorized_at r) (rr_expires_at r)
     \<and> (case rr_resolution r of IntendedStateVerified _ d g p \<Rightarrow> tv_material x = Some (d, g, p) | _ \<Rightarrow> False)"
| "seals_effect cr akey now_of tid x _ \<longleftrightarrow> False"

fun seals_commit :: "crypto \<Rightarrow> authority_key \<Rightarrow> transaction_id \<Rightarrow> tx_view \<Rightarrow> 'e \<times> store_call \<Rightarrow> bool" where
  "seals_commit cr akey tid x (e, CallCommit r) \<longleftrightarrow> verify_commit cr akey r \<and> cr_transaction_id r = tid
     \<and> cr_expected_generation r = tv_generation x \<and> cr_expected_binding_digest r = tv_binding x
     \<and> tv_material x = Some (cr_desired_state_digest r, cr_graph_digest r, cr_provenance_digest r)"
| "seals_commit cr akey tid x _ \<longleftrightarrow> False"

definition evidence ::
  "crypto \<Rightarrow> authority_key \<Rightarrow> ('e \<Rightarrow> u64 option) \<Rightarrow> transaction_id \<Rightarrow> tx_view \<Rightarrow> ('e \<times> store_call \<Rightarrow> bool) list" where
  "evidence cr akey now_of tid x =
     (let h = seals_handoff cr akey now_of tid x; v = seals_effect cr akey now_of tid x;
          k = seals_commit cr akey tid x in
      case tv_state x of TxPrepared \<Rightarrow> [] | TxAborted \<Rightarrow> [] | TxIndeterminate \<Rightarrow> [h] | TxRecoveryBlocked \<Rightarrow> [h]
      | TxVerified \<Rightarrow> [h, v] | TxCommitted \<Rightarrow> [h, v, k])"

definition accounted ::
  "crypto \<Rightarrow> authority_key \<Rightarrow> ('e \<Rightarrow> u64 option) \<Rightarrow> ('e \<times> store_call) list \<Rightarrow> transaction_id \<Rightarrow> tx_view \<Rightarrow> bool" where
  "accounted cr akey now_of H tid x \<longleftrightarrow>
     (\<exists>es. subseq es H \<and> list_all2 (\<lambda>P e. P e) (evidence cr akey now_of tid x) es)"

lemma seals_cong:
  assumes "tv_generation y = tv_generation x" "tv_binding y = tv_binding x"
  shows "seals_handoff cr akey now_of tid y = seals_handoff cr akey now_of tid x"
    and "tv_material y = tv_material x \<Longrightarrow> seals_effect cr akey now_of tid y = seals_effect cr akey now_of tid x"
proof -
  show "seals_handoff cr akey now_of tid y = seals_handoff cr akey now_of tid x"
  proof
    fix ec show "seals_handoff cr akey now_of tid y ec = seals_handoff cr akey now_of tid x ec"
      by (cases ec; cases "snd ec") (simp_all add: assms)
  qed
  assume m: "tv_material y = tv_material x"
  show "seals_effect cr akey now_of tid y = seals_effect cr akey now_of tid x"
  proof
    fix ec show "seals_effect cr akey now_of tid y ec = seals_effect cr akey now_of tid x ec"
      by (cases ec; cases "snd ec") (simp_all add: assms m split: recovery_resolution.split)
  qed
qed

lemma accounted_idle: "evidence cr akey now_of tid x = [] \<Longrightarrow> accounted cr akey now_of H tid x"
  by (auto simp: accounted_def)

lemma accounted_snoc: "accounted cr akey now_of H tid x \<Longrightarrow> accounted cr akey now_of (H @ [e]) tid x"
  unfolding accounted_def by (meson subseq_order.trans list_emb_append2 subseq_order.refl subseq_rev_drop_many)

lemma accounted_extend:
  assumes "accounted cr akey now_of H tid x" and "evidence cr akey now_of tid y = evidence cr akey now_of tid x @ [P]" and "P e"
  shows "accounted cr akey now_of (H @ [e]) tid y"
proof -
  obtain es where es: "subseq es H" "list_all2 (\<lambda>P e. P e) (evidence cr akey now_of tid x) es"
    using assms(1) by (auto simp: accounted_def)
  have "subseq (es @ [e]) (H @ [e])" using es(1) by simp
  moreover have "list_all2 (\<lambda>P e. P e) (evidence cr akey now_of tid y) (es @ [e])"
    unfolding assms(2) using es(2) assms(3) by (intro list_all2_appendI) simp_all
  ultimately show ?thesis unfolding accounted_def by blast
qed

lemma accounted_same:
  "accounted cr akey now_of H tid x \<Longrightarrow> evidence cr akey now_of tid y = evidence cr akey now_of tid x
     \<Longrightarrow> accounted cr akey now_of (H @ [e]) tid y"
  using accounted_snoc unfolding accounted_def by metis

lemma tx_step_accounted:
  assumes "tx_step cr akey (now_of e) c v v'" and "v' tid = Some y"
    and old: "\<And>x. v tid = Some x \<Longrightarrow> accounted cr akey now_of H tid x"
  shows "accounted cr akey now_of (H @ [(e, c)]) tid y"
proof (cases "v' tid = v tid")
  case True
  then show ?thesis using assms(2) by (intro accounted_snoc old) simp
next
  case False
  with assms(1) show ?thesis
  proof (cases rule: tx_step.cases)
    case (tx_prepare bd)
    with False assms(2) show ?thesis
      by (intro accounted_idle) (auto simp: evidence_def split: if_splits)
  next
    case (tx_handoff r x)
    with False have tid: "tid = hr_transaction_id r" by (simp split: if_splits)
    show ?thesis
      by (rule accounted_extend [OF old [of x], where P = "seals_handoff cr akey now_of tid y"])
        (use tid tx_handoff assms(2) in \<open>auto simp: expects_def evidence_def\<close>)
  next
    case (tx_verified r x observation d g p)
    with False have tid: "tid = rr_transaction_id r" by (simp split: if_splits)
    have "seals_handoff cr akey now_of tid y = seals_handoff cr akey now_of tid x"
      using tid tx_verified assms(2) by (intro seals_cong) auto
    then show ?thesis
      by (intro accounted_extend [OF old [of x], where P = "seals_effect cr akey now_of tid y"])
        (use tid tx_verified assms(2) in \<open>auto simp: expects_def evidence_def\<close>)
  next
    case (tx_blocked r x observation)
    with False have tid: "tid = rr_transaction_id r" by (simp split: if_splits)
    have "seals_handoff cr akey now_of tid y = seals_handoff cr akey now_of tid x"
      using tid tx_blocked assms(2) by (intro seals_cong) auto
    then show ?thesis
      by (intro accounted_same [OF old [of x]]) (use tid tx_blocked assms(2) in \<open>auto simp: expects_def evidence_def\<close>)
  next
    case (tx_ambiguous r x observation)
    with False have tid: "tid = rr_transaction_id r" by (simp split: if_splits)
    have "seals_handoff cr akey now_of tid y = seals_handoff cr akey now_of tid x"
      using tid tx_ambiguous assms(2) by (intro seals_cong) auto
    then show ?thesis
      by (intro accounted_same [OF old [of x]]) (use tid tx_ambiguous assms(2) in \<open>auto simp: expects_def evidence_def\<close>)
  next
    case (tx_reprepared r x observation bd)
    with False assms(2) show ?thesis
      by (intro accounted_idle) (auto simp: evidence_def split: if_splits)
  next
    case (tx_commit r x)
    with False have tid: "tid = cr_transaction_id r" by (simp split: if_splits)
    have "seals_handoff cr akey now_of tid y = seals_handoff cr akey now_of tid x"
      "seals_effect cr akey now_of tid y = seals_effect cr akey now_of tid x"
      using tid tx_commit assms(2) by (auto intro!: seals_cong)
    then show ?thesis
      by (intro accounted_extend [OF old [of x], where P = "seals_commit cr akey tid y"])
        (use tid tx_commit assms(2) in \<open>auto simp: expects_def evidence_def\<close>)
  next
    case (tx_abort r x)
    with False assms(2) show ?thesis
      by (intro accounted_idle) (auto simp: evidence_def split: if_splits)
  qed
qed

section \<open>The interface\<close>

text \<open>What a client of the store relies on: the calls refine the transaction machine, and a call that is not
  \<open>prepare\<close> answers \<open>Ok\<close> only with its step.\<close>

locale transaction_store =
  machine_refinement exec view inv "\<lambda>e c. tx_step cr akey (now_of e) c"
  for exec :: "'e \<Rightarrow> store_call \<Rightarrow> 's \<Rightarrow> bool \<times> 's"
    and view :: "'s \<Rightarrow> authority_view"
    and inv :: "'s \<Rightarrow> bool"
    and now_of :: "'e \<Rightarrow> u64 option"
    and cr :: crypto
    and akey :: authority_key +
  assumes ok_steps: "inv s \<Longrightarrow> fst (exec e c s)
      \<Longrightarrow> tx_step cr akey (now_of e) c (view s) (view (snd (exec e c s))) \<or> prepared_already cr c (view s)"
begin

lemma terminal_run:
  "inv s \<Longrightarrow> view s tid = Some x \<Longrightarrow> \<not> is_nonterminal (tv_state x) \<Longrightarrow> view (run_calls exec hist s) tid = Some x"
  using run_keeps [of s "\<lambda>v. v tid = Some x"] tx_step_terminal by blast

lemma past_handoff_run:
  assumes "inv s" and "view s tid = Some x" and "past_handoff n x"
  shows "\<exists>y. view (run_calls exec hist s) tid = Some y \<and> past_handoff n y"
  by (rule run_keeps [of s "\<lambda>v. \<exists>y. v tid = Some y \<and> past_handoff n y"])
    (use assms tx_step_past_handoff in blast)+

lemma one_handoff:
  assumes "inv s" and "fst (exec e (CallHandoff h) s)" and "hr_transaction_id h' = hr_transaction_id h"
    and "hr_expected_generation h' = hr_expected_generation h"
  shows "\<not> fst (exec e' (CallHandoff h') (run_calls exec hist (snd (exec e (CallHandoff h) s))))"
proof
  let ?s = "snd (exec e (CallHandoff h) s)"
  let ?t = "run_calls exec hist ?s"
  have inv: "inv ?s" "inv ?t" using assms(1) by (simp_all add: inv_exec run_inv)
  have first: "tx_step cr akey (now_of e) (CallHandoff h) (view s) (view ?s)"
    using ok_steps [OF assms(1,2)] by (auto simp: prepared_already_def)
  then obtain x where "view ?s (hr_transaction_id h) = Some x" "past_handoff (hr_expected_generation h) x"
    by (cases rule: tx_step.cases) (auto simp: past_handoff_def expects_def)
  then obtain y where y: "view ?t (hr_transaction_id h) = Some y" "past_handoff (hr_expected_generation h) y"
    using past_handoff_run [OF inv(1)] by blast
  assume "fst (exec e' (CallHandoff h') ?t)"
  then have "tx_step cr akey (now_of e') (CallHandoff h') (view ?t) (view (snd (exec e' (CallHandoff h') ?t)))"
    using ok_steps [OF inv(2)] by (auto simp: prepared_already_def)
  then show False
    using y assms(3,4) by (cases rule: tx_step.cases) (auto simp: past_handoff_def expects_def)
qed

lemma run_accounted:
  assumes "inv s" and "view s tid = None" and "view (run_calls exec hist s) tid = Some x"
  shows "accounted cr akey now_of hist tid x"
proof -
  have "\<forall>x. view (run_calls exec hist s) tid = Some x \<longrightarrow> accounted cr akey now_of hist tid x"
    by (rule run_history [where Q = "\<lambda>H v. \<forall>x. v tid = Some x \<longrightarrow> accounted cr akey now_of H tid x"])
      (use assms(1,2) accounted_snoc in \<open>auto intro: tx_step_accounted\<close>)
  then show ?thesis using assms(3) by blast
qed

end

section \<open>The SQLite store provides the interface\<close>

lemma store_move_wf: "store_move cr env limits key c db db' \<Longrightarrow> db_wf db'"
  by (erule store_move.cases) (simp_all add: advancedD(1))

lemma exec_step:
  assumes "db_wf (ss_db s)"
  shows "db_wf (ss_db (snd (exec_call cr env c s)))" "same_config s (snd (exec_call cr env c s))"
    "store_view (ss_db (snd (exec_call cr env c s))) = store_view (ss_db s)
       \<or> tx_step cr (ss_authority_key s) (env_now_ms env) c (store_view (ss_db s))
           (store_view (ss_db (snd (exec_call cr env c s))))"
    "fst (exec_call cr env c s) \<Longrightarrow> tx_step cr (ss_authority_key s) (env_now_ms env) c (store_view (ss_db s))
           (store_view (ss_db (snd (exec_call cr env c s)))) \<or> prepared_already cr c (store_view (ss_db s))"
proof -
  obtain ok s' where e: "exec_call cr env c s = (ok, s')" by (cases "exec_call cr env c s")
  from e assms have "db_wf (ss_db s') \<and> same_config s s'
    \<and> (store_view (ss_db s') = store_view (ss_db s)
       \<or> tx_step cr (ss_authority_key s) (env_now_ms env) c (store_view (ss_db s)) (store_view (ss_db s')))
    \<and> (ok \<longrightarrow> tx_step cr (ss_authority_key s) (env_now_ms env) c (store_view (ss_db s)) (store_view (ss_db s'))
       \<or> prepared_already cr c (store_view (ss_db s)))"
  proof (cases rule: exec_cases)
    case nothing
    then show ?thesis using assms by (simp add: same_config_def)
  next
    case existing
    then show ?thesis using assms by (simp add: same_config_def)
  next
    case moved
    then show ?thesis
      using store_move_wf [OF moved(1)] move_refines [OF moved(1) assms moved(2)] by simp
  qed
  then show "db_wf (ss_db (snd (exec_call cr env c s)))" "same_config s (snd (exec_call cr env c s))"
    "store_view (ss_db (snd (exec_call cr env c s))) = store_view (ss_db s)
       \<or> tx_step cr (ss_authority_key s) (env_now_ms env) c (store_view (ss_db s))
           (store_view (ss_db (snd (exec_call cr env c s))))"
    "fst (exec_call cr env c s) \<Longrightarrow> tx_step cr (ss_authority_key s) (env_now_ms env) c (store_view (ss_db s))
           (store_view (ss_db (snd (exec_call cr env c s)))) \<or> prepared_already cr c (store_view (ss_db s))"
    by (simp_all add: e)
qed

text \<open>Every operation of \<open>SqliteTransactionStore\<close> is a step of the machine, for any primitives and key.\<close>

interpretation sqlite: transaction_store "exec_call cr" "\<lambda>s. store_view (ss_db s)"
  "\<lambda>s. db_wf (ss_db s) \<and> ss_authority_key s = akey" env_now_ms cr akey for cr akey
proof unfold_locales
  fix s :: sqlite_store and e c
  assume "db_wf (ss_db s) \<and> ss_authority_key s = akey"
  then have wf: "db_wf (ss_db s)" and k: "ss_authority_key s = akey" by simp_all
  note step = exec_step [OF wf, of cr e c, unfolded k]
  show "db_wf (ss_db (snd (exec_call cr e c s))) \<and> ss_authority_key (snd (exec_call cr e c s)) = akey"
    using step(1,2) k by (simp add: same_config_def)
  show "store_view (ss_db (snd (exec_call cr e c s))) = store_view (ss_db s)
      \<or> tx_step cr akey (env_now_ms e) c (store_view (ss_db s)) (store_view (ss_db (snd (exec_call cr e c s))))"
    by (rule step(3))
  show "tx_step cr akey (env_now_ms e) c (store_view (ss_db s)) (store_view (ss_db (snd (exec_call cr e c s))))
      \<or> prepared_already cr c (store_view (ss_db s))" if "fst (exec_call cr e c s)"
    by (rule step(4) [OF that])
qed

section \<open>Atomicity\<close>

text \<open>A transaction that changed the database began and committed without a fault.\<close>

lemma with_transaction_commits:
  assumes "with_transaction env s body after_commit = (r, s')"
  shows "ss_db s' = ss_db s \<or> env_fault env SqlBegin (ss_db s) = None \<and> env_fault env SqlCommit (ss_db s') = None"
proof (cases "sql env SqlBegin (ss_db s)")
  case (Inl e)
  with assms show ?thesis by (simp add: with_transaction_def)
next
  case b: (Inr u)
  show ?thesis
  proof (cases "body (ss_db s)")
    case (Inl e)
    with b assms show ?thesis by (simp add: with_transaction_def)
  next
    case (Inr q)
    obtain out db' where q: "q = (out, db')" by (cases q)
    show ?thesis
      using assms b Inr q by (cases "sql env SqlCommit db'") (auto simp: with_transaction_def sql_def Let_def split: option.splits)
  qed
qed

lemma map_ok_iff: "map_prod is_ok id p = (ok, s') \<longleftrightarrow> (\<exists>r. p = (r, s') \<and> ok = is_ok r)"
  by (cases p) auto

lemma exec_call_commits:
  assumes "exec_call cr env c s = (ok, s')"
  shows "ss_db s' = ss_db s \<or> env_fault env SqlBegin (ss_db s) = None \<and> env_fault env SqlCommit (ss_db s') = None"
  using assms unfolding exec_call_def
  by (auto simp: map_ok_iff prepare_def handoff_def recover_def commit_def abort_prepared_def
      split: store_call.splits sum.splits prod.splits dest!: with_transaction_commits)

lemma with_transaction_fails:
  assumes "with_transaction env s body after_commit = (r, s')" and "\<not> is_ok r"
  shows "s' = s \<or> (\<exists>e. after_commit s' = Inl e) \<and> env_fault env SqlCommit (ss_db s') = None"
  using assms(1)
proof (cases rule: with_transaction_cases)
  case (committed out db')
  then have "\<exists>e. after_commit s' = Inl e" using assms(2) by (cases "after_commit s'") simp_all
  moreover have "s' = s" if "ss_db s' = ss_db s" using committed(2) that by simp
  ultimately show ?thesis using with_transaction_commits [OF assms(1)] by blast
qed simp

lemma exec_call_fails:
  assumes "exec_call cr env c s = (False, s')"
  shows "s' = s \<or> (\<forall>bd. c \<noteq> CallPrepare bd) \<and> (\<exists>e. reconcile_filesystem_reserve_after_commit cr env s' = Inl e)
    \<and> env_fault env SqlCommit (ss_db s') = None"
  using assms unfolding exec_call_def
  by (auto simp: map_ok_iff prepare_def handoff_def recover_def commit_def abort_prepared_def no_reconcile_def
      split: store_call.splits sum.splits prod.splits dest: with_transaction_fails)

section \<open>The audit log\<close>

text \<open>Rows that follow one another by sequence and digest, each carrying the digest and tag of its content.\<close>

definition follows :: "stored_audit_event option \<Rightarrow> stored_audit_event \<Rightarrow> bool" where
  "follows l r \<longleftrightarrow> (case l of
     None \<Rightarrow> sa_event_sequence r = 0 \<and> sa_previous_digest r = zero_digest
   | Some e \<Rightarrow> unat (sa_event_sequence r) = unat (sa_event_sequence e) + 1 \<and> sa_previous_digest r = sa_event_digest e)"

fun audit_chained :: "crypto \<Rightarrow> integrity_key \<Rightarrow> transaction_id \<Rightarrow> stored_audit_event option \<Rightarrow> stored_audit_event list \<Rightarrow> bool" where
  "audit_chained cr key tid l [] \<longleftrightarrow> True"
| "audit_chained cr key tid l (r # rs) \<longleftrightarrow>
     follows l r
     \<and> r = audit_row cr key tid (sa_event_sequence r) (sa_previous_digest r)
         (sa_generation r, sa_state_version r, sa_event_kind r, sa_payload_digest r)
     \<and> audit_chained cr key tid (Some r) rs"

lemma audit_successor_follows: "audit_successor l = Inr (n, p) \<Longrightarrow> follows l (audit_row cr key tid n p ev)"
  using checked_succ content_digest_length
  by (auto simp: audit_successor_def follows_def corrupt_def result_simps split: option.splits)

lemma audit_extends_chained: "audit_extends cr key tid l evs es \<Longrightarrow> audit_chained cr key tid l es"
  by (induction evs arbitrary: l es) (auto simp: audit_successor_follows)

lemma last_event_Cons: "last_event (r # rs) = (if rs = [] then Some r else last_event rs)"
  by (simp add: last_event_def)

lemma audit_chained_append:
  "audit_chained cr key tid l (xs @ ys) \<longleftrightarrow> audit_chained cr key tid l xs
     \<and> audit_chained cr key tid (if xs = [] then l else last_event xs) ys"
  by (induction xs arbitrary: l) (auto simp: last_event_Cons last_event_def)

lemma move_advanced:
  "store_move cr env limits key c db db' \<Longrightarrow> \<exists>tid t gs evs b m n. advanced cr key tid t gs evs b m n db db'"
  by (erule store_move.cases) blast+

definition audit_ok :: "crypto \<Rightarrow> integrity_key \<Rightarrow> sqlite_db \<Rightarrow> bool" where
  "audit_ok cr key db \<longleftrightarrow> (\<forall>tid. audit_chained cr key tid None (audit_rows tid db))"

lemma advanced_audit:
  assumes "advanced cr key i t gs evs b m n db db'" and "audit_ok cr key db"
  shows "prefix (audit_rows tid db) (audit_rows tid db')" "audit_chained cr key tid None (audit_rows tid db')"
proof -
  obtain es where es: "audit_extends cr key i (last_event (audit_rows i db)) evs es" "audit_rows i db' = audit_rows i db @ es"
    using advancedD(5) [OF assms(1)] by blast
  have other: "audit_rows tid db' = audit_rows tid db" if "tid \<noteq> i"
    using advancedD(6) [OF assms(1) that] by (simp add: audit_rows_def)
  show "prefix (audit_rows tid db) (audit_rows tid db')" using other es(2) by (cases "tid = i") simp_all
  have "audit_chained cr key i (last_event (audit_rows i db)) es" using audit_extends_chained es(1) .
  then show "audit_chained cr key tid None (audit_rows tid db')"
    using other es(2) assms(2) unfolding audit_ok_def
    by (cases "tid = i") (auto simp: audit_chained_append last_event_def split: if_splits)
qed

lemma exec_audit:
  assumes "db_wf (ss_db s)" and "audit_ok cr (ss_integrity_key s) (ss_db s)"
  shows "prefix (audit_rows tid (ss_db s)) (audit_rows tid (ss_db (snd (exec_call cr env c s))))"
    "audit_ok cr (ss_integrity_key s) (ss_db (snd (exec_call cr env c s)))"
proof -
  obtain ok s' where e: "exec_call cr env c s = (ok, s')" by (cases "exec_call cr env c s")
  have "(\<forall>tid. prefix (audit_rows tid (ss_db s)) (audit_rows tid (ss_db s'))) \<and> audit_ok cr (ss_integrity_key s) (ss_db s')"
    using e assms(1)
  proof (cases rule: exec_cases)
    case moved
    obtain i t gs evs b m n where "advanced cr (ss_integrity_key s) i t gs evs b m n (ss_db s) (ss_db s')"
      using move_advanced [OF moved(1)] by blast
    from advanced_audit [OF this assms(2)] show ?thesis by (simp add: audit_ok_def)
  qed (use assms(2) in simp_all)
  then show "prefix (audit_rows tid (ss_db s)) (audit_rows tid (ss_db (snd (exec_call cr env c s))))"
    "audit_ok cr (ss_integrity_key s) (ss_db (snd (exec_call cr env c s)))"
    by (simp_all add: e)
qed

lemma run_audit:
  assumes "db_wf (ss_db s)" and "audit_ok cr (ss_integrity_key s) (ss_db s)"
  shows "prefix (audit_rows tid (ss_db s)) (audit_rows tid (ss_db (run_calls (exec_call cr) hist s)))
    \<and> audit_ok cr (ss_integrity_key s) (ss_db (run_calls (exec_call cr) hist s))
    \<and> ss_integrity_key (run_calls (exec_call cr) hist s) = ss_integrity_key s"
proof (induction hist rule: rev_induct)
  case (snoc ec hist)
  obtain e c where ec: "ec = (e, c)" by (cases ec)
  let ?s = "run_calls (exec_call cr) hist s"
  have wf: "db_wf (ss_db ?s)"
    using sqlite.run_inv assms(1) by blast
  have IH: "prefix (audit_rows tid (ss_db s)) (audit_rows tid (ss_db ?s))"
    "audit_ok cr (ss_integrity_key ?s) (ss_db ?s)" "ss_integrity_key ?s = ss_integrity_key s"
    using snoc by simp_all
  show ?case
    using exec_audit(1) [OF wf IH(2), of tid e c] exec_audit(2) [OF wf IH(2), of e c] exec_step(2) [OF wf, of cr e c] IH(1,3) prefix_order.trans
    unfolding ec by (auto simp: same_config_def)
qed (use assms(2) in simp)

section \<open>Properties\<close>

definition snap_of :: "transaction_id \<Rightarrow> tx_view \<Rightarrow> transaction_snapshot" where
  "snap_of tid x = \<lparr> snap_transaction_id = tid, snap_principal = tv_principal x, snap_request_id = tv_request_id x,
     snap_current_generation = tv_generation x, snap_state_version = tv_version x, snap_state = tv_state x,
     snap_binding_digest = tv_binding x \<rparr>"

lemma snap_of_sel [simp]:
  "snap_state (snap_of tid x) = tv_state x" "snap_current_generation (snap_of tid x) = tv_generation x"
  "snap_binding_digest (snap_of tid x) = tv_binding x"
  by (simp_all add: snap_of_def)

lemma snapshot_view:
  assumes "snapshot cr env s tid = Inr snap" and "db_wf (ss_db s)"
  shows "\<exists>x. store_view (ss_db s) tid = Some x \<and> snap = snap_of tid x"
proof -
  obtain t g where load: "load_current cr env (ss_integrity_key s) (ss_db s) tid = Inr (t, g, snap)"
    using assms(1) by (auto simp: snapshot_def result_simps)
  have "snap = snap_of tid (row_view t g (snap_state snap))"
    using load_current_ok(6) [OF load assms(2)] by (simp add: snap_of_def row_view_def)
  with load_current_view [OF load assms(2)] show ?thesis by blast
qed

lemma run_wf: "db_wf (ss_db s) \<Longrightarrow> db_wf (ss_db (run_calls (exec_call cr) hist s))"
  using sqlite.run_inv by blast

lemma committed_evidence:
  assumes "accounted cr akey now_of H tid x" and "tv_state x = TxCommitted"
  shows "\<exists>e1 h e2 r e3 k observation. subseq [(e1, CallHandoff h), (e2, CallRecover r), (e3, CallCommit k)] H
    \<and> seals_handoff cr akey now_of tid x (e1, CallHandoff h) \<and> seals_effect cr akey now_of tid x (e2, CallRecover r)
    \<and> seals_commit cr akey tid x (e3, CallCommit k)
    \<and> rr_resolution r = IntendedStateVerified observation (cr_desired_state_digest k) (cr_graph_digest k) (cr_provenance_digest k)"
proof -
  obtain a b c where abc: "subseq [a, b, c] H" "seals_handoff cr akey now_of tid x a"
      "seals_effect cr akey now_of tid x b" "seals_commit cr akey tid x c"
    using assms by (auto simp: accounted_def evidence_def Let_def list_all2_Cons1)
  obtain e1 h where a: "a = (e1, CallHandoff h)" using abc(2) by (cases a; cases "snd a") simp_all
  obtain e2 r where b: "b = (e2, CallRecover r)" using abc(3) by (cases b; cases "snd b") simp_all
  obtain e3 k where c: "c = (e3, CallCommit k)" using abc(4) by (cases c; cases "snd c") simp_all
  have "\<exists>observation. rr_resolution r =
      IntendedStateVerified observation (cr_desired_state_digest k) (cr_graph_digest k) (cr_provenance_digest k)"
    using abc(3,4) unfolding b c by (auto split: recovery_resolution.splits)
  with abc show ?thesis unfolding a b c by blast
qed

text \<open>
  C8. The SQLite store implements the transaction machine. Whatever the primitives, the clock and the faults
  of the environment, a call on a well-formed database leaves a well-formed database whose view of the
  transactions is unchanged or has made exactly one step of the machine for that call, and an answer
  \<open>Ok\<close> means the step was made, or the transaction was already prepared with the same binding.
\<close>

theorem store_refines_machine:
  assumes "db_wf (ss_db s)" and "exec_call cr env c s = (ok, s')"
  shows "db_wf (ss_db s')
    \<and> (store_view (ss_db s') = store_view (ss_db s)
       \<or> tx_step cr (ss_authority_key s) (env_now_ms env) c (store_view (ss_db s)) (store_view (ss_db s')))
    \<and> (ok \<longrightarrow> tx_step cr (ss_authority_key s) (env_now_ms env) c (store_view (ss_db s)) (store_view (ss_db s'))
       \<or> prepared_already cr c (store_view (ss_db s)))"
  using exec_step [OF assms(1), of cr env c] assms(2) by simp

text \<open>
  C1. A committed transaction was authorized, handed off, verified and committed, in that order. If after
  any history of calls, with any faults, the store reports a transaction it did not know at the start as
  committed, the history contains a handoff, then a recovery, then a commit, each sealed under the
  authority key for this transaction, its current generation and its binding; the handoff and the recovery
  arrived inside their windows, and the recovery verified the intended state with the same three digests
  the commit names.
\<close>

theorem committed_was_authorized:
  assumes "db_wf (ss_db s)" and "store_view (ss_db s) tid = None"
    and "snapshot cr env (run_calls (exec_call cr) hist s) tid = Inr snap" and "snap_state snap = TxCommitted"
  shows "\<exists>e1 h e2 r e3 k observation.
      subseq [(e1, CallHandoff h), (e2, CallRecover r), (e3, CallCommit k)] hist
    \<and> verify_handoff cr (ss_authority_key s) h \<and> hr_transaction_id h = tid
    \<and> hr_expected_generation h = snap_current_generation snap
    \<and> hr_expected_binding_digest h = snap_binding_digest snap
    \<and> in_window (env_now_ms e1) (hr_authorized_at h) (hr_expires_at h)
    \<and> verify_recovery cr (ss_authority_key s) r \<and> rr_transaction_id r = tid
    \<and> rr_expected_generation r = snap_current_generation snap
    \<and> rr_expected_binding_digest r = snap_binding_digest snap
    \<and> in_window (env_now_ms e2) (rr_authorized_at r) (rr_expires_at r)
    \<and> verify_commit cr (ss_authority_key s) k \<and> cr_transaction_id k = tid
    \<and> cr_expected_generation k = snap_current_generation snap
    \<and> cr_expected_binding_digest k = snap_binding_digest snap
    \<and> rr_resolution r = IntendedStateVerified observation
        (cr_desired_state_digest k) (cr_graph_digest k) (cr_provenance_digest k)"
proof -
  obtain x where x: "store_view (ss_db (run_calls (exec_call cr) hist s)) tid = Some x" "snap = snap_of tid x"
    using snapshot_view [OF assms(3)] run_wf assms(1) by blast
  have "accounted cr (ss_authority_key s) env_now_ms hist tid x"
    using sqlite.run_accounted [OF _ assms(2) x(1)] assms(1) by blast
  then obtain e1 h e2 r e3 k observation where
    "subseq [(e1, CallHandoff h), (e2, CallRecover r), (e3, CallCommit k)] hist"
    "seals_handoff cr (ss_authority_key s) env_now_ms tid x (e1, CallHandoff h)"
    "seals_effect cr (ss_authority_key s) env_now_ms tid x (e2, CallRecover r)"
    "seals_commit cr (ss_authority_key s) tid x (e3, CallCommit k)"
    "rr_resolution r = IntendedStateVerified observation (cr_desired_state_digest k) (cr_graph_digest k) (cr_provenance_digest k)"
    using committed_evidence [of cr "ss_authority_key s" env_now_ms hist tid x] assms(4) x(2) by auto
  then show ?thesis
    by (intro exI [of _ e1] exI [of _ h] exI [of _ e2] exI [of _ r] exI [of _ e3] exI [of _ k] exI [of _ observation])
      (simp add: x(2))
qed

text \<open>
  C5. The effect of a generation is handed off at most once. After a handoff was accepted, no later handoff
  for the same transaction and generation is accepted, whatever calls, faults and sealed requests come in
  between.
\<close>

theorem handoff_at_most_once:
  assumes "db_wf (ss_db s)" and "handoff cr env h s = (Inr out, s1)"
    and "hr_transaction_id h' = hr_transaction_id h" and "hr_expected_generation h' = hr_expected_generation h"
  shows "\<not> is_ok (fst (handoff cr env' h' (run_calls (exec_call cr) hist s1)))"
proof -
  have e: "exec_call cr env (CallHandoff h) s = (True, s1)" using assms(2) by (simp add: exec_call_def)
  have "\<not> fst (exec_call cr env' (CallHandoff h') (run_calls (exec_call cr) hist (snd (exec_call cr env (CallHandoff h) s))))"
    by (rule sqlite.one_handoff [where akey = "ss_authority_key s"]) (simp_all add: assms e)
  then show ?thesis unfolding e by (simp add: exec_call_def)
qed

text \<open>
  C14. Terminal states are final. Once the store reports a transaction as committed, aborted or blocked,
  every later report of it is the same snapshot, whatever calls follow.
\<close>

theorem terminal_state_final:
  assumes "db_wf (ss_db s)" and "snapshot cr env s tid = Inr snap" and "\<not> is_nonterminal (snap_state snap)"
    and "snapshot cr env' (run_calls (exec_call cr) hist s) tid = Inr snap'"
  shows "snap' = snap"
proof -
  obtain x where x: "store_view (ss_db s) tid = Some x" "snap = snap_of tid x"
    using snapshot_view [OF assms(2,1)] by blast
  have "store_view (ss_db (run_calls (exec_call cr) hist s)) tid = Some x"
    by (rule sqlite.terminal_run [where akey = "ss_authority_key s"]) (use assms x in simp_all)
  then show ?thesis using snapshot_view [OF assms(4) run_wf [OF assms(1)]] x(2) by simp
qed

text \<open>
  C12. A call that fails changes nothing. When a call answers an error, at whatever statement a fault occurred,
  the store is exactly what it was before; the only exception is a call whose transaction SQLite committed
  without a fault and whose reserve reconciliation after the commit reported the error, and then exactly the
  one step of that call is durable. Preparing has no such exception.
\<close>

theorem failed_call_rolls_back:
  assumes "db_wf (ss_db s)" and "exec_call cr env c s = (False, s')"
  shows "s' = s
    \<or> (\<exists>e. reconcile_filesystem_reserve_after_commit cr env s' = Inl e) \<and> env_fault env SqlCommit (ss_db s') = None
       \<and> (\<forall>bd. c \<noteq> CallPrepare bd)
       \<and> tx_step cr (ss_authority_key s) (env_now_ms env) c (store_view (ss_db s)) (store_view (ss_db s'))"
  using assms(2,1)
proof (cases rule: exec_cases)
  case moved
  then show ?thesis using exec_call_fails [OF assms(2)] move_refines [OF moved(1) assms(1) moved(2)] by blast
qed simp_all

text \<open>
  C13. The audit log only grows. After any history, with any faults, the audit rows of each transaction are
  those it had followed by new ones, and the whole log is chained: sequence numbers count from zero without
  a gap, each row names the digest of the row before it, and carries the digest and the integrity tag of its
  own content.
\<close>

theorem audit_log_append_only:
  assumes "db_wf (ss_db s)" and "audit_ok cr (ss_integrity_key s) (ss_db s)"
  shows "prefix (audit_rows tid (ss_db s)) (audit_rows tid (ss_db (run_calls (exec_call cr) hist s)))
    \<and> audit_chained cr (ss_integrity_key s) tid None (audit_rows tid (ss_db (run_calls (exec_call cr) hist s)))"
  using run_audit [OF assms, of tid hist] by (simp add: audit_ok_def)

section \<open>The properties on the example run\<close>

lemma demo_store_wf: "db_wf (ss_db demo_store)"
  by (simp add: demo_store_def db_wf_empty)

lemma demo_store_view: "store_view (ss_db demo_store) tid = None"
  by (simp add: demo_store_def store_view_def bt_get_def)

lemma demo_settings: "ss_authority_key demo_store = []" "ss_integrity_key demo_store = []" "env_now_ms demo_env = Some 10"
  by (simp_all add: demo_store_def demo_env_def)

lemma demo_run:
  "run_calls (exec_call demo_crypto) [(demo_env, CallPrepare demo_binding), (demo_env, CallHandoff demo_handoff),
     (demo_env, CallRecover demo_recovery), (demo_env, CallCommit demo_commit)] demo_store
   = demo_state 4 ''committed'' (Some demo_digest)
       [''prepared'', ''handoff-indeterminate'', ''recovery-verified'', ''committed''] []"
  by (simp add: run_calls_def demo_prepare demo_handed_off demo_verified demo_committed)

lemma demo_snapshot:
  "snapshot demo_crypto demo_env (demo_state 4 ''committed'' (Some demo_digest)
       [''prepared'', ''handoff-indeterminate'', ''recovery-verified'', ''committed''] []) demo_id
   = Inr \<lparr> snap_transaction_id = demo_id, snap_principal = ''p'', snap_request_id = ''r'', snap_current_generation = 0,
       snap_state_version = 4, snap_state = TxCommitted, snap_binding_digest = demo_digest \<rparr>"
  by (simp add: snapshot_def demo_eval)

lemma demo_run_wf:
  "db_wf (ss_db (demo_state 4 ''committed'' (Some demo_digest)
       [''prepared'', ''handoff-indeterminate'', ''recovery-verified'', ''committed''] []))"
  using run_wf [OF demo_store_wf, of demo_crypto] demo_run by metis

lemma store_refines_machine_witness:
  "tx_step demo_crypto [] (Some 10) (CallPrepare demo_binding) (store_view (ss_db demo_store))
     (store_view (ss_db (demo_state 1 ''prepared'' None [''prepared''] [(0, 8192)])))"
  using store_refines_machine [OF demo_store_wf demo_prepare]
  unfolding demo_settings by (auto simp: demo_store_view prepared_already_def fun_eq_iff)

lemma committed_was_authorized_witness:
  "\<exists>e1 h e2 r e3 k. subseq [(e1, CallHandoff h), (e2, CallRecover r), (e3, CallCommit k)]
      [(demo_env, CallPrepare demo_binding), (demo_env, CallHandoff demo_handoff),
       (demo_env, CallRecover demo_recovery), (demo_env, CallCommit demo_commit)]
    \<and> verify_handoff demo_crypto [] h \<and> hr_expected_binding_digest h = demo_digest"
  using committed_was_authorized [OF demo_store_wf demo_store_view demo_snapshot [folded demo_run]]
  unfolding demo_settings by (simp only: transaction_snapshot.select_convs) blast

lemma handoff_at_most_once_witness:
  "\<not> is_ok (fst (handoff demo_crypto demo_env demo_handoff (run_calls (exec_call demo_crypto)
     [(demo_env, CallRecover demo_recovery)]
     (demo_state 2 ''indeterminate'' None [''prepared'', ''handoff-indeterminate''] [(0, 8192)]))))"
proof -
  obtain out where out: "handoff demo_crypto demo_env demo_handoff (demo_state 1 ''prepared'' None [''prepared''] [(0, 8192)])
      = (Inr out, demo_state 2 ''indeterminate'' None [''prepared'', ''handoff-indeterminate''] [(0, 8192)])"
    using demo_handed_off by (auto simp: exec_call_def map_ok_iff is_ok_iff)
  have "db_wf (ss_db (demo_state 1 ''prepared'' None [''prepared''] [(0, 8192)]))"
    using exec_step(1) [OF demo_store_wf, of demo_crypto demo_env "CallPrepare demo_binding"] demo_prepare by simp
  from handoff_at_most_once [OF this out refl refl] show ?thesis .
qed

lemma terminal_state_final_witness:
  "\<exists>snap. snapshot demo_crypto demo_env (run_calls (exec_call demo_crypto) [(demo_env, CallCommit demo_commit)]
     (demo_state 4 ''committed'' (Some demo_digest)
       [''prepared'', ''handoff-indeterminate'', ''recovery-verified'', ''committed''] [])) demo_id = Inr snap
   \<and> snap_state snap = TxCommitted \<and> snap_state_version snap = 4"
proof -
  let ?s = "demo_state 4 ''committed'' (Some demo_digest)
       [''prepared'', ''handoff-indeterminate'', ''recovery-verified'', ''committed''] []"
  have again: "run_calls (exec_call demo_crypto) [(demo_env, CallCommit demo_commit)] ?s = ?s"
    by (simp add: run_calls_def demo_eval)
  obtain snap where snap: "snapshot demo_crypto demo_env
      (run_calls (exec_call demo_crypto) [(demo_env, CallCommit demo_commit)] ?s) demo_id = Inr snap"
    unfolding again demo_snapshot by blast
  from terminal_state_final [OF demo_run_wf demo_snapshot _ this] snap show ?thesis
    by (simp add: is_nonterminal_def)
qed

lemma failed_call_rolls_back_witness:
  "snd (exec_call demo_crypto demo_env (CallCommit demo_commit) demo_store) = demo_store"
proof -
  have e: "exec_call demo_crypto demo_env (CallCommit demo_commit) demo_store = (False, demo_store)"
    by (simp add: demo_eval)
  show ?thesis using failed_call_rolls_back [OF demo_store_wf e] e by simp
qed

lemma audit_log_append_only_witness:
  "audit_chained demo_crypto [] demo_id None (audit_rows demo_id (ss_db (demo_state 4 ''committed'' (Some demo_digest)
     [''prepared'', ''handoff-indeterminate'', ''recovery-verified'', ''committed''] [])))"
proof -
  have "audit_ok demo_crypto (ss_integrity_key demo_store) (ss_db demo_store)"
    by (simp add: audit_ok_def audit_rows_def rows_of_def demo_store_def)
  from audit_log_append_only [OF demo_store_wf this, of demo_id
      "[(demo_env, CallPrepare demo_binding), (demo_env, CallHandoff demo_handoff),
        (demo_env, CallRecover demo_recovery), (demo_env, CallCommit demo_commit)]"]
  show ?thesis unfolding demo_run demo_settings by simp
qed

end
