(* ===== verification/Linura_Text.thy ===== *)
theory Linura_Text
  imports Linura_Prelude
begin

text \<open>
  The text operations of the Rust standard library that the file formats use: UTF-8 validity, trimming,
  lines, the last occurrence of a pattern, and hexadecimal numbers.
\<close>

section \<open>UTF-8\<close>

definition byte_in :: "nat \<Rightarrow> nat \<Rightarrow> string \<Rightarrow> nat \<Rightarrow> bool" where
  "byte_in lo hi bs i \<longleftrightarrow> i < length bs \<and> lo \<le> (of_char (bs ! i) :: nat) \<and> of_char (bs ! i) \<le> hi"

text \<open>\<open>std::str::from_utf8\<close> accepts shortest forms up to \<open>U+10FFFF\<close>, surrogates excluded.\<close>

fun utf8_valid :: "bytes \<Rightarrow> bool" where
  "utf8_valid [] \<longleftrightarrow> True"
| "utf8_valid (b # bs) \<longleftrightarrow> (let n = of_char b :: nat; c = byte_in 128 191 bs in
     if n < 128 then utf8_valid bs
     else if n < 194 then False
     else if n < 224 then c 0 \<and> utf8_valid (drop 1 bs)
     else if n < 240 then
       byte_in (if n = 224 then 160 else 128) (if n = 237 then 159 else 191) bs 0 \<and> c 1 \<and> utf8_valid (drop 2 bs)
     else if n < 245 then
       byte_in (if n = 240 then 144 else 128) (if n = 244 then 143 else 191) bs 0 \<and> c 1 \<and> c 2
         \<and> utf8_valid (drop 3 bs)
     else False)"

text \<open>The bytes of each character of a valid string, and \<open>str::trim\<close> on them.\<close>

fun utf8_groups :: "string \<Rightarrow> string list" where
  "utf8_groups [] = []"
| "utf8_groups (b # bs) = (let n = of_char b :: nat;
       k = (if n < 128 then 0 else if n < 224 then 1 else if n < 240 then 2 else 3 :: nat) in
     (b # take k bs) # utf8_groups (drop k bs))"

definition trim :: "string \<Rightarrow> string" where
  "trim s = (let ws = (\<lambda>g. list_all char_is_whitespace (utf8_chars g)) in
     concat (rev (dropWhile ws (rev (dropWhile ws (utf8_groups s))))))"

definition is_ascii_byte :: "char \<Rightarrow> bool" where
  "is_ascii_byte c \<longleftrightarrow> (of_char c :: nat) < 128"

lemma ascii_valid: "list_all is_ascii_byte s \<Longrightarrow> utf8_valid s"
  by (induction s) (simp_all add: is_ascii_byte_def)

lemma ascii_groups: "list_all is_ascii_byte s \<Longrightarrow> utf8_groups s = map (\<lambda>c. [c]) s"
  by (induction s) (simp_all add: is_ascii_byte_def)

lemma trim_id:
  assumes "list_all is_ascii_byte s" and "\<And>c. c \<in> set s \<Longrightarrow> \<not> char_is_whitespace (of_char c)"
  shows "trim s = s"
proof -
  let ?ws = "\<lambda>g. list_all char_is_whitespace (utf8_chars g)"
  have no: "\<not> ?ws g" if "g \<in> set (map (\<lambda>c. [c]) s)" for g
    using that assms by (auto simp: list_all_iff is_ascii_byte_def Let_def)
  have dw: "dropWhile ?ws xs = xs" if "\<And>g. g \<in> set xs \<Longrightarrow> \<not> ?ws g" for xs
    using that by (cases xs) simp_all
  have "dropWhile ?ws (map (\<lambda>c. [c]) s) = map (\<lambda>c. [c]) s" using no by (rule dw)
  moreover have "dropWhile ?ws (rev (map (\<lambda>c. [c]) s)) = rev (map (\<lambda>c. [c]) s)"
    by (rule dw) (use no in \<open>simp only: set_rev simp_thms\<close>)
  ultimately show ?thesis
    unfolding trim_def Let_def ascii_groups [OF assms(1)] by (simp only: rev_rev_ident) (induction s, simp_all)
qed

text \<open>Trimming a valid string gives a valid string.\<close>

lemma byte_in_append: "byte_in lo hi bs i \<Longrightarrow> byte_in lo hi (bs @ t) i"
  by (simp add: byte_in_def nth_append)

lemma byte_in_take: "byte_in lo hi (take k bs) i \<longleftrightarrow> i < k \<and> byte_in lo hi bs i"
  by (auto simp: byte_in_def)

lemma byte_in_length: "byte_in lo hi bs i \<Longrightarrow> Suc i \<le> length bs"
  by (simp add: byte_in_def)

lemma drop_append_byte: "byte_in lo hi bs i \<Longrightarrow> k \<le> Suc i \<Longrightarrow> drop k (bs @ t) = drop k bs @ t"
  by (simp add: byte_in_def)

lemma utf8_valid_append: "utf8_valid a \<Longrightarrow> utf8_valid t \<Longrightarrow> utf8_valid (a @ t)"
proof (induction a rule: length_induct)
  case (1 a)
  show ?case
  proof (cases a)
    case (Cons b bs)
    have IH: "utf8_valid (drop k bs @ t)" if "utf8_valid (drop k bs)" for k
      using 1 that Cons by simp
    from "1.prems"(1) show ?thesis
      using IH [of 0] IH [of 1] IH [of 2] IH [of 3] drop_append_byte [of 128 191 bs 0 1 t]
        drop_append_byte [of 128 191 bs 1 2 t] drop_append_byte [of 128 191 bs 2 3 t]
      by (simp add: Cons Let_def byte_in_append del: drop_append split: if_splits)
  qed (use 1 in simp)
qed

lemma utf8_valid_groups: "utf8_valid s \<Longrightarrow> list_all utf8_valid (utf8_groups s)"
proof (induction s rule: length_induct)
  case (1 s)
  show ?case
  proof (cases s)
    case (Cons b bs)
    have IH: "list_all utf8_valid (utf8_groups (drop k bs))" if "utf8_valid (drop k bs)" for k
      using 1 that Cons by simp
    from "1.prems" show ?thesis
      using IH [of 0] IH [of 1] IH [of 2] IH [of 3]
      by (simp add: Cons Let_def byte_in_take split: if_splits)
  qed simp
qed

lemma concat_groups: "concat (utf8_groups s) = s"
  by (induction s rule: utf8_groups.induct) (simp_all add: Let_def)

lemma utf8_valid_concat: "list_all utf8_valid gs \<Longrightarrow> utf8_valid (concat gs)"
  by (induction gs) (simp_all add: utf8_valid_append)

lemma utf8_valid_trim: "utf8_valid s \<Longrightarrow> utf8_valid (trim s)"
proof -
  assume "utf8_valid s"
  then have "\<And>g. g \<in> set (utf8_groups s) \<Longrightarrow> utf8_valid g" using utf8_valid_groups by (simp add: list_all_iff)
  then show ?thesis
    unfolding trim_def Let_def by (intro utf8_valid_concat) (auto simp: list_all_iff dest!: set_dropWhileD)
qed

section \<open>Lines and occurrences\<close>

text \<open>\<open>str::lines\<close>: each line without its ending, which is a line feed or a carriage return and a line feed.\<close>

definition strip_cr :: "string \<Rightarrow> string" where
  "strip_cr l = (if l \<noteq> [] \<and> last l = CHR 0x0D then butlast l else l)"

function str_lines :: "string \<Rightarrow> string list" where
  "str_lines s = (if s = [] then []
     else let l = takeWhile (\<lambda>c. c \<noteq> CHR 0x0A) s; r = dropWhile (\<lambda>c. c \<noteq> CHR 0x0A) s in
       if r = [] then [l] else strip_cr l # str_lines (tl r))"
  by pat_completeness auto
termination
proof (relation "measure length")
  fix s l r :: string
  assume s: "s \<noteq> []" "r = dropWhile (\<lambda>c. c \<noteq> CHR 0x0A) s"
  have "length r \<le> length s" by (simp add: s length_dropWhile_le)
  moreover have "0 < length s" using s by simp
  ultimately show "(tl r, s) \<in> measure length" by (cases r) simp_all
qed simp

declare str_lines.simps [simp del]

text \<open>\<open>str::rfind\<close>.\<close>

definition str_rfind :: "string \<Rightarrow> string \<Rightarrow> nat option" where
  "str_rfind p s = (let is = filter (\<lambda>i. prefix p (drop i s)) [0 ..< length s + 1] in
     if is = [] then None else Some (last is))"

definition strip_newline :: "string \<Rightarrow> string option" where
  "strip_newline s = (if s \<noteq> [] \<and> last s = CHR 0x0A then Some (butlast s) else None)"

lemma str_lines_Nil [simp]: "str_lines [] = []"
  by (simp add: str_lines.simps)

lemma str_lines_line:
  assumes "CHR 0x0A \<notin> set l" and "CHR 0x0D \<notin> set l"
  shows "str_lines (l @ CHR 0x0A # s) = l # str_lines s"
proof -
  have "takeWhile (\<lambda>c. c \<noteq> CHR 0x0A) (l @ CHR 0x0A # s) = l"
    using assms(1) by (induction l) auto
  moreover have "dropWhile (\<lambda>c. c \<noteq> CHR 0x0A) (l @ CHR 0x0A # s) = CHR 0x0A # s"
    using assms(1) by (induction l) auto
  moreover have "strip_cr l = l" using assms(2) last_in_set by (force simp: strip_cr_def)
  ultimately show ?thesis by (subst str_lines.simps) (simp add: Let_def)
qed

lemma str_rfind_last:
  assumes "c \<notin> set t"
  shows "str_rfind (q @ [c]) (s @ q @ c # t) = Some (length s)"
proof -
  let ?w = "s @ q @ c # t"
  have no: "\<not> prefix (q @ [c]) (drop i ?w)" if i: "length s < i" for i
  proof
    assume "prefix (q @ [c]) (drop i ?w)"
    then obtain u where u: "drop i ?w = q @ c # u" by (auto simp: prefix_def)
    then have len: "i + length q < length ?w"
      by (metis add.commute length_append length_drop less_diff_conv length_Cons less_add_Suc1 add_Suc_right)
    have "?w ! (i + length q) = c" using u len by (metis nth_append_length nth_drop add_leD1 less_imp_le)
    moreover have "?w ! (i + length q) = t ! (i - length s - 1)"
    proof -
      have "((s @ q) @ c # t) ! (i + length q) = (c # t) ! (i + length q - length (s @ q))"
        using i unfolding nth_append [of "s @ q"] by simp
      also have "i + length q - length (s @ q) = Suc (i - length s - 1)" using i by simp
      finally show ?thesis by simp
    qed
    moreover have "i - length s - 1 < length t" using i len by simp
    ultimately show False using assms by (metis nth_mem)
  qed
  have "[0 ..< length ?w + 1] = [0 ..< Suc (length s)] @ [Suc (length s) ..< length ?w + 1]"
    using upt_add_eq_append [of 0 "Suc (length s)" "length ?w - length s"] by simp
  then have split: "[0 ..< length ?w + 1] = [0 ..< length s] @ length s # [Suc (length s) ..< length ?w + 1]"
    by simp
  have "filter (\<lambda>i. prefix (q @ [c]) (drop i ?w)) [Suc (length s) ..< length ?w + 1] = []"
    unfolding filter_empty_conv set_upt using no by (meson Suc_le_lessD atLeastLessThan_iff)
  then show ?thesis unfolding str_rfind_def Let_def split by simp
qed

section \<open>Hexadecimal numbers\<close>

definition is_ascii_hexdigit :: "char \<Rightarrow> bool" where
  "is_ascii_hexdigit c \<longleftrightarrow> is_lower_hex c \<or> (65 \<le> (of_char c :: nat) \<and> (of_char c :: nat) \<le> 70)"

definition hex_digit_val :: "char \<Rightarrow> nat" where
  "hex_digit_val c = (let n = of_char c :: nat in if n < 58 then n - 48 else if n < 71 then n - 55 else n - 87)"

definition hex_val :: "string \<Rightarrow> nat" where
  "hex_val s = foldl (\<lambda>acc c. 16 * acc + hex_digit_val c) 0 s"

text \<open>\<open>LowerHex\<close> without padding.\<close>

fun nat_to_hex :: "nat \<Rightarrow> string" where
  "nat_to_hex n = (if n < 16 then [nibble_char n] else nat_to_hex (n div 16) @ [nibble_char (n mod 16)])"

declare nat_to_hex.simps [simp del]

lemma hex_digit_val_nibble: "d < 16 \<Longrightarrow> hex_digit_val (nibble_char d) = d"
  by (simp add: hex_digit_val_def of_nibble_char Let_def)

lemma hex_val_snoc: "hex_val (s @ [c]) = 16 * hex_val s + hex_digit_val c"
  by (simp add: hex_val_def)

lemma hex_val_bytes: "hex_val (hex_bytes bs) = foldl (\<lambda>acc b. 256 * acc + of_char b) 0 bs"
proof (induction bs rule: rev_induct)
  case (snoc b bs)
  have "hex_val (hex_bytes (bs @ [b])) = 16 * (16 * hex_val (hex_bytes bs) + of_char b div 16) + of_char b mod 16"
    using nat_of_char_less_256 [of b]
    by (simp add: hex_bytes_def hex_byte_def hex_digit_val_nibble less_mult_imp_div_less flip: hex_val_snoc)
      (simp add: hex_val_def hex_digit_val_nibble less_mult_imp_div_less)
  then show ?case using snoc by simp
qed (simp add: hex_val_def hex_bytes_def)

lemma hex_bytes_hexdigit: "c \<in> set (hex_bytes bs) \<Longrightarrow> is_ascii_hexdigit c"
  using hex_bytes_chars by (simp add: is_ascii_hexdigit_def)

lemma hexdigit_ascii: "is_ascii_hexdigit c \<Longrightarrow> is_ascii_byte c"
  by (auto simp: is_ascii_hexdigit_def is_lower_hex_def is_digit_def is_ascii_byte_def)

end
