(* ===== verification/Update_Journal.thy ===== *)
theory Update_Journal
  imports Sqlite_Records Linura_Text
begin

unbundle bit_operations_syntax

text \<open>
  The update journal and the evidence receipts of \<open>crates/linura-update/src/lib.rs\<close>: stages, the update
  state and its transitions, the validity of a persisted state, and the two line formats with their
  integrity tag and authentication code.
\<close>

section \<open>Constants\<close>

definition V09_UPDATE_EVIDENCE_PRODUCER_ID :: string where
  "V09_UPDATE_EVIDENCE_PRODUCER_ID = ''linura-update-evidence-v09''"

definition JOURNAL_MAGIC :: string where
  "JOURNAL_MAGIC = ''linura-update-journal-v2''"

definition EVIDENCE_MAGIC :: string where
  "EVIDENCE_MAGIC = ''linura-update-evidence-v3''"

definition HMAC_BLOCK_BYTES :: nat where
  "HMAC_BLOCK_BYTES = 64"

definition MAX_JOURNAL_BYTES :: nat where
  "MAX_JOURNAL_BYTES = 256 * 1024"

definition MAX_EVIDENCE_BYTES :: nat where
  "MAX_EVIDENCE_BYTES = 64 * 1024"

definition SNAPSHOT_EVIDENCE_MAX_AGE_MS :: u64 where
  "SNAPSHOT_EVIDENCE_MAX_AGE_MS = 15 * 60 * 1000"

definition SNAPSHOT_EVIDENCE_FUTURE_SKEW_MS :: u64 where
  "SNAPSHOT_EVIDENCE_FUTURE_SKEW_MS = 30 * 1000"

definition PACKAGE_VERIFICATION_MAX_AGE_MS :: u64 where
  "PACKAGE_VERIFICATION_MAX_AGE_MS = 15 * 60 * 1000"

definition PACKAGE_VERIFICATION_FUTURE_SKEW_MS :: u64 where
  "PACKAGE_VERIFICATION_FUTURE_SKEW_MS = 30 * 1000"

definition FNV_OFFSET :: u64 where
  "FNV_OFFSET = 0xcbf29ce484222325"

definition FNV_PRIME :: u64 where
  "FNV_PRIME = 0x100000001b3"

section \<open>Stages, effects and errors\<close>

datatype update_stage =
    AcquireLock | Preflight | DiskSpace | StageSnapshot | PackageTransaction | Migrations | Reconcile
  | RestartAssessment | StageVerify | StageComplete | StageRecoveryRequired

datatype external_effect_state = EffectNone | EffectPrepared | EffectDispatchStarted | EffectVerified

datatype update_error =
    InvalidUpdateTransition update_stage update_stage
  | InvalidUpdateOperation string
  | InvalidUpdateField string
  | SnapshotRequired
  | ExternalEffectNotVerified
  | EvidenceBindingMismatch string
  | JournalBindingMismatch
  | UntrustedJournalPath
  | UntrustedLockPath
  | UntrustedEvidenceRoot
  | UntrustedEvidencePath
  | StaleCoordinator
  | UnsupportedJournalVersion
  | UnsupportedEvidenceVersion
  | CorruptJournal string
  | CorruptEvidence string
  | DurabilityUncertain string
  | UpdateRecoveryRequired string
  | UpdateIo string

fun update_stage_as_str :: "update_stage \<Rightarrow> string" where
  "update_stage_as_str AcquireLock = ''acquire-lock''"
| "update_stage_as_str Preflight = ''preflight''"
| "update_stage_as_str DiskSpace = ''disk-space''"
| "update_stage_as_str StageSnapshot = ''snapshot''"
| "update_stage_as_str PackageTransaction = ''package-transaction''"
| "update_stage_as_str Migrations = ''migrations''"
| "update_stage_as_str Reconcile = ''reconcile''"
| "update_stage_as_str RestartAssessment = ''restart-assessment''"
| "update_stage_as_str StageVerify = ''verify''"
| "update_stage_as_str StageComplete = ''complete''"
| "update_stage_as_str StageRecoveryRequired = ''recovery-required''"

definition update_stage_parse :: "string \<Rightarrow> update_error + update_stage" where
  "update_stage_parse v =
     (if v = ''acquire-lock'' then Inr AcquireLock
      else if v = ''preflight'' then Inr Preflight
      else if v = ''disk-space'' then Inr DiskSpace
      else if v = ''snapshot'' then Inr StageSnapshot
      else if v = ''package-transaction'' then Inr PackageTransaction
      else if v = ''migrations'' then Inr Migrations
      else if v = ''reconcile'' then Inr Reconcile
      else if v = ''restart-assessment'' then Inr RestartAssessment
      else if v = ''verify'' then Inr StageVerify
      else if v = ''complete'' then Inr StageComplete
      else if v = ''recovery-required'' then Inr StageRecoveryRequired
      else Inl (CorruptJournal ''unknown update stage''))"

fun external_effect_as_str :: "external_effect_state \<Rightarrow> string" where
  "external_effect_as_str EffectNone = ''none''"
| "external_effect_as_str EffectPrepared = ''prepared''"
| "external_effect_as_str EffectDispatchStarted = ''dispatch-started''"
| "external_effect_as_str EffectVerified = ''verified''"

definition external_effect_parse :: "string \<Rightarrow> update_error + external_effect_state" where
  "external_effect_parse v =
     (if v = ''none'' then Inr EffectNone
      else if v = ''prepared'' then Inr EffectPrepared
      else if v = ''dispatch-started'' then Inr EffectDispatchStarted
      else if v = ''verified'' then Inr EffectVerified
      else Inl (CorruptJournal ''unknown external-effect state''))"

section \<open>The update state\<close>

record update_policy =
  up_minimum_free_bytes :: u64
  up_require_snapshot_when_available :: bool
  up_inhibit_suspend :: bool
  up_verify_after_restart :: bool

definition update_policy_default :: update_policy where
  "update_policy_default = \<lparr> up_minimum_free_bytes = 10 * 1024 * 1024 * 1024,
     up_require_snapshot_when_available = True, up_inhibit_suspend = True, up_verify_after_restart = True \<rparr>"

record update_state =
  us_update_id :: "string option"
  us_target_id :: "string option"
  us_stage :: update_stage
  us_snapshot_id :: "string option"
  us_snapshot_receipt_id :: "string option"
  us_transaction_id :: "string option"
  us_verification_receipt_id :: "string option"
  us_recovery_reason :: "string option"
  us_external_effect :: external_effect_state

definition update_state_default :: update_state where
  "update_state_default = \<lparr> us_update_id = None, us_target_id = None, us_stage = AcquireLock,
     us_snapshot_id = None, us_snapshot_receipt_id = None, us_transaction_id = None,
     us_verification_receipt_id = None, us_recovery_reason = None, us_external_effect = EffectNone \<rparr>"

text \<open>\<open>str::contains\<close>.\<close>

definition str_contains :: "string \<Rightarrow> string \<Rightarrow> bool" where
  "str_contains p s \<longleftrightarrow> list_ex (\<lambda>i. prefix p (drop i s)) [0 ..< length s + 1]"

definition normalize_identifier :: "string \<Rightarrow> string \<Rightarrow> update_error + string" where
  "normalize_identifier label raw =
     (let v = trim raw in
      if v = [] \<or> length v > 256 \<or> str_contains ''..'' v
         \<or> \<not> list_all (\<lambda>b. is_ascii_alphanumeric b \<or> b \<in> {CHR ''-'', CHR ''_'', CHR ''.'', CHR '':''}) v
      then Inl (InvalidUpdateField label) else Inr v)"

definition normalize_text :: "string \<Rightarrow> string \<Rightarrow> nat \<Rightarrow> update_error + string" where
  "normalize_text label raw max_len =
     (let v = trim raw in
      if v = [] \<or> length v > max_len \<or> has_control v then Inl (InvalidUpdateField label) else Inr v)"

definition valid_transition :: "update_stage \<Rightarrow> update_stage \<Rightarrow> bool" where
  "valid_transition a b \<longleftrightarrow> (a, b) \<in>
     {(AcquireLock, Preflight), (Preflight, DiskSpace), (DiskSpace, StageSnapshot),
      (StageSnapshot, PackageTransaction), (PackageTransaction, Migrations), (Migrations, Reconcile),
      (Reconcile, RestartAssessment), (RestartAssessment, StageVerify), (StageVerify, StageComplete)}"

definition update_state_transition :: "update_stage \<Rightarrow> update_state \<Rightarrow> update_error + update_state" where
  "update_state_transition next_stage s =
     and_then (ensure (next_stage \<noteq> StageRecoveryRequired) (InvalidUpdateOperation
       ''use require_recovery to enter recovery-required state with an explicit reason'')) (\<lambda>_.
     and_then (ensure (valid_transition (us_stage s) next_stage)
       (InvalidUpdateTransition (us_stage s) next_stage)) (\<lambda>_.
     and_then (ensure (\<not> (us_stage s = PackageTransaction \<and> next_stage = Migrations
         \<and> (us_external_effect s \<noteq> EffectVerified \<or> us_verification_receipt_id s = None)))
       ExternalEffectNotVerified) (\<lambda>_.
     let s' = s\<lparr> us_stage := next_stage \<rparr> in
     Inr (if next_stage = Migrations then s'\<lparr> us_external_effect := EffectNone \<rparr> else s'))))"

definition update_state_require_recovery :: "string \<Rightarrow> update_state \<Rightarrow> update_error + update_state" where
  "update_state_require_recovery reason s =
     and_then (normalize_text ''recovery reason'' reason 4096) (\<lambda>reason'.
     Inr (s\<lparr> us_stage := StageRecoveryRequired, us_recovery_reason := Some reason',
            us_external_effect := EffectNone \<rparr>))"

section \<open>Validity of a persisted state\<close>

definition check_optional :: "string option \<Rightarrow> (string \<Rightarrow> update_error + string) \<Rightarrow> update_error + unit" where
  "check_optional v f = (case v of None \<Rightarrow> Inr () | Some s \<Rightarrow> and_then (f s) (\<lambda>_. Inr ()))"

definition package_stage_check :: "update_state \<Rightarrow> update_error + unit" where
  "package_stage_check s =
     (if us_stage s = PackageTransaction then
        and_then (ensure (us_external_effect s \<noteq> EffectNone \<and> us_transaction_id s \<noteq> None)
          (CorruptJournal ''package stage lacks exact prepared transaction identity/state'')) (\<lambda>_.
        if us_external_effect s = EffectVerified \<and> us_verification_receipt_id s = None
        then Inl (CorruptJournal ''verified package state lacks authoritative verification receipt identity'')
        else if us_external_effect s \<in> {EffectPrepared, EffectDispatchStarted}
          \<and> us_verification_receipt_id s \<noteq> None
        then Inl (CorruptJournal ''unverified package state retained a verification receipt'')
        else Inr ())
      else ensure (us_external_effect s = EffectNone) (CorruptJournal
        ''transient package external-effect state is only valid at package-transaction stage''))"

definition validate_persisted_state :: "update_state \<Rightarrow> update_error + unit" where
  "validate_persisted_state s =
     and_then (ok_or (us_update_id s) (CorruptJournal ''journal lacks update binding'')) (\<lambda>update_id.
     and_then (ok_or (us_target_id s) (CorruptJournal ''journal lacks target binding'')) (\<lambda>target_id.
     and_then (normalize_identifier ''update id'' update_id) (\<lambda>_.
     and_then (normalize_identifier ''update target id'' target_id) (\<lambda>_.
     and_then (check_optional (us_snapshot_id s) (normalize_identifier ''snapshot id'')) (\<lambda>_.
     and_then (check_optional (us_snapshot_receipt_id s) (normalize_identifier ''snapshot receipt id'')) (\<lambda>_.
     and_then (ensure ((us_snapshot_id s = None) = (us_snapshot_receipt_id s = None)) (CorruptJournal
       ''snapshot identity and trusted receipt identity must be retained together'')) (\<lambda>_.
     and_then (check_optional (us_transaction_id s) (normalize_identifier ''transaction id'')) (\<lambda>_.
     and_then (check_optional (us_verification_receipt_id s)
       (normalize_identifier ''verification receipt id'')) (\<lambda>_.
     and_then (check_optional (us_recovery_reason s) (\<lambda>v. normalize_text ''recovery reason'' v 4096)) (\<lambda>_.
     and_then (package_stage_check s) (\<lambda>_.
     and_then (ensure (\<not> (us_stage s \<in> {AcquireLock, Preflight, DiskSpace, StageSnapshot}
         \<and> (us_transaction_id s \<noteq> None \<or> us_verification_receipt_id s \<noteq> None))) (CorruptJournal
       ''pre-package stage retained package transaction/verification identity'')) (\<lambda>_.
     and_then (ensure (\<not> (us_stage s \<in> {Migrations, Reconcile, RestartAssessment, StageVerify, StageComplete}
         \<and> (us_transaction_id s = None \<or> us_verification_receipt_id s = None))) (CorruptJournal
       ''post-package stage lacks retained package transaction or authoritative verification receipt identity'')) (\<lambda>_.
     if us_stage s = StageRecoveryRequired
     then ensure (us_recovery_reason s \<noteq> None) (CorruptJournal ''recovery-required state lacks a reason'')
     else ensure (us_recovery_reason s = None)
       (CorruptJournal ''non-recovery stage retained a recovery reason''))))))))))))))"

section \<open>Line formats\<close>

definition fnv1a_update :: "u64 \<Rightarrow> bytes \<Rightarrow> u64" where
  "fnv1a_update st bs = foldl (\<lambda>st b. (st XOR word_of_nat (of_char b)) * FNV_PRIME) st bs"

definition update_integrity_tag :: "bytes \<Rightarrow> u64" where
  "update_integrity_tag bs = fnv1a_update FNV_OFFSET bs"

definition update_hex_encode :: "string option \<Rightarrow> string" where
  "update_hex_encode v = (case v of None \<Rightarrow> ''-'' | Some s \<Rightarrow> hex_bytes s)"

fun hex_pairs :: "string \<Rightarrow> bytes" where
  "hex_pairs (a # b # s) = char_of (16 * hex_digit_val a + hex_digit_val b) # hex_pairs s"
| "hex_pairs _ = []"

text \<open>Every pair is two hexadecimal digits here, so neither conversion of a pair can fail.\<close>

definition update_hex_decode :: "string \<Rightarrow> update_error + string option" where
  "update_hex_decode v =
     (if v = ''-'' then Inr None
      else and_then (ensure (even (length v) \<and> list_all is_ascii_hexdigit v)
        (CorruptJournal ''invalid hex-encoded field'')) (\<lambda>_.
      and_then (ensure (utf8_valid (hex_pairs v)) (CorruptJournal ''field is not UTF-8'')) (\<lambda>_.
      Inr (Some (hex_pairs v)))))"

definition required_hex :: "string \<Rightarrow> string \<Rightarrow> update_error + string" where
  "required_hex v label =
     and_then (update_hex_decode v) (\<lambda>d. ok_or d (CorruptEvidence (''missing '' @ label)))"

definition optional_u64 :: "string \<Rightarrow> string \<Rightarrow> update_error + u64 option" where
  "optional_u64 v label =
     (if v = ''-'' then Inr None
      else map_err (\<lambda>_. CorruptEvidence (''invalid '' @ label)) (and_then (ok_or (parse_u64 v) ()) (\<lambda>n. Inr (Some n))))"

definition field_line :: "string \<times> string \<Rightarrow> string" where
  "field_line kv = fst kv @ ''='' @ snd kv @ [CHR 0x0A]"

definition parse_field :: "string option \<Rightarrow> string \<Rightarrow> update_error + string" where
  "parse_field line name =
     and_then (ok_or line (CorruptJournal (''missing '' @ name @ '' field''))) (\<lambda>l.
     ok_or (strip_prefix (name @ ''='') l) (CorruptJournal (''invalid '' @ name @ '' field'')))"

definition line_at :: "string list \<Rightarrow> nat \<Rightarrow> string option" where
  "line_at ls i = (if i < length ls then Some (ls ! i) else None)"

definition journal_payload :: "update_state \<Rightarrow> string" where
  "journal_payload s = JOURNAL_MAGIC @ [CHR 0x0A] @ concat (map field_line
     [(''update'', update_hex_encode (us_update_id s)),
      (''target'', update_hex_encode (us_target_id s)),
      (''stage'', update_stage_as_str (us_stage s)),
      (''snapshot'', update_hex_encode (us_snapshot_id s)),
      (''snapshot_receipt'', update_hex_encode (us_snapshot_receipt_id s)),
      (''transaction'', update_hex_encode (us_transaction_id s)),
      (''verification_receipt'', update_hex_encode (us_verification_receipt_id s)),
      (''effect'', external_effect_as_str (us_external_effect s)),
      (''recovery'', update_hex_encode (us_recovery_reason s))])"

definition serialize_journal :: "update_state \<Rightarrow> bytes" where
  "serialize_journal s =
     (let payload = journal_payload s in
      payload @ ''integrity='' @ hex_bytes (be64 (update_integrity_tag payload)) @ [CHR 0x0A])"

definition parse_journal :: "bytes \<Rightarrow> update_error + update_state" where
  "parse_journal text =
     and_then (ensure (utf8_valid text) (CorruptJournal ''journal is not UTF-8'')) (\<lambda>_.
     and_then (ok_or (str_rfind ''integrity='' text) (CorruptJournal ''integrity record is missing'')) (\<lambda>start.
     let payload = take start text; integrity_line = drop start text in
     and_then (ok_or (Option.bind (strip_prefix ''integrity='' integrity_line) strip_newline)
       (CorruptJournal ''invalid integrity record'')) (\<lambda>expected.
     and_then (ensure (length expected = 16 \<and> list_all is_ascii_hexdigit expected)
       (CorruptJournal ''invalid integrity tag'')) (\<lambda>_.
     and_then (ensure (update_integrity_tag payload = word_of_nat (hex_val expected))
       (CorruptJournal ''integrity tag mismatch'')) (\<lambda>_.
     let ls = str_lines payload in
     and_then (ensure (line_at ls 0 = Some JOURNAL_MAGIC) UnsupportedJournalVersion) (\<lambda>_.
     and_then (parse_field (line_at ls 1) ''update'') (\<lambda>update.
     and_then (parse_field (line_at ls 2) ''target'') (\<lambda>target.
     and_then (parse_field (line_at ls 3) ''stage'') (\<lambda>stage.
     and_then (parse_field (line_at ls 4) ''snapshot'') (\<lambda>snap.
     and_then (parse_field (line_at ls 5) ''snapshot_receipt'') (\<lambda>snap_receipt.
     and_then (parse_field (line_at ls 6) ''transaction'') (\<lambda>tx.
     and_then (parse_field (line_at ls 7) ''verification_receipt'') (\<lambda>verification_receipt.
     and_then (parse_field (line_at ls 8) ''effect'') (\<lambda>effect.
     and_then (parse_field (line_at ls 9) ''recovery'') (\<lambda>recovery.
     and_then (ensure (line_at ls 10 = None) (CorruptJournal ''unexpected journal field'')) (\<lambda>_.
     and_then (update_hex_decode update) (\<lambda>update'.
     and_then (update_hex_decode target) (\<lambda>target'.
     and_then (update_stage_parse stage) (\<lambda>stage'.
     and_then (update_hex_decode snap) (\<lambda>snap'.
     and_then (update_hex_decode snap_receipt) (\<lambda>snap_receipt'.
     and_then (update_hex_decode tx) (\<lambda>tx'.
     and_then (update_hex_decode verification_receipt) (\<lambda>verification_receipt'.
     and_then (update_hex_decode recovery) (\<lambda>recovery'.
     and_then (external_effect_parse effect) (\<lambda>effect'.
     let s = \<lparr> us_update_id = update', us_target_id = target', us_stage = stage', us_snapshot_id = snap',
               us_snapshot_receipt_id = snap_receipt', us_transaction_id = tx',
               us_verification_receipt_id = verification_receipt', us_recovery_reason = recovery',
               us_external_effect = effect' \<rparr> in
     and_then (validate_persisted_state s) (\<lambda>_. Inr s))))))))))))))))))))))))))"

section \<open>Evidence receipts\<close>

datatype evidence_kind = EvidenceSnapshot | EvidencePackageVerification

fun evidence_kind_as_str :: "evidence_kind \<Rightarrow> string" where
  "evidence_kind_as_str EvidenceSnapshot = ''snapshot''"
| "evidence_kind_as_str EvidencePackageVerification = ''package-verification''"

definition evidence_kind_parse :: "string \<Rightarrow> update_error + evidence_kind" where
  "evidence_kind_parse v =
     (if v = ''snapshot'' then Inr EvidenceSnapshot
      else if v = ''package-verification'' then Inr EvidencePackageVerification
      else Inl (CorruptEvidence ''unknown evidence kind''))"

record parsed_evidence =
  pe_kind :: evidence_kind
  pe_update_id :: string
  pe_target_id :: string
  pe_subject_id :: string
  pe_proof_id :: string
  pe_dispatch_generation :: "string option"
  pe_issued_unix_ms :: "u64 option"
  pe_source :: string
  pe_result :: string

definition hmac_pad :: "char \<Rightarrow> bytes \<Rightarrow> bytes" where
  "hmac_pad c key = map (\<lambda>i. if i < length key then char_xor c (key ! i) else c) [0 ..< HMAC_BLOCK_BYTES]"

definition update_hmac_sha256 :: "crypto \<Rightarrow> bytes \<Rightarrow> bytes \<Rightarrow> string" where
  "update_hmac_sha256 cr key payload =
     hex_bytes (sha256 cr (hmac_pad (CHR 0x5C) key @ sha256 cr (hmac_pad (CHR 0x36) key @ payload)))"

definition constant_time_hex_eq :: "string \<Rightarrow> string \<Rightarrow> bool" where
  "constant_time_hex_eq left right \<longleftrightarrow> length left = length right
     \<and> foldl (\<lambda>difference (l, r). char_or difference (char_xor l r)) (CHR 0x00) (zip left right) = CHR 0x00"

definition evidence_payload :: "parsed_evidence \<Rightarrow> string" where
  "evidence_payload e = EVIDENCE_MAGIC @ [CHR 0x0A] @ concat (map field_line
     [(''kind'', evidence_kind_as_str (pe_kind e)),
      (''update'', update_hex_encode (Some (pe_update_id e))),
      (''target'', update_hex_encode (Some (pe_target_id e))),
      (''subject'', update_hex_encode (Some (pe_subject_id e))),
      (''proof'', update_hex_encode (Some (pe_proof_id e))),
      (''dispatch_generation'', update_hex_encode (pe_dispatch_generation e)),
      (''issued_unix_ms'', case pe_issued_unix_ms e of None \<Rightarrow> ''-'' | Some n \<Rightarrow> u64_to_dec n),
      (''source'', pe_source e),
      (''result'', pe_result e)])"

definition serialize_evidence :: "crypto \<Rightarrow> bytes \<Rightarrow> parsed_evidence \<Rightarrow> bytes" where
  "serialize_evidence cr key e =
     (let payload = evidence_payload e in
      payload @ ''authentication='' @ update_hmac_sha256 cr key payload @ [CHR 0x0A])"

definition parse_evidence :: "crypto \<Rightarrow> bytes \<Rightarrow> bytes \<Rightarrow> update_error + parsed_evidence" where
  "parse_evidence cr key text =
     and_then (ensure (utf8_valid text) (CorruptEvidence ''evidence is not UTF-8'')) (\<lambda>_.
     and_then (ok_or (str_rfind ''authentication='' text)
       (CorruptEvidence ''authentication record is missing'')) (\<lambda>start.
     let payload = take start text; authentication_line = drop start text in
     and_then (ok_or (Option.bind (strip_prefix ''authentication='' authentication_line) strip_newline)
       (CorruptEvidence ''invalid authentication record'')) (\<lambda>expected.
     and_then (ensure (length expected = 64 \<and> list_all is_ascii_hexdigit expected)
       (CorruptEvidence ''invalid HMAC-SHA-256 authentication'')) (\<lambda>_.
     and_then (ensure (constant_time_hex_eq (update_hmac_sha256 cr key payload) expected)
       (CorruptEvidence ''evidence authentication mismatch'')) (\<lambda>_.
     let ls = str_lines payload in
     and_then (ensure (line_at ls 0 = Some EVIDENCE_MAGIC) UnsupportedEvidenceVersion) (\<lambda>_.
     and_then (and_then (parse_field (line_at ls 1) ''kind'') evidence_kind_parse) (\<lambda>kind.
     and_then (and_then (parse_field (line_at ls 2) ''update'') (\<lambda>v. required_hex v ''update field'')) (\<lambda>update_id.
     and_then (and_then (parse_field (line_at ls 3) ''target'') (\<lambda>v. required_hex v ''target field'')) (\<lambda>target_id.
     and_then (and_then (parse_field (line_at ls 4) ''subject'') (\<lambda>v. required_hex v ''subject field'')) (\<lambda>subject_id.
     and_then (and_then (parse_field (line_at ls 5) ''proof'') (\<lambda>v. required_hex v ''proof field'')) (\<lambda>proof_id.
     and_then (and_then (parse_field (line_at ls 6) ''dispatch_generation'') update_hex_decode) (\<lambda>dispatch_generation.
     and_then (and_then (parse_field (line_at ls 7) ''issued_unix_ms'')
       (\<lambda>v. optional_u64 v ''issued_unix_ms field'')) (\<lambda>issued.
     and_then (parse_field (line_at ls 8) ''source'') (\<lambda>source.
     and_then (parse_field (line_at ls 9) ''result'') (\<lambda>result.
     and_then (ensure (line_at ls 10 = None) (CorruptEvidence ''unexpected evidence field'')) (\<lambda>_.
     and_then (normalize_identifier ''update id'' update_id) (\<lambda>_.
     and_then (normalize_identifier ''update target id'' target_id) (\<lambda>_.
     and_then (normalize_identifier ''evidence subject id'' subject_id) (\<lambda>_.
     and_then (normalize_identifier ''evidence proof id'' proof_id) (\<lambda>_.
     and_then (check_optional dispatch_generation (normalize_identifier ''dispatch generation'')) (\<lambda>_.
     and_then (normalize_identifier ''evidence source'' source) (\<lambda>_.
     and_then (normalize_identifier ''evidence result'' result) (\<lambda>_.
     Inr \<lparr> pe_kind = kind, pe_update_id = update_id, pe_target_id = target_id, pe_subject_id = subject_id,
           pe_proof_id = proof_id, pe_dispatch_generation = dispatch_generation, pe_issued_unix_ms = issued,
           pe_source = source, pe_result = result \<rparr>)))))))))))))))))))))))"

section \<open>Round trips\<close>

definition plain :: "string \<Rightarrow> bool" where
  "plain l \<longleftrightarrow> list_all (\<lambda>c. is_ascii_byte c \<and> c \<noteq> CHR 0x0A \<and> c \<noteq> CHR 0x0D) l"

lemma plain_append [simp]: "plain (a @ b) \<longleftrightarrow> plain a \<and> plain b"
  by (simp add: plain_def)

lemma plain_Cons [simp]: "plain (c # l) \<longleftrightarrow> is_ascii_byte c \<and> c \<noteq> CHR 0x0A \<and> c \<noteq> CHR 0x0D \<and> plain l"
  by (simp add: plain_def)

lemma plain_Nil [simp]: "plain []"
  by (simp add: plain_def)

lemma plain_ascii: "plain l \<Longrightarrow> list_all is_ascii_byte l"
  by (simp add: plain_def list_all_iff)

lemma hexdigit_plain: "is_ascii_hexdigit c \<Longrightarrow> is_ascii_byte c \<and> c \<noteq> CHR 0x0A \<and> c \<noteq> CHR 0x0D"
  by (auto simp: is_ascii_hexdigit_def is_lower_hex_def is_digit_def is_ascii_byte_def)

lemma plainI: "(\<And>c. c \<in> set l \<Longrightarrow> is_ascii_hexdigit c) \<Longrightarrow> plain l"
  by (simp add: plain_def list_all_iff hexdigit_plain)

lemma plain_hex [simp]: "plain (hex_bytes bs)"
  using hex_bytes_hexdigit by (rule plainI)

lemma ascii_literal [simp]:
  "is_ascii_byte (Char b0 b1 b2 b3 b4 b5 b6 False)"
  by (cases b0; cases b1; cases b2; cases b3; cases b4; cases b5; cases b6) (simp_all add: is_ascii_byte_def)

lemma plain_hex_encode [simp]: "plain (update_hex_encode v)"
  by (cases v) (simp_all add: update_hex_encode_def)

lemma plain_dec [simp]: "plain (u64_to_dec n)"
proof (rule plainI)
  fix c assume "c \<in> set (u64_to_dec n)"
  then show "is_ascii_hexdigit c"
    using nat_to_dec_digits by (auto simp: u64_to_dec_def is_ascii_hexdigit_def is_lower_hex_def)
qed

lemma plain_stage [simp]: "plain (update_stage_as_str st)"
  by (cases st) simp_all

lemma plain_effect [simp]: "plain (external_effect_as_str ef)"
  by (cases ef) simp_all

lemma plain_kind [simp]: "plain (evidence_kind_as_str k)"
  by (cases k) simp_all

text \<open>Lines joined with line feeds are read back.\<close>

lemma str_lines_concat: "list_all plain ls \<Longrightarrow> str_lines (concat (map (\<lambda>l. l @ [CHR 0x0A]) ls)) = ls"
proof (induction ls)
  case (Cons l ls)
  then show ?case using str_lines_line [of l "concat (map (\<lambda>l. l @ [CHR 0x0A]) ls)"]
    by (auto simp: plain_def list_all_iff)
qed simp

lemma concat_plain_valid: "list_all plain ls \<Longrightarrow> list_all is_ascii_byte (concat (map (\<lambda>l. l @ [CHR 0x0A]) ls))"
  by (induction ls) (auto simp: plain_def list_all_iff)

lemma hex_pairs_hex_bytes [simp]: "hex_pairs (hex_bytes bs) = bs"
proof (induction bs)
  case (Cons b bs)
  have "16 * (of_char b div 16) + of_char b mod 16 = (of_char b :: nat)" by simp
  then have "(char_of (16 * (of_char b div 16) + of_char b mod 16 :: nat) :: char) = b" by (simp only: char_of_char)
  then show ?case
    using Cons nat_of_char_less_256 [of b]
    by (simp add: hex_bytes_def hex_byte_def hex_digit_val_nibble less_mult_imp_div_less)
qed (simp add: hex_bytes_def)

lemma hex_bytes_not_dash [simp]: "hex_bytes bs \<noteq> ''-''"
proof
  assume "hex_bytes bs = ''-''"
  then have "2 * length bs = 1" by (metis length_hex_bytes length_Cons list.size(3) One_nat_def)
  then show False by presburger
qed

definition optional_utf8 :: "string option \<Rightarrow> bool" where
  "optional_utf8 v \<longleftrightarrow> (case v of None \<Rightarrow> True | Some t \<Rightarrow> utf8_valid t)"

lemma hex_decode_encode: "optional_utf8 v \<Longrightarrow> update_hex_decode (update_hex_encode v) = Inr v"
  using hex_bytes_hexdigit
  by (cases v) (auto simp: optional_utf8_def update_hex_encode_def update_hex_decode_def list_all_iff)

lemma stage_parse_as_str [simp]: "update_stage_parse (update_stage_as_str st) = Inr st"
  by (cases st) (simp_all add: update_stage_parse_def)

lemma effect_parse_as_str [simp]: "external_effect_parse (external_effect_as_str ef) = Inr ef"
  by (cases ef) (simp_all add: external_effect_parse_def)

lemma kind_parse_as_str [simp]: "evidence_kind_parse (evidence_kind_as_str k) = Inr k"
  by (cases k) (simp_all add: evidence_kind_parse_def)

lemma be64_value: "foldl (\<lambda>acc b. 256 * acc + of_char b) 0 (be64 w) = unat w"
proof -
  define d where "d i = unat w div 256 ^ i" for i
  have step: "256 * d (Suc i) + d i mod 256 = d i" for i
    by (simp add: d_def div_mult2_eq mult.commute [of 256])
  have "unat w < 256 * 256 ^ 7" using unat_lt_64 [of w] by simp
  then have "d 7 < 256" unfolding d_def by (rule less_mult_imp_div_less)
  then have top: "d 7 mod 256 = d 7" by simp
  have "foldl (\<lambda>acc b. 256 * acc + of_char b) 0 (be64 w) = foldl (\<lambda>acc i. 256 * acc + d i mod 256) 0 [7, 6, 5, 4, 3, 2, 1, 0]"
    by (simp only: be64_def foldl_map d_def of_char_of)
  also have "\<dots> = d 0"
  proof -
    have steps: "256 * d 7 + d 6 mod 256 = d 6" "256 * d 6 + d 5 mod 256 = d 5" "256 * d 5 + d 4 mod 256 = d 4"
      "256 * d 4 + d 3 mod 256 = d 3" "256 * d 3 + d 2 mod 256 = d 2" "256 * d 2 + d 1 mod 256 = d 1"
      "256 * d 1 + d 0 mod 256 = d 0"
      using step [of 6] step [of 5] step [of 4] step [of 3] step [of 2] step [of 1] step [of 0]
      by (simp_all only: Suc_numeral semiring_norm One_nat_def)
    show ?thesis by (simp only: foldl.simps mult_0_right add_0 top steps)
  qed
  finally show ?thesis by (simp add: d_def)
qed

lemma strip_prefix_append [simp]: "strip_prefix p (p @ s) = Some s"
  by (simp add: strip_prefix_Some)

lemma strip_newline_snoc [simp]: "strip_newline (s @ [CHR 0x0A]) = Some s"
  by (simp add: strip_newline_def)

lemma parse_field_Some:
  "parse_field (Some l) name = (if prefix (name @ ''='') l then Inr (drop (length (name @ ''='')) l)
     else Inl (CorruptJournal (''invalid '' @ name @ '' field'')))"
  by (simp add: parse_field_def strip_prefix_def)

lemma fields_as_lines:
  "magic @ [CHR 0x0A] @ concat (map field_line kvs)
     = concat (map (\<lambda>l. l @ [CHR 0x0A]) (magic # map (\<lambda>(k, v). k @ ''='' @ v) kvs))"
proof -
  have "map field_line kvs = map (\<lambda>l. l @ [CHR 0x0A]) (map (\<lambda>(k, v). k @ ''='' @ v) kvs)"
    by (simp add: field_line_def case_prod_beta)
  then show ?thesis by (simp only: list.map concat.simps append_assoc)
qed

text \<open>What a format of this kind reads back: its payload's lines and the record that closes it.\<close>

lemma sealed_text:
  assumes "plain record_name" "plain v" "CHR ''='' \<notin> set v" "list_all plain ls"
    and payload: "payload = concat (map (\<lambda>l. l @ [CHR 0x0A]) ls)"
  defines "text \<equiv> payload @ record_name @ ''='' @ v @ [CHR 0x0A]"
  shows "utf8_valid text" "str_rfind (record_name @ ''='') text = Some (length payload)"
    "strip_prefix (record_name @ ''='') (drop (length payload) text) = Some (v @ [CHR 0x0A])"
    "take (length payload) text = payload" "str_lines payload = ls"
proof -
  have "list_all is_ascii_byte payload" unfolding payload by (rule concat_plain_valid [OF assms(4)])
  then have "list_all is_ascii_byte text" using assms(1,2) by (simp add: text_def plain_ascii)
  then show "utf8_valid text" by (rule ascii_valid)
  show "str_rfind (record_name @ ''='') text = Some (length payload)"
    using str_rfind_last [of "CHR ''=''" "v @ [CHR 0x0A]" record_name payload] assms(3) by (simp add: text_def)
  show "strip_prefix (record_name @ ''='') (drop (length payload) text) = Some (v @ [CHR 0x0A])"
    by (simp add: text_def strip_prefix_Some)
  show "take (length payload) text = payload" by (simp add: text_def)
  show "str_lines payload = ls" unfolding payload by (rule str_lines_concat [OF assms(4)])
qed

lemma hex_no_equals: "CHR ''='' \<notin> set (hex_bytes bs)"
  using hex_bytes_hexdigit [of "CHR ''=''" bs] by (auto simp: is_ascii_hexdigit_def is_lower_hex_def is_digit_def)

definition text_fields_utf8 :: "update_state \<Rightarrow> bool" where
  "text_fields_utf8 s \<longleftrightarrow> list_all optional_utf8
     [us_update_id s, us_target_id s, us_snapshot_id s, us_snapshot_receipt_id s, us_transaction_id s,
      us_verification_receipt_id s, us_recovery_reason s]"

lemma parse_serialize_journal:
  assumes "validate_persisted_state s = Inr ()" and "text_fields_utf8 s"
  shows "parse_journal (serialize_journal s) = Inr s"
proof -
  let ?kvs = "[(''update'', update_hex_encode (us_update_id s)),
      (''target'', update_hex_encode (us_target_id s)),
      (''stage'', update_stage_as_str (us_stage s)),
      (''snapshot'', update_hex_encode (us_snapshot_id s)),
      (''snapshot_receipt'', update_hex_encode (us_snapshot_receipt_id s)),
      (''transaction'', update_hex_encode (us_transaction_id s)),
      (''verification_receipt'', update_hex_encode (us_verification_receipt_id s)),
      (''effect'', external_effect_as_str (us_external_effect s)),
      (''recovery'', update_hex_encode (us_recovery_reason s))]"
  let ?p = "journal_payload s"
  let ?ls = "JOURNAL_MAGIC # map (\<lambda>(k, v). k @ ''='' @ v) ?kvs"
  let ?tag = "hex_bytes (be64 (update_integrity_tag ?p))"
  have payload: "?p = concat (map (\<lambda>l. l @ [CHR 0x0A]) ?ls)"
    unfolding journal_payload_def by (rule fields_as_lines)
  have plain: "list_all plain ?ls" by (simp add: JOURNAL_MAGIC_def)
  have ser: "serialize_journal s = ?p @ ''integrity'' @ ''='' @ ?tag @ [CHR 0x0A]"
    by (simp add: serialize_journal_def Let_def)
  have "plain ''integrity''" by simp
  note sealed = sealed_text [OF this plain_hex [of "be64 (update_integrity_tag ?p)"] hex_no_equals plain payload,
      folded ser]
  have closing: "str_rfind ''integrity='' (serialize_journal s) = Some (length ?p)"
    "strip_prefix ''integrity='' (drop (length ?p) (serialize_journal s)) = Some (?tag @ [CHR 0x0A])"
    using sealed(2,3) by simp_all
  have tag: "word_of_nat (hex_val ?tag) = update_integrity_tag ?p"
    by (simp add: hex_val_bytes be64_value)
  have hexes: "list_all is_ascii_hexdigit ?tag" using hex_bytes_hexdigit by (simp add: list_all_iff)
  have dec: "update_hex_decode (update_hex_encode v) = Inr v"
    if "v \<in> {us_update_id s, us_target_id s, us_snapshot_id s, us_snapshot_receipt_id s, us_transaction_id s,
      us_verification_receipt_id s, us_recovery_reason s}" for v
    using that assms(2) by (intro hex_decode_encode) (auto simp: text_fields_utf8_def)
  have whole: "\<lparr> us_update_id = us_update_id s, us_target_id = us_target_id s, us_stage = us_stage s,
      us_snapshot_id = us_snapshot_id s, us_snapshot_receipt_id = us_snapshot_receipt_id s,
      us_transaction_id = us_transaction_id s, us_verification_receipt_id = us_verification_receipt_id s,
      us_recovery_reason = us_recovery_reason s, us_external_effect = us_external_effect s \<rparr> = s" by simp
  show ?thesis
    unfolding parse_journal_def
    by (simp add: whole sealed(1,4,5) closing tag hexes line_at_def parse_field_Some dec assms(1) Let_def)
qed

text \<open>Comparison without an early exit is equality.\<close>

lemma char_xor_zero: "char_xor a b = CHR 0x00 \<longleftrightarrow> a = b"
  by (cases a; cases b) auto

lemma char_or_zero: "char_or a b = CHR 0x00 \<longleftrightarrow> a = CHR 0x00 \<and> b = CHR 0x00"
  by (cases a; cases b) auto

lemma constant_time_hex_eq_iff [simp]: "constant_time_hex_eq l r \<longleftrightarrow> l = r"
proof -
  have fold: "foldl (\<lambda>d (a, b). char_or d (char_xor a b)) d zs = CHR 0x00
      \<longleftrightarrow> d = CHR 0x00 \<and> list_all (\<lambda>(a, b). a = b) zs" for d zs
    by (induction zs arbitrary: d) (simp_all add: char_or_zero char_xor_zero case_prod_beta conj_assoc)
  have "list_all (\<lambda>(a, b). a = b) (zip l r) \<longleftrightarrow> l = r" if "length l = length r"
    using that by (induction rule: list_induct2) simp_all
  then show ?thesis unfolding constant_time_hex_eq_def fold by auto
qed

lemma strip_newline_Some: "strip_newline s = Some t \<longleftrightarrow> s = t @ [CHR 0x0A]"
proof
  assume "strip_newline s = Some t"
  then have "s \<noteq> []" "last s = CHR 0x0A" "t = butlast s" by (auto simp: strip_newline_def split: if_splits)
  then show "s = t @ [CHR 0x0A]" by (metis append_butlast_last_id)
qed simp

lemma parse_evidence_authentic:
  assumes "parse_evidence cr key bs = Inr e"
  shows "\<exists>payload. bs = payload @ ''authentication='' @ update_hmac_sha256 cr key payload @ [CHR 0x0A]"
proof -
  obtain start expected where "Option.bind (strip_prefix ''authentication='' (drop start bs)) strip_newline = Some expected"
      "update_hmac_sha256 cr key (take start bs) = expected"
    using assms by (auto simp: parse_evidence_def result_simps Let_def)
  then have "drop start bs = ''authentication='' @ update_hmac_sha256 cr key (take start bs) @ [CHR 0x0A]"
    by (auto simp: bind_eq_Some_conv strip_prefix_Some strip_newline_Some)
  then show ?thesis by (metis append_take_drop_id)
qed

definition ident_text :: "string \<Rightarrow> bool" where
  "ident_text s \<longleftrightarrow> is_ok (normalize_identifier [] s) \<and> trim s = s"

definition evidence_valid :: "parsed_evidence \<Rightarrow> bool" where
  "evidence_valid e \<longleftrightarrow> list_all ident_text [pe_update_id e, pe_target_id e, pe_subject_id e, pe_proof_id e,
     pe_source e, pe_result e] \<and> (case pe_dispatch_generation e of None \<Rightarrow> True | Some g \<Rightarrow> ident_text g)"

lemma normalize_identifier_ok:
  "normalize_identifier l s = Inr t \<longleftrightarrow> t = trim s \<and> is_ok (normalize_identifier [] s)"
  by (auto simp: normalize_identifier_def Let_def)

lemma ident_text_ok: "ident_text s \<Longrightarrow> normalize_identifier l s = Inr s"
  using normalize_identifier_ok [of l s s] by (auto simp: ident_text_def)

lemma ident_text_char:
  assumes "ident_text s" "c \<in> set s"
  shows "is_ascii_alphanumeric c \<or> c \<in> {CHR ''-'', CHR ''_'', CHR ''.'', CHR '':''}"
  using assms by (auto simp: ident_text_def normalize_identifier_def Let_def list_all_iff is_ok_iff split: if_splits)

lemma ident_text_plain: "ident_text s \<Longrightarrow> plain s"
proof -
  assume id: "ident_text s"
  have "is_ascii_byte c \<and> c \<noteq> CHR 0x0A \<and> c \<noteq> CHR 0x0D" if "c \<in> set s" for c
    using ident_text_char [OF id that] by (auto simp: is_ascii_byte_def is_ascii_alphanumeric_def is_digit_def)
  then show ?thesis by (simp add: plain_def list_all_iff)
qed

lemma ident_text_utf8: "ident_text s \<Longrightarrow> utf8_valid s"
  using ident_text_plain plain_ascii ascii_valid by blast

lemma alnum_not_whitespace:
  "is_ascii_alphanumeric c \<or> c \<in> {CHR ''-'', CHR ''_'', CHR ''.'', CHR '':''} \<Longrightarrow> is_ascii_byte c \<and> \<not> char_is_whitespace (of_char c)"
  by (auto simp: is_ascii_alphanumeric_def is_digit_def is_ascii_byte_def char_is_whitespace_def)

lemma normalize_identifier_text:
  assumes "normalize_identifier l s = Inr t"
  shows "ident_text t"
proof -
  have "list_all (\<lambda>b. is_ascii_alphanumeric b \<or> b \<in> {CHR ''-'', CHR ''_'', CHR ''.'', CHR '':''}) t"
    using assms by (auto simp: normalize_identifier_def Let_def split: if_splits)
  then have "trim t = t"
    using alnum_not_whitespace by (intro trim_id) (auto simp: list_all_iff)
  with assms show ?thesis by (auto simp: ident_text_def normalize_identifier_def Let_def split: if_splits)
qed

lemma dec_not_dash [simp]: "u64_to_dec n \<noteq> ''-''"
proof
  assume "u64_to_dec n = ''-''"
  then have "is_digit (CHR ''-'')" using nat_to_dec_digits [of "CHR ''-''" "unat n"] by (simp add: u64_to_dec_def)
  then show False by (simp add: is_digit_def)
qed

lemma parse_serialize_evidence:
  assumes "evidence_valid e" and "\<And>m. length (sha256 cr m) = 32"
  shows "parse_evidence cr key (serialize_evidence cr key e) = Inr e"
proof -
  let ?issued = "case pe_issued_unix_ms e of None \<Rightarrow> ''-'' | Some n \<Rightarrow> u64_to_dec n"
  let ?kvs = "[(''kind'', evidence_kind_as_str (pe_kind e)),
      (''update'', update_hex_encode (Some (pe_update_id e))),
      (''target'', update_hex_encode (Some (pe_target_id e))),
      (''subject'', update_hex_encode (Some (pe_subject_id e))),
      (''proof'', update_hex_encode (Some (pe_proof_id e))),
      (''dispatch_generation'', update_hex_encode (pe_dispatch_generation e)),
      (''issued_unix_ms'', ?issued), (''source'', pe_source e), (''result'', pe_result e)]"
  let ?p = "evidence_payload e"
  let ?ls = "EVIDENCE_MAGIC # map (\<lambda>(k, v). k @ ''='' @ v) ?kvs"
  let ?mac = "update_hmac_sha256 cr key ?p"
  obtain d where mac: "?mac = hex_bytes d" "length d = 32" using assms(2) by (simp add: update_hmac_sha256_def)
  have ids: "ident_text (pe_update_id e)" "ident_text (pe_target_id e)" "ident_text (pe_subject_id e)"
    "ident_text (pe_proof_id e)" "ident_text (pe_source e)" "ident_text (pe_result e)"
    "\<And>g. pe_dispatch_generation e = Some g \<Longrightarrow> ident_text g"
    using assms(1) by (simp_all add: evidence_valid_def)
  have "plain ?issued" by (simp split: option.split)
  then have plain: "list_all plain ?ls" using ids(5,6) by (simp add: EVIDENCE_MAGIC_def ident_text_plain)
  have payload: "?p = concat (map (\<lambda>l. l @ [CHR 0x0A]) ?ls)"
    unfolding evidence_payload_def by (rule fields_as_lines)
  have ser: "serialize_evidence cr key e = ?p @ ''authentication'' @ ''='' @ hex_bytes d @ [CHR 0x0A]"
    by (simp add: serialize_evidence_def Let_def mac)
  have "plain ''authentication''" by simp
  note sealed = sealed_text [OF this plain_hex [of d] hex_no_equals plain payload, folded ser]
  have closing: "str_rfind ''authentication='' (serialize_evidence cr key e) = Some (length ?p)"
    "strip_prefix ''authentication='' (drop (length ?p) (serialize_evidence cr key e)) = Some (hex_bytes d @ [CHR 0x0A])"
    using sealed(2,3) by simp_all
  have hexes: "list_all is_ascii_hexdigit (hex_bytes d)" using hex_bytes_hexdigit by (simp add: list_all_iff)
  have req: "required_hex (update_hex_encode (Some t)) l = Inr t" if "ident_text t" for t l
    using hex_decode_encode [of "Some t"] ident_text_utf8 [OF that] by (simp add: required_hex_def optional_utf8_def)
  have gen: "update_hex_decode (update_hex_encode (pe_dispatch_generation e)) = Inr (pe_dispatch_generation e)"
    using ids(7) ident_text_utf8 by (intro hex_decode_encode) (auto simp: optional_utf8_def split: option.split)
  have genok: "check_optional (pe_dispatch_generation e) (normalize_identifier l) = Inr ()" for l
    using ids(7) ident_text_ok by (cases "pe_dispatch_generation e") (simp_all add: check_optional_def)
  have issued: "optional_u64 ?issued l = Inr (pe_issued_unix_ms e)" for l
    by (cases "pe_issued_unix_ms e") (simp_all add: optional_u64_def)
  have whole: "\<lparr> pe_kind = pe_kind e, pe_update_id = pe_update_id e, pe_target_id = pe_target_id e,
      pe_subject_id = pe_subject_id e, pe_proof_id = pe_proof_id e, pe_dispatch_generation = pe_dispatch_generation e,
      pe_issued_unix_ms = pe_issued_unix_ms e, pe_source = pe_source e, pe_result = pe_result e \<rparr> = e" by simp
  show ?thesis
    unfolding parse_evidence_def
    by (simp add: whole sealed(1,4,5) closing mac hexes line_at_def parse_field_Some req [OF ids(1)] req [OF ids(2)]
        req [OF ids(3)] req [OF ids(4)] gen genok issued ident_text_ok [OF ids(1)] ident_text_ok [OF ids(2)]
        ident_text_ok [OF ids(3)] ident_text_ok [OF ids(4)] ident_text_ok [OF ids(5)] ident_text_ok [OF ids(6)] Let_def)
qed

end
