(* ===== verification/Update_Files.thy ===== *)
theory Update_Files
  imports Update_Journal
begin

unbundle bit_operations_syntax

text \<open>
  The files \<open>crates/linura-update/src/lib.rs\<close> relies on: the lock beside the journal, the evidence root with
  its authentication key, and the receipts below it.

  A system call answers a message or a value. The answers of the calls an operation makes, in the order it
  makes them, are a record of the environment, so a file may change between two calls. The operations decide
  what the code decides on them.
\<close>

section \<open>Metadata\<close>

record journal_metadata =
  jm_symlink :: bool
  jm_file :: bool
  jm_mode :: "32 word"
  jm_dev :: u64
  jm_ino :: u64
  jm_ctime :: u64
  jm_ctime_nsec :: u64
  jm_mtime :: u64
  jm_mtime_nsec :: u64

record file_metadata = journal_metadata +
  fm_dir :: bool
  fm_uid :: "32 word"
  fm_nlink :: u64
  fm_len :: u64

type_synonym 'a io_answer = "string + 'a"

definition io_error :: "'a io_answer \<Rightarrow> update_error + 'a" where
  "io_error r = map_err UpdateIo r"

definition validate_journal_metadata :: "'a journal_metadata_scheme \<Rightarrow> update_error + unit" where
  "validate_journal_metadata m =
     ensure (\<not> (jm_symlink m \<or> \<not> jm_file m \<or> jm_mode m AND 0x12 \<noteq> 0)) UntrustedJournalPath"

section \<open>The lock\<close>

text \<open>\<open>Path::parent\<close> and \<open>Path::file_name\<close> of the journal's path, the latter when it is UTF-8.\<close>

record journal_path =
  jp_parent :: "string option"
  jp_file_name :: "string option"

text \<open>\<open>Path::join\<close> with a relative path.\<close>

definition path_join :: "string \<Rightarrow> string \<Rightarrow> string" where
  "path_join p c = (if p = [] \<or> last p = CHR ''/'' then p @ c else p @ ''/'' @ c)"

definition sidecar_path :: "journal_path \<Rightarrow> string \<Rightarrow> update_error + string" where
  "sidecar_path p sfx =
     and_then (ok_or (jp_parent p) (UpdateIo ''update journal path has no parent'')) (\<lambda>parent.
     and_then (ok_or (jp_file_name p) (UpdateIo ''invalid update journal file name'')) (\<lambda>file_name.
     Inr (path_join parent (''.'' @ file_name @ ''.'' @ sfx))))"

record lock_answers =
  la_create_dir :: "unit io_answer"
  la_existing :: "file_metadata option io_answer"
  la_open :: "unit io_answer"
  la_path :: "file_metadata io_answer"
  la_opened :: "file_metadata io_answer"
  la_lock :: "unit io_answer"
  la_path_locked :: "file_metadata io_answer"
  la_opened_locked :: "file_metadata io_answer"

definition lock_untrusted :: "file_metadata \<Rightarrow> bool" where
  "lock_untrusted m \<longleftrightarrow> jm_symlink m \<or> \<not> jm_file m \<or> jm_mode m AND 0x12 \<noteq> 0"

definition reject_untrusted_existing_lock :: "file_metadata option io_answer \<Rightarrow> update_error + unit" where
  "reject_untrusted_existing_lock existing =
     and_then (io_error existing) (\<lambda>found. case found of
       None \<Rightarrow> Inr ()
     | Some m \<Rightarrow> ensure (\<not> lock_untrusted m) UntrustedLockPath)"

definition validate_lock_identity ::
  "file_metadata io_answer \<Rightarrow> file_metadata io_answer \<Rightarrow> update_error + unit" where
  "validate_lock_identity at_path opened_file =
     and_then (io_error at_path) (\<lambda>path_metadata.
     and_then (io_error opened_file) (\<lambda>opened.
     ensure (\<not> (lock_untrusted path_metadata \<or> jm_dev opened \<noteq> jm_dev path_metadata
         \<or> jm_ino opened \<noteq> jm_ino path_metadata)) UntrustedLockPath))"

text \<open>The lock's own path is joined to a parent, so it has one.\<close>

definition acquire_exclusive :: "journal_path \<Rightarrow> lock_answers \<Rightarrow> update_error + unit" where
  "acquire_exclusive p a =
     and_then (sidecar_path p ''lock'') (\<lambda>_.
     and_then (io_error (la_create_dir a)) (\<lambda>_.
     and_then (reject_untrusted_existing_lock (la_existing a)) (\<lambda>_.
     and_then (io_error (la_open a)) (\<lambda>_.
     and_then (validate_lock_identity (la_path a) (la_opened a)) (\<lambda>_.
     and_then (io_error (la_lock a)) (\<lambda>_.
     validate_lock_identity (la_path_locked a) (la_opened_locked a)))))))"

section \<open>The evidence root and its key\<close>

definition V09_UPDATE_EVIDENCE_ROOT :: string where
  "V09_UPDATE_EVIDENCE_ROOT = ''/var/lib/linura-update/v0.9''"

definition V09_UPDATE_EVIDENCE_PRODUCER_UID :: "32 word" where
  "V09_UPDATE_EVIDENCE_PRODUCER_UID = 0"

definition EVIDENCE_AUTH_KEY_BYTES :: nat where
  "EVIDENCE_AUTH_KEY_BYTES = 32"

definition trusted_evidence_root_metadata ::
  "32 word \<Rightarrow> file_metadata io_answer \<Rightarrow> update_error + file_metadata" where
  "trusted_evidence_root_metadata expected_uid answer =
     and_then (io_error answer) (\<lambda>m.
     and_then (ensure (\<not> (jm_symlink m \<or> \<not> fm_dir m \<or> jm_mode m AND 0x12 \<noteq> 0 \<or> fm_uid m \<noteq> expected_uid))
       UntrustedEvidenceRoot) (\<lambda>_. Inr m))"

record key_answers =
  ka_before :: "file_metadata io_answer"
  ka_open :: "unit io_answer"
  ka_opened :: "file_metadata io_answer"
  ka_read :: "bytes io_answer"
  ka_trailing :: "unit io_answer"

text \<open>\<open>ka_read\<close> is what the file holds from its start; \<open>read_exact\<close> takes the first 32 bytes of it.\<close>

definition read_evidence_auth_key :: "32 word \<Rightarrow> key_answers \<Rightarrow> update_error + bytes" where
  "read_evidence_auth_key expected_uid a =
     and_then (io_error (ka_before a)) (\<lambda>before.
     and_then (ensure (\<not> (jm_symlink before \<or> \<not> jm_file before \<or> fm_uid before \<noteq> expected_uid
         \<or> fm_nlink before \<noteq> 1 \<or> jm_mode before AND 0x3F \<noteq> 0
         \<or> fm_len before \<noteq> word_of_nat EVIDENCE_AUTH_KEY_BYTES)) UntrustedEvidencePath) (\<lambda>_.
     and_then (io_error (ka_open a)) (\<lambda>_.
     and_then (io_error (ka_opened a)) (\<lambda>opened.
     and_then (ensure (\<not> (jm_dev opened \<noteq> jm_dev before \<or> jm_ino opened \<noteq> jm_ino before
         \<or> fm_uid opened \<noteq> expected_uid \<or> fm_nlink opened \<noteq> 1)) UntrustedEvidencePath) (\<lambda>_.
     and_then (io_error (ka_read a)) (\<lambda>content.
     and_then (ensure (EVIDENCE_AUTH_KEY_BYTES \<le> length content) (UpdateIo ''failed to fill whole buffer'')) (\<lambda>_.
     and_then (io_error (ka_trailing a)) (\<lambda>_.
     let key = take EVIDENCE_AUTH_KEY_BYTES content in
     and_then (ensure (\<not> (length content \<noteq> EVIDENCE_AUTH_KEY_BYTES \<or> list_all (\<lambda>b. b = CHR 0x00) key))
       UntrustedEvidencePath) (\<lambda>_. Inr key)))))))))"

record evidence_verifier =
  ev_root :: string
  ev_root_device :: u64
  ev_root_inode :: u64
  ev_root_uid :: "32 word"
  ev_key :: bytes

record root_answers =
  oa_supplied :: "file_metadata io_answer"
  oa_canonicalize :: "string io_answer"
  oa_canonical :: "file_metadata io_answer"
  oa_key :: key_answers

definition open_at :: "32 word \<Rightarrow> root_answers \<Rightarrow> update_error + evidence_verifier" where
  "open_at expected_uid a =
     and_then (trusted_evidence_root_metadata expected_uid (oa_supplied a)) (\<lambda>supplied.
     and_then (io_error (oa_canonicalize a)) (\<lambda>root.
     and_then (trusted_evidence_root_metadata expected_uid (oa_canonical a)) (\<lambda>m.
     and_then (ensure (\<not> (jm_dev m \<noteq> jm_dev supplied \<or> jm_ino m \<noteq> jm_ino supplied)) UntrustedEvidenceRoot) (\<lambda>_.
     and_then (read_evidence_auth_key expected_uid (oa_key a)) (\<lambda>key.
     Inr \<lparr> ev_root = root, ev_root_device = jm_dev m, ev_root_inode = jm_ino m,
           ev_root_uid = expected_uid, ev_key = key \<rparr>)))))"

definition verifier_open :: "root_answers \<Rightarrow> update_error + evidence_verifier" where
  "verifier_open = open_at V09_UPDATE_EVIDENCE_PRODUCER_UID"

definition validate_root_identity :: "evidence_verifier \<Rightarrow> file_metadata io_answer \<Rightarrow> update_error + unit" where
  "validate_root_identity v answer =
     and_then (trusted_evidence_root_metadata (ev_root_uid v) answer) (\<lambda>m.
     ensure (\<not> (jm_dev m \<noteq> ev_root_device v \<or> jm_ino m \<noteq> ev_root_inode v)) UntrustedEvidenceRoot)"

section \<open>Receipts\<close>

record receipt_answers =
  ra_root :: "file_metadata io_answer"
  ra_path :: "file_metadata io_answer"
  ra_open :: "unit io_answer"
  ra_opened :: "file_metadata io_answer"
  ra_bytes :: "bytes io_answer"
  ra_sync :: "unit io_answer"
  ra_sync_root :: "unit io_answer"
  ra_root_after :: "file_metadata io_answer"
  ra_after :: "file_metadata io_answer"

definition read_receipt ::
  "crypto \<Rightarrow> (string \<Rightarrow> receipt_answers) \<Rightarrow> evidence_verifier \<Rightarrow> string \<Rightarrow> update_error + parsed_evidence" where
  "read_receipt cr files v receipt_id =
     (let a = files (path_join (ev_root v) (receipt_id @ ''.receipt'')) in
     and_then (validate_root_identity v (ra_root a)) (\<lambda>_.
     and_then (io_error (ra_path a)) (\<lambda>p.
     and_then (ensure (\<not> (jm_symlink p \<or> \<not> jm_file p \<or> jm_mode p AND 0x12 \<noteq> 0 \<or> fm_uid p \<noteq> ev_root_uid v
         \<or> fm_nlink p \<noteq> 1 \<or> fm_len p > word_of_nat MAX_EVIDENCE_BYTES)) UntrustedEvidencePath) (\<lambda>_.
     and_then (io_error (ra_open a)) (\<lambda>_.
     and_then (io_error (ra_opened a)) (\<lambda>opened.
     and_then (ensure (\<not> (jm_dev opened \<noteq> jm_dev p \<or> jm_ino opened \<noteq> jm_ino p
         \<or> fm_uid opened \<noteq> ev_root_uid v \<or> fm_nlink opened \<noteq> 1)) UntrustedEvidencePath) (\<lambda>_.
     and_then (io_error (ra_bytes a)) (\<lambda>bs.
     and_then (ensure (length bs \<le> MAX_EVIDENCE_BYTES)
       (CorruptEvidence ''evidence receipt exceeds supported size bound'')) (\<lambda>_.
     and_then (io_error (ra_sync a)) (\<lambda>_.
     and_then (io_error (ra_sync_root a)) (\<lambda>_.
     and_then (validate_root_identity v (ra_root_after a)) (\<lambda>_.
     and_then (io_error (ra_after a)) (\<lambda>after.
     and_then (ensure (\<not> (jm_symlink after \<or> \<not> jm_file after \<or> jm_dev after \<noteq> jm_dev opened
         \<or> jm_ino after \<noteq> jm_ino opened \<or> fm_uid after \<noteq> ev_root_uid v \<or> jm_mode after AND 0x12 \<noteq> 0
         \<or> fm_nlink after \<noteq> 1)) UntrustedEvidencePath) (\<lambda>_.
     parse_evidence cr (ev_key v) bs))))))))))))))"

section \<open>What they establish\<close>

lemma io_error_ok [simp]: "io_error r = Inr x \<longleftrightarrow> r = Inr x"
  by (cases r) (simp_all add: io_error_def map_err_def)

lemma read_evidence_auth_key_ok:
  assumes "read_evidence_auth_key uid a = Inr key"
  shows "length key = 32" "\<not> list_all (\<lambda>b. b = CHR 0x00) key"
    "\<exists>m. ka_before a = Inr m \<and> jm_file m \<and> fm_uid m = uid \<and> fm_nlink m = 1 \<and> jm_mode m AND 0x3F = 0"
  using assms by (auto simp: read_evidence_auth_key_def EVIDENCE_AUTH_KEY_BYTES_def Let_def result_simps)

text \<open>A receipt that is read is an authenticated file of the producer below the root the verifier opened.\<close>

lemma read_receipt_ok:
  assumes "read_receipt cr files v receipt_id = Inr e"
  obtains bs p where "parse_evidence cr (ev_key v) bs = Inr e" "length bs \<le> MAX_EVIDENCE_BYTES"
    "ra_bytes (files (path_join (ev_root v) (receipt_id @ ''.receipt''))) = Inr bs"
    "ra_path (files (path_join (ev_root v) (receipt_id @ ''.receipt''))) = Inr p"
    "jm_file p" "fm_uid p = ev_root_uid v" "fm_nlink p = 1" "jm_mode p AND 0x12 = 0"
  using assms by (auto simp: read_receipt_def Let_def result_simps)

lemma validate_journal_metadata_ok:
  "validate_journal_metadata m = Inr () \<longleftrightarrow> \<not> jm_symlink m \<and> jm_file m \<and> jm_mode m AND 0x12 = 0"
  by (auto simp: validate_journal_metadata_def)

end
