(* ===== verification/Update_Coordinator.thy ===== *)
theory Update_Coordinator
  imports Update_Files Machine_Refinement
begin

text \<open>
  The update coordinator of \<open>crates/linura-update/src/lib.rs\<close>: the trusted evidence verifier, the journal
  file and its generation, and every operation of \<open>UpdateCoordinator\<close>.

  The filesystem is the environment: every call on the journal may fail with any message, the calls on the
  lock and on a receipt answer as they like, and the metadata of a written file are what the system gives it.
  \<open>atomic_write\<close> replaces the journal as a whole; only its directory sync can fail after the replacement. The
  renamed file is then in place for every later reader of the running system; a power failure that undoes the
  rename is not modelled.
  Clock readings are nanoseconds since the epoch.
\<close>

section \<open>The environment\<close>

record journal_file =
  jf_bytes :: bytes
  jf_meta :: journal_metadata

datatype update_io =
    IoStatLoad | IoReadLoad | IoStatGeneration
  | IoCreateParent | IoNonce | IoOpenTemporary | IoWriteTemporary | IoSyncTemporary | IoRename | IoSyncDirectory
  | IoStatCommitted

record update_env =
  ue_fault :: "update_io \<Rightarrow> string option"
  ue_path :: journal_path
  ue_lock :: lock_answers
  ue_clock :: int
  ue_clock_commit :: int
  ue_meta :: "bytes \<Rightarrow> journal_metadata"
  ue_receipts :: "string \<Rightarrow> receipt_answers"

definition update_io_result :: "update_env \<Rightarrow> update_io \<Rightarrow> update_error + unit" where
  "update_io_result env io = (case ue_fault env io of None \<Rightarrow> Inr () | Some m \<Rightarrow> Inl (UpdateIo m))"

section \<open>Errors as text\<close>

fun update_stage_debug :: "update_stage \<Rightarrow> string" where
  "update_stage_debug AcquireLock = ''AcquireLock''"
| "update_stage_debug Preflight = ''Preflight''"
| "update_stage_debug DiskSpace = ''DiskSpace''"
| "update_stage_debug StageSnapshot = ''Snapshot''"
| "update_stage_debug PackageTransaction = ''PackageTransaction''"
| "update_stage_debug Migrations = ''Migrations''"
| "update_stage_debug Reconcile = ''Reconcile''"
| "update_stage_debug RestartAssessment = ''RestartAssessment''"
| "update_stage_debug StageVerify = ''Verify''"
| "update_stage_debug StageComplete = ''Complete''"
| "update_stage_debug StageRecoveryRequired = ''RecoveryRequired''"

fun update_error_text :: "update_error \<Rightarrow> string" where
  "update_error_text (InvalidUpdateTransition a b) =
     ''invalid update transition '' @ update_stage_debug a @ '' -> '' @ update_stage_debug b"
| "update_error_text (InvalidUpdateOperation m) = m"
| "update_error_text (InvalidUpdateField label) = ''invalid '' @ label"
| "update_error_text SnapshotRequired =
     ''the current update policy requires trusted snapshot evidence before package dispatch''"
| "update_error_text ExternalEffectNotVerified =
     ''package transaction cannot advance until authoritative exact-bound verification evidence succeeds''"
| "update_error_text (EvidenceBindingMismatch m) = m"
| "update_error_text JournalBindingMismatch =
     ''update journal is bound to another update attempt or target and cannot be reused''"
| "update_error_text UntrustedJournalPath =
     ''update journal must be a regular non-symlink file without group/other write access''"
| "update_error_text UntrustedLockPath =
     ''update lock must be a stable regular non-symlink file without group/other write access''"
| "update_error_text UntrustedEvidenceRoot =
     ''update evidence root must be the fixed root-owned trusted producer path /var/lib/linura-update/v0.9 without group/other write access''"
| "update_error_text UntrustedEvidencePath =
     ''update evidence receipt must be a single-link regular non-symlink file owned by the trusted evidence producer without group/other write access''"
| "update_error_text StaleCoordinator =
     ''update coordinator observed stale durable state/generation and must be reopened/reconciled''"
| "update_error_text UnsupportedJournalVersion = ''unsupported update journal version''"
| "update_error_text UnsupportedEvidenceVersion = ''unsupported update evidence version''"
| "update_error_text (CorruptJournal r) = ''corrupt update journal: '' @ r"
| "update_error_text (CorruptEvidence r) = ''corrupt update evidence: '' @ r"
| "update_error_text (DurabilityUncertain r) =
     ''update journal rename may have committed but durable directory sync/generation is uncertain: '' @ r"
| "update_error_text (UpdateRecoveryRequired r) =
     ''update coordinator is poisoned by uncertain durable state and must be reopened/reconciled before continuing: '' @ r"
| "update_error_text (UpdateIo m) = ''update persistence/evidence I/O failed: '' @ m"

section \<open>Time and freshness\<close>

definition saturating_sub :: "u64 \<Rightarrow> u64 \<Rightarrow> u64" where
  "saturating_sub a b = (if b \<le> a then a - b else 0)"

definition system_time_to_unix_ms :: "int \<Rightarrow> update_error + u64" where
  "system_time_to_unix_ms t =
     and_then (ensure (0 \<le> t) (UpdateIo ''second time provided was later than self'')) (\<lambda>_.
     and_then (ensure (t div 1000000 < 2 ^ 64) (UpdateIo ''timestamp exceeds u64 range'')) (\<lambda>_.
     Inr (word_of_int (t div 1000000))))"

definition validate_snapshot_evidence_freshness :: "int \<Rightarrow> u64 \<Rightarrow> u64 \<Rightarrow> update_error + unit" where
  "validate_snapshot_evidence_freshness clock issued started =
     and_then (system_time_to_unix_ms clock) (\<lambda>now.
     ensure (\<not> (issued < started \<or> issued > saturating_add now SNAPSHOT_EVIDENCE_FUTURE_SKEW_MS
         \<or> saturating_sub now issued > SNAPSHOT_EVIDENCE_MAX_AGE_MS))
       (EvidenceBindingMismatch
         ''snapshot receipt is stale, predates this snapshot attempt, or is implausibly future-dated''))"

definition validate_package_evidence_freshness :: "int \<Rightarrow> u64 \<Rightarrow> u64 \<Rightarrow> update_error + unit" where
  "validate_package_evidence_freshness clock issued started =
     and_then (system_time_to_unix_ms clock) (\<lambda>now.
     ensure (\<not> (issued < started \<or> issued > saturating_add now PACKAGE_VERIFICATION_FUTURE_SKEW_MS
         \<or> saturating_sub now issued > PACKAGE_VERIFICATION_MAX_AGE_MS))
       (EvidenceBindingMismatch
         ''package verification receipt is stale, predates this dispatch, or is implausibly future-dated''))"

section \<open>Verified receipts\<close>

record snapshot_receipt =
  sr_receipt_id :: string
  sr_update_id :: string
  sr_target_id :: string
  sr_snapshot_id :: string
  sr_proof_id :: string
  sr_attempt_generation :: string
  sr_issued_unix_ms :: u64

record package_verification_receipt =
  pr_receipt_id :: string
  pr_update_id :: string
  pr_target_id :: string
  pr_transaction_id :: string
  pr_observation_id :: string
  pr_dispatch_generation :: string
  pr_issued_unix_ms :: u64

definition verify_snapshot ::
  "crypto \<Rightarrow> update_env \<Rightarrow> evidence_verifier \<Rightarrow> string \<Rightarrow> string \<Rightarrow> string \<Rightarrow> string \<Rightarrow> u64 \<Rightarrow> update_error + snapshot_receipt" where
  "verify_snapshot cr env v receipt_id update_id target_id attempt_generation started =
     and_then (normalize_identifier ''evidence receipt id'' receipt_id) (\<lambda>receipt_id'.
     and_then (normalize_identifier ''update id'' update_id) (\<lambda>update_id'.
     and_then (normalize_identifier ''update target id'' target_id) (\<lambda>target_id'.
     and_then (normalize_identifier ''snapshot attempt generation'' attempt_generation) (\<lambda>attempt'.
     and_then (read_receipt cr (ue_receipts env) v receipt_id') (\<lambda>e.
     and_then (ok_or (pe_dispatch_generation e) (EvidenceBindingMismatch
       ''snapshot receipt lacks update-attempt generation binding'')) (\<lambda>generation.
     and_then (ok_or (pe_issued_unix_ms e) (EvidenceBindingMismatch
       ''snapshot receipt lacks issuance freshness'')) (\<lambda>issued.
     and_then (ensure (pe_kind e = EvidenceSnapshot \<and> pe_update_id e = update_id' \<and> pe_target_id e = target_id'
         \<and> generation = attempt' \<and> pe_source e = V09_UPDATE_EVIDENCE_PRODUCER_ID \<and> pe_result e = ''durable'')
       (EvidenceBindingMismatch
         ''snapshot receipt is not durable trusted-producer evidence bound to this update, target and snapshot attempt'')) (\<lambda>_.
     and_then (validate_snapshot_evidence_freshness (ue_clock env) issued started) (\<lambda>_.
     and_then (normalize_identifier ''snapshot id'' (pe_subject_id e)) (\<lambda>snapshot_id.
     and_then (normalize_identifier ''snapshot proof id'' (pe_proof_id e)) (\<lambda>proof_id.
     Inr \<lparr> sr_receipt_id = receipt_id', sr_update_id = pe_update_id e, sr_target_id = pe_target_id e,
           sr_snapshot_id = snapshot_id, sr_proof_id = proof_id, sr_attempt_generation = attempt',
           sr_issued_unix_ms = issued \<rparr>)))))))))))"

definition verify_package ::
  "crypto \<Rightarrow> update_env \<Rightarrow> evidence_verifier \<Rightarrow> string \<Rightarrow> string \<Rightarrow> string \<Rightarrow> string \<Rightarrow> string \<Rightarrow> u64
     \<Rightarrow> update_error + package_verification_receipt" where
  "verify_package cr env v receipt_id update_id target_id transaction_id dispatch_generation started =
     and_then (normalize_identifier ''evidence receipt id'' receipt_id) (\<lambda>receipt_id'.
     and_then (normalize_identifier ''update id'' update_id) (\<lambda>update_id'.
     and_then (normalize_identifier ''update target id'' target_id) (\<lambda>target_id'.
     and_then (normalize_identifier ''transaction id'' transaction_id) (\<lambda>transaction_id'.
     and_then (normalize_identifier ''dispatch generation'' dispatch_generation) (\<lambda>dispatch'.
     and_then (read_receipt cr (ue_receipts env) v receipt_id') (\<lambda>e.
     and_then (ok_or (pe_dispatch_generation e) (EvidenceBindingMismatch
       ''package verification receipt lacks dispatch-generation binding'')) (\<lambda>generation.
     and_then (ok_or (pe_issued_unix_ms e) (EvidenceBindingMismatch
       ''package verification receipt lacks issuance freshness'')) (\<lambda>issued.
     and_then (ensure (pe_kind e = EvidencePackageVerification \<and> pe_update_id e = update_id'
         \<and> pe_target_id e = target_id' \<and> pe_subject_id e = transaction_id' \<and> generation = dispatch'
         \<and> pe_source e = V09_UPDATE_EVIDENCE_PRODUCER_ID \<and> pe_result e = ''verified'')
       (EvidenceBindingMismatch
         ''package verification receipt is not authoritative evidence bound to this update, target, transaction and dispatch instance'')) (\<lambda>_.
     and_then (validate_package_evidence_freshness (ue_clock env) issued started) (\<lambda>_.
     and_then (normalize_identifier ''observation id'' (pe_proof_id e)) (\<lambda>observation_id.
     Inr \<lparr> pr_receipt_id = receipt_id', pr_update_id = pe_update_id e, pr_target_id = pe_target_id e,
           pr_transaction_id = pe_subject_id e, pr_observation_id = observation_id,
           pr_dispatch_generation = dispatch', pr_issued_unix_ms = issued \<rparr>)))))))))))"

section \<open>The journal store\<close>

record journal_generation =
  jg_token :: string
  jg_committed_unix_ms :: u64

definition journal_load :: "update_env \<Rightarrow> journal_file option \<Rightarrow> update_error + update_state" where
  "journal_load env f =
     and_then (update_io_result env IoStatLoad) (\<lambda>_.
     case f of
       None \<Rightarrow> Inr update_state_default
     | Some j \<Rightarrow>
         and_then (validate_journal_metadata (jf_meta j)) (\<lambda>_.
         and_then (ensure (length (jf_bytes j) \<le> MAX_JOURNAL_BYTES)
           (CorruptJournal ''update journal exceeds supported size bound'')) (\<lambda>_.
         and_then (update_io_result env IoReadLoad) (\<lambda>_.
         parse_journal (jf_bytes j)))))"

definition generation_token :: "journal_file \<Rightarrow> string" where
  "generation_token j = (let m = jf_meta j in join_colon (map nat_to_hex
     [unat (jm_dev m), unat (jm_ino m), unat (jm_ctime m), unat (jm_ctime_nsec m), unat (jm_mtime m),
      unat (jm_mtime_nsec m), length (jf_bytes j)]))"

definition journal_generation_of :: "update_env \<Rightarrow> update_io \<Rightarrow> journal_file option \<Rightarrow> update_error + journal_generation" where
  "journal_generation_of env io f =
     and_then (update_io_result env io) (\<lambda>_.
     and_then (ok_or f (UpdateIo ''No such file or directory (os error 2)'')) (\<lambda>j.
     and_then (validate_journal_metadata (jf_meta j)) (\<lambda>_.
     and_then (system_time_to_unix_ms (sint (jm_mtime (jf_meta j)) * 1000000000 + sint (jm_mtime_nsec (jf_meta j)))) (\<lambda>ms.
     and_then (normalize_identifier ''dispatch generation'' (generation_token j)) (\<lambda>token.
     Inr \<lparr> jg_token = token, jg_committed_unix_ms = ms \<rparr>)))))"

definition atomic_write ::
  "update_env \<Rightarrow> bytes \<Rightarrow> journal_file option \<Rightarrow> (update_error + unit) \<times> journal_file option" where
  "atomic_write env bs f =
     (case and_then (ok_or (jp_parent (ue_path env)) (UpdateIo ''update journal path has no parent'')) (\<lambda>_.
           and_then (update_io_result env IoCreateParent) (\<lambda>_.
           and_then (update_io_result env IoNonce) (\<lambda>_.
           and_then (ok_or (jp_file_name (ue_path env)) (UpdateIo ''invalid update journal file name'')) (\<lambda>_.
           and_then (update_io_result env IoOpenTemporary) (\<lambda>_.
           and_then (update_io_result env IoWriteTemporary) (\<lambda>_.
           and_then (update_io_result env IoSyncTemporary) (\<lambda>_.
           update_io_result env IoRename))))))) of
        Inl e \<Rightarrow> (Inl e, f)
      | Inr _ \<Rightarrow>
          (case ue_fault env IoSyncDirectory of
             None \<Rightarrow> Inr ()
           | Some m \<Rightarrow> Inl (DurabilityUncertain
               (''journal rename completed but parent-directory fsync failed: '' @ m)),
           Some \<lparr> jf_bytes = bs, jf_meta = ue_meta env bs \<rparr>))"

definition journal_persist ::
  "update_env \<Rightarrow> update_state \<Rightarrow> journal_file option \<Rightarrow> (update_error + unit) \<times> journal_file option" where
  "journal_persist env s f = atomic_write env (serialize_journal s) f"

section \<open>The coordinator\<close>

record update_coordinator =
  uc_state :: update_state
  uc_policy :: update_policy
  uc_update_id :: string
  uc_target_id :: string
  uc_generation :: journal_generation
  uc_uncertain :: "string option"

datatype update_resume_decision =
    ResumeContinue update_stage
  | SafeToDispatchPrepared
  | ReobserveBeforeContinuing
  | SafeToAdvanceAfterVerification
  | ManualRecoveryRequired
  | ResumeComplete

definition update_open ::
  "update_env \<Rightarrow> update_policy \<Rightarrow> string \<Rightarrow> string \<Rightarrow> journal_file option
     \<Rightarrow> (update_error + update_coordinator) \<times> journal_file option" where
  "update_open env policy update_id target_id f =
     (case and_then (normalize_identifier ''update id'' update_id) (\<lambda>u.
           and_then (normalize_identifier ''update target id'' target_id) (\<lambda>t.
           and_then (acquire_exclusive (ue_path env) (ue_lock env)) (\<lambda>_.
           and_then (journal_load env f) (\<lambda>s. Inr (u, t, s))))) of
        Inl e \<Rightarrow> (Inl e, f)
      | Inr (u, t, s) \<Rightarrow>
          let finish = (\<lambda>s f'. (and_then (validate_persisted_state s) (\<lambda>_.
                and_then (journal_generation_of env IoStatCommitted f') (\<lambda>g.
                Inr \<lparr> uc_state = s, uc_policy = policy, uc_update_id = u, uc_target_id = t,
                      uc_generation = g, uc_uncertain = None \<rparr>)), f')) in
          if us_update_id s = None \<and> us_target_id s = None then
            if s \<noteq> update_state_default
            then (Inl (CorruptJournal ''unbound journal contains non-default state''), f)
            else let s' = s\<lparr> us_update_id := Some u, us_target_id := Some t \<rparr> in
              (case validate_persisted_state s' of
                 Inl e \<Rightarrow> (Inl e, f)
               | Inr _ \<Rightarrow> (case journal_persist env s' f of
                   (Inl e, f') \<Rightarrow> (Inl e, f')
                 | (Inr _, f') \<Rightarrow> finish s' f'))
          else if us_update_id s \<noteq> Some u \<or> us_target_id s \<noteq> Some t
          then (Inl JournalBindingMismatch, f)
          else finish s f)"

definition ensure_usable :: "update_coordinator \<Rightarrow> update_error + unit" where
  "ensure_usable c = (case uc_uncertain c of None \<Rightarrow> Inr () | Some r \<Rightarrow> Inl (UpdateRecoveryRequired r))"

definition handle_persist_failure ::
  "update_error \<Rightarrow> update_coordinator \<Rightarrow> (update_error + unit) \<times> update_coordinator" where
  "handle_persist_failure e c = (case e of
     DurabilityUncertain r \<Rightarrow> (Inl (DurabilityUncertain r), c\<lparr> uc_uncertain := Some r \<rparr>)
   | other \<Rightarrow> (Inl other, c))"

definition commit_with_validation ::
  "update_env \<Rightarrow> update_state \<Rightarrow> u64 option \<Rightarrow> update_coordinator \<times> journal_file option
     \<Rightarrow> (update_error + unit) \<times> update_coordinator \<times> journal_file option" where
  "commit_with_validation env candidate issued cf = (case cf of (c, f) \<Rightarrow>
     (case and_then (ensure_usable c) (\<lambda>_.
           and_then (validate_persisted_state candidate) (\<lambda>_.
           and_then (acquire_exclusive (ue_path env) (ue_lock env)) (\<lambda>_.
           and_then (journal_load env f) (\<lambda>durable.
           and_then (journal_generation_of env IoStatGeneration f) (\<lambda>g. Inr (durable, g)))))) of
        Inl e \<Rightarrow> (Inl e, c, f)
      | Inr (durable, g) \<Rightarrow>
          if durable \<noteq> uc_state c \<or> g \<noteq> uc_generation c
          then (Inl StaleCoordinator, c\<lparr> uc_uncertain := Some ''durable update state/generation changed through another coordinator; reopen and reconcile before continuing'' \<rparr>, f)
          else (case (case issued of None \<Rightarrow> Inr ()
                 | Some n \<Rightarrow> validate_package_evidence_freshness (ue_clock_commit env) n (jg_committed_unix_ms g)) of
              Inl e \<Rightarrow> (Inl e, c, f)
            | Inr _ \<Rightarrow> (case journal_persist env candidate f of
                (Inl e, f') \<Rightarrow> (case handle_persist_failure e c of (r, c') \<Rightarrow> (r, c', f'))
              | (Inr _, f') \<Rightarrow> (case journal_generation_of env IoStatCommitted f' of
                  Inr g' \<Rightarrow> (Inr (), c\<lparr> uc_state := candidate, uc_generation := g' \<rparr>, f')
                | Inl e \<Rightarrow> (case handle_persist_failure (DurabilityUncertain
                    (''journal commit succeeded but the new durable generation could not be re-observed: ''
                     @ update_error_text e)) c of (r, c') \<Rightarrow> (r, c', f')))))))"

text \<open>An operation first decides on a candidate state, then commits it.\<close>

definition commit_candidate ::
  "update_env \<Rightarrow> (update_coordinator \<Rightarrow> update_error + update_state) \<Rightarrow> u64 option
     \<Rightarrow> update_coordinator \<times> journal_file option
     \<Rightarrow> (update_error + unit) \<times> update_coordinator \<times> journal_file option" where
  "commit_candidate env decide issued cf = (case cf of (c, f) \<Rightarrow>
     (case and_then (ensure_usable c) (\<lambda>_. decide c) of
        Inl e \<Rightarrow> (Inl e, c, f)
      | Inr candidate \<Rightarrow> commit_with_validation env candidate issued (c, f)))"

definition snapshot_policy_satisfied :: "update_coordinator \<Rightarrow> bool" where
  "snapshot_policy_satisfied c \<longleftrightarrow> \<not> up_require_snapshot_when_available (uc_policy c)
     \<or> (us_snapshot_id (uc_state c) \<noteq> None \<and> us_snapshot_receipt_id (uc_state c) \<noteq> None)"

definition ensure_snapshot_policy_satisfied :: "update_coordinator \<Rightarrow> update_error + unit" where
  "ensure_snapshot_policy_satisfied c = ensure (snapshot_policy_satisfied c) SnapshotRequired"

definition coordinator_transition :: "update_env \<Rightarrow> update_stage \<Rightarrow> update_coordinator \<times> journal_file option
     \<Rightarrow> (update_error + unit) \<times> update_coordinator \<times> journal_file option" where
  "coordinator_transition env next_stage =
     commit_candidate env (\<lambda>c. update_state_transition next_stage (uc_state c)) None"

definition record_snapshot :: "update_env \<Rightarrow> snapshot_receipt \<Rightarrow> update_coordinator \<times> journal_file option
     \<Rightarrow> (update_error + unit) \<times> update_coordinator \<times> journal_file option" where
  "record_snapshot env r = commit_candidate env (\<lambda>c.
     and_then (ensure (us_stage (uc_state c) = StageSnapshot) (InvalidUpdateOperation
       ''snapshot evidence can only be recorded at Snapshot stage'')) (\<lambda>_.
     and_then (ensure (sr_update_id r = uc_update_id c \<and> sr_target_id r = uc_target_id c
         \<and> sr_attempt_generation r = jg_token (uc_generation c)) (EvidenceBindingMismatch
       ''snapshot receipt belongs to another update, target or snapshot attempt'')) (\<lambda>_.
     and_then (validate_snapshot_evidence_freshness (ue_clock env) (sr_issued_unix_ms r)
         (jg_committed_unix_ms (uc_generation c))) (\<lambda>_.
     Inr ((uc_state c)\<lparr> us_snapshot_id := Some (sr_snapshot_id r),
            us_snapshot_receipt_id := Some (sr_receipt_id r) \<rparr>))))) None"

definition prepare_package_transaction :: "update_env \<Rightarrow> string \<Rightarrow> update_coordinator \<times> journal_file option
     \<Rightarrow> (update_error + unit) \<times> update_coordinator \<times> journal_file option" where
  "prepare_package_transaction env transaction_id = commit_candidate env (\<lambda>c.
     and_then (ensure (us_stage (uc_state c) = StageSnapshot) (InvalidUpdateOperation
       ''package transaction may only be prepared after Snapshot stage'')) (\<lambda>_.
     and_then (ensure_snapshot_policy_satisfied c) (\<lambda>_.
     and_then (normalize_identifier ''transaction id'' transaction_id) (\<lambda>tx.
     Inr ((uc_state c)\<lparr> us_stage := PackageTransaction, us_transaction_id := Some tx,
            us_verification_receipt_id := None, us_external_effect := EffectPrepared \<rparr>))))) None"

definition mark_dispatch_started :: "update_env \<Rightarrow> update_coordinator \<times> journal_file option
     \<Rightarrow> (update_error + unit) \<times> update_coordinator \<times> journal_file option" where
  "mark_dispatch_started env = commit_candidate env (\<lambda>c.
     and_then (ensure (us_stage (uc_state c) = PackageTransaction \<and> us_external_effect (uc_state c) = EffectPrepared
         \<and> us_transaction_id (uc_state c) \<noteq> None \<and> us_verification_receipt_id (uc_state c) = None)
       (InvalidUpdateOperation ''dispatch start requires an exact durably prepared package transaction'')) (\<lambda>_.
     and_then (ensure_snapshot_policy_satisfied c) (\<lambda>_.
     Inr ((uc_state c)\<lparr> us_external_effect := EffectDispatchStarted \<rparr>)))) None"

definition mark_package_verified :: "update_env \<Rightarrow> package_verification_receipt
     \<Rightarrow> update_coordinator \<times> journal_file option
     \<Rightarrow> (update_error + unit) \<times> update_coordinator \<times> journal_file option" where
  "mark_package_verified env r = commit_candidate env (\<lambda>c.
     and_then (ensure (us_stage (uc_state c) = PackageTransaction
         \<and> us_external_effect (uc_state c) = EffectDispatchStarted) (InvalidUpdateOperation
       ''package verification requires a previously dispatched transaction'')) (\<lambda>_.
     and_then (ok_or (us_transaction_id (uc_state c)) (CorruptJournal
       ''dispatched package transaction lost its transaction identity'')) (\<lambda>tx.
     and_then (ensure (pr_update_id r = uc_update_id c \<and> pr_target_id r = uc_target_id c
         \<and> pr_transaction_id r = tx \<and> pr_dispatch_generation r = jg_token (uc_generation c)) (EvidenceBindingMismatch
       ''package verification receipt belongs to another update, target, transaction or dispatch instance'')) (\<lambda>_.
     and_then (validate_package_evidence_freshness (ue_clock env) (pr_issued_unix_ms r)
         (jg_committed_unix_ms (uc_generation c))) (\<lambda>_.
     Inr ((uc_state c)\<lparr> us_verification_receipt_id := Some (pr_receipt_id r),
            us_external_effect := EffectVerified \<rparr>)))))) (Some (pr_issued_unix_ms r))"

definition coordinator_require_recovery :: "update_env \<Rightarrow> string \<Rightarrow> update_coordinator \<times> journal_file option
     \<Rightarrow> (update_error + unit) \<times> update_coordinator \<times> journal_file option" where
  "coordinator_require_recovery env reason =
     commit_candidate env (\<lambda>c. update_state_require_recovery reason (uc_state c)) None"

definition requires_recovery :: "update_coordinator \<Rightarrow> bool" where
  "requires_recovery c \<longleftrightarrow> uc_uncertain c \<noteq> None \<or> us_stage (uc_state c) = StageRecoveryRequired"

definition snapshot_generation :: "update_coordinator \<Rightarrow> string option" where
  "snapshot_generation c =
     (if us_stage (uc_state c) = StageSnapshot then Some (jg_token (uc_generation c)) else None)"

definition dispatch_generation :: "update_coordinator \<Rightarrow> string option" where
  "dispatch_generation c =
     (if us_stage (uc_state c) = PackageTransaction \<and> us_external_effect (uc_state c) = EffectDispatchStarted
      then Some (jg_token (uc_generation c)) else None)"

definition snapshot_started_unix_ms :: "update_coordinator \<Rightarrow> u64 option" where
  "snapshot_started_unix_ms c =
     (if us_stage (uc_state c) = StageSnapshot then Some (jg_committed_unix_ms (uc_generation c)) else None)"

definition dispatch_started_unix_ms :: "update_coordinator \<Rightarrow> u64 option" where
  "dispatch_started_unix_ms c =
     (if us_stage (uc_state c) = PackageTransaction \<and> us_external_effect (uc_state c) = EffectDispatchStarted
      then Some (jg_committed_unix_ms (uc_generation c)) else None)"

definition resume_decision :: "update_coordinator \<Rightarrow> update_resume_decision" where
  "resume_decision c =
     (if uc_uncertain c \<noteq> None then ManualRecoveryRequired
      else case us_stage (uc_state c) of
        StageComplete \<Rightarrow> ResumeComplete
      | StageRecoveryRequired \<Rightarrow> ManualRecoveryRequired
      | PackageTransaction \<Rightarrow> (case us_external_effect (uc_state c) of
            EffectPrepared \<Rightarrow> if snapshot_policy_satisfied c then SafeToDispatchPrepared else ManualRecoveryRequired
          | EffectDispatchStarted \<Rightarrow> ReobserveBeforeContinuing
          | EffectVerified \<Rightarrow> SafeToAdvanceAfterVerification
          | EffectNone \<Rightarrow> ManualRecoveryRequired)
      | stage \<Rightarrow> ResumeContinue stage)"

datatype native_upgrade_decision = AllowLinuraCoordinator | AllowBreakGlass | DenyDirectUpgrade

definition direct_upgrade_decision :: "bool \<Rightarrow> bool \<Rightarrow> native_upgrade_decision" where
  "direct_upgrade_decision coordinator_owned break_glass =
     (if coordinator_owned then AllowLinuraCoordinator
      else if break_glass then AllowBreakGlass else DenyDirectUpgrade)"

section \<open>The qualification issuer\<close>

text \<open>
  The producer that the qualification harness builds in: it creates the key below the evidence root once, and
  writes receipts under it. A failing write leaves a part of the receipt behind.
\<close>

record issuer_answers =
  ia_create_root :: "unit io_answer"
  ia_set_permissions :: "unit io_answer"
  ia_root :: "file_metadata io_answer"
  ia_key_exists :: bool
  ia_open_random :: "unit io_answer"
  ia_random :: "bytes io_answer"
  ia_create_key :: "unit io_answer"
  ia_write_key :: "unit io_answer"
  ia_sync_key :: "unit io_answer"
  ia_sync_root :: "unit io_answer"
  ia_key :: key_answers

definition issuer_create_key :: "issuer_answers \<Rightarrow> update_error + unit" where
  "issuer_create_key a =
     and_then (io_error (ia_open_random a)) (\<lambda>_.
     and_then (io_error (ia_random a)) (\<lambda>key.
     and_then (ensure (\<not> list_all (\<lambda>b. b = CHR 0x00) key)
       (CorruptEvidence ''OS random source returned an all-zero evidence key'')) (\<lambda>_.
     and_then (io_error (ia_create_key a)) (\<lambda>_.
     and_then (io_error (ia_write_key a)) (\<lambda>_.
     and_then (io_error (ia_sync_key a)) (\<lambda>_.
     io_error (ia_sync_root a)))))))"

definition issuer_open_or_create :: "issuer_answers \<Rightarrow> update_error + bytes" where
  "issuer_open_or_create a =
     and_then (io_error (ia_create_root a)) (\<lambda>_.
     and_then (io_error (ia_set_permissions a)) (\<lambda>_.
     and_then (trusted_evidence_root_metadata V09_UPDATE_EVIDENCE_PRODUCER_UID (ia_root a)) (\<lambda>_.
     and_then (if ia_key_exists a then Inr () else issuer_create_key a) (\<lambda>_.
     read_evidence_auth_key V09_UPDATE_EVIDENCE_PRODUCER_UID (ia_key a)))))"

record issue_env =
  ie_clock :: int
  ie_remove :: "unit io_answer"
  ie_create :: "unit io_answer"
  ie_write :: "unit io_answer"
  ie_written :: nat
  ie_sync :: "unit io_answer"
  ie_sync_root :: "unit io_answer"

definition issued_evidence :: "int \<Rightarrow> string \<Rightarrow> string \<Rightarrow> string \<Rightarrow> string \<Rightarrow> string \<Rightarrow> update_error + parsed_evidence" where
  "issued_evidence clock update_id target_id transaction_id observation_id generation =
     and_then (normalize_identifier ''update id'' update_id) (\<lambda>update_id'.
     and_then (normalize_identifier ''update target id'' target_id) (\<lambda>target_id'.
     and_then (normalize_identifier ''transaction id'' transaction_id) (\<lambda>transaction_id'.
     and_then (normalize_identifier ''observation id'' observation_id) (\<lambda>observation_id'.
     and_then (normalize_identifier ''dispatch generation'' generation) (\<lambda>generation'.
     and_then (system_time_to_unix_ms clock) (\<lambda>issued.
     Inr \<lparr> pe_kind = EvidencePackageVerification, pe_update_id = update_id', pe_target_id = target_id',
           pe_subject_id = transaction_id', pe_proof_id = observation_id',
           pe_dispatch_generation = Some generation', pe_issued_unix_ms = Some issued,
           pe_source = V09_UPDATE_EVIDENCE_PRODUCER_ID, pe_result = ''verified'' \<rparr>))))))"

definition issue_package_verification ::
  "crypto \<Rightarrow> issue_env \<Rightarrow> bytes \<Rightarrow> string \<Rightarrow> string \<Rightarrow> string \<Rightarrow> string \<Rightarrow> string \<Rightarrow> string
     \<Rightarrow> (string \<rightharpoonup> bytes) \<Rightarrow> (update_error + unit) \<times> (string \<rightharpoonup> bytes)" where
  "issue_package_verification cr env key receipt_id update_id target_id transaction_id observation_id generation files =
     (case and_then (normalize_identifier ''evidence receipt id'' receipt_id) (\<lambda>receipt_id'.
           and_then (issued_evidence (ie_clock env) update_id target_id transaction_id observation_id generation) (\<lambda>e.
           and_then (io_error (ie_remove env)) (\<lambda>_. Inr (receipt_id', e)))) of
        Inl e \<Rightarrow> (Inl e, files)
      | Inr (receipt_id', e) \<Rightarrow>
          let path = path_join V09_UPDATE_EVIDENCE_ROOT (receipt_id' @ ''.receipt'');
              bs = serialize_evidence cr key e in
          (case io_error (ie_create env) of
             Inl e \<Rightarrow> (Inl e, files(path := None))
           | Inr _ \<Rightarrow> (case io_error (ie_write env) of
               Inl e \<Rightarrow> (Inl e, files(path \<mapsto> take (ie_written env) bs))
             | Inr _ \<Rightarrow> (and_then (io_error (ie_sync env)) (\<lambda>_. io_error (ie_sync_root env)), files(path \<mapsto> bs)))))"

end
