(* ===== verification/Update_Machine.thy ===== *)
theory Update_Machine
  imports Update_Coordinator
begin

text \<open>
  Update coordinators over one journal: any number of them may be open, in one process or after a restart,
  and their operations interleave. The machine says what a committed operation does to the journal and on
  which evidence; every operation of the code leaves the journal as it is or makes one step of the machine.
\<close>

section \<open>Well-formed states\<close>

definition optional_ident :: "string option \<Rightarrow> bool" where
  "optional_ident v \<longleftrightarrow> (case v of None \<Rightarrow> True | Some t \<Rightarrow> ident_text t)"

definition optional_reason :: "string option \<Rightarrow> bool" where
  "optional_reason v \<longleftrightarrow> (case v of None \<Rightarrow> True | Some t \<Rightarrow> utf8_valid t \<and> length t \<le> 4096)"

definition texts_ok :: "update_state \<Rightarrow> bool" where
  "texts_ok s \<longleftrightarrow> optional_ident (us_update_id s) \<and> optional_ident (us_target_id s) \<and> optional_ident (us_snapshot_id s)
     \<and> optional_ident (us_snapshot_receipt_id s) \<and> optional_ident (us_transaction_id s)
     \<and> optional_ident (us_verification_receipt_id s) \<and> optional_reason (us_recovery_reason s)"

definition state_ok :: "update_state \<Rightarrow> bool" where
  "state_ok s \<longleftrightarrow> validate_persisted_state s = Inr () \<and> texts_ok s"

lemma ident_text_length: "ident_text t \<Longrightarrow> length t \<le> 256"
  by (auto simp: ident_text_def normalize_identifier_def Let_def is_ok_iff split: if_splits)

lemma optional_ident_simps [simp]:
  "optional_ident None" "optional_ident (Some t) \<longleftrightarrow> ident_text t"
  by (simp_all add: optional_ident_def)

lemma optional_ident_utf8: "optional_ident v \<Longrightarrow> optional_utf8 v"
  by (cases v) (simp_all add: optional_utf8_def ident_text_utf8)

lemma optional_reason_utf8: "optional_reason v \<Longrightarrow> optional_utf8 v"
  by (cases v) (simp_all add: optional_reason_def optional_utf8_def)

lemma state_ok_utf8: "state_ok s \<Longrightarrow> text_fields_utf8 s"
  by (simp add: state_ok_def texts_ok_def text_fields_utf8_def optional_ident_utf8 optional_reason_utf8)

lemma state_ok_parse: "state_ok s \<Longrightarrow> parse_journal (serialize_journal s) = Inr s"
  by (rule parse_serialize_journal [OF _ state_ok_utf8]) (simp_all only: state_ok_def)

text \<open>A journal the coordinator writes is far below the size it accepts.\<close>

lemma hex_encode_ident: "optional_ident v \<Longrightarrow> length (update_hex_encode v) \<le> 512"
  using ident_text_length by (cases v) (force simp: update_hex_encode_def)+

lemma hex_encode_reason: "optional_reason v \<Longrightarrow> length (update_hex_encode v) \<le> 8192"
  by (cases v) (simp_all add: update_hex_encode_def optional_reason_def)

lemma stage_text_length: "length (update_stage_as_str st) \<le> 19" "length (external_effect_as_str ef) \<le> 16"
  by (cases st; simp) (cases ef; simp)

lemma serialize_journal_length:
  assumes "state_ok s"
  shows "length (serialize_journal s) \<le> MAX_JOURNAL_BYTES"
proof -
  have "length (update_hex_encode (us_update_id s)) \<le> 512" "length (update_hex_encode (us_target_id s)) \<le> 512"
    "length (update_hex_encode (us_snapshot_id s)) \<le> 512" "length (update_hex_encode (us_snapshot_receipt_id s)) \<le> 512"
    "length (update_hex_encode (us_transaction_id s)) \<le> 512"
    "length (update_hex_encode (us_verification_receipt_id s)) \<le> 512"
    "length (update_hex_encode (us_recovery_reason s)) \<le> 8192"
    using assms by (simp_all add: state_ok_def texts_ok_def hex_encode_ident hex_encode_reason)
  with stage_text_length(1) [of "us_stage s"] stage_text_length(2) [of "us_external_effect s"] show ?thesis
    by (simp add: serialize_journal_def journal_payload_def field_line_def Let_def MAX_JOURNAL_BYTES_def
        JOURNAL_MAGIC_def)
qed

lemma validate_facts:
  assumes "validate_persisted_state s = Inr ()"
  shows "us_update_id s \<noteq> None" "us_target_id s \<noteq> None" "package_stage_check s = Inr ()"
  using assms by (auto simp: validate_persisted_state_def result_simps)

lemma package_stage_check_ok:
  "package_stage_check s = Inr () \<longleftrightarrow>
     (if us_stage s = PackageTransaction
      then us_external_effect s \<noteq> EffectNone \<and> us_transaction_id s \<noteq> None
        \<and> (us_external_effect s = EffectVerified \<longleftrightarrow> us_verification_receipt_id s \<noteq> None)
      else us_external_effect s = EffectNone)"
  by (cases "us_external_effect s") (auto simp: package_stage_check_def result_simps)

section \<open>What an operation does to the journal\<close>

definition durable :: "journal_file option \<Rightarrow> update_state" where
  "durable f = (case f of None \<Rightarrow> update_state_default
     | Some j \<Rightarrow> (case parse_journal (jf_bytes j) of Inl _ \<Rightarrow> update_state_default | Inr s \<Rightarrow> s))"

definition written :: "update_env \<Rightarrow> update_state \<Rightarrow> journal_file" where
  "written env s = \<lparr> jf_bytes = serialize_journal s, jf_meta = ue_meta env (serialize_journal s) \<rparr>"

lemma durable_None [simp]: "durable None = update_state_default"
  by (simp add: durable_def)

lemma durable_written [simp]: "state_ok s \<Longrightarrow> durable (Some (written env s)) = s"
  by (simp add: durable_def written_def state_ok_parse)

lemma journal_load_durable: "journal_load env f = Inr s \<Longrightarrow> durable f = s"
  by (auto simp: journal_load_def durable_def result_simps split: option.splits)

text \<open>Only a failed directory sync and a changed journal poison a coordinator.\<close>

fun plain_error :: "update_error \<Rightarrow> bool" where
  "plain_error (DurabilityUncertain _) = False"
| "plain_error StaleCoordinator = False"
| "plain_error _ = True"

definition fails_plainly :: "update_error + 'a \<Rightarrow> bool" where
  "fails_plainly r \<longleftrightarrow> (case r of Inl e \<Rightarrow> plain_error e | Inr _ \<Rightarrow> True)"

lemma fails_plainly_simps [simp]:
  "fails_plainly (Inr x)" "fails_plainly (Inl e) = plain_error e"
  "plain_error e \<Longrightarrow> fails_plainly (ensure b e)" "plain_error e \<Longrightarrow> fails_plainly (ok_or v e)"
  "fails_plainly (io_error a)" "fails_plainly (update_io_result env io)"
  by (simp_all add: fails_plainly_def ensure_def ok_or_def io_error_def map_err_def update_io_result_def
      split: option.split sum.split)

lemma fails_plainly_and_then [simp]:
  "fails_plainly a \<Longrightarrow> (\<And>x. fails_plainly (f x)) \<Longrightarrow> fails_plainly (and_then a f)"
  by (cases a) (simp_all add: fails_plainly_def)

lemma fails_plainly_identifiers [simp]:
  "fails_plainly (normalize_identifier l t)" "fails_plainly (normalize_text l t n)"
  by (simp_all add: normalize_identifier_def normalize_text_def Let_def)

lemma fails_plainly_check_optional [simp]:
  "(\<And>t. fails_plainly (f t)) \<Longrightarrow> fails_plainly (check_optional v f)"
  by (simp add: check_optional_def split: option.split)

lemma fails_plainly_validate [simp]: "fails_plainly (validate_persisted_state s)"
  by (simp add: validate_persisted_state_def package_stage_check_def)

lemma fails_plainly_lock [simp]: "fails_plainly (acquire_exclusive p a)"
  by (simp add: acquire_exclusive_def sidecar_path_def reject_untrusted_existing_lock_def validate_lock_identity_def
      split: option.split)

lemma fails_plainly_hex [simp]: "fails_plainly (update_hex_decode v)"
  by (simp add: update_hex_decode_def)

lemma fails_plainly_parse [simp]: "fails_plainly (parse_journal bs)"
  by (simp add: parse_journal_def Let_def parse_field_def update_stage_parse_def external_effect_parse_def)

lemma fails_plainly_time [simp]:
  "fails_plainly (system_time_to_unix_ms t)" "fails_plainly (validate_package_evidence_freshness k n s)"
  "fails_plainly (validate_snapshot_evidence_freshness k n s)"
  by (simp_all add: system_time_to_unix_ms_def validate_package_evidence_freshness_def
      validate_snapshot_evidence_freshness_def)

lemma fails_plainly_journal [simp]:
  "fails_plainly (journal_load env f)" "fails_plainly (journal_generation_of env io f)"
  by (simp_all add: journal_load_def journal_generation_of_def validate_journal_metadata_def split: option.split)

lemma fails_plainly_usable [simp]: "fails_plainly (ensure_usable c)"
  by (simp add: ensure_usable_def split: option.split)

text \<open>A commit changes nothing but the coordinator's poison, or replaces the journal it has read with the candidate.\<close>

definition commit_fails :: "(update_error + unit) \<times> update_coordinator \<times> journal_file option
    \<Rightarrow> update_coordinator \<Rightarrow> journal_file option \<Rightarrow> bool" where
  "commit_fails out c f \<longleftrightarrow> (\<exists>e. plain_error e \<and> out = (Inl e, c, f))
     \<or> (\<exists>r. out = (Inl StaleCoordinator, c\<lparr> uc_uncertain := Some r \<rparr>, f))"

definition commit_writes :: "update_env \<Rightarrow> update_state \<Rightarrow> u64 option \<Rightarrow> (update_error + unit) \<times> update_coordinator \<times> journal_file option
    \<Rightarrow> update_coordinator \<Rightarrow> journal_file option \<Rightarrow> bool" where
  "commit_writes env candidate issued out c f \<longleftrightarrow>
     uc_uncertain c = None \<and> validate_persisted_state candidate = Inr () \<and> journal_load env f = Inr (uc_state c)
     \<and> journal_generation_of env IoStatGeneration f = Inr (uc_generation c)
     \<and> (\<forall>n. issued = Some n \<longrightarrow> validate_package_evidence_freshness (ue_clock_commit env) n
           (jg_committed_unix_ms (uc_generation c)) = Inr ())
     \<and> ((\<exists>g. out = (Inr (), c\<lparr> uc_state := candidate, uc_generation := g \<rparr>, Some (written env candidate))
           \<and> journal_generation_of env IoStatCommitted (Some (written env candidate)) = Inr g)
        \<or> (\<exists>r. out = (Inl (DurabilityUncertain r), c\<lparr> uc_uncertain := Some r \<rparr>, Some (written env candidate))))"

lemma journal_persist_cases:
  obtains (unchanged) e where "plain_error e" "journal_persist env s f = (Inl e, f)"
    | (unsynced) r where "journal_persist env s f = (Inl (DurabilityUncertain r), Some (written env s))"
    | (persisted) "journal_persist env s f = (Inr (), Some (written env s))"
proof -
  define pre where "pre = and_then (ok_or (jp_parent (ue_path env)) (UpdateIo ''update journal path has no parent'')) (\<lambda>_.
           and_then (update_io_result env IoCreateParent) (\<lambda>_.
           and_then (update_io_result env IoNonce) (\<lambda>_.
           and_then (ok_or (jp_file_name (ue_path env)) (UpdateIo ''invalid update journal file name'')) (\<lambda>_.
           and_then (update_io_result env IoOpenTemporary) (\<lambda>_.
           and_then (update_io_result env IoWriteTemporary) (\<lambda>_.
           and_then (update_io_result env IoSyncTemporary) (\<lambda>_.
           update_io_result env IoRename)))))))"
  have "fails_plainly pre" unfolding pre_def by simp
  moreover have "journal_persist env s f = (case pre of Inl e \<Rightarrow> (Inl e, f)
      | Inr _ \<Rightarrow> (case ue_fault env IoSyncDirectory of
             None \<Rightarrow> Inr ()
           | Some m \<Rightarrow> Inl (DurabilityUncertain
               (''journal rename completed but parent-directory fsync failed: '' @ m)), Some (written env s)))"
    unfolding journal_persist_def atomic_write_def written_def pre_def by (rule refl)
  ultimately show ?thesis using that
    by (cases pre; cases "ue_fault env IoSyncDirectory") (simp_all add: fails_plainly_def)
qed

lemma persist_outcome:
  assumes "uc_uncertain c = None" "validate_persisted_state candidate = Inr ()" "journal_load env f = Inr (uc_state c)"
    "journal_generation_of env IoStatGeneration f = Inr (uc_generation c)"
    "\<And>n. issued = Some n \<Longrightarrow> validate_package_evidence_freshness (ue_clock_commit env) n
        (jg_committed_unix_ms (uc_generation c)) = Inr ()"
  defines "out \<equiv> (case journal_persist env candidate f of
      (Inl e, f') \<Rightarrow> (case handle_persist_failure e c of (r, c') \<Rightarrow> (r, c', f'))
    | (Inr _, f') \<Rightarrow> (case journal_generation_of env IoStatCommitted f' of
        Inr g' \<Rightarrow> (Inr (), c\<lparr> uc_state := candidate, uc_generation := g' \<rparr>, f')
      | Inl e \<Rightarrow> (case handle_persist_failure (DurabilityUncertain
          (''journal commit succeeded but the new durable generation could not be re-observed: ''
           @ update_error_text e)) c of (r, c') \<Rightarrow> (r, c', f'))))"
  shows "commit_fails out c f \<or> commit_writes env candidate issued out c f"
proof (cases rule: journal_persist_cases [of env candidate f])
  case (unchanged e)
  then show ?thesis by (cases e) (simp_all add: out_def commit_fails_def handle_persist_failure_def)
next
  case (unsynced r)
  then show ?thesis using assms(1-5) by (auto simp: out_def commit_writes_def handle_persist_failure_def)
next
  case persisted
  then show ?thesis using assms(1-5)
    by (cases "journal_generation_of env IoStatCommitted (Some (written env candidate))")
      (auto simp: out_def commit_writes_def handle_persist_failure_def)
qed

lemma commit_cases:
  "commit_fails (commit_with_validation env candidate issued (c, f)) c f
   \<or> commit_writes env candidate issued (commit_with_validation env candidate issued (c, f)) c f"
proof -
  define pre where "pre = and_then (ensure_usable c) (\<lambda>_.
           and_then (validate_persisted_state candidate) (\<lambda>_.
           and_then (acquire_exclusive (ue_path env) (ue_lock env)) (\<lambda>_.
           and_then (journal_load env f) (\<lambda>durable.
           and_then (journal_generation_of env IoStatGeneration f) (\<lambda>g. Inr (durable, g))))))"
  define fresh where "fresh g = (case issued of None \<Rightarrow> Inr ()
     | Some n \<Rightarrow> validate_package_evidence_freshness (ue_clock_commit env) n (jg_committed_unix_ms g))" for g :: journal_generation
  have plainly: "fails_plainly pre" "fails_plainly (fresh g)" for g
    unfolding pre_def fresh_def by (simp_all split: option.split)
  note unfolded = commit_with_validation_def pre_def [symmetric] fresh_def [symmetric] prod.case
  consider (early) e where "pre = Inl e" | (stale) d g where "pre = Inr (d, g)" "d \<noteq> uc_state c \<or> g \<noteq> uc_generation c"
    | (current) "pre = Inr (uc_state c, uc_generation c)"
    by (cases pre) auto
  then show ?thesis
  proof cases
    case early
    then show ?thesis using plainly(1) by (simp add: unfolded commit_fails_def fails_plainly_def)
  next
    case stale
    then show ?thesis by (simp add: unfolded commit_fails_def) blast
  next
    case current
    then have ok: "uc_uncertain c = None" "validate_persisted_state candidate = Inr ()"
      "journal_load env f = Inr (uc_state c)" "journal_generation_of env IoStatGeneration f = Inr (uc_generation c)"
      by (auto simp: pre_def result_simps ensure_usable_def split: option.splits)
    show ?thesis
    proof (cases "fresh (uc_generation c)")
      case (Inl e)
      then show ?thesis using plainly(2) [of "uc_generation c"] current
        by (simp add: unfolded commit_fails_def fails_plainly_def)
    next
      case (Inr u)
      then have "validate_package_evidence_freshness (ue_clock_commit env) n
          (jg_committed_unix_ms (uc_generation c)) = Inr ()" if "issued = Some n" for n
        using that by (simp add: fresh_def)
      from persist_outcome [OF ok this] Inr current show ?thesis by (simp add: unfolded)
    qed
  qed
qed

lemma commit_candidate_cases:
  assumes "fails_plainly (decide c)"
  shows "commit_fails (commit_candidate env decide issued (c, f)) c f
   \<or> (\<exists>candidate. decide c = Inr candidate \<and>
        commit_writes env candidate issued (commit_candidate env decide issued (c, f)) c f)"
proof -
  have plainly: "fails_plainly (and_then (ensure_usable c) (\<lambda>_. decide c))" using assms by simp
  show ?thesis
  proof (cases "and_then (ensure_usable c) (\<lambda>_. decide c)")
    case (Inl e)
    then show ?thesis using plainly by (simp add: commit_candidate_def commit_fails_def fails_plainly_def)
  next
    case (Inr candidate)
    then have "decide c = Inr candidate" by (auto simp: result_simps)
    then show ?thesis using commit_cases [of env candidate issued c f] Inr by (simp add: commit_candidate_def)
  qed
qed

section \<open>Coordinators over one journal\<close>

record update_system =
  sy_journal :: "journal_file option"
  sy_coordinators :: "nat \<rightharpoonup> update_coordinator"

text \<open>
  A receipt has private fields and comes from the verifier only, so a call that takes one names the
  verification it came from, with the environment of that verification. Text arguments are UTF-8.
\<close>

datatype update_call =
    UOpen update_policy string string
  | UTransition update_stage
  | URecordSnapshot update_env evidence_verifier string string string string u64
  | UPrepare string
  | UDispatch
  | UVerified update_env evidence_verifier string string string string string u64
  | URecovery string

type_synonym update_outcome = "(update_error + unit) \<times> update_coordinator \<times> journal_file option"

definition with_coordinator ::
  "nat \<Rightarrow> (update_coordinator \<times> journal_file option \<Rightarrow> update_outcome) \<Rightarrow> update_system
     \<Rightarrow> (update_error + unit) option \<times> update_system" where
  "with_coordinator i f sy = (case sy_coordinators sy i of
     None \<Rightarrow> (None, sy)
   | Some c \<Rightarrow> (case f (c, sy_journal sy) of (r, c', j) \<Rightarrow>
       (Some r, \<lparr> sy_journal = j, sy_coordinators = (sy_coordinators sy)(i \<mapsto> c') \<rparr>)))"

definition with_receipt ::
  "update_error + 'r \<Rightarrow> nat \<Rightarrow> ('r \<Rightarrow> update_coordinator \<times> journal_file option \<Rightarrow> update_outcome) \<Rightarrow> update_system
     \<Rightarrow> (update_error + unit) option \<times> update_system" where
  "with_receipt receipt i f sy = (case receipt of Inl e \<Rightarrow> (Some (Inl e), sy) | Inr r \<Rightarrow> with_coordinator i (f r) sy)"

fun exec_update :: "crypto \<Rightarrow> update_env \<Rightarrow> nat \<times> update_call \<Rightarrow> update_system
     \<Rightarrow> (update_error + unit) option \<times> update_system" where
  "exec_update cr env (i, UOpen p u t) sy = (case update_open env p u t (sy_journal sy) of
     (Inl e, j) \<Rightarrow> (Some (Inl e), sy\<lparr> sy_journal := j \<rparr>)
   | (Inr c, j) \<Rightarrow> (Some (Inr ()), \<lparr> sy_journal = j, sy_coordinators = (sy_coordinators sy)(i \<mapsto> c) \<rparr>))"
| "exec_update cr env (i, UTransition stage) sy = with_coordinator i (coordinator_transition env stage) sy"
| "exec_update cr env (i, URecordSnapshot env' v receipt_id u t generation started) sy =
     with_receipt (verify_snapshot cr env' v receipt_id u t generation started) i (record_snapshot env) sy"
| "exec_update cr env (i, UPrepare tx) sy = with_coordinator i (prepare_package_transaction env tx) sy"
| "exec_update cr env (i, UDispatch) sy = with_coordinator i (mark_dispatch_started env) sy"
| "exec_update cr env (i, UVerified env' v receipt_id u t tx generation started) sy =
     with_receipt (verify_package cr env' v receipt_id u t tx generation started) i (mark_package_verified env) sy"
| "exec_update cr env (i, URecovery reason) sy =
     (if utf8_valid reason then with_coordinator i (coordinator_require_recovery env reason) sy else (None, sy))"

definition update_system_start :: update_system where
  "update_system_start = \<lparr> sy_journal = None, sy_coordinators = Map.empty \<rparr>"

section \<open>The machine\<close>

definition journal_mtime :: "journal_file \<Rightarrow> int" where
  "journal_mtime j = sint (jm_mtime (jf_meta j)) * 1000000000 + sint (jm_mtime_nsec (jf_meta j))"

definition snapshot_allowed :: "update_policy \<Rightarrow> update_state \<Rightarrow> bool" where
  "snapshot_allowed p s \<longleftrightarrow> \<not> up_require_snapshot_when_available p \<or> us_snapshot_id s \<noteq> None \<and> us_snapshot_receipt_id s \<noteq> None"

inductive update_advance ::
  "crypto \<Rightarrow> update_env \<Rightarrow> journal_file \<Rightarrow> update_policy \<Rightarrow> update_call \<Rightarrow> update_state \<Rightarrow> update_state \<Rightarrow> bool"
  for cr :: crypto and env :: update_env and j :: journal_file and p :: update_policy where
  adv_transition: "\<lbrakk>valid_transition (us_stage d) stage; stage \<noteq> PackageTransaction;
      stage = Migrations \<longrightarrow> us_external_effect d = EffectVerified \<and> us_verification_receipt_id d \<noteq> None\<rbrakk>
    \<Longrightarrow> update_advance cr env j p (UTransition stage) d (d\<lparr> us_stage := stage, us_external_effect := EffectNone \<rparr>)"
| adv_snapshot: "\<lbrakk>us_stage d = StageSnapshot; verify_snapshot cr env' v receipt_id u t generation started = Inr r;
      us_update_id d = Some (sr_update_id r); us_target_id d = Some (sr_target_id r);
      sr_attempt_generation r = generation_token j; system_time_to_unix_ms (journal_mtime j) = Inr ms;
      validate_snapshot_evidence_freshness (ue_clock env) (sr_issued_unix_ms r) ms = Inr ()\<rbrakk>
    \<Longrightarrow> update_advance cr env j p (URecordSnapshot env' v receipt_id u t generation started) d
      (d\<lparr> us_snapshot_id := Some (sr_snapshot_id r), us_snapshot_receipt_id := Some (sr_receipt_id r) \<rparr>)"
| adv_prepare: "\<lbrakk>us_stage d = StageSnapshot; snapshot_allowed p d; normalize_identifier ''transaction id'' tx = Inr x\<rbrakk>
    \<Longrightarrow> update_advance cr env j p (UPrepare tx) d (d\<lparr> us_stage := PackageTransaction, us_transaction_id := Some x,
      us_verification_receipt_id := None, us_external_effect := EffectPrepared \<rparr>)"
| adv_dispatch: "\<lbrakk>us_stage d = PackageTransaction; us_external_effect d = EffectPrepared; snapshot_allowed p d\<rbrakk>
    \<Longrightarrow> update_advance cr env j p UDispatch d (d\<lparr> us_external_effect := EffectDispatchStarted \<rparr>)"
| adv_verified: "\<lbrakk>us_stage d = PackageTransaction; us_external_effect d = EffectDispatchStarted;
      verify_package cr env' v receipt_id u t tx generation started = Inr r;
      us_update_id d = Some (pr_update_id r); us_target_id d = Some (pr_target_id r);
      us_transaction_id d = Some (pr_transaction_id r);
      pr_dispatch_generation r = generation_token j; system_time_to_unix_ms (journal_mtime j) = Inr ms;
      validate_package_evidence_freshness (ue_clock_commit env) (pr_issued_unix_ms r) ms = Inr ()\<rbrakk>
    \<Longrightarrow> update_advance cr env j p (UVerified env' v receipt_id u t tx generation started) d
      (d\<lparr> us_verification_receipt_id := Some (pr_receipt_id r), us_external_effect := EffectVerified \<rparr>)"
| adv_recovery: "\<lbrakk>normalize_text ''recovery reason'' reason 4096 = Inr text\<rbrakk>
    \<Longrightarrow> update_advance cr env j p (URecovery reason) d (d\<lparr> us_stage := StageRecoveryRequired,
      us_recovery_reason := Some text, us_external_effect := EffectNone \<rparr>)"

definition bound_state :: "string \<Rightarrow> string \<Rightarrow> update_state" where
  "bound_state u t = update_state_default\<lparr> us_update_id := Some u, us_target_id := Some t \<rparr>"

type_synonym update_view = "journal_file option \<times> (nat \<rightharpoonup> update_policy)"

inductive update_step :: "crypto \<Rightarrow> update_env \<Rightarrow> nat \<times> update_call \<Rightarrow> update_view \<Rightarrow> update_view \<Rightarrow> bool"
  for cr :: crypto and env :: update_env where
  step_bind: "\<lbrakk>normalize_identifier ''update id'' u = Inr u'; normalize_identifier ''update target id'' t = Inr t';
      state_ok (bound_state u' t'); ps' = ps \<or> ps' = ps(i \<mapsto> p)\<rbrakk>
    \<Longrightarrow> update_step cr env (i, UOpen p u t) (None, ps) (Some (written env (bound_state u' t')), ps')"
| step_attach: "\<lbrakk>us_update_id (durable (Some j)) = Some u'; us_target_id (durable (Some j)) = Some t';
      normalize_identifier ''update id'' u = Inr u'; normalize_identifier ''update target id'' t = Inr t'\<rbrakk>
    \<Longrightarrow> update_step cr env (i, UOpen p u t) (Some j, ps) (Some j, ps(i \<mapsto> p))"
| step_advance: "\<lbrakk>ps i = Some p; update_advance cr env j p call (durable (Some j)) d'; state_ok d'\<rbrakk>
    \<Longrightarrow> update_step cr env (i, call) (Some j, ps) (Some (written env d'), ps)"

definition update_view_of :: "update_system \<Rightarrow> update_view" where
  "update_view_of sy = (sy_journal sy, \<lambda>i. map_option uc_policy (sy_coordinators sy i))"

definition coordinator_ok :: "update_coordinator \<Rightarrow> bool" where
  "coordinator_ok c \<longleftrightarrow> us_update_id (uc_state c) = Some (uc_update_id c) \<and> us_target_id (uc_state c) = Some (uc_target_id c)
     \<and> state_ok (uc_state c)"

definition journal_ok :: "journal_file option \<Rightarrow> bool" where
  "journal_ok f \<longleftrightarrow> (\<forall>j. f = Some j \<longrightarrow> (\<exists>s. state_ok s \<and> jf_bytes j = serialize_journal s))"

definition update_inv :: "update_system \<Rightarrow> bool" where
  "update_inv sy \<longleftrightarrow> journal_ok (sy_journal sy) \<and> (\<forall>i c. sy_coordinators sy i = Some c \<longrightarrow> coordinator_ok c)"

section \<open>The code refines the machine\<close>

lemma nat_to_hex_digits: "c \<in> set (nat_to_hex n) \<Longrightarrow> is_ascii_hexdigit c"
proof (induction n rule: nat_to_hex.induct)
  case (1 n)
  then show ?case
    using nibble_char_hex by (subst (asm) (2) nat_to_hex.simps) (auto simp: is_ascii_hexdigit_def split: if_splits)
qed

lemma set_join_colon: "c \<in> set (join_colon fs) \<Longrightarrow> c = CHR '':'' \<or> (\<exists>f \<in> set fs. c \<in> set f)"
  by (induction fs rule: join_colon.induct) auto

lemma trim_generation_token: "trim (generation_token j) = generation_token j"
proof (rule trim_id)
  have chars: "c = CHR '':'' \<or> is_ascii_hexdigit c" if "c \<in> set (generation_token j)" for c
    using set_join_colon [OF that [unfolded generation_token_def Let_def]] nat_to_hex_digits by auto
  then show "list_all is_ascii_byte (generation_token j)"
    using hexdigit_ascii by (force simp: list_all_iff)
  show "\<not> char_is_whitespace (of_char c)" if "c \<in> set (generation_token j)" for c
    using chars [OF that]
    by (auto simp: is_ascii_hexdigit_def is_lower_hex_def is_digit_def char_is_whitespace_def)
qed

lemma journal_generation_ok:
  assumes "journal_generation_of env io f = Inr g"
  obtains j where "f = Some j" "jg_token g = generation_token j"
    "system_time_to_unix_ms (journal_mtime j) = Inr (jg_committed_unix_ms g)"
  using assms
  by (auto simp: journal_generation_of_def result_simps journal_mtime_def normalize_identifier_ok trim_generation_token)

lemma advance_binding:
  assumes "update_advance cr env j p call d d'"
  shows "us_update_id d' = us_update_id d" "us_target_id d' = us_target_id d"
  using assms by (cases; simp)+

text \<open>An operation committed when it answers success, or that only the durability of its commit is uncertain.\<close>

definition committed :: "(update_error + unit) option \<Rightarrow> bool" where
  "committed r \<longleftrightarrow> (case r of Some (Inr _) \<Rightarrow> True | Some (Inl (DurabilityUncertain _)) \<Rightarrow> True | _ \<Rightarrow> False)"

definition update_refined ::
  "crypto \<Rightarrow> update_env \<Rightarrow> nat \<times> update_call \<Rightarrow> update_system \<Rightarrow> (update_error + unit) option \<times> update_system \<Rightarrow> bool" where
  "update_refined cr env ic sy out \<longleftrightarrow> update_inv (snd out)
     \<and> (update_view_of (snd out) = update_view_of sy \<and> \<not> committed (fst out)
        \<or> update_step cr env ic (update_view_of sy) (update_view_of (snd out)))"

lemma committed_simps [simp]:
  "\<not> committed None" "committed (Some (Inr x))" "committed (Some (Inl (DurabilityUncertain m)))"
  "plain_error e \<Longrightarrow> \<not> committed (Some (Inl e))" "\<not> committed (Some (Inl StaleCoordinator))"
  by (auto simp: committed_def split: update_error.splits)

lemma commit_step:
  fixes i :: nat
  assumes inv: "update_inv sy" and plainly: "\<And>c. fails_plainly (decide c)"
    and adv: "\<And>c j candidate. \<lbrakk>coordinator_ok c; decide c = Inr candidate; validate_persisted_state candidate = Inr ();
        jg_token (uc_generation c) = generation_token j;
        system_time_to_unix_ms (journal_mtime j) = Inr (jg_committed_unix_ms (uc_generation c));
        \<forall>n. issued = Some n \<longrightarrow> validate_package_evidence_freshness (ue_clock_commit env) n
           (jg_committed_unix_ms (uc_generation c)) = Inr ()\<rbrakk>
      \<Longrightarrow> update_advance cr env j (uc_policy c) call (uc_state c) candidate \<and> texts_ok candidate"
  defines "res \<equiv> with_coordinator i (commit_candidate env decide issued) sy"
  shows "update_refined cr env (i, call) sy res"
proof (cases "sy_coordinators sy i")
  case None
  then show ?thesis using inv by (simp add: res_def with_coordinator_def update_refined_def)
next
  case (Some c)
  let ?out = "commit_candidate env decide issued (c, sy_journal sy)"
  have c: "coordinator_ok c" using inv Some by (auto simp: update_inv_def)
  from commit_candidate_cases [of decide c env issued "sy_journal sy", OF plainly] consider (fails) "commit_fails ?out c (sy_journal sy)"
    | (writes) candidate where "decide c = Inr candidate" "commit_writes env candidate issued ?out c (sy_journal sy)"
    by blast
  then show ?thesis
  proof cases
    case fails
    then obtain e c' where "?out = (Inl e, c', sy_journal sy)" "\<not> committed (Some (Inl e))" "uc_state c' = uc_state c" "uc_policy c' = uc_policy c"
      "uc_update_id c' = uc_update_id c" "uc_target_id c' = uc_target_id c"
      by (auto simp: commit_fails_def)
    then show ?thesis using inv c Some
      by (auto simp: res_def with_coordinator_def update_inv_def coordinator_ok_def update_view_of_def update_refined_def)
  next
    case writes
    then have w: "validate_persisted_state candidate = Inr ()" "journal_load env (sy_journal sy) = Inr (uc_state c)"
      "journal_generation_of env IoStatGeneration (sy_journal sy) = Inr (uc_generation c)"
      "\<forall>n. issued = Some n \<longrightarrow> validate_package_evidence_freshness (ue_clock_commit env) n
           (jg_committed_unix_ms (uc_generation c)) = Inr ()"
      by (simp_all add: commit_writes_def)
    obtain r c' where out: "?out = (r, c', Some (written env candidate))" "uc_policy c' = uc_policy c"
      "uc_update_id c' = uc_update_id c" "uc_target_id c' = uc_target_id c" "uc_state c' \<in> {uc_state c, candidate}"
      using writes(2) by (auto simp: commit_writes_def)
    obtain j where j: "sy_journal sy = Some j" "jg_token (uc_generation c) = generation_token j"
      "system_time_to_unix_ms (journal_mtime j) = Inr (jg_committed_unix_ms (uc_generation c))"
      using w(3) by (rule journal_generation_ok)
    have a: "update_advance cr env j (uc_policy c) call (uc_state c) candidate" and "texts_ok candidate"
      using adv [OF c writes(1) w(1) j(2,3) w(4)] by blast+
    then have ok: "state_ok candidate" using w(1) by (simp add: state_ok_def)
    have d: "durable (Some j) = uc_state c" using journal_load_durable [OF w(2)] j(1) by simp
    have c': "coordinator_ok c'"
      using c ok out advance_binding [OF a] by (auto simp: coordinator_ok_def)
    have "update_inv (snd res)" using inv Some out ok c'
      by (auto simp: res_def with_coordinator_def update_inv_def journal_ok_def written_def)
    moreover have "update_view_of (snd res) = (Some (written env candidate), snd (update_view_of sy))"
      using Some out by (auto simp: res_def with_coordinator_def update_view_of_def)
    moreover have "update_step cr env (i, call) (Some j, snd (update_view_of sy)) (Some (written env candidate), snd (update_view_of sy))"
      using a ok d Some by (intro step_advance) (simp_all add: update_view_of_def)
    ultimately show ?thesis using j(1) by (simp add: update_refined_def update_view_of_def)
  qed
qed

text \<open>The candidate of each operation is an advance of the machine.\<close>

lemma verify_snapshot_ok:
  assumes "verify_snapshot cr env v receipt_id u t generation started = Inr r"
  shows "ident_text (sr_receipt_id r)" "ident_text (sr_snapshot_id r)"
  using assms normalize_identifier_text by (auto simp: verify_snapshot_def result_simps)

lemma verify_package_ok:
  assumes "verify_package cr env v receipt_id u t tx generation started = Inr r"
  shows "ident_text (pr_receipt_id r)"
  using assms normalize_identifier_text by (auto simp: verify_package_def result_simps)

lemma coordinator_texts: "coordinator_ok c \<Longrightarrow> texts_ok (uc_state c)"
  by (simp add: coordinator_ok_def state_ok_def)

lemma coordinator_effect:
  assumes "coordinator_ok c" "us_stage (uc_state c) \<noteq> PackageTransaction"
  shows "us_external_effect (uc_state c) = EffectNone"
  using assms validate_facts(3) [of "uc_state c"]
  by (simp add: coordinator_ok_def state_ok_def package_stage_check_ok)

lemma transition_advance:
  assumes c: "coordinator_ok c" and d: "update_state_transition stage (uc_state c) = Inr s'"
    and valid: "validate_persisted_state s' = Inr ()"
  shows "update_advance cr env j p (UTransition stage) (uc_state c) s' \<and> texts_ok s'"
proof -
  let ?s = "uc_state c"
  have t: "valid_transition (us_stage ?s) stage" "stage = Migrations \<longrightarrow> us_stage ?s = PackageTransaction"
    "stage = Migrations \<longrightarrow> us_external_effect ?s = EffectVerified \<and> us_verification_receipt_id ?s \<noteq> None"
    and s': "s' = (if stage = Migrations then ?s\<lparr> us_stage := stage, us_external_effect := EffectNone \<rparr> else ?s\<lparr> us_stage := stage \<rparr>)"
    using d by (auto simp: update_state_transition_def result_simps Let_def valid_transition_def)
  have eff: "us_external_effect ?s = EffectNone" if "stage \<noteq> Migrations"
    using that t(1) coordinator_effect [OF c] by (auto simp: valid_transition_def)
  then have eq: "s' = ?s\<lparr> us_stage := stage, us_external_effect := EffectNone \<rparr>"
    using s' by (cases "stage = Migrations") simp_all
  have "stage \<noteq> PackageTransaction"
    using validate_facts(3) [OF valid] by (auto simp: eq package_stage_check_ok)
  then have "update_advance cr env j p (UTransition stage) ?s s'"
    unfolding eq using t by (intro adv_transition) auto
  moreover have "texts_ok s'" using coordinator_texts [OF c] by (simp add: eq texts_ok_def)
  ultimately show ?thesis by blast
qed

lemma normalize_text_ok:
  assumes "normalize_text l raw n = Inr t" "utf8_valid raw"
  shows "utf8_valid t" "length t \<le> n"
  using assms utf8_valid_trim by (auto simp: normalize_text_def Let_def split: if_splits)

lemma snapshot_advance:
  assumes c: "coordinator_ok c" and r: "verify_snapshot cr env' v receipt_id u t generation started = Inr r"
    and stage: "us_stage (uc_state c) = StageSnapshot"
    and bound: "sr_update_id r = uc_update_id c" "sr_target_id r = uc_target_id c" "sr_attempt_generation r = generation_token j"
    and time: "system_time_to_unix_ms (journal_mtime j) = Inr ms"
      "validate_snapshot_evidence_freshness (ue_clock env) (sr_issued_unix_ms r) ms = Inr ()"
  defines "s' \<equiv> (uc_state c)\<lparr> us_snapshot_id := Some (sr_snapshot_id r), us_snapshot_receipt_id := Some (sr_receipt_id r) \<rparr>"
  shows "update_advance cr env j p (URecordSnapshot env' v receipt_id u t generation started) (uc_state c) s' \<and> texts_ok s'"
proof
  show "update_advance cr env j p (URecordSnapshot env' v receipt_id u t generation started) (uc_state c) s'"
    unfolding s'_def using adv_snapshot [OF stage r _ _ bound(3) time] c bound(1,2) by (simp add: coordinator_ok_def)
  show "texts_ok s'" using coordinator_texts [OF c] verify_snapshot_ok [OF r] by (simp add: s'_def texts_ok_def)
qed

lemma verified_advance:
  assumes c: "coordinator_ok c" and r: "verify_package cr env' v receipt_id u t tx generation started = Inr r"
    and stage: "us_stage (uc_state c) = PackageTransaction" "us_external_effect (uc_state c) = EffectDispatchStarted"
    and bound: "us_transaction_id (uc_state c) = Some (pr_transaction_id r)" "pr_update_id r = uc_update_id c"
      "pr_target_id r = uc_target_id c" "pr_dispatch_generation r = generation_token j"
    and time: "system_time_to_unix_ms (journal_mtime j) = Inr ms"
      "validate_package_evidence_freshness (ue_clock_commit env) (pr_issued_unix_ms r) ms = Inr ()"
  defines "s' \<equiv> (uc_state c)\<lparr> us_verification_receipt_id := Some (pr_receipt_id r), us_external_effect := EffectVerified \<rparr>"
  shows "update_advance cr env j p (UVerified env' v receipt_id u t tx generation started) (uc_state c) s' \<and> texts_ok s'"
proof
  show "update_advance cr env j p (UVerified env' v receipt_id u t tx generation started) (uc_state c) s'"
    unfolding s'_def using adv_verified [OF stage r _ _ bound(1,4) time] c bound(2,3) by (simp add: coordinator_ok_def)
  show "texts_ok s'" using coordinator_texts [OF c] verify_package_ok [OF r] by (simp add: s'_def texts_ok_def)
qed

lemma refined_same: "update_inv sy \<Longrightarrow> \<not> committed r \<Longrightarrow> update_refined cr env ic sy (r, sy)"
  by (simp add: update_refined_def)

lemma fails_plainly_evidence_fields [simp]:
  "fails_plainly (evidence_kind_parse t)" "fails_plainly (required_hex t l)" "fails_plainly (optional_u64 t l)"
  by (simp_all add: evidence_kind_parse_def required_hex_def optional_u64_def) (simp add: fails_plainly_def map_err_def split: sum.split)

lemma fails_plainly_receipts [simp]:
  "fails_plainly (verify_snapshot cr env v receipt_id u t generation started)"
  "fails_plainly (verify_package cr env v receipt_id u t tx generation started)"
proof -
  have "fails_plainly (parse_evidence cr key bs)" for key bs
    by (simp add: parse_evidence_def Let_def parse_field_def)
  then have "fails_plainly (read_receipt cr files v receipt_id)" for files v receipt_id
    by (simp add: read_receipt_def Let_def validate_root_identity_def trusted_evidence_root_metadata_def)
  then show "fails_plainly (verify_snapshot cr env v receipt_id u t generation started)"
    "fails_plainly (verify_package cr env v receipt_id u t tx generation started)"
    by (simp_all add: verify_snapshot_def verify_package_def)
qed

lemma plain_errorI: "fails_plainly r \<Longrightarrow> r = Inl e \<Longrightarrow> plain_error e"
  by (simp add: fails_plainly_def)

lemma receipt_refused:
  "update_inv sy \<Longrightarrow> plain_error e \<Longrightarrow> update_refined cr env ic sy (with_receipt (Inl e) i f sy)"
  by (simp add: with_receipt_def refined_same)

lemma fails_plainly_transition [simp]:
  "fails_plainly (update_state_transition stage s)" "fails_plainly (update_state_require_recovery reason s)"
  by (simp_all add: update_state_transition_def update_state_require_recovery_def Let_def)

lemma exec_transition: "update_inv sy \<Longrightarrow> update_refined cr env (i, UTransition stage) sy (exec_update cr env (i, UTransition stage) sy)"
  unfolding exec_update.simps coordinator_transition_def
  by (rule commit_step) (simp_all add: transition_advance)

lemma exec_snapshot:
  assumes "update_inv sy"
  shows "update_refined cr env (i, URecordSnapshot env' v receipt_id u t generation started) sy
    (exec_update cr env (i, URecordSnapshot env' v receipt_id u t generation started) sy)"
proof (cases "verify_snapshot cr env' v receipt_id u t generation started")
  case (Inr r)
  show ?thesis
    unfolding exec_update.simps with_receipt_def Inr sum.case record_snapshot_def
    by (rule commit_step [OF assms]) (simp, simp add: result_simps, metis snapshot_advance [OF _ Inr])
qed (simp add: receipt_refused [OF assms] plain_errorI [OF fails_plainly_receipts(1)])

lemma exec_prepare:
  assumes "update_inv sy"
  shows "update_refined cr env (i, UPrepare tx) sy (exec_update cr env (i, UPrepare tx) sy)"
  unfolding exec_update.simps prepare_package_transaction_def
proof (rule commit_step [OF assms])
  fix c j candidate
  assume c: "coordinator_ok c" and "and_then (ensure (us_stage (uc_state c) = StageSnapshot) (InvalidUpdateOperation
       ''package transaction may only be prepared after Snapshot stage'')) (\<lambda>_.
     and_then (ensure_snapshot_policy_satisfied c) (\<lambda>_.
     and_then (normalize_identifier ''transaction id'' tx) (\<lambda>tx.
     Inr ((uc_state c)\<lparr> us_stage := PackageTransaction, us_transaction_id := Some tx,
            us_verification_receipt_id := None, us_external_effect := EffectPrepared \<rparr>)))) = Inr candidate"
  then obtain x where "us_stage (uc_state c) = StageSnapshot" "snapshot_allowed (uc_policy c) (uc_state c)"
    "normalize_identifier ''transaction id'' tx = Inr x" "candidate = (uc_state c)\<lparr> us_stage := PackageTransaction,
       us_transaction_id := Some x, us_verification_receipt_id := None, us_external_effect := EffectPrepared \<rparr>"
    by (auto simp: result_simps ensure_snapshot_policy_satisfied_def snapshot_policy_satisfied_def snapshot_allowed_def)
  then show "update_advance cr env j (uc_policy c) (UPrepare tx) (uc_state c) candidate \<and> texts_ok candidate"
    using coordinator_texts [OF c] by (simp add: adv_prepare texts_ok_def normalize_identifier_text)
qed (simp add: ensure_snapshot_policy_satisfied_def)

lemma exec_dispatch:
  assumes "update_inv sy"
  shows "update_refined cr env (i, UDispatch) sy (exec_update cr env (i, UDispatch) sy)"
  unfolding exec_update.simps mark_dispatch_started_def
  by (rule commit_step [OF assms])
    (simp_all add: ensure_snapshot_policy_satisfied_def, auto simp: result_simps snapshot_policy_satisfied_def
      snapshot_allowed_def texts_ok_def dest!: coordinator_texts intro!: adv_dispatch)

lemma exec_verified:
  assumes "update_inv sy"
  shows "update_refined cr env (i, UVerified env' v receipt_id u t tx generation started) sy
    (exec_update cr env (i, UVerified env' v receipt_id u t tx generation started) sy)"
proof (cases "verify_package cr env' v receipt_id u t tx generation started")
  case (Inr r)
  show ?thesis
    unfolding exec_update.simps with_receipt_def Inr sum.case mark_package_verified_def
    by (rule commit_step [OF assms]) (simp, simp add: result_simps, metis verified_advance [OF _ Inr])
qed (simp add: receipt_refused [OF assms] plain_errorI [OF fails_plainly_receipts(2)])

lemma exec_recovery:
  assumes "update_inv sy"
  shows "update_refined cr env (i, URecovery reason) sy (exec_update cr env (i, URecovery reason) sy)"
proof (cases "utf8_valid reason")
  case True
  show ?thesis
    unfolding exec_update.simps if_P [OF True] coordinator_require_recovery_def
  proof (rule commit_step [OF assms])
    fix c j candidate
    assume c: "coordinator_ok c" and "update_state_require_recovery reason (uc_state c) = Inr candidate"
    then obtain t where "normalize_text ''recovery reason'' reason 4096 = Inr t"
      "candidate = (uc_state c)\<lparr> us_stage := StageRecoveryRequired, us_recovery_reason := Some t, us_external_effect := EffectNone \<rparr>"
      by (auto simp: update_state_require_recovery_def result_simps)
    then show "update_advance cr env j (uc_policy c) (URecovery reason) (uc_state c) candidate \<and> texts_ok candidate"
      using coordinator_texts [OF c] normalize_text_ok [OF _ True]
      by (simp add: adv_recovery texts_ok_def optional_reason_def)
  qed simp
qed (use assms in \<open>simp add: refined_same\<close>)

text \<open>Opening a journal binds it once; later openings must name the same update and target.\<close>

lemma journal_ok_durable:
  assumes "journal_ok (Some j)"
  shows "state_ok (durable (Some j))"
  using assms by (auto simp: journal_ok_def durable_def state_ok_parse)

definition open_finish :: "update_env \<Rightarrow> update_policy \<Rightarrow> string \<Rightarrow> string \<Rightarrow> update_state \<Rightarrow> journal_file option
    \<Rightarrow> (update_error + update_coordinator) \<times> journal_file option" where
  "open_finish env policy u t s f = (and_then (validate_persisted_state s) (\<lambda>_.
     and_then (journal_generation_of env IoStatCommitted f) (\<lambda>g.
     Inr \<lparr> uc_state = s, uc_policy = policy, uc_update_id = u, uc_target_id = t,
           uc_generation = g, uc_uncertain = None \<rparr>)), f)"

lemma update_open_cases:
  assumes "journal_ok f"
  obtains (refused) e where "update_open env policy ru rt f = (Inl e, f)" "plain_error e"
    | (unsynced) u t r where "normalize_identifier ''update id'' ru = Inr u" "normalize_identifier ''update target id'' rt = Inr t"
        "f = None" "validate_persisted_state (bound_state u t) = Inr ()"
        "update_open env policy ru rt f = (Inl (DurabilityUncertain r), Some (written env (bound_state u t)))"
    | (binds) u t where "normalize_identifier ''update id'' ru = Inr u" "normalize_identifier ''update target id'' rt = Inr t"
        "f = None" "validate_persisted_state (bound_state u t) = Inr ()"
        "update_open env policy ru rt f = open_finish env policy u t (bound_state u t) (Some (written env (bound_state u t)))"
    | (attaches) u t j where "normalize_identifier ''update id'' ru = Inr u" "normalize_identifier ''update target id'' rt = Inr t"
        "f = Some j" "us_update_id (durable f) = Some u" "us_target_id (durable f) = Some t"
        "update_open env policy ru rt f = open_finish env policy u t (durable f) f"
proof -
  define pre where "pre = and_then (normalize_identifier ''update id'' ru) (\<lambda>u.
           and_then (normalize_identifier ''update target id'' rt) (\<lambda>t.
           and_then (acquire_exclusive (ue_path env) (ue_lock env)) (\<lambda>_.
           and_then (journal_load env f) (\<lambda>s. Inr (u, t, s)))))"
  note unfolded = update_open_def pre_def [symmetric] Let_def open_finish_def [symmetric]
  have plainly: "fails_plainly pre" unfolding pre_def by simp
  show ?thesis
  proof (cases pre)
    case (Inl e)
    then show ?thesis using refused [of e] plainly by (simp add: unfolded fails_plainly_def)
  next
    case (Inr uts)
    then obtain u t s where pre: "pre = Inr (u, t, s)" by (cases uts) simp
    then have n: "normalize_identifier ''update id'' ru = Inr u" "normalize_identifier ''update target id'' rt = Inr t"
      and s: "s = durable f" using journal_load_durable by (auto simp: pre_def result_simps)
    have unbound: "us_update_id s = None \<longleftrightarrow> f = None"
      using validate_facts(1) [of "durable f"] journal_ok_durable assms
      by (cases f) (auto simp: s state_ok_def update_state_default_def)
    show ?thesis
    proof (cases f)
      case None
      let ?s = "bound_state u t"
      have s0: "s = update_state_default" "us_update_id update_state_default = None" "us_target_id update_state_default = None"
        by (simp_all add: s None update_state_default_def)
      have "update_open env policy ru rt f = (case validate_persisted_state ?s of Inl e \<Rightarrow> (Inl e, f)
          | Inr _ \<Rightarrow> (case journal_persist env ?s f of (Inl e, f') \<Rightarrow> (Inl e, f') | (Inr _, f') \<Rightarrow> open_finish env policy u t ?s f'))"
        unfolding unfolded pre bound_state_def by (simp add: s0)
      moreover have "fails_plainly (validate_persisted_state ?s)" by simp
      ultimately show ?thesis
        using refused unsynced [OF n None] binds [OF n None]
        by (cases "validate_persisted_state ?s"; cases rule: journal_persist_cases [of env ?s f])
          (auto simp: fails_plainly_def)
    next
      case (Some j)
      then obtain y where "us_update_id s = Some y" using unbound by auto
      then have "update_open env policy ru rt f = (if us_update_id s \<noteq> Some u \<or> us_target_id s \<noteq> Some t
          then (Inl JournalBindingMismatch, f) else open_finish env policy u t s f)"
        unfolding unfolded pre by simp
      then show ?thesis using refused [of JournalBindingMismatch] attaches [OF n Some] s by (auto split: if_splits)
    qed
  qed
qed

lemma bound_state_ok:
  assumes "validate_persisted_state (bound_state u t) = Inr ()"
    "normalize_identifier ''update id'' ru = Inr u" "normalize_identifier ''update target id'' rt = Inr t"
  shows "state_ok (bound_state u t)"
  using assms normalize_identifier_text
  by (auto simp: state_ok_def texts_ok_def bound_state_def update_state_default_def optional_reason_def)

lemma open_finish_cases:
  assumes "state_ok s" "us_update_id s = Some u" "us_target_id s = Some t"
  obtains (failed) e where "open_finish env policy u t s f = (Inl e, f)" "plain_error e"
    | (opened) c where "open_finish env policy u t s f = (Inr c, f)" "coordinator_ok c" "uc_policy c = policy"
        "uc_state c = s" "uc_uncertain c = None" "journal_generation_of env IoStatCommitted f = Inr (uc_generation c)"
proof -
  have "fails_plainly (journal_generation_of env IoStatCommitted f)" by simp
  moreover have "validate_persisted_state s = Inr ()" using assms(1) by (simp add: state_ok_def)
  ultimately show ?thesis
    using failed opened [of "\<lparr> uc_state = s, uc_policy = policy, uc_update_id = u, uc_target_id = t,
      uc_generation = projr (journal_generation_of env IoStatCommitted f), uc_uncertain = None \<rparr>"] assms
    by (cases "journal_generation_of env IoStatCommitted f")
      (simp_all add: open_finish_def fails_plainly_def coordinator_ok_def)
qed

lemma exec_open:
  assumes inv: "update_inv sy"
  shows "update_refined cr env (i, UOpen p ru rt) sy (exec_update cr env (i, UOpen p ru rt) sy)"
proof -
  have j: "journal_ok (sy_journal sy)" using inv by (simp add: update_inv_def)
  note defs = update_refined_def update_inv_def update_view_of_def
  from j show ?thesis
  proof (cases rule: update_open_cases [where env = env and policy = p and ru = ru and rt = rt])
    case (refused e)
    then show ?thesis using refined_same [OF inv] by simp
  next
    case (unsynced u t r)
    have ok: "state_ok (bound_state u t)" by (rule bound_state_ok [OF unsynced(4,1,2)])
    have "update_step cr env (i, UOpen p ru rt) (None, ps) (Some (written env (bound_state u t)), ps)" for ps
      using step_bind [OF unsynced(1,2) ok] by blast
    then show ?thesis using inv unsynced ok by (auto simp: defs journal_ok_def written_def)
  next
    case (binds u t)
    let ?s = "bound_state u t"
    have ok: "state_ok ?s" by (rule bound_state_ok [OF binds(4,1,2)])
    have step: "update_step cr env (i, UOpen p ru rt) (None, ps) (Some (written env ?s), ps')"
      if "ps' = ps \<or> ps' = ps(i \<mapsto> p)" for ps ps'
      using step_bind [OF binds(1,2) ok that] .
    have ids: "us_update_id ?s = Some u" "us_target_id ?s = Some t" by (simp_all add: bound_state_def)
    from ok ids show ?thesis
    proof (cases rule: open_finish_cases [where env = env and policy = p and f = "Some (written env ?s)"])
      case (failed e)
      then show ?thesis using inv binds ok step by (auto simp: defs journal_ok_def written_def)
    next
      case (opened c)
      then show ?thesis using inv binds(3,5) ok step
        by (auto simp: defs journal_ok_def written_def fun_eq_iff)
    qed
  next
    case (attaches u t jf)
    have ok: "state_ok (durable (sy_journal sy))" using journal_ok_durable j attaches(3) by simp
    from ok attaches(4,5) show ?thesis
    proof (cases rule: open_finish_cases [where env = env and policy = p and f = "sy_journal sy"])
      case (failed e)
      then show ?thesis using refined_same [OF inv] attaches(6) by simp
    next
      case (opened c)
      have "update_step cr env (i, UOpen p ru rt) (Some jf, ps) (Some jf, ps(i \<mapsto> p))" for ps
        using step_attach attaches by simp
      moreover have "(\<lambda>k. map_option uc_policy (((sy_coordinators sy)(i \<mapsto> c)) k))
          = (\<lambda>k. map_option uc_policy (sy_coordinators sy k))(i \<mapsto> p)"
        using opened(3) by (auto simp: fun_eq_iff)
      ultimately show ?thesis using inv attaches opened by (simp add: defs)
    qed
  qed
qed

lemma exec_refined: "update_inv sy \<Longrightarrow> update_refined cr env ic sy (exec_update cr env ic sy)"
  by (cases ic; cases "snd ic")
    (simp_all only: prod.sel snd_conv exec_open exec_transition exec_snapshot exec_prepare exec_dispatch exec_verified
      exec_recovery)

lemma update_start_inv: "update_inv update_system_start"
  by (simp add: update_inv_def update_system_start_def journal_ok_def)

interpretation update: machine_refinement "exec_update cr" update_view_of update_inv "update_step cr"
  for cr
  by unfold_locales (blast dest: exec_refined [unfolded update_refined_def])+

end
