(* ===== verification/Update_Example.thy ===== *)
theory Update_Example
  imports Update_Machine
begin

text \<open>
  An update that succeeds: one coordinator in an environment without faults, a snapshot receipt and a package
  receipt of the trusted producer, from the first opening to the migrations.
\<close>

section \<open>Readable receipts\<close>

text \<open>A receipt file below the verifier's root whose every call answers, with trusted metadata, and with these bytes.\<close>

definition receipt_readable :: "evidence_verifier \<Rightarrow> receipt_answers \<Rightarrow> bytes \<Rightarrow> bool" where
  "receipt_readable v a bs \<longleftrightarrow>
     validate_root_identity v (ra_root a) = Inr () \<and> validate_root_identity v (ra_root_after a) = Inr ()
     \<and> ra_open a = Inr () \<and> ra_bytes a = Inr bs \<and> ra_sync a = Inr () \<and> ra_sync_root a = Inr ()
     \<and> (\<exists>m. ra_path a = Inr m \<and> ra_opened a = Inr m \<and> ra_after a = Inr m \<and> \<not> jm_symlink m \<and> jm_file m
          \<and> and (jm_mode m) 0x12 = 0 \<and> fm_uid m = ev_root_uid v \<and> fm_nlink m = 1 \<and> fm_len m = word_of_nat (length bs))"

lemma evidence_length:
  assumes "evidence_valid e" "\<And>m. length (sha256 cr m) = 32"
  shows "length (serialize_evidence cr key e) \<le> MAX_EVIDENCE_BYTES"
proof -
  have "list_all (\<lambda>t. length t \<le> 256) [pe_update_id e, pe_target_id e, pe_subject_id e, pe_proof_id e, pe_source e, pe_result e]"
    using assms(1) ident_text_length by (simp add: evidence_valid_def)
  moreover have "length (update_hex_encode (pe_dispatch_generation e)) \<le> 512"
    using assms(1) by (intro hex_encode_ident) (simp add: evidence_valid_def optional_ident_def)
  moreover have "length (update_hex_encode (Some t)) = 2 * length t" for t by (simp add: update_hex_encode_def)
  moreover have "length (case pe_issued_unix_ms e of None \<Rightarrow> ''-'' | Some n \<Rightarrow> u64_to_dec n) \<le> 20"
    using length_u64_to_dec by (simp split: option.split)
  moreover have "length (evidence_kind_as_str (pe_kind e)) \<le> 20" by (cases "pe_kind e") simp_all
  ultimately show ?thesis
    by (simp add: serialize_evidence_def evidence_payload_def field_line_def Let_def MAX_EVIDENCE_BYTES_def
        EVIDENCE_MAGIC_def update_hmac_sha256_def assms(2))
qed

lemma read_receipt_readable:
  assumes "receipt_readable v (files (path_join (ev_root v) (receipt_id @ ''.receipt''))) bs" "length bs \<le> MAX_EVIDENCE_BYTES"
  shows "read_receipt cr files v receipt_id = parse_evidence cr (ev_key v) bs"
proof -
  have "\<not> word_of_nat MAX_EVIDENCE_BYTES < (word_of_nat (length bs) :: u64)"
    using assms(2) by (simp add: word_less_nat_alt unat_of_nat MAX_EVIDENCE_BYTES_def)
  then show ?thesis using assms by (auto simp: read_receipt_def receipt_readable_def Let_def io_error_def)
qed

section \<open>An environment without faults\<close>

definition demo_meta :: file_metadata where
  "demo_meta = \<lparr> jm_symlink = False, jm_file = True, jm_mode = 0, jm_dev = 1, jm_ino = 2, jm_ctime = 3, jm_ctime_nsec = 4,
     jm_mtime = 1000, jm_mtime_nsec = 0, fm_dir = True, fm_uid = 0, fm_nlink = 1, fm_len = 0 \<rparr>"

definition demo_lock :: lock_answers where
  "demo_lock = \<lparr> la_create_dir = Inr (), la_existing = Inr None, la_open = Inr (), la_path = Inr demo_meta,
     la_opened = Inr demo_meta, la_lock = Inr (), la_path_locked = Inr demo_meta, la_opened_locked = Inr demo_meta \<rparr>"

definition demo_verifier :: evidence_verifier where
  "demo_verifier = \<lparr> ev_root = V09_UPDATE_EVIDENCE_ROOT, ev_root_device = 1, ev_root_inode = 2, ev_root_uid = 0,
     ev_key = replicate 32 (CHR 0x01) \<rparr>"

definition demo_receipt :: "bytes \<Rightarrow> receipt_answers" where
  "demo_receipt bs = (let m = demo_meta\<lparr> fm_len := word_of_nat (length bs) \<rparr> in
     \<lparr> ra_root = Inr demo_meta, ra_path = Inr m, ra_open = Inr (), ra_opened = Inr m, ra_bytes = Inr bs,
       ra_sync = Inr (), ra_sync_root = Inr (), ra_root_after = Inr demo_meta, ra_after = Inr m \<rparr>)"

definition calm_env :: "bytes \<Rightarrow> update_env" where
  "calm_env bs = \<lparr> ue_fault = \<lambda>_. None, ue_path = \<lparr> jp_parent = Some ''/var'', jp_file_name = Some ''journal'' \<rparr>,
     ue_lock = demo_lock, ue_clock = 1000000000000, ue_clock_commit = 1000000000000,
     ue_meta = \<lambda>_. journal_metadata.truncate demo_meta, ue_receipts = \<lambda>_. demo_receipt bs \<rparr>"

lemma demo_receipt_readable: "receipt_readable demo_verifier (demo_receipt bs) bs"
  by (simp add: receipt_readable_def demo_verifier_def demo_receipt_def demo_meta_def validate_root_identity_def
      trusted_evidence_root_metadata_def io_error_def Let_def)

lemma calm_lock: "acquire_exclusive (ue_path (calm_env bs)) (ue_lock (calm_env bs)) = Inr ()"
  by (simp add: acquire_exclusive_def calm_env_def sidecar_path_def demo_lock_def reject_untrusted_existing_lock_def
      validate_lock_identity_def lock_untrusted_def demo_meta_def io_error_def)

definition demo_journal :: "update_state \<Rightarrow> journal_file" where
  "demo_journal s = \<lparr> jf_bytes = serialize_journal s, jf_meta = journal_metadata.truncate demo_meta \<rparr>"

lemma calm_written [simp]: "written (calm_env bs) s = demo_journal s"
  by (simp add: written_def calm_env_def demo_journal_def)

definition demo_generation :: "update_state \<Rightarrow> journal_generation" where
  "demo_generation s = \<lparr> jg_token = generation_token (demo_journal s), jg_committed_unix_ms = 1000000 \<rparr>"

lemma length_nat_to_hex: "n < 16 ^ k \<Longrightarrow> 0 < k \<Longrightarrow> length (nat_to_hex n) \<le> k"
proof (induction k arbitrary: n)
  case (Suc k)
  show ?case
  proof (cases "n < 16")
    case True
    then show ?thesis by (subst nat_to_hex.simps) simp
  next
    case False
    then have "0 < k" using Suc.prems by (cases k) simp_all
    moreover have "n div 16 < 16 ^ k" using Suc.prems by (simp add: less_mult_imp_div_less mult.commute)
    ultimately show ?thesis using Suc.IH [of "n div 16"] False by (subst nat_to_hex.simps) simp
  qed
qed simp

lemma length_join_colon: "list_all (\<lambda>f. length f \<le> 16) fs \<Longrightarrow> length (join_colon fs) \<le> 17 * length fs"
  by (induction fs rule: join_colon.induct) auto

lemma generation_token_ident:
  assumes "length (jf_bytes j) \<le> MAX_JOURNAL_BYTES"
  shows "ident_text (generation_token j)"
proof -
  have word: "length (nat_to_hex (unat w)) \<le> 16" for w :: u64
    using unat_lt_64 [of w] by (intro length_nat_to_hex) simp_all
  have "length (nat_to_hex (length (jf_bytes j))) \<le> 16"
    using assms by (intro length_nat_to_hex) (simp_all add: MAX_JOURNAL_BYTES_def)
  then have len: "length (generation_token j) \<le> 119"
    unfolding generation_token_def Let_def using word by (intro order.trans [OF length_join_colon]) simp_all
  have chars: "c = CHR '':'' \<or> is_ascii_hexdigit c" if "c \<in> set (generation_token j)" for c
    using set_join_colon [OF that [unfolded generation_token_def Let_def]] nat_to_hex_digits by auto
  have dot: "CHR ''.'' \<notin> set (generation_token j)"
    using chars [of "CHR ''.''"] by (auto simp: is_ascii_hexdigit_def is_lower_hex_def is_digit_def)
  have "\<not> prefix ''..'' (drop i (generation_token j))" for i
  proof
    assume "prefix ''..'' (drop i (generation_token j))"
    then have "CHR ''.'' \<in> set (drop i (generation_token j))" by (auto simp: prefix_def)
    with dot show False by (meson in_set_dropD)
  qed
  then have "\<not> str_contains ''..'' (generation_token j)" by (simp add: str_contains_def list_ex_iff)
  moreover have "list_all (\<lambda>b. is_ascii_alphanumeric b \<or> b \<in> {CHR ''-'', CHR ''_'', CHR ''.'', CHR '':''}) (generation_token j)"
    by (auto simp: list_all_iff is_ascii_hexdigit_def is_lower_hex_def is_digit_def is_ascii_alphanumeric_def dest!: chars)
  moreover have "generation_token j \<noteq> []" by (simp add: generation_token_def Let_def)
  ultimately show ?thesis
    using len by (simp add: ident_text_def trim_generation_token normalize_identifier_def)
qed

lemma calm_generation:
  assumes "state_ok s"
  shows "journal_generation_of (calm_env bs) io (Some (demo_journal s)) = Inr (demo_generation s)"
proof -
  have "normalize_identifier ''dispatch generation'' (generation_token (demo_journal s)) = Inr (generation_token (demo_journal s))"
    using serialize_journal_length [OF assms] by (intro ident_text_ok generation_token_ident) (simp add: demo_journal_def)
  moreover have "validate_journal_metadata (jf_meta (demo_journal s)) = Inr ()"
    by (simp add: validate_journal_metadata_def demo_journal_def journal_metadata.truncate_def demo_meta_def)
  moreover have "system_time_to_unix_ms (sint (jm_mtime (jf_meta (demo_journal s))) * 1000000000
      + sint (jm_mtime_nsec (jf_meta (demo_journal s)))) = Inr 1000000"
    by (simp add: system_time_to_unix_ms_def demo_journal_def journal_metadata.truncate_def demo_meta_def)
  ultimately show ?thesis
    by (simp add: journal_generation_of_def update_io_result_def calm_env_def demo_generation_def)
qed

lemma calm_load: "state_ok s \<Longrightarrow> journal_load (calm_env bs) (Some (demo_journal s)) = Inr s"
  by (simp add: journal_load_def update_io_result_def calm_env_def validate_journal_metadata_def demo_journal_def
      journal_metadata.truncate_def demo_meta_def serialize_journal_length state_ok_parse)

lemma calm_persist: "journal_persist (calm_env bs) s f = (Inr (), Some (demo_journal s))"
  by (simp add: journal_persist_def atomic_write_def update_io_result_def calm_env_def demo_journal_def)

definition demo_coordinator :: "update_state \<Rightarrow> update_coordinator" where
  "demo_coordinator s = \<lparr> uc_state = s, uc_policy = update_policy_default, uc_update_id = ''u1'', uc_target_id = ''t1'',
     uc_generation = demo_generation s, uc_uncertain = None \<rparr>"

definition demo_system :: "update_state \<Rightarrow> update_system" where
  "demo_system s = \<lparr> sy_journal = Some (demo_journal s), sy_coordinators = [0 \<mapsto> demo_coordinator s] \<rparr>"

lemma calm_commit:
  assumes "state_ok s" "state_ok s'" "decide (demo_coordinator s) = Inr s'" "issued \<in> {None, Some 1000000}"
  shows "with_coordinator 0 (commit_candidate (calm_env bs) decide issued) (demo_system s) = (Some (Inr ()), demo_system s')"
proof -
  have "validate_persisted_state s' = Inr ()" using assms(2) by (simp add: state_ok_def)
  moreover have "validate_package_evidence_freshness (ue_clock_commit (calm_env bs)) 1000000 1000000 = Inr ()"
    by (simp add: validate_package_evidence_freshness_def system_time_to_unix_ms_def calm_env_def saturating_sub_def
        saturating_add_def PACKAGE_VERIFICATION_FUTURE_SKEW_MS_def PACKAGE_VERIFICATION_MAX_AGE_MS_def)
  moreover have "jg_committed_unix_ms (demo_generation s) = 1000000" by (simp add: demo_generation_def)
  moreover have "ensure_usable (demo_coordinator s) = Inr ()" "uc_state (demo_coordinator s) = s"
    "uc_generation (demo_coordinator s) = demo_generation s"
    "(demo_coordinator s)\<lparr> uc_state := s', uc_generation := demo_generation s' \<rparr> = demo_coordinator s'"
    by (simp_all add: ensure_usable_def demo_coordinator_def)
  ultimately show ?thesis
    using assms(3,4)
    by (auto simp: with_coordinator_def demo_system_def commit_candidate_def commit_with_validation_def calm_lock
        calm_load [OF assms(1)] calm_generation [OF assms(1)] calm_generation [OF assms(2)] calm_persist)
qed

section \<open>The run\<close>

definition demo_staged :: "update_stage \<Rightarrow> update_state" where
  "demo_staged st = (bound_state ''u1'' ''t1'')\<lparr> us_stage := st \<rparr>"

definition demo_snapshotted :: update_state where
  "demo_snapshotted = (demo_staged StageSnapshot)\<lparr> us_snapshot_id := Some ''s1'', us_snapshot_receipt_id := Some ''r1'' \<rparr>"

definition demo_prepared :: update_state where
  "demo_prepared = demo_snapshotted\<lparr> us_stage := PackageTransaction, us_transaction_id := Some ''x1'',
     us_external_effect := EffectPrepared \<rparr>"

definition demo_dispatched :: update_state where
  "demo_dispatched = demo_prepared\<lparr> us_external_effect := EffectDispatchStarted \<rparr>"

definition demo_package_verified :: update_state where
  "demo_package_verified = demo_dispatched\<lparr> us_verification_receipt_id := Some ''r2'', us_external_effect := EffectVerified \<rparr>"

definition demo_migrating :: update_state where
  "demo_migrating = demo_package_verified\<lparr> us_stage := Migrations, us_external_effect := EffectNone \<rparr>"

lemma demo_idents [simp]: "ident_text ''u1''" "ident_text ''t1''" "ident_text ''s1''" "ident_text ''r1''" "ident_text ''x1''"
  "ident_text ''r2''" "ident_text ''o1''" "ident_text ''durable''" "ident_text ''verified''"
  "ident_text V09_UPDATE_EVIDENCE_PRODUCER_ID"
  by code_simp+

lemmas demo_states = demo_migrating_def demo_package_verified_def demo_dispatched_def demo_prepared_def demo_snapshotted_def
  demo_staged_def bound_state_def update_state_default_def

lemma demo_states_ok:
  "st \<in> {AcquireLock, Preflight, DiskSpace, StageSnapshot} \<Longrightarrow> state_ok (demo_staged st)" "state_ok demo_snapshotted"
  "state_ok demo_prepared" "state_ok demo_dispatched" "state_ok demo_package_verified" "state_ok demo_migrating"
  by (auto simp: state_ok_def validate_persisted_state_def texts_ok_def demo_states check_optional_def ident_text_ok
      package_stage_check_def optional_reason_def)

definition demo_snapshot_evidence :: parsed_evidence where
  "demo_snapshot_evidence = \<lparr> pe_kind = EvidenceSnapshot, pe_update_id = ''u1'', pe_target_id = ''t1'',
     pe_subject_id = ''s1'', pe_proof_id = ''o1'',
     pe_dispatch_generation = Some (generation_token (demo_journal (demo_staged StageSnapshot))),
     pe_issued_unix_ms = Some 1000000, pe_source = V09_UPDATE_EVIDENCE_PRODUCER_ID, pe_result = ''durable'' \<rparr>"

definition demo_package_evidence :: parsed_evidence where
  "demo_package_evidence = \<lparr> pe_kind = EvidencePackageVerification, pe_update_id = ''u1'', pe_target_id = ''t1'',
     pe_subject_id = ''x1'', pe_proof_id = ''o1'',
     pe_dispatch_generation = Some (generation_token (demo_journal demo_dispatched)),
     pe_issued_unix_ms = Some 1000000, pe_source = V09_UPDATE_EVIDENCE_PRODUCER_ID, pe_result = ''verified'' \<rparr>"

definition demo_receipt_env :: "crypto \<Rightarrow> parsed_evidence \<Rightarrow> update_env" where
  "demo_receipt_env cr e = calm_env (serialize_evidence cr (ev_key demo_verifier) e)"

lemma demo_token: "state_ok s \<Longrightarrow> ident_text (generation_token (demo_journal s))"
  using serialize_journal_length by (intro generation_token_ident) (simp add: demo_journal_def)

lemma demo_read_receipt:
  assumes "evidence_valid e" "\<And>m. length (sha256 cr m) = 32"
  shows "read_receipt cr (ue_receipts (demo_receipt_env cr e)) demo_verifier receipt_id = Inr e"
proof -
  have "read_receipt cr (ue_receipts (demo_receipt_env cr e)) demo_verifier receipt_id
      = parse_evidence cr (ev_key demo_verifier) (serialize_evidence cr (ev_key demo_verifier) e)"
    using demo_receipt_readable evidence_length [OF assms]
    by (intro read_receipt_readable) (simp_all add: demo_receipt_env_def calm_env_def)
  then show ?thesis using parse_serialize_evidence [OF assms] by simp
qed

definition demo_hashes :: crypto where
  "demo_hashes = \<lparr> sha256 = \<lambda>_. replicate 32 (CHR 0x11), hmac_sha256 = \<lambda>_ _. None \<rparr>"

lemma demo_hashes_length: "length (sha256 demo_hashes m) = 32"
  by (simp add: demo_hashes_def)

definition quiet :: update_env where
  "quiet = calm_env []"

definition demo_open :: update_call where
  "demo_open = UOpen update_policy_default ''u1'' ''t1''"

definition demo_record_snapshot :: "crypto \<Rightarrow> update_call" where
  "demo_record_snapshot cr = URecordSnapshot (demo_receipt_env cr demo_snapshot_evidence) demo_verifier ''r1'' ''u1'' ''t1''
     (generation_token (demo_journal (demo_staged StageSnapshot))) 1000000"

definition demo_package_verification :: "crypto \<Rightarrow> update_call" where
  "demo_package_verification cr = UVerified (demo_receipt_env cr demo_package_evidence) demo_verifier ''r2'' ''u1'' ''t1'' ''x1''
     (generation_token (demo_journal demo_dispatched)) 1000000"

lemma demo_freshness:
  "validate_package_evidence_freshness (ue_clock (calm_env bs)) 1000000 1000000 = Inr ()"
  "validate_snapshot_evidence_freshness (ue_clock (calm_env bs)) 1000000 1000000 = Inr ()"
  by (simp_all add: validate_package_evidence_freshness_def validate_snapshot_evidence_freshness_def
      system_time_to_unix_ms_def calm_env_def saturating_sub_def saturating_add_def
      PACKAGE_VERIFICATION_FUTURE_SKEW_MS_def PACKAGE_VERIFICATION_MAX_AGE_MS_def
      SNAPSHOT_EVIDENCE_FUTURE_SKEW_MS_def SNAPSHOT_EVIDENCE_MAX_AGE_MS_def)

lemma demo_evidence_valid: "evidence_valid demo_snapshot_evidence" "evidence_valid demo_package_evidence"
  using demo_token [OF demo_states_ok(1), of StageSnapshot] demo_token [OF demo_states_ok(4)]
  by (simp_all add: evidence_valid_def demo_snapshot_evidence_def demo_package_evidence_def)

lemma demo_verify_snapshot:
  assumes "\<And>m. length (sha256 cr m) = 32"
  shows "verify_snapshot cr (demo_receipt_env cr demo_snapshot_evidence) demo_verifier ''r1'' ''u1'' ''t1''
      (generation_token (demo_journal (demo_staged StageSnapshot))) 1000000
    = Inr \<lparr> sr_receipt_id = ''r1'', sr_update_id = ''u1'', sr_target_id = ''t1'', sr_snapshot_id = ''s1'',
        sr_proof_id = ''o1'', sr_attempt_generation = generation_token (demo_journal (demo_staged StageSnapshot)),
        sr_issued_unix_ms = 1000000 \<rparr>"
  using demo_token [OF demo_states_ok(1), of StageSnapshot]
  by (simp add: verify_snapshot_def ident_text_ok demo_read_receipt [OF demo_evidence_valid(1) assms])
    (simp add: demo_snapshot_evidence_def demo_receipt_env_def demo_freshness ident_text_ok)

lemma demo_verify_package:
  assumes "\<And>m. length (sha256 cr m) = 32"
  shows "verify_package cr (demo_receipt_env cr demo_package_evidence) demo_verifier ''r2'' ''u1'' ''t1'' ''x1''
      (generation_token (demo_journal demo_dispatched)) 1000000
    = Inr \<lparr> pr_receipt_id = ''r2'', pr_update_id = ''u1'', pr_target_id = ''t1'', pr_transaction_id = ''x1'',
        pr_observation_id = ''o1'', pr_dispatch_generation = generation_token (demo_journal demo_dispatched),
        pr_issued_unix_ms = 1000000 \<rparr>"
  using demo_token [OF demo_states_ok(4)]
  by (simp add: verify_package_def ident_text_ok demo_read_receipt [OF demo_evidence_valid(2) assms])
    (simp add: demo_package_evidence_def demo_receipt_env_def demo_freshness ident_text_ok)

lemma demo_opened:
  "exec_update cr quiet (0, demo_open) update_system_start = (Some (Inr ()), demo_system (demo_staged AcquireLock))"
proof -
  have s: "bound_state ''u1'' ''t1'' = demo_staged AcquireLock" by (simp add: demo_states)
  have ok: "state_ok (demo_staged AcquireLock)" "validate_persisted_state (demo_staged AcquireLock) = Inr ()"
    using demo_states_ok(1) [of AcquireLock] by (simp_all add: state_ok_def)
  have load: "journal_load quiet None = Inr update_state_default"
    by (simp add: journal_load_def quiet_def calm_env_def update_io_result_def)
  have none: "us_update_id update_state_default = None" "us_target_id update_state_default = None"
    by (simp_all add: update_state_default_def)
  show ?thesis
    using calm_lock [of "[]"] calm_persist [of "[]"] calm_generation [OF ok(1), of "[]"]
    by (simp add: demo_open_def update_system_start_def update_open_def ident_text_ok load none ok s [unfolded bound_state_def]
        quiet_def [symmetric] Let_def demo_system_def demo_coordinator_def)
qed

lemma demo_transition:
  assumes "state_ok s" "state_ok s'" "update_state_transition stage s = Inr s'"
  shows "exec_update cr quiet (0, UTransition stage) (demo_system s) = (Some (Inr ()), demo_system s')"
  unfolding quiet_def exec_update.simps coordinator_transition_def
  using assms by (intro calm_commit) (simp_all add: demo_coordinator_def)

lemma demo_staging:
  assumes "(a, b) \<in> {(AcquireLock, Preflight), (Preflight, DiskSpace), (DiskSpace, StageSnapshot)}"
  shows "exec_update cr quiet (0, UTransition b) (demo_system (demo_staged a)) = (Some (Inr ()), demo_system (demo_staged b))"
  using assms
  by (intro demo_transition demo_states_ok)
    (auto simp: update_state_transition_def valid_transition_def demo_staged_def Let_def)

lemma demo_snapshot_taken:
  "exec_update demo_hashes quiet (0, demo_record_snapshot demo_hashes) (demo_system (demo_staged StageSnapshot))
    = (Some (Inr ()), demo_system demo_snapshotted)"
  unfolding quiet_def demo_record_snapshot_def exec_update.simps with_receipt_def demo_verify_snapshot [OF demo_hashes_length] sum.case
    record_snapshot_def
  by (rule calm_commit [OF demo_states_ok(1,2)])
    (simp_all add: demo_coordinator_def demo_generation_def demo_freshness, simp_all add: demo_states)

lemma demo_transaction_prepared:
  "exec_update cr quiet (0, UPrepare ''x1'') (demo_system demo_snapshotted) = (Some (Inr ()), demo_system demo_prepared)"
  unfolding quiet_def exec_update.simps prepare_package_transaction_def
  by (rule calm_commit [OF demo_states_ok(2,3)])
    (simp_all add: demo_coordinator_def ensure_snapshot_policy_satisfied_def snapshot_policy_satisfied_def ident_text_ok,
      simp_all add: demo_states)

lemma demo_dispatch_started:
  "exec_update cr quiet (0, UDispatch) (demo_system demo_prepared) = (Some (Inr ()), demo_system demo_dispatched)"
  unfolding quiet_def exec_update.simps mark_dispatch_started_def
  by (rule calm_commit [OF demo_states_ok(3,4)])
    (simp_all add: demo_coordinator_def ensure_snapshot_policy_satisfied_def snapshot_policy_satisfied_def,
      simp_all add: demo_states)

lemma demo_dispatch_verified:
  "exec_update demo_hashes quiet (0, demo_package_verification demo_hashes) (demo_system demo_dispatched)
    = (Some (Inr ()), demo_system demo_package_verified)"
  unfolding quiet_def demo_package_verification_def exec_update.simps with_receipt_def demo_verify_package [OF demo_hashes_length] sum.case
    mark_package_verified_def
  by (rule calm_commit [OF demo_states_ok(4,5)])
    (simp_all add: demo_coordinator_def demo_generation_def demo_freshness, simp_all add: demo_states)

lemma demo_migrates:
  "exec_update cr quiet (0, UTransition Migrations) (demo_system demo_package_verified) = (Some (Inr ()), demo_system demo_migrating)"
  by (rule demo_transition [OF demo_states_ok(5,6)])
    (simp add: update_state_transition_def valid_transition_def demo_states Let_def)

lemma durable_demo [simp]: "state_ok s \<Longrightarrow> durable (Some (demo_journal s)) = s"
  using durable_written [of s quiet] by (simp add: quiet_def)

definition demo_until_prepared :: "(update_env \<times> nat \<times> update_call) list" where
  "demo_until_prepared = map (\<lambda>call. (quiet, 0, call)) [demo_open, UTransition Preflight, UTransition DiskSpace,
     UTransition StageSnapshot, demo_record_snapshot demo_hashes, UPrepare ''x1'']"

definition demo_until_migrating :: "(update_env \<times> nat \<times> update_call) list" where
  "demo_until_migrating = demo_until_prepared
     @ map (\<lambda>call. (quiet, 0, call)) [UDispatch, demo_package_verification demo_hashes, UTransition Migrations]"

lemma demo_run_prepared:
  "run_calls (exec_update demo_hashes) demo_until_prepared update_system_start = demo_system demo_prepared"
  by (simp add: run_calls_def demo_until_prepared_def demo_opened demo_staging demo_snapshot_taken demo_transaction_prepared
      del: exec_update.simps)

lemma demo_run_migrating:
  "run_calls (exec_update demo_hashes) demo_until_migrating update_system_start = demo_system demo_migrating"
  unfolding demo_until_migrating_def run_calls_append demo_run_prepared
  by (simp add: run_calls_def demo_dispatch_started demo_dispatch_verified demo_migrates del: exec_update.simps)

text \<open>The same environment, in which only the sync of the journal's directory fails.\<close>

definition unsynced_env :: update_env where
  "unsynced_env = quiet\<lparr> ue_fault := (\<lambda>io. if io = IoSyncDirectory then Some ''EIO'' else None) \<rparr>"

definition unsynced_reason :: string where
  "unsynced_reason = ''journal rename completed but parent-directory fsync failed: EIO''"

lemma demo_dispatch_unsynced:
  "exec_update cr unsynced_env (0, UDispatch) (demo_system demo_prepared)
    = (Some (Inl (DurabilityUncertain unsynced_reason)), \<lparr> sy_journal = Some (demo_journal demo_dispatched),
        sy_coordinators = [0 \<mapsto> (demo_coordinator demo_prepared)\<lparr> uc_uncertain := Some unsynced_reason \<rparr>] \<rparr>)"
proof -
  let ?c = "demo_coordinator demo_prepared"
  have io: "update_io_result unsynced_env io = Inr ()" "update_io_result quiet io = Inr ()" if "io \<noteq> IoSyncDirectory" for io
    using that by (simp_all add: update_io_result_def unsynced_env_def quiet_def calm_env_def)
  have "journal_load unsynced_env (Some (demo_journal demo_prepared)) = Inr demo_prepared"
    using calm_load [OF demo_states_ok(3), of "[]", folded quiet_def] by (simp add: journal_load_def io)
  moreover have "journal_generation_of unsynced_env IoStatGeneration (Some (demo_journal demo_prepared)) = Inr (demo_generation demo_prepared)"
    using calm_generation [OF demo_states_ok(3), of "[]" IoStatGeneration, folded quiet_def]
    by (simp add: journal_generation_of_def io)
  moreover have "journal_persist unsynced_env s f = (Inl (DurabilityUncertain unsynced_reason), Some (demo_journal s))" for s f
    by (simp add: journal_persist_def atomic_write_def io)
      (simp add: unsynced_env_def quiet_def calm_env_def demo_journal_def unsynced_reason_def)
  moreover have "acquire_exclusive (ue_path unsynced_env) (ue_lock unsynced_env) = Inr ()"
    using calm_lock [of "[]"] by (simp add: unsynced_env_def quiet_def)
  moreover have "validate_persisted_state demo_dispatched = Inr ()" using demo_states_ok(4) by (simp add: state_ok_def)
  moreover have "ensure_usable ?c = Inr ()" "uc_state ?c = demo_prepared" "uc_generation ?c = demo_generation demo_prepared"
    "ensure_snapshot_policy_satisfied ?c = Inr ()"
    by (simp_all add: ensure_usable_def demo_coordinator_def ensure_snapshot_policy_satisfied_def snapshot_policy_satisfied_def
        demo_prepared_def demo_snapshotted_def)
  moreover have "us_stage demo_prepared = PackageTransaction" "us_external_effect demo_prepared = EffectPrepared"
    "us_transaction_id demo_prepared = Some ''x1''" "us_verification_receipt_id demo_prepared = None"
    by (simp_all add: demo_states)
  ultimately show ?thesis
    by (simp add: mark_dispatch_started_def commit_candidate_def with_coordinator_def demo_system_def
        commit_with_validation_def demo_dispatched_def [symmetric] handle_persist_failure_def)
qed

end
