(* ===== verification/Update_History.thy ===== *)
theory Update_History
  imports Update_Example
begin

text \<open>
  What holds of an update over any history of coordinators: restarts, interleavings and I/O faults at any
  point. The progress of the journal never decreases, dispatch is committed at most once, and the stages after
  the package transaction are reached on an authenticated receipt for that very dispatch only.
\<close>

section \<open>Progress\<close>

fun stage_progress :: "update_stage \<Rightarrow> external_effect_state \<Rightarrow> nat" where
  "stage_progress AcquireLock _ = 0"
| "stage_progress Preflight _ = 1"
| "stage_progress DiskSpace _ = 2"
| "stage_progress StageSnapshot _ = 3"
| "stage_progress PackageTransaction EffectDispatchStarted = 5"
| "stage_progress PackageTransaction EffectVerified = 6"
| "stage_progress PackageTransaction _ = 4"
| "stage_progress Migrations _ = 7"
| "stage_progress Reconcile _ = 8"
| "stage_progress RestartAssessment _ = 9"
| "stage_progress StageVerify _ = 10"
| "stage_progress StageComplete _ = 11"
| "stage_progress StageRecoveryRequired _ = 12"

definition progress :: "update_state \<Rightarrow> nat" where
  "progress s = stage_progress (us_stage s) (us_external_effect s)"

fun advances :: "update_call \<Rightarrow> bool" where
  "advances (UTransition _) = True"
| "advances (UPrepare _) = True"
| "advances UDispatch = True"
| "advances (UVerified _ _ _ _ _ _ _ _) = True"
| "advances _ = False"

lemma stage_progress_le: "stage_progress st ef \<le> 12" "st \<noteq> StageRecoveryRequired \<Longrightarrow> stage_progress st ef \<le> 11"
  by (cases st; cases ef; simp)+

lemma progress_recovery [simp]: "us_stage s = StageRecoveryRequired \<Longrightarrow> progress s = 12"
  by (simp add: progress_def)

lemma package_progress:
  "us_stage s = PackageTransaction \<Longrightarrow> progress s \<le> 6"
  by (cases "us_external_effect s") (simp_all add: progress_def)

lemma transition_progress:
  assumes "valid_transition (us_stage d) stage" "stage \<noteq> PackageTransaction"
  shows "progress d < stage_progress stage EffectNone" "stage_progress stage EffectNone \<le> 11"
  using assms package_progress [of d] by (auto simp: valid_transition_def progress_def)

lemma advance_progress:
  assumes "update_advance cr env j p call d d'"
  shows "progress d \<le> progress d' \<and> (advances call \<longrightarrow> progress d < progress d' \<and> progress d' \<le> 11)"
  using assms
proof (cases)
  case (adv_transition stage)
  then show ?thesis using transition_progress [of d stage] by (simp add: progress_def)
next
  case (adv_recovery reason t)
  then show ?thesis using stage_progress_le(1) by (simp add: progress_def)
qed (simp_all add: progress_def)

lemma step_progress:
  assumes "update_step cr env (i, call) (f, ps) (f', ps')"
  shows "progress (durable f) \<le> progress (durable f')
    \<and> (advances call \<longrightarrow> progress (durable f) < progress (durable f') \<and> progress (durable f') \<le> 11)"
  using assms
proof (cases)
  case (step_advance p j d')
  then show ?thesis using advance_progress by simp
qed (simp_all add: progress_def update_state_default_def)

definition journal_state :: "update_system \<Rightarrow> update_state" where
  "journal_state sy = durable (sy_journal sy)"

lemma exec_progress:
  assumes "update_inv sy"
  shows "progress (journal_state sy) \<le> progress (journal_state (snd (exec_update cr env (i, call) sy)))"
    "advances call \<Longrightarrow> committed (fst (exec_update cr env (i, call) sy))
      \<Longrightarrow> progress (journal_state sy) < progress (journal_state (snd (exec_update cr env (i, call) sy)))
        \<and> progress (journal_state (snd (exec_update cr env (i, call) sy))) \<le> 11"
  using exec_refined [OF assms, of cr env "(i, call)"] step_progress
  by (auto simp: update_refined_def update_view_of_def journal_state_def)

lemma run_progress:
  assumes "update_inv sy"
  shows "progress (journal_state sy) \<le> progress (journal_state (run_calls (exec_update cr) hist sy))"
proof (induction hist rule: rev_induct)
  case (snoc ec hist)
  obtain e i c where ec: "ec = (e, (i, c))" by (metis surj_pair)
  show ?case
    using snoc exec_progress(1) [OF update.run_inv [OF assms, of cr hist], of cr e i c] by (simp add: ec)
qed simp

definition reached :: "crypto \<Rightarrow> (update_env \<times> nat \<times> update_call) list \<Rightarrow> update_system" where
  "reached cr hist = run_calls (exec_update cr) hist update_system_start"

lemma reached_inv: "update_inv (reached cr hist)"
  unfolding reached_def by (rule update.run_inv [OF update_start_inv])

lemma reached_later:
  "reached cr (hist @ (env, i, call) # hist') = run_calls (exec_update cr) hist' (snd (exec_update cr env (i, call) (reached cr hist)))"
  by (simp add: reached_def run_calls_def)

lemma reached_progress:
  assumes "update_inv (snd (exec_update cr env (i, call) (reached cr hist)))"
  shows "progress (journal_state (snd (exec_update cr env (i, call) (reached cr hist))))
    \<le> progress (journal_state (reached cr (hist @ (env, i, call) # hist')))"
  unfolding reached_later by (rule run_progress [OF assms])

section \<open>Termination\<close>

fun accepted :: "crypto \<Rightarrow> (update_env \<times> nat \<times> update_call) list \<Rightarrow> update_system \<Rightarrow> update_call list" where
  "accepted cr [] sy = []"
| "accepted cr ((env, i, call) # hist) sy = (case exec_update cr env (i, call) sy of (r, sy') \<Rightarrow>
     (if r = Some (Inr ()) then [call] else []) @ accepted cr hist sy')"

lemma accepted_progress:
  "update_inv sy \<Longrightarrow> length (filter advances (accepted cr hist sy)) \<le> 11 - progress (journal_state sy)"
proof (induction cr hist sy rule: accepted.induct)
  case (2 cr env i call hist sy)
  obtain r sy' where out: "exec_update cr env (i, call) sy = (r, sy')" by (cases "exec_update cr env (i, call) sy")
  have inv: "update_inv sy'" using update.inv_exec [OF "2.prems", of cr env "(i, call)"] by (simp add: out)
  have IH: "length (filter advances (accepted cr hist sy')) \<le> 11 - progress (journal_state sy')"
    using "2.IH" [OF out [symmetric] inv] .
  show ?case
    using IH exec_progress [OF "2.prems", where cr = cr and env = env and i = i and call = call] by (auto simp: out)
qed simp

text \<open>
  C19. An update ends: over any history of coordinators, restarts and faults, at most eleven of the operations
  that move the update forward (a stage transition, prepare, dispatch, package verification) are ever accepted.
\<close>

theorem update_attempt_ends:
  "length (filter advances (accepted cr hist update_system_start)) \<le> 11"
  using accepted_progress [OF update_start_inv, of cr hist] by simp

section \<open>The evidence behind a migration\<close>

definition post_package :: "update_stage \<Rightarrow> bool" where
  "post_package st \<longleftrightarrow> st \<in> {Migrations, Reconcile, RestartAssessment, StageVerify, StageComplete}"

text \<open>The receipt file the verifier read: authenticated by its key, and of the kind, result and binding the receipt has.\<close>

definition authentic_package_receipt ::
  "crypto \<Rightarrow> update_env \<Rightarrow> evidence_verifier \<Rightarrow> package_verification_receipt \<Rightarrow> bool" where
  "authentic_package_receipt cr env v r \<longleftrightarrow> (\<exists>bs payload e.
     ra_bytes (ue_receipts env (path_join (ev_root v) (pr_receipt_id r @ ''.receipt''))) = Inr bs
     \<and> bs = payload @ ''authentication='' @ update_hmac_sha256 cr (ev_key v) payload @ [CHR 0x0A]
     \<and> parse_evidence cr (ev_key v) bs = Inr e \<and> pe_kind e = EvidencePackageVerification
     \<and> pe_source e = V09_UPDATE_EVIDENCE_PRODUCER_ID \<and> pe_result e = ''verified''
     \<and> pe_update_id e = pr_update_id r \<and> pe_target_id e = pr_target_id r \<and> pe_subject_id e = pr_transaction_id r
     \<and> pe_dispatch_generation e = Some (pr_dispatch_generation r) \<and> pe_issued_unix_ms e = Some (pr_issued_unix_ms r))"

lemma verify_package_authentic:
  assumes "verify_package cr env v receipt_id u t tx generation started = Inr r"
  shows "authentic_package_receipt cr env v r"
proof -
  obtain rid e where "read_receipt cr (ue_receipts env) v rid = Inr e" and r: "pr_receipt_id r = rid"
    "pe_kind e = EvidencePackageVerification" "pe_source e = V09_UPDATE_EVIDENCE_PRODUCER_ID" "pe_result e = ''verified''"
    "pe_update_id e = pr_update_id r" "pe_target_id e = pr_target_id r" "pe_subject_id e = pr_transaction_id r"
    "pe_dispatch_generation e = Some (pr_dispatch_generation r)" "pe_issued_unix_ms e = Some (pr_issued_unix_ms r)"
    using assms by (auto simp: verify_package_def result_simps)
  then obtain bs where bs: "ra_bytes (ue_receipts env (path_join (ev_root v) (rid @ ''.receipt''))) = Inr bs"
    "parse_evidence cr (ev_key v) bs = Inr e" by (metis read_receipt_ok)
  obtain payload where "bs = payload @ ''authentication='' @ update_hmac_sha256 cr (ev_key v) payload @ [CHR 0x0A]"
    using parse_evidence_authentic [OF bs(2)] by blast
  with bs r show ?thesis unfolding authentic_package_receipt_def by blast
qed

type_synonym update_history = "(update_env \<times> nat \<times> update_call) list"

definition dispatched_and_verified :: "crypto \<Rightarrow> update_history \<Rightarrow> update_state \<Rightarrow> bool" where
  "dispatched_and_verified cr hist d \<longleftrightarrow>
     (\<exists>h1 env i h2 env' k verify_env v receipt_id u t tx generation started h3 r dispatched ms.
       hist = h1 @ (env, i, UDispatch) # h2
         @ (env', k, UVerified verify_env v receipt_id u t tx generation started) # h3
       \<and> authentic_package_receipt cr verify_env v r
       \<and> us_update_id d = Some (pr_update_id r) \<and> us_target_id d = Some (pr_target_id r)
       \<and> us_transaction_id d = Some (pr_transaction_id r) \<and> us_verification_receipt_id d = Some (pr_receipt_id r)
       \<and> us_stage dispatched = PackageTransaction \<and> us_external_effect dispatched = EffectDispatchStarted
       \<and> us_transaction_id dispatched = us_transaction_id d
       \<and> pr_dispatch_generation r = generation_token (written env dispatched)
       \<and> system_time_to_unix_ms (journal_mtime (written env dispatched)) = Inr ms
       \<and> validate_package_evidence_freshness (ue_clock_commit env') (pr_issued_unix_ms r) ms = Inr ())"

definition package_accounted :: "crypto \<Rightarrow> update_history \<Rightarrow> update_view \<Rightarrow> bool" where
  "package_accounted cr hist fp \<longleftrightarrow> (let d = durable (fst fp) in
     (us_stage d = PackageTransaction \<and> us_external_effect d = EffectDispatchStarted
        \<longrightarrow> (\<exists>h1 env i h2. hist = h1 @ (env, i, UDispatch) # h2 \<and> fst fp = Some (written env d)))
     \<and> (us_stage d = PackageTransaction \<and> us_external_effect d = EffectVerified \<or> post_package (us_stage d)
        \<longrightarrow> dispatched_and_verified cr hist d))"

lemma verified_snoc: "dispatched_and_verified cr hist d \<Longrightarrow> dispatched_and_verified cr (hist @ [ec]) d"
  unfolding dispatched_and_verified_def by (elim exE conjE) (intro exI conjI; (assumption | simp)?; simp)

lemma verified_cong:
  "us_update_id d' = us_update_id d \<Longrightarrow> us_target_id d' = us_target_id d \<Longrightarrow> us_transaction_id d' = us_transaction_id d
     \<Longrightarrow> us_verification_receipt_id d' = us_verification_receipt_id d
     \<Longrightarrow> dispatched_and_verified cr hist d' = dispatched_and_verified cr hist d"
  by (simp add: dispatched_and_verified_def)

lemma package_accounted_stays: "package_accounted cr hist fp \<Longrightarrow> package_accounted cr (hist @ [ec]) fp"
  unfolding package_accounted_def Let_def using verified_snoc by fastforce

lemma package_accounted_verified:
  assumes acc: "package_accounted cr hist (Some j, ps)"
    and adv: "update_advance cr env j p (UVerified verify_env v receipt_id u t tx generation started) (durable (Some j)) d'"
  shows "dispatched_and_verified cr (hist @ [(env, k, UVerified verify_env v receipt_id u t tx generation started)]) d'"
  using adv
proof (cases)
  case (adv_verified r ms)
  let ?d = "durable (Some j)"
  obtain h1 e i h2 where "hist = h1 @ (e, i, UDispatch) # h2" "j = written e ?d"
    using acc adv_verified(2,3) by (auto simp: package_accounted_def Let_def)
  then have "hist @ [(env, k, UVerified verify_env v receipt_id u t tx generation started)]
        = h1 @ (e, i, UDispatch) # h2 @ (env, k, UVerified verify_env v receipt_id u t tx generation started) # []"
    and j: "j = written e ?d" by simp_all
  moreover have "authentic_package_receipt cr verify_env v r" using adv_verified(4) by (rule verify_package_authentic)
  moreover have "us_update_id d' = Some (pr_update_id r)" "us_target_id d' = Some (pr_target_id r)"
    "us_transaction_id d' = Some (pr_transaction_id r)" "us_verification_receipt_id d' = Some (pr_receipt_id r)"
    "us_transaction_id ?d = us_transaction_id d'"
    using adv_verified by simp_all
  moreover have "pr_dispatch_generation r = generation_token (written e ?d)"
    "system_time_to_unix_ms (journal_mtime (written e ?d)) = Inr ms"
    using adv_verified(8,9) by (simp_all only: j [symmetric])
  ultimately show ?thesis using adv_verified(2,3,10) unfolding dispatched_and_verified_def by blast
qed

lemma package_accounted_steps:
  assumes acc: "package_accounted cr hist fp" and "update_step cr env (i, call) fp fp'"
  shows "package_accounted cr (hist @ [(env, i, call)]) fp'"
  using assms(2)
proof (cases)
  case (step_bind u u' t t' ps' ps p)
  then show ?thesis
    by (simp add: package_accounted_def bound_state_def update_state_default_def post_package_def)
next
  case (step_attach j u' t' u t p ps)
  then show ?thesis using package_accounted_stays [OF acc] by (simp add: package_accounted_def)
next
  case (step_advance ps p j d')
  let ?d = "durable (Some j)"
  have d': "durable (fst fp') = d'" using step_advance by simp
  have prev: "dispatched_and_verified cr (hist @ [(env, i, call)]) ?d"
    if "us_stage ?d = PackageTransaction \<and> us_external_effect ?d = EffectVerified \<or> post_package (us_stage ?d)"
  proof (rule verified_snoc)
    show "dispatched_and_verified cr hist ?d" using that acc step_advance(1) by (simp only: package_accounted_def Let_def fst_conv)
  qed
  from step_advance(4) show ?thesis
  proof (cases)
    case (adv_transition stage)
    have "dispatched_and_verified cr (hist @ [(env, i, call)]) d'" if "post_package stage"
    proof -
      have "us_stage ?d = PackageTransaction \<and> us_external_effect ?d = EffectVerified \<or> post_package (us_stage ?d)"
        using adv_transition that by (auto simp: valid_transition_def post_package_def)
      from prev [OF this] show ?thesis by (subst verified_cong [of d' ?d]) (simp_all add: adv_transition(2))
    qed
    then show ?thesis using adv_transition by (simp add: package_accounted_def d')
  next
    case (adv_dispatch)
    have "hist @ [(env, i, call)] = hist @ (env, i, UDispatch) # []" "fst fp' = Some (written env d')"
      using adv_dispatch(1) step_advance(2) by simp_all
    then show ?thesis using adv_dispatch unfolding package_accounted_def Let_def d' by (auto simp: post_package_def)
  next
    case (adv_verified verify_env v receipt_id u t tx generation started r ms)
    then have "dispatched_and_verified cr (hist @ [(env, i, call)]) d'"
      using package_accounted_verified [of cr hist j ps env p] acc step_advance(1,4) by simp
    then show ?thesis using adv_verified by (simp add: package_accounted_def d')
  qed (simp_all add: package_accounted_def d' post_package_def)
qed

lemma run_package_accounted: "package_accounted cr hist (update_view_of (reached cr hist))"
  unfolding reached_def
proof (rule update.run_history [OF update_start_inv])
  show "package_accounted cr [] (update_view_of update_system_start)"
    by (simp add: package_accounted_def update_view_of_def update_system_start_def update_state_default_def post_package_def)
qed (auto intro: package_accounted_stays package_accounted_steps)

text \<open>
  C4. A stage after the package transaction is reached on authentic evidence only: if the journal reads such a
  stage after any history of coordinators, restarts and I/O faults, then the history holds a dispatch and, later,
  a verification by a receipt file that the trusted key authenticates, that is bound to this update, target and
  transaction, that names the generation of the very journal this dispatch wrote, and that was fresh when the
  verification was committed.
\<close>

theorem migrations_need_verified_dispatch:
  assumes "post_package (us_stage (journal_state (reached cr hist)))"
  shows "dispatched_and_verified cr hist (journal_state (reached cr hist))"
  using run_package_accounted [of cr hist] assms by (simp add: package_accounted_def update_view_of_def journal_state_def Let_def)

lemma dispatch_from_prepared:
  assumes "update_step cr env (i, UDispatch) (f, ps) (f', ps')"
  shows "progress (durable f) = 4" "progress (durable f') = 5"
  using assms by (auto elim!: update_step.cases update_advance.cases simp: progress_def)

lemma dispatch_committed:
  assumes "update_inv sy" "committed (fst (exec_update cr env (i, UDispatch) sy))"
  shows "progress (journal_state sy) = 4" "progress (journal_state (snd (exec_update cr env (i, UDispatch) sy))) = 5"
proof -
  have "update_step cr env (i, UDispatch) (update_view_of sy) (update_view_of (snd (exec_update cr env (i, UDispatch) sy)))"
    using exec_refined [OF assms(1), of cr env "(i, UDispatch)"] assms(2) unfolding update_refined_def by blast
  then show "progress (journal_state sy) = 4" "progress (journal_state (snd (exec_update cr env (i, UDispatch) sy))) = 5"
    using dispatch_from_prepared by (simp_all add: update_view_of_def journal_state_def)
qed

lemma open_reads_journal:
  assumes "journal_ok f" "update_open env p u t f = (Inr c, f')" "0 < progress (durable f)"
  shows "uc_state c = durable f \<and> f' = f \<and> uc_uncertain c = None"
  using assms(1)
proof (cases rule: update_open_cases [where env = env and policy = p and ru = u and rt = t])
  case (attaches u' t' j)
  then show ?thesis using assms(2) by (auto simp: open_finish_def result_simps)
qed (use assms in \<open>simp_all add: progress_def update_state_default_def\<close>)

text \<open>
  C7. Dispatch is committed at most once: after a dispatch that was accepted, or whose durability alone is
  uncertain, no coordinator ever commits a dispatch again, and none that opens the journal later is told that
  dispatching the prepared transaction is safe, whatever calls, restarts of coordinators and faults come in between.
  A power failure that undoes a completed but unsynced rename is outside the model.
\<close>

theorem dispatch_at_most_once:
  assumes "committed (fst (exec_update cr env (i, UDispatch) (reached cr hist)))"
    and "later = reached cr (hist @ (env, i, UDispatch) # hist')"
  shows "\<not> committed (fst (exec_update cr env' (k, UDispatch) later))
    \<and> (\<forall>c j. update_open env' p u t (sy_journal later) = (Inr c, j) \<longrightarrow> resume_decision c \<noteq> SafeToDispatchPrepared)"
proof -
  have inv: "update_inv (snd (exec_update cr env (i, UDispatch) (reached cr hist)))"
    by (rule update.inv_exec [OF reached_inv])
  have five: "5 \<le> progress (journal_state later)"
    using reached_progress [OF inv, of hist'] dispatch_committed(2) [OF reached_inv assms(1)] assms(2) by simp
  have linv: "update_inv later" unfolding assms(2) by (rule reached_inv)
  have "resume_decision c \<noteq> SafeToDispatchPrepared" if "update_open env' p u t (sy_journal later) = (Inr c, j)" for c j
  proof
    assume "resume_decision c = SafeToDispatchPrepared"
    then have "progress (uc_state c) = 4"
      by (auto simp: resume_decision_def progress_def split: if_splits update_stage.splits external_effect_state.splits)
    then show False
      using open_reads_journal [OF _ that] linv five by (simp add: update_inv_def journal_state_def)
  qed
  then show ?thesis using dispatch_committed(1) [OF linv, of cr env' k] five by fastforce
qed

section \<open>The snapshot policy\<close>

definition authentic_snapshot_receipt :: "crypto \<Rightarrow> update_env \<Rightarrow> evidence_verifier \<Rightarrow> snapshot_receipt \<Rightarrow> bool" where
  "authentic_snapshot_receipt cr env v r \<longleftrightarrow> (\<exists>bs payload e.
     ra_bytes (ue_receipts env (path_join (ev_root v) (sr_receipt_id r @ ''.receipt''))) = Inr bs
     \<and> bs = payload @ ''authentication='' @ update_hmac_sha256 cr (ev_key v) payload @ [CHR 0x0A]
     \<and> parse_evidence cr (ev_key v) bs = Inr e \<and> pe_kind e = EvidenceSnapshot
     \<and> pe_source e = V09_UPDATE_EVIDENCE_PRODUCER_ID \<and> pe_result e = ''durable''
     \<and> pe_update_id e = sr_update_id r \<and> pe_target_id e = sr_target_id r \<and> trim (pe_subject_id e) = sr_snapshot_id r
     \<and> pe_dispatch_generation e = Some (sr_attempt_generation r) \<and> pe_issued_unix_ms e = Some (sr_issued_unix_ms r))"

lemma verify_snapshot_authentic:
  assumes "verify_snapshot cr env v receipt_id u t generation started = Inr r"
  shows "authentic_snapshot_receipt cr env v r"
proof -
  obtain rid e where "read_receipt cr (ue_receipts env) v rid = Inr e" and r: "sr_receipt_id r = rid"
    "pe_kind e = EvidenceSnapshot" "pe_source e = V09_UPDATE_EVIDENCE_PRODUCER_ID" "pe_result e = ''durable''"
    "pe_update_id e = sr_update_id r" "pe_target_id e = sr_target_id r" "trim (pe_subject_id e) = sr_snapshot_id r"
    "pe_dispatch_generation e = Some (sr_attempt_generation r)" "pe_issued_unix_ms e = Some (sr_issued_unix_ms r)"
    using assms by (auto simp: verify_snapshot_def result_simps normalize_identifier_ok)
  then obtain bs where bs: "ra_bytes (ue_receipts env (path_join (ev_root v) (rid @ ''.receipt''))) = Inr bs"
    "parse_evidence cr (ev_key v) bs = Inr e" by (metis read_receipt_ok)
  obtain payload where "bs = payload @ ''authentication='' @ update_hmac_sha256 cr (ev_key v) payload @ [CHR 0x0A]"
    using parse_evidence_authentic [OF bs(2)] by blast
  with bs r show ?thesis unfolding authentic_snapshot_receipt_def by blast
qed

definition snapshot_recorded :: "crypto \<Rightarrow> update_history \<Rightarrow> update_state \<Rightarrow> bool" where
  "snapshot_recorded cr hist d \<longleftrightarrow>
     (\<exists>h1 env i verify_env v receipt_id u t generation started h2 r.
       hist = h1 @ (env, i, URecordSnapshot verify_env v receipt_id u t generation started) # h2
       \<and> authentic_snapshot_receipt cr verify_env v r
       \<and> us_update_id d = Some (sr_update_id r) \<and> us_target_id d = Some (sr_target_id r)
       \<and> us_snapshot_id d = Some (sr_snapshot_id r) \<and> us_snapshot_receipt_id d = Some (sr_receipt_id r))"

definition snapshots_required :: "update_history \<Rightarrow> bool" where
  "snapshots_required hist \<longleftrightarrow> list_all (\<lambda>(env, i, call). case call of
     UOpen p u t \<Rightarrow> up_require_snapshot_when_available p | _ \<Rightarrow> True) hist"

definition in_package :: "update_stage \<Rightarrow> bool" where
  "in_package st \<longleftrightarrow> st = PackageTransaction \<or> post_package st"

definition snapshot_accounted :: "crypto \<Rightarrow> update_history \<Rightarrow> update_view \<Rightarrow> bool" where
  "snapshot_accounted cr hist fp \<longleftrightarrow> (let d = durable (fst fp) in
     (us_snapshot_receipt_id d \<noteq> None \<longrightarrow> snapshot_recorded cr hist d)
     \<and> (snapshots_required hist \<longrightarrow> (\<forall>i p. snd fp i = Some p \<longrightarrow> up_require_snapshot_when_available p)
          \<and> (in_package (us_stage d) \<longrightarrow> us_snapshot_receipt_id d \<noteq> None)))"

lemma snapshot_snoc: "snapshot_recorded cr hist d \<Longrightarrow> snapshot_recorded cr (hist @ [ec]) d"
  unfolding snapshot_recorded_def by (elim exE conjE) (intro exI conjI; (assumption | simp)?; simp)

lemma snapshot_cong:
  "us_update_id d' = us_update_id d \<Longrightarrow> us_target_id d' = us_target_id d \<Longrightarrow> us_snapshot_id d' = us_snapshot_id d
     \<Longrightarrow> us_snapshot_receipt_id d' = us_snapshot_receipt_id d \<Longrightarrow> snapshot_recorded cr hist d' = snapshot_recorded cr hist d"
  by (simp add: snapshot_recorded_def)

lemma snapshot_accounted_stays: "snapshot_accounted cr hist fp \<Longrightarrow> snapshot_accounted cr (hist @ [ec]) fp"
  by (auto simp: snapshot_accounted_def snapshots_required_def Let_def snapshot_snoc)

lemma in_package_advance:
  assumes "update_advance cr env j p call d d'" "in_package (us_stage d')"
  shows "in_package (us_stage d) \<or> snapshot_allowed p d"
  using assms by (cases) (auto simp: in_package_def post_package_def valid_transition_def)

lemma snapshot_advance_cases:
  assumes "update_advance cr env j p call d d'"
  shows "us_snapshot_id d' = us_snapshot_id d \<and> us_snapshot_receipt_id d' = us_snapshot_receipt_id d
    \<or> snapshot_recorded cr (hist @ [(env, i, call)]) d' \<and> us_stage d' = StageSnapshot"
  using assms
proof (cases)
  case (adv_snapshot verify_env v receipt_id u t generation started r ms)
  then have "authentic_snapshot_receipt cr verify_env v r" by (intro verify_snapshot_authentic)
  moreover have "hist @ [(env, i, call)] = hist @ (env, i, call) # []" by simp
  ultimately show ?thesis using adv_snapshot unfolding snapshot_recorded_def adv_snapshot(1) by fastforce
qed simp_all

lemma snapshot_accounted_steps:
  assumes acc: "snapshot_accounted cr hist fp" and step: "update_step cr env (i, call) fp fp'"
  shows "snapshot_accounted cr (hist @ [(env, i, call)]) fp'"
  using step
proof (cases)
  case (step_bind u u' t t' ps' ps p)
  have "up_require_snapshot_when_available q" if "snapshots_required (hist @ [(env, i, call)])" "ps' k = Some q" for k q
    using that acc step_bind(1,2,7) by (auto simp: snapshot_accounted_def snapshots_required_def Let_def split: if_splits)
  moreover have "durable (fst fp') = bound_state u' t'" "snd fp' = ps'" using step_bind by simp_all
  ultimately show ?thesis
    by (simp add: snapshot_accounted_def bound_state_def update_state_default_def in_package_def post_package_def)
next
  case (step_attach j u' t' u t p ps)
  have "up_require_snapshot_when_available p" if "snapshots_required (hist @ [(env, i, call)])"
    using that step_attach(1) by (simp add: snapshots_required_def)
  then show ?thesis using snapshot_accounted_stays [OF acc, of "(env, i, call)"] step_attach(2,3)
    by (simp add: snapshot_accounted_def Let_def)
next
  case (step_advance ps p j d')
  let ?d = "durable (Some j)" and ?hist = "hist @ [(env, i, call)]"
  have d': "durable (fst fp') = d'" and fps: "snd fp = ps" "snd fp' = ps" "fst fp = Some j" using step_advance by simp_all
  note acc' = snapshot_accounted_stays [OF acc, of "(env, i, call)", unfolded snapshot_accounted_def Let_def fps]
  have p: "up_require_snapshot_when_available p" if "snapshots_required ?hist" using acc' step_advance(3) that by blast
  from snapshot_advance_cases [OF step_advance(4), of hist i] show ?thesis
  proof (elim disjE conjE)
    assume same: "us_snapshot_id d' = us_snapshot_id ?d" "us_snapshot_receipt_id d' = us_snapshot_receipt_id ?d"
    then have "snapshot_recorded cr ?hist d' = snapshot_recorded cr ?hist ?d"
      using advance_binding [OF step_advance(4)] by (intro snapshot_cong) simp_all
    moreover have "us_snapshot_receipt_id ?d \<noteq> None" if "snapshots_required ?hist" "in_package (us_stage d')"
      using in_package_advance [OF step_advance(4) that(2)] acc' p [OF that(1)] that(1) by (auto simp: snapshot_allowed_def)
    ultimately show ?thesis using acc' same unfolding snapshot_accounted_def Let_def d' fps by simp
  next
    assume "snapshot_recorded cr ?hist d'" "us_stage d' = StageSnapshot"
    then show ?thesis using acc' unfolding snapshot_accounted_def Let_def d' fps
      by (simp add: in_package_def post_package_def)
  qed
qed

lemma run_snapshot_accounted: "snapshot_accounted cr hist (update_view_of (reached cr hist))"
  unfolding reached_def
proof (rule update.run_history [OF update_start_inv])
  show "snapshot_accounted cr [] (update_view_of update_system_start)"
    by (simp add: snapshot_accounted_def update_view_of_def update_system_start_def update_state_default_def
        in_package_def post_package_def)
qed (auto intro: snapshot_accounted_stays snapshot_accounted_steps)

text \<open>
  C18. The snapshot policy is enforced: if every coordinator was opened with a policy that requires a snapshot,
  then a journal in the package transaction or beyond holds a snapshot and its receipt, and the history holds
  the call that recorded them from a receipt file that the trusted key authenticates and that is bound to this
  update and target.
\<close>

theorem snapshot_policy_enforced:
  assumes "snapshots_required hist" and "in_package (us_stage (journal_state (reached cr hist)))"
  shows "snapshot_recorded cr hist (journal_state (reached cr hist))"
  using run_snapshot_accounted [of cr hist] assms
  by (simp add: snapshot_accounted_def update_view_of_def journal_state_def Let_def)

section \<open>Refinement, failures and restarts\<close>

text \<open>
  C15. Every operation of every coordinator, from any state that any history reaches and under any I/O faults,
  leaves the journal and the open policies as they are and answers a failure, or makes exactly the step of the
  update machine that belongs to the call; and it keeps the journal readable.
\<close>

theorem coordinators_refine_machine:
  "update_refined cr env (i, call) (reached cr hist) (exec_update cr env (i, call) (reached cr hist))"
  by (rule exec_refined [OF reached_inv])

fun opens :: "update_call \<Rightarrow> bool" where
  "opens (UOpen _ _ _) = True"
| "opens _ = False"

lemma exec_commit_form:
  assumes "\<not> opens call"
  obtains (unattempted) r where "exec_update cr env (i, call) sy = (r, sy)" "r = None \<or> (\<exists>e. r = Some (Inl e) \<and> plain_error e)"
    | (commits) decide issued where "\<And>c. fails_plainly (decide c)"
        "exec_update cr env (i, call) sy = with_coordinator i (commit_candidate env decide issued) sy"
proof (cases call)
  case (UTransition stage)
  show ?thesis
    by (rule commits [rotated], unfold UTransition exec_update.simps coordinator_transition_def, rule refl) simp
next
  case (URecordSnapshot env' v receipt_id u t generation started)
  show ?thesis
  proof (cases "verify_snapshot cr env' v receipt_id u t generation started")
    case (Inl e)
    then show ?thesis using unattempted plain_errorI [OF fails_plainly_receipts(1) Inl]
      by (simp add: URecordSnapshot with_receipt_def)
  next
    case (Inr r)
    show ?thesis
      by (rule commits [rotated], unfold URecordSnapshot exec_update.simps with_receipt_def Inr sum.case record_snapshot_def,
        rule refl) simp
  qed
next
  case (UPrepare tx)
  show ?thesis
    by (rule commits [rotated], unfold UPrepare exec_update.simps prepare_package_transaction_def, rule refl)
      (simp add: ensure_snapshot_policy_satisfied_def)
next
  case UDispatch
  show ?thesis
    by (rule commits [rotated], unfold UDispatch exec_update.simps mark_dispatch_started_def, rule refl)
      (simp add: ensure_snapshot_policy_satisfied_def)
next
  case (UVerified env' v receipt_id u t tx generation started)
  show ?thesis
  proof (cases "verify_package cr env' v receipt_id u t tx generation started")
    case (Inl e)
    then show ?thesis using unattempted plain_errorI [OF fails_plainly_receipts(2) Inl]
      by (simp add: UVerified with_receipt_def)
  next
    case (Inr r)
    show ?thesis
      by (rule commits [rotated], unfold UVerified exec_update.simps with_receipt_def Inr sum.case mark_package_verified_def,
        rule refl) simp
  qed
next
  case (URecovery reason)
  show ?thesis
  proof (cases "utf8_valid reason")
    case True
    show ?thesis
      by (rule commits [of "\<lambda>c. update_state_require_recovery reason (uc_state c)" None])
        (simp_all add: URecovery True coordinator_require_recovery_def)
  qed (use unattempted URecovery in simp)
qed (use assms in simp)

lemma commit_candidate_poisoned:
  "uc_uncertain c = Some why \<Longrightarrow> commit_candidate env decide issued (c, f) = (Inl (UpdateRecoveryRequired why), c, f)"
  by (simp add: commit_candidate_def ensure_usable_def)

lemma exec_other:
  assumes "k \<noteq> i"
  shows "sy_coordinators (snd (exec_update cr env (k, call) sy)) i = sy_coordinators sy i"
  using assms
  by (cases call) (auto simp: with_coordinator_def with_receipt_def split: option.split prod.split sum.split)

lemma exec_poisoned:
  assumes "sy_coordinators sy i = Some c" "uc_uncertain c = Some why" "\<not> opens call"
  shows "snd (exec_update cr env (i, call) sy) = sy \<and> \<not> committed (fst (exec_update cr env (i, call) sy))"
  using assms(3)
proof (cases rule: exec_commit_form [where cr = cr and env = env and i = i and sy = sy])
  case (unattempted r)
  then show ?thesis by auto
next
  case (commits decide issued)
  then show ?thesis using assms(1,2)
    by (simp add: with_coordinator_def commit_candidate_poisoned fun_upd_idem)
qed

definition reopens :: "nat \<Rightarrow> update_history \<Rightarrow> bool" where
  "reopens i hist \<longleftrightarrow> list_ex (\<lambda>(env, k, call). k = i \<and> opens call) hist"

lemma run_poisoned:
  assumes "sy_coordinators sy i = Some c" "uc_uncertain c = Some why" "\<not> reopens i hist"
  shows "sy_coordinators (run_calls (exec_update cr) hist sy) i = Some c"
  using assms(3)
proof (induction hist rule: rev_induct)
  case Nil
  then show ?case using assms(1) by simp
next
  case (snoc ec hist)
  obtain e k call where ec: "ec = (e, k, call)" by (metis surj_pair)
  have IH: "sy_coordinators (run_calls (exec_update cr) hist sy) i = Some c"
    using snoc by (simp add: reopens_def)
  show ?case
  proof (cases "k = i")
    case True
    then show ?thesis using exec_poisoned [OF IH assms(2)] snoc.prems IH by (simp add: ec reopens_def)
  qed (simp add: ec exec_other IH)
qed

text \<open>
  C16. A failed operation is harmless or poisons its coordinator: after any error but a stale or an uncertain
  journal, the journal and every coordinator are exactly as before; after one of those two, the coordinator
  keeps its state, asks for manual recovery, and until it is opened again refuses every operation without
  touching the journal.
\<close>

theorem failed_operation_is_contained:
  assumes "exec_update cr env (i, call) sy = (Some (Inl e), sy')" "\<not> opens call"
  shows "if plain_error e then sy' = sy
    else \<exists>c c'. sy_coordinators sy i = Some c \<and> sy_coordinators sy' i = Some c' \<and> uc_state c' = uc_state c
      \<and> resume_decision c' = ManualRecoveryRequired \<and> requires_recovery c'
      \<and> (\<forall>hist env' call'. \<not> reopens i hist \<and> \<not> opens call'
          \<longrightarrow> (let later = run_calls (exec_update cr) hist sy'
              in sy_coordinators later i = Some c' \<and> snd (exec_update cr env' (i, call') later) = later
                \<and> \<not> committed (fst (exec_update cr env' (i, call') later))))"
  using assms(2)
proof (cases rule: exec_commit_form [where cr = cr and env = env and i = i and sy = sy])
  case (unattempted r)
  then show ?thesis using assms(1) by auto
next
  case (commits decide issued)
  then obtain c where c: "sy_coordinators sy i = Some c"
    using assms(1) by (auto simp: with_coordinator_def split: option.splits)
  obtain c' f' where out: "commit_candidate env decide issued (c, sy_journal sy) = (Inl e, c', f')"
    and sy': "sy' = \<lparr> sy_journal = f', sy_coordinators = (sy_coordinators sy)(i \<mapsto> c') \<rparr>"
    using assms(1) commits(2) c by (auto simp: with_coordinator_def split: prod.splits)
  have cases: "plain_error e \<and> c' = c \<and> f' = sy_journal sy
      \<or> \<not> plain_error e \<and> (\<exists>why. c' = c\<lparr> uc_uncertain := Some why \<rparr>)"
    using commit_candidate_cases [of decide c env issued "sy_journal sy", OF commits(1)]
    by (auto simp: out commit_fails_def commit_writes_def)
  show ?thesis
  proof (cases "plain_error e")
    case True
    then show ?thesis using cases c by (simp add: sy' fun_upd_idem)
  next
    case False
    then obtain why where c': "c' = c\<lparr> uc_uncertain := Some why \<rparr>" using cases by blast
    have i: "sy_coordinators sy' i = Some c'" "uc_uncertain c' = Some why" by (simp_all add: sy' c')
    show ?thesis
      using False c i run_poisoned [OF i] exec_poisoned [OF run_poisoned [OF i] i(2)]
      by (auto simp: c' resume_decision_def requires_recovery_def Let_def)
  qed
qed

text \<open>After a success the coordinator, the journal and its generation agree.\<close>

lemma exec_ok_synced:
  assumes inv: "update_inv sy" and ok: "exec_update cr env (i, call) sy = (Some (Inr ()), sy')"
  shows "\<exists>c. sy_coordinators sy' i = Some c \<and> durable (sy_journal sy') = uc_state c
    \<and> journal_generation_of env IoStatCommitted (sy_journal sy') = Inr (uc_generation c)"
proof (cases "opens call")
  case False
  then show ?thesis
  proof (cases rule: exec_commit_form [where cr = cr and env = env and i = i and sy = sy])
    case (unattempted r)
    then show ?thesis using ok by auto
  next
    case (commits decide issued)
    then obtain c c' f' where out: "commit_candidate env decide issued (c, sy_journal sy) = (Inr (), c', f')"
      and sy': "sy' = \<lparr> sy_journal = f', sy_coordinators = (sy_coordinators sy)(i \<mapsto> c') \<rparr>"
      using ok by (auto simp: with_coordinator_def split: option.splits prod.splits)
    have "\<exists>candidate. f' = Some (written env candidate) \<and> uc_state c' = candidate
        \<and> journal_generation_of env IoStatCommitted f' = Inr (uc_generation c')"
      using commit_candidate_cases [of decide c env issued "sy_journal sy", OF commits(1)]
      by (auto simp: out commit_fails_def commit_writes_def)
    moreover have "update_inv sy'" using update.inv_exec [OF inv, of cr env "(i, call)"] by (simp add: ok)
    then have "coordinator_ok c'" using fun_upd_same [of "sy_coordinators sy" i "Some c'"]
      unfolding update_inv_def sy' update_system.select_convs by blast
    ultimately show ?thesis by (auto simp: sy' coordinator_ok_def)
  qed
next
  case True
  then obtain p u t where call: "call = UOpen p u t" by (cases call) simp_all
  then obtain c f' where o1: "update_open env p u t (sy_journal sy) = (Inr c, f')"
    and sy': "sy' = \<lparr> sy_journal = f', sy_coordinators = (sy_coordinators sy)(i \<mapsto> c) \<rparr>"
    using ok by (auto split: prod.splits sum.splits)
  have "journal_ok (sy_journal sy)" using inv by (simp add: update_inv_def)
  then have "durable f' = uc_state c \<and> journal_generation_of env IoStatCommitted f' = Inr (uc_generation c)"
  proof (cases rule: update_open_cases [where env = env and policy = p and ru = u and rt = t])
    case (binds u' t')
    then show ?thesis using o1 bound_state_ok [OF binds(4,1,2)] by (auto simp: open_finish_def result_simps)
  qed (use o1 in \<open>auto simp: open_finish_def result_simps\<close>)
  then show ?thesis by (simp add: sy')
qed

text \<open>A restart: the calls that only read answer, and the lock is free.\<close>

definition quiet_env :: "update_env \<Rightarrow> bool" where
  "quiet_env env \<longleftrightarrow> ue_fault env IoStatLoad = None \<and> ue_fault env IoReadLoad = None \<and> ue_fault env IoStatCommitted = None
     \<and> acquire_exclusive (ue_path env) (ue_lock env) = Inr ()"

lemma reopen_synced:
  assumes jok: "journal_ok f" and c: "coordinator_ok c" "durable f = uc_state c"
    and gen: "journal_generation_of env IoStatCommitted f = Inr (uc_generation c)" and quiet: "quiet_env env'"
  shows "update_open env' p (uc_update_id c) (uc_target_id c) f = (Inr \<lparr> uc_state = uc_state c, uc_policy = p,
    uc_update_id = uc_update_id c, uc_target_id = uc_target_id c, uc_generation = uc_generation c, uc_uncertain = None \<rparr>, f)"
proof -
  obtain j s where j: "f = Some j" "state_ok s" "jf_bytes j = serialize_journal s"
    using jok gen by (auto simp: journal_generation_of_def result_simps journal_ok_def)
  then have s: "s = uc_state c" using c(2) by (simp add: durable_def state_ok_parse)
  have ids: "us_update_id s = Some (uc_update_id c)" "us_target_id s = Some (uc_target_id c)"
    using c(1) s by (simp_all add: coordinator_ok_def)
  have texts: "ident_text (uc_update_id c)" "ident_text (uc_target_id c)"
    using j(2) ids by (simp_all add: state_ok_def texts_ok_def)
  have "validate_journal_metadata (jf_meta j) = Inr ()"
    using gen j(1) by (auto simp: journal_generation_of_def result_simps)
  then have load: "journal_load env' f = Inr s"
    using quiet j state_ok_parse [OF j(2)] serialize_journal_length [OF j(2)]
    by (simp add: journal_load_def quiet_env_def update_io_result_def)
  have gen': "journal_generation_of env' IoStatCommitted f = Inr (uc_generation c)"
    using gen quiet by (auto simp: journal_generation_of_def result_simps quiet_env_def update_io_result_def)
  have "validate_persisted_state s = Inr ()" using j(2) by (simp add: state_ok_def)
  then show ?thesis
    using quiet load gen' ids texts s by (simp add: update_open_def quiet_env_def ident_text_ok Let_def)
qed

text \<open>
  C17. What an operation committed survives a restart: after any accepted call, a coordinator that opens the
  journal for the same update and target, in an environment whose reads answer and whose lock is free, has the
  state and the generation of the coordinator that committed, and leaves the journal as it is.
\<close>

theorem committed_state_survives_restart:
  assumes "exec_update cr env (i, call) (reached cr hist) = (Some (Inr ()), sy)" and "sy_coordinators sy i = Some c"
    and "quiet_env env'"
  shows "update_open env' p (uc_update_id c) (uc_target_id c) (sy_journal sy) = (Inr \<lparr> uc_state = uc_state c,
    uc_policy = p, uc_update_id = uc_update_id c, uc_target_id = uc_target_id c, uc_generation = uc_generation c,
    uc_uncertain = None \<rparr>, sy_journal sy)"
proof -
  have "update_inv sy" using update.inv_exec [OF reached_inv, of cr env "(i, call)" cr hist] assms(1) by simp
  then show ?thesis
    using exec_ok_synced [OF reached_inv assms(1)] assms(2) by (intro reopen_synced [OF _ _ _ _ assms(3)]) (auto simp: update_inv_def)
qed

section \<open>Freshness\<close>

lemma saturating_sub_unat: "unat (saturating_sub a b) = unat a - unat b"
  by (simp add: saturating_sub_def word_le_nat_alt unat_sub)

lemma freshness_window:
  "issued < started \<or> issued > saturating_add now skew \<or> saturating_sub now issued > age
     \<longleftrightarrow> \<not> (unat started \<le> unat issued \<and> unat issued \<le> unat now + unat skew \<and> unat now \<le> unat issued + unat age)"
  for issued started now skew age :: u64
  using unat_saturating_add [of now skew] unat_lt_64 [of issued]
  by (auto simp: word_less_nat_alt saturating_sub_unat)

text \<open>
  C39. Package evidence is accepted exactly in its window: the clock is readable, the receipt was issued no
  earlier than the journal's dispatch was committed, at most thirty seconds ahead of the clock, and at most
  fifteen minutes before it; no wrap-around or saturation at the ends of the 64-bit range changes this.
\<close>

theorem package_freshness_exact:
  "validate_package_evidence_freshness clock issued started = Inr () \<longleftrightarrow>
     0 \<le> clock \<and> clock div 1000000 < 2 ^ 64
     \<and> uint started \<le> uint issued
     \<and> uint issued \<le> clock div 1000000 + 30 * 1000
     \<and> clock div 1000000 \<le> uint issued + 15 * 60 * 1000"
proof (cases "0 \<le> clock \<and> clock div 1000000 < 2 ^ 64")
  case True
  define now :: u64 where "now = word_of_int (clock div 1000000)"
  have now: "uint now = clock div 1000000" unfolding now_def using True by (subst uint_word_of_int_eq) (simp add: take_bit_eq_mod mod_pos_pos_trivial pos_imp_zdiv_nonneg_iff)
  have "system_time_to_unix_ms clock = Inr now" using True by (simp add: system_time_to_unix_ms_def now_def)
  then have "validate_package_evidence_freshness clock issued started = Inr () \<longleftrightarrow>
      unat started \<le> unat issued \<and> unat issued \<le> unat now + 30000 \<and> unat now \<le> unat issued + 900000"
    unfolding validate_package_evidence_freshness_def
    by (auto simp: freshness_window PACKAGE_VERIFICATION_FUTURE_SKEW_MS_def PACKAGE_VERIFICATION_MAX_AGE_MS_def)
  then show ?thesis using True by (simp add: now [symmetric] uint_nat del: of_nat_unat) linarith
next
  case False
  then show ?thesis by (auto simp: validate_package_evidence_freshness_def system_time_to_unix_ms_def result_simps)
qed

section \<open>The producer and the verifier agree\<close>

lemma issued_evidence_ok:
  assumes "issued_evidence clock u t tx obs generation = Inr e"
  shows "evidence_valid e" "pe_kind e = EvidencePackageVerification" "pe_source e = V09_UPDATE_EVIDENCE_PRODUCER_ID"
    "pe_result e = ''verified''" "normalize_identifier l u = Inr (pe_update_id e)" "normalize_identifier l t = Inr (pe_target_id e)"
    "normalize_identifier l tx = Inr (pe_subject_id e)" "normalize_identifier l obs = Inr (pe_proof_id e)"
    "\<exists>g. pe_dispatch_generation e = Some g \<and> normalize_identifier l generation = Inr g"
    "\<exists>n. pe_issued_unix_ms e = Some n \<and> system_time_to_unix_ms clock = Inr n"
proof -
  have "normalize_identifier [] V09_UPDATE_EVIDENCE_PRODUCER_ID = Inr V09_UPDATE_EVIDENCE_PRODUCER_ID"
    "normalize_identifier [] ''verified'' = Inr ''verified''" by code_simp+
  note src = this [THEN normalize_identifier_text]
  show "evidence_valid e" "pe_kind e = EvidencePackageVerification" "pe_source e = V09_UPDATE_EVIDENCE_PRODUCER_ID"
    "pe_result e = ''verified''" "normalize_identifier l u = Inr (pe_update_id e)" "normalize_identifier l t = Inr (pe_target_id e)"
    "normalize_identifier l tx = Inr (pe_subject_id e)" "normalize_identifier l obs = Inr (pe_proof_id e)"
    "\<exists>g. pe_dispatch_generation e = Some g \<and> normalize_identifier l generation = Inr g"
    "\<exists>n. pe_issued_unix_ms e = Some n \<and> system_time_to_unix_ms clock = Inr n"
    using assms normalize_identifier_text src
    by (auto simp: issued_evidence_def result_simps evidence_valid_def normalize_identifier_ok)
qed

text \<open>
  C38. What the producer issues, the verifier accepts: once a package receipt is issued, a verifier that opened
  the same root and key and reads the file the producer wrote returns the receipt for exactly the issued
  identities, provided the digests are 32 bytes and the issue time is in the freshness window.
\<close>

theorem issued_receipt_verifies:
  assumes hash: "\<And>m. length (sha256 cr m) = 32"
    and issue: "issue_package_verification cr issue_env (ev_key v) receipt_id u t tx observation generation files = (Inr (), files')"
    and root: "ev_root v = V09_UPDATE_EVIDENCE_ROOT"
    and filed: "files' (path_join V09_UPDATE_EVIDENCE_ROOT (trim receipt_id @ ''.receipt'')) = Some bs"
    and readable: "receipt_readable v (ue_receipts env (path_join V09_UPDATE_EVIDENCE_ROOT (trim receipt_id @ ''.receipt''))) bs"
    and time: "system_time_to_unix_ms (ie_clock issue_env) = Inr issued"
      "validate_package_evidence_freshness (ue_clock env) issued started = Inr ()"
  shows "verify_package cr env v receipt_id u t tx generation started = Inr \<lparr> pr_receipt_id = trim receipt_id,
    pr_update_id = trim u, pr_target_id = trim t, pr_transaction_id = trim tx, pr_observation_id = trim observation,
    pr_dispatch_generation = trim generation, pr_issued_unix_ms = issued \<rparr>"
proof -
  obtain e where rid: "normalize_identifier ''evidence receipt id'' receipt_id = Inr (trim receipt_id)"
    and e: "issued_evidence (ie_clock issue_env) u t tx observation generation = Inr e"
    and files': "files' = files(path_join V09_UPDATE_EVIDENCE_ROOT (trim receipt_id @ ''.receipt'') \<mapsto> serialize_evidence cr (ev_key v) e)"
    using issue
    by (auto simp: issue_package_verification_def result_simps normalize_identifier_ok Let_def
        split: sum.splits prod.splits)
  note ev = issued_evidence_ok [OF e]
  have bs: "bs = serialize_evidence cr (ev_key v) e" using filed files' by simp
  have "read_receipt cr (ue_receipts env) v (trim receipt_id) = parse_evidence cr (ev_key v) bs"
    using readable root evidence_length [OF ev(1) hash] by (intro read_receipt_readable) (simp_all add: bs)
  also have "\<dots> = Inr e" unfolding bs by (rule parse_serialize_evidence [OF ev(1) hash])
  finally have read: "read_receipt cr (ue_receipts env) v (trim receipt_id) = Inr e" .
  obtain g where g: "pe_dispatch_generation e = Some g" "\<And>l. normalize_identifier l generation = Inr g"
    using ev(9) by (metis normalize_identifier_ok)
  have issued: "pe_issued_unix_ms e = Some issued" using ev(10) time(1) by auto
  have obs: "ident_text (pe_proof_id e)" "pe_proof_id e = trim observation"
    using ev(1) ev(8) [of "[]"] by (simp_all add: evidence_valid_def normalize_identifier_ok)
  have ids: "trim u = pe_update_id e" "trim t = pe_target_id e" "trim tx = pe_subject_id e" "trim generation = g"
    using ev(5-7) [of "[]"] g(2) [of "[]"] by (simp_all add: normalize_identifier_ok)
  show ?thesis
    by (simp add: verify_package_def rid ev(2-7) read g issued time(2) ident_text_ok [OF obs(1)] ids obs(2) [symmetric])
qed

section \<open>The run of the example\<close>

lemma demo_reached: "reached demo_hashes demo_until_prepared = demo_system demo_prepared"
  "reached demo_hashes demo_until_migrating = demo_system demo_migrating"
  by (simp_all add: reached_def demo_run_prepared demo_run_migrating)

lemma journal_state_demo: "state_ok s \<Longrightarrow> journal_state (demo_system s) = s"
  by (simp add: journal_state_def demo_system_def)

theorem migrations_need_verified_dispatch_witness:
  "us_stage (journal_state (reached demo_hashes demo_until_migrating)) = Migrations
   \<and> dispatched_and_verified demo_hashes demo_until_migrating (journal_state (reached demo_hashes demo_until_migrating))"
proof -
  have "us_stage (journal_state (reached demo_hashes demo_until_migrating)) = Migrations"
    by (simp add: demo_reached journal_state_demo demo_states_ok) (simp add: demo_migrating_def)
  then show ?thesis
    using migrations_need_verified_dispatch [of demo_hashes demo_until_migrating] by (simp add: post_package_def)
qed

theorem dispatch_at_most_once_witness:
  "committed (fst (exec_update demo_hashes quiet (0, UDispatch) (reached demo_hashes demo_until_prepared)))
   \<and> \<not> committed (fst (exec_update demo_hashes quiet (0, UDispatch)
        (reached demo_hashes (demo_until_prepared @ (quiet, 0, UDispatch) # []))))"
proof -
  have "committed (fst (exec_update demo_hashes quiet (0, UDispatch) (reached demo_hashes demo_until_prepared)))"
    by (simp add: demo_reached demo_dispatch_started del: exec_update.simps)
  with dispatch_at_most_once [OF this refl, of quiet 0 "[]"] show ?thesis by blast
qed

theorem snapshot_policy_enforced_witness:
  "us_stage (journal_state (reached demo_hashes demo_until_prepared)) = PackageTransaction
   \<and> snapshot_recorded demo_hashes demo_until_prepared (journal_state (reached demo_hashes demo_until_prepared))"
proof -
  have "us_stage (journal_state (reached demo_hashes demo_until_prepared)) = PackageTransaction"
    by (simp add: demo_reached journal_state_demo demo_states_ok) (simp add: demo_prepared_def)
  moreover have "snapshots_required demo_until_prepared"
    by (simp add: snapshots_required_def demo_until_prepared_def demo_open_def demo_record_snapshot_def update_policy_default_def)
  ultimately show ?thesis
    using snapshot_policy_enforced [of demo_until_prepared demo_hashes] by (simp add: in_package_def)
qed

theorem failed_operation_is_contained_witness:
  "\<exists>sy'. exec_update demo_hashes unsynced_env (0, UDispatch) (demo_system demo_prepared)
       = (Some (Inl (DurabilityUncertain unsynced_reason)), sy')
     \<and> (\<exists>c'. sy_coordinators sy' 0 = Some c' \<and> resume_decision c' = ManualRecoveryRequired)"
  using failed_operation_is_contained [OF demo_dispatch_unsynced, of demo_hashes] demo_dispatch_unsynced [of demo_hashes]
  by (auto simp del: exec_update.simps)

theorem committed_state_survives_restart_witness:
  "fst (exec_update demo_hashes quiet (0, UDispatch) (reached demo_hashes demo_until_prepared)) = Some (Inr ())
   \<and> fst (update_open quiet update_policy_default ''u1'' ''t1'' (Some (demo_journal demo_dispatched)))
      = Inr (demo_coordinator demo_dispatched)"
proof -
  have step: "exec_update demo_hashes quiet (0, UDispatch) (reached demo_hashes demo_until_prepared)
      = (Some (Inr ()), demo_system demo_dispatched)"
    by (simp add: demo_reached demo_dispatch_started del: exec_update.simps)
  have "quiet_env quiet" using calm_lock [of "[]"] by (simp add: quiet_env_def quiet_def calm_env_def)
  from committed_state_survives_restart [OF step _ this, of "demo_coordinator demo_dispatched" update_policy_default] step
  show ?thesis by (simp add: demo_system_def demo_coordinator_def)
qed

definition demo_issue_env :: issue_env where
  "demo_issue_env = \<lparr> ie_clock = 1000000000000, ie_remove = Inr (), ie_create = Inr (), ie_write = Inr (), ie_written = 0,
     ie_sync = Inr (), ie_sync_root = Inr () \<rparr>"

theorem issued_receipt_verifies_witness:
  "\<exists>bs. snd (issue_package_verification demo_hashes demo_issue_env (ev_key demo_verifier) ''r2'' ''u1'' ''t1'' ''x1'' ''o1''
        ''x1'' Map.empty) (path_join V09_UPDATE_EVIDENCE_ROOT ''r2.receipt'') = Some bs
     \<and> (\<exists>r. verify_package demo_hashes (calm_env bs) demo_verifier ''r2'' ''u1'' ''t1'' ''x1'' ''x1'' 1000000 = Inr r
          \<and> pr_transaction_id r = ''x1'')"
proof -
  let ?issue = "issue_package_verification demo_hashes demo_issue_env (ev_key demo_verifier) ''r2'' ''u1'' ''t1'' ''x1'' ''o1''
        ''x1'' Map.empty"
  let ?path = "path_join V09_UPDATE_EVIDENCE_ROOT (trim ''r2'' @ ''.receipt'')"
  have trims: "trim ''r2'' = ''r2''" "trim ''u1'' = ''u1''" "trim ''t1'' = ''t1''" "trim ''x1'' = ''x1''" "trim ''o1'' = ''o1''"
    using demo_idents by (simp_all add: ident_text_def)
  have time: "system_time_to_unix_ms (ie_clock demo_issue_env) = Inr 1000000"
    by (simp add: demo_issue_env_def system_time_to_unix_ms_def)
  obtain bs where bs: "snd ?issue ?path = Some bs" and ok: "fst ?issue = Inr ()"
    by (simp add: issue_package_verification_def issued_evidence_def ident_text_ok time Let_def trims)
      (simp add: demo_issue_env_def io_error_def)
  have "verify_package demo_hashes (calm_env bs) demo_verifier ''r2'' ''u1'' ''t1'' ''x1'' ''x1'' 1000000
      = Inr \<lparr> pr_receipt_id = trim ''r2'', pr_update_id = trim ''u1'', pr_target_id = trim ''t1'',
          pr_transaction_id = trim ''x1'', pr_observation_id = trim ''o1'', pr_dispatch_generation = trim ''x1'',
          pr_issued_unix_ms = 1000000 \<rparr>"
  proof (rule issued_receipt_verifies [where issue_env = demo_issue_env and files = Map.empty and files' = "snd ?issue" and bs = bs,
        OF demo_hashes_length _ _ _ _ time demo_freshness(1)])
    show "snd ?issue ?path = Some bs" by (rule bs)
    show "?issue = (Inr (), snd ?issue)" using ok by (metis prod.collapse)
    show "ev_root demo_verifier = V09_UPDATE_EVIDENCE_ROOT" by (simp add: demo_verifier_def)
    show "receipt_readable demo_verifier (ue_receipts (calm_env bs) ?path) bs"
      using demo_receipt_readable by (simp add: calm_env_def)
  qed
  then show ?thesis using bs by (simp add: trims)
qed

end
