(* ===== verification/Observation_Control.thy ===== *)
theory Observation_Control
  imports Graph
begin

text \<open>
  \<open>crates/linura-observation-control/src/lib.rs\<close>: the coordinator of authoritative observations, with the
  requests and answers of \<open>crates/linura-protocol/src/lib.rs\<close> and the \<open>Observer\<close> interface of
  \<open>crates/linura-provider-sdk/src/provider_contract.rs\<close>. An observer is a record of what its methods
  answer at each moment, so that every probe may answer differently; the system clock is an argument.
\<close>

section \<open>Observers and requests\<close>

text \<open>A reading of \<open>SystemTime::now().duration_since(UNIX_EPOCH)\<close>, in whole milliseconds.\<close>

datatype system_time = BeforeEpoch | SinceEpoch nat

datatype provider_error =
    ErrUnsupported string | ErrUnavailable string | ErrInvalidState string | ErrInternal string

fun provider_error_text :: "provider_error \<Rightarrow> string" where
  "provider_error_text (ErrUnsupported detail) = ''provider unsupported: '' @ detail"
| "provider_error_text (ErrUnavailable detail) = ''provider unavailable: '' @ detail"
| "provider_error_text (ErrInvalidState detail) = ''provider invalid state: '' @ detail"
| "provider_error_text (ErrInternal detail) = ''provider internal error: '' @ detail"

record observer =
  observer_id :: provider_id
  observation_capabilities :: "nat \<Rightarrow> capability list"
  observer_health :: "nat \<Rightarrow> provider_health"
  requires_live_health_preflight :: "nat \<Rightarrow> bool"
  supports_observation :: "nat \<Rightarrow> capability_id \<Rightarrow> bool"
  observe_authoritative :: "nat \<Rightarrow> resource_id \<Rightarrow> capability_id \<Rightarrow> provider_error + observation_envelope"

record observation_request =
  oreq_provider :: provider_id
  oreq_resource :: resource_id
  oreq_capability :: capability_id

record observation_response =
  ores_observation :: observation_envelope
  ores_freshness :: freshness_state

record provider_snapshot =
  psnap_providers :: "provider_health list"
  psnap_capabilities :: "capability list"

record observation_explanation =
  oexp_resource :: resource_id
  oexp_provider :: provider_id
  oexp_capability :: capability_id
  oexp_freshness :: freshness_state
  oexp_evidence_id :: string
  oexp_authority :: string

section \<open>The coordinator\<close>

definition DEFAULT_OBSERVATION_HISTORY_PER_RESOURCE :: nat where
  "DEFAULT_OBSERVATION_HISTORY_PER_RESOURCE = 64"

definition DEFAULT_OBSERVED_RESOURCE_LIMIT :: nat where
  "DEFAULT_OBSERVED_RESOURCE_LIMIT = 4096"

datatype observation_control_error =
    DuplicateProvider provider_id
  | InvalidHistoryLimit nat
  | InvalidResourceLimit nat
  | RetentionOrderExhausted
  | ProviderIdentityMismatch provider_id provider_id
  | CapabilityProviderMismatch provider_id capability_id
  | UnknownProvider provider_id
  | ProviderUnavailable provider_id "string option"
  | UnsupportedCapability provider_id capability_id
  | ObservationProvider provider_error
  | ObservationInvalid observation_validation_error
  | ObservationClock string
  | SupersededEvidence resource_id string
  | ObservationUnavailable resource_id

fun observation_control_error_text :: "observation_control_error \<Rightarrow> string" where
  "observation_control_error_text (DuplicateProvider provider) =
     ''observer '' @ provider @ '' is already registered''"
| "observation_control_error_text (InvalidHistoryLimit n) =
     ''observation history limit must be greater than zero, got '' @ nat_to_dec n"
| "observation_control_error_text (InvalidResourceLimit n) =
     ''observed resource limit must be greater than zero, got '' @ nat_to_dec n"
| "observation_control_error_text RetentionOrderExhausted = ''observation retention order exhausted''"
| "observation_control_error_text (ProviderIdentityMismatch expected actual) =
     ''observer identity mismatch: expected '' @ expected @ '', got '' @ actual"
| "observation_control_error_text (CapabilityProviderMismatch provider capability) =
     ''capability '' @ capability @ '' is not bound to observer '' @ provider"
| "observation_control_error_text (UnknownProvider provider) = ''unknown observation provider '' @ provider"
| "observation_control_error_text (ProviderUnavailable provider reason) =
     ''observation provider '' @ provider @ '' is unavailable''
       @ (case reason of None \<Rightarrow> [] | Some r \<Rightarrow> '': '' @ r)"
| "observation_control_error_text (UnsupportedCapability provider capability) =
     ''provider '' @ provider @ '' does not support observation capability '' @ capability"
| "observation_control_error_text (ObservationProvider e) = provider_error_text e"
| "observation_control_error_text (ObservationInvalid e) = observation_validation_error_text e"
| "observation_control_error_text (ObservationClock reason) = ''observation clock failed: '' @ reason"
| "observation_control_error_text (SupersededEvidence resource evidence) =
     ''observation '' @ evidence @ '' for '' @ resource @ '' is older than the current authoritative state''"
| "observation_control_error_text (ObservationUnavailable resource) =
     ''no authoritative observation is available for '' @ resource"

record observation_coordinator =
  oc_observers :: "(provider_id, observer) btree_map"
  oc_graph :: system_graph
  oc_latest :: "(resource_id, observation_envelope) btree_map"
  oc_history :: "(resource_id, (u64, observation_envelope) btree_map) btree_map"
  oc_last_seen :: "(resource_id, u64) btree_map"
  oc_max_evidence :: nat
  oc_max_resources :: nat
  oc_retention_order :: u64

definition coordinator_new :: observation_coordinator where
  "coordinator_new = \<lparr> oc_observers = [], oc_graph = graph_default, oc_latest = [], oc_history = [],
     oc_last_seen = [], oc_max_evidence = DEFAULT_OBSERVATION_HISTORY_PER_RESOURCE,
     oc_max_resources = DEFAULT_OBSERVED_RESOURCE_LIMIT, oc_retention_order = 0 \<rparr>"

definition with_limits :: "nat \<Rightarrow> nat \<Rightarrow> observation_control_error + observation_coordinator" where
  "with_limits max_resources max_evidence =
     (if max_resources = 0 then Inl (InvalidResourceLimit max_resources)
      else if max_evidence = 0 then Inl (InvalidHistoryLimit max_evidence)
      else Inr \<lparr> oc_observers = [], oc_graph = graph_default, oc_latest = [], oc_history = [],
        oc_last_seen = [], oc_max_evidence = max_evidence, oc_max_resources = max_resources,
        oc_retention_order = 0 \<rparr>)"

definition with_history_limit :: "nat \<Rightarrow> observation_control_error + observation_coordinator" where
  "with_history_limit max_evidence = with_limits DEFAULT_OBSERVED_RESOURCE_LIMIT max_evidence"

definition current_unix_ms :: "system_time \<Rightarrow> observation_control_error + u64" where
  "current_unix_ms clock =
     (case clock of
        BeforeEpoch \<Rightarrow> Inl (ObservationClock ''second time provided was later than self'')
      | SinceEpoch ms \<Rightarrow>
          if ms < 2 ^ 64 then Inr (word_of_nat ms)
          else Inl (ObservationClock ''Unix timestamp exceeds u64 milliseconds''))"

definition validate_observer_identity ::
  "nat \<Rightarrow> observer \<Rightarrow> provider_id \<Rightarrow> observation_control_error + unit" where
  "validate_observer_identity t ob expected =
     (let health = observer_health ob t in
      if health_provider health \<noteq> expected
      then Inl (ProviderIdentityMismatch expected (health_provider health))
      else for_each (observation_capabilities ob t) (\<lambda>capability.
        if cap_provider capability \<noteq> Some expected
        then Inl (CapabilityProviderMismatch expected (cap_id capability)) else Inr ()))"

definition register_observer ::
  "nat \<Rightarrow> observer \<Rightarrow> observation_coordinator
     \<Rightarrow> (observation_control_error + unit) \<times> observation_coordinator" where
  "register_observer t ob c =
     (let provider = observer_id ob in
      if bt_contains (oc_observers c) provider then (Inl (DuplicateProvider provider), c)
      else case validate_observer_identity t ob provider of
          Inl e \<Rightarrow> (Inl e, c)
        | Inr _ \<Rightarrow> (Inr (), c\<lparr> oc_observers := bt_insert provider ob (oc_observers c) \<rparr>))"

text \<open>\<open>Option<&str>::cmp\<close> has \<open>None\<close> first.\<close>

definition capability_key :: "capability \<Rightarrow> string \<times> nat \<times> string" where
  "capability_key c = (cap_id c, case cap_provider c of None \<Rightarrow> (0, []) | Some p \<Rightarrow> (1, p))"

text \<open>Each observer is probed twice, once to validate it and once for the answer.\<close>

definition coordinator_provider_snapshot ::
  "nat \<Rightarrow> observation_coordinator \<Rightarrow> observation_control_error + provider_snapshot" where
  "coordinator_provider_snapshot t c =
     and_then (for_each (oc_observers c) (\<lambda>(provider, ob). validate_observer_identity t ob provider)) (\<lambda>_.
     Inr \<lparr> psnap_providers = sort_key health_provider
             (map (\<lambda>(_, ob). observer_health ob (t + 1)) (oc_observers c)),
           psnap_capabilities = sort_key capability_key
             (concat (map (\<lambda>(_, ob). observation_capabilities ob (t + 1)) (oc_observers c))) \<rparr>)"

section \<open>Observing\<close>

definition next_retention_order ::
  "observation_coordinator \<Rightarrow> (observation_control_error + u64) \<times> observation_coordinator" where
  "next_retention_order c =
     (case checked_add (oc_retention_order c) 1 of
        None \<Rightarrow> (Inl RetentionOrderExhausted, c)
      | Some n \<Rightarrow> (Inr n, c\<lparr> oc_retention_order := n \<rparr>))"

text \<open>The loop that drops the oldest envelopes other than the one the resource node shows.\<close>

definition evictable :: "string option \<Rightarrow> observation_envelope \<Rightarrow> bool" where
  "evictable current envelope = (case current of None \<Rightarrow> True | Some i \<Rightarrow> evidence_id envelope \<noteq> i)"

function evict_history ::
  "nat \<Rightarrow> string option \<Rightarrow> (u64, observation_envelope) btree_map \<Rightarrow> string list
     \<Rightarrow> (u64, observation_envelope) btree_map \<times> string list" where
  "evict_history limit current history evicted =
     (if length history \<le> limit then (history, evicted)
      else case find (\<lambda>(_, envelope). evictable current envelope) history of
          None \<Rightarrow> (history, evicted)
        | Some (order, envelope) \<Rightarrow>
            evict_history limit current (bt_remove order history) (evicted @ [evidence_id envelope]))"
  by auto

lemma length_bt_remove_less: "(k, v) \<in> set m \<Longrightarrow> length (bt_remove k m) < length m"
  by (auto simp: bt_remove_def intro!: length_filter_less [of "(k, v)"])

lemma find_mem: "find P xs = Some x \<Longrightarrow> x \<in> set xs \<and> P x"
  by (auto simp: find_Some_iff)

termination evict_history
proof (relation "measure (\<lambda>(_, _, h, _). length h)")
  fix limit :: nat and current and h :: "(u64, observation_envelope) btree_map" and evicted :: "string list" and x k e
  assume "find (\<lambda>(_, envelope). evictable current envelope) h = Some x" "(k, e) = x"
  then have "(k, e) \<in> set h" using find_mem by fast
  then show "((limit, current, bt_remove k h, evicted @ [evidence_id e]), (limit, current, h, evicted))
      \<in> measure (\<lambda>(_, _, h, _). length h)"
    by (simp add: length_bt_remove_less)
qed simp

text \<open>\<open>min_by_key\<close> answers the first of several least elements.\<close>

fun least_recent :: "('k \<times> u64) list \<Rightarrow> ('k \<times> u64) option" where
  "least_recent [] = None"
| "least_recent (e # es) =
     (case least_recent es of None \<Rightarrow> Some e | Some m \<Rightarrow> Some (if snd e \<le> snd m then e else m))"

definition remove_evidence :: "string list \<Rightarrow> system_graph \<Rightarrow> system_graph" where
  "remove_evidence ids g = foldl (\<lambda>g i. snd (remove_node (EvidenceNode i) g)) g ids"

definition evict_resource :: "resource_id \<Rightarrow> observation_coordinator \<Rightarrow> observation_coordinator" where
  "evict_resource r c =
     (let c = c\<lparr> oc_last_seen := bt_remove r (oc_last_seen c), oc_latest := bt_remove r (oc_latest c) \<rparr>;
          c = (case bt_get (oc_history c) r of
              None \<Rightarrow> c
            | Some history \<Rightarrow> c\<lparr> oc_history := bt_remove r (oc_history c),
                oc_graph := remove_evidence (map (\<lambda>(_, ob). evidence_id ob) history) (oc_graph c) \<rparr>) in
      c\<lparr> oc_graph := snd (remove_node (ResourceNode r) (oc_graph c)) \<rparr>)"

lemma least_recent_None [simp]: "least_recent es = None \<longleftrightarrow> es = []"
  by (cases es) (auto split: option.splits)

lemma least_recent_Some: "least_recent es = Some m \<Longrightarrow> m \<in> set es \<and> (\<forall>e \<in> set es. snd m \<le> snd e)"
  by (induction es arbitrary: m) (auto split: option.splits if_splits)

lemma evict_resource_sel [simp]:
  "oc_last_seen (evict_resource r c) = bt_remove r (oc_last_seen c)"
  "oc_latest (evict_resource r c) = bt_remove r (oc_latest c)"
  "oc_max_resources (evict_resource r c) = oc_max_resources c"
  "oc_max_evidence (evict_resource r c) = oc_max_evidence c"
  "oc_retention_order (evict_resource r c) = oc_retention_order c"
  "oc_observers (evict_resource r c) = oc_observers c"
  by (simp_all add: evict_resource_def Let_def split: option.splits)

function enforce_resource_limit :: "observation_coordinator \<Rightarrow> observation_coordinator" where
  "enforce_resource_limit c =
     (if oc_max_resources c < length (oc_last_seen c)
      then case least_recent (oc_last_seen c) of
          None \<Rightarrow> c
        | Some (r, _) \<Rightarrow> enforce_resource_limit (evict_resource r c)
      else c)"
  by auto
termination enforce_resource_limit
proof (relation "measure (\<lambda>c. length (oc_last_seen c))")
  fix c :: observation_coordinator and m r n
  assume "least_recent (oc_last_seen c) = Some m" "(r, n) = m"
  then have "(r, n) \<in> set (oc_last_seen c)" using least_recent_Some by blast
  then show "(evict_resource r c, c) \<in> measure (\<lambda>c. length (oc_last_seen c))"
    by (simp add: length_bt_remove_less)
qed simp

definition retain_observation_history ::
  "observation_envelope \<Rightarrow> u64 \<Rightarrow> observation_coordinator \<Rightarrow> observation_coordinator" where
  "retain_observation_history observation retention_order c =
     (let resource = env_resource observation;
          current = Option.bind (graph_node (oc_graph c) (ResourceNode resource))
            (\<lambda>n. bt_get (node_attributes n) ''evidence_id'');
          incoming = evidence_id observation;
          history = (case bt_get (oc_history c) resource of None \<Rightarrow> [] | Some h \<Rightarrow> h);
          already_retained = list_ex (\<lambda>(_, existing). evidence_id existing = incoming) history;
          history = (if already_retained then history else bt_insert retention_order observation history);
          (history, evicted) = evict_history (oc_max_evidence c) current history [];
          c = c\<lparr> oc_history := bt_insert resource history (oc_history c),
                 oc_graph := remove_evidence evicted (oc_graph c),
                 oc_last_seen := bt_insert resource retention_order (oc_last_seen c) \<rparr> in
      enforce_resource_limit c)"

text \<open>\<open>observe_with_clock\<close> up to the point where the coordinator changes.\<close>

definition acquire_observation ::
  "nat \<Rightarrow> system_time \<Rightarrow> observation_coordinator \<Rightarrow> observation_request
     \<Rightarrow> observation_control_error + observation_envelope" where
  "acquire_observation t clock c request =
     (let provider = oreq_provider request; resource = oreq_resource request;
          capability = oreq_capability request in
      and_then (ok_or (bt_get (oc_observers c) provider) (UnknownProvider provider)) (\<lambda>ob.
      and_then
        (if requires_live_health_preflight ob t
         then let health = observer_health ob t in
           if health_provider health \<noteq> provider
           then Inl (ProviderIdentityMismatch provider (health_provider health))
           else if health_availability health = Unavailable
           then Inl (ProviderUnavailable provider (health_reason health))
           else Inr ()
         else Inr ()) (\<lambda>_.
      and_then (ensure (supports_observation ob t capability) (UnsupportedCapability provider capability)) (\<lambda>_.
      and_then (map_err (\<lambda>e. case e of
            ErrUnavailable reason \<Rightarrow> ProviderUnavailable provider (Some reason)
          | _ \<Rightarrow> ObservationProvider e) (observe_authoritative ob t resource capability)) (\<lambda>observation.
      and_then (map_err ObservationInvalid
          (envelope_validate observation provider resource capability)) (\<lambda>_.
      and_then (current_unix_ms clock) (\<lambda>now_unix_ms.
      and_then (map_err ObservationInvalid (require_current observation now_unix_ms)) (\<lambda>_.
      Inr observation))))))))"

definition observe_with_clock ::
  "nat \<Rightarrow> system_time \<Rightarrow> observation_request \<Rightarrow> observation_coordinator
     \<Rightarrow> (observation_control_error + observation_response) \<times> observation_coordinator" where
  "observe_with_clock t clock request c =
     (case acquire_observation t clock c request of
        Inl e \<Rightarrow> (Inl e, c)
      | Inr observation \<Rightarrow>
          (case next_retention_order c of
             (Inl e, c) \<Rightarrow> (Inl e, c)
           | (Inr retention_order, c) \<Rightarrow>
               let (outcome, graph) = record_observation observation Current (oc_graph c);
                   c = retain_observation_history observation retention_order (c\<lparr> oc_graph := graph \<rparr>) in
               if outcome = HistoricalEvidenceRetained
               then (Inl (SupersededEvidence (oreq_resource request) (evidence_id observation)), c)
               else (Inr \<lparr> ores_observation = observation, ores_freshness = Current \<rparr>,
                     c\<lparr> oc_latest := bt_insert (oreq_resource request) observation (oc_latest c) \<rparr>)))"

section \<open>Serving what is retained\<close>

definition age_evidence_node :: "u64 \<Rightarrow> system_graph \<Rightarrow> observation_envelope \<Rightarrow> system_graph" where
  "age_evidence_node now_unix_ms graph observation =
     (case graph_node graph (EvidenceNode (evidence_id observation)) of
        None \<Rightarrow> graph
      | Some n \<Rightarrow> upsert_node (n\<lparr> node_attributes := bt_insert ''freshness''
          (freshness_as_str (freshness_at observation now_unix_ms)) (node_attributes n) \<rparr>) graph)"

definition age_resource_node :: "u64 \<Rightarrow> system_graph \<Rightarrow> observation_envelope \<Rightarrow> system_graph" where
  "age_resource_node now_unix_ms graph observation =
     (case graph_node graph (ResourceNode (env_resource observation)) of
        None \<Rightarrow> graph
      | Some n \<Rightarrow>
          if bt_get (node_attributes n) ''evidence_id'' = Some (evidence_id observation)
          then upsert_node (n\<lparr> node_attributes := bt_insert ''freshness''
            (freshness_as_str (freshness_at observation now_unix_ms)) (node_attributes n) \<rparr>) graph
          else graph)"

definition graph_snapshot_at :: "observation_coordinator \<Rightarrow> u64 \<Rightarrow> system_graph" where
  "graph_snapshot_at c now_unix_ms =
     foldl (age_resource_node now_unix_ms)
       (foldl (age_evidence_node now_unix_ms) (oc_graph c) (concat (map (map snd \<circ> snd) (oc_history c))))
       (map snd (oc_latest c))"

definition graph_snapshot :: "system_time \<Rightarrow> observation_coordinator \<Rightarrow> observation_control_error + system_graph" where
  "graph_snapshot clock c = and_then (current_unix_ms clock) (\<lambda>now. Inr (graph_snapshot_at c now))"

definition system_snapshot ::
  "nat \<Rightarrow> system_time \<Rightarrow> observation_coordinator
     \<Rightarrow> observation_control_error + system_graph \<times> provider_snapshot" where
  "system_snapshot t clock c =
     and_then (graph_snapshot clock c) (\<lambda>graph.
     and_then (coordinator_provider_snapshot t c) (\<lambda>providers. Inr (graph, providers)))"

definition latest_observation :: "observation_coordinator \<Rightarrow> resource_id \<Rightarrow> observation_envelope option" where
  "latest_observation c r = bt_get (oc_latest c) r"

definition explain :: "observation_coordinator \<Rightarrow> resource_id \<Rightarrow> u64
    \<Rightarrow> observation_control_error + observation_explanation" where
  "explain c r now_unix_ms =
     and_then (ok_or (latest_observation c r) (ObservationUnavailable r)) (\<lambda>ob.
     Inr \<lparr> oexp_resource = env_resource ob, oexp_provider = env_provider ob,
           oexp_capability = env_capability ob, oexp_freshness = freshness_at ob now_unix_ms,
           oexp_evidence_id = evidence_id ob,
           oexp_authority = observation_authority_as_str (env_authority ob) \<rparr>)"

definition explain_current :: "system_time \<Rightarrow> observation_coordinator \<Rightarrow> resource_id
    \<Rightarrow> observation_control_error + observation_explanation" where
  "explain_current clock c r = and_then (current_unix_ms clock) (\<lambda>now. explain c r now)"

end
