(* ===== verification/Session_Safety.thy ===== *)
theory Session_Safety
  imports Policy Observation
begin

text \<open>
  Safety preconditions over native session evidence in \<open>crates/linura-control/src\<close>: ownership, secure
  coverage and power conditions (\<open>session_safety.rs\<close>), the postconditions of session transitions
  (\<open>session_transition.rs\<close>) and the preconditions of protective locking (\<open>protective_lock_safety.rs\<close>).
  Evidence is given; none of these reviews authorizes anything.
\<close>

section \<open>Authenticated principals\<close>

text \<open>From \<open>plan_preview.rs\<close>, which these reviews take their principals from.\<close>

datatype plan_preview_control_error =
    PreviewInvalidPrincipal string
  | PreviewInvalidRequest string
  | PreviewIdempotencyConflict plan_id
  | PreviewObservation string
  | PreviewPlanning string
  | PreviewReview string
  | PreviewRetention string
  | PreviewNotRetained plan_id

definition MAX_PRINCIPAL_BYTES :: nat where
  "MAX_PRINCIPAL_BYTES = 256"

definition authenticated_principal_new :: "string \<Rightarrow> plan_preview_control_error + string" where
  "authenticated_principal_new v =
     (if trim_is_empty v then Inl (PreviewInvalidPrincipal ''authenticated principal cannot be empty'')
      else if length v > MAX_PRINCIPAL_BYTES
      then Inl (PreviewInvalidPrincipal (''authenticated principal exceeds '' @ nat_to_dec MAX_PRINCIPAL_BYTES
        @ '' UTF-8 bytes''))
      else if has_control v
      then Inl (PreviewInvalidPrincipal ''authenticated principal contains control characters'')
      else Inr v)"

definition owner_principal :: "session_epoch \<Rightarrow> string" where
  "owner_principal epoch = ''unix:uid:'' @ nat_to_dec (unat (ep_uid epoch))"

section \<open>Native evidence\<close>

definition LOGIND_PROVIDER :: string where
  "LOGIND_PROVIDER = ''logind''"

definition LOGIND_CAPABILITY :: string where
  "LOGIND_CAPABILITY = ''session.epoch.observe''"

definition POWER_CAPABILITY :: string where
  "POWER_CAPABILITY = ''session.power.observe''"

definition LOCKER_PROVIDER :: string where
  "LOCKER_PROVIDER = ''session-locker''"

definition LOCKER_CAPABILITY :: string where
  "LOCKER_CAPABILITY = ''session.secure-lock.observe''"

datatype session_safety_error =
    PrincipalMismatch | IdentityMismatch | UntrustedEvidence | ExpiredEvidence | UnsupportedSession
  | UnverifiedScreenCoverage | PowerUnavailable | PowerInhibited | OtherSessionsPresent | TransitionInProgress

fun session_safety_error_text :: "session_safety_error \<Rightarrow> string" where
  "session_safety_error_text PrincipalMismatch = ''session owner differs from the authenticated principal''"
| "session_safety_error_text IdentityMismatch = ''session evidence does not bind the exact current epoch''"
| "session_safety_error_text UntrustedEvidence = ''session evidence is not a qualified native observation''"
| "session_safety_error_text ExpiredEvidence = ''session evidence is expired or from a future clock''"
| "session_safety_error_text UnsupportedSession = ''session state is unsupported, ambiguous or unsafe''"
| "session_safety_error_text UnverifiedScreenCoverage = ''compositor has not verified exact-session secure coverage''"
| "session_safety_error_text PowerUnavailable = ''native power operation is unavailable''"
| "session_safety_error_text PowerInhibited = ''native power operation is inhibited''"
| "session_safety_error_text OtherSessionsPresent = ''machine power operation affects another user session''"
| "session_safety_error_text TransitionInProgress = ''native power transition is already in progress or unknown''"

text \<open>\<open>now.checked_sub(observed).is_none_or(|elapsed| elapsed >= valid_for)\<close>\<close>

definition elapsed_out :: "u64 \<Rightarrow> u64 \<Rightarrow> u64 \<Rightarrow> bool" where
  "elapsed_out now observed valid_for =
     (case checked_sub now observed of None \<Rightarrow> True | Some elapsed \<Rightarrow> valid_for \<le> elapsed)"

definition validate_native_envelope ::
  "observation_envelope \<Rightarrow> string \<Rightarrow> string \<Rightarrow> resource_id \<Rightarrow> u64 \<Rightarrow> session_safety_error + unit" where
  "validate_native_envelope ob provider capability resource now_unix_ms =
     (if env_provider ob \<noteq> provider \<or> env_capability ob \<noteq> capability \<or> env_resource ob \<noteq> resource
      then Inl IdentityMismatch
      else if env_authority ob \<noteq> NativeApi \<or> env_sequence ob = 0 \<or> valid_for_ms ob = 0 \<or> valid_for_ms ob > 2000
      then Inl UntrustedEvidence
      else if elapsed_out now_unix_ms (observed_at_unix_ms ob) (valid_for_ms ob)
      then Inl ExpiredEvidence
      else Inr ())"

definition require_text :: "observation_envelope \<Rightarrow> string \<Rightarrow> string \<Rightarrow> session_safety_error + unit" where
  "require_text ob key expected =
     (case bt_get (env_attributes ob) key of
        Some (ObsText v) \<Rightarrow> if v = expected then Inr () else Inl UnsupportedSession
      | _ \<Rightarrow> Inl UnsupportedSession)"

definition require_u64 :: "observation_envelope \<Rightarrow> string \<Rightarrow> u64 \<Rightarrow> session_safety_error + unit" where
  "require_u64 ob key expected =
     (case bt_get (env_attributes ob) key of
        Some (ObsU64 v) \<Rightarrow> if v = expected then Inr () else Inl IdentityMismatch
      | _ \<Rightarrow> Inl IdentityMismatch)"

definition require_bool :: "observation_envelope \<Rightarrow> string \<Rightarrow> bool \<Rightarrow> session_safety_error + unit" where
  "require_bool ob key expected =
     (case bt_get (env_attributes ob) key of
        Some (ObsBool v) \<Rightarrow> if v = expected then Inr () else Inl UnsupportedSession
      | _ \<Rightarrow> Inl UnsupportedSession)"

definition validate_native_lock ::
  "session_lock_id \<Rightarrow> observation_envelope \<Rightarrow> u64 \<Rightarrow> session_safety_error + bool" where
  "validate_native_lock lock observation now_unix_ms =
     and_then (map_err (\<lambda>_. IdentityMismatch) (session_lock_id_resource_id lock)) (\<lambda>resource.
     and_then (validate_native_envelope observation LOCKER_PROVIDER LOCKER_CAPABILITY resource now_unix_ms) (\<lambda>_.
     let epoch = lock_epoch lock in
     and_then (require_text observation ''boot_id'' (ep_boot epoch)) (\<lambda>_.
     and_then (require_text observation ''session_id'' (ep_session_id epoch)) (\<lambda>_.
     and_then (require_u64 observation ''uid'' (ucast (ep_uid epoch))) (\<lambda>_.
     and_then (require_u64 observation ''created_monotonic_us'' (ep_created_monotonic_us epoch)) (\<lambda>_.
     and_then (require_u64 observation ''lock_generation'' (lock_generation lock)) (\<lambda>_.
     and_then (map_err (\<lambda>_. IdentityMismatch)
       (require_text observation ''security_owner_invocation'' (lock_security_owner_invocation lock))) (\<lambda>_.
     and_then (require_text observation ''lock_protocol'' ''ext-session-lock-v1'') (\<lambda>_.
     case bt_get (env_attributes observation) ''secure'' of
       Some (ObsBool v) \<Rightarrow> Inr v
     | _ \<Rightarrow> Inl UnverifiedScreenCoverage)))))))))"

section \<open>Ownership and coverage\<close>

datatype session_action =
  ActionLock | ActionUnlock | ActionSuspend | ActionLogout | ActionReboot | ActionPowerOff

definition action_operation_class :: "session_action \<Rightarrow> operation_class" where
  "action_operation_class a = ManagedExternalEffect"

fun action_risk_floor :: "session_action \<Rightarrow> risk_class" where
  "action_risk_floor ActionLock = SecuritySensitive"
| "action_risk_floor ActionUnlock = SecuritySensitive"
| "action_risk_floor ActionSuspend = SecuritySensitive"
| "action_risk_floor ActionLogout = Destructive"
| "action_risk_floor ActionReboot = Destructive"
| "action_risk_floor ActionPowerOff = Destructive"

fun session_action_as_str :: "session_action \<Rightarrow> string" where
  "session_action_as_str ActionLock = ''lock''"
| "session_action_as_str ActionUnlock = ''unlock''"
| "session_action_as_str ActionSuspend = ''suspend''"
| "session_action_as_str ActionLogout = ''logout''"
| "session_action_as_str ActionReboot = ''reboot''"
| "session_action_as_str ActionPowerOff = ''power-off''"

record session_safety_review =
  ssr_epoch :: session_epoch
  ssr_action :: session_action
  ssr_observed_at_unix_ms :: u64
  ssr_valid_for_ms :: u64

definition seat_valid :: "observed_value option \<Rightarrow> bool" where
  "seat_valid v = (case v of
     Some (ObsText seat) \<Rightarrow> seat \<noteq> [] \<and> length seat \<le> 64
       \<and> list_all (\<lambda>b. is_ascii_alphanumeric b \<or> b = CHR ''-'' \<or> b = CHR ''_'') seat
   | _ \<Rightarrow> False)"

definition review_native_session ::
  "string \<Rightarrow> session_epoch \<Rightarrow> session_action \<Rightarrow> observation_envelope \<Rightarrow> u64 \<Rightarrow> string
     \<Rightarrow> session_safety_error + session_safety_review" where
  "review_native_session prin epoch action logind now_unix_ms capability =
     (if prin \<noteq> owner_principal epoch then Inl PrincipalMismatch
      else if ep_uid epoch = 0 then Inl UnsupportedSession
      else
      and_then (map_err (\<lambda>_. IdentityMismatch) (session_epoch_resource_id epoch)) (\<lambda>resource.
      and_then (validate_native_envelope logind LOGIND_PROVIDER capability resource now_unix_ms) (\<lambda>_.
      and_then (require_text logind ''boot_id'' (ep_boot epoch)) (\<lambda>_.
      and_then (require_text logind ''session_id'' (ep_session_id epoch)) (\<lambda>_.
      and_then (require_u64 logind ''uid'' (ucast (ep_uid epoch))) (\<lambda>_.
      and_then (require_u64 logind ''created_monotonic_us'' (ep_created_monotonic_us epoch)) (\<lambda>_.
      and_then (require_text logind ''session_type'' ''wayland'') (\<lambda>_.
      and_then (require_text logind ''session_class'' ''user'') (\<lambda>_.
      and_then (require_text logind ''state'' ''active'') (\<lambda>_.
      and_then (require_bool logind ''active'' True) (\<lambda>_.
      and_then (require_bool logind ''remote'' False) (\<lambda>_.
      and_then (ensure (seat_valid (bt_get (env_attributes logind) ''seat'')) UnsupportedSession) (\<lambda>_.
      and_then (require_bool logind ''leader_present'' True) (\<lambda>_.
      Inr \<lparr> ssr_epoch = epoch, ssr_action = action, ssr_observed_at_unix_ms = observed_at_unix_ms logind,
            ssr_valid_for_ms = valid_for_ms logind \<rparr>))))))))))))))"

definition review_session_safety ::
  "string \<Rightarrow> session_epoch \<Rightarrow> session_action \<Rightarrow> observation_envelope \<Rightarrow> u64
     \<Rightarrow> session_safety_error + session_safety_review" where
  "review_session_safety prin epoch action logind now_unix_ms =
     review_native_session prin epoch action logind now_unix_ms LOGIND_CAPABILITY"

definition require_secure_coverage ::
  "session_safety_review \<Rightarrow> observation_envelope \<Rightarrow> u64 \<Rightarrow> session_safety_error + session_lock_id" where
  "require_secure_coverage review locker now_unix_ms =
     (if elapsed_out now_unix_ms (ssr_observed_at_unix_ms review) (ssr_valid_for_ms review)
      then Inl ExpiredEvidence
      else
      and_then (map_err (\<lambda>_. IdentityMismatch) (session_lock_id_from_resource (env_resource locker))) (\<lambda>lock.
      if lock_epoch lock \<noteq> ssr_epoch review then Inl IdentityMismatch
      else
      and_then (validate_native_lock lock locker now_unix_ms) (\<lambda>secure.
      if \<not> secure then Inl UnverifiedScreenCoverage else Inr lock)))"

section \<open>Power conditions\<close>

record session_power_safety_review =
  spr_session :: session_safety_review
  spr_native_authentication_required :: bool
  spr_delay_inhibitors :: u64
  spr_inhibit_delay_max_us :: u64

definition bounded_count :: "observation_envelope \<Rightarrow> string \<Rightarrow> u64 \<Rightarrow> session_safety_error + u64" where
  "bounded_count native_power key maximum =
     (case bt_get (env_attributes native_power) key of
        Some (ObsU64 count) \<Rightarrow> if count \<le> maximum then Inr count else Inl UnsupportedSession
      | _ \<Rightarrow> Inl UnsupportedSession)"

definition review_conditions ::
  "session_safety_review \<Rightarrow> observation_envelope \<Rightarrow> bool \<Rightarrow> string \<Rightarrow> string
     \<Rightarrow> session_safety_error + session_power_safety_review" where
  "review_conditions session native_power native_authentication_required block_key delay_key =
     (if bt_get (env_attributes native_power) ''preparing_for_sleep'' \<noteq> Some (ObsBool False)
         \<or> bt_get (env_attributes native_power) ''preparing_for_shutdown'' \<noteq> Some (ObsBool False)
      then Inl TransitionInProgress
      else
      and_then (bounded_count native_power ''other_user_session_count'' 16) (\<lambda>others.
      if others \<noteq> 0 then Inl OtherSessionsPresent
      else
      and_then (bounded_count native_power block_key 32) (\<lambda>blocks.
      if blocks \<noteq> 0 then Inl PowerInhibited
      else
      and_then (bounded_count native_power delay_key 32) (\<lambda>delay_inhibitors.
      and_then (bounded_count native_power ''inhibit_delay_max_us'' 60000000) (\<lambda>inhibit_delay_max_us.
      if inhibit_delay_max_us = 0 then Inl UnsupportedSession
      else Inr \<lparr> spr_session = session, spr_native_authentication_required = native_authentication_required,
                 spr_delay_inhibitors = delay_inhibitors, spr_inhibit_delay_max_us = inhibit_delay_max_us \<rparr>)))))"

text \<open>The keys of the attributes an action reads: availability, blocking and delaying inhibitors.\<close>

fun power_keys :: "session_action \<Rightarrow> (string \<times> string \<times> string) option" where
  "power_keys ActionSuspend = Some (''suspend_availability'', ''sleep_block_count'', ''sleep_delay_count'')"
| "power_keys ActionReboot = Some (''reboot_availability'', ''shutdown_block_count'', ''shutdown_delay_count'')"
| "power_keys ActionPowerOff = Some (''power_off_availability'', ''shutdown_block_count'', ''shutdown_delay_count'')"
| "power_keys _ = None"

text \<open>The answer to a permission query; \<open>refusals\<close> are the values that mean unavailable.\<close>

definition native_authentication ::
  "observed_value option \<Rightarrow> string list \<Rightarrow> session_safety_error + bool" where
  "native_authentication v refusals =
     (case v of
        Some (ObsText s) \<Rightarrow>
          if s = ''yes'' then Inr False
          else if s = ''challenge'' then Inr True
          else if s \<in> set refusals then Inl PowerUnavailable
          else Inl UnsupportedSession
      | _ \<Rightarrow> Inl UnsupportedSession)"

definition require_query_identity ::
  "observation_envelope \<Rightarrow> string \<Rightarrow> session_epoch \<Rightarrow> session_safety_error + unit" where
  "require_query_identity ob prin epoch =
     and_then (map_err (\<lambda>_. IdentityMismatch) (require_text ob ''permission_query_principal'' prin)) (\<lambda>_.
     and_then (map_err (\<lambda>_. IdentityMismatch) (session_epoch_resource_id epoch)) (\<lambda>resource.
     map_err (\<lambda>_. IdentityMismatch) (require_text ob ''permission_query_session_epoch'' resource)))"

definition review_session_power_safety ::
  "string \<Rightarrow> session_epoch \<Rightarrow> session_action \<Rightarrow> observation_envelope \<Rightarrow> u64
     \<Rightarrow> session_safety_error + session_power_safety_review" where
  "review_session_power_safety prin epoch action native_power now_unix_ms =
     and_then (ok_or (power_keys action) UnsupportedSession) (\<lambda>(availability_key, block_key, delay_key).
     and_then (review_native_session prin epoch action native_power now_unix_ms POWER_CAPABILITY) (\<lambda>session.
     and_then (require_query_identity native_power prin epoch) (\<lambda>_.
     and_then (native_authentication (bt_get (env_attributes native_power) availability_key) [''no'', ''na'']) (\<lambda>auth.
     review_conditions session native_power auth block_key delay_key))))"

fun transition_action :: "session_transition \<Rightarrow> session_action" where
  "transition_action (Suspend _) = ActionSuspend"
| "transition_action Logout = ActionLogout"
| "transition_action Reboot = ActionReboot"
| "transition_action PowerOff = ActionPowerOff"

text \<open>The window both observations are valid in.\<close>

definition common_window ::
  "session_safety_review \<Rightarrow> observation_envelope \<Rightarrow> session_safety_error + session_safety_review" where
  "common_window session permission =
     and_then
       (ok_or (Option.bind (checked_add (ssr_observed_at_unix_ms session) (ssr_valid_for_ms session)) (\<lambda>left.
           map_option (min left) (checked_add (observed_at_unix_ms permission) (valid_for_ms permission))))
         ExpiredEvidence) (\<lambda>end_ms.
     let start = min (ssr_observed_at_unix_ms session) (observed_at_unix_ms permission) in
     and_then (ok_or (Option.bind (checked_sub end_ms start) (\<lambda>v. if v > 0 then Some v else None)) ExpiredEvidence)
       (\<lambda>valid_for.
     Inr (session\<lparr> ssr_observed_at_unix_ms := start, ssr_valid_for_ms := valid_for \<rparr>)))"

definition review_with_permission ::
  "string \<Rightarrow> session_transition_id \<Rightarrow> observation_envelope \<Rightarrow> observation_envelope \<Rightarrow> u64
     \<Rightarrow> session_safety_error + session_power_safety_review" where
  "review_with_permission prin transition conditions permission now_unix_ms =
     (let action = transition_action (tr_transition transition); epoch = lock_epoch (tr_lock transition) in
      and_then (ok_or (power_keys action) UnsupportedSession) (\<lambda>(_, block_key, delay_key).
      and_then (review_native_session prin epoch action conditions now_unix_ms ''session.power.conditions.observe'')
        (\<lambda>session.
      and_then (map_err (\<lambda>_. IdentityMismatch) (permission_resource_id transition)) (\<lambda>permission_resource.
      and_then (validate_native_envelope permission ''polkit'' ''session.power.permission.observe''
        permission_resource now_unix_ms) (\<lambda>_.
      and_then (require_query_identity permission prin epoch) (\<lambda>_.
      and_then (native_authentication (bt_get (env_attributes permission) ''availability'') [''no'']) (\<lambda>auth.
      and_then (common_window session permission) (\<lambda>session.
      review_conditions session conditions auth block_key delay_key))))))))"

definition require_secure_suspend ::
  "session_power_safety_review \<Rightarrow> observation_envelope \<Rightarrow> u64 \<Rightarrow> session_safety_error + session_lock_id" where
  "require_secure_suspend review locker now_unix_ms =
     (if ssr_action (spr_session review) \<noteq> ActionSuspend then Inl UnsupportedSession
      else require_secure_coverage (spr_session review) locker now_unix_ms)"

section \<open>Transition postconditions\<close>

datatype session_transition_postcondition =
    NotSatisfied | Indeterminate | SecureCoverageRequired | ResumedSecurely
  | OriginalSessionEnded | OriginalBootEnded

definition review_suspend_postcondition ::
  "session_lock_id \<Rightarrow> u64 \<Rightarrow> observation_envelope \<Rightarrow> observation_envelope option \<Rightarrow> u64
     \<Rightarrow> session_safety_error + session_transition_postcondition" where
  "review_suspend_postcondition lock cycles_before native secure_coverage now_unix_ms =
     (if bt_get (env_attributes native) ''suspend_test_mode'' \<noteq> Some (ObsText ''none'')
      then Inl UnsupportedSession
      else case bt_get (env_attributes native) ''preparing_for_sleep'' of
        Some (ObsBool preparing) \<Rightarrow>
          (case bt_get (env_attributes native) ''successful_suspend_cycles'' of
             Some (ObsU64 cycles) \<Rightarrow>
               if preparing then Inr Indeterminate
               else if cycles = cycles_before then Inr NotSatisfied
               else if checked_add cycles_before 1 \<noteq> Some cycles then Inr Indeterminate
               else (case secure_coverage of
                   None \<Rightarrow> Inr SecureCoverageRequired
                 | Some coverage \<Rightarrow>
                     and_then (validate_native_lock lock coverage now_unix_ms) (\<lambda>secure.
                     Inr (if secure then ResumedSecurely else Indeterminate)))
           | _ \<Rightarrow> Inl UnsupportedSession)
      | _ \<Rightarrow> Inl UnsupportedSession)"

definition review_session_transition_postcondition ::
  "session_transition_id \<Rightarrow> observation_envelope \<Rightarrow> observation_envelope option \<Rightarrow> u64
     \<Rightarrow> session_safety_error + session_transition_postcondition" where
  "review_session_transition_postcondition transition native secure_coverage now_unix_ms =
     and_then (map_err (\<lambda>_. IdentityMismatch) (session_transition_id_resource_id transition)) (\<lambda>resource.
     and_then (validate_native_envelope native ''logind'' ''session.transition.observe'' resource now_unix_ms) (\<lambda>_.
     and_then (case bt_get (env_attributes native) ''current_boot_id'' of
         Some (ObsText boot) \<Rightarrow> map_err (\<lambda>_. IdentityMismatch) (boot_id_new boot)
       | _ \<Rightarrow> Inl IdentityMismatch) (\<lambda>current_boot.
     and_then (case bt_get (env_attributes native) ''target_epoch_present'' of
         Some (ObsBool v) \<Rightarrow> Inr v
       | _ \<Rightarrow> Inl UnsupportedSession) (\<lambda>present.
     let original_boot = (ep_boot (lock_epoch (tr_lock transition)) = current_boot) in
     if \<not> original_boot \<and> present then Inl IdentityMismatch
     else case tr_transition transition of
         Logout \<Rightarrow> Inr (if present then NotSatisfied else OriginalSessionEnded)
       | Reboot \<Rightarrow> Inr (if original_boot then NotSatisfied else OriginalBootEnded)
       | PowerOff \<Rightarrow> Inr (if original_boot then NotSatisfied else OriginalBootEnded)
       | Suspend cycles_before \<Rightarrow>
           if \<not> original_boot \<or> \<not> present then Inr Indeterminate
           else review_suspend_postcondition (tr_lock transition) cycles_before native secure_coverage now_unix_ms))))"

section \<open>Protective locking\<close>

datatype protective_lock_safety_error =
    ProtectivePrincipalMismatch | SettingDisabled | ScopeChanged | UnqualifiedSleepEntry
  | ProtectiveClockUnavailable | NativeSafety session_safety_error

fun protective_lock_safety_error_text :: "protective_lock_safety_error \<Rightarrow> string" where
  "protective_lock_safety_error_text ProtectivePrincipalMismatch =
     ''protective-lock initiator is not the attested native sleep service''"
| "protective_lock_safety_error_text SettingDisabled = ''owner protective-lock setting is disabled or revoked''"
| "protective_lock_safety_error_text ScopeChanged =
     ''protective-lock policy, native event or session scope changed''"
| "protective_lock_safety_error_text UnqualifiedSleepEntry =
     ''native sleep entry has no qualified authenticated pre-kernel gate''"
| "protective_lock_safety_error_text ProtectiveClockUnavailable =
     ''protective-lock evidence clock is unavailable or overflowing''"
| "protective_lock_safety_error_text (NativeSafety e) = session_safety_error_text e"

record protective_lock_safety_review =
  plr_setting :: protective_lock_setting
  plr_event :: sleep_invocation_id
  plr_lock :: session_lock_id
  plr_already_secure :: bool
  plr_first_valid_unix_ms :: u64
  plr_expires_at_unix_ms :: u64

definition require_attributes ::
  "observation_envelope \<Rightarrow> (string \<times> observed_value) list \<Rightarrow> protective_lock_safety_error
     \<Rightarrow> protective_lock_safety_error + unit" where
  "require_attributes ob expected e =
     for_each expected (\<lambda>(key, v). if bt_get (env_attributes ob) key \<noteq> Some v then Inl e else Inr ())"

definition earliest_expiry :: "observation_envelope list \<Rightarrow> protective_lock_safety_error + u64" where
  "earliest_expiry samples =
     try_fold (\<lambda>end_ms sample.
       and_then (ok_or (checked_add (observed_at_unix_ms sample) (valid_for_ms sample)) ProtectiveClockUnavailable)
         (\<lambda>expiry. Inr (min end_ms expiry))) (- 1) samples"

definition review_protective_lock_safety ::
  "string \<Rightarrow> protective_lock_setting \<Rightarrow> sleep_invocation_id \<Rightarrow> session_lock_id \<Rightarrow> observation_envelope
     \<Rightarrow> observation_envelope \<Rightarrow> observation_envelope \<Rightarrow> u64
     \<Rightarrow> protective_lock_safety_error + protective_lock_safety_review" where
  "review_protective_lock_safety prin setting event lock native_event native_session native_lock now_unix_ms =
     (let samples = [native_event, native_session, native_lock] in
      if prin \<noteq> PROTECTIVE_SLEEP_PRINCIPAL then Inl ProtectivePrincipalMismatch
      else if \<not> pls_enabled setting then Inl SettingDisabled
      else if lock_epoch lock \<noteq> pls_epoch setting \<or> sleep_boot event \<noteq> ep_boot (pls_epoch setting)
      then Inl ScopeChanged
      else if list_ex (\<lambda>sample. observed_at_unix_ms sample = 0) samples then Inl (NativeSafety UntrustedEvidence)
      else
      and_then (map_err (\<lambda>_. ScopeChanged) (sleep_resource_id event)) (\<lambda>event_resource.
      and_then (map_err NativeSafety (validate_native_envelope native_event ''system-sleep''
        ''session.sleep-entry.observe'' event_resource now_unix_ms)) (\<lambda>_.
      and_then (require_attributes native_event [(''boot_id'', ObsText (sleep_boot event)),
        (''sleep_invocation'', ObsText (sleep_invocation event)), (''sleep_operation'', ObsText ''suspend'')]
        ScopeChanged) (\<lambda>_.
      and_then (require_attributes native_event [(''pre_kernel_gate'', ObsBool True),
        (''helper_attested'', ObsBool True)] UnqualifiedSleepEntry) (\<lambda>_.
      and_then (map_err (\<lambda>_. ScopeChanged) (authenticated_principal_new (pls_owner setting))) (\<lambda>owner.
      and_then (map_err NativeSafety (review_session_safety owner (pls_epoch setting) ActionLock native_session
        now_unix_ms)) (\<lambda>_.
      and_then (map_err NativeSafety (validate_native_lock lock native_lock now_unix_ms)) (\<lambda>already_secure.
      let first_valid = max (max (observed_at_unix_ms native_event) (observed_at_unix_ms native_session))
            (observed_at_unix_ms native_lock) in
      and_then (earliest_expiry samples) (\<lambda>expires_at.
      if first_valid \<ge> expires_at \<or> now_unix_ms \<ge> expires_at then Inl (NativeSafety ExpiredEvidence)
      else Inr \<lparr> plr_setting = setting, plr_event = event, plr_lock = lock, plr_already_secure = already_secure,
                 plr_first_valid_unix_ms = first_valid, plr_expires_at_unix_ms = expires_at \<rparr>)))))))))"

definition protective_review_require_current ::
  "protective_lock_safety_review \<Rightarrow> protective_lock_setting \<Rightarrow> u64 \<Rightarrow> protective_lock_safety_error + unit" where
  "protective_review_require_current review latest_setting now_unix_ms =
     (if \<not> pls_enabled latest_setting then Inl SettingDisabled
      else if latest_setting \<noteq> plr_setting review then Inl ScopeChanged
      else if now_unix_ms < plr_first_valid_unix_ms review \<or> now_unix_ms \<ge> plr_expires_at_unix_ms review
      then Inl (NativeSafety ExpiredEvidence)
      else Inr ())"

definition protective_review_request_id ::
  "protective_lock_safety_review \<Rightarrow> protective_lock_safety_error + request_id" where
  "protective_review_request_id review =
     map_err (\<lambda>_. ScopeChanged) (protective_request_id (plr_event review) (pls_epoch (plr_setting review)))"

end
