(* ===== verification/Authority_Digests.thy ===== *)
theory Authority_Digests
  imports Approval Observation Transaction_Contract
begin

text \<open>
  The errors and the canonical digests of \<open>crates/linura-control/src/durable_authority.rs\<close>: what names a
  request, the precondition of a plan, an observation, a review and one use of authority. A digest is SHA-256
  over length-prefixed fields; the lists below have the fields in the order the code feeds them.
\<close>

section \<open>Errors\<close>

datatype durable_authority_error =
    AuthorityPreview string
  | CandidateNotMutation
  | CandidateBlocked
  | RiskNotClassified
  | MissingApproval
  | UnexpectedApproval
  | AuthorityApproval string
  | ApprovalUnsatisfied approval_validation
  | AuthorityChanged
  | AuthorityClockUnavailable
  | AuthorityClockRollback
  | DigestFieldTooLarge
  | AuthorityTransaction string
  | AlreadyHandedOff
  | RecoveryRequestMismatch
  | RecoveryNotIndeterminate

text \<open>The \<open>Debug\<close> forms the messages contain.\<close>

fun approval_validation_debug :: "approval_validation \<Rightarrow> string" where
  "approval_validation_debug Satisfied = ''Satisfied''"
| "approval_validation_debug BindingMismatch = ''BindingMismatch''"
| "approval_validation_debug NotYetValid = ''NotYetValid''"
| "approval_validation_debug Expired = ''Expired''"
| "approval_validation_debug Revoked = ''Revoked''"

fun validation_error_debug :: "validation_error \<Rightarrow> string" where
  "validation_error_debug (Empty label) = ''Empty('' @ debug_str label @ '')''"
| "validation_error_debug (TooLong label) = ''TooLong('' @ debug_str label @ '')''"
| "validation_error_debug (ControlCharacter label) = ''ControlCharacter('' @ debug_str label @ '')''"
| "validation_error_debug MissingSemanticOrigin = ''MissingSemanticOrigin''"
| "validation_error_debug (DuplicateSemanticOrigin kind) = ''DuplicateSemanticOrigin('' @ debug_str kind @ '')''"

fun approval_class_debug :: "approval_class \<Rightarrow> string" where
  "approval_class_debug InteractiveUser = ''InteractiveUser''"
| "approval_class_debug SessionOwnerAuthentication = ''SessionOwnerAuthentication''"
| "approval_class_debug Administrator = ''Administrator''"
| "approval_class_debug DestructiveAction = ''DestructiveAction''"

fun approval_issue_error_debug :: "approval_class approval_issue_error \<Rightarrow> string" where
  "approval_issue_error_debug NonHumanApprover = ''NonHumanApprover''"
| "approval_issue_error_debug (MissingApprovalClass c) = ''MissingApprovalClass('' @ approval_class_debug c @ '')''"
| "approval_issue_error_debug InvalidApprovalWindow = ''InvalidValidityWindow''"
| "approval_issue_error_debug ValidityWindowTooLong = ''ValidityWindowTooLong''"

fun approval_control_error_debug :: "approval_control_error \<Rightarrow> string" where
  "approval_control_error_debug (Issue (Requirement NotRequired)) = ''Issue(Requirement(NotRequired))''"
| "approval_control_error_debug (Issue (Requirement NotApprovable)) = ''Issue(Requirement(NotApprovable))''"
| "approval_control_error_debug (Issue (Evidence e)) = ''Issue(Evidence('' @ approval_issue_error_debug e @ ''))''"
| "approval_control_error_debug (InvalidEvidenceId e) = ''InvalidEvidenceId('' @ validation_error_debug e @ '')''"
| "approval_control_error_debug ApprovalIdempotencyConflict = ''IdempotencyConflict''"
| "approval_control_error_debug ApprovalCapacityExceeded = ''CapacityExceeded''"
| "approval_control_error_debug EntryTooLarge = ''EntryTooLarge''"
| "approval_control_error_debug TotalCapacityExceeded = ''TotalCapacityExceeded''"
| "approval_control_error_debug TombstoneCapacityExceeded = ''TombstoneCapacityExceeded''"
| "approval_control_error_debug TombstoneTotalCapacityExceeded = ''TombstoneTotalCapacityExceeded''"
| "approval_control_error_debug SequenceExhausted = ''SequenceExhausted''"
| "approval_control_error_debug EvidenceNotFound = ''EvidenceNotFound''"
| "approval_control_error_debug RevokerNotAuthorized = ''RevokerNotAuthorized''"
| "approval_control_error_debug ApprovalClockUnavailable = ''ClockUnavailable''"
| "approval_control_error_debug ClockRollback = ''ClockRollback''"

fun policy_subject_error_debug :: "policy_subject_error \<Rightarrow> string" where
  "policy_subject_error_debug (InvalidPrincipal reason) = ''InvalidPrincipal('' @ debug_str reason @ '')''"
| "policy_subject_error_debug (InvalidSubject reason) = ''InvalidSubject('' @ debug_str reason @ '')''"

definition map_approval_error :: "approval_control_error \<Rightarrow> durable_authority_error" where
  "map_approval_error e = AuthorityApproval (approval_control_error_debug e)"

definition from_store_error :: "transaction_store_error \<Rightarrow> durable_authority_error" where
  "from_store_error e = AuthorityTransaction (transaction_store_error_text e)"

definition from_validation_error :: "transaction_validation_error \<Rightarrow> durable_authority_error" where
  "from_validation_error e = AuthorityTransaction (transaction_validation_error_text e)"

fun durable_authority_error_text :: "durable_authority_error \<Rightarrow> string" where
  "durable_authority_error_text (AuthorityPreview reason) = ''durable authority planning failed: '' @ reason"
| "durable_authority_error_text CandidateNotMutation =
     ''durable authority requires a change-proposed mutation plan''"
| "durable_authority_error_text CandidateBlocked = ''deny/blocked review cannot become durable authority''"
| "durable_authority_error_text RiskNotClassified =
     ''mutation plan does not have complete trusted risk-policy provenance''"
| "durable_authority_error_text MissingApproval = ''current exact-bound approval evidence is required''"
| "durable_authority_error_text UnexpectedApproval =
     ''approval evidence was supplied for a policy-allow authority subject''"
| "durable_authority_error_text (AuthorityApproval reason) = ''approval authority failed: '' @ reason"
| "durable_authority_error_text (ApprovalUnsatisfied v) =
     ''approval authority is not currently satisfied: '' @ approval_validation_debug v"
| "durable_authority_error_text AuthorityChanged =
     ''current observation/review/policy/risk/approval no longer matches prepared authority''"
| "durable_authority_error_text AuthorityClockUnavailable = ''authority clock is unavailable''"
| "durable_authority_error_text AuthorityClockRollback = ''authority clock moved backwards''"
| "durable_authority_error_text DigestFieldTooLarge =
     ''canonical authority digest input exceeds the per-field bound''"
| "durable_authority_error_text (AuthorityTransaction reason) = ''durable transaction operation failed: '' @ reason"
| "durable_authority_error_text AlreadyHandedOff =
     ''this process-local prepared authority has already crossed the handoff boundary''"
| "durable_authority_error_text RecoveryRequestMismatch =
     ''recovery request does not match the durable original request namespace/material''"
| "durable_authority_error_text RecoveryNotIndeterminate =
     ''recovery requires the exact current indeterminate generation''"

section \<open>The canonical hasher\<close>

definition MAX_CANONICAL_DIGEST_FIELD_BYTES :: nat where
  "MAX_CANONICAL_DIGEST_FIELD_BYTES = 256 * 1024"

definition hasher_field :: "bytes \<Rightarrow> durable_authority_error + unit" where
  "hasher_field bs = ensure (length bs \<le> MAX_CANONICAL_DIGEST_FIELD_BYTES) DigestFieldTooLarge"

definition hasher_finish :: "crypto \<Rightarrow> bytes list \<Rightarrow> durable_authority_error + content_digest" where
  "hasher_finish cr parts =
     map_err from_validation_error
       (content_digest_new (DIGEST_PREFIX @ hex_bytes (sha256 cr (concat (map frame parts)))))"

definition canonical_digest :: "crypto \<Rightarrow> string \<Rightarrow> bytes list \<Rightarrow> durable_authority_error + content_digest" where
  "canonical_digest cr domain parts =
     and_then (for_each (domain # parts) hasher_field) (\<lambda>_. hasher_finish cr (domain # parts))"

definition count_field :: "'a list \<Rightarrow> bytes" where
  "count_field xs = be64 (len_u64 xs)"

definition counted_fields :: "string list \<Rightarrow> bytes list" where
  "counted_fields xs = count_field xs # xs"

fun approval_class_name :: "approval_class \<Rightarrow> string" where
  "approval_class_name InteractiveUser = ''interactive-user''"
| "approval_class_name SessionOwnerAuthentication = ''session-owner-authentication''"
| "approval_class_name Administrator = ''administrator''"
| "approval_class_name DestructiveAction = ''destructive-action''"

fun actor_kind_name :: "actor_kind \<Rightarrow> string" where
  "actor_kind_name Human = ''human''"
| "actor_kind_name Service = ''service''"
| "actor_kind_name Agent = ''agent''"
| "actor_kind_name Remote = ''remote''"

fun review_status_name :: "review_plan_status \<Rightarrow> string" where
  "review_status_name ReviewNoChange = ''no-change''"
| "review_status_name ReviewChangeProposed = ''change-proposed''"
| "review_status_name ReviewBlocked = ''blocked''"

fun finding_level_name :: "review_finding_level \<Rightarrow> string" where
  "finding_level_name ReviewPass = ''pass''"
| "finding_level_name ReviewWarning = ''warning''"
| "finding_level_name ReviewBlocker = ''blocker''"

definition optional_fields :: "string option \<Rightarrow> bytes list" where
  "optional_fields v = (case v of Some s \<Rightarrow> [''some'', s] | None \<Rightarrow> [''none''])"

section \<open>What the digests name\<close>

record plan_desired_state_request =
  pdr_request_id :: request_id
  pdr_provider :: provider_id
  pdr_resource :: resource_id
  pdr_observation_capability :: capability_id
  pdr_reason :: semantic_reason
  pdr_desired_state :: "(string, string) btree_map"

definition reason_fields :: "semantic_reason \<Rightarrow> bytes list" where
  "reason_fields r = reason_summary r # counted_fields (reason_intent_ids r)
     @ counted_fields (reason_requirement_ids r) @ counted_fields (reason_capability_ids r)"

definition request_fields :: "plan_desired_state_request \<Rightarrow> bytes list" where
  "request_fields r =
     [pdr_request_id r, pdr_provider r, pdr_resource r, pdr_observation_capability r]
     @ reason_fields (pdr_reason r)
     @ count_field (pdr_desired_state r) # concat (map (\<lambda>(key, v). [key, v]) (pdr_desired_state r))"

definition digest_request :: "crypto \<Rightarrow> plan_desired_state_request \<Rightarrow> durable_authority_error + content_digest" where
  "digest_request cr r = canonical_digest cr ''linura.control.desired-request.v1'' (request_fields r)"

definition digest_plan_precondition :: "crypto \<Rightarrow> reconciliation_plan \<Rightarrow> durable_authority_error + content_digest" where
  "digest_plan_precondition cr plan = canonical_digest cr ''linura.control.plan-precondition.v1''
     ([plan_provider plan, plan_resource_id plan, plan_observation_capability plan, count_field (plan_changes plan)]
      @ concat (map (\<lambda>change. change_key change # optional_fields (change_current change)) (plan_changes plan)))"

fun observed_value_fields :: "observed_value \<Rightarrow> bytes list" where
  "observed_value_fields (ObsText v) = [''text'', v]"
| "observed_value_fields (ObsBool v) = [''bool'', bool_text v]"
| "observed_value_fields (ObsU64 v) = [''u64'', be64 v]"
| "observed_value_fields (ObsI64 v) = [''i64'', be64 v]"

definition digest_observation :: "crypto \<Rightarrow> observation_envelope \<Rightarrow> durable_authority_error + content_digest" where
  "digest_observation cr ob = canonical_digest cr ''linura.control.observation.v1''
     ([env_provider ob, env_resource ob, env_capability ob, observation_authority_as_str (env_authority ob),
       be64 (observed_at_unix_ms ob), be64 (valid_for_ms ob), be64 (env_sequence ob),
       count_field (env_attributes ob)]
      @ concat (map (\<lambda>(key, v). key # observed_value_fields v) (env_attributes ob)))"

definition decision_fields :: "policy_decision \<Rightarrow> bytes list" where
  "decision_fields d = (case d of
     Allow \<Rightarrow> [''allow'']
   | Deny reason \<Rightarrow> [''deny'', reason]
   | RequireApproval c reason \<Rightarrow> [''require-approval'', approval_class_name c, reason]
   | DecisionBlocked reason \<Rightarrow> [''blocked'', reason])"

definition digest_review :: "crypto \<Rightarrow> trusted_policy_review \<Rightarrow> durable_authority_error + content_digest" where
  "digest_review cr review =
     (let s = review_subject review; b = ev_binding (tpr_evaluation review) in
      canonical_digest cr ''linura.control.trusted-review.v1''
        ([subj_principal s, subj_plan_id s, subj_request_id s, actor_id (subj_actor s),
          actor_kind_name (actor_kind (subj_actor s)),
          (if actor_interactive (subj_actor s) then ''interactive'' else ''non-interactive''),
          subj_provider s, subj_resource s, subj_capability s, subj_observed_evidence_id s,
          risk_name (subj_prospective_risk s), review_status_name (subj_status s)]
         @ reason_fields (subj_reason s)
         @ count_field (subj_changes s) # concat (map (\<lambda>change.
             rc_key change # optional_fields (rc_current change) @ [rc_desired change]) (subj_changes s))
         @ count_field (subj_findings s) # concat (map (\<lambda>finding.
             [rf_code finding, finding_level_name (rf_level finding), rf_message finding]) (subj_findings s))
         @ [rb_policy_id b, rb_policy_revision_id b] @ decision_fields (review_decision review)))"

definition digest_authority_use ::
  "crypto \<Rightarrow> transaction_snapshot \<Rightarrow> u64 \<Rightarrow> durable_authority_error + content_digest" where
  "digest_authority_use cr snap now_unix_ms = canonical_digest cr ''linura.control.authority-use.v1''
     [snap_transaction_id snap, be64 (snap_current_generation snap), be64 (snap_state_version snap),
      snap_binding_digest snap, be64 now_unix_ms]"

section \<open>A request digest names one request\<close>

lemma canonical_digest_ok:
  "canonical_digest cr domain parts = Inr d \<Longrightarrow>
     d = DIGEST_PREFIX @ hex_bytes (sha256 cr (concat (map frame (domain # parts))))
     \<and> (\<forall>f \<in> set parts. length f \<le> 262144)"
  by (auto simp: canonical_digest_def hasher_finish_def result_simps for_each_ok hasher_field_def
      MAX_CANONICAL_DIGEST_FIELD_BYTES_def content_digest_new_def split: option.splits if_splits)

end
