(* ===== verification/Plan_Preview.thy ===== *)
theory Plan_Preview
  imports Observation_Control Session_Safety Authority_Digests
begin

text \<open>
  \<open>crates/linura-control/src/plan_preview.rs\<close> with \<open>session_power_plan.rs\<close> and the protective context of
  \<open>protective_lock_execution.rs\<close>: normalized requests, the fresh plan Control derives from authoritative
  observations, and the bounded store of previews.

  One call probes providers and reads the clock at several points. The environment answers each point by its
  number, so that no two points need agree. The consent store of protective locking is a function argument,
  the answers of \<open>ProtectiveLockSettingsControl::current\<close> during the call. Identifiers built from literals
  are the literals.
\<close>

section \<open>The environment of a call\<close>

record preview_env =
  pe_moment :: "nat \<Rightarrow> nat"
  pe_probe_clock :: "nat \<Rightarrow> system_time"
  pe_now :: "nat \<Rightarrow> system_time"

type_synonym settings_answers = "principal_id \<Rightarrow> session_epoch \<Rightarrow> string + protective_lock_setting option"

fun plan_preview_control_error_text :: "plan_preview_control_error \<Rightarrow> string" where
  "plan_preview_control_error_text (PreviewInvalidPrincipal reason) = ''invalid authenticated principal: '' @ reason"
| "plan_preview_control_error_text (PreviewInvalidRequest reason) = ''invalid plan preview request: '' @ reason"
| "plan_preview_control_error_text (PreviewIdempotencyConflict i) = ''request/plan id '' @ i
     @ '' already identifies a different normalized request for the authenticated principal''"
| "plan_preview_control_error_text (PreviewObservation reason) = ''authoritative observation failed: '' @ reason"
| "plan_preview_control_error_text (PreviewPlanning reason) = ''deterministic planning failed: '' @ reason"
| "plan_preview_control_error_text (PreviewReview reason) = ''trusted plan review failed: '' @ reason"
| "plan_preview_control_error_text (PreviewRetention reason) = ''plan preview retention failed: '' @ reason"
| "plan_preview_control_error_text (PreviewNotRetained i) = ''plan preview '' @ i
     @ '' is not retained for this authenticated principal''"

definition from_observation_error :: "observation_control_error \<Rightarrow> plan_preview_control_error" where
  "from_observation_error e = PreviewObservation (observation_control_error_text e)"

definition probe ::
  "preview_env \<Rightarrow> nat \<Rightarrow> string \<Rightarrow> string \<Rightarrow> resource_id \<Rightarrow> observation_coordinator
     \<Rightarrow> (observation_control_error + observation_response) \<times> observation_coordinator" where
  "probe env n provider capability resource c =
     observe_with_clock (pe_moment env n) (pe_probe_clock env n)
       \<lparr> oreq_provider = provider, oreq_resource = resource, oreq_capability = capability \<rparr> c"

definition sleep_invocation_error_text :: "sleep_invocation_error \<Rightarrow> string" where
  "sleep_invocation_error_text e = ''native sleep invocation or session scope is not canonical''"

fun session_transition_error_text :: "session_transition_error \<Rightarrow> string" where
  "session_transition_error_text UnsupportedOwner = ''root graphical session transitions are unsupported''"
| "session_transition_error_text ExhaustedSuspendGeneration = ''native suspend generation cannot advance''"
| "session_transition_error_text InvalidTransitionResource = ''session transition identity is not canonical''"

section \<open>Normalized requests\<close>

definition MAX_SUMMARY_BYTES :: nat where
  "MAX_SUMMARY_BYTES = 4 * 1024"

definition MAX_ORIGINS_PER_KIND :: nat where
  "MAX_ORIGINS_PER_KIND = 64"

definition MAX_TOTAL_ORIGINS :: nat where
  "MAX_TOTAL_ORIGINS = 128"

definition MAX_DESIRED_ATTRIBUTES :: nat where
  "MAX_DESIRED_ATTRIBUTES = 128"

definition MAX_REQUEST_BYTES :: nat where
  "MAX_REQUEST_BYTES = 64 * 1024"

definition MAX_PREVIEW_ENTRIES :: nat where
  "MAX_PREVIEW_ENTRIES = 256"

definition MAX_PREVIEW_ENTRY_BYTES :: nat where
  "MAX_PREVIEW_ENTRY_BYTES = 128 * 1024"

definition MAX_PREVIEW_TOTAL_BYTES :: nat where
  "MAX_PREVIEW_TOTAL_BYTES = 8 * 1024 * 1024"

record normalized_plan_input =
  npi_principal :: string
  npi_request :: plan_desired_state_request

definition total_bytes :: "string list \<Rightarrow> nat" where
  "total_bytes ss = foldl add_len 0 ss"

definition input_desired_resource :: "plan_desired_state_request \<Rightarrow> desired_resource" where
  "input_desired_resource r = \<lparr> dr_provider = pdr_provider r, dr_resource = pdr_resource r,
     dr_observation_capability = pdr_observation_capability r, dr_state = pdr_desired_state r,
     dr_reason = pdr_reason r \<rparr>"

definition request_texts :: "plan_desired_state_request \<Rightarrow> string list" where
  "request_texts r =
     [pdr_request_id r, pdr_provider r, pdr_resource r, pdr_observation_capability r, reason_summary (pdr_reason r)]
     @ reason_intent_ids (pdr_reason r) @ reason_requirement_ids (pdr_reason r)
     @ reason_capability_ids (pdr_reason r)
     @ concat (map (\<lambda>(key, v). [key, v]) (pdr_desired_state r))"

definition validate_request :: "plan_desired_state_request \<Rightarrow> plan_preview_control_error + unit" where
  "validate_request request =
     (let reason = pdr_reason request; intents = length (reason_intent_ids reason);
          requirements = length (reason_requirement_ids reason);
          capabilities = length (reason_capability_ids reason); attributes = length (pdr_desired_state request) in
      if length (reason_summary reason) > MAX_SUMMARY_BYTES
      then Inl (PreviewInvalidRequest (''semantic summary exceeds '' @ nat_to_dec MAX_SUMMARY_BYTES @ '' UTF-8 bytes''))
      else if has_control (reason_summary reason)
      then Inl (PreviewInvalidRequest ''semantic summary contains control characters'')
      else if intents > MAX_ORIGINS_PER_KIND \<or> requirements > MAX_ORIGINS_PER_KIND
        \<or> capabilities > MAX_ORIGINS_PER_KIND
      then Inl (PreviewInvalidRequest (''semantic origin kind exceeds '' @ nat_to_dec MAX_ORIGINS_PER_KIND @ '' entries''))
      else if usize_saturating_add (usize_saturating_add intents requirements) capabilities > MAX_TOTAL_ORIGINS
      then Inl (PreviewInvalidRequest (''semantic origins exceed '' @ nat_to_dec MAX_TOTAL_ORIGINS @ '' total entries''))
      else if attributes = 0 \<or> attributes > MAX_DESIRED_ATTRIBUTES
      then Inl (PreviewInvalidRequest (''desired state must contain between 1 and '' @ nat_to_dec MAX_DESIRED_ATTRIBUTES
        @ '' attributes''))
      else if total_bytes (request_texts request) > MAX_REQUEST_BYTES
      then Inl (PreviewInvalidRequest (''normalized planning request exceeds '' @ nat_to_dec MAX_REQUEST_BYTES
        @ '' UTF-8 bytes''))
      else
      and_then (map_err (\<lambda>e. PreviewInvalidRequest (validation_error_text e))
        (semantic_reason_validate reason)) (\<lambda>_.
      map_err (\<lambda>e. PreviewInvalidRequest (desired_state_validation_error_text e))
        (desired_state_validate \<lparr> ds_resources = [input_desired_resource request] \<rparr>)))"

definition normalized_plan_input_new ::
  "string \<Rightarrow> plan_desired_state_request \<Rightarrow> plan_preview_control_error + normalized_plan_input" where
  "normalized_plan_input_new prin request =
     and_then (validate_request request) (\<lambda>_. Inr \<lparr> npi_principal = prin, npi_request = request \<rparr>)"

definition input_plan_id :: "normalized_plan_input \<Rightarrow> plan_preview_control_error + plan_id" where
  "input_plan_id input = map_err (\<lambda>e. PreviewInvalidRequest (validation_error_text e))
     (typed_id_new ''plan id'' (pdr_request_id (npi_request input)))"

section \<open>The protective context\<close>

record protective_lock_context =
  plc_setting :: protective_lock_setting
  plc_event :: sleep_invocation_id
  plc_lock :: session_lock_id

definition context_from_current ::
  "settings_answers \<Rightarrow> sleep_invocation_id \<Rightarrow> session_lock_id \<Rightarrow> string + protective_lock_context" where
  "context_from_current settings event lock =
     and_then (map_err validation_error_text (typed_id_new ''principal id'' (owner_principal (lock_epoch lock)))) (\<lambda>owner.
     and_then (settings owner (lock_epoch lock)) (\<lambda>current.
     and_then (ok_or (Option.bind current (\<lambda>s. if pls_enabled s then Some s else None))
       ''owner protective-lock consent is absent or revoked'') (\<lambda>setting.
     and_then (map_err sleep_invocation_error_text (protective_request_id event (lock_epoch lock))) (\<lambda>_.
     Inr \<lparr> plc_setting = setting, plc_event = event, plc_lock = lock \<rparr>))))"

definition context_request :: "protective_lock_context \<Rightarrow> string + plan_desired_state_request" where
  "context_request context =
     and_then (map_err sleep_invocation_error_text
       (protective_request_id (plc_event context) (lock_epoch (plc_lock context)))) (\<lambda>request_id.
     and_then (map_err session_epoch_error_text (session_lock_id_resource_id (plc_lock context))) (\<lambda>resource.
     Inr \<lparr> pdr_request_id = request_id, pdr_provider = ''session-locker'', pdr_resource = resource,
           pdr_observation_capability = ''session.secure-lock.observe'',
           pdr_reason = \<lparr> reason_summary =
               ''Protect the current owner session before this authenticated native suspend invocation'',
             reason_intent_ids = [pls_intent (plc_setting context)], reason_requirement_ids = [],
             reason_capability_ids = [] \<rparr>,
           pdr_desired_state = [(''secure'', ''true'')] \<rparr>))"

definition protective_actor :: actor where
  "protective_actor = \<lparr> actor_id = PROTECTIVE_SLEEP_ACTOR, actor_kind = Service, actor_interactive = False \<rparr>"

definition context_require_request ::
  "protective_lock_context \<Rightarrow> string \<Rightarrow> actor \<Rightarrow> plan_desired_state_request \<Rightarrow> string + unit" where
  "context_require_request context prin actor request =
     (let changed = ''protective-lock initiator or exact approved request changed'' in
      if prin \<noteq> PROTECTIVE_SLEEP_PRINCIPAL \<or> actor \<noteq> protective_actor then Inl changed
      else and_then (context_request context) (\<lambda>expected. ensure (request = expected) changed))"

definition context_require_current :: "protective_lock_context \<Rightarrow> settings_answers \<Rightarrow> string + unit" where
  "context_require_current context settings =
     and_then (settings (pls_owner (plc_setting context)) (pls_epoch (plc_setting context))) (\<lambda>current.
     ensure (current = Some (plc_setting context) \<and> pls_enabled (plc_setting context))
       ''protective-lock consent was revoked or superseded'')"

definition retained_protective_request :: "string \<Rightarrow> plan_desired_state_request \<Rightarrow> bool" where
  "retained_protective_request prin request =
     (if prin \<noteq> PROTECTIVE_SLEEP_PRINCIPAL \<or> pdr_provider request \<noteq> ''session-locker''
         \<or> pdr_observation_capability request \<noteq> ''session.secure-lock.observe''
         \<or> pdr_desired_state request \<noteq> [(''secure'', ''true'')]
         \<or> length (reason_intent_ids (pdr_reason request)) \<noteq> 1
         \<or> reason_requirement_ids (pdr_reason request) \<noteq> []
         \<or> reason_capability_ids (pdr_reason request) \<noteq> []
      then False
      else case session_lock_id_from_resource (pdr_resource request) of
          Inl _ \<Rightarrow> False
        | Inr lock \<Rightarrow> is_ok (from_protective_request_id (pdr_request_id request) (lock_epoch lock)))"

definition context_observe_entry ::
  "preview_env \<Rightarrow> nat \<Rightarrow> protective_lock_context \<Rightarrow> observation_coordinator
     \<Rightarrow> (string + observation_envelope) \<times> observation_coordinator" where
  "context_observe_entry env n context c =
     (case sleep_resource_id (plc_event context) of
        Inl e \<Rightarrow> (Inl (sleep_invocation_error_text e), c)
      | Inr resource \<Rightarrow>
          (case probe env n ''system-sleep'' ''session.sleep-entry.observe'' resource c of
             (Inl e, c) \<Rightarrow> (Inl (observation_control_error_text e), c)
           | (Inr response, c) \<Rightarrow> (Inr (ores_observation response), c)))"

definition context_review_facts ::
  "protective_lock_context \<Rightarrow> string \<Rightarrow> observation_envelope \<Rightarrow> observation_envelope \<Rightarrow> observation_envelope
     \<Rightarrow> u64 \<Rightarrow> string + protective_lock_safety_review" where
  "context_review_facts context prin event session lock now =
     map_err protective_lock_safety_error_text
       (review_protective_lock_safety prin (plc_setting context) (plc_event context) (plc_lock context)
         event session lock now)"

section \<open>Session prerequisites of a plan\<close>

definition last_valid_ms :: "observation_envelope \<Rightarrow> plan_preview_control_error + u64" where
  "last_valid_ms ob =
     (if valid_for_ms ob = 0 then Inl (PreviewPlanning ''native session validity is empty'')
      else ok_or (Option.bind (checked_add (observed_at_unix_ms ob) (valid_for_ms ob))
          (\<lambda>first_invalid. checked_sub first_invalid 1)) (PreviewPlanning ''native session validity overflow''))"

text \<open>Narrows the validity of \<open>locker\<close> to what \<open>session\<close> allows; the answer is the narrowed envelope.\<close>

definition restrict_session_validity ::
  "observation_envelope \<Rightarrow> observation_envelope \<Rightarrow> u64 \<Rightarrow> plan_preview_control_error + observation_envelope" where
  "restrict_session_validity locker session now_unix_ms =
     and_then (last_valid_ms locker) (\<lambda>locker_end.
     and_then (last_valid_ms session) (\<lambda>session_end.
     and_then (ok_or (Option.bind (checked_sub (min locker_end session_end) (observed_at_unix_ms locker))
         (\<lambda>window. if window > 0 then Some window else None))
       (PreviewPlanning ''native session prerequisite validity is exhausted'')) (\<lambda>window.
     if now_unix_ms < observed_at_unix_ms session
     then Inl (PreviewPlanning ''native session prerequisite is in the future'')
     else let locker = locker\<lparr> valid_for_ms := window \<rparr> in
       and_then (map_err (\<lambda>e. PreviewPlanning (observation_validation_error_text e))
         (require_current locker now_unix_ms)) (\<lambda>_. Inr locker))))"

definition session_now :: "preview_env \<Rightarrow> nat \<Rightarrow> plan_preview_control_error + u64" where
  "session_now env n =
     (case pe_now env n of
        BeforeEpoch \<Rightarrow> Inl (PreviewPlanning ''session authority clock unavailable'')
      | SinceEpoch ms \<Rightarrow>
          if ms < 2 ^ 64 then Inr (word_of_nat ms)
          else Inl (PreviewPlanning ''session authority clock overflow''))"

definition safety_fail :: "session_safety_error + 'a \<Rightarrow> plan_preview_control_error + 'a" where
  "safety_fail r = map_err (\<lambda>e. PreviewPlanning (session_safety_error_text e)) r"

definition lock_action :: "plan_desired_state_request \<Rightarrow> plan_preview_control_error + session_action" where
  "lock_action request =
     (let secure = bt_get (pdr_desired_state request) ''secure'' in
      if secure = Some ''true'' then Inr ActionLock
      else if secure = Some ''false'' then Inr ActionUnlock
      else Inl (PreviewPlanning ''session-lock desired state is unsupported''))"

definition lock_precondition_finding ::
  "session_lock_id \<Rightarrow> observation_envelope \<Rightarrow> plan_preview_control_error + plan_finding" where
  "lock_precondition_finding lock session =
     (case bt_get (env_attributes session) ''seat'' of
        Some (ObsText seat) \<Rightarrow> Inr \<lparr> finding_code = ''native-session-lock-precondition'', finding_level = Pass,
          finding_message = ''NativeApi logind/session.epoch.observe '' @ env_resource session @ '': owner=''
            @ nat_to_dec (unat (ep_uid (lock_epoch lock)))
            @ '' type=wayland class=user state=active active=true remote=false seat='' @ seat
            @ '' leader_present=true'' \<rparr>
      | _ \<Rightarrow> Inl (PreviewPlanning ''native session seat is missing''))"

text \<open>The part for a protective context: the entry event narrows the window and is bound into the evidence.\<close>

definition protective_facts ::
  "crypto \<Rightarrow> preview_env \<Rightarrow> string \<Rightarrow> protective_lock_context \<Rightarrow> observation_envelope \<Rightarrow> observation_envelope
     \<Rightarrow> observation_coordinator \<Rightarrow> (plan_preview_control_error + observation_envelope) \<times> observation_coordinator" where
  "protective_facts cr env prin context session observation c =
     (case context_observe_entry env 2 context c of
        (Inl e, c) \<Rightarrow> (Inl (PreviewPlanning e), c)
      | (Inr event, c) \<Rightarrow>
          (and_then (session_now env 1) (\<lambda>now.
           and_then (map_err PreviewPlanning (context_review_facts context prin event session observation now)) (\<lambda>_.
           and_then (restrict_session_validity observation event now) (\<lambda>observation.
           and_then (map_err (\<lambda>e. PreviewPlanning (durable_authority_error_text e)) (digest_observation cr event))
             (\<lambda>digest.
           Inr (observation\<lparr> env_attributes := bt_insert ''protective_policy_revision''
               (ObsText (pls_revision (plc_setting context)))
               (bt_insert ''protective_sleep_entry_digest'' (ObsText digest) (env_attributes observation)) \<rparr>))))), c))"

definition validate_session_lock_facts ::
  "crypto \<Rightarrow> preview_env \<Rightarrow> normalized_plan_input \<Rightarrow> observation_envelope \<Rightarrow> protective_lock_context option \<Rightarrow> bool
     \<Rightarrow> observation_coordinator
     \<Rightarrow> (plan_preview_control_error + plan_finding option \<times> observation_envelope) \<times> observation_coordinator" where
  "validate_session_lock_facts cr env input observation protective observe_only c =
     (let request = npi_request input in
      if pdr_provider request \<noteq> ''session-locker'' then (Inr (None, observation), c)
      else
      then_with (map_err (\<lambda>e. PreviewPlanning (session_epoch_error_text e))
        (session_lock_id_from_resource (pdr_resource request)), c) (\<lambda>lock c.
      then_with (map_err (\<lambda>e. PreviewPlanning (session_epoch_error_text e))
        (session_epoch_resource_id (lock_epoch lock)), c) (\<lambda>resource c.
      then_with (apfst (map_err from_observation_error) (probe env 1 ''logind'' ''session.epoch.observe'' resource c))
        (\<lambda>session c. let session = ores_observation session in
      then_with (session_now env 0, c) (\<lambda>now c.
      then_with (lock_action request, c) (\<lambda>action c.
      then_with (if protective \<noteq> None \<or> observe_only
          then map_err (\<lambda>e. PreviewPlanning (plan_preview_control_error_text e))
            (authenticated_principal_new (owner_principal (lock_epoch lock)))
          else Inr (npi_principal input), c) (\<lambda>owner c.
      then_with (safety_fail (review_session_safety owner (lock_epoch lock) action session now), c) (\<lambda>_ c.
      then_with (safety_fail (validate_native_lock lock observation now), c) (\<lambda>_ c.
      then_with (restrict_session_validity observation session now, c) (\<lambda>observation c.
      then_with (case protective of
            None \<Rightarrow> (Inr observation, c)
          | Some context \<Rightarrow> protective_facts cr env (npi_principal input) context session observation c)
        (\<lambda>observation c.
      (and_then (lock_precondition_finding lock session) (\<lambda>finding. Inr (Some finding, observation)), c))))))))))))"

section \<open>Power transitions\<close>

record power_plan_facts =
  spf_completed :: bool
  spf_findings :: "plan_finding list"

fun observed_value_debug :: "observed_value \<Rightarrow> string" where
  "observed_value_debug (ObsText v) = ''Text('' @ debug_str v @ '')''"
| "observed_value_debug (ObsBool v) = ''Bool('' @ bool_text v @ '')''"
| "observed_value_debug (ObsU64 v) = ''U64('' @ u64_to_dec v @ '')''"
| "observed_value_debug (ObsI64 v) = ''I64('' @ i64_to_dec v @ '')''"

fun debug_entries :: "(string \<times> observed_value) list \<Rightarrow> string" where
  "debug_entries [] = []"
| "debug_entries [(key, v)] = debug_str key @ '': '' @ observed_value_debug v"
| "debug_entries ((key, v) # es) = debug_str key @ '': '' @ observed_value_debug v @ '', '' @ debug_entries es"

definition transition_finding :: "observation_envelope \<Rightarrow> plan_finding" where
  "transition_finding ob = \<lparr> finding_code = ''native-session-transition-'' @ env_capability ob, finding_level = Pass,
     finding_message = ''NativeApi '' @ env_provider ob @ ''/'' @ env_capability ob @ ''/'' @ env_resource ob
       @ '': {'' @ debug_entries (env_attributes ob) @ ''}'' \<rparr>"

definition transition_now :: "preview_env \<Rightarrow> nat \<Rightarrow> plan_preview_control_error + u64" where
  "transition_now env n =
     (case pe_now env n of
        BeforeEpoch \<Rightarrow> Inl (PreviewPlanning ''second time provided was later than self'')
      | SinceEpoch ms \<Rightarrow>
          if ms < 2 ^ 64 then Inr (word_of_nat ms)
          else Inl (PreviewPlanning ''out of range integral type conversion attempted''))"

definition transition_probe ::
  "preview_env \<Rightarrow> nat \<Rightarrow> string \<Rightarrow> string \<Rightarrow> resource_id \<Rightarrow> observation_coordinator
     \<Rightarrow> (plan_preview_control_error + observation_envelope) \<times> observation_coordinator" where
  "transition_probe env n provider capability resource c =
     (case probe env n provider capability resource c of
        (Inl e, c) \<Rightarrow> (Inl (from_observation_error e), c)
      | (Inr response, c) \<Rightarrow> (Inr (ores_observation response), c))"

definition lock_resource :: "session_transition_id \<Rightarrow> plan_preview_control_error + resource_id" where
  "lock_resource target = map_err (\<lambda>e. PreviewPlanning (session_epoch_error_text e))
     (session_lock_id_resource_id (tr_lock target))"

definition epoch_resource :: "session_transition_id \<Rightarrow> plan_preview_control_error + resource_id" where
  "epoch_resource target = map_err (\<lambda>e. PreviewPlanning (session_epoch_error_text e))
     (session_epoch_resource_id (lock_epoch (tr_lock target)))"

text \<open>Narrows \<open>native\<close> by each piece of evidence, with the clock read before each, and collects the findings.\<close>

fun narrow_all ::
  "preview_env \<Rightarrow> nat \<Rightarrow> observation_envelope list \<Rightarrow> observation_envelope \<Rightarrow> plan_finding list
     \<Rightarrow> plan_preview_control_error + observation_envelope \<times> plan_finding list" where
  "narrow_all env n [] native findings = Inr (native, findings)"
| "narrow_all env n (evidence # rest) native findings =
     and_then (transition_now env n) (\<lambda>now.
     and_then (restrict_session_validity native evidence now) (\<lambda>native.
     narrow_all env (n + 1) rest native (findings @ [transition_finding evidence])))"

text \<open>The postcondition, with an independent lock sample only if the native facts ask for one.\<close>

definition transition_postcondition ::
  "preview_env \<Rightarrow> session_transition_id \<Rightarrow> observation_envelope \<Rightarrow> observation_coordinator
     \<Rightarrow> (plan_preview_control_error + session_transition_postcondition \<times> observation_envelope option)
        \<times> observation_coordinator" where
  "transition_postcondition env target native c =
     then_with (and_then (transition_now env 2) (\<lambda>now.
       safety_fail (review_session_transition_postcondition target native None now)), c) (\<lambda>post c.
     if post \<noteq> SecureCoverageRequired then (Inr (post, None), c)
     else
     then_with (lock_resource target, c) (\<lambda>resource c.
     then_with (transition_probe env 3 ''session-locker'' ''session.secure-lock.observe'' resource c) (\<lambda>coverage c.
     (and_then (transition_now env 3) (\<lambda>now.
      and_then (safety_fail (review_session_transition_postcondition target native (Some coverage) now)) (\<lambda>post.
      Inr (post, Some coverage))), c))))"

text \<open>The power conditions of a transition that is not a logout.\<close>

definition power_conditions ::
  "preview_env \<Rightarrow> string \<Rightarrow> session_transition_id \<Rightarrow> observation_envelope \<Rightarrow> observation_envelope
     \<Rightarrow> plan_finding list \<Rightarrow> observation_coordinator
     \<Rightarrow> (plan_preview_control_error + observation_envelope \<times> plan_finding list) \<times> observation_coordinator" where
  "power_conditions env prin target coverage native findings c =
     then_with (epoch_resource target, c) (\<lambda>resource c.
     then_with (transition_probe env 6 ''logind'' ''session.power.conditions.observe'' resource c) (\<lambda>conditions c.
     then_with (map_err (\<lambda>e. PreviewPlanning (session_transition_error_text e)) (permission_resource_id target), c)
       (\<lambda>permission_resource c.
     then_with (transition_probe env 7 ''polkit'' ''session.power.permission.observe'' permission_resource c)
       (\<lambda>permission c.
     (and_then (transition_now env 9) (\<lambda>now.
      and_then (safety_fail (review_with_permission prin target conditions permission now)) (\<lambda>safety.
      and_then (if transition_action (tr_transition target) = ActionSuspend
          then and_then (transition_now env 10) (\<lambda>now.
            and_then (safety_fail (require_secure_suspend safety coverage now)) (\<lambda>lock.
            ensure (lock = tr_lock target) (PreviewPlanning ''power secure coverage generation changed'')))
          else Inr ()) (\<lambda>_.
      narrow_all env 11 [conditions, permission] native findings))), c)))))"

definition transition_prerequisites ::
  "preview_env \<Rightarrow> string \<Rightarrow> session_transition_id \<Rightarrow> observation_envelope \<Rightarrow> plan_finding list
     \<Rightarrow> observation_coordinator
     \<Rightarrow> (plan_preview_control_error + observation_envelope \<times> plan_finding list) \<times> observation_coordinator" where
  "transition_prerequisites env prin target native findings c =
     (let epoch = lock_epoch (tr_lock target); action = transition_action (tr_transition target) in
      then_with (epoch_resource target, c) (\<lambda>resource c.
      then_with (transition_probe env 4 ''logind'' ''session.epoch.observe'' resource c) (\<lambda>session c.
      then_with (and_then (transition_now env 5) (\<lambda>now.
        safety_fail (review_session_safety prin epoch action session now)), c) (\<lambda>ownership c.
      then_with (lock_resource target, c) (\<lambda>resource c.
      then_with (transition_probe env 5 ''session-locker'' ''session.secure-lock.observe'' resource c) (\<lambda>coverage c.
      then_with (and_then (transition_now env 6) (\<lambda>now.
        and_then (safety_fail (require_secure_coverage ownership coverage now)) (\<lambda>lock.
        ensure (lock = tr_lock target) (PreviewPlanning ''transition secure coverage generation changed''))), c) (\<lambda>_ c.
      then_with (narrow_all env 7 [session, coverage] native findings, c) (\<lambda>(native, findings) c.
      if action = ActionLogout then (Inr (native, findings), c)
      else power_conditions env prin target coverage native findings c))))))))"

definition session_power_plan_facts ::
  "preview_env \<Rightarrow> string \<Rightarrow> plan_desired_state_request \<Rightarrow> observation_envelope \<Rightarrow> observation_coordinator
     \<Rightarrow> (plan_preview_control_error + power_plan_facts option \<times> observation_envelope)
        \<times> observation_coordinator" where
  "session_power_plan_facts env prin request native c =
     (if pdr_provider request \<noteq> MANAGED_SESSION_TRANSITION_PROVIDER
         \<or> pdr_observation_capability request \<noteq> MANAGED_SESSION_TRANSITION_CAPABILITY
      then (Inr (None, native), c)
      else
      then_with (map_err (\<lambda>e. PreviewPlanning (session_transition_error_text e))
        (session_transition_id_from_resource (pdr_resource request)), c) (\<lambda>target c.
      if length (pdr_desired_state request) \<noteq> 1 \<or> bt_get (pdr_desired_state request) ''completed'' \<noteq> Some ''true''
         \<or> prin \<noteq> owner_principal (lock_epoch (tr_lock target))
      then (Inl (PreviewPlanning
        ''transition requires exact owner and the sole completed=true postcondition''), c)
      else
      then_with (transition_postcondition env target native c) (\<lambda>(post, coverage) c.
      if post = Indeterminate \<or> post = SecureCoverageRequired
      then (Inl (PreviewPlanning ''native transition remains ambiguous; no replay is permitted''), c)
      else
      let completed = (post \<noteq> NotSatisfied); findings = [transition_finding native] in
      then_with (narrow_all env 4 (case coverage of None \<Rightarrow> [] | Some e \<Rightarrow> [e]) native findings, c)
        (\<lambda>(native, findings) c.
      if completed then (Inr (Some \<lparr> spf_completed = completed, spf_findings = findings \<rparr>, native), c)
      else
      then_with (transition_prerequisites env prin target native findings c) (\<lambda>(native, findings) c.
      (Inr (Some \<lparr> spf_completed = completed, spf_findings = findings \<rparr>, native), c))))))"

section \<open>Fresh plans\<close>

fun planning_freshness_of :: "freshness_state \<Rightarrow> planning_freshness" where
  "planning_freshness_of Current = PlanCurrent"
| "planning_freshness_of Stale = PlanStale"
| "planning_freshness_of Future = PlanFuture"

definition planning_observation_of :: "observation_response \<Rightarrow> planning_observation" where
  "planning_observation_of response =
     (let ob = ores_observation response in
      \<lparr> po_provider = env_provider ob, po_resource = env_resource ob, po_observation_capability = env_capability ob,
        po_authority = observation_authority_as_str (env_authority ob), po_evidence_id = evidence_id ob,
        po_freshness = planning_freshness_of (ores_freshness response),
        po_attributes = map (\<lambda>(key, v). (key, observed_value_text v)) (env_attributes ob) \<rparr>)"

definition protective_finding :: "protective_lock_context \<Rightarrow> plan_preview_control_error + plan_finding" where
  "protective_finding context =
     and_then (map_err (\<lambda>e. PreviewPlanning (sleep_invocation_error_text e)) (sleep_resource_id (plc_event context)))
       (\<lambda>resource.
     Inr \<lparr> finding_code = ''protective-native-sleep-precondition'', finding_level = Pass,
           finding_message = ''exact authenticated pre-kernel native event='' @ resource @ '' owner-intent=''
             @ pls_intent (plc_setting context) @ '' current-policy='' @ pls_revision (plc_setting context) \<rparr>)"

definition add_findings :: "plan_finding list \<Rightarrow> reconciliation_plan \<Rightarrow> reconciliation_plan" where
  "add_findings fs plan = plan\<lparr> plan_findings := plan_findings plan @ fs \<rparr>"

definition build_fresh_plan_with_context ::
  "crypto \<Rightarrow> preview_env \<Rightarrow> normalized_plan_input \<Rightarrow> actor \<Rightarrow> protective_lock_context option \<Rightarrow> bool
     \<Rightarrow> observation_coordinator
     \<Rightarrow> (plan_preview_control_error + reconciliation_plan \<times> observation_envelope) \<times> observation_coordinator" where
  "build_fresh_plan_with_context cr env input actor protective observe_only c =
     (let request = npi_request input in
      then_with (apfst (map_err from_observation_error)
        (probe env 0 (pdr_provider request) (pdr_observation_capability request) (pdr_resource request) c))
        (\<lambda>response c.
      then_with (validate_session_lock_facts cr env input (ores_observation response) protective observe_only c)
        (\<lambda>(prerequisite, observation) c.
      then_with (session_power_plan_facts env (npi_principal input) request observation c)
        (\<lambda>(power_facts, observation) c.
      let planning = planning_observation_of (response\<lparr> ores_observation := observation \<rparr>);
          planning = (case power_facts of
              None \<Rightarrow> planning
            | Some facts \<Rightarrow> planning\<lparr> po_attributes := bt_insert ''completed'' (bool_text (spf_completed facts))
                (po_attributes planning) \<rparr>) in
      (and_then (map_err (\<lambda>e. PreviewPlanning (planning_error_text e))
         (plan_resource (pdr_request_id request) actor (input_desired_resource request) planning)) (\<lambda>plan.
       and_then (case protective of
           None \<Rightarrow> Inr []
         | Some context \<Rightarrow> and_then (protective_finding context) (\<lambda>f. Inr [f])) (\<lambda>protective_findings.
       Inr (add_findings ((case prerequisite of None \<Rightarrow> [] | Some f \<Rightarrow> [f]) @ protective_findings
              @ (case power_facts of None \<Rightarrow> [] | Some facts \<Rightarrow> spf_findings facts)) plan, observation))), c)))))"

definition build_fresh_plan ::
  "crypto \<Rightarrow> preview_env \<Rightarrow> normalized_plan_input \<Rightarrow> actor \<Rightarrow> observation_coordinator
     \<Rightarrow> (plan_preview_control_error + reconciliation_plan \<times> observation_envelope) \<times> observation_coordinator" where
  "build_fresh_plan cr env input actor c = build_fresh_plan_with_context cr env input actor None False c"

section \<open>The store of previews\<close>

type_synonym preview_key = "string \<times> plan_id"

record stored_preview =
  sp_input :: normalized_plan_input
  sp_plan :: reconciliation_plan
  sp_retained_bytes :: nat

record preview_store =
  pst_capacity :: nat
  pst_max_entry_bytes :: nat
  pst_max_total_bytes :: nat
  pst_retained_bytes :: nat
  pst_entries :: "(preview_key, stored_preview) btree_map"
  pst_order :: "preview_key list"

definition preview_store_default :: preview_store where
  "preview_store_default = \<lparr> pst_capacity = MAX_PREVIEW_ENTRIES, pst_max_entry_bytes = MAX_PREVIEW_ENTRY_BYTES,
     pst_max_total_bytes = MAX_PREVIEW_TOTAL_BYTES, pst_retained_bytes = 0, pst_entries = [], pst_order = [] \<rparr>"

definition preview_key_from_input :: "normalized_plan_input \<Rightarrow> plan_preview_control_error + preview_key" where
  "preview_key_from_input input = and_then (input_plan_id input) (\<lambda>i. Inr (npi_principal input, i))"

definition preview_replay ::
  "preview_store \<Rightarrow> normalized_plan_input \<Rightarrow> plan_preview_control_error + reconciliation_plan option" where
  "preview_replay st input =
     and_then (preview_key_from_input input) (\<lambda>key.
     case bt_get (pst_entries st) key of
       None \<Rightarrow> Inr None
     | Some stored \<Rightarrow>
         if sp_input stored \<noteq> input then Inl (PreviewIdempotencyConflict (snd key)) else Inr (Some (sp_plan stored)))"

definition reason_texts :: "semantic_reason \<Rightarrow> string list" where
  "reason_texts r = reason_summary r # reason_intent_ids r @ reason_requirement_ids r @ reason_capability_ids r"

definition estimate_input_bytes :: "normalized_plan_input \<Rightarrow> nat" where
  "estimate_input_bytes input = total_bytes (npi_principal input # request_texts (npi_request input))"

definition estimate_plan_bytes :: "reconciliation_plan \<Rightarrow> nat" where
  "estimate_plan_bytes plan = total_bytes
     ([plan_id plan, plan_request_id plan, actor_id (plan_actor plan), plan_provider plan, plan_resource_id plan,
       plan_observation_capability plan] @ reason_texts (plan_reason plan) @ [plan_observed_evidence_id plan]
      @ concat (map (\<lambda>change. [change_key change, case change_current change of None \<Rightarrow> [] | Some v \<Rightarrow> v,
          change_desired change]) (plan_changes plan))
      @ concat (map (\<lambda>finding. [finding_code finding, finding_message finding]) (plan_findings plan)))"

definition estimate_bytes :: "preview_key \<Rightarrow> normalized_plan_input \<Rightarrow> reconciliation_plan \<Rightarrow> nat" where
  "estimate_bytes key input plan =
     usize_saturating_add (usize_saturating_add (total_bytes [fst key, snd key]) (estimate_input_bytes input))
       (estimate_plan_bytes plan)"

definition drop_preview :: "preview_key \<Rightarrow> preview_store \<Rightarrow> preview_store" where
  "drop_preview key st =
     (case bt_get (pst_entries st) key of
        None \<Rightarrow> st
      | Some removed \<Rightarrow> st\<lparr> pst_entries := bt_remove key (pst_entries st),
          pst_retained_bytes := pst_retained_bytes st - sp_retained_bytes removed \<rparr>)"

lemma drop_preview_order [simp]: "pst_order (drop_preview key st) = pst_order st"
  by (simp add: drop_preview_def split: option.splits)

function make_room :: "nat \<Rightarrow> preview_store \<Rightarrow> (plan_preview_control_error + unit) \<times> preview_store" where
  "make_room bytes st =
     (if length (pst_entries st) \<ge> pst_capacity st
         \<or> usize_saturating_add (pst_retained_bytes st) bytes > pst_max_total_bytes st
      then case pst_order st of
          [] \<Rightarrow> (Inl (PreviewRetention ''preview retention accounting is inconsistent''), st)
        | oldest # rest \<Rightarrow> make_room bytes (drop_preview oldest (st\<lparr> pst_order := rest \<rparr>))
      else (Inr (), st))"
  by auto
termination make_room
  by (relation "measure (\<lambda>(_, st). length (pst_order st))") auto

declare make_room.simps [simp del]

definition check_retained :: "normalized_plan_input \<Rightarrow> preview_key \<Rightarrow> reconciliation_plan
    \<Rightarrow> plan_preview_control_error + unit" where
  "check_retained input key plan =
     (let request = npi_request input in
      if plan_id plan \<noteq> snd key \<or> plan_request_id plan \<noteq> pdr_request_id request
      then Inl (PreviewRetention ''retained preview identity does not match normalized request'')
      else if plan_provider plan \<noteq> pdr_provider request \<or> plan_resource_id plan \<noteq> pdr_resource request
        \<or> plan_observation_capability plan \<noteq> pdr_observation_capability request
        \<or> plan_reason plan \<noteq> pdr_reason request
      then Inl (PreviewRetention ''retained preview route or semantic reason does not match request'')
      else Inr ())"

definition preview_insert ::
  "normalized_plan_input \<Rightarrow> reconciliation_plan \<Rightarrow> preview_store
     \<Rightarrow> (plan_preview_control_error + unit) \<times> preview_store" where
  "preview_insert input plan st =
     then_with (preview_key_from_input input, st) (\<lambda>key st.
     then_with (check_retained input key plan, st) (\<lambda>_ st.
     case bt_get (pst_entries st) key of
       Some existing \<Rightarrow>
         if sp_input existing = input \<and> sp_plan existing = plan then (Inr (), st)
         else (Inl (PreviewIdempotencyConflict (snd key)), st)
     | None \<Rightarrow>
         let bytes = estimate_bytes key input plan in
         if bytes > pst_max_entry_bytes st \<or> bytes > pst_max_total_bytes st
         then (Inl (PreviewRetention (''preview requires '' @ nat_to_dec bytes
           @ '' retained bytes, exceeding per-entry limit '' @ nat_to_dec (pst_max_entry_bytes st))), st)
         else
         then_with (make_room bytes st) (\<lambda>_ st.
         (Inr (), st\<lparr> pst_retained_bytes := usize_saturating_add (pst_retained_bytes st) bytes,
            pst_order := pst_order st @ [key],
            pst_entries := bt_insert key \<lparr> sp_input = input, sp_plan = plan, sp_retained_bytes = bytes \<rparr>
              (pst_entries st) \<rparr>))))"

definition preview_get :: "preview_store \<Rightarrow> string \<Rightarrow> plan_id \<Rightarrow> reconciliation_plan option" where
  "preview_get st prin i = map_option sp_plan (bt_get (pst_entries st) (prin, i))"

section \<open>The control\<close>

record plan_preview_control =
  ppc_coordinator :: observation_coordinator
  ppc_previews :: preview_store

definition plan_preview_control_new :: "observation_coordinator \<Rightarrow> plan_preview_control" where
  "plan_preview_control_new coordinator =
     \<lparr> ppc_coordinator = coordinator, ppc_previews = preview_store_default \<rparr>"

text \<open>Runs an operation of the coordinator inside the control.\<close>

definition on_coordinator ::
  "(observation_coordinator \<Rightarrow> 'r \<times> observation_coordinator) \<Rightarrow> plan_preview_control \<Rightarrow> 'r \<times> plan_preview_control" where
  "on_coordinator f ctl = (case f (ppc_coordinator ctl) of (r, c) \<Rightarrow> (r, ctl\<lparr> ppc_coordinator := c \<rparr>))"

type_synonym fresh_plan = "plan_preview_control_error + reconciliation_plan \<times> observation_envelope"

definition preview_authority_candidate ::
  "crypto \<Rightarrow> preview_env \<Rightarrow> string \<Rightarrow> actor \<Rightarrow> plan_desired_state_request \<Rightarrow> plan_preview_control
     \<Rightarrow> fresh_plan \<times> plan_preview_control" where
  "preview_authority_candidate cr env prin actor request ctl =
     then_with (normalized_plan_input_new prin request, ctl) (\<lambda>input ctl.
     on_coordinator (build_fresh_plan cr env input actor) ctl)"

definition protective_authority_candidate ::
  "crypto \<Rightarrow> preview_env \<Rightarrow> string \<Rightarrow> actor \<Rightarrow> plan_desired_state_request \<Rightarrow> protective_lock_context
     \<Rightarrow> plan_preview_control \<Rightarrow> fresh_plan \<times> plan_preview_control" where
  "protective_authority_candidate cr env prin actor request context ctl =
     then_with (map_err PreviewPlanning (context_require_request context prin actor request), ctl) (\<lambda>_ ctl.
     then_with (normalized_plan_input_new prin request, ctl) (\<lambda>input ctl.
     on_coordinator (build_fresh_plan_with_context cr env input actor (Some context) False) ctl))"

definition protective_recovery_candidate ::
  "crypto \<Rightarrow> preview_env \<Rightarrow> string \<Rightarrow> actor \<Rightarrow> plan_desired_state_request \<Rightarrow> plan_preview_control
     \<Rightarrow> fresh_plan \<times> plan_preview_control" where
  "protective_recovery_candidate cr env prin actor request ctl =
     (if \<not> retained_protective_request prin request \<or> actor \<noteq> protective_actor
      then (Inl (PreviewPlanning ''invalid protective observe-only scope''), ctl)
      else
      then_with (normalized_plan_input_new prin request, ctl) (\<lambda>input ctl.
      on_coordinator (build_fresh_plan_with_context cr env input actor None True) ctl))"

record plan_preview =
  pp_plan_id :: plan_id
  pp_request_id :: request_id
  pp_actor :: actor
  pp_provider :: provider_id
  pp_resource :: resource_id
  pp_observation_capability :: capability_id
  pp_reason :: semantic_reason
  pp_observed_evidence_id :: string
  pp_prospective_risk :: risk_class
  pp_status :: plan_status
  pp_execution_authorized :: bool
  pp_changes :: "state_change list"
  pp_findings :: "plan_finding list"

definition preview_from_plan :: "reconciliation_plan \<Rightarrow> plan_preview" where
  "preview_from_plan plan = \<lparr> pp_plan_id = plan_id plan, pp_request_id = plan_request_id plan,
     pp_actor = plan_actor plan, pp_provider = plan_provider plan, pp_resource = plan_resource_id plan,
     pp_observation_capability = plan_observation_capability plan, pp_reason = plan_reason plan,
     pp_observed_evidence_id = plan_observed_evidence_id plan, pp_prospective_risk = plan_prospective_risk plan,
     pp_status = plan_status plan, pp_execution_authorized = execution_authorized plan,
     pp_changes = plan_changes plan, pp_findings = plan_findings plan \<rparr>"

definition plan_desired_state ::
  "crypto \<Rightarrow> preview_env \<Rightarrow> string \<Rightarrow> actor \<Rightarrow> plan_desired_state_request \<Rightarrow> plan_preview_control
     \<Rightarrow> (plan_preview_control_error + plan_preview) \<times> plan_preview_control" where
  "plan_desired_state cr env prin actor request ctl =
     then_with (normalized_plan_input_new prin request, ctl) (\<lambda>input ctl.
     then_with (preview_replay (ppc_previews ctl) input, ctl) (\<lambda>retained ctl.
     case retained of
       Some plan \<Rightarrow> (Inr (preview_from_plan plan), ctl)
     | None \<Rightarrow>
         then_with (on_coordinator (build_fresh_plan cr env input actor) ctl) (\<lambda>(plan, _) ctl.
         case preview_insert input plan (ppc_previews ctl) of
           (r, st) \<Rightarrow> (and_then r (\<lambda>_. Inr (preview_from_plan plan)), ctl\<lparr> ppc_previews := st \<rparr>))))"

definition retained_plan ::
  "plan_preview_control \<Rightarrow> string \<Rightarrow> plan_id \<Rightarrow> plan_preview_control_error + reconciliation_plan" where
  "retained_plan ctl prin i = ok_or (preview_get (ppc_previews ctl) prin i) (PreviewNotRetained i)"

definition preview_provider_snapshot ::
  "nat \<Rightarrow> plan_preview_control \<Rightarrow> observation_control_error + provider_snapshot" where
  "preview_provider_snapshot t ctl = coordinator_provider_snapshot t (ppc_coordinator ctl)"

definition preview_observe ::
  "nat \<Rightarrow> system_time \<Rightarrow> observation_request \<Rightarrow> plan_preview_control
     \<Rightarrow> (observation_control_error + observation_response) \<times> plan_preview_control" where
  "preview_observe t clock request ctl = on_coordinator (observe_with_clock t clock request) ctl"

definition preview_graph_snapshot ::
  "system_time \<Rightarrow> plan_preview_control \<Rightarrow> observation_control_error + system_graph" where
  "preview_graph_snapshot clock ctl = graph_snapshot clock (ppc_coordinator ctl)"

definition explain_observation ::
  "system_time \<Rightarrow> plan_preview_control \<Rightarrow> resource_id \<Rightarrow> observation_control_error + observation_explanation" where
  "explain_observation clock ctl resource = explain_current clock (ppc_coordinator ctl) resource"

definition get_plan_preview ::
  "plan_preview_control \<Rightarrow> string \<Rightarrow> plan_id \<Rightarrow> plan_preview_control_error + plan_preview" where
  "get_plan_preview ctl prin i = and_then (retained_plan ctl prin i) (\<lambda>plan. Inr (preview_from_plan plan))"

definition explain_plan_preview ::
  "plan_preview_control \<Rightarrow> string \<Rightarrow> plan_id \<Rightarrow> plan_preview_control_error + plan_preview" where
  "explain_plan_preview ctl prin i = get_plan_preview ctl prin i"

end
