(* ===== verification/Observation_Retention.thy ===== *)
theory Observation_Retention
  imports Observation_Control
begin

text \<open>
  What the coordinator retains over any history of registrations and observations: the graph holds the
  evidence of the retained envelopes and nothing else, within the limits the coordinator was built with,
  and each resource shows the newest envelope accepted for it.
\<close>

section \<open>Eviction from one history\<close>

definition envelope_ids :: "(u64, observation_envelope) btree_map \<Rightarrow> string list" where
  "envelope_ids h = map (evidence_id \<circ> snd) h"

declare evict_history.simps [simp del] enforce_resource_limit.simps [simp del]

lemma envelope_ids_remove:
  assumes "bt_wf h" "distinct (envelope_ids h)" "(n, e) \<in> set h"
  shows "set (envelope_ids (bt_remove n h)) = set (envelope_ids h) - {evidence_id e}"
    and "distinct (envelope_ids (bt_remove n h))"
proof -
  have key: "(m, e') \<in> set h \<Longrightarrow> m = n \<longleftrightarrow> evidence_id e' = evidence_id e" for m e'
  proof
    assume "(m, e') \<in> set h" "m = n"
    then show "evidence_id e' = evidence_id e"
      using assms(1,3) by (metis bt_get_wf_iff option.inject)
  next
    assume "(m, e') \<in> set h" "evidence_id e' = evidence_id e"
    then show "m = n"
      using assms(2,3) by (force simp: envelope_ids_def distinct_map inj_on_def)
  qed
  then show "set (envelope_ids (bt_remove n h)) = set (envelope_ids h) - {evidence_id e}"
    by (force simp: envelope_ids_def bt_remove_def)
  show "distinct (envelope_ids (bt_remove n h))"
    using assms(2) unfolding envelope_ids_def bt_remove_def by (rule distinct_map_filter)
qed

lemma evictable_found:
  assumes "1 \<le> limit" "limit < length h" "distinct (envelope_ids h)"
  shows "\<exists>x. find (\<lambda>(_, envelope). evictable current envelope) h = Some x"
proof (rule ccontr)
  assume "\<nexists>x. find (\<lambda>(_, envelope). evictable current envelope) h = Some x"
  then have none: "\<forall>e \<in> set h. \<not> evictable current (snd e)"
    by (cases "find (\<lambda>(_, envelope). evictable current envelope) h") (auto simp: find_None_iff)
  from assms obtain a b r where h: "h = a # b # r"
    by (cases h; cases "tl h") auto
  with none obtain i where "evidence_id (snd a) = i" "evidence_id (snd b) = i"
    by (auto simp: evictable_def split: option.splits)
  with h assms(3) show False by (simp add: envelope_ids_def)
qed

lemma evict_history_result:
  assumes "evict_history limit current h evicted = (h', evicted')" "1 \<le> limit" "bt_wf h"
    and "distinct (envelope_ids h)"
  shows "bt_wf h' \<and> set h' \<subseteq> set h \<and> length h' \<le> limit \<and> distinct (envelope_ids h')
    \<and> (\<forall>i. current = Some i \<longrightarrow> i \<in> set (envelope_ids h) \<longrightarrow> i \<in> set (envelope_ids h'))
    \<and> (\<exists>new. evicted' = evicted @ new \<and> set (envelope_ids h') = set (envelope_ids h) - set new
        \<and> set new \<subseteq> set (envelope_ids h))"
  using assms
proof (induction limit current h evicted rule: evict_history.induct)
  case (1 limit current h evicted)
  show ?case
  proof (cases "length h \<le> limit")
    case True
    then show ?thesis using "1.prems" by (subst (asm) evict_history.simps) auto
  next
    case False
    then obtain n e where f: "find (\<lambda>(_, envelope). evictable current envelope) h = Some (n, e)"
      using evictable_found [of limit h current] "1.prems"(2,4) by auto
    then have mem: "(n, e) \<in> set h" and ev: "evictable current e" using find_mem by fastforce+
    note ids = envelope_ids_remove [OF "1.prems"(3,4) mem]
    have e: "evidence_id e \<in> set (envelope_ids h)" using mem by (force simp: envelope_ids_def)
    have step: "evict_history limit current (bt_remove n h) (evicted @ [evidence_id e]) = (h', evicted')"
      using "1.prems"(1) False f by (subst (asm) evict_history.simps) simp
    note IH = "1.IH" [OF False f refl step "1.prems"(2) bt_remove_wf [OF "1.prems"(3)] ids(2)]
    from IH obtain new where "evicted' = (evicted @ [evidence_id e]) @ new"
        "set (envelope_ids h') = set (envelope_ids (bt_remove n h)) - set new"
        "set new \<subseteq> set (envelope_ids (bt_remove n h))" by blast
    then have "\<exists>new. evicted' = evicted @ new \<and> set (envelope_ids h') = set (envelope_ids h) - set new
        \<and> set new \<subseteq> set (envelope_ids h)"
      using e by (intro exI [of _ "evidence_id e # new"]) (auto simp: ids(1))
    moreover have "set (bt_remove n h) \<subseteq> set h" by (auto simp: bt_remove_def)
    moreover have "current = Some i \<Longrightarrow> i \<noteq> evidence_id e" for i
      using ev by (auto simp: evictable_def)
    ultimately show ?thesis using IH by (auto simp: ids(1))
  qed
qed

section \<open>Removal from the graph\<close>

lemma graph_node_remove: "graph_node (snd (remove_node i g)) k = (if k = i then None else graph_node g k)"
  by (simp add: remove_node_def Let_def graph_node_def bt_get_remove)

lemma remove_evidence_wf: "graph_wf g \<Longrightarrow> graph_wf (remove_evidence ids g)"
  by (induction ids arbitrary: g) (simp_all add: remove_evidence_def remove_node_wf)

lemma graph_node_remove_evidence:
  "graph_node (remove_evidence ids g) k = (if k \<in> EvidenceNode ` set ids then None else graph_node g k)"
proof (induction ids arbitrary: g)
  case (Cons i ids)
  from Cons [of "snd (remove_node (EvidenceNode i) g)"] show ?case
    by (auto simp: remove_evidence_def graph_node_remove)
qed (simp add: remove_evidence_def)

lemma graph_node_record_evidence:
  "graph_node (snd (record_observation ob fr g)) (EvidenceNode i) \<noteq> None
     \<longleftrightarrow> i = evidence_id ob \<or> graph_node g (EvidenceNode i) \<noteq> None"
  by (auto simp: record_observation_def record_evidence_def Let_def graph_node_upsert)

section \<open>The invariant\<close>

definition resource_node :: "observation_envelope \<Rightarrow> node" where
  "resource_node e = \<lparr> node_ident = ResourceNode (env_resource e),
     node_attributes = resource_attributes e Current \<rparr>"

definition history_of :: "observation_coordinator \<Rightarrow> resource_id \<Rightarrow> (u64, observation_envelope) btree_map" where
  "history_of c r = (case bt_get (oc_history c) r of None \<Rightarrow> [] | Some h \<Rightarrow> h)"

definition history_ok :: "observation_coordinator \<Rightarrow> resource_id \<Rightarrow> bool" where
  "history_ok c r \<longleftrightarrow> bt_wf (history_of c r) \<and> length (history_of c r) \<le> oc_max_evidence c
     \<and> distinct (envelope_ids (history_of c r))
     \<and> (\<forall>(n, e) \<in> set (history_of c r). env_resource e = r \<and> n \<le> oc_retention_order c)"

text \<open>
  \<open>lat\<close> is what each resource shows. The maps of the coordinator have the same resources; the graph has
  their nodes, with the shown envelope, and the evidence nodes of the retained envelopes.
\<close>

definition tracked :: "(resource_id \<Rightarrow> observation_envelope option) \<Rightarrow> observation_coordinator \<Rightarrow> bool" where
  "tracked lat c \<longleftrightarrow> graph_wf (oc_graph c) \<and> bt_wf (oc_last_seen c) \<and> bt_wf (oc_history c)
     \<and> bt_wf (oc_latest c) \<and> 1 \<le> oc_max_evidence c \<and> 1 \<le> oc_max_resources c
     \<and> (\<forall>r. lat r \<noteq> None \<longleftrightarrow> bt_contains (oc_last_seen c) r)
     \<and> (\<forall>r. bt_contains (oc_history c) r \<longleftrightarrow> bt_contains (oc_last_seen c) r)
     \<and> (\<forall>r n. bt_get (oc_last_seen c) r = Some n \<longrightarrow> n \<le> oc_retention_order c)
     \<and> (\<forall>r. history_ok c r)
     \<and> (\<forall>i. graph_node (oc_graph c) (EvidenceNode i) \<noteq> None \<longleftrightarrow> (\<exists>r. i \<in> set (envelope_ids (history_of c r))))
     \<and> (\<forall>r. graph_node (oc_graph c) (ResourceNode r) = map_option resource_node (lat r))
     \<and> (\<forall>r e. lat r = Some e \<longrightarrow> env_resource e = r \<and> evidence_id e \<in> set (envelope_ids (history_of c r)))"

definition coordinator_inv :: "observation_coordinator \<Rightarrow> bool" where
  "coordinator_inv c \<longleftrightarrow> tracked (latest_observation c) c \<and> length (oc_last_seen c) \<le> oc_max_resources c"

lemma history_of_evict:
  "history_of (evict_resource r c) q = (if q = r then [] else history_of c q)"
  by (auto simp: history_of_def evict_resource_def Let_def bt_get_remove split: option.splits)

lemma evidence_image [simp]:
  "EvidenceNode i \<in> EvidenceNode ` S \<longleftrightarrow> i \<in> S" "ResourceNode r \<notin> EvidenceNode ` S"
  by auto

lemma evict_graph_node:
  "graph_node (oc_graph (evict_resource r c)) k =
     (if k = ResourceNode r \<or> k \<in> EvidenceNode ` set (envelope_ids (history_of c r)) then None
      else graph_node (oc_graph c) k)"
  by (auto simp: evict_resource_def Let_def graph_node_remove graph_node_remove_evidence history_of_def
      envelope_ids_def comp_def case_prod_beta split: option.splits)

lemma evict_graph_wf: "graph_wf (oc_graph c) \<Longrightarrow> graph_wf (oc_graph (evict_resource r c))"
  by (auto simp: evict_resource_def Let_def remove_node_wf remove_evidence_wf split: option.splits)

lemma evict_history_map:
  "bt_get (oc_history (evict_resource r c)) = (bt_get (oc_history c))(r := None)"
  "bt_wf (oc_history c) \<Longrightarrow> bt_wf (oc_history (evict_resource r c))"
  by (auto simp: evict_resource_def Let_def bt_get_remove fun_eq_iff split: option.splits)

lemma history_ids_resource: "history_ok c r \<Longrightarrow> i \<in> set (envelope_ids (history_of c r))
    \<Longrightarrow> \<exists>e. evidence_id e = i \<and> env_resource e = r"
  by (auto simp: history_ok_def envelope_ids_def)

lemma tracked_evict:
  assumes "tracked lat c"
  shows "tracked (lat(r := None)) (evict_resource r c)"
proof -
  note t = assms [unfolded tracked_def]
  have own: "i \<in> set (envelope_ids (history_of c p)) \<Longrightarrow> i \<in> set (envelope_ids (history_of c q)) \<Longrightarrow> p = q" for i p q
    using t history_ids_resource [of c p i] history_ids_resource [of c q i] evidence_id_inject by metis
  have ok: "history_ok (evict_resource r c) q" for q
  proof -
    have "history_ok c q" using t by blast
    then show ?thesis by (auto simp: history_ok_def history_of_evict envelope_ids_def)
  qed
  have ev: "graph_node (oc_graph (evict_resource r c)) (EvidenceNode i) \<noteq> None
      \<longleftrightarrow> (\<exists>q. i \<in> set (envelope_ids (history_of (evict_resource r c) q)))" for i
  proof -
    have "graph_node (oc_graph c) (EvidenceNode i) \<noteq> None \<longleftrightarrow> (\<exists>q. i \<in> set (envelope_ids (history_of c q)))"
      using t by blast
    moreover have "set (envelope_ids (history_of (evict_resource r c) q))
        = (if q = r then {} else set (envelope_ids (history_of c q)))" for q
      by (simp add: history_of_evict envelope_ids_def)
    moreover have "i \<in> set (envelope_ids (history_of c r)) \<Longrightarrow> q \<noteq> r
        \<Longrightarrow> i \<notin> set (envelope_ids (history_of c q))" for q
      using own by metis
    ultimately show ?thesis
      by (cases "i \<in> set (envelope_ids (history_of c r))") (auto simp: evict_graph_node, metis)
  qed
  show ?thesis
    unfolding tracked_def
    using t ok ev
    by (auto simp: evict_graph_wf evict_history_map evict_graph_node history_of_evict bt_get_remove
        bt_contains_def split: if_splits)
qed

text \<open>The resource observed last is never the one evicted.\<close>

definition newest :: "observation_coordinator \<Rightarrow> resource_id \<Rightarrow> bool" where
  "newest c r0 \<longleftrightarrow> bt_get (oc_last_seen c) r0 = Some (oc_retention_order c)
     \<and> (\<forall>r n. bt_get (oc_last_seen c) r = Some n \<longrightarrow> r \<noteq> r0 \<longrightarrow> n < oc_retention_order c)"

lemma newest_not_least:
  assumes "newest c r0" "bt_wf (oc_last_seen c)" "1 < length (oc_last_seen c)"
    and "least_recent (oc_last_seen c) = Some (r, n)"
  shows "r \<noteq> r0"
proof
  assume "r = r0"
  then have n: "n = oc_retention_order c" and le: "\<forall>e \<in> set (oc_last_seen c). n \<le> snd e"
    using least_recent_Some [OF assms(4)] assms(1,2) by (auto simp: newest_def simp flip: bt_get_wf_iff)
  obtain a b rest where l: "oc_last_seen c = a # b # rest"
    using assms(3) by (cases "oc_last_seen c"; cases "tl (oc_last_seen c)") auto
  then have "fst a \<noteq> r0 \<or> fst b \<noteq> r0" using assms(2) by (auto simp: bt_wf_Cons)
  then obtain q m where "(q, m) \<in> set (oc_last_seen c)" "q \<noteq> r0"
    using l by (metis list.set_intros prod.collapse)
  then show False using assms(1,2) le n by (force simp: newest_def bt_get_wf_iff)
qed

text \<open>\<open>reduced lat c lat' c'\<close>: resources were evicted from \<open>c\<close>, nothing else changed.\<close>

definition reduced ::
  "(resource_id \<Rightarrow> observation_envelope option) \<Rightarrow> observation_coordinator
     \<Rightarrow> (resource_id \<Rightarrow> observation_envelope option) \<Rightarrow> observation_coordinator \<Rightarrow> bool" where
  "reduced lat c lat' c' \<longleftrightarrow> tracked lat' c' \<and> (\<forall>r. lat' r = lat r \<or> lat' r = None)
     \<and> (\<forall>r. bt_get (oc_latest c') r
           = (if lat' r = None \<and> lat r \<noteq> None then None else bt_get (oc_latest c) r))
     \<and> oc_retention_order c' = oc_retention_order c \<and> oc_max_resources c' = oc_max_resources c
     \<and> oc_max_evidence c' = oc_max_evidence c \<and> oc_observers c' = oc_observers c"

lemma reduced_evict:
  assumes "tracked lat c" "lat r \<noteq> None" "reduced (lat(r := None)) (evict_resource r c) lat' c'"
  shows "reduced lat c lat' c'"
proof -
  note red = assms(3) [unfolded reduced_def]
  have le: "lat' q = lat q \<or> lat' q = None" for q
    using red by (cases "q = r") (auto dest: spec [of _ q])
  have gone: "lat' r = None" using red by (auto dest: spec [of _ r])
  have "bt_get (oc_latest c') q = (if lat' q = None \<and> lat q \<noteq> None then None else bt_get (oc_latest c) q)" for q
    using red assms(2) gone by (cases "q = r") (auto simp: bt_get_remove dest: spec [of _ q])
  with le red show ?thesis by (simp add: reduced_def)
qed

lemma enforce_reduced:
  assumes "tracked lat c" "newest c r0"
  shows "\<exists>lat'. reduced lat c lat' (enforce_resource_limit c) \<and> lat' r0 = lat r0
    \<and> length (oc_last_seen (enforce_resource_limit c)) \<le> oc_max_resources c"
  using assms
proof (induction c arbitrary: lat rule: enforce_resource_limit.induct)
  case (1 c)
  show ?case
  proof (cases "oc_max_resources c < length (oc_last_seen c)")
    case False
    then show ?thesis
      using "1.prems"(1) by (intro exI [of _ lat]) (auto simp: enforce_resource_limit.simps reduced_def)
  next
    case True
    then obtain r n where least: "least_recent (oc_last_seen c) = Some (r, n)"
      by (cases "least_recent (oc_last_seen c)") auto
    have c: "bt_wf (oc_last_seen c)" "1 < length (oc_last_seen c)" "lat r \<noteq> None"
      using "1.prems"(1) True least_recent_Some [OF least]
      by (auto simp: tracked_def bt_contains_def simp flip: bt_get_wf_iff)
    have "r \<noteq> r0" by (rule newest_not_least [OF "1.prems"(2) c(1,2) least])
    then have "newest (evict_resource r c) r0"
      using "1.prems"(2) by (auto simp: newest_def bt_get_remove)
    from "1.IH" [OF True least refl tracked_evict [OF "1.prems"(1)] this] obtain lat' where
      IH: "reduced (lat(r := None)) (evict_resource r c) lat' (enforce_resource_limit (evict_resource r c))"
        "lat' r0 = (lat(r := None)) r0"
        "length (oc_last_seen (enforce_resource_limit (evict_resource r c))) \<le> oc_max_resources c"
      by (auto simp del: fun_upd_apply)
    have step: "enforce_resource_limit c = enforce_resource_limit (evict_resource r c)"
      using True least by (subst enforce_resource_limit.simps) simp
    show ?thesis
      unfolding step using reduced_evict [OF "1.prems"(1) c(3) IH(1)] IH(2,3) \<open>r \<noteq> r0\<close> by auto
  qed
qed

section \<open>One observation\<close>

text \<open>What the resource shows after evidence \<open>ob\<close> was recorded.\<close>

definition shows_after :: "observation_envelope \<Rightarrow> observation_envelope option \<Rightarrow> observation_envelope" where
  "shows_after ob shown = (case shown of
     None \<Rightarrow> ob
   | Some e \<Rightarrow> if observation_is_newer (resource_node e) ob then ob else e)"

lemma record_shows:
  assumes "graph_node g (ResourceNode (env_resource ob)) = map_option resource_node shown"
  shows "graph_node (snd (record_observation ob Current g)) (ResourceNode r) =
      (if r = env_resource ob then Some (resource_node (shows_after ob shown)) else graph_node g (ResourceNode r))"
    and "fst (record_observation ob Current g) = CurrentStateUpdated \<longleftrightarrow>
      (case shown of None \<Rightarrow> True | Some e \<Rightarrow> observation_is_newer (resource_node e) ob)"
  using assms
  by (auto simp: record_observation_resource record_observation_updates shows_after_def resource_node_def
      split: option.splits)

text \<open>The coordinator between the recording in the graph and the resource limit.\<close>

definition retained_state ::
  "observation_envelope \<Rightarrow> (u64, observation_envelope) btree_map \<Rightarrow> system_graph \<Rightarrow> u64
     \<Rightarrow> observation_coordinator \<Rightarrow> observation_coordinator" where
  "retained_state ob h g n c = c\<lparr> oc_retention_order := n,
     oc_history := bt_insert (env_resource ob) h (oc_history c), oc_graph := g,
     oc_last_seen := bt_insert (env_resource ob) n (oc_last_seen c) \<rparr>"

lemma retained_state_sel [simp]:
  "oc_graph (retained_state ob h g n c) = g" "oc_latest (retained_state ob h g n c) = oc_latest c"
  "oc_max_evidence (retained_state ob h g n c) = oc_max_evidence c"
  "oc_max_resources (retained_state ob h g n c) = oc_max_resources c"
  "oc_retention_order (retained_state ob h g n c) = n"
  "oc_observers (retained_state ob h g n c) = oc_observers c"
  "oc_history (retained_state ob h g n c) = bt_insert (env_resource ob) h (oc_history c)"
  "oc_last_seen (retained_state ob h g n c) = bt_insert (env_resource ob) n (oc_last_seen c)"
  by (simp_all add: retained_state_def)

lemma tracked_retained:
  assumes t: "tracked lat c" and n: "oc_retention_order c < n" and ob: "env_resource ob = r"
    and h: "bt_wf h" "length h \<le> oc_max_evidence c" "distinct (envelope_ids h)"
      "\<And>m e. (m, e) \<in> set h \<Longrightarrow> env_resource e = r \<and> m \<le> n"
    and g: "graph_wf g"
      "\<And>i. graph_node g (EvidenceNode i) \<noteq> None \<longleftrightarrow> i \<in> set (envelope_ids h)
         \<or> (\<exists>q. q \<noteq> r \<and> i \<in> set (envelope_ids (history_of c q)))"
      "\<And>q. graph_node g (ResourceNode q) = (if q = r then Some (resource_node e0) else map_option resource_node (lat q))"
    and e0: "env_resource e0 = r" "evidence_id e0 \<in> set (envelope_ids h)"
  shows "tracked (lat(r \<mapsto> e0)) (retained_state ob h g n c)"
proof -
  note tr = t [unfolded tracked_def]
  have hist: "history_of (retained_state ob h g n c) q = (if q = r then h else history_of c q)" for q
    using ob by (simp add: history_of_def bt_get_insert)
  have ok: "history_ok (retained_state ob h g n c) q" for q
  proof (cases "q = r")
    case True
    then show ?thesis using h by (auto simp: history_ok_def hist)
  next
    case False
    have "history_ok c q" using tr by blast
    then show ?thesis using False n by (fastforce simp: history_ok_def hist)
  qed
  have ev: "graph_node g (EvidenceNode i) \<noteq> None
      \<longleftrightarrow> (\<exists>q. i \<in> set (envelope_ids (history_of (retained_state ob h g n c) q)))" for i
    using g(2) [of i] by (auto simp: hist split: if_splits)
  have seen: "m \<le> n" if "bt_get (oc_last_seen (retained_state ob h g n c)) q = Some m" for q m
    using that tr n ob by (fastforce simp: bt_get_insert split: if_splits)
  show ?thesis
    unfolding tracked_def
  proof (intro conjI allI impI)
    show "graph_node (oc_graph (retained_state ob h g n c)) (EvidenceNode i) \<noteq> None
        \<longleftrightarrow> (\<exists>q. i \<in> set (envelope_ids (history_of (retained_state ob h g n c) q)))" for i
      using ev by simp
    show "env_resource e = q" "evidence_id e \<in> set (envelope_ids (history_of (retained_state ob h g n c) q))"
      if "(lat(r \<mapsto> e0)) q = Some e" for q e
      using that e0 tr by (auto simp: hist split: if_splits)
  qed (use tr g(1,3) ok seen ob in \<open>auto simp: bt_get_insert bt_contains_def bt_insert_wf\<close>)
qed

lemma bt_wf_snoc: "bt_wf m \<Longrightarrow> \<forall>k \<in> set (bt_keys m). k < n \<Longrightarrow> bt_wf (m @ [(n, v)])"
  using bt_insert_wf [of m n v] by (simp add: bt_insert_last)

text \<open>The history of a resource with the incoming envelope.\<close>

definition with_incoming ::
  "u64 \<Rightarrow> observation_envelope \<Rightarrow> (u64, observation_envelope) btree_map \<Rightarrow> (u64, observation_envelope) btree_map" where
  "with_incoming n ob h = (if list_ex (\<lambda>(_, existing). evidence_id existing = evidence_id ob) h then h
     else bt_insert n ob h)"

lemma with_incoming_ok:
  assumes "history_ok c r" "oc_retention_order c < n" "env_resource ob = r"
  defines "h \<equiv> with_incoming n ob (history_of c r)"
  shows "bt_wf h" "distinct (envelope_ids h)"
    "set (envelope_ids h) = insert (evidence_id ob) (set (envelope_ids (history_of c r)))"
    "\<And>m e. (m, e) \<in> set h \<Longrightarrow> env_resource e = r \<and> m \<le> n"
proof -
  let ?h = "history_of c r"
  note ok = assms(1) [unfolded history_ok_def]
  have keys: "\<forall>k \<in> set (bt_keys ?h). k < n" using ok assms(2) by (fastforce simp: bt_keys_def)
  have mem: "list_ex (\<lambda>(_, existing). evidence_id existing = evidence_id ob) ?h
      \<longleftrightarrow> evidence_id ob \<in> set (envelope_ids ?h)"
    by (force simp: list_ex_iff envelope_ids_def)
  have h: "h = (if evidence_id ob \<in> set (envelope_ids ?h) then ?h else ?h @ [(n, ob)])"
    using keys by (simp add: h_def with_incoming_def mem bt_insert_last)
  show "bt_wf h" using ok keys by (simp add: h bt_wf_snoc)
  show "distinct (envelope_ids h)" using ok by (simp add: h envelope_ids_def)
  show "set (envelope_ids h) = insert (evidence_id ob) (set (envelope_ids ?h))"
    by (auto simp: h envelope_ids_def)
  show "env_resource e = r \<and> m \<le> n" if "(m, e) \<in> set h" for m e
    using that ok assms(2,3) by (fastforce simp: h split: if_splits)
qed

lemma recorded_retained:
  assumes t: "tracked lat c" and n: "oc_retention_order c < n" and ob: "env_resource ob = r"
    and g: "g = snd (record_observation ob Current (oc_graph c))"
    and ev: "evict_history (oc_max_evidence c) (Some (evidence_id (shows_after ob (lat r))))
      (with_incoming n ob (history_of c r)) [] = (h, ids)"
  shows "tracked (lat(r \<mapsto> shows_after ob (lat r))) (retained_state ob h (remove_evidence ids g) n c)"
proof -
  note tr = t [unfolded tracked_def]
  let ?h = "with_incoming n ob (history_of c r)" and ?e = "shows_after ob (lat r)"
  have okc: "history_ok c q" for q using tr by blast
  note w = with_incoming_ok [OF okc [of r] n ob]
  have max: "1 \<le> oc_max_evidence c" using tr by blast
  note res = evict_history_result [OF ev max w(1,2)]
  have ids: "set (envelope_ids h) = set (envelope_ids ?h) - set ids" "set ids \<subseteq> set (envelope_ids ?h)"
    using res by auto
  have shown: "env_resource ?e = r" "evidence_id ?e \<in> set (envelope_ids ?h)"
    using tr ob w(3) by (auto simp: shows_after_def split: option.splits)
  have other: "q \<noteq> r \<Longrightarrow> i \<in> set (envelope_ids (history_of c q)) \<Longrightarrow> i \<notin> set (envelope_ids ?h)" for q i
    using history_ids_resource [OF okc, of i q] w(4) evidence_id_inject
    by (fastforce simp: envelope_ids_def)
  have node: "graph_node (oc_graph c) (ResourceNode (env_resource ob)) = map_option resource_node (lat r)"
    using tr ob by blast
  have evs: "graph_node (oc_graph c) (EvidenceNode i) \<noteq> None \<longleftrightarrow> (\<exists>q. i \<in> set (envelope_ids (history_of c q)))" for i
    using tr by blast
  have nodes: "graph_node (oc_graph c) (ResourceNode q) = map_option resource_node (lat q)" for q
    using tr by blast
  show ?thesis
  proof (rule tracked_retained [OF t n ob])
    show "graph_node (remove_evidence ids g) (EvidenceNode i) \<noteq> None \<longleftrightarrow> i \<in> set (envelope_ids h)
         \<or> (\<exists>q. q \<noteq> r \<and> i \<in> set (envelope_ids (history_of c q)))" for i
    proof -
      have "graph_node (remove_evidence ids g) (EvidenceNode i) \<noteq> None
          \<longleftrightarrow> i \<notin> set ids \<and> (i = evidence_id ob \<or> (\<exists>q. i \<in> set (envelope_ids (history_of c q))))"
        using graph_node_record_evidence [of ob Current "oc_graph c" i] evs [of i]
        by (simp add: g graph_node_remove_evidence)
      also have "\<dots> \<longleftrightarrow> i \<notin> set ids \<and> (i \<in> set (envelope_ids ?h)
          \<or> (\<exists>q. q \<noteq> r \<and> i \<in> set (envelope_ids (history_of c q))))"
        by (auto simp: w(3))
      finally show ?thesis using ids other by blast
    qed
  qed (use res ids shown w(4) tr record_shows(1) [OF node] nodes ob in
      \<open>auto simp: g graph_node_remove_evidence remove_evidence_wf record_observation_wf\<close>)
qed

lemma retain_eq:
  assumes "tracked lat c" "env_resource ob = r" "g = snd (record_observation ob Current (oc_graph c))"
  shows "\<exists>h ids. evict_history (oc_max_evidence c) (Some (evidence_id (shows_after ob (lat r))))
        (with_incoming n ob (history_of c r)) [] = (h, ids)
    \<and> retain_observation_history ob n (c\<lparr> oc_retention_order := n, oc_graph := g \<rparr>)
        = enforce_resource_limit (retained_state ob h (remove_evidence ids g) n c)"
proof -
  have node: "graph_node (oc_graph c) (ResourceNode (env_resource ob)) = map_option resource_node (lat r)"
    using assms(1,2) by (simp add: tracked_def)
  have "graph_node g (ResourceNode r) = Some (resource_node (shows_after ob (lat r)))"
    using record_shows(1) [OF node, of r] assms(2,3) by simp
  then have current: "Option.bind (graph_node g (ResourceNode r)) (\<lambda>n. bt_get (node_attributes n) ''evidence_id'')
      = Some (evidence_id (shows_after ob (lat r)))"
    by (simp add: resource_node_def resource_attributes_get)
  obtain h ids where "evict_history (oc_max_evidence c) (Some (evidence_id (shows_after ob (lat r))))
      (with_incoming n ob (history_of c r)) [] = (h, ids)" by fastforce
  then show ?thesis
    using assms(2) current
    by (simp add: retain_observation_history_def Let_def with_incoming_def history_of_def retained_state_def)
qed

lemma tracked_latest: "bt_wf l \<Longrightarrow> tracked lat c \<Longrightarrow> tracked lat (c\<lparr> oc_latest := l \<rparr>)"
  by (simp add: tracked_def history_ok_def history_of_def)

lemma unat_succ_less: "checked_add (w :: u64) 1 = Some n \<Longrightarrow> w < n"
  using unat_checked_add [of w 1 n] by (simp add: word_less_nat_alt)

lemma retain_tracked:
  assumes inv: "coordinator_inv c" and n: "oc_retention_order c < n" and r: "r = env_resource ob"
  defines "c' \<equiv> retain_observation_history ob n
      (c\<lparr> oc_retention_order := n, oc_graph := snd (record_observation ob Current (oc_graph c)) \<rparr>)"
  shows "\<exists>lat'. tracked lat' c' \<and> lat' r = Some (shows_after ob (latest_observation c r))
    \<and> (\<forall>q. q \<noteq> r \<longrightarrow> (lat' q = latest_observation c q \<or> lat' q = None) \<and> latest_observation c' q = lat' q)
    \<and> latest_observation c' r = latest_observation c r \<and> length (oc_last_seen c') \<le> oc_max_resources c'
    \<and> oc_observers c' = oc_observers c \<and> oc_max_evidence c' = oc_max_evidence c
    \<and> oc_max_resources c' = oc_max_resources c"
proof -
  let ?lat = "latest_observation c" and ?e = "shows_after ob (latest_observation c r)"
  let ?g = "snd (record_observation ob Current (oc_graph c))"
  have t: "tracked ?lat c" using inv by (simp add: coordinator_inv_def)
  obtain h ids where h: "evict_history (oc_max_evidence c) (Some (evidence_id ?e)) (with_incoming n ob (history_of c r)) []
      = (h, ids)" and c': "c' = enforce_resource_limit (retained_state ob h (remove_evidence ids ?g) n c)"
    using retain_eq [OF t r [symmetric] refl] unfolding c'_def by blast
  let ?s = "retained_state ob h (remove_evidence ids ?g) n c"
  have s: "tracked (?lat(r \<mapsto> ?e)) ?s" by (rule recorded_retained [OF t n r [symmetric] refl h])
  have "newest ?s r" using t n r by (fastforce simp: newest_def bt_get_insert tracked_def)
  from enforce_reduced [OF s this] obtain lat' where
    red: "reduced (?lat(r \<mapsto> ?e)) ?s lat' c'" and at: "lat' r = Some ?e"
      and len: "length (oc_last_seen c') \<le> oc_max_resources c" by (auto simp: c')
  have "(lat' q = ?lat q \<or> lat' q = None) \<and> latest_observation c' q = lat' q" if "q \<noteq> r" for q
    using red that unfolding reduced_def by (auto simp: latest_observation_def dest!: spec [of _ q])
  moreover have "latest_observation c' r = ?lat r"
    using red at unfolding reduced_def by (auto simp: latest_observation_def dest!: spec [of _ r])
  ultimately show ?thesis using red at len by (intro exI [of _ lat']) (simp add: reduced_def)
qed

text \<open>
  One accepted read: the coordinator afterwards, what each resource shows, and the answer.
\<close>

definition accepted ::
  "observation_envelope \<Rightarrow> observation_coordinator \<Rightarrow> observation_control_error + observation_response
     \<Rightarrow> observation_coordinator \<Rightarrow> bool" where
  "accepted ob c answer c' \<longleftrightarrow>
     latest_observation c' (env_resource ob) = Some (shows_after ob (latest_observation c (env_resource ob)))
     \<and> (\<forall>q. q \<noteq> env_resource ob \<longrightarrow> latest_observation c' q = latest_observation c q \<or> latest_observation c' q = None)
     \<and> (case answer of
          Inr response \<Rightarrow> response = \<lparr> ores_observation = ob, ores_freshness = Current \<rparr>
            \<and> (\<forall>old. latest_observation c (env_resource ob) = Some old \<longrightarrow> observation_is_newer (resource_node old) ob)
        | Inl e \<Rightarrow> e = SupersededEvidence (env_resource ob) (evidence_id ob)
            \<and> (\<exists>old. latest_observation c (env_resource ob) = Some old \<and> \<not> observation_is_newer (resource_node old) ob))
     \<and> oc_observers c' = oc_observers c \<and> oc_max_evidence c' = oc_max_evidence c
     \<and> oc_max_resources c' = oc_max_resources c"

lemma observe_accepted:
  assumes inv: "coordinator_inv c" and acq: "acquire_observation t clock c request = Inr ob"
    and n: "checked_add (oc_retention_order c) 1 = Some n"
    and res: "observe_with_clock t clock request c = (answer, c')"
  shows "coordinator_inv c' \<and> accepted ob c answer c'"
proof -
  let ?r = "env_resource ob" and ?rec = "record_observation ob Current (oc_graph c)"
  let ?e = "shows_after ob (latest_observation c ?r)"
  have r: "oreq_resource request = ?r"
    using acq by (auto simp: acquire_observation_def Let_def result_simps envelope_validate_ok)
  define d where "d = retain_observation_history ob n (c\<lparr> oc_retention_order := n, oc_graph := snd ?rec \<rparr>)"
  have ans: "(answer, c') = (if fst ?rec = HistoricalEvidenceRetained
      then (Inl (SupersededEvidence ?r (evidence_id ob)), d)
      else (Inr \<lparr> ores_observation = ob, ores_freshness = Current \<rparr>,
        d\<lparr> oc_latest := bt_insert ?r ob (oc_latest d) \<rparr>))"
    unfolding res [symmetric]
    by (simp add: observe_with_clock_def acq n r next_retention_order_def Let_def case_prod_beta d_def)
  obtain lat' where t: "tracked lat' d" and at: "lat' ?r = Some ?e"
    and others: "\<And>q. q \<noteq> ?r \<Longrightarrow> (lat' q = latest_observation c q \<or> lat' q = None) \<and> latest_observation d q = lat' q"
    and own: "latest_observation d ?r = latest_observation c ?r"
    and lim: "length (oc_last_seen d) \<le> oc_max_resources d" "oc_observers d = oc_observers c"
      "oc_max_evidence d = oc_max_evidence c" "oc_max_resources d = oc_max_resources c"
    using retain_tracked [OF inv unat_succ_less [OF n] refl] unfolding d_def by blast
  have "graph_node (oc_graph c) (ResourceNode ?r) = map_option resource_node (latest_observation c ?r)"
    using inv by (simp add: coordinator_inv_def tracked_def)
  note upd = record_shows(2) [OF this]
  show ?thesis
  proof (cases "fst ?rec")
    case CurrentStateUpdated
    then have e: "?e = ob" using upd by (auto simp: shows_after_def split: option.splits)
    have lat: "latest_observation (d\<lparr> oc_latest := bt_insert ?r ob (oc_latest d) \<rparr>) = lat'"
      using others at e by (auto simp: latest_observation_def bt_get_insert fun_eq_iff)
    have "bt_wf (oc_latest d)" using t by (simp add: tracked_def)
    then show ?thesis
      using ans CurrentStateUpdated t lim lat at e upd others
      by (auto simp: coordinator_inv_def accepted_def tracked_latest bt_insert_wf)
  next
    case HistoricalEvidenceRetained
    then have old: "\<exists>old. latest_observation c ?r = Some old \<and> \<not> observation_is_newer (resource_node old) ob"
      using upd by (auto split: option.splits)
    then have "?e = the (latest_observation c ?r)" "latest_observation c ?r \<noteq> None"
      by (auto simp: shows_after_def)
    then have "latest_observation d q = lat' q" for q using others own at by (cases "q = ?r") auto
    then have lat: "latest_observation d = lat'" by (rule ext)
    then show ?thesis
      using ans HistoricalEvidenceRetained t lim at others old
      by (auto simp: coordinator_inv_def accepted_def)
  qed
qed

section \<open>Histories\<close>

datatype coordinator_call =
    RegisterObserver nat observer
  | Observe nat system_time observation_request

fun coordinator_step :: "observation_coordinator \<Rightarrow> coordinator_call \<Rightarrow> observation_coordinator" where
  "coordinator_step c (RegisterObserver t ob) = snd (register_observer t ob c)"
| "coordinator_step c (Observe t clock request) = snd (observe_with_clock t clock request c)"

lemma observe_cases:
  assumes "coordinator_inv c" "observe_with_clock t clock request c = (answer, c')"
  obtains (refused) e where "answer = Inl e" "c' = c"
  | (accepted) ob where "acquire_observation t clock c request = Inr ob" "coordinator_inv c'"
      "accepted ob c answer c'"
proof (cases "acquire_observation t clock c request")
  case (Inl e)
  then show ?thesis using assms(2) refused by (auto simp: observe_with_clock_def)
next
  case (Inr ob)
  show ?thesis
  proof (cases "checked_add (oc_retention_order c) 1")
    case None
    then show ?thesis using assms(2) Inr refused by (auto simp: observe_with_clock_def next_retention_order_def)
  next
    case (Some n)
    then show ?thesis using accepted observe_accepted [OF assms(1) Inr Some assms(2)] Inr by blast
  qed
qed

lemma register_inv: "coordinator_inv c \<Longrightarrow> coordinator_inv (snd (register_observer t ob c))"
  by (auto simp: register_observer_def Let_def coordinator_inv_def tracked_def history_ok_def history_of_def
      latest_observation_def split: sum.splits)

lemma register_limits [simp]:
  "oc_max_resources (snd (register_observer t ob c)) = oc_max_resources c"
  "oc_max_evidence (snd (register_observer t ob c)) = oc_max_evidence c"
  by (simp_all add: register_observer_def Let_def split: sum.splits)

lemma step_inv:
  assumes "coordinator_inv c"
  shows "coordinator_inv (coordinator_step c call) \<and> oc_max_resources (coordinator_step c call) = oc_max_resources c
    \<and> oc_max_evidence (coordinator_step c call) = oc_max_evidence c"
proof (cases call)
  case (Observe t clock request)
  obtain answer c' where ob: "observe_with_clock t clock request c = (answer, c')" by fastforce
  from assms ob show ?thesis
    by (cases rule: observe_cases) (use assms Observe ob in \<open>auto simp: accepted_def\<close>)
qed (simp add: assms register_inv)

lemma with_limits_inv: "with_limits m k = Inr c \<Longrightarrow> coordinator_inv c \<and> oc_max_resources c = m \<and> oc_max_evidence c = k"
  by (auto simp: with_limits_def coordinator_inv_def tracked_def history_ok_def history_of_def envelope_ids_def
      latest_observation_def bt_get_def bt_contains_def graph_default_wf split: if_splits)

lemma coordinator_run:
  assumes "coordinator_inv c"
  shows "coordinator_inv (foldl coordinator_step c calls)
    \<and> oc_max_resources (foldl coordinator_step c calls) = oc_max_resources c
    \<and> oc_max_evidence (foldl coordinator_step c calls) = oc_max_evidence c"
  using assms
proof (induction calls arbitrary: c)
  case (Cons call calls)
  then show ?case using step_inv [OF Cons.prems, of call] by simp
qed simp

lemma finite_bt_get: "finite {k. bt_get m k \<noteq> None}"
  by (metis List.finite_set set_bt_keys)

lemma card_bt_get: "bt_wf m \<Longrightarrow> card {k. bt_get m k \<noteq> None} = length m"
  by (metis bt_keys_def bt_wf_distinct distinct_card length_map set_bt_keys)

lemma inv_counts:
  assumes "coordinator_inv c"
  shows "card {r. latest_observation c r \<noteq> None} \<le> oc_max_resources c"
    and "card {i. graph_node (oc_graph c) (EvidenceNode i) \<noteq> None} \<le> oc_max_resources c * oc_max_evidence c"
proof -
  note t = assms [unfolded coordinator_inv_def tracked_def]
  let ?R = "{r. bt_get (oc_last_seen c) r \<noteq> None}"
  have R: "finite ?R" "card ?R \<le> oc_max_resources c"
    using finite_bt_get [of "oc_last_seen c"] card_bt_get [of "oc_last_seen c"] t by auto
  then show "card {r. latest_observation c r \<noteq> None} \<le> oc_max_resources c"
    using t by (simp add: bt_contains_def)
  have "{i. graph_node (oc_graph c) (EvidenceNode i) \<noteq> None} \<subseteq> (\<Union>r \<in> ?R. set (envelope_ids (history_of c r)))"
  proof
    fix i
    assume "i \<in> {i. graph_node (oc_graph c) (EvidenceNode i) \<noteq> None}"
    then obtain r where r: "i \<in> set (envelope_ids (history_of c r))" using t by blast
    then have "bt_contains (oc_history c) r"
      by (cases "bt_get (oc_history c) r") (auto simp: bt_contains_def history_of_def envelope_ids_def)
    then have "r \<in> ?R" using t by (simp add: bt_contains_def)
    with r show "i \<in> (\<Union>r \<in> ?R. set (envelope_ids (history_of c r)))" by blast
  qed
  then have "card {i. graph_node (oc_graph c) (EvidenceNode i) \<noteq> None}
      \<le> card (\<Union>r \<in> ?R. set (envelope_ids (history_of c r)))"
    using R(1) by (intro card_mono) auto
  also have "\<dots> \<le> (\<Sum>r \<in> ?R. card (set (envelope_ids (history_of c r))))" by (rule card_UN_le [OF R(1)])
  also have "\<dots> \<le> (\<Sum>r \<in> ?R. oc_max_evidence c)"
  proof (rule sum_mono)
    fix r
    have "history_ok c r" using t by blast
    then have "length (envelope_ids (history_of c r)) \<le> oc_max_evidence c"
      by (simp add: history_ok_def envelope_ids_def)
    then show "card (set (envelope_ids (history_of c r))) \<le> oc_max_evidence c"
      using card_length le_trans by blast
  qed
  also have "\<dots> \<le> oc_max_resources c * oc_max_evidence c" using R(2) by simp
  finally show "card {i. graph_node (oc_graph c) (EvidenceNode i) \<noteq> None} \<le> oc_max_resources c * oc_max_evidence c" .
qed

text \<open>
  C22. The live evidence is bounded and exact. Whatever observers are registered, whatever they answer and
  whatever the clock says, after any sequence of registrations and observations the graph has no dangling
  edge, it has a node for at most \<open>max_resources\<close> resources and for at most \<open>max_resources * max_evidence\<close>
  pieces of evidence, every resource node is exactly the projection of the observation last accepted for that
  resource, and the evidence for that observation is still there.
\<close>

theorem coordinator_evidence_bounded:
  fixes calls :: "coordinator_call list" and c0 :: observation_coordinator
  assumes "with_limits max_resources max_evidence = Inr c0"
  defines "c \<equiv> foldl coordinator_step c0 calls"
  shows "graph_wf (oc_graph c)
    \<and> card {r. graph_node (oc_graph c) (ResourceNode r) \<noteq> None} \<le> max_resources
    \<and> card {i. graph_node (oc_graph c) (EvidenceNode i) \<noteq> None} \<le> max_resources * max_evidence
    \<and> (\<forall>r. graph_node (oc_graph c) (ResourceNode r) = map_option resource_node (latest_observation c r))
    \<and> (\<forall>r e. latest_observation c r = Some e
         \<longrightarrow> env_resource e = r \<and> graph_node (oc_graph c) (EvidenceNode (evidence_id e)) \<noteq> None)"
proof -
  have c: "coordinator_inv c" "oc_max_resources c = max_resources" "oc_max_evidence c = max_evidence"
    using with_limits_inv [OF assms(1)] coordinator_run [of c0 calls] by (auto simp: c_def)
  note t = c(1) [unfolded coordinator_inv_def tracked_def]
  have nodes: "graph_node (oc_graph c) (ResourceNode r) = map_option resource_node (latest_observation c r)" for r
    using t by blast
  have "\<forall>r e. latest_observation c r = Some e
      \<longrightarrow> env_resource e = r \<and> graph_node (oc_graph c) (EvidenceNode (evidence_id e)) \<noteq> None"
    using t by blast
  then show ?thesis using inv_counts [OF c(1)] c(2,3) t nodes by simp
qed

lemma resource_node_current: "node_is_current (resource_node e) e"
  by (simp add: node_is_current_def resource_node_def resource_attributes_get)

lemma current_unix_ms_ok: "current_unix_ms clock = Inr now \<longleftrightarrow> clock = SinceEpoch (unat now)"
proof (cases clock)
  case (SinceEpoch ms)
  then show ?thesis
    using unat_lt_64 [of now] by (auto simp: current_unix_ms_def unat_of_nat word_unat_eq_iff)
qed (simp add: current_unix_ms_def)

lemma acquire_ok:
  "acquire_observation t clock c request = Inr e \<Longrightarrow>
     \<exists>ob now. bt_get (oc_observers c) (oreq_provider request) = Some ob
       \<and> observe_authoritative ob t (oreq_resource request) (oreq_capability request) = Inr e
       \<and> clock = SinceEpoch (unat now) \<and> require_current e now = Inr ()
       \<and> envelope_validate e (oreq_provider request) (oreq_resource request) (oreq_capability request) = Inr ()"
  by (auto simp: acquire_observation_def Let_def result_simps current_unix_ms_ok)

text \<open>
  What a provider answered on a route, inside its validity window by a clock read after the answer, and when such
  evidence replaces what a resource shows.
\<close>

definition authoritative_answer ::
  "nat \<Rightarrow> system_time \<Rightarrow> observation_request \<Rightarrow> observation_coordinator \<Rightarrow> observation_envelope \<Rightarrow> bool" where
  "authoritative_answer t clock request c e \<longleftrightarrow>
     (\<exists>ob (now :: u64). bt_get (oc_observers c) (oreq_provider request) = Some ob
        \<and> observe_authoritative ob t (oreq_resource request) (oreq_capability request) = Inr e
        \<and> env_provider e = oreq_provider request \<and> env_resource e = oreq_resource request
        \<and> env_capability e = oreq_capability request \<and> clock = SinceEpoch (unat now)
        \<and> unat (observed_at_unix_ms e) \<le> unat now
        \<and> unat now \<le> unat (observed_at_unix_ms e) + unat (valid_for_ms e))"

definition supersedes :: "observation_envelope \<Rightarrow> observation_envelope \<Rightarrow> bool" where
  "supersedes e old \<longleftrightarrow>
     (if env_provider e = env_provider old then env_sequence old < env_sequence e
      else (observed_at_unix_ms old, env_sequence old) < (observed_at_unix_ms e, env_sequence e))"

lemma newer_supersedes: "observation_is_newer (resource_node old) e \<longleftrightarrow> supersedes e old"
  using newer_than_current [OF resource_node_current] by (simp add: supersedes_def)

lemma acquire_authoritative:
  "acquire_observation t clock c request = Inr e \<Longrightarrow> authoritative_answer t clock request c e"
  unfolding authoritative_answer_def
  by (drule acquire_ok) (auto simp: envelope_validate_ok require_current_ok freshness_current_iff)

text \<open>
  C20. The coordinator decides exactly what a resource shows. In any reachable coordinator, a call that is answered
  with an observation answers what the registered provider said for the requested route, current by a clock read
  after the answer, and newer than what the resource showed: by sequence number within one provider, whatever the
  clocks say, and by time and then sequence across providers. That observation is what the resource shows from then
  on. A refused call leaves what the resource shows as it was: either it changed nothing at all, or a current
  authoritative answer was refused because it does not supersede what is shown. Either way no other resource
  changes, except that it may be dropped for space.
\<close>

theorem observation_shown_exactly:
  assumes "with_limits max_resources max_evidence = Inr c0"
    and "c = foldl coordinator_step c0 calls"
    and "observe_with_clock t clock request c = (answer, c')"
  defines "r \<equiv> oreq_resource request"
  shows "(case answer of
      Inr response \<Rightarrow> let e = ores_observation response in
        authoritative_answer t clock request c e \<and> latest_observation c' r = Some e
        \<and> (\<forall>old. latest_observation c r = Some old \<longrightarrow> supersedes e old)
    | Inl err \<Rightarrow> latest_observation c' r = latest_observation c r
        \<and> (c' = c \<or> (\<exists>e old. authoritative_answer t clock request c e \<and> err = SupersededEvidence r (evidence_id e)
             \<and> latest_observation c r = Some old \<and> \<not> supersedes e old)))
    \<and> (\<forall>q. q \<noteq> r \<longrightarrow> latest_observation c' q = latest_observation c q \<or> latest_observation c' q = None)"
proof -
  have inv: "coordinator_inv c"
    using with_limits_inv [OF assms(1)] coordinator_run [of c0 calls] assms(2) by simp
  from inv assms(3) show ?thesis
  proof (cases rule: observe_cases)
    case (accepted e)
    note e = acquire_authoritative [OF accepted(1)]
    have r: "r = env_resource e" using e by (auto simp: authoritative_answer_def r_def)
    from accepted(3) e show ?thesis
      by (auto simp: accepted_def shows_after_def newer_supersedes Let_def r split: sum.splits option.splits)
  qed simp
qed

section \<open>A coordinator at work\<close>

text \<open>
  A kernel observer that answers evidence number \<open>t + 1\<close> at moment \<open>t\<close>, under a coordinator that keeps one
  resource with two pieces of evidence.
\<close>

definition clock_envelope :: "nat \<Rightarrow> resource_id \<Rightarrow> observation_envelope" where
  "clock_envelope t r = \<lparr> env_provider = ''kernel'', env_resource = r, env_capability = ''c'', env_authority = Kernel,
     observed_at_unix_ms = 100, valid_for_ms = 10, env_sequence = word_of_nat (t + 1),
     env_attributes = [(''a'', ObsBool True)] \<rparr>"

definition kernel_observer :: observer where
  "kernel_observer = \<lparr> observer_id = ''kernel'', observation_capabilities = (\<lambda>_. []),
     observer_health = (\<lambda>_. \<lparr> health_provider = ''kernel'', health_availability = Available, health_reason = None \<rparr>),
     requires_live_health_preflight = (\<lambda>_. True), supports_observation = (\<lambda>_ _. True),
     observe_authoritative = (\<lambda>t r _. Inr (clock_envelope t r)) \<rparr>"

definition kernel_request :: "resource_id \<Rightarrow> observation_request" where
  "kernel_request r = \<lparr> oreq_provider = ''kernel'', oreq_resource = r, oreq_capability = ''c'' \<rparr>"

definition small_coordinator :: observation_coordinator where
  "small_coordinator = \<lparr> oc_observers = [], oc_graph = graph_default, oc_latest = [], oc_history = [],
     oc_last_seen = [], oc_max_evidence = 2, oc_max_resources = 1, oc_retention_order = 0 \<rparr>"

definition kernel_calls :: "coordinator_call list" where
  "kernel_calls = [RegisterObserver 0 kernel_observer, Observe 0 (SinceEpoch 105) (kernel_request ''r''),
     Observe 1 (SinceEpoch 105) (kernel_request ''r'')]"

lemma small_coordinator_limits: "with_limits 1 2 = Inr small_coordinator"
  by (simp add: with_limits_def small_coordinator_def)

lemma kernel_acquire:
  "bt_get (oc_observers c) ''kernel'' = Some kernel_observer
     \<Longrightarrow> acquire_observation t (SinceEpoch 105) c (kernel_request r) = Inr (clock_envelope t r)"
  by (simp add: acquire_observation_def kernel_request_def kernel_observer_def clock_envelope_def Let_def
      envelope_validate_def trim_is_empty_def has_control_def char_is_whitespace_def char_is_control_def
      current_unix_ms_def require_current_def freshness_at_def saturating_add_def)

lemma kernel_register:
  "coordinator_step small_coordinator (RegisterObserver 0 kernel_observer)
     = small_coordinator\<lparr> oc_observers := [(''kernel'', kernel_observer)] \<rparr>"
  by (simp add: register_observer_def small_coordinator_def bt_contains_def bt_get_def validate_observer_identity_def
      Let_def) (simp add: kernel_observer_def)

theorem coordinator_evidence_bounded_witness:
  "let c = foldl coordinator_step small_coordinator kernel_calls in
     graph_wf (oc_graph c) \<and> card {r. graph_node (oc_graph c) (ResourceNode r) \<noteq> None} \<le> 1
     \<and> card {i. graph_node (oc_graph c) (EvidenceNode i) \<noteq> None} \<le> 1 * 2"
  unfolding Let_def using coordinator_evidence_bounded [OF small_coordinator_limits, of kernel_calls] by blast

text \<open>The first observation after registration is served.\<close>

definition kernel_response :: "nat \<Rightarrow> observation_response" where
  "kernel_response t = \<lparr> ores_observation = clock_envelope t ''r'', ores_freshness = Current \<rparr>"

definition kernel_coordinator :: "coordinator_call list \<Rightarrow> observation_coordinator" where
  "kernel_coordinator calls = foldl coordinator_step small_coordinator (RegisterObserver 0 kernel_observer # calls)"

lemma kernel_first:
  "observe_with_clock 0 (SinceEpoch 105) (kernel_request ''r'') (kernel_coordinator [])
     = (Inr (kernel_response 0),
        snd (observe_with_clock 0 (SinceEpoch 105) (kernel_request ''r'') (kernel_coordinator [])))"
proof -
  have c: "kernel_coordinator [] = small_coordinator\<lparr> oc_observers := [(''kernel'', kernel_observer)] \<rparr>"
    by (simp add: kernel_coordinator_def kernel_register [simplified])
  have "acquire_observation 0 (SinceEpoch 105) (kernel_coordinator []) (kernel_request ''r'')
      = Inr (clock_envelope 0 ''r'')"
    by (rule kernel_acquire) (simp add: c bt_get_def)
  moreover have "fst (record_observation (clock_envelope 0 ''r'') Current graph_default) = CurrentStateUpdated"
    by (simp add: record_observation_updates)
  ultimately show ?thesis
    by (simp add: observe_with_clock_def next_retention_order_def checked_add_def c small_coordinator_def Let_def
        case_prod_beta kernel_response_def)
qed

theorem observation_shown_exactly_witness:
  "let c' = snd (observe_with_clock 0 (SinceEpoch 105) (kernel_request ''r'') (kernel_coordinator [])) in
     latest_observation c' ''r'' = Some (clock_envelope 0 ''r'')
     \<and> authoritative_answer 0 (SinceEpoch 105) (kernel_request ''r'') (kernel_coordinator []) (clock_envelope 0 ''r'')"
  using observation_shown_exactly [OF small_coordinator_limits kernel_coordinator_def kernel_first]
  by (auto simp: Let_def kernel_request_def kernel_response_def)

end
