(* ===== verification/Preview_History.thy ===== *)
theory Preview_History
  imports Plan_Preview Observation_Retention
begin

text \<open>
  Histories of the plan preview control: the accounting of its store, the exact replay of retained previews and
  their isolation between principals.
\<close>

datatype preview_op =
    PlanOp preview_env string actor plan_desired_state_request
  | ObserveOp nat system_time observation_request
  | CandidateOp preview_env string actor plan_desired_state_request
  | ProtectiveOp preview_env string actor plan_desired_state_request protective_lock_context
  | RecoveryOp preview_env string actor plan_desired_state_request

fun preview_step :: "crypto \<Rightarrow> preview_op \<Rightarrow> plan_preview_control \<Rightarrow> plan_preview_control" where
  "preview_step cr (PlanOp env prin actor request) ctl = snd (plan_desired_state cr env prin actor request ctl)"
| "preview_step cr (ObserveOp t clock request) ctl = snd (preview_observe t clock request ctl)"
| "preview_step cr (CandidateOp env prin actor request) ctl =
     snd (preview_authority_candidate cr env prin actor request ctl)"
| "preview_step cr (ProtectiveOp env prin actor request context) ctl =
     snd (protective_authority_candidate cr env prin actor request context ctl)"
| "preview_step cr (RecoveryOp env prin actor request) ctl =
     snd (protective_recovery_candidate cr env prin actor request ctl)"

definition preview_run :: "crypto \<Rightarrow> observation_coordinator \<Rightarrow> preview_op list \<Rightarrow> plan_preview_control" where
  "preview_run cr c ops = foldl (\<lambda>ctl x. preview_step cr x ctl) (plan_preview_control_new c) ops"

definition input_key :: "normalized_plan_input \<Rightarrow> preview_key" where
  "input_key input = (npi_principal input, pdr_request_id (npi_request input))"

definition plan_for :: "plan_desired_state_request \<Rightarrow> reconciliation_plan \<Rightarrow> bool" where
  "plan_for request plan \<longleftrightarrow> plan_id plan = pdr_request_id request \<and> plan_request_id plan = pdr_request_id request
     \<and> plan_provider plan = pdr_provider request \<and> plan_resource_id plan = pdr_resource request
     \<and> plan_observation_capability plan = pdr_observation_capability request \<and> plan_reason plan = pdr_reason request"

definition preview_inv :: "preview_store \<Rightarrow> bool" where
  "preview_inv st \<longleftrightarrow>
     pst_capacity st = 256 \<and> pst_max_entry_bytes st = 131072 \<and> pst_max_total_bytes st = 8388608
     \<and> bt_wf (pst_entries st) \<and> distinct (pst_order st) \<and> set (pst_order st) = set (bt_keys (pst_entries st))
     \<and> pst_retained_bytes st = bt_sum sp_retained_bytes (pst_entries st)
     \<and> pst_retained_bytes st \<le> 8388608 \<and> length (pst_entries st) \<le> 256
     \<and> (\<forall>key stored. bt_get (pst_entries st) key = Some stored \<longrightarrow>
          key = input_key (sp_input stored) \<and> plan_for (npi_request (sp_input stored)) (sp_plan stored)
          \<and> sp_retained_bytes stored \<le> 131072)"

section \<open>The store\<close>

lemma preview_default_inv: "preview_inv preview_store_default"
  by (simp add: preview_inv_def preview_store_default_def MAX_PREVIEW_ENTRIES_def MAX_PREVIEW_ENTRY_BYTES_def
      MAX_PREVIEW_TOTAL_BYTES_def bt_get_def)

lemma preview_key_ok:
  "preview_key_from_input input = Inr key \<Longrightarrow> key = input_key input"
  by (auto simp: preview_key_from_input_def input_plan_id_def input_key_def result_simps typed_id_new_ok)

lemma drop_oldest_inv:
  assumes "preview_inv st" "pst_order st = oldest # rest"
  shows "preview_inv (drop_preview oldest (st\<lparr> pst_order := rest \<rparr>))"
proof -
  let ?m = "pst_entries st"
  from assms have "oldest \<in> set (bt_keys ?m)" by (auto simp: preview_inv_def)
  then obtain r where r: "bt_get ?m oldest = Some r" by (auto simp: set_bt_keys)
  have wf: "bt_wf ?m" using assms(1) by (simp add: preview_inv_def)
  note sum = bt_sum_remove [OF wf r, of sp_retained_bytes]
  have len: "length (bt_remove oldest ?m) \<le> length ?m" by (simp add: bt_remove_def)
  have keys: "set rest = set (bt_keys (bt_remove oldest ?m))"
    using assms by (auto simp: preview_inv_def set_bt_keys bt_get_remove)
  from assms r wf sum len keys show ?thesis
    by (auto simp: preview_inv_def drop_preview_def bt_get_remove split: if_splits)
qed

lemma drop_preview_get:
  "bt_get (pst_entries (drop_preview k st)) = (bt_get (pst_entries st))(k := None)"
  by (auto simp: drop_preview_def bt_get_remove fun_eq_iff split: option.splits)

lemma make_room_ok:
  "preview_inv st \<Longrightarrow> bytes \<le> 8388608 \<Longrightarrow>
     \<exists>st'. make_room bytes st = (Inr (), st') \<and> preview_inv st' \<and> length (pst_entries st') < 256
       \<and> pst_retained_bytes st' + bytes \<le> 8388608
       \<and> (\<forall>k v. bt_get (pst_entries st') k = Some v \<longrightarrow> bt_get (pst_entries st) k = Some v)"
proof (induction bytes st rule: make_room.induct)
  case (1 bytes st)
  let ?full = "length (pst_entries st) \<ge> pst_capacity st
      \<or> usize_saturating_add (pst_retained_bytes st) bytes > pst_max_total_bytes st"
  show ?case
  proof (cases ?full)
    case False
    then have "make_room bytes st = (Inr (), st)" by (subst make_room.simps) simp
    with False 1(2,3) show ?thesis
      by (auto simp: preview_inv_def usize_saturating_add_def split: if_splits)
  next
    case True
    have "pst_order st \<noteq> []"
    proof
      assume "pst_order st = []"
      with 1(2) have "pst_entries st = []" by (auto simp: preview_inv_def bt_keys_def)
      with True 1(2,3) show False by (auto simp: preview_inv_def usize_saturating_add_def)
    qed
    then obtain oldest rest where o: "pst_order st = oldest # rest" by (cases "pst_order st") auto
    let ?rest = "drop_preview oldest (st\<lparr> pst_order := rest \<rparr>)"
    have step: "make_room bytes st = make_room bytes ?rest" using True o by (subst make_room.simps) simp
    from 1(1) [OF True o drop_oldest_inv [OF 1(2) o] 1(3)] obtain s where s: "make_room bytes ?rest = (Inr (), s)"
        "preview_inv s" "length (pst_entries s) < 256" "pst_retained_bytes s + bytes \<le> 8388608"
        "\<And>k v. bt_get (pst_entries s) k = Some v \<Longrightarrow> bt_get (pst_entries ?rest) k = Some v" by blast
    have "bt_get (pst_entries st) k = Some v" if "bt_get (pst_entries s) k = Some v" for k v
      using s(5) [OF that] by (simp add: drop_preview_get split: if_splits)
    with s(1-4) show ?thesis unfolding step by blast
  qed
qed

lemma check_retained_ok:
  "check_retained input (input_key input) plan = Inr () \<longleftrightarrow> plan_for (npi_request input) plan"
  by (auto simp: check_retained_def input_key_def plan_for_def Let_def)

text \<open>Every insertion keeps the invariant, never meets the accounting error, and on success the preview is there.\<close>

lemma preview_insert_ok:
  assumes inv: "preview_inv st" and ins: "preview_insert input plan st = (r, st')"
  shows "preview_inv st'" "r \<noteq> Inl (PreviewRetention ''preview retention accounting is inconsistent'')"
    "r = Inr () \<Longrightarrow> plan_for (npi_request input) plan \<and> preview_key_from_input input = Inr (input_key input)
       \<and> (\<exists>b. bt_get (pst_entries st') (input_key input)
                = Some \<lparr> sp_input = input, sp_plan = plan, sp_retained_bytes = b \<rparr>)"
    "bt_get (pst_entries st') k = Some v \<Longrightarrow> bt_get (pst_entries st) k = Some v \<or> sp_input v = input"
proof -
  have "preview_inv st' \<and> r \<noteq> Inl (PreviewRetention ''preview retention accounting is inconsistent'')
    \<and> (r = Inr () \<longrightarrow> plan_for (npi_request input) plan \<and> preview_key_from_input input = Inr (input_key input)
       \<and> (\<exists>b. bt_get (pst_entries st') (input_key input)
                = Some \<lparr> sp_input = input, sp_plan = plan, sp_retained_bytes = b \<rparr>))
    \<and> (bt_get (pst_entries st') k = Some v \<longrightarrow> bt_get (pst_entries st) k = Some v \<or> sp_input v = input)"
  proof (cases "preview_key_from_input input")
    case (Inl e)
    then have "e \<noteq> PreviewRetention ''preview retention accounting is inconsistent''"
      by (auto simp: preview_key_from_input_def input_plan_id_def map_err_def result_simps split: sum.splits)
    with Inl ins inv show ?thesis by (auto simp: preview_insert_def)
  next
    case (Inr key)
    note key = preview_key_ok [OF Inr]
    show ?thesis
    proof (cases "check_retained input key plan")
      case (Inl e)
      then have "e \<noteq> PreviewRetention ''preview retention accounting is inconsistent''"
        by (auto simp: check_retained_def Let_def split: if_splits)
      with Inl Inr ins inv show ?thesis by (auto simp: preview_insert_def)
    next
      case checked: (Inr u)
      then have pf: "plan_for (npi_request input) plan" using key check_retained_ok [of input plan] by simp
      show ?thesis
      proof (cases "bt_get (pst_entries st) key")
        case (Some existing)
        with Inr checked ins inv pf key show ?thesis
          by (cases existing) (auto simp: preview_insert_def split: if_splits)
      next
        case None
        let ?b = "estimate_bytes key input plan"
        show ?thesis
        proof (cases "?b > pst_max_entry_bytes st \<or> ?b > pst_max_total_bytes st")
          case True
          then have "preview_insert input plan st = (Inl (PreviewRetention (''preview requires '' @ nat_to_dec ?b
              @ '' retained bytes, exceeding per-entry limit '' @ nat_to_dec (pst_max_entry_bytes st))), st)"
            using Inr checked None by (simp add: preview_insert_def Let_def)
          with inv ins show ?thesis by auto
        next
          case False
          with inv have small: "?b \<le> 131072" "?b \<le> 8388608" by (auto simp: preview_inv_def)
          from make_room_ok [OF inv small(2)] obtain s where s: "make_room ?b st = (Inr (), s)" "preview_inv s"
              "length (pst_entries s) < 256" "pst_retained_bytes s + ?b \<le> 8388608"
              "\<And>k v. bt_get (pst_entries s) k = Some v \<Longrightarrow> bt_get (pst_entries st) k = Some v" by blast
          have fresh: "bt_get (pst_entries s) key = None" using s(5) [of key] None by (cases "bt_get (pst_entries s) key") auto
          let ?v = "\<lparr> sp_input = input, sp_plan = plan, sp_retained_bytes = ?b \<rparr>"
          have res: "r = Inr ()" "st' = s\<lparr> pst_retained_bytes := usize_saturating_add (pst_retained_bytes s) ?b,
              pst_order := pst_order s @ [key], pst_entries := bt_insert key ?v (pst_entries s) \<rparr>"
            using Inr checked None False ins s(1) by (auto simp: preview_insert_def Let_def)
          have "preview_inv st'"
            using s(2-4) fresh small pf key unfolding res
            by (auto simp: preview_inv_def bt_get_insert set_bt_keys bt_insert_wf bt_sum_insert_new bt_contains_def
                length_bt_insert usize_saturating_add_def)
          then show ?thesis using Inr key pf res s(5) by (auto simp: bt_get_insert split: if_splits)
        qed
      qed
    qed
  qed
  then show "preview_inv st'" "r \<noteq> Inl (PreviewRetention ''preview retention accounting is inconsistent'')"
    "r = Inr () \<Longrightarrow> plan_for (npi_request input) plan \<and> preview_key_from_input input = Inr (input_key input)
       \<and> (\<exists>b. bt_get (pst_entries st') (input_key input)
                = Some \<lparr> sp_input = input, sp_plan = plan, sp_retained_bytes = b \<rparr>)"
    "bt_get (pst_entries st') k = Some v \<Longrightarrow> bt_get (pst_entries st) k = Some v \<or> sp_input v = input"
    by blast+
qed

section \<open>Histories\<close>

lemma preview_run_simps [simp]:
  "preview_run cr c [] = plan_preview_control_new c"
  "preview_run cr c (ops @ [x]) = preview_step cr x (preview_run cr c ops)"
  by (simp_all add: preview_run_def)

lemma on_coordinator_previews [simp]: "ppc_previews (snd (on_coordinator f ctl)) = ppc_previews ctl"
  by (simp add: on_coordinator_def split: prod.splits)

lemma candidate_previews [simp]:
  "ppc_previews (snd (preview_authority_candidate cr env prin actor request ctl)) = ppc_previews ctl"
  "ppc_previews (snd (protective_authority_candidate cr env prin actor request context ctl)) = ppc_previews ctl"
  "ppc_previews (snd (protective_recovery_candidate cr env prin actor request ctl)) = ppc_previews ctl"
  by (auto simp: preview_authority_candidate_def protective_authority_candidate_def
      protective_recovery_candidate_def then_with_def split: sum.splits)

text \<open>How a call of \<open>plan_desired_state\<close> ends.\<close>

lemma plan_desired_state_cases:
  assumes "plan_desired_state cr env prin actor request ctl = (r, ctl')"
  obtains (failed) e where "r = Inl e" "ppc_previews ctl' = ppc_previews ctl"
  | (retained) plan where "r = Inr (preview_from_plan plan)" "ctl' = ctl"
      "normalized_plan_input_new prin request = Inr \<lparr> npi_principal = prin, npi_request = request \<rparr>"
      "preview_replay (ppc_previews ctl) \<lparr> npi_principal = prin, npi_request = request \<rparr> = Inr (Some plan)"
  | (fresh) plan q where
      "normalized_plan_input_new prin request = Inr \<lparr> npi_principal = prin, npi_request = request \<rparr>"
      "preview_insert \<lparr> npi_principal = prin, npi_request = request \<rparr> plan (ppc_previews ctl) = (q, ppc_previews ctl')"
      "r = and_then q (\<lambda>_. Inr (preview_from_plan plan))"
proof (cases "normalized_plan_input_new prin request")
  case (Inl e)
  with assms have "r = Inl e" "ppc_previews ctl' = ppc_previews ctl" by (auto simp: plan_desired_state_def)
  then show ?thesis by (rule failed)
next
  case (Inr input)
  then have input: "input = \<lparr> npi_principal = prin, npi_request = request \<rparr>"
    by (auto simp: normalized_plan_input_new_def result_simps)
  note base = assms [unfolded plan_desired_state_def Inr, simplified]
  consider (err) e where "preview_replay (ppc_previews ctl) input = Inl e"
    | (some) plan where "preview_replay (ppc_previews ctl) input = Inr (Some plan)"
    | (none) "preview_replay (ppc_previews ctl) input = Inr None"
    by (metis old.sum.exhaust option.exhaust)
  then show ?thesis
  proof cases
    case err
    with base have "r = Inl e" "ppc_previews ctl' = ppc_previews ctl" by auto
    then show ?thesis by (rule failed)
  next
    case some
    with base have "r = Inr (preview_from_plan plan)" "ctl' = ctl" by auto
    with some Inr show ?thesis unfolding input by (intro retained)
  next
    case none
    obtain b c where b: "on_coordinator (build_fresh_plan cr env input actor) ctl = (b, c)"
      by (cases "on_coordinator (build_fresh_plan cr env input actor) ctl")
    have pc: "ppc_previews c = ppc_previews ctl"
      using on_coordinator_previews [of "build_fresh_plan cr env input actor" ctl] b by simp
    show ?thesis
    proof (cases b)
      case (Inl e)
      with base none b pc have "r = Inl e" "ppc_previews ctl' = ppc_previews ctl" by auto
      then show ?thesis by (rule failed)
    next
      case built: (Inr po)
      obtain plan ob where po: "po = (plan, ob)" by (cases po)
      obtain q st where q: "preview_insert input plan (ppc_previews c) = (q, st)"
        by (cases "preview_insert input plan (ppc_previews c)")
      with base none b built po have "r = and_then q (\<lambda>_. Inr (preview_from_plan plan))"
          "preview_insert input plan (ppc_previews ctl) = (q, ppc_previews ctl')" using pc by auto
      with Inr show ?thesis unfolding input by (intro fresh)
    qed
  qed
qed

definition origins_known :: "preview_op list \<Rightarrow> preview_store \<Rightarrow> bool" where
  "origins_known ops st \<longleftrightarrow> (\<forall>key stored. bt_get (pst_entries st) key = Some stored \<longrightarrow>
     (\<exists>env actor. PlanOp env (npi_principal (sp_input stored)) actor (npi_request (sp_input stored)) \<in> set ops))"

lemma origins_known_more: "origins_known ops st \<Longrightarrow> origins_known (ops @ [x]) st"
  unfolding origins_known_def by (metis Un_iff set_append)

lemma plan_call_inv:
  assumes "preview_inv (ppc_previews ctl)" "origins_known ops (ppc_previews ctl)"
    "plan_desired_state cr env prin actor request ctl = (r, ctl')"
  shows "preview_inv (ppc_previews ctl')" "origins_known (ops @ [PlanOp env prin actor request]) (ppc_previews ctl')"
proof -
  from assms(3) show "preview_inv (ppc_previews ctl')"
  proof (cases rule: plan_desired_state_cases)
    case (fresh plan q)
    from preview_insert_ok(1) [OF assms(1) fresh(2)] show ?thesis .
  qed (use assms in auto)
  from assms(3) show "origins_known (ops @ [PlanOp env prin actor request]) (ppc_previews ctl')"
  proof (cases rule: plan_desired_state_cases)
    case (fresh plan q)
    show ?thesis unfolding origins_known_def
    proof (intro allI impI)
      fix key stored assume "bt_get (pst_entries (ppc_previews ctl')) key = Some stored"
      from preview_insert_ok(4) [OF assms(1) fresh(2) this]
      have "(\<exists>env' actor'. PlanOp env' (npi_principal (sp_input stored)) actor' (npi_request (sp_input stored)) \<in> set ops)
          \<or> sp_input stored = \<lparr> npi_principal = prin, npi_request = request \<rparr>"
        using assms(2) unfolding origins_known_def by blast
      then show "\<exists>env' actor'. PlanOp env' (npi_principal (sp_input stored)) actor' (npi_request (sp_input stored))
          \<in> set (ops @ [PlanOp env prin actor request])"
        by (elim disjE exE) auto
    qed
  qed (use origins_known_more [OF assms(2)] in auto)
qed

lemma preview_run_inv:
  "preview_inv (ppc_previews (preview_run cr c ops)) \<and> origins_known ops (ppc_previews (preview_run cr c ops))"
proof (induction ops rule: rev_induct)
  case Nil
  show ?case by (simp add: plan_preview_control_new_def preview_default_inv)
      (simp add: origins_known_def preview_store_default_def bt_get_def)
next
  case (snoc x ops)
  show ?case
  proof (cases x)
    case (PlanOp env prin actor request)
    obtain r ctl' where "plan_desired_state cr env prin actor request (preview_run cr c ops) = (r, ctl')"
      by (cases "plan_desired_state cr env prin actor request (preview_run cr c ops)")
    with plan_call_inv [of "preview_run cr c ops" ops cr env prin actor request r ctl'] snoc
    show ?thesis by (simp add: PlanOp)
  qed (use snoc in \<open>auto simp: origins_known_more preview_observe_def\<close>)
qed

lemma preview_execution [simp]: "\<not> pp_execution_authorized (preview_from_plan plan)"
  by (simp add: preview_from_plan_def execution_authorized_def split: execution_authority.splits)

lemma preview_from_plan_fields [simp]:
  "pp_request_id (preview_from_plan plan) = plan_request_id plan"
  "pp_provider (preview_from_plan plan) = plan_provider plan"
  "pp_resource (preview_from_plan plan) = plan_resource_id plan"
  "pp_reason (preview_from_plan plan) = plan_reason plan"
  by (simp_all add: preview_from_plan_def)

text \<open>After a successful call the preview is retained under the caller and the request.\<close>

lemma plan_call_retained:
  assumes "preview_inv (ppc_previews ctl)" "plan_desired_state cr env prin actor request ctl = (Inr p, ctl')"
  obtains plan b where "p = preview_from_plan plan" "plan_for request plan"
    "validate_request request = Inr ()"
    "preview_key_from_input \<lparr> npi_principal = prin, npi_request = request \<rparr> = Inr (prin, pdr_request_id request)"
    "bt_get (pst_entries (ppc_previews ctl')) (prin, pdr_request_id request)
       = Some \<lparr> sp_input = \<lparr> npi_principal = prin, npi_request = request \<rparr>, sp_plan = plan, sp_retained_bytes = b \<rparr>"
  using assms(2)
proof (cases rule: plan_desired_state_cases)
  case (retained plan)
  let ?i = "\<lparr> npi_principal = prin, npi_request = request \<rparr>"
  from retained(4) obtain key stored where k: "preview_key_from_input ?i = Inr key"
      "bt_get (pst_entries (ppc_previews ctl)) key = Some stored" "sp_input stored = ?i" "sp_plan stored = plan"
    by (auto simp: preview_replay_def result_simps split: option.splits if_splits)
  note key = preview_key_ok [OF k(1)]
  have "plan_for (npi_request (sp_input stored)) (sp_plan stored)"
    using assms(1) k(2) unfolding preview_inv_def by blast
  then have "plan_for request plan" using k(3,4) by simp
  with that [of plan "sp_retained_bytes stored"] retained k key show ?thesis
    by (cases stored) (auto simp: input_key_def normalized_plan_input_new_def result_simps)
next
  case (fresh plan q)
  have q: "q = Inr ()" "p = preview_from_plan plan" using fresh(3) by (cases q; simp)+
  from preview_insert_ok(3) [OF assms(1) fresh(2) q(1)] obtain b where
      "plan_for request plan" "preview_key_from_input \<lparr> npi_principal = prin, npi_request = request \<rparr>
         = Inr (prin, pdr_request_id request)"
      "bt_get (pst_entries (ppc_previews ctl')) (prin, pdr_request_id request)
         = Some \<lparr> sp_input = \<lparr> npi_principal = prin, npi_request = request \<rparr>, sp_plan = plan, sp_retained_bytes = b \<rparr>"
    by (auto simp: input_key_def)
  with that [of plan b] q fresh(1) show ?thesis by (auto simp: normalized_plan_input_new_def result_simps)
qed (use assms in auto)

lemma replay_other:
  assumes "bt_get (pst_entries (ppc_previews ctl)) (prin, pdr_request_id request)
      = Some \<lparr> sp_input = \<lparr> npi_principal = prin, npi_request = request' \<rparr>, sp_plan = plan, sp_retained_bytes = b \<rparr>"
    "preview_key_from_input \<lparr> npi_principal = prin, npi_request = request \<rparr> = Inr (prin, pdr_request_id request)"
    "validate_request request = Inr ()"
  shows "plan_desired_state cr env prin actor request ctl =
    (if request = request' then Inr (preview_from_plan plan)
     else Inl (PreviewIdempotencyConflict (pdr_request_id request)), ctl)"
  using assms by (auto simp: plan_desired_state_def normalized_plan_input_new_def preview_replay_def)

text \<open>An answered preview is retained: it is answered again, and another request under its id is refused.\<close>

lemma plan_call_replays:
  assumes "preview_inv (ppc_previews s)" "plan_desired_state cr env prin actor request s = (Inr p, ctl)"
  shows "\<not> pp_execution_authorized p \<and> pp_request_id p = pdr_request_id request
    \<and> pp_provider p = pdr_provider request \<and> pp_resource p = pdr_resource request
    \<and> pp_reason p = pdr_reason request
    \<and> get_plan_preview ctl prin (pdr_request_id request) = Inr p
    \<and> (\<forall>env' actor'. plan_desired_state cr env' prin actor' request ctl = (Inr p, ctl))
    \<and> (\<forall>env' actor' request'. pdr_request_id request' = pdr_request_id request \<and> request' \<noteq> request
         \<and> validate_request request' = Inr () \<longrightarrow>
         plan_desired_state cr env' prin actor' request' ctl
           = (Inl (PreviewIdempotencyConflict (pdr_request_id request)), ctl))"
proof -
  from plan_call_retained [OF assms] obtain plan b where p: "p = preview_from_plan plan"
      "plan_for request plan" "validate_request request = Inr ()"
      "preview_key_from_input \<lparr> npi_principal = prin, npi_request = request \<rparr> = Inr (prin, pdr_request_id request)"
      "bt_get (pst_entries (ppc_previews ctl)) (prin, pdr_request_id request)
         = Some \<lparr> sp_input = \<lparr> npi_principal = prin, npi_request = request \<rparr>, sp_plan = plan, sp_retained_bytes = b \<rparr>" .
  have other: "preview_key_from_input \<lparr> npi_principal = prin, npi_request = request' \<rparr>
      = Inr (prin, pdr_request_id request)" if "pdr_request_id request' = pdr_request_id request" for request'
    using p(4) that by (simp add: preview_key_from_input_def input_plan_id_def)
  from p other replay_other [of ctl prin _ request plan b] show ?thesis
    by (auto simp: plan_for_def get_plan_preview_def retained_plan_def preview_get_def)
qed

text \<open>
  C21. Previews are retained exactly and in bounds. Take any history of the preview control (plans, observations and
  authority derivations, with arbitrary providers and clocks), and one more call of \<open>plan_desired_state\<close>. At most
  256 previews and 8 MiB are retained, and no insertion can meet the accounting error. If the call answers with a
  preview, it authorizes nothing and names the route and request asked for; it is then served to that principal under
  that request id, the same request is answered with it again without any new observation, and any other valid
  request under the same id is refused as a conflict, the control unchanged. And whatever preview a principal is
  served, the history has a call by that principal under that id.
\<close>

theorem preview_replay_exact:
  assumes "plan_desired_state cr env prin actor request (preview_run cr c ops) = (r, ctl)"
  shows "length (pst_entries (ppc_previews ctl)) \<le> 256 \<and> pst_retained_bytes (ppc_previews ctl) \<le> 8 * 1024 * 1024
    \<and> pst_retained_bytes (ppc_previews ctl) = bt_sum sp_retained_bytes (pst_entries (ppc_previews ctl))
    \<and> (\<forall>input plan. fst (preview_insert input plan (ppc_previews ctl))
         \<noteq> Inl (PreviewRetention ''preview retention accounting is inconsistent''))
    \<and> (\<forall>p. r = Inr p \<longrightarrow>
         \<not> pp_execution_authorized p \<and> pp_request_id p = pdr_request_id request
         \<and> pp_provider p = pdr_provider request \<and> pp_resource p = pdr_resource request
         \<and> pp_reason p = pdr_reason request
         \<and> get_plan_preview ctl prin (pdr_request_id request) = Inr p
         \<and> (\<forall>env' actor'. plan_desired_state cr env' prin actor' request ctl = (Inr p, ctl))
         \<and> (\<forall>env' actor' request'. pdr_request_id request' = pdr_request_id request \<and> request' \<noteq> request
              \<and> validate_request request' = Inr () \<longrightarrow>
              plan_desired_state cr env' prin actor' request' ctl
                = (Inl (PreviewIdempotencyConflict (pdr_request_id request)), ctl)))
    \<and> (\<forall>q i p. get_plan_preview ctl q i = Inr p \<longrightarrow>
         (\<exists>env' actor' request'. PlanOp env' q actor' request' \<in> set (ops @ [PlanOp env prin actor request])
            \<and> pdr_request_id request' = i))"
proof -
  note run = preview_run_inv [of cr c ops]
  note inv = plan_call_inv [OF conjunct1 [OF run] conjunct2 [OF run] assms]
  have bounds: "length (pst_entries (ppc_previews ctl)) \<le> 256" "pst_retained_bytes (ppc_previews ctl) \<le> 8388608"
      "pst_retained_bytes (ppc_previews ctl) = bt_sum sp_retained_bytes (pst_entries (ppc_previews ctl))"
    using inv(1) unfolding preview_inv_def by blast+
  have accounting: "fst (preview_insert input plan (ppc_previews ctl))
      \<noteq> Inl (PreviewRetention ''preview retention accounting is inconsistent'')" for input plan
    using preview_insert_ok(2) [OF inv(1) surjective_pairing] .
  have replay: "\<not> pp_execution_authorized p \<and> pp_request_id p = pdr_request_id request
      \<and> pp_provider p = pdr_provider request \<and> pp_resource p = pdr_resource request
      \<and> pp_reason p = pdr_reason request
      \<and> get_plan_preview ctl prin (pdr_request_id request) = Inr p
      \<and> (\<forall>env' actor'. plan_desired_state cr env' prin actor' request ctl = (Inr p, ctl))
      \<and> (\<forall>env' actor' request'. pdr_request_id request' = pdr_request_id request \<and> request' \<noteq> request
           \<and> validate_request request' = Inr () \<longrightarrow>
           plan_desired_state cr env' prin actor' request' ctl
             = (Inl (PreviewIdempotencyConflict (pdr_request_id request)), ctl))" if "r = Inr p" for p
    by (rule plan_call_replays [OF conjunct1 [OF run] assms [unfolded that]])
  have origin: "\<exists>env' actor' request'. PlanOp env' q actor' request' \<in> set (ops @ [PlanOp env prin actor request])
      \<and> pdr_request_id request' = i" if served: "get_plan_preview ctl q i = Inr p" for q i p
  proof -
    from served obtain stored where "bt_get (pst_entries (ppc_previews ctl)) (q, i) = Some stored"
      by (auto simp: get_plan_preview_def retained_plan_def preview_get_def result_simps)
    moreover from this have "(q, i) = input_key (sp_input stored)" using inv(1) unfolding preview_inv_def by blast
    ultimately show ?thesis using inv(2) unfolding origins_known_def input_key_def by blast
  qed
  from bounds accounting replay origin show ?thesis by auto
qed

text \<open>At work: a kernel fact differs from the desired value.\<close>

definition kernel_env :: preview_env where
  "kernel_env = \<lparr> pe_moment = (\<lambda>_. 0), pe_probe_clock = (\<lambda>_. SinceEpoch 105), pe_now = (\<lambda>_. SinceEpoch 105) \<rparr>"

definition kernel_plan_request :: plan_desired_state_request where
  "kernel_plan_request = \<lparr> pdr_request_id = ''request:1'', pdr_provider = ''kernel'', pdr_resource = ''r'',
     pdr_observation_capability = ''c'', pdr_reason = dr_reason example_desired,
     pdr_desired_state = [(''a'', ''false'')] \<rparr>"

definition kernel_previews :: "(plan_preview_control_error + plan_preview) \<times> plan_preview_control" where
  "kernel_previews = plan_desired_state example_crypto kernel_env ''unix:uid:1000'' (intent_actor example_intent)
     kernel_plan_request (preview_run example_crypto (kernel_coordinator []) [])"

lemma kernel_plan_request_valid: "validate_request kernel_plan_request = Inr ()"
  by code_simp

lemma kernel_plan_fits:
  "case plan_resource ''request:1'' (intent_actor example_intent) (input_desired_resource kernel_plan_request)
       (planning_observation_of (kernel_response 0)) of
     Inl _ \<Rightarrow> False
   | Inr p \<Rightarrow> is_ok (fst (preview_insert \<lparr> npi_principal = ''unix:uid:1000'', npi_request = kernel_plan_request \<rparr>
       (add_findings [] p) preview_store_default))"
  by code_simp

lemma kernel_probe:
  "probe kernel_env 0 ''kernel'' ''c'' ''r'' (kernel_coordinator [])
     = (Inr (kernel_response 0),
        snd (observe_with_clock 0 (SinceEpoch 105) (kernel_request ''r'') (kernel_coordinator [])))"
  using kernel_first by (simp add: probe_def kernel_env_def kernel_request_def)

lemma kernel_previews_ok: "is_ok (fst kernel_previews)"
proof -
  let ?input = "\<lparr> npi_principal = ''unix:uid:1000'', npi_request = kernel_plan_request \<rparr>"
  let ?c = "snd (observe_with_clock 0 (SinceEpoch 105) (kernel_request ''r'') (kernel_coordinator []))"
  from kernel_plan_fits obtain p where p: "plan_resource ''request:1'' (intent_actor example_intent)
      (input_desired_resource kernel_plan_request) (planning_observation_of (kernel_response 0)) = Inr p"
      "is_ok (fst (preview_insert ?input (add_findings [] p) preview_store_default))"
    by (auto split: sum.splits)
  have "build_fresh_plan example_crypto kernel_env ?input (intent_actor example_intent) (kernel_coordinator [])
      = (Inr (add_findings [] p, ores_observation (kernel_response 0)), ?c)"
    using p(1) kernel_probe
    by (simp add: build_fresh_plan_def build_fresh_plan_with_context_def validate_session_lock_facts_def
        session_power_plan_facts_def kernel_plan_request_def MANAGED_SESSION_TRANSITION_PROVIDER_def Let_def)
  moreover have "preview_replay preview_store_default ?input = Inr None"
  proof -
    have "is_ok (preview_key_from_input ?input)" by code_simp
    then obtain key where "preview_key_from_input ?input = Inr key" by (auto simp: is_ok_iff)
    then show ?thesis by (simp add: preview_replay_def preview_store_default_def bt_get_def)
  qed
  ultimately show ?thesis using p(2) kernel_plan_request_valid
    by (simp add: kernel_previews_def plan_desired_state_def normalized_plan_input_new_def plan_preview_control_new_def
        on_coordinator_def is_ok_iff case_prod_beta)
qed

theorem preview_replay_exact_witness:
  "\<exists>p ctl. kernel_previews = (Inr p, ctl) \<and> get_plan_preview ctl ''unix:uid:1000'' ''request:1'' = Inr p
     \<and> \<not> pp_execution_authorized p
     \<and> plan_desired_state example_crypto kernel_env ''unix:uid:1000'' (intent_actor example_intent)
         kernel_plan_request ctl = (Inr p, ctl)"
proof -
  from kernel_previews_ok obtain p ctl where k: "kernel_previews = (Inr p, ctl)"
    by (metis is_ok_iff prod.collapse)
  have rid: "pdr_request_id kernel_plan_request = ''request:1''" by (simp add: kernel_plan_request_def)
  from preview_replay_exact [OF k [unfolded kernel_previews_def]] k show ?thesis unfolding rid by blast
qed

end
