(* ===== verification/Durable_Authority.thy ===== *)
theory Durable_Authority
  imports Plan_Preview Sqlite_Store
begin

text \<open>
  \<open>crates/linura-control/src/durable_authority.rs\<close>: \<open>DurableAuthorityControl\<close> over the SQLite transaction store.
  It derives candidates from fresh plans, prepares durable transactions for them, hands them off for dispatch and
  recovers indeterminate ones.

  The environment of a call answers each clock reading and each store call by its number. \<open>settings\<close> answers
  the consent store at each point it is asked. An operation returns its answer with the control, which a failed call
  may have changed as well.
\<close>

section \<open>Data\<close>

record authority_env =
  au_clock :: "nat \<Rightarrow> system_time"
  au_approval_clock :: "nat \<Rightarrow> u64 option"
  au_store :: "nat \<Rightarrow> sqlite_env"
  au_preview :: preview_env

record dispatch_permit =
  dp_transaction_id :: transaction_id
  dp_generation :: u64
  dp_state_version :: u64
  dp_binding_digest :: content_digest
  dp_authority_use_digest :: content_digest

definition permit_from_commit :: "handoff_commit \<Rightarrow> dispatch_permit" where
  "permit_from_commit hc = \<lparr> dp_transaction_id = hc_transaction_id hc, dp_generation = hc_generation hc,
     dp_state_version = hc_state_version hc, dp_binding_digest = hc_binding_digest hc,
     dp_authority_use_digest = hc_authority_use_digest hc \<rparr>"

record verified_durable_authority =
  vda_snapshot :: transaction_snapshot
  vda_principal :: principal_id
  vda_desired_state_digest :: content_digest
  vda_graph_digest :: content_digest
  vda_provenance_digest :: content_digest

record risk_provenance =
  rpv_risk :: risk_class
  rpv_revision :: string
  rpv_rule_ids :: "string list"

record trusted_risk_floor =
  trf_risk :: risk_class
  trf_rule_id :: string

record durable_authority_candidate =
  dc_principal :: string
  dc_plan :: reconciliation_plan
  dc_observation :: observation_envelope
  dc_review :: trusted_policy_review
  dc_risk :: risk_provenance
  dc_risk_floor :: "trusted_risk_floor option"
  dc_request_digest :: content_digest
  dc_precondition_digest :: content_digest
  dc_observation_digest :: content_digest
  dc_review_digest :: content_digest
  dc_protective :: "protective_lock_context option"

record prepared_durable_authority =
  pda_candidate :: durable_authority_candidate
  pda_binding :: authority_binding
  pda_snapshot :: transaction_snapshot
  pda_approval_evidence_id :: "approval_evidence_id option"
  pda_handed_off :: bool

datatype durable_recovery_outcome =
    DurableVerified verified_durable_authority
  | DurableReprepared prepared_durable_authority
  | DurableBlocked transaction_snapshot
  | DurableStillIndeterminate transaction_snapshot

record fresh_recovery_approval =
  fra_request_id :: approval_request_id
  fra_approver :: policy_authenticated_approver
  fra_expires_at :: u64

datatype recovery_approval =
    ExistingApproval "approval_evidence_id option"
  | OnDemandApproval fresh_recovery_approval
  | ObserveOnly

record durable_authority_control =
  dac_approvals :: approval_review_control
  dac_transactions :: sqlite_store
  dac_signer :: authority_key
  dac_last_authority_unix_ms :: u64

definition from_preview_error :: "plan_preview_control_error \<Rightarrow> durable_authority_error" where
  "from_preview_error e = AuthorityPreview (plan_preview_control_error_text e)"

definition from_observation_validation :: "observation_validation_error + 'a \<Rightarrow> durable_authority_error + 'a" where
  "from_observation_validation r = map_err (\<lambda>e. AuthorityPreview (observation_validation_error_text e)) r"

text \<open>Runs an operation of the store inside the control.\<close>

definition on_store ::
  "(sqlite_store \<Rightarrow> (transaction_store_error + 'a) \<times> sqlite_store) \<Rightarrow> durable_authority_control
     \<Rightarrow> (durable_authority_error + 'a) \<times> durable_authority_control" where
  "on_store f da = (case f (dac_transactions da) of
     (r, st) \<Rightarrow> (map_err from_store_error r, da\<lparr> dac_transactions := st \<rparr>))"

definition on_approvals ::
  "(approval_review_control \<Rightarrow> (approval_control_error + 'a) \<times> approval_review_control)
     \<Rightarrow> durable_authority_control \<Rightarrow> (durable_authority_error + 'a) \<times> durable_authority_control" where
  "on_approvals f da = (case f (dac_approvals da) of
     (r, c) \<Rightarrow> (map_err map_approval_error r, da\<lparr> dac_approvals := c \<rparr>))"

section \<open>Risk, expiry and the clock\<close>

definition classify_candidate_risk ::
  "reconciliation_plan \<Rightarrow> trusted_risk_floor option \<Rightarrow> risk_classification" where
  "classify_candidate_risk plan floor =
     (case floor of
        None \<Rightarrow> classify_plan_risk plan
      | Some f \<Rightarrow> classify_plan_risk_with_floor plan (trf_risk f) (trf_rule_id f))"

fun risk_provenance_of :: "risk_classification \<Rightarrow> durable_authority_error + risk_provenance" where
  "risk_provenance_of (Classified risk revision ids) =
     Inr \<lparr> rpv_risk = risk, rpv_revision = revision, rpv_rule_ids = ids \<rparr>"
| "risk_provenance_of (NotApplicable risk) = Inl RiskNotClassified"
| "risk_provenance_of (Unclassified revision reason) = Inl RiskNotClassified"
| "risk_provenance_of (DowngradeRejected revision floor classified ids) = Inl RiskNotClassified"

definition observation_expires_at_unix_ms :: "observation_envelope \<Rightarrow> durable_authority_error + u64" where
  "observation_expires_at_unix_ms ob =
     ok_or (checked_add (observed_at_unix_ms ob) (valid_for_ms ob)) AuthorityClockUnavailable"

definition exclusive_seconds_to_last_valid_unix_ms :: "u64 \<Rightarrow> durable_authority_error + u64" where
  "exclusive_seconds_to_last_valid_unix_ms seconds =
     ok_or (Option.bind (checked_mul seconds 1000) (\<lambda>exclusive. checked_sub exclusive 1)) AuthorityClockUnavailable"

definition authority_expires_at_unix_ms ::
  "observation_envelope \<Rightarrow> authority_binding \<Rightarrow> durable_authority_error + u64" where
  "authority_expires_at_unix_ms ob binding =
     and_then (observation_expires_at_unix_ms ob) (\<lambda>observation_expiry.
     case ab_authorization binding of
       PolicyAllow \<Rightarrow> Inr observation_expiry
     | ApprovalBasis approval \<Rightarrow>
         and_then (exclusive_seconds_to_last_valid_unix_ms (aa_expires_at approval)) (\<lambda>approval_expiry.
         Inr (min observation_expiry approval_expiry)))"

definition verified_commit_digests ::
  "crypto \<Rightarrow> recovery_anchor_view \<Rightarrow> reconciliation_plan \<Rightarrow> content_digest
     \<Rightarrow> content_digest \<times> content_digest \<times> content_digest" where
  "verified_commit_digests cr anchor plan observation_digest =
     (anchor_request_digest anchor,
      digest_parts cr ''linura.control.verified-graph.v1''
        [plan_id plan, plan_provider plan, plan_resource_id plan, anchor_precondition_digest anchor, observation_digest],
      digest_parts cr ''linura.control.verified-provenance.v1''
        [snap_transaction_id (anchor_snapshot anchor), snap_binding_digest (anchor_snapshot anchor),
         anchor_request_digest anchor, anchor_precondition_digest anchor, observation_digest])"

definition authority_now_unix_ms ::
  "authority_env \<Rightarrow> nat \<Rightarrow> durable_authority_control
     \<Rightarrow> (durable_authority_error + u64) \<times> durable_authority_control" where
  "authority_now_unix_ms env n da =
     (case au_clock env n of
        BeforeEpoch \<Rightarrow> (Inl AuthorityClockUnavailable, da)
      | SinceEpoch ms \<Rightarrow>
          if ms \<ge> 2 ^ 64 then (Inl AuthorityClockUnavailable, da)
          else let sampled = word_of_nat ms in
            if sampled < dac_last_authority_unix_ms da then (Inl AuthorityClockRollback, da)
            else (Inr sampled, da\<lparr> dac_last_authority_unix_ms := sampled \<rparr>))"

section \<open>Candidates\<close>

definition review_candidate ::
  "string \<Rightarrow> reconciliation_plan \<Rightarrow> risk_classification \<Rightarrow> protective_lock_context option
     \<Rightarrow> durable_authority_error + trusted_policy_review" where
  "review_candidate prin plan classification protective =
     map_err (\<lambda>e. AuthorityPreview (policy_subject_error_debug e))
       (case protective of
          Some context \<Rightarrow> review_protective_plan prin plan classification
            (protective_lock_policy_new (plc_setting context) (plc_event context) (plc_lock context))
        | None \<Rightarrow> review_plan_with_classification prin plan classification)"

definition review_refused :: "trusted_policy_review \<Rightarrow> bool" where
  "review_refused review \<longleftrightarrow> is_deny_or_blocked (review_decision review)
     \<or> subj_status (review_subject review) \<noteq> ReviewChangeProposed \<or> subject_has_blockers (review_subject review)"

definition candidate_of ::
  "crypto \<Rightarrow> string \<Rightarrow> reconciliation_plan \<Rightarrow> observation_envelope \<Rightarrow> content_digest \<Rightarrow> trusted_risk_floor option
     \<Rightarrow> protective_lock_context option \<Rightarrow> durable_authority_error + durable_authority_candidate" where
  "candidate_of cr prin plan observation request_digest risk_floor protective =
     (if plan_status plan \<noteq> ChangeProposed \<or> plan_changes plan = [] \<or> execution_authorized plan
      then Inl CandidateNotMutation
      else
      let classification = classify_candidate_risk plan risk_floor in
      and_then (risk_provenance_of classification) (\<lambda>risk.
      and_then (review_candidate prin plan classification protective) (\<lambda>review.
      if subj_prospective_risk (review_subject review) \<noteq> rpv_risk risk then Inl AuthorityChanged
      else if review_refused review then Inl CandidateBlocked
      else
      and_then (digest_plan_precondition cr plan) (\<lambda>precondition_digest.
      and_then (digest_observation cr observation) (\<lambda>observation_digest.
      and_then (digest_review cr review) (\<lambda>review_digest.
      Inr \<lparr> dc_principal = prin, dc_plan = plan, dc_observation = observation, dc_review = review, dc_risk = risk,
            dc_risk_floor = risk_floor, dc_request_digest = request_digest,
            dc_precondition_digest = precondition_digest, dc_observation_digest = observation_digest,
            dc_review_digest = review_digest, dc_protective = protective \<rparr>))))))"

definition candidate_inner ::
  "crypto \<Rightarrow> preview_env \<Rightarrow> string \<Rightarrow> actor \<Rightarrow> plan_desired_state_request \<Rightarrow> trusted_risk_floor option
     \<Rightarrow> protective_lock_context option \<Rightarrow> plan_preview_control
     \<Rightarrow> (durable_authority_error + durable_authority_candidate) \<times> plan_preview_control" where
  "candidate_inner cr env prin actor request risk_floor protective ctl =
     then_with (digest_request cr request, ctl) (\<lambda>request_digest ctl.
     then_with (apfst (map_err from_preview_error)
       (case protective of
          Some context \<Rightarrow> protective_authority_candidate cr env prin actor request context ctl
        | None \<Rightarrow> preview_authority_candidate cr env prin actor request ctl)) (\<lambda>(plan, observation) ctl.
     (candidate_of cr prin plan observation request_digest risk_floor protective, ctl)))"

definition authority_candidate ::
  "crypto \<Rightarrow> preview_env \<Rightarrow> string \<Rightarrow> actor \<Rightarrow> plan_desired_state_request \<Rightarrow> plan_preview_control
     \<Rightarrow> (durable_authority_error + durable_authority_candidate) \<times> plan_preview_control" where
  "authority_candidate cr env prin actor request ctl = candidate_inner cr env prin actor request None None ctl"

definition candidate_with_risk_floor ::
  "crypto \<Rightarrow> preview_env \<Rightarrow> string \<Rightarrow> actor \<Rightarrow> plan_desired_state_request \<Rightarrow> trusted_risk_floor
     \<Rightarrow> plan_preview_control \<Rightarrow> (durable_authority_error + durable_authority_candidate) \<times> plan_preview_control" where
  "candidate_with_risk_floor cr env prin actor request risk_floor ctl =
     candidate_inner cr env prin actor request (Some risk_floor) None ctl"

definition protective_candidate ::
  "crypto \<Rightarrow> preview_env \<Rightarrow> string \<Rightarrow> actor \<Rightarrow> protective_lock_context \<Rightarrow> trusted_risk_floor
     \<Rightarrow> plan_preview_control \<Rightarrow> (durable_authority_error + durable_authority_candidate) \<times> plan_preview_control" where
  "protective_candidate cr env prin actor context risk_floor ctl =
     then_with (map_err AuthorityPreview (context_request context), ctl) (\<lambda>request ctl.
     candidate_inner cr env prin actor request (Some risk_floor) (Some context) ctl)"

section \<open>Approvals\<close>

definition issue_approval ::
  "u64 option \<Rightarrow> approval_request_id \<Rightarrow> durable_authority_candidate \<Rightarrow> policy_authenticated_approver \<Rightarrow> u64
     \<Rightarrow> durable_authority_control
     \<Rightarrow> (durable_authority_error + policy_approval_evidence) \<times> durable_authority_control" where
  "issue_approval clock request_id candidate approver expires_at da =
     on_approvals (issue clock request_id (dc_review candidate) approver expires_at) da"

definition revoke_approval ::
  "u64 option \<Rightarrow> approval_evidence_id \<Rightarrow> policy_authenticated_approver \<Rightarrow> durable_authority_control
     \<Rightarrow> (durable_authority_error + unit) \<times> durable_authority_control" where
  "revoke_approval clock eid revoker da = on_approvals (revoke clock eid revoker) da"

section \<open>Revalidation\<close>

definition revalidated_review ::
  "crypto \<Rightarrow> durable_authority_candidate \<Rightarrow> u64 \<Rightarrow> settings_answers option
     \<Rightarrow> durable_authority_error + trusted_policy_review" where
  "revalidated_review cr candidate now settings =
     (let plan = dc_plan candidate; observation = dc_observation candidate in
      and_then (case (dc_protective candidate, settings) of
          (Some context, Some answers) \<Rightarrow> map_err AuthorityPreview (context_require_current context answers)
        | (None, None) \<Rightarrow> Inr ()
        | _ \<Rightarrow> Inl AuthorityChanged) (\<lambda>_.
      and_then (from_observation_validation (require_current observation now)) (\<lambda>_.
      and_then (from_observation_validation (envelope_validate observation (plan_provider plan)
        (plan_resource_id plan) (plan_observation_capability plan))) (\<lambda>_.
      and_then (digest_observation cr observation) (\<lambda>observation_digest.
      if observation_digest \<noteq> dc_observation_digest candidate then Inl AuthorityChanged
      else
      let classification = classify_candidate_risk plan (dc_risk_floor candidate) in
      and_then (risk_provenance_of classification) (\<lambda>risk.
      if risk \<noteq> dc_risk candidate then Inl AuthorityChanged
      else
      and_then (review_candidate (dc_principal candidate) plan classification (dc_protective candidate)) (\<lambda>review.
      if subj_prospective_risk (review_subject review) \<noteq> rpv_risk risk then Inl AuthorityChanged
      else
      and_then (digest_review cr review) (\<lambda>review_digest.
      if review_digest \<noteq> dc_review_digest candidate \<or> review \<noteq> dc_review candidate then Inl AuthorityChanged
      else Inr review))))))))"

definition authorization_of ::
  "authority_env \<Rightarrow> trusted_policy_review \<Rightarrow> approval_evidence_id option \<Rightarrow> durable_authority_control
     \<Rightarrow> (durable_authority_error + authorization_basis) \<times> durable_authority_control" where
  "authorization_of env review approval_id da =
     (case review_decision review of
        Allow \<Rightarrow> (if approval_id \<noteq> None then Inl UnexpectedApproval else Inr PolicyAllow, da)
      | RequireApproval cl reason \<Rightarrow>
          then_with (ok_or approval_id MissingApproval, da) (\<lambda>evidence_id da.
          then_with (on_approvals (validate (au_approval_clock env 0) evidence_id review) da) (\<lambda>validation da.
          if validation \<noteq> Satisfied then (Inl (ApprovalUnsatisfied validation), da)
          else (and_then (ok_or (get_evidence (dac_approvals da) evidence_id) MissingApproval) (\<lambda>ev.
            and_then (map_err from_validation_error (approval_authority_try_new (ae_id ev) (ae_request_id ev)
              (ae_approver ev) (approval_class_name cl) (ae_issued_at ev) (ae_expires_at ev))) (\<lambda>approval.
            Inr (ApprovalBasis approval))), da)))
      | Deny reason \<Rightarrow> (Inl CandidateBlocked, da)
      | DecisionBlocked reason \<Rightarrow> (Inl CandidateBlocked, da))"

definition revalidate_and_bind ::
  "crypto \<Rightarrow> authority_env \<Rightarrow> durable_authority_candidate \<Rightarrow> approval_evidence_id option \<Rightarrow> u64
     \<Rightarrow> settings_answers option \<Rightarrow> durable_authority_control
     \<Rightarrow> (durable_authority_error + authority_binding) \<times> durable_authority_control" where
  "revalidate_and_bind cr env candidate approval_id now settings da =
     then_with (revalidated_review cr candidate now settings, da) (\<lambda>review da.
     then_with (authorization_of env review approval_id da) (\<lambda>authorization da.
     let subject = review_subject review; binding = ev_binding (tpr_evaluation review) in
     (and_then (map_err (\<lambda>e. AuthorityPreview (validation_error_text e))
        (typed_id_new ''principal id'' (dc_principal candidate))) (\<lambda>prin.
      map_err from_validation_error (binding_try_new cr
        \<lparr> ab_principal = prin, ab_request_id = subj_request_id subject, ab_plan_id = subj_plan_id subject,
          ab_request_digest = dc_request_digest candidate,
          ab_precondition_digest = dc_precondition_digest candidate,
          ab_observation_digest = dc_observation_digest candidate, ab_provider = subj_provider subject,
          ab_resource = subj_resource subject, ab_capability = subj_capability subject,
          ab_policy_id = rb_policy_id binding, ab_policy_revision_id = rb_policy_revision_id binding,
          ab_trusted_risk = rpv_risk (dc_risk candidate),
          ab_risk_policy_revision = rpv_revision (dc_risk candidate),
          ab_risk_rule_ids = rpv_rule_ids (dc_risk candidate), ab_review_digest = dc_review_digest candidate,
          ab_authorization = authorization \<rparr>)), da)))"

section \<open>Unchanged review semantics\<close>

text \<open>\<open>str::replace\<close>: every match from the left, and around every character for an empty pattern.\<close>

function str_replace :: "string \<Rightarrow> string \<Rightarrow> string \<Rightarrow> string" where
  "str_replace pat rep s =
     (if pat = [] then rep @ concat (map (\<lambda>c. c # rep) s)
      else case s of
          [] \<Rightarrow> []
        | c # cs \<Rightarrow>
            (case strip_prefix pat s of
               Some rest \<Rightarrow> rep @ str_replace pat rep rest
             | None \<Rightarrow> c # str_replace pat rep cs))"
  by auto
termination str_replace
  by (relation "measure (\<lambda>(_, _, s). length s)") (auto simp: strip_prefix_Some)

declare str_replace.simps [simp del]

definition finding_unchanged :: "string \<Rightarrow> string \<Rightarrow> reviewed_finding \<Rightarrow> reviewed_finding \<Rightarrow> bool" where
  "finding_unchanged left_evidence right_evidence l r \<longleftrightarrow>
     rf_code l = rf_code r \<and> rf_level l = rf_level r
     \<and> (if rf_code l = ''authoritative-observation''
        then str_replace left_evidence ''<observation-evidence>'' (rf_message l)
          = str_replace right_evidence ''<observation-evidence>'' (rf_message r)
        else rf_message l = rf_message r)"

definition review_findings_unchanged :: "policy_subject \<Rightarrow> policy_subject \<Rightarrow> bool" where
  "review_findings_unchanged l r \<longleftrightarrow> length (subj_findings l) = length (subj_findings r)
     \<and> list_all (\<lambda>(a, b). finding_unchanged (subj_observed_evidence_id l) (subj_observed_evidence_id r) a b)
         (zip (subj_findings l) (subj_findings r))"

definition review_semantics_unchanged :: "trusted_policy_review \<Rightarrow> trusted_policy_review \<Rightarrow> bool" where
  "review_semantics_unchanged l r \<longleftrightarrow>
     (let ls = review_subject l; rs = review_subject r; lb = ev_binding (tpr_evaluation l);
          rb = ev_binding (tpr_evaluation r) in
      subj_principal ls = subj_principal rs \<and> subj_plan_id ls = subj_plan_id rs
      \<and> subj_request_id ls = subj_request_id rs \<and> subj_actor ls = subj_actor rs
      \<and> subj_provider ls = subj_provider rs \<and> subj_resource ls = subj_resource rs
      \<and> subj_capability ls = subj_capability rs \<and> subj_reason ls = subj_reason rs
      \<and> subj_prospective_risk ls = subj_prospective_risk rs \<and> subj_status ls = subj_status rs
      \<and> subj_changes ls = subj_changes rs \<and> review_findings_unchanged ls rs
      \<and> rb_principal lb = rb_principal rb \<and> rb_plan_id lb = rb_plan_id rb \<and> rb_request_id lb = rb_request_id rb
      \<and> rb_provider lb = rb_provider rb \<and> rb_resource lb = rb_resource rb \<and> rb_capability lb = rb_capability rb
      \<and> rb_policy_id lb = rb_policy_id rb \<and> rb_policy_revision_id lb = rb_policy_revision_id rb
      \<and> review_decision l = review_decision r)"

definition validate_protective_now ::
  "crypto \<Rightarrow> preview_env \<Rightarrow> durable_authority_candidate \<Rightarrow> settings_answers \<Rightarrow> plan_preview_control
     \<Rightarrow> (durable_authority_error + unit) \<times> plan_preview_control" where
  "validate_protective_now cr env candidate settings ctl =
     then_with (ok_or (dc_protective candidate) AuthorityChanged, ctl) (\<lambda>context ctl.
     then_with (map_err AuthorityPreview (context_require_current context settings), ctl) (\<lambda>_ ctl.
     then_with (ok_or (dc_risk_floor candidate) AuthorityChanged, ctl) (\<lambda>risk_floor ctl.
     then_with (protective_candidate cr env (dc_principal candidate) (plan_actor (dc_plan candidate)) context
       risk_floor ctl) (\<lambda>fresh ctl.
     (if \<not> review_semantics_unchanged (dc_review candidate) (dc_review fresh) \<or> dc_risk fresh \<noteq> dc_risk candidate
      then Inl AuthorityChanged else Inr (), ctl)))))"

section \<open>Prepare and handoff\<close>

definition prepare_inner ::
  "crypto \<Rightarrow> authority_env \<Rightarrow> durable_authority_candidate \<Rightarrow> approval_evidence_id option
     \<Rightarrow> settings_answers option \<Rightarrow> durable_authority_control
     \<Rightarrow> (durable_authority_error + prepared_durable_authority) \<times> durable_authority_control" where
  "prepare_inner cr env candidate approval_id settings da =
     then_with (authority_now_unix_ms env 0 da) (\<lambda>now da.
     then_with (revalidate_and_bind cr env candidate approval_id now settings da) (\<lambda>binding da.
     then_with (on_store (prepare cr (au_store env 0) binding) da) (\<lambda>outcome da.
     let snap = (case outcome of PrepareCreated s \<Rightarrow> s | PrepareExisting s \<Rightarrow> s) in
     if snap_binding_digest snap \<noteq> ab_digest binding \<or> snap_principal snap \<noteq> ab_principal binding
        \<or> snap_request_id snap \<noteq> ab_request_id binding
     then (Inl AuthorityChanged, da)
     else (Inr \<lparr> pda_candidate = candidate, pda_binding = binding, pda_snapshot = snap,
                 pda_approval_evidence_id = approval_id, pda_handed_off = False \<rparr>, da))))"

definition authority_prepare ::
  "crypto \<Rightarrow> authority_env \<Rightarrow> durable_authority_candidate \<Rightarrow> approval_evidence_id option
     \<Rightarrow> durable_authority_control
     \<Rightarrow> (durable_authority_error + prepared_durable_authority) \<times> durable_authority_control" where
  "authority_prepare cr env candidate approval_id da = prepare_inner cr env candidate approval_id None da"

definition prepare_protective ::
  "crypto \<Rightarrow> authority_env \<Rightarrow> durable_authority_candidate \<Rightarrow> (nat \<Rightarrow> settings_answers)
     \<Rightarrow> durable_authority_control \<times> plan_preview_control
     \<Rightarrow> (durable_authority_error + prepared_durable_authority) \<times> durable_authority_control \<times> plan_preview_control" where
  "prepare_protective cr env candidate settings s =
     (case s of (da, ctl) \<Rightarrow>
        (case validate_protective_now cr (au_preview env) candidate (settings 0) ctl of
           (Inl e, ctl) \<Rightarrow> (Inl e, da, ctl)
         | (Inr _, ctl) \<Rightarrow>
             (case prepare_inner cr env candidate None (Some (settings 1)) da of (r, da) \<Rightarrow> (r, da, ctl))))"

definition handoff_inner ::
  "crypto \<Rightarrow> authority_env \<Rightarrow> string \<Rightarrow> prepared_durable_authority \<Rightarrow> settings_answers option
     \<Rightarrow> durable_authority_control \<Rightarrow> (durable_authority_error + dispatch_permit) \<times> durable_authority_control" where
  "handoff_inner cr env prin prepared settings da =
     (if pda_handed_off prepared then (Inl AlreadyHandedOff, da)
      else if prin \<noteq> dc_principal (pda_candidate prepared) \<or> prin \<noteq> ab_principal (pda_binding prepared)
         \<or> prin \<noteq> snap_principal (pda_snapshot prepared)
      then (Inl AuthorityChanged, da)
      else
      then_with (authority_now_unix_ms env 0 da) (\<lambda>now da.
      then_with (revalidate_and_bind cr env (pda_candidate prepared) (pda_approval_evidence_id prepared) now settings
        da) (\<lambda>current da.
      if ab_digest current \<noteq> ab_digest (pda_binding prepared) then (Inl AuthorityChanged, da)
      else
      then_with (map_err from_store_error (snapshot cr (au_store env 0) (dac_transactions da)
        (snap_transaction_id (pda_snapshot prepared))), da) (\<lambda>durable da.
      if durable \<noteq> pda_snapshot prepared then (Inl AuthorityChanged, da)
      else
      then_with (digest_authority_use cr durable now, da) (\<lambda>authority_use_digest da.
      then_with (authority_expires_at_unix_ms (dc_observation (pda_candidate prepared)) current, da) (\<lambda>expires da.
      then_with (map_err from_validation_error
        (authorize_handoff cr (dac_signer da) durable authority_use_digest now expires), da) (\<lambda>request da.
      then_with (on_store (handoff cr (au_store env 1) request) da) (\<lambda>hc da.
      (Inr (permit_from_commit hc), da)))))))))"

text \<open>The prepared authority after the call: only a permit marks it.\<close>

definition mark_handed_off ::
  "durable_authority_error + dispatch_permit \<Rightarrow> prepared_durable_authority \<Rightarrow> prepared_durable_authority" where
  "mark_handed_off r prepared = (case r of Inl _ \<Rightarrow> prepared | Inr _ \<Rightarrow> prepared\<lparr> pda_handed_off := True \<rparr>)"

definition authority_handoff ::
  "crypto \<Rightarrow> authority_env \<Rightarrow> string \<Rightarrow> prepared_durable_authority \<Rightarrow> durable_authority_control
     \<Rightarrow> (durable_authority_error + dispatch_permit) \<times> prepared_durable_authority \<times> durable_authority_control" where
  "authority_handoff cr env prin prepared da =
     (case handoff_inner cr env prin prepared None da of (r, da) \<Rightarrow> (r, mark_handed_off r prepared, da))"

definition handoff_protective ::
  "crypto \<Rightarrow> authority_env \<Rightarrow> string \<Rightarrow> prepared_durable_authority \<Rightarrow> (nat \<Rightarrow> settings_answers)
     \<Rightarrow> durable_authority_control \<times> plan_preview_control
     \<Rightarrow> (durable_authority_error + dispatch_permit) \<times> prepared_durable_authority
        \<times> durable_authority_control \<times> plan_preview_control" where
  "handoff_protective cr env prin prepared settings s =
     (case s of (da, ctl) \<Rightarrow>
        (case validate_protective_now cr (au_preview env) (pda_candidate prepared) (settings 0) ctl of
           (Inl e, ctl) \<Rightarrow> (Inl e, prepared, da, ctl)
         | (Inr _, ctl) \<Rightarrow>
             (case handoff_inner cr env prin prepared (Some (settings 1)) da of
                (r, da) \<Rightarrow> (r, mark_handed_off r prepared, da, ctl))))"

section \<open>Restart\<close>

fun abort_all ::
  "crypto \<Rightarrow> authority_env \<Rightarrow> nat \<Rightarrow> content_digest \<Rightarrow> transaction_snapshot list \<Rightarrow> durable_authority_control
     \<Rightarrow> (durable_authority_error + transaction_snapshot list) \<times> durable_authority_control" where
  "abort_all cr env n reason [] da = (Inr [], da)"
| "abort_all cr env n reason (s # ss) da =
     then_with (on_store (abort_prepared cr (au_store env n)
       \<lparr> ar_transaction_id = snap_transaction_id s, ar_expected_generation = snap_current_generation s,
         ar_expected_state_version = snap_state_version s, ar_reason_digest = reason \<rparr>) da) (\<lambda>retired da.
     then_with (abort_all cr env (n + 1) reason ss da) (\<lambda>rest da. (Inr (retired # rest), da)))"

definition abort_prepared_after_restart ::
  "crypto \<Rightarrow> authority_env \<Rightarrow> durable_authority_control
     \<Rightarrow> (durable_authority_error + transaction_snapshot list) \<times> durable_authority_control" where
  "abort_prepared_after_restart cr env da =
     then_with (map_err from_store_error (list_state cr (au_store env 0) (dac_transactions da) TxPrepared), da)
       (\<lambda>prepared da.
     abort_all cr env 1 (digest_parts cr ''linura.control.restart-prepared-abort.v1''
       [''process-local mutable authority state was lost at restart'']) prepared da)"

text \<open>On an error the caller has no control; the state then is what the store holds.\<close>

definition authority_control_new ::
  "crypto \<Rightarrow> authority_env \<Rightarrow> sqlite_store \<Rightarrow> authority_key
     \<Rightarrow> (durable_authority_error + unit) \<times> durable_authority_control" where
  "authority_control_new cr env store signer =
     then_with (abort_prepared_after_restart cr env
       \<lparr> dac_approvals = approval_control_new, dac_transactions = store, dac_signer = signer,
         dac_last_authority_unix_ms = 0 \<rparr>) (\<lambda>_ da. (Inr (), da))"

section \<open>Recovery of indeterminate transactions\<close>

text \<open>The durable anchor of a request, if the request is the one sealed there.\<close>

definition matching_anchor ::
  "crypto \<Rightarrow> principal_id \<Rightarrow> plan_desired_state_request \<Rightarrow> recovery_anchor_view \<Rightarrow> durable_authority_error + unit" where
  "matching_anchor cr prin request anchor =
     (if snap_principal (anchor_snapshot anchor) \<noteq> prin
         \<or> snap_request_id (anchor_snapshot anchor) \<noteq> pdr_request_id request
      then Inl RecoveryRequestMismatch
      else and_then (digest_request cr request) (\<lambda>digest.
        ensure (anchor_request_digest anchor = digest) RecoveryRequestMismatch))"

definition anchor_of ::
  "crypto \<Rightarrow> sqlite_env \<Rightarrow> string \<Rightarrow> plan_desired_state_request \<Rightarrow> durable_authority_control
     \<Rightarrow> durable_authority_error + principal_id \<times> recovery_anchor_view" where
  "anchor_of cr store_env prin request da =
     and_then (map_err (\<lambda>e. AuthorityPreview (validation_error_text e)) (typed_id_new ''principal id'' prin)) (\<lambda>prin_id.
     and_then (map_err from_store_error (recovery_anchor cr store_env (dac_transactions da)
       (for_namespace cr prin_id (pdr_request_id request)))) (\<lambda>anchor.
     Inr (prin_id, anchor)))"

text \<open>A clock reading at which the observation is current.\<close>

definition authority_now_current ::
  "authority_env \<Rightarrow> nat \<Rightarrow> observation_envelope \<Rightarrow> durable_authority_control
     \<Rightarrow> (durable_authority_error + u64) \<times> durable_authority_control" where
  "authority_now_current env n observation da =
     then_with (authority_now_unix_ms env n da) (\<lambda>now da.
     (and_then (from_observation_validation (require_current observation now)) (\<lambda>_. Inr now), da))"

definition sign_and_recover ::
  "crypto \<Rightarrow> authority_env \<Rightarrow> recovery_anchor_view \<Rightarrow> recovery_resolution \<Rightarrow> u64 \<Rightarrow> u64
     \<Rightarrow> durable_authority_control \<Rightarrow> (durable_authority_error + recovery_outcome) \<times> durable_authority_control" where
  "sign_and_recover cr env anchor resolution authorized_at expires_at da =
     then_with (map_err from_validation_error
       (authorize_recovery cr (dac_signer da) (anchor_snapshot anchor) resolution authorized_at expires_at), da)
       (\<lambda>request da. on_store (recover cr (au_store env 1) request) da)"

definition recover_ambiguity ::
  "crypto \<Rightarrow> authority_env \<Rightarrow> recovery_anchor_view \<Rightarrow> observation_envelope \<Rightarrow> content_digest
     \<Rightarrow> durable_authority_control
     \<Rightarrow> (durable_authority_error + durable_recovery_outcome) \<times> durable_authority_control" where
  "recover_ambiguity cr env anchor observation observation_digest da =
     then_with (authority_now_current env 0 observation da) (\<lambda>authorized_at da.
     then_with (observation_expires_at_unix_ms observation, da) (\<lambda>expires da.
     then_with (sign_and_recover cr env anchor (Ambiguous observation_digest) authorized_at expires da) (\<lambda>outcome da.
     (case outcome of
        StillIndeterminate s \<Rightarrow> Inr (DurableStillIndeterminate s)
      | _ \<Rightarrow> Inl AuthorityChanged, da))))"

definition recover_conflict ::
  "crypto \<Rightarrow> authority_env \<Rightarrow> recovery_anchor_view \<Rightarrow> observation_envelope \<Rightarrow> content_digest
     \<Rightarrow> durable_authority_control
     \<Rightarrow> (durable_authority_error + durable_recovery_outcome) \<times> durable_authority_control" where
  "recover_conflict cr env anchor observation observation_digest da =
     then_with (authority_now_current env 0 observation da) (\<lambda>_ da.
     then_with (authority_now_current env 1 observation da) (\<lambda>authorized_at da.
     then_with (observation_expires_at_unix_ms observation, da) (\<lambda>expires da.
     then_with (sign_and_recover cr env anchor (ConflictingState observation_digest) authorized_at expires da)
       (\<lambda>outcome da.
     (case outcome of
        RecoveredBlocked s \<Rightarrow> Inr (DurableBlocked s)
      | _ \<Rightarrow> Inl AuthorityChanged, da)))))"

definition verified_from_material :: "commit_material_view \<Rightarrow> verified_durable_authority" where
  "verified_from_material material = \<lparr> vda_snapshot = material_snapshot material,
     vda_principal = snap_principal (material_snapshot material),
     vda_desired_state_digest = material_desired_state_digest material,
     vda_graph_digest = material_graph_digest material,
     vda_provenance_digest = material_provenance_digest material \<rparr>"

definition recover_intended ::
  "crypto \<Rightarrow> authority_env \<Rightarrow> recovery_anchor_view \<Rightarrow> reconciliation_plan \<Rightarrow> observation_envelope
     \<Rightarrow> content_digest \<Rightarrow> durable_authority_control
     \<Rightarrow> (durable_authority_error + durable_recovery_outcome) \<times> durable_authority_control" where
  "recover_intended cr env anchor plan observation observation_digest da =
     then_with (authority_now_current env 0 observation da) (\<lambda>_ da.
     then_with (authority_now_current env 1 observation da) (\<lambda>authorized_at da.
     let (desired, graph, provenance) = verified_commit_digests cr anchor plan observation_digest in
     then_with (observation_expires_at_unix_ms observation, da) (\<lambda>expires da.
     then_with (sign_and_recover cr env anchor (IntendedStateVerified observation_digest desired graph provenance)
       authorized_at expires da) (\<lambda>outcome da.
     case outcome of
       RecoveredVerified snap \<Rightarrow>
         then_with (map_err from_store_error (verified_commit_material cr (au_store env 2) (dac_transactions da)
           (snap_transaction_id snap)), da) (\<lambda>material da.
         (if material_snapshot material \<noteq> snap \<or> material_desired_state_digest material \<noteq> desired
             \<or> material_graph_digest material \<noteq> graph \<or> material_provenance_digest material \<noteq> provenance
          then Inl AuthorityChanged
          else Inr (DurableVerified (verified_from_material material)), da))
     | _ \<Rightarrow> (Inl AuthorityChanged, da)))))"

definition recovery_evidence_id ::
  "authority_env \<Rightarrow> recovery_approval \<Rightarrow> durable_authority_candidate \<Rightarrow> durable_authority_control
     \<Rightarrow> (durable_authority_error + approval_evidence_id option) \<times> durable_authority_control" where
  "recovery_evidence_id env approval candidate da =
     (case approval of
        ObserveOnly \<Rightarrow> (Inl AuthorityChanged, da)
      | ExistingApproval existing \<Rightarrow> (Inr existing, da)
      | OnDemandApproval fresh \<Rightarrow>
          (case review_decision (dc_review candidate) of
             Allow \<Rightarrow> (Inr None, da)
           | RequireApproval cl reason \<Rightarrow>
               then_with (issue_approval (au_approval_clock env 1) (fra_request_id fresh) candidate (fra_approver fresh)
                 (fra_expires_at fresh) da) (\<lambda>ev da. (Inr (Some (ae_id ev)), da))
           | Deny reason \<Rightarrow> (Inl CandidateBlocked, da)
           | DecisionBlocked reason \<Rightarrow> (Inl CandidateBlocked, da)))"

definition recover_reprepare ::
  "crypto \<Rightarrow> authority_env \<Rightarrow> recovery_anchor_view \<Rightarrow> recovery_approval \<Rightarrow> durable_authority_candidate
     \<Rightarrow> durable_authority_control
     \<Rightarrow> (durable_authority_error + durable_recovery_outcome) \<times> durable_authority_control" where
  "recover_reprepare cr env anchor approval candidate da =
     then_with (recovery_evidence_id env approval candidate da) (\<lambda>approval_id da.
     then_with (authority_now_unix_ms env 0 da) (\<lambda>now da.
     then_with (revalidate_and_bind cr env candidate approval_id now None da) (\<lambda>next_binding da.
     then_with (authority_now_current env 1 (dc_observation candidate) da) (\<lambda>authorized_at da.
     then_with (authority_expires_at_unix_ms (dc_observation candidate) next_binding, da) (\<lambda>expires da.
     then_with (sign_and_recover cr env anchor
       (IntendedEffectAbsent (dc_observation_digest candidate) next_binding) authorized_at expires da) (\<lambda>outcome da.
     (case outcome of
        RecoveredReprepared snap \<Rightarrow> Inr (DurableReprepared \<lparr> pda_candidate = candidate, pda_binding = next_binding,
          pda_snapshot = snap, pda_approval_evidence_id = approval_id, pda_handed_off = False \<rparr>)
      | _ \<Rightarrow> Inl AuthorityChanged, da)))))))"

text \<open>The branch for a plan that still proposes the change.\<close>

definition recover_change ::
  "crypto \<Rightarrow> authority_env \<Rightarrow> string \<Rightarrow> recovery_anchor_view \<Rightarrow> recovery_approval \<Rightarrow> trusted_risk_floor option
     \<Rightarrow> reconciliation_plan \<Rightarrow> observation_envelope \<Rightarrow> content_digest \<Rightarrow> durable_authority_control
     \<Rightarrow> (durable_authority_error + durable_recovery_outcome) \<times> durable_authority_control" where
  "recover_change cr env prin anchor approval risk_floor plan observation observation_digest da =
     then_with (digest_plan_precondition cr plan, da) (\<lambda>precondition_digest da.
     if precondition_digest \<noteq> anchor_precondition_digest anchor
     then recover_conflict cr env anchor observation observation_digest da
     else if approval = ObserveOnly then recover_ambiguity cr env anchor observation observation_digest da
     else
     let classification = classify_candidate_risk plan risk_floor in
     then_with (risk_provenance_of classification, da) (\<lambda>risk da.
     then_with (review_candidate prin plan classification None, da) (\<lambda>review da.
     if subj_prospective_risk (review_subject review) \<noteq> rpv_risk risk then (Inl AuthorityChanged, da)
     else if review_refused review then recover_ambiguity cr env anchor observation observation_digest da
     else
     then_with (digest_review cr review, da) (\<lambda>review_digest da.
     recover_reprepare cr env anchor approval
       \<lparr> dc_principal = prin, dc_plan = plan, dc_observation = observation, dc_review = review, dc_risk = risk,
         dc_risk_floor = risk_floor, dc_request_digest = anchor_request_digest anchor,
         dc_precondition_digest = precondition_digest, dc_observation_digest = observation_digest,
         dc_review_digest = review_digest, dc_protective = None \<rparr> da))))"

definition recover_observed ::
  "crypto \<Rightarrow> authority_env \<Rightarrow> string \<Rightarrow> recovery_anchor_view \<Rightarrow> recovery_approval \<Rightarrow> trusted_risk_floor option
     \<Rightarrow> reconciliation_plan \<Rightarrow> observation_envelope \<Rightarrow> durable_authority_control
     \<Rightarrow> (durable_authority_error + durable_recovery_outcome) \<times> durable_authority_control" where
  "recover_observed cr env prin anchor approval risk_floor plan observation da =
     then_with (from_observation_validation (envelope_validate observation (plan_provider plan)
       (plan_resource_id plan) (plan_observation_capability plan)), da) (\<lambda>_ da.
     then_with (digest_observation cr observation, da) (\<lambda>observation_digest da.
     case plan_status plan of
       NoChange \<Rightarrow> recover_intended cr env anchor plan observation observation_digest da
     | ChangeProposed \<Rightarrow>
         recover_change cr env prin anchor approval risk_floor plan observation observation_digest da
     | PlanBlocked \<Rightarrow> recover_ambiguity cr env anchor observation observation_digest da))"

definition recover_indeterminate_inner ::
  "crypto \<Rightarrow> authority_env \<Rightarrow> string \<Rightarrow> actor \<Rightarrow> plan_desired_state_request \<Rightarrow> recovery_approval
     \<Rightarrow> trusted_risk_floor option \<Rightarrow> durable_authority_control \<times> plan_preview_control
     \<Rightarrow> (durable_authority_error + durable_recovery_outcome) \<times> durable_authority_control \<times> plan_preview_control" where
  "recover_indeterminate_inner cr env prin actor request approval risk_floor s =
     then_with (anchor_of cr (au_store env 0) prin request (fst s), s) (\<lambda>(prin_id, anchor) s.
     then_with (ensure (snap_state (anchor_snapshot anchor) = TxIndeterminate) RecoveryNotIndeterminate, s) (\<lambda>_ s.
     then_with (matching_anchor cr prin_id request anchor, s) (\<lambda>_ (da, ctl).
     let protective = retained_protective_request prin request in
     if protective \<and> approval \<noteq> ObserveOnly then (Inl AuthorityChanged, da, ctl)
     else
     case (if protective then protective_recovery_candidate cr (au_preview env) prin actor request ctl
           else preview_authority_candidate cr (au_preview env) prin actor request ctl) of
       (Inl e, ctl) \<Rightarrow> (Inl (from_preview_error e), da, ctl)
     | (Inr (plan, observation), ctl) \<Rightarrow>
         (case recover_observed cr env prin anchor approval risk_floor plan observation da of
            (r, da) \<Rightarrow> (r, da, ctl)))))"

definition recover_indeterminate ::
  "crypto \<Rightarrow> authority_env \<Rightarrow> string \<Rightarrow> actor \<Rightarrow> plan_desired_state_request \<Rightarrow> approval_evidence_id option
     \<Rightarrow> durable_authority_control \<times> plan_preview_control
     \<Rightarrow> (durable_authority_error + durable_recovery_outcome) \<times> durable_authority_control \<times> plan_preview_control" where
  "recover_indeterminate cr env prin actor request approval_id s =
     recover_indeterminate_inner cr env prin actor request (ExistingApproval approval_id) None s"

definition recover_indeterminate_with_risk_floor ::
  "crypto \<Rightarrow> authority_env \<Rightarrow> string \<Rightarrow> actor \<Rightarrow> plan_desired_state_request \<Rightarrow> approval_evidence_id option
     \<Rightarrow> trusted_risk_floor \<Rightarrow> durable_authority_control \<times> plan_preview_control
     \<Rightarrow> (durable_authority_error + durable_recovery_outcome) \<times> durable_authority_control \<times> plan_preview_control" where
  "recover_indeterminate_with_risk_floor cr env prin actor request approval_id risk_floor s =
     recover_indeterminate_inner cr env prin actor request (ExistingApproval approval_id) (Some risk_floor) s"

definition recover_indeterminate_without_replay ::
  "crypto \<Rightarrow> authority_env \<Rightarrow> string \<Rightarrow> actor \<Rightarrow> plan_desired_state_request \<Rightarrow> trusted_risk_floor
     \<Rightarrow> durable_authority_control \<times> plan_preview_control
     \<Rightarrow> (durable_authority_error + durable_recovery_outcome) \<times> durable_authority_control \<times> plan_preview_control" where
  "recover_indeterminate_without_replay cr env prin actor request risk_floor s =
     recover_indeterminate_inner cr env prin actor request ObserveOnly (Some risk_floor) s"

definition recover_indeterminate_with_approver ::
  "crypto \<Rightarrow> authority_env \<Rightarrow> string \<Rightarrow> actor \<Rightarrow> plan_desired_state_request \<Rightarrow> fresh_recovery_approval
     \<Rightarrow> durable_authority_control \<times> plan_preview_control
     \<Rightarrow> (durable_authority_error + durable_recovery_outcome) \<times> durable_authority_control \<times> plan_preview_control" where
  "recover_indeterminate_with_approver cr env prin actor request approval s =
     recover_indeterminate_inner cr env prin actor request (OnDemandApproval approval) None s"

definition recover_indeterminate_with_approver_and_risk_floor ::
  "crypto \<Rightarrow> authority_env \<Rightarrow> string \<Rightarrow> actor \<Rightarrow> plan_desired_state_request \<Rightarrow> fresh_recovery_approval
     \<Rightarrow> trusted_risk_floor \<Rightarrow> durable_authority_control \<times> plan_preview_control
     \<Rightarrow> (durable_authority_error + durable_recovery_outcome) \<times> durable_authority_control \<times> plan_preview_control" where
  "recover_indeterminate_with_approver_and_risk_floor cr env prin actor request approval risk_floor s =
     recover_indeterminate_inner cr env prin actor request (OnDemandApproval approval) (Some risk_floor) s"

section \<open>Reads and commit\<close>

definition authority_snapshot ::
  "crypto \<Rightarrow> sqlite_env \<Rightarrow> durable_authority_control \<Rightarrow> transaction_id \<Rightarrow> durable_authority_error + transaction_snapshot" where
  "authority_snapshot cr env da i = map_err from_store_error (snapshot cr env (dac_transactions da) i)"

definition assert_request_matches ::
  "crypto \<Rightarrow> sqlite_env \<Rightarrow> durable_authority_control \<Rightarrow> string \<Rightarrow> plan_desired_state_request
     \<Rightarrow> durable_authority_error + unit" where
  "assert_request_matches cr env da prin request =
     and_then (anchor_of cr env prin request da) (\<lambda>(prin_id, anchor). matching_anchor cr prin_id request anchor)"

definition authority_integrity_check ::
  "crypto \<Rightarrow> sqlite_env \<Rightarrow> durable_authority_control \<Rightarrow> durable_authority_error + unit" where
  "authority_integrity_check cr env da = map_err from_store_error (integrity_check cr env (dac_transactions da))"

definition resume_verified ::
  "crypto \<Rightarrow> sqlite_env \<Rightarrow> durable_authority_control \<Rightarrow> string \<Rightarrow> transaction_id
     \<Rightarrow> durable_authority_error + verified_durable_authority" where
  "resume_verified cr env da prin i =
     and_then (map_err from_store_error (verified_commit_material cr env (dac_transactions da) i)) (\<lambda>material.
     if snap_state (material_snapshot material) \<noteq> TxVerified \<or> prin \<noteq> snap_principal (material_snapshot material)
     then Inl AuthorityChanged
     else Inr (verified_from_material material))"

definition commit_verified ::
  "crypto \<Rightarrow> authority_env \<Rightarrow> string \<Rightarrow> verified_durable_authority \<Rightarrow> durable_authority_control
     \<Rightarrow> (durable_authority_error + transaction_snapshot) \<times> durable_authority_control" where
  "commit_verified cr env prin verified da =
     (if prin \<noteq> vda_principal verified \<or> prin \<noteq> snap_principal (vda_snapshot verified)
         \<or> snap_state (vda_snapshot verified) \<noteq> TxVerified
      then (Inl AuthorityChanged, da)
      else
      then_with (map_err from_store_error (snapshot cr (au_store env 0) (dac_transactions da)
        (snap_transaction_id (vda_snapshot verified))), da) (\<lambda>durable da.
      if durable \<noteq> vda_snapshot verified then (Inl AuthorityChanged, da)
      else
      then_with (map_err from_validation_error (authorize_commit cr (dac_signer da) durable
        (vda_desired_state_digest verified) (vda_graph_digest verified) (vda_provenance_digest verified)), da)
        (\<lambda>request da. on_store (commit cr (au_store env 1) request) da)))"

section \<open>Bindings and candidates\<close>

lemma binding_kept:
  assumes "binding_try_new cr m = Inr b"
  shows "ab_principal b = ab_principal m" "ab_request_id b = ab_request_id m" "ab_resource b = ab_resource m"
    "ab_authorization b = ab_authorization m" "length (ab_canonical b) \<le> MAX_AUTHORITY_BINDING_BYTES"
    "ab_digest b = digest_bytes cr ''linura.authority-binding.digest.v1'' (ab_canonical b)"
    "ab_request_digest b = ab_request_digest m" "ab_precondition_digest b = ab_precondition_digest m"
    "ab_observation_digest b = ab_observation_digest m"
  using assms by (auto simp: binding_try_new_def Let_def result_simps binding_material.defs)

lemma candidate_fields:
  assumes "candidate_of cr prin plan ob d floor protective = Inr cand"
  shows "dc_principal cand = prin" "dc_plan cand = plan" "dc_observation cand = ob" "dc_request_digest cand = d"
    "dc_protective cand = protective" "dc_risk_floor cand = floor"
    "digest_plan_precondition cr plan = Inr (dc_precondition_digest cand)"
    "digest_observation cr ob = Inr (dc_observation_digest cand)"
  using assms by (auto simp: candidate_of_def Let_def result_simps split: if_splits)

text \<open>A candidate whose observation is still current is reviewed again to the same review.\<close>

lemma candidate_revalidates:
  assumes "candidate_of cr prin plan ob d floor None = Inr cand" "require_current ob now = Inr ()"
    "envelope_validate ob (plan_provider plan) (plan_resource_id plan) (plan_observation_capability plan) = Inr ()"
  shows "revalidated_review cr cand now None = Inr (dc_review cand)"
  using assms
  by (auto simp: candidate_of_def revalidated_review_def Let_def result_simps from_observation_validation_def
      split: if_splits)

end
