(* ===== verification/Authority_Example.thy ===== *)
theory Authority_Example
  imports Durable_Authority Approval_History Store_Example
begin

text \<open>
  A run of \<open>DurableAuthorityControl\<close> from observation to permit: a running unit is to be stopped, an administrator
  approves the candidate, the transaction is prepared and handed off. Digests and tags are constants, the store is the
  one of \<open>Store_Example\<close>. The candidate is evaluated once; the later steps use only what \<open>unit_candidate\<close> records.
\<close>

section \<open>The observation\<close>

definition unit_envelope :: observation_envelope where
  "unit_envelope = \<lparr> env_provider = ''systemd'', env_resource = ''systemd:unit:a'',
     env_capability = ''systemd.unit.observe'', env_authority = NativeApi,
     observed_at_unix_ms = 100, valid_for_ms = 10, env_sequence = 1,
     env_attributes = [(''active_state'', ObsText ''active'')] \<rparr>"

definition unit_observer :: observer where
  "unit_observer = \<lparr> observer_id = ''systemd'', observation_capabilities = (\<lambda>_. []),
     observer_health = (\<lambda>_. \<lparr> health_provider = ''systemd'', health_availability = Available, health_reason = None \<rparr>),
     requires_live_health_preflight = (\<lambda>_. True), supports_observation = (\<lambda>_ _. True),
     observe_authoritative = (\<lambda>_ _ _. Inr unit_envelope) \<rparr>"

definition unit_coordinator :: observation_coordinator where
  "unit_coordinator = \<lparr> oc_observers = [(''systemd'', unit_observer)], oc_graph = graph_default,
     oc_latest = [], oc_history = [], oc_last_seen = [], oc_max_evidence = 2, oc_max_resources = 1,
     oc_retention_order = 0 \<rparr>"

definition unit_preview_env :: preview_env where
  "unit_preview_env = \<lparr> pe_moment = (\<lambda>_. 0), pe_probe_clock = (\<lambda>_. SinceEpoch 105), pe_now = (\<lambda>_. SinceEpoch 105) \<rparr>"

definition unit_env :: authority_env where
  "unit_env = \<lparr> au_clock = (\<lambda>_. SinceEpoch 105), au_approval_clock = (\<lambda>_. Some 5),
     au_store = (\<lambda>_. demo_env\<lparr> env_now_ms := Some 106 \<rparr>), au_preview = unit_preview_env \<rparr>"

definition unit_stop :: plan_desired_state_request where
  "unit_stop = \<lparr> pdr_request_id = ''r'', pdr_provider = ''systemd'', pdr_resource = ''systemd:unit:a'',
     pdr_observation_capability = ''systemd.unit.observe'',
     pdr_reason = \<lparr> reason_summary = ''w'', reason_intent_ids = [''i''], reason_requirement_ids = [],
       reason_capability_ids = [] \<rparr>,
     pdr_desired_state = [(''active_state'', ''inactive'')] \<rparr>"

definition unit_actor :: actor where
  "unit_actor = \<lparr> actor_id = ''u'', actor_kind = Human, actor_interactive = True \<rparr>"

definition unit_approver :: policy_authenticated_approver where
  "unit_approver = \<lparr> approver_principal = ''p'', approver_kind = Human, approver_classes = {Administrator} \<rparr>"

definition unit_request :: observation_request where
  "unit_request = \<lparr> oreq_provider = ''systemd'', oreq_resource = ''systemd:unit:a'',
     oreq_capability = ''systemd.unit.observe'' \<rparr>"

definition unit_response :: observation_response where
  "unit_response = \<lparr> ores_observation = unit_envelope, ores_freshness = Current \<rparr>"

lemma unit_current: "require_current unit_envelope 105 = Inr ()"
  by (simp add: require_current_def freshness_at_def saturating_add_def unit_envelope_def)

lemma unit_valid: "envelope_validate unit_envelope ''systemd'' ''systemd:unit:a'' ''systemd.unit.observe'' = Inr ()"
  by (simp add: envelope_validate_def unit_envelope_def trim_is_empty_def has_control_def char_is_whitespace_def
      char_is_control_def)

lemma unit_observed:
  "observe_with_clock 0 (SinceEpoch 105) unit_request unit_coordinator
     = (Inr unit_response, snd (observe_with_clock 0 (SinceEpoch 105) unit_request unit_coordinator))"
proof -
  have "acquire_observation 0 (SinceEpoch 105) unit_coordinator unit_request = Inr unit_envelope"
    using unit_current unit_valid
    by (simp add: acquire_observation_def unit_request_def unit_coordinator_def unit_observer_def bt_get_def Let_def
        current_unix_ms_def)
  moreover have "fst (record_observation unit_envelope Current graph_default) = CurrentStateUpdated"
    by (simp add: record_observation_updates)
  ultimately show ?thesis
    by (simp add: observe_with_clock_def next_retention_order_def checked_add_def unit_coordinator_def Let_def
        case_prod_beta unit_response_def)
qed

lemma unit_probe:
  "probe unit_preview_env 0 ''systemd'' ''systemd.unit.observe'' ''systemd:unit:a'' unit_coordinator
     = (Inr unit_response, snd (observe_with_clock 0 (SinceEpoch 105) unit_request unit_coordinator))"
  using unit_observed by (simp add: probe_def unit_preview_env_def unit_request_def)

section \<open>The candidate\<close>

definition bound_material ::
  "durable_authority_candidate \<Rightarrow> authorization_basis \<Rightarrow> binding_material" where
  "bound_material cand basis = (let subject = review_subject (dc_review cand); b = ev_binding (tpr_evaluation (dc_review cand)) in
     \<lparr> ab_principal = dc_principal cand, ab_request_id = subj_request_id subject, ab_plan_id = subj_plan_id subject,
       ab_request_digest = dc_request_digest cand, ab_precondition_digest = dc_precondition_digest cand,
       ab_observation_digest = dc_observation_digest cand, ab_provider = subj_provider subject,
       ab_resource = subj_resource subject, ab_capability = subj_capability subject,
       ab_policy_id = rb_policy_id b, ab_policy_revision_id = rb_policy_revision_id b,
       ab_trusted_risk = rpv_risk (dc_risk cand), ab_risk_policy_revision = rpv_revision (dc_risk cand),
       ab_risk_rule_ids = rpv_rule_ids (dc_risk cand), ab_review_digest = dc_review_digest cand,
       ab_authorization = basis \<rparr>)"

definition unit_approval :: approval_authority where
  "unit_approval = \<lparr> aa_evidence_id = evidence_id_text 0, aa_request_id = ''q'', aa_approver = ''p'',
     aa_approval_class = approval_class_name Administrator, aa_issued_at = 1, aa_expires_at = 60 \<rparr>"

lemma unit_candidate_facts:
  "case plan_resource ''r'' unit_actor (input_desired_resource unit_stop) (planning_observation_of unit_response) of
     Inl _ \<Rightarrow> False
   | Inr plan \<Rightarrow>
       (case candidate_of demo_crypto ''p'' (add_findings [] plan) unit_envelope demo_digest None None of
          Inl _ \<Rightarrow> False
        | Inr cand \<Rightarrow> (case review_decision (dc_review cand) of RequireApproval cl _ \<Rightarrow> cl = Administrator | _ \<Rightarrow> False)
            \<and> record_accounted_bytes ''q'' (dc_review cand) unit_approver \<le> 4096
            \<and> is_ok (binding_try_new demo_crypto (bound_material cand (ApprovalBasis unit_approval)))
            \<and> subj_request_id (review_subject (dc_review cand)) = ''r'')"
  by code_simp

lemma canonical_demo: "canonical_digest demo_crypto domain parts = Inr d \<Longrightarrow> d = demo_digest"
  using canonical_digest_ok [of demo_crypto domain parts d] demo_digest_parts [of domain parts] by (simp add: digest_parts_def)

lemma unit_request_digest: "digest_request demo_crypto unit_stop = Inr demo_digest"
  by code_simp

definition unit_control :: plan_preview_control where
  "unit_control = plan_preview_control_new unit_coordinator"

definition unit_basis :: authorization_basis where
  "unit_basis = ApprovalBasis unit_approval"

text \<open>What the run uses of its candidate.\<close>

definition unit_candidate :: "durable_authority_candidate \<Rightarrow> bool" where
  "unit_candidate cand \<longleftrightarrow> (\<exists>ctl plan reason.
     candidate_inner demo_crypto unit_preview_env ''p'' unit_actor unit_stop None None unit_control = (Inr cand, ctl)
     \<and> candidate_of demo_crypto ''p'' plan unit_envelope demo_digest None None = Inr cand
     \<and> envelope_validate unit_envelope (plan_provider plan) (plan_resource_id plan) (plan_observation_capability plan)
         = Inr ()
     \<and> review_decision (dc_review cand) = RequireApproval Administrator reason
     \<and> record_accounted_bytes ''q'' (dc_review cand) unit_approver \<le> 4096
     \<and> is_ok (binding_try_new demo_crypto (bound_material cand unit_basis))
     \<and> subj_request_id (review_subject (dc_review cand)) = ''r'')"

lemma unit_candidate_exists: "\<exists>cand. unit_candidate cand"
proof -
  let ?c = "snd (observe_with_clock 0 (SinceEpoch 105) unit_request unit_coordinator)"
  let ?input = "\<lparr> npi_principal = ''p'', npi_request = unit_stop \<rparr>"
  from unit_candidate_facts obtain plan cand reason where p: "plan_resource ''r'' unit_actor
      (input_desired_resource unit_stop) (planning_observation_of unit_response) = Inr plan"
      "candidate_of demo_crypto ''p'' (add_findings [] plan) unit_envelope demo_digest None None = Inr cand"
      "review_decision (dc_review cand) = RequireApproval Administrator reason"
      "record_accounted_bytes ''q'' (dc_review cand) unit_approver \<le> 4096"
      "is_ok (binding_try_new demo_crypto (bound_material cand unit_basis))"
      "subj_request_id (review_subject (dc_review cand)) = ''r''"
    by (auto simp: unit_basis_def split: sum.splits policy_decision.splits)
  have "build_fresh_plan demo_crypto unit_preview_env ?input unit_actor unit_coordinator
      = (Inr (add_findings [] plan, unit_envelope), ?c)"
    using p(1) unit_probe
    by (simp add: build_fresh_plan_def build_fresh_plan_with_context_def validate_session_lock_facts_def
        session_power_plan_facts_def unit_stop_def unit_response_def MANAGED_SESSION_TRANSITION_PROVIDER_def Let_def)
  moreover have "normalized_plan_input_new ''p'' unit_stop = Inr ?input" by code_simp
  ultimately have "candidate_inner demo_crypto unit_preview_env ''p'' unit_actor unit_stop None None unit_control
      = (Inr cand, unit_control\<lparr> ppc_coordinator := ?c \<rparr>)"
    using p(2)
    by (simp add: candidate_inner_def unit_request_digest preview_authority_candidate_def unit_control_def
        plan_preview_control_new_def on_coordinator_def)
  moreover have "plan_provider plan = ''systemd''" "plan_resource_id plan = ''systemd:unit:a''"
      "plan_observation_capability plan = ''systemd.unit.observe''"
    using plan_resource_ok(14-16) [OF p(1)] by (simp_all add: input_desired_resource_def unit_stop_def)
  ultimately show ?thesis using p unit_valid unfolding unit_candidate_def
    by (auto simp: add_findings_def)
qed

definition unit_evidence :: "trusted_policy_review \<Rightarrow> policy_approval_evidence" where
  "unit_evidence review = \<lparr> ae_id = evidence_id_text 0, ae_request_id = ''q'',
     ae_requirement = \<lparr> areq_class = Administrator, areq_binding = tpr_evaluation review \<rparr>,
     ae_approver = ''p'', ae_issued_at = 1, ae_expires_at = 60 \<rparr>"

definition unit_approvals :: "trusted_policy_review \<Rightarrow> approval_review_control" where
  "unit_approvals review = (let n = record_accounted_bytes ''q'' review unit_approver in
     \<lparr> arc_last_authority = 1, arc_records = [(evidence_id_text 0, \<lparr> arec_evidence = unit_evidence review,
         arec_revocation = None, arec_accounted_bytes = n \<rparr>)], arc_requests = [(''q'', evidence_id_text 0)],
       arc_tombstones = [], arc_next_evidence_sequence = 1, arc_total_accounted_bytes = n,
       arc_tombstone_accounted_bytes = 0 \<rparr>)"

lemma unit_evidence_id: "typed_id_new ''approval evidence id'' (evidence_id_text 0) = Inr (evidence_id_text 0)"
  by code_simp

lemma unit_window: "\<not> (60 :: u64) \<le> 1"
  by (simp add: word_le_nat_alt)

lemma unit_issued:
  assumes "review_decision review = RequireApproval Administrator reason"
    "record_accounted_bytes ''q'' review unit_approver \<le> 4096"
  shows "issue (Some 1) ''q'' review unit_approver 60 approval_control_new = (Inr (unit_evidence review), unit_approvals review)"
  using assms unit_evidence_id unit_window
  by (simp add: issue_def issue_at_def issue_new_def approval_control_new_def Let_def
      unit_approvals_def unit_evidence_def reclaim_inactive_def reclaim_candidates_def prune_tombstones_def
      required_approval_class_def checked_add_def usize_checked_add_def can_satisfy_def unit_approver_def
      authority_now_unix_seconds_def bt_get_def bt_contains_def try_issue_def approval_requirement_from_review_def
      MAX_APPROVAL_ENTRIES_def MAX_APPROVAL_ENTRY_BYTES_def MAX_APPROVAL_TOTAL_BYTES_def MAX_APPROVAL_TTL_SECONDS_def)

text \<open>The control before and after the approval, and after preparation.\<close>

definition unit_start :: durable_authority_control where
  "unit_start = \<lparr> dac_approvals = approval_control_new, dac_transactions = demo_store, dac_signer = [],
     dac_last_authority_unix_ms = 0 \<rparr>"

lemma unit_new: "authority_control_new demo_crypto unit_env demo_store [] = (Inr (), unit_start)"
  by (simp add: authority_control_new_def abort_prepared_after_restart_def unit_start_def list_state_def
      list_transaction_ids_def demo_store_def unit_env_def sql_def demo_env_def rows_of_def)

lemma unit_class: "tx_validate_token ''approval class'' ''administrator'' 256 = Inr ()"
  by code_simp

lemma unit_authorized:
  assumes "review_decision review = RequireApproval Administrator reason" "n \<le> 5"
    "dac_approvals da = (unit_approvals review)\<lparr> arc_last_authority := n \<rparr>"
  shows "authorization_of unit_env review (Some (evidence_id_text 0)) da
    = (Inr unit_basis, da\<lparr> dac_approvals := (unit_approvals review)\<lparr> arc_last_authority := 5 \<rparr> \<rparr>)"
  using assms unit_window unit_class
  by (simp add: authorization_of_def on_approvals_def validate_def validate_at_def authority_now_unix_seconds_def
      unit_env_def unit_approvals_def Let_def bt_get_def validate_policy_approval_def validate_approval_def
      required_approval_class_def unit_evidence_def get_evidence_def approval_authority_try_new_def unit_basis_def
      unit_approval_def approval_requirement_from_review_def max_def leD)

lemma unit_bound:
  assumes "unit_candidate cand" "n \<le> 5" "dac_approvals da = (unit_approvals (dc_review cand))\<lparr> arc_last_authority := n \<rparr>"
    "binding_try_new demo_crypto (bound_material cand unit_basis) = Inr b"
  shows "revalidate_and_bind demo_crypto unit_env cand (Some (evidence_id_text 0)) 105 None da
    = (Inr b, da\<lparr> dac_approvals := (unit_approvals (dc_review cand))\<lparr> arc_last_authority := 5 \<rparr> \<rparr>)"
proof -
  from assms(1) obtain plan reason where c: "candidate_of demo_crypto ''p'' plan unit_envelope demo_digest None None = Inr cand"
      "envelope_validate unit_envelope (plan_provider plan) (plan_resource_id plan) (plan_observation_capability plan)
         = Inr ()" "review_decision (dc_review cand) = RequireApproval Administrator reason"
    by (auto simp: unit_candidate_def)
  show ?thesis
    using candidate_revalidates [OF c(1) unit_current c(2)] unit_authorized [OF c(3) assms(2,3)]
      candidate_fields(1) [OF c(1)] assms(4)
    by (simp add: revalidate_and_bind_def demo_names bound_material_def Let_def)
qed

definition with_canonical :: "bytes \<Rightarrow> sqlite_store \<Rightarrow> sqlite_store" where
  "with_canonical bs s = s\<lparr> ss_db := (ss_db s)\<lparr> db_generations :=
     map (\<lambda>(k, g). (k, g\<lparr> sg_binding_canonical := bs \<rparr>)) (db_generations (ss_db s)) \<rparr> \<rparr>"

definition unit_snapshot :: transaction_snapshot where
  "unit_snapshot = \<lparr> snap_transaction_id = demo_id, snap_principal = ''p'', snap_request_id = ''r'',
     snap_current_generation = 0, snap_state_version = 1, snap_state = TxPrepared, snap_binding_digest = demo_digest \<rparr>"

definition unit_binding :: "authority_binding \<Rightarrow> bool" where
  "unit_binding b \<longleftrightarrow> ab_principal b = ''p'' \<and> ab_request_id b = ''r'' \<and> ab_digest b = demo_digest
     \<and> ab_request_digest b = demo_digest \<and> ab_precondition_digest b = demo_digest
     \<and> ab_observation_digest b = demo_digest \<and> length (ab_canonical b) \<le> MAX_AUTHORITY_BINDING_BYTES
     \<and> ab_authorization b = unit_basis"

lemma unit_binding_ok:
  assumes "unit_candidate cand" "binding_try_new demo_crypto (bound_material cand unit_basis) = Inr b"
  shows "unit_binding b"
proof -
  from assms(1) obtain plan where c: "candidate_of demo_crypto ''p'' plan unit_envelope demo_digest None None = Inr cand"
      "subj_request_id (review_subject (dc_review cand)) = ''r''"
    by (auto simp: unit_candidate_def)
  note f = candidate_fields [OF c(1)]
  have "dc_precondition_digest cand = demo_digest" "dc_observation_digest cand = demo_digest"
    using f(7,8) by (auto simp: digest_plan_precondition_def digest_observation_def intro: canonical_demo)
  then show ?thesis using binding_kept [OF assms(2)] f c(2)
    by (simp add: unit_binding_def bound_material_def Let_def digest_bytes_def demo_digest_parts)
qed

abbreviation store_env :: sqlite_env where
  "store_env \<equiv> demo_env\<lparr> env_now_ms := Some 106 \<rparr>"

lemma unit_env_store: "au_store unit_env k = store_env"
  by (simp add: unit_env_def)

lemma unit_store_prepared:
  assumes "unit_binding b"
  shows "prepare demo_crypto store_env b demo_store = (Inr (PrepareCreated unit_snapshot),
    with_canonical (ab_canonical b) (demo_state 1 ''prepared'' None [''prepared''] [(0, 8192)]))"
  using assms
  by (simp add: unit_binding_def unit_snapshot_def with_canonical_def demo_eval upt_small)

lemma unit_store_snapshot:
  assumes "unit_binding b"
  shows "snapshot demo_crypto store_env
    (with_canonical (ab_canonical b) (demo_state 1 ''prepared'' None [''prepared''] [(0, 8192)])) demo_id = Inr unit_snapshot"
  using assms
  by (simp add: unit_binding_def unit_snapshot_def with_canonical_def snapshot_def demo_eval)

definition unit_handoff :: handoff_request where
  "unit_handoff = demo_handoff\<lparr> hr_authorized_at := 105, hr_expires_at := 110 \<rparr>"

definition unit_commit :: handoff_commit where
  "unit_commit = \<lparr> hc_transaction_id = demo_id, hc_generation = 0, hc_state_version = 2, hc_binding_digest = demo_digest,
     hc_authority_use_digest = demo_digest \<rparr>"

lemma unit_store_handed_off:
  assumes "unit_binding b"
  shows "handoff demo_crypto store_env unit_handoff
    (with_canonical (ab_canonical b) (demo_state 1 ''prepared'' None [''prepared''] [(0, 8192)]))
    = (Inr unit_commit, with_canonical (ab_canonical b)
        (demo_state 2 ''indeterminate'' None [''prepared'', ''handoff-indeterminate''] [(0, 8192)]))"
  using assms
  by (simp add: unit_binding_def unit_commit_def unit_handoff_def with_canonical_def demo_eval upt_small)

lemma unit_sealed: "authorize_handoff demo_crypto [] unit_snapshot demo_digest 105 110 = Inr unit_handoff"
  by (simp add: authorize_handoff_def unit_snapshot_def unit_handoff_def demo_handoff_def authority_tag_def
      demo_crypto_def demo_not_zero Let_def)

lemma unit_use_digest: "digest_authority_use demo_crypto unit_snapshot 105 = Inr demo_digest"
  by code_simp

lemma unit_expiry:
  assumes "unit_binding b"
  shows "authority_expires_at_unix_ms unit_envelope b = Inr 110"
  using assms
  by (simp add: authority_expires_at_unix_ms_def unit_binding_def unit_basis_def unit_approval_def
      observation_expires_at_unix_ms_def exclusive_seconds_to_last_valid_unix_ms_def unit_envelope_def
      checked_add_def checked_mul_def checked_sub_def)

text \<open>The run: an approval, preparation, and handoff.\<close>

definition unit_approved :: "durable_authority_candidate \<Rightarrow> durable_authority_control" where
  "unit_approved cand = unit_start\<lparr> dac_approvals := unit_approvals (dc_review cand) \<rparr>"

definition unit_prepared :: "durable_authority_candidate \<Rightarrow> authority_binding \<Rightarrow> prepared_durable_authority" where
  "unit_prepared cand b = \<lparr> pda_candidate = cand, pda_binding = b, pda_snapshot = unit_snapshot,
     pda_approval_evidence_id = Some (evidence_id_text 0), pda_handed_off = False \<rparr>"

definition unit_after_prepare :: "durable_authority_candidate \<Rightarrow> authority_binding \<Rightarrow> durable_authority_control" where
  "unit_after_prepare cand b = \<lparr> dac_approvals = (unit_approvals (dc_review cand))\<lparr> arc_last_authority := 5 \<rparr>,
     dac_transactions = with_canonical (ab_canonical b) (demo_state 1 ''prepared'' None [''prepared''] [(0, 8192)]),
     dac_signer = [], dac_last_authority_unix_ms = 105 \<rparr>"

lemma unit_now:
  assumes "dac_last_authority_unix_ms da \<le> 105"
  shows "authority_now_unix_ms unit_env k da = (Inr 105, da\<lparr> dac_last_authority_unix_ms := 105 \<rparr>)"
  using assms by (simp add: authority_now_unix_ms_def unit_env_def Let_def leD)

lemma unit_approve:
  assumes "unit_candidate cand"
  shows "issue_approval (Some 1) ''q'' cand unit_approver 60 unit_start
    = (Inr (unit_evidence (dc_review cand)), unit_approved cand)"
  using assms unit_issued
  by (auto simp: unit_candidate_def issue_approval_def on_approvals_def unit_start_def unit_approved_def)

lemma unit_prepare:
  assumes "unit_candidate cand" "binding_try_new demo_crypto (bound_material cand unit_basis) = Inr b"
  shows "authority_prepare demo_crypto unit_env cand (Some (evidence_id_text 0)) (unit_approved cand)
    = (Inr (unit_prepared cand b), unit_after_prepare cand b)"
proof -
  note b = unit_binding_ok [OF assms]
  have now: "authority_now_unix_ms unit_env 0 (unit_approved cand)
      = (Inr 105, (unit_approved cand)\<lparr> dac_last_authority_unix_ms := 105 \<rparr>)"
    by (rule unit_now) (simp add: unit_approved_def unit_start_def)
  have bound: "revalidate_and_bind demo_crypto unit_env cand (Some (evidence_id_text 0)) 105 None
      ((unit_approved cand)\<lparr> dac_last_authority_unix_ms := 105 \<rparr>)
      = (Inr b, (unit_approved cand)\<lparr> dac_last_authority_unix_ms := 105,
          dac_approvals := (unit_approvals (dc_review cand))\<lparr> arc_last_authority := 5 \<rparr> \<rparr>)"
    using unit_bound [OF assms(1) _ _ assms(2), of 1]
    by (simp add: unit_approved_def unit_approvals_def Let_def)
  have "dac_transactions (unit_approved cand) = demo_store" by (simp add: unit_approved_def unit_start_def)
  moreover have "snap_binding_digest unit_snapshot = ab_digest b" "snap_principal unit_snapshot = ab_principal b"
      "snap_request_id unit_snapshot = ab_request_id b" using b by (simp_all add: unit_binding_def unit_snapshot_def)
  moreover have "(unit_approved cand)\<lparr> dac_last_authority_unix_ms := 105,
      dac_approvals := (unit_approvals (dc_review cand))\<lparr> arc_last_authority := 5 \<rparr>,
      dac_transactions := with_canonical (ab_canonical b) (demo_state 1 ''prepared'' None [''prepared''] [(0, 8192)]) \<rparr>
      = unit_after_prepare cand b"
    by (simp add: unit_approved_def unit_start_def unit_after_prepare_def)
  ultimately show ?thesis using unit_store_prepared [OF b]
    by (simp add: authority_prepare_def prepare_inner_def now bound on_store_def unit_env_store unit_prepared_def Let_def)
qed

lemma unit_hand_off:
  assumes "unit_candidate cand" "binding_try_new demo_crypto (bound_material cand unit_basis) = Inr b"
  shows "\<exists>da. authority_handoff demo_crypto unit_env ''p'' (unit_prepared cand b) (unit_after_prepare cand b)
    = (Inr (permit_from_commit unit_commit), (unit_prepared cand b)\<lparr> pda_handed_off := True \<rparr>, da)"
proof -
  note b = unit_binding_ok [OF assms]
  let ?da = "unit_after_prepare cand b"
  have da: "?da\<lparr> dac_last_authority_unix_ms := 105 \<rparr> = ?da"
      "?da\<lparr> dac_approvals := (unit_approvals (dc_review cand))\<lparr> arc_last_authority := 5 \<rparr> \<rparr> = ?da"
      "dac_signer ?da = []"
    by (simp_all add: unit_after_prepare_def)
  have now: "authority_now_unix_ms unit_env 0 ?da = (Inr 105, ?da)"
    using unit_now [of ?da 0] by (simp add: da) (simp add: unit_after_prepare_def)
  have bound: "revalidate_and_bind demo_crypto unit_env cand (Some (evidence_id_text 0)) 105 None ?da = (Inr b, ?da)"
    using unit_bound [OF assms(1) _ _ assms(2), of 5 ?da] unfolding da(2) by (simp add: unit_after_prepare_def)
  have cand: "dc_principal cand = ''p''" "dc_observation cand = unit_envelope"
    using assms(1) candidate_fields(1,3) by (auto simp: unit_candidate_def)
  have snap: "snapshot demo_crypto store_env (dac_transactions ?da) demo_id = Inr unit_snapshot"
    using unit_store_snapshot [OF b] by (simp add: unit_after_prepare_def)
  obtain st where st: "handoff demo_crypto store_env unit_handoff (dac_transactions ?da) = (Inr unit_commit, st)"
    using unit_store_handed_off [OF b] by (simp add: unit_after_prepare_def)
  have p: "ab_principal b = ''p''" "snap_principal unit_snapshot = ''p''" "snap_transaction_id unit_snapshot = demo_id"
    using b by (simp_all add: unit_binding_def unit_snapshot_def)
  have "handoff_inner demo_crypto unit_env ''p'' (unit_prepared cand b) None ?da
      = (Inr (permit_from_commit unit_commit), ?da\<lparr> dac_transactions := st \<rparr>)"
    using unit_expiry [OF b]
    by (simp add: handoff_inner_def unit_prepared_def cand p now bound snap st da(3) unit_use_digest unit_sealed
        on_store_def unit_env_store)
  then show ?thesis by (simp add: authority_handoff_def mark_handed_off_def)
qed

end
