(* ===== verification/Authority_History.thy ===== *)
theory Authority_History
  imports Authority_Example
begin

text \<open>
  Histories of the durable authority control. A dispatch permit goes back to a plan that proposes a change, to
  evidence that is current, and to a human approval of exactly that review which was not withdrawn.
\<close>

datatype authority_op =
    OpCandidate preview_env string actor plan_desired_state_request "trusted_risk_floor option"
      "protective_lock_context option"
  | OpIssue "u64 option" approval_request_id durable_authority_candidate policy_authenticated_approver u64
  | OpRevoke "u64 option" approval_evidence_id policy_authenticated_approver
  | OpPrepare authority_env durable_authority_candidate "approval_evidence_id option"
  | OpPrepareProtective authority_env durable_authority_candidate "nat \<Rightarrow> settings_answers"
  | OpHandoff authority_env string prepared_durable_authority
  | OpHandoffProtective authority_env string prepared_durable_authority "nat \<Rightarrow> settings_answers"
  | OpRecover authority_env string actor plan_desired_state_request recovery_approval "trusted_risk_floor option"
  | OpCommit authority_env string verified_durable_authority

type_synonym authority_state = "durable_authority_control \<times> plan_preview_control"

fun authority_step :: "crypto \<Rightarrow> authority_op \<Rightarrow> authority_state \<Rightarrow> authority_state" where
  "authority_step cr (OpCandidate env prin actor request risk_floor protective) (da, ctl) =
     (da, snd (candidate_inner cr env prin actor request risk_floor protective ctl))"
| "authority_step cr (OpIssue clock q cand approver expires) (da, ctl) =
     (snd (issue_approval clock q cand approver expires da), ctl)"
| "authority_step cr (OpRevoke clock e revoker) (da, ctl) = (snd (revoke_approval clock e revoker da), ctl)"
| "authority_step cr (OpPrepare env cand approval_id) (da, ctl) = (snd (authority_prepare cr env cand approval_id da), ctl)"
| "authority_step cr (OpPrepareProtective env cand settings) s = snd (prepare_protective cr env cand settings s)"
| "authority_step cr (OpHandoff env prin prepared) (da, ctl) =
     (snd (snd (authority_handoff cr env prin prepared da)), ctl)"
| "authority_step cr (OpHandoffProtective env prin prepared settings) s =
     snd (snd (handoff_protective cr env prin prepared settings s))"
| "authority_step cr (OpRecover env prin actor request approval risk_floor) s =
     snd (recover_indeterminate_inner cr env prin actor request approval risk_floor s)"
| "authority_step cr (OpCommit env prin verified) (da, ctl) = (snd (commit_verified cr env prin verified da), ctl)"

definition authority_run :: "crypto \<Rightarrow> authority_state \<Rightarrow> authority_op list \<Rightarrow> authority_state" where
  "authority_run cr s ops = foldl (\<lambda>s x. authority_step cr x s) s ops"

abbreviation approvals_of :: "authority_state \<Rightarrow> approval_review_control" where
  "approvals_of s \<equiv> dac_approvals (fst s)"

text \<open>The call on the approval store an operation is there to make; a recovery makes one for the review it derives.\<close>

fun approval_call :: "authority_op \<Rightarrow> trusted_policy_review \<Rightarrow> approval_op option" where
  "approval_call (OpIssue clock q cand approver expires) review =
     Some (IssueOp clock q (dc_review cand) approver expires)"
| "approval_call (OpRevoke clock e revoker) review = Some (RevokeOp clock e revoker)"
| "approval_call (OpRecover env prin actor request (OnDemandApproval f) risk_floor) review =
     Some (IssueOp (au_approval_clock env 1) (fra_request_id f) review (fra_approver f) (fra_expires_at f))"
| "approval_call _ review = None"

definition records_kept :: "approval_review_control \<Rightarrow> approval_review_control \<Rightarrow> bool" where
  "records_kept c c' \<longleftrightarrow> arc_records c' = arc_records c \<and> (approval_inv c \<longrightarrow> approval_inv c')"

section \<open>What the operations do to the approval store\<close>

lemma records_kept_refl [simp]: "records_kept c c"
  by (simp add: records_kept_def)

lemma records_kept_trans: "records_kept a b \<Longrightarrow> records_kept b c \<Longrightarrow> records_kept a c"
  by (simp add: records_kept_def)

lemma validate_kept: "records_kept c (snd (validate clock e review c))"
proof -
  obtain a c1 where a: "authority_now_unix_seconds clock c = (a, c1)" by fastforce
  have v: "snd (validate clock e review c) = c1" using a by (simp add: validate_def split: sum.splits)
  have "arc_records c1 = arc_records c" by (subst authority_now_frame(1) [OF a]) simp
  with v validate_step [of c c1 clock e review] show ?thesis by (simp add: records_kept_def)
qed

lemma authority_now_approvals [simp]: "dac_approvals (snd (authority_now_unix_ms env n da)) = dac_approvals da"
  by (simp add: authority_now_unix_ms_def Let_def split: system_time.splits)

lemma on_store_approvals [simp]: "dac_approvals (snd (on_store f da)) = dac_approvals da"
  by (simp add: on_store_def split: prod.splits)

lemma on_approvals_approvals [simp]: "dac_approvals (snd (on_approvals f da)) = snd (f (dac_approvals da))"
  by (simp add: on_approvals_def split: prod.splits)

named_theorems kept

lemma kept_then [kept]:
  assumes "records_kept c (dac_approvals (snd r))"
    "\<And>a da. records_kept c (dac_approvals da) \<Longrightarrow> records_kept c (dac_approvals (snd (f a da)))"
  shows "records_kept c (dac_approvals (snd (then_with r f)))"
  using assms by (rule then_with_state [where P = "\<lambda>da. records_kept c (dac_approvals da)"])

lemma validate_kept_after [kept]: "records_kept c d \<Longrightarrow> records_kept c (snd (validate clock e review d))"
  using records_kept_trans validate_kept by blast

lemma now_current_kept [kept]:
  "records_kept c (dac_approvals da) \<Longrightarrow> records_kept c (dac_approvals (snd (authority_now_current env n ob da)))"
  unfolding authority_now_current_def by (intro kept) simp_all

lemma authorization_kept [kept]:
  "records_kept c (dac_approvals da) \<Longrightarrow> records_kept c (dac_approvals (snd (authorization_of env review i da)))"
  unfolding authorization_of_def
  by (auto split: policy_decision.splits intro!: kept)

lemma revalidate_kept [kept]:
  "records_kept c (dac_approvals da)
     \<Longrightarrow> records_kept c (dac_approvals (snd (revalidate_and_bind cr env cand i now settings da)))"
  unfolding revalidate_and_bind_def Let_def by (intro kept) simp_all

lemma prepare_kept [kept]:
  "records_kept c (dac_approvals da)
     \<Longrightarrow> records_kept c (dac_approvals (snd (prepare_inner cr env cand i settings da)))"
  unfolding prepare_inner_def Let_def by (intro kept) (simp_all split: if_splits)

lemma handoff_kept [kept]:
  "records_kept c (dac_approvals da)
     \<Longrightarrow> records_kept c (dac_approvals (snd (handoff_inner cr env prin prepared settings da)))"
  unfolding handoff_inner_def by (auto intro!: kept)

lemma sign_kept [kept]:
  "records_kept c (dac_approvals da)
     \<Longrightarrow> records_kept c (dac_approvals (snd (sign_and_recover cr env anchor resolution at expires da)))"
  unfolding sign_and_recover_def by (intro kept) simp_all

lemma branches_kept [kept]:
  "records_kept c (dac_approvals da)
     \<Longrightarrow> records_kept c (dac_approvals (snd (recover_ambiguity cr env anchor ob d da)))"
  "records_kept c (dac_approvals da)
     \<Longrightarrow> records_kept c (dac_approvals (snd (recover_conflict cr env anchor ob d da)))"
  "records_kept c (dac_approvals da)
     \<Longrightarrow> records_kept c (dac_approvals (snd (recover_intended cr env anchor plan ob d da)))"
  unfolding recover_ambiguity_def recover_conflict_def recover_intended_def Let_def case_prod_beta
  by (auto intro!: kept split: recovery_outcome.splits)

lemma commit_kept [kept]:
  "records_kept c (dac_approvals da)
     \<Longrightarrow> records_kept c (dac_approvals (snd (commit_verified cr env prin verified da)))"
  unfolding commit_verified_def by (auto intro!: kept)

text \<open>A recovery that prepares again may first issue the approval it was given.\<close>

lemma reprepare_approvals:
  "records_kept (dac_approvals da) (dac_approvals (snd (recover_reprepare cr env anchor approval cand da)))
   \<or> (\<exists>f. approval = OnDemandApproval f \<and>
        records_kept (snd (issue (au_approval_clock env 1) (fra_request_id f) (dc_review cand) (fra_approver f)
            (fra_expires_at f) (dac_approvals da)))
          (dac_approvals (snd (recover_reprepare cr env anchor approval cand da))))"
proof -
  have tail: "records_kept c (dac_approvals (snd (recover_reprepare cr env anchor approval cand da)))"
    if "records_kept c (dac_approvals (snd (recovery_evidence_id env approval cand da)))" for c
    unfolding recover_reprepare_def using that by (intro kept) simp_all
  show ?thesis
  proof (cases "\<exists>f cl reason. approval = OnDemandApproval f \<and> review_decision (dc_review cand) = RequireApproval cl reason")
    case True
    then obtain f cl reason where f: "approval = OnDemandApproval f"
        "review_decision (dc_review cand) = RequireApproval cl reason" by blast
    have "records_kept (snd (issue (au_approval_clock env 1) (fra_request_id f) (dc_review cand) (fra_approver f)
        (fra_expires_at f) (dac_approvals da))) (dac_approvals (snd (recovery_evidence_id env approval cand da)))"
      unfolding recovery_evidence_id_def f by (auto simp: f issue_approval_def intro!: kept)
    from tail [OF this] f(1) show ?thesis by blast
  next
    case False
    then have "dac_approvals (snd (recovery_evidence_id env approval cand da)) = dac_approvals da"
      by (auto simp: recovery_evidence_id_def split: recovery_approval.splits policy_decision.splits)
    with tail [of "dac_approvals da"] show ?thesis by simp
  qed
qed

definition recovery_effect ::
  "authority_env \<Rightarrow> recovery_approval \<Rightarrow> approval_review_control \<Rightarrow> approval_review_control \<Rightarrow> bool" where
  "recovery_effect env approval c c' \<longleftrightarrow> records_kept c c' \<or> (\<exists>f review. approval = OnDemandApproval f \<and>
     records_kept (snd (issue (au_approval_clock env 1) (fra_request_id f) review (fra_approver f)
       (fra_expires_at f) c)) c')"

lemma effect_kept: "records_kept c c' \<Longrightarrow> recovery_effect env approval c c'"
  by (simp add: recovery_effect_def)

lemma reprepare_effect:
  "recovery_effect env approval (dac_approvals da)
     (dac_approvals (snd (recover_reprepare cr env anchor approval cand da)))"
  using reprepare_approvals [of da cr env anchor approval cand] unfolding recovery_effect_def by blast

lemma change_effect:
  "recovery_effect env approval (dac_approvals da)
     (dac_approvals (snd (recover_change cr env prin anchor approval risk_floor plan ob d da)))"
  unfolding recover_change_def Let_def then_with_def
  by (auto split: sum.splits intro!: reprepare_effect effect_kept branches_kept)

lemma observed_effect:
  "recovery_effect env approval (dac_approvals da)
     (dac_approvals (snd (recover_observed cr env prin anchor approval risk_floor plan ob da)))"
  unfolding recover_observed_def then_with_def
  by (auto split: sum.splits plan_status.splits intro!: effect_kept branches_kept change_effect)

lemma recovery_step_effect:
  "recovery_effect env approval (dac_approvals da)
     (dac_approvals (fst (snd (recover_indeterminate_inner cr env prin actor request approval risk_floor (da, ctl)))))"
proof -
  have obs: "recovery_effect env a (dac_approvals da) (dac_approvals da')"
    if "recover_observed cr env prin anchor a risk_floor plan ob da = (r, da')" for a anchor plan ob r da'
    using observed_effect [of env a da cr prin anchor risk_floor plan ob] that by simp
  show ?thesis
    unfolding recover_indeterminate_inner_def Let_def then_with_def
    by (auto split: sum.splits prod.splits if_splits intro: obs effect_kept)
qed

text \<open>Each operation leaves the approval records as they were, or makes its one call on the store.\<close>

lemma authority_step_approvals:
  obtains (none) "records_kept (approvals_of s) (approvals_of (authority_step cr x s))"
      "\<And>t e revoker. x \<noteq> OpRevoke t e revoker"
  | (call) review y where "approval_call x review = Some y"
      "records_kept (approval_step y (approvals_of s)) (approvals_of (authority_step cr x s))"
proof -
  obtain da ctl where s: "s = (da, ctl)" by (cases s)
  show thesis
  proof (cases x)
    case (OpIssue clock q cand approver expires)
    then show thesis using call [of undefined "IssueOp clock q (dc_review cand) approver expires"]
      by (simp add: s issue_approval_def)
  next
    case (OpRevoke clock e revoker)
    then show thesis using call [of undefined "RevokeOp clock e revoker"] by (simp add: s revoke_approval_def)
  next
    case (OpRecover env prin actor request approval risk_floor)
    from recovery_step_effect [of env approval da cr prin actor request risk_floor ctl]
    consider (a) "records_kept (approvals_of s) (approvals_of (authority_step cr x s))"
      | (b) f review where "approval = OnDemandApproval f"
          "records_kept (snd (issue (au_approval_clock env 1) (fra_request_id f) review (fra_approver f)
             (fra_expires_at f) (approvals_of s))) (approvals_of (authority_step cr x s))"
      unfolding recovery_effect_def s OpRecover by auto
    then show thesis
    proof cases
      case a
      then show ?thesis using none OpRecover by simp
    next
      case b
      then show ?thesis using call [of review] OpRecover by simp
    qed
  next
    case (OpPrepareProtective env cand settings)
    have "records_kept (approvals_of s) (approvals_of (authority_step cr x s))"
      using prepare_kept [of "dac_approvals da" da cr env cand None "Some (settings 1)"]
      by (auto simp: s OpPrepareProtective prepare_protective_def split: prod.splits sum.splits)
    then show thesis using none OpPrepareProtective by simp
  next
    case (OpHandoffProtective env prin prepared settings)
    have "records_kept (approvals_of s) (approvals_of (authority_step cr x s))"
      using handoff_kept [of "dac_approvals da" da cr env prin prepared "Some (settings 1)"]
      by (auto simp: s OpHandoffProtective handoff_protective_def split: prod.splits sum.splits)
    then show thesis using none OpHandoffProtective by simp
  next
    case (OpHandoff env prin prepared)
    have "records_kept (approvals_of s) (approvals_of (authority_step cr x s))"
      using handoff_kept [of "dac_approvals da" da cr env prin prepared None]
      by (auto simp: s OpHandoff authority_handoff_def split: prod.splits)
    then show thesis using none OpHandoff by simp
  qed (use none in \<open>simp_all add: s authority_prepare_def kept\<close>)
qed

section \<open>Where an approval comes from\<close>

lemma authority_run_simps [simp]:
  "authority_run cr s [] = s"
  "authority_run cr s (ops @ [x]) = authority_step cr x (authority_run cr s ops)"
  by (simp_all add: authority_run_def)

lemma authority_step_inv: "approval_inv (approvals_of s) \<Longrightarrow> approval_inv (approvals_of (authority_step cr x s))"
  by (cases rule: authority_step_approvals [where s = s and x = x and cr = cr]) (auto simp: records_kept_def dest: approval_step_inv)

lemma authority_run_inv:
  "approvals_of s = approval_control_new \<Longrightarrow> approval_inv (approvals_of (authority_run cr s ops))"
  by (induction ops rule: rev_induct) (simp_all add: new_inv authority_step_inv)

text \<open>A record goes back to the operation that issued it, and a record not marked as revoked was not revoked since.\<close>

lemma authority_record_origin:
  assumes new: "approvals_of s = approval_control_new"
  shows "bt_get (arc_records (approvals_of (authority_run cr s ops))) e = Some r \<Longrightarrow>
     \<exists>pre x post review y. ops = pre @ x # post \<and> approval_call x review = Some y
       \<and> grants y (arec_evidence r) (approvals_of (authority_run cr s pre)) \<and> ae_id (arec_evidence r) = e
       \<and> (arec_revocation r = None \<longrightarrow> (\<forall>p t revoker q. post = p @ OpRevoke t e revoker # q \<longrightarrow>
            fst (revoke t e revoker (approvals_of (authority_run cr s (pre @ x # p)))) \<noteq> Inr ()))"
proof (induction ops arbitrary: r rule: rev_induct)
  case Nil
  then show ?case by (simp add: new approval_control_new_def bt_get_def)
next
  case (snoc x ops)
  let ?c = "approvals_of (authority_run cr s ops)"
  note inv = authority_run_inv [OF new, of cr ops]
  have keep: ?case if r0: "bt_get (arc_records ?c) e = Some r0" "arec_evidence r0 = arec_evidence r"
    and nr: "arec_revocation r = None \<longrightarrow> arec_revocation r0 = None
      \<and> (\<forall>t revoker. x = OpRevoke t e revoker \<longrightarrow> fst (revoke t e revoker ?c) \<noteq> Inr ())" for r0
  proof -
    from snoc.IH [OF r0(1)] obtain pre y post review z where h: "ops = pre @ y # post"
        "approval_call y review = Some z"
        "grants z (arec_evidence r) (approvals_of (authority_run cr s pre))" "ae_id (arec_evidence r) = e"
        "arec_revocation r0 = None \<longrightarrow> (\<forall>p t revoker q. post = p @ OpRevoke t e revoker # q \<longrightarrow>
            fst (revoke t e revoker (approvals_of (authority_run cr s (pre @ y # p)))) \<noteq> Inr ())"
      using r0(2) by auto
    have "fst (revoke t e revoker (approvals_of (authority_run cr s (pre @ y # p)))) \<noteq> Inr ()"
      if "arec_revocation r = None" "post @ [x] = p @ OpRevoke t e revoker # q" for p t revoker q
      using that(2) nr that(1) h(1,5) by (cases q rule: rev_cases) auto
    with h(1-4) show ?thesis
      by (intro exI [of _ pre] exI [of _ y] exI [of _ "post @ [x]"] exI [of _ review] exI [of _ z]) auto
  qed
  show ?case
  proof (cases rule: authority_step_approvals [where s = "authority_run cr s ops" and x = x and cr = cr])
    case none
    then show ?thesis using snoc.prems by (intro keep [of r]) (auto simp: records_kept_def)
  next
    case (call review y)
    have rec: "bt_get (arc_records (approval_step y ?c)) e = Some r"
      using call(2) snoc.prems by (simp add: records_kept_def)
    have rv: "y = RevokeOp t e revoker" if "x = OpRevoke t e revoker" for t revoker using call(1) that by simp
    from approval_step_record [OF inv rec]
    consider (old) "bt_get (arc_records ?c) e = Some r" "\<not> (revokes y e ?c \<and> arec_revocation r = None)"
      | (fresh) "grants y (arec_evidence r) ?c" "ae_id (arec_evidence r) = e"
      | (rev) r0 v where "bt_get (arc_records ?c) e = Some r0" "r = r0\<lparr> arec_revocation := Some v \<rparr>"
      by blast
    then show ?thesis
    proof cases
      case old
      then show ?thesis using rv by (intro keep [of r]) (auto simp: revokes_def)
    next
      case fresh
      with call(1) show ?thesis
        by (intro exI [of _ ops] exI [of _ x] exI [of _ "[]"] exI [of _ review] exI [of _ y]) simp
    next
      case rev
      then show ?thesis by (intro keep [of r0]) auto
    qed
  qed
qed

section \<open>Candidates\<close>

lemma fresh_plan_made:
  assumes "build_fresh_plan_with_context cr env input actor protective observe_only c = (Inr (plan, ob), c')"
  obtains p ob0 fs where "plan_resource (pdr_request_id (npi_request input)) actor
      (input_desired_resource (npi_request input)) ob0 = Inr p" "plan = add_findings fs p"
  using assms
  by (auto simp: build_fresh_plan_with_context_def Let_def result_simps case_prod_beta split: option.splits)

lemma on_coordinator_eq [result_simps]:
  "on_coordinator f ctl = (r, ctl') \<longleftrightarrow> (\<exists>c. f (ppc_coordinator ctl) = (r, c) \<and> ctl' = ctl\<lparr> ppc_coordinator := c \<rparr>)"
  by (auto simp: on_coordinator_def split: prod.split)

lemma apfst_map_err_eq [result_simps]: "apfst (map_err f) r = (Inr a, s) \<longleftrightarrow> r = (Inr a, s)"
  by (cases r; cases "fst r") auto

lemma candidate_plan_made:
  assumes "preview_authority_candidate cr env prin actor request ctl = (Inr (plan, ob), ctl')"
  obtains p ob0 fs where "plan_resource (pdr_request_id request) actor (input_desired_resource request) ob0 = Inr p"
    "plan = add_findings fs p"
proof -
  from assms obtain input c' where i: "normalized_plan_input_new prin request = Inr input"
      "build_fresh_plan cr env input actor (ppc_coordinator ctl) = (Inr (plan, ob), c')"
    by (auto simp: preview_authority_candidate_def result_simps)
  then have "npi_request input = request" by (auto simp: normalized_plan_input_new_def result_simps)
  with fresh_plan_made [OF i(2) [unfolded build_fresh_plan_def]] that show thesis by metis
qed

lemma floor_classified:
  "classify_candidate_risk plan risk_floor = Classified risk revision ids \<Longrightarrow> plan_prospective_risk plan \<le> risk"
  by (auto simp: classify_candidate_risk_def classify_plan_risk_with_floor_def le_max_iff_disj
      dest: classify_plan_risk_bound(1) split: option.splits risk_classification.splits)

text \<open>A candidate outside the protective path: its plan proposes a change, and policy demands an approval for it.\<close>

lemma candidate_needs_approval:
  assumes "candidate_inner cr env prin actor request risk_floor None ctl = (Inr cand, ctl')"
  obtains cl reason where "dc_principal cand = prin" "dc_protective cand = None"
    "plan_status (dc_plan cand) = ChangeProposed" "plan_changes (dc_plan cand) \<noteq> []"
    "review_decision (dc_review cand) = RequireApproval cl reason"
    "subj_request_id (review_subject (dc_review cand)) = pdr_request_id request"
    "subj_resource (review_subject (dc_review cand)) = pdr_resource request"
proof -
  from assms obtain plan ob d ctl1 where c: "preview_authority_candidate cr env prin actor request ctl = (Inr (plan, ob), ctl1)"
      "candidate_of cr prin plan ob d risk_floor None = Inr cand"
    by (auto simp: candidate_inner_def result_simps)
  from candidate_plan_made [OF c(1)] obtain p ob0 fs where p: "plan_resource (pdr_request_id request) actor
      (input_desired_resource request) ob0 = Inr p" "plan = add_findings fs p" .
  from c(2) obtain risk revision ids review where o: "plan_status plan = ChangeProposed" "plan_changes plan \<noteq> []"
      "classify_candidate_risk plan risk_floor = Classified risk revision ids"
      "review_plan_with_classification prin plan (Classified risk revision ids) = Inr review"
      "\<not> review_refused review" "dc_plan cand = plan" "dc_review cand = review" "dc_principal cand = prin"
      "dc_protective cand = None"
    by (cases "classify_candidate_risk plan risk_floor")
      (auto simp: candidate_of_def review_candidate_def Let_def result_simps split: if_splits)
  from o(4) obtain sub where sub: "policy_subject_from_plan_with_classification prin plan
      (Classified risk revision ids) = Inr sub" "review = review_subject_for_control sub"
    by (auto simp: review_plan_with_classification_def result_simps)
  note ok = subject_from_plan_ok [OF sub(1)]
  have "plan_prospective_risk plan = SystemMutation"
    using plan_resource_ok(10) [OF p(1)] o(2) p(2) by (simp add: add_findings_def)
  then have "SystemMutation \<le> subj_prospective_risk sub"
    using floor_classified [OF o(3)] ok(10) by simp
  then have "review_decision review \<noteq> Allow"
    using review_for_control_decision [of sub] sub(2) by (auto simp: less_eq_risk_class_def)
  then obtain cl reason where "review_decision review = RequireApproval cl reason"
    using o(5) by (cases "review_decision review") (auto simp: review_refused_def is_deny_or_blocked_def)
  moreover have "review_subject review = sub"
    using sub(2) by (simp add: review_subject_for_control_def evaluate_def)
  moreover have "subj_resource sub = pdr_resource request"
    using ok(6) plan_resource_ok(14) [OF p(1)] p(2) by (simp add: add_findings_def input_desired_resource_def)
  moreover have "subj_request_id sub = pdr_request_id request"
    using sub(1) plan_resource_ok(13) [OF p(1)] p(2)
    by (auto simp: policy_subject_from_plan_with_classification_def result_simps policy_subject_try_new_iff
        add_findings_def split: prod.splits)
  ultimately show thesis using that o by blast
qed

section \<open>Preparation and handoff\<close>

lemma revalidated_review_ok:
  assumes "revalidated_review cr cand now settings = Inr review"
  shows "review = dc_review cand" "require_current (dc_observation cand) now = Inr ()"
    "dc_protective cand = None \<longleftrightarrow> settings = None"
  using assms
  by (auto simp: revalidated_review_def from_observation_validation_def Let_def result_simps
      split: if_splits option.splits)

lemma authority_now_ok:
  assumes "authority_now_unix_ms env n da = (Inr now, da')"
  shows "au_clock env n = SinceEpoch (unat now)" "dac_approvals da' = dac_approvals da"
    "dac_transactions da' = dac_transactions da" "dac_signer da' = dac_signer da"
  using assms
  by (auto simp: authority_now_unix_ms_def Let_def unat_of_nat split: system_time.splits if_splits)

text \<open>A binding for a review that demands approval names a live record of the approval store.\<close>

lemma revalidate_ok:
  assumes "revalidate_and_bind cr env cand approval_id now settings da = (Inr b, da')"
    and decision: "review_decision (dc_review cand) = RequireApproval cl reason"
  obtains e r s where "approval_id = Some e" "require_current (dc_observation cand) now = Inr ()"
    "au_approval_clock env 0 = Some s" "bt_get (arc_records (dac_approvals da)) e = Some r"
    "arec_revocation r = None"
    "ae_requirement (arec_evidence r) = \<lparr> areq_class = cl, areq_binding = tpr_evaluation (dc_review cand) \<rparr>"
    "ae_issued_at (arec_evidence r) \<le> s" "s < ae_expires_at (arec_evidence r)"
    "ab_principal b = dc_principal cand" "ab_request_id b = subj_request_id (review_subject (dc_review cand))"
    "ab_resource b = subj_resource (review_subject (dc_review cand))"
    "ab_authorization b = ApprovalBasis \<lparr> aa_evidence_id = ae_id (arec_evidence r),
       aa_request_id = ae_request_id (arec_evidence r), aa_approver = ae_approver (arec_evidence r),
       aa_approval_class = approval_class_name cl, aa_issued_at = ae_issued_at (arec_evidence r),
       aa_expires_at = ae_expires_at (arec_evidence r) \<rparr>"
    "dac_transactions da' = dac_transactions da" "dac_signer da' = dac_signer da"
proof -
  let ?review = "dc_review cand"
  obtain authorization where o: "revalidated_review cr cand now settings = Inr ?review"
      "authorization_of env ?review approval_id da = (Inr authorization, da')"
      "ab_principal b = dc_principal cand" "ab_request_id b = subj_request_id (review_subject ?review)"
      "ab_resource b = subj_resource (review_subject ?review)" "ab_authorization b = authorization"
  proof -
    from assms(1) obtain review authorization m where v: "revalidated_review cr cand now settings = Inr review"
        "authorization_of env review approval_id da = (Inr authorization, da')" "binding_try_new cr m = Inr b"
        "ab_principal m = dc_principal cand" "ab_request_id m = subj_request_id (review_subject review)"
        "ab_resource m = subj_resource (review_subject review)" "ab_authorization m = authorization"
      by (auto simp: revalidate_and_bind_def Let_def result_simps typed_id_new_ok)
    with revalidated_review_ok(1) [OF v(1)] binding_kept [OF v(3)] that show thesis by simp
  qed
  from o(2) decision obtain e da1 ev approval where v: "approval_id = Some e"
      "on_approvals (validate (au_approval_clock env 0) e ?review) da = (Inr Satisfied, da')"
      "get_evidence (dac_approvals da') e = Some ev" "authorization = ApprovalBasis approval"
      "approval_authority_try_new (ae_id ev) (ae_request_id ev) (ae_approver ev) (approval_class_name cl)
         (ae_issued_at ev) (ae_expires_at ev) = Inr approval"
    by (auto simp: authorization_of_def result_simps split: if_splits)
  have sat: "fst (validate (au_approval_clock env 0) e ?review (dac_approvals da)) = Inr Satisfied"
      and da': "dac_transactions da' = dac_transactions da" "dac_signer da' = dac_signer da"
      and appr: "dac_approvals da' = snd (validate (au_approval_clock env 0) e ?review (dac_approvals da))"
    using v(2) by (auto simp: on_approvals_def map_err_def split: prod.splits sum.splits)
  from validate_satisfied [OF sat] obtain s r cl' where r: "au_approval_clock env 0 = Some s"
      "bt_get (arc_records (dac_approvals da)) e = Some r" "arec_revocation r = None"
      "required_approval_class ?review = Inr cl'"
      "ae_requirement (arec_evidence r) = \<lparr> areq_class = cl', areq_binding = tpr_evaluation ?review \<rparr>"
      "ae_issued_at (arec_evidence r) \<le> s" "s < ae_expires_at (arec_evidence r)" .
  have "cl' = cl" using r(4) decision by (simp add: required_approval_class_def)
  moreover have "ev = arec_evidence r"
    using v(3) r(2) validate_kept [of "dac_approvals da" "au_approval_clock env 0" e ?review]
    by (simp add: get_evidence_def appr records_kept_def)
  moreover have "approval = \<lparr> aa_evidence_id = ae_id ev, aa_request_id = ae_request_id ev, aa_approver = ae_approver ev,
      aa_approval_class = approval_class_name cl, aa_issued_at = ae_issued_at ev, aa_expires_at = ae_expires_at ev \<rparr>"
    using v(5) by (auto simp: approval_authority_try_new_def result_simps split: if_splits)
  ultimately show thesis
    using that [of e s r] o v(1,4) r da' revalidated_review_ok(2) [OF o(1)] by simp
qed

lemma handoff_commit_ok:
  assumes "handoff cr env req s = (Inr hc, s')"
  shows "hc_transaction_id hc = hr_transaction_id req" "hc_generation hc = hr_expected_generation req"
    "hc_binding_digest hc = hr_expected_binding_digest req"
proof -
  from assms have t: "with_transaction env s (handoff_body cr env (ss_limits s) (ss_integrity_key s) req)
      (reconcile_filesystem_reserve_after_commit cr env) = (Inr hc, s')"
    by (simp add: handoff_def split: sum.splits)
  from t obtain db' where "handoff_body cr env (ss_limits s) (ss_integrity_key s) req (ss_db s) = Inr (hc, db')"
    by (cases rule: with_transaction_cases) (auto simp: result_simps dest: sym [of "Inr hc"])
  then show "hc_transaction_id hc = hr_transaction_id req" "hc_generation hc = hr_expected_generation req"
    "hc_binding_digest hc = hr_expected_binding_digest req"
    by (auto simp: handoff_body_def Let_def result_simps assert_expected_def split: if_splits)
qed

lemma authorize_handoff_fields:
  assumes "authorize_handoff cr key snap use now expires = Inr req"
  shows "hr_transaction_id req = snap_transaction_id snap" "hr_expected_generation req = snap_current_generation snap"
    "hr_expected_binding_digest req = snap_binding_digest snap" "now \<le> expires" "snap_state snap = TxPrepared"
  using assms by (auto simp: authorize_handoff_def Let_def result_simps split: if_splits)

lemma handoff_inner_ok:
  assumes "handoff_inner cr env prin prepared settings da = (Inr permit, da')"
  obtains now da1 b da2 expires where "\<not> pda_handed_off prepared" "prin = dc_principal (pda_candidate prepared)"
    "authority_now_unix_ms env 0 da = (Inr now, da1)"
    "revalidate_and_bind cr env (pda_candidate prepared) (pda_approval_evidence_id prepared) now settings da1
       = (Inr b, da2)" "ab_digest b = ab_digest (pda_binding prepared)"
    "snapshot cr (au_store env 0) (dac_transactions da2) (snap_transaction_id (pda_snapshot prepared))
       = Inr (pda_snapshot prepared)" "snap_state (pda_snapshot prepared) = TxPrepared"
    "authority_expires_at_unix_ms (dc_observation (pda_candidate prepared)) b = Inr expires" "now \<le> expires"
    "dp_transaction_id permit = snap_transaction_id (pda_snapshot prepared)"
    "dp_generation permit = snap_current_generation (pda_snapshot prepared)"
    "dp_binding_digest permit = snap_binding_digest (pda_snapshot prepared)"
proof -
  from assms obtain now da1 b da2 use expires req hc where o: "\<not> pda_handed_off prepared"
      "prin = dc_principal (pda_candidate prepared)" "authority_now_unix_ms env 0 da = (Inr now, da1)"
      "revalidate_and_bind cr env (pda_candidate prepared) (pda_approval_evidence_id prepared) now settings da1
         = (Inr b, da2)" "ab_digest b = ab_digest (pda_binding prepared)"
      "snapshot cr (au_store env 0) (dac_transactions da2) (snap_transaction_id (pda_snapshot prepared))
         = Inr (pda_snapshot prepared)"
      "authority_expires_at_unix_ms (dc_observation (pda_candidate prepared)) b = Inr expires"
      "authorize_handoff cr (dac_signer da2) (pda_snapshot prepared) use now expires = Inr req"
      "on_store (handoff cr (au_store env 1) req) da2 = (Inr hc, da')" "permit = permit_from_commit hc"
    by (auto simp: handoff_inner_def result_simps split: if_splits)
  from o(9) obtain st where st: "handoff cr (au_store env 1) req (dac_transactions da2) = (Inr hc, st)"
    by (auto simp: on_store_def map_err_def split: prod.splits sum.splits)
  note q = authorize_handoff_fields [OF o(8)]
  show thesis
    using that o q handoff_commit_ok [OF st] by (simp add: permit_from_commit_def)
qed

lemma prepare_inner_ok:
  assumes "prepare_inner cr env cand approval_id settings da = (Inr prepared, da')"
  shows "pda_candidate prepared = cand" "pda_approval_evidence_id prepared = approval_id"
    "snap_binding_digest (pda_snapshot prepared) = ab_digest (pda_binding prepared)"
    "snap_request_id (pda_snapshot prepared) = ab_request_id (pda_binding prepared)"
  using assms by (auto simp: prepare_inner_def Let_def result_simps split: if_splits)

text \<open>A permit for an approved candidate: the caller owns it, the observation is current, and the approval is live.\<close>

lemma handoff_live_record:
  assumes prepare: "prepare_inner cr env1 cand approval_id settings da1 = (Inr prepared, da2)"
    and handoff: "handoff_inner cr env caller prepared settings' da = (Inr permit, da')"
    and decision: "review_decision (dc_review cand) = RequireApproval cl reason"
  obtains now e r s and b :: authority_binding where "caller = dc_principal cand" "au_clock env 0 = SinceEpoch (unat now)"
    "require_current (dc_observation cand) now = Inr ()" "approval_id = Some e" "au_approval_clock env 0 = Some s"
    "bt_get (arc_records (dac_approvals da)) e = Some r" "arec_revocation r = None"
    "ae_requirement (arec_evidence r) = \<lparr> areq_class = cl, areq_binding = tpr_evaluation (dc_review cand) \<rparr>"
    "ae_issued_at (arec_evidence r) \<le> s" "s < ae_expires_at (arec_evidence r)"
    "dp_binding_digest permit = ab_digest b" "dp_transaction_id permit = snap_transaction_id (pda_snapshot prepared)"
    "ab_principal b = dc_principal cand" "ab_request_id b = subj_request_id (review_subject (dc_review cand))"
    "ab_resource b = subj_resource (review_subject (dc_review cand))"
    "\<exists>aa. ab_authorization b = ApprovalBasis aa \<and> aa_evidence_id aa = ae_id (arec_evidence r)
       \<and> aa_approver aa = ae_approver (arec_evidence r)"
proof -
  note prep = prepare_inner_ok [OF prepare]
  from handoff_inner_ok [OF handoff] obtain now dn b db where o: "caller = dc_principal (pda_candidate prepared)"
      "authority_now_unix_ms env 0 da = (Inr now, dn)"
      "revalidate_and_bind cr env (pda_candidate prepared) (pda_approval_evidence_id prepared) now settings' dn = (Inr b, db)"
      "ab_digest b = ab_digest (pda_binding prepared)"
      "dp_transaction_id permit = snap_transaction_id (pda_snapshot prepared)"
      "dp_binding_digest permit = snap_binding_digest (pda_snapshot prepared)" .
  note clock = authority_now_ok [OF o(2)]
  show thesis
    by (rule revalidate_ok [OF o(3) [unfolded prep(1,2)] decision], rule that [where now = now and b = b])
      (use o(1,4-6) prep clock in \<open>auto\<close>)
qed

lemma abort_all_approvals: "dac_approvals (snd (abort_all cr env n reason ss da)) = dac_approvals da"
proof (induction ss arbitrary: n da)
  case (Cons s ss)
  show ?case unfolding abort_all.simps
    by (rule then_with_state [where P = "\<lambda>d. dac_approvals d = dac_approvals da"])
      (auto simp: then_with_def Cons split: prod.splits sum.splits dest: arg_cong [where f = "\<lambda>x. dac_approvals (snd x)"])
qed simp

lemma control_new_approvals:
  assumes "authority_control_new cr env store signer = (Inr (), da)"
  shows "approvals_of (da, ctl) = approval_control_new"
  using assms
  by (auto simp: authority_control_new_def abort_prepared_after_restart_def result_simps abort_all_approvals
      dest!: arg_cong [where f = "\<lambda>x. dac_approvals (snd x)"])

text \<open>An evidence-creating call is an issue, for a review the operation names or, in a recovery, derives.\<close>

lemma issue_call:
  assumes "approval_call x review = Some y" "grants y ev c"
  obtains issued q review' approver expires where
    "approval_call x review' = Some (IssueOp (Some issued) q review' approver expires)"
    "fst (issue (Some issued) q review' approver expires c) = Inr ev"
    "can_satisfy approver (areq_class (ae_requirement ev))" "areq_binding (ae_requirement ev) = tpr_evaluation review'"
    "ae_approver ev = approver_principal approver" "ae_issued_at ev = issued" "ae_expires_at ev = expires"
    "unat expires \<le> unat issued + 86400"
proof -
  from assms(2) obtain issued q review' approver expires cl where g: "y = IssueOp (Some issued) q review' approver expires"
      "fst (issue (Some issued) q review' approver expires c) = Inr ev" "can_satisfy approver cl"
      "ae_requirement ev = \<lparr> areq_class = cl, areq_binding = tpr_evaluation review' \<rparr>"
      "ae_approver ev = approver_principal approver" "ae_issued_at ev = issued" "ae_expires_at ev = expires"
      "unat expires \<le> unat issued + 86400" unfolding grants_def by blast
  have "approval_call x review' = Some (IssueOp (Some issued) q review' approver expires)"
    using assms(1) g(1) by (cases "(x, review)" rule: approval_call.cases) auto
  with g that show thesis by simp
qed

lemma record_granted:
  assumes "approvals_of s = approval_control_new"
    "bt_get (arc_records (approvals_of (authority_run cr s ops))) e = Some r" "arec_revocation r = None"
  obtains pre x post review issued q approver expires where "ops = pre @ x # post"
    "approval_call x review = Some (IssueOp (Some issued) q review approver expires)"
    "fst (issue (Some issued) q review approver expires (approvals_of (authority_run cr s pre))) = Inr (arec_evidence r)"
    "ae_id (arec_evidence r) = e" "can_satisfy approver (areq_class (ae_requirement (arec_evidence r)))"
    "areq_binding (ae_requirement (arec_evidence r)) = tpr_evaluation review"
    "ae_approver (arec_evidence r) = approver_principal approver"
    "ae_issued_at (arec_evidence r) = issued" "ae_expires_at (arec_evidence r) = expires"
    "unat expires \<le> unat issued + 86400"
    "\<forall>p t revoker q. post = p @ OpRevoke t e revoker # q \<longrightarrow>
       fst (revoke t e revoker (approvals_of (authority_run cr s (pre @ x # p)))) \<noteq> Inr ()"
proof -
  from authority_record_origin [OF assms(1,2)] assms(3) obtain pre x post review y where h: "ops = pre @ x # post"
      "approval_call x review = Some y" "grants y (arec_evidence r) (approvals_of (authority_run cr s pre))"
      "ae_id (arec_evidence r) = e"
      "\<forall>p t revoker q. post = p @ OpRevoke t e revoker # q \<longrightarrow>
         fst (revoke t e revoker (approvals_of (authority_run cr s (pre @ x # p)))) \<noteq> Inr ()" by blast
  show thesis by (rule issue_call [OF h(2,3)], rule that [OF h(1) _ _ h(4) _ _ _ _ _ _ h(5)])
qed

text \<open>
  C2. No dispatch without a live human approval. Take a candidate derived outside the protective path, prepare it in
  any state of a control, and hand it off to a control after any history of operations from its start (candidates,
  approvals, revocations, preparations, handoffs, recoveries and commits, under arbitrary clocks, providers and SQLite
  faults). If the handoff returns a permit, then the caller is the principal of the candidate; the plan proposes a
  change; the observation is current at the clock reading of the handoff; the review demands an approval of some
  class; and the history has an operation that issued this very evidence, by a human holding that class, for a review
  with the same evaluation, whose window of at most 24 hours holds the approval clock at the handoff, and no later
  revocation of it succeeded. The permit carries the digest of a binding that names the principal, the request, the
  resource and that approver, for the transaction that was prepared, and the prepared authority yields no second permit.
\<close>

theorem permit_was_authorized:
  assumes control: "authority_control_new cr env0 store signer = (Inr (), da0)"
    and candidate: "candidate_inner cr penv prin actor request risk_floor None pctl = (Inr cand, pctl')"
    and prepare: "authority_prepare cr env1 cand approval_id da1 = (Inr prepared, da2)"
    and handoff: "authority_handoff cr env caller prepared (fst (authority_run cr (da0, ctl0) ops))
      = (Inr permit, prepared', da')"
  shows "caller = prin \<and> plan_status (dc_plan cand) = ChangeProposed \<and> plan_changes (dc_plan cand) \<noteq> []
    \<and> (\<exists>now. au_clock env 0 = SinceEpoch (unat now) \<and> require_current (dc_observation cand) now = Inr ())
    \<and> (\<exists>e cl reason pre x post review issued q approver expires ev s (b :: authority_binding).
         approval_id = Some e \<and> review_decision (dc_review cand) = RequireApproval cl reason
         \<and> ops = pre @ x # post
         \<and> approval_call x review = Some (IssueOp (Some issued) q review approver expires)
         \<and> fst (issue (Some issued) q review approver expires (approvals_of (authority_run cr (da0, ctl0) pre)))
             = Inr ev \<and> ae_id ev = e
         \<and> tpr_evaluation review = tpr_evaluation (dc_review cand)
         \<and> approver_kind approver = Human \<and> cl \<in> approver_classes approver
         \<and> au_approval_clock env 0 = Some s \<and> issued \<le> s \<and> s < expires \<and> unat expires \<le> unat issued + 86400
         \<and> (\<forall>p t revoker r. post = p @ OpRevoke t e revoker # r \<longrightarrow>
              fst (revoke t e revoker (approvals_of (authority_run cr (da0, ctl0) (pre @ x # p)))) \<noteq> Inr ())
         \<and> dp_binding_digest permit = ab_digest b \<and> ab_principal b = prin
         \<and> ab_request_id b = pdr_request_id request \<and> ab_resource b = pdr_resource request
         \<and> (\<exists>aa. ab_authorization b = ApprovalBasis aa \<and> aa_evidence_id aa = e
              \<and> aa_approver aa = approver_principal approver))
    \<and> dp_transaction_id permit = snap_transaction_id (pda_snapshot prepared)
    \<and> (\<forall>env' caller' da''. fst (authority_handoff cr env' caller' prepared' da'') = Inl AlreadyHandedOff)"
  (is "_ \<and> _ \<and> _ \<and> _ \<and> (\<exists>e cl reason pre x post review issued q approver expires ev s b.
    ?P e cl reason pre x post review issued q approver expires ev s b) \<and> _ \<and> _")
proof -
  let ?s = "authority_run cr (da0, ctl0) ops"
  have new: "approvals_of (da0, ctl0) = approval_control_new" using control by (rule control_new_approvals)
  from handoff obtain h: "handoff_inner cr env caller prepared None (fst ?s) = (Inr permit, da')"
      and marked: "prepared' = prepared\<lparr> pda_handed_off := True \<rparr>"
    by (auto simp: authority_handoff_def mark_handed_off_def split: prod.splits)
  from candidate_needs_approval [OF candidate] obtain cl reason where cand: "dc_principal cand = prin"
      "plan_status (dc_plan cand) = ChangeProposed" "plan_changes (dc_plan cand) \<noteq> []"
      "review_decision (dc_review cand) = RequireApproval cl reason"
      "subj_request_id (review_subject (dc_review cand)) = pdr_request_id request"
      "subj_resource (review_subject (dc_review cand)) = pdr_resource request" .
  from handoff_live_record [OF prepare [unfolded authority_prepare_def] h cand(4)] obtain now e r s
      and b :: authority_binding where v:
      "caller = dc_principal cand" "au_clock env 0 = SinceEpoch (unat now)"
      "require_current (dc_observation cand) now = Inr ()" "approval_id = Some e" "au_approval_clock env 0 = Some s"
      "bt_get (arc_records (approvals_of ?s)) e = Some r" "arec_revocation r = None"
      "ae_requirement (arec_evidence r) = \<lparr> areq_class = cl, areq_binding = tpr_evaluation (dc_review cand) \<rparr>"
      "ae_issued_at (arec_evidence r) \<le> s" "s < ae_expires_at (arec_evidence r)"
      "dp_binding_digest permit = ab_digest b" "dp_transaction_id permit = snap_transaction_id (pda_snapshot prepared)"
      "ab_principal b = dc_principal cand" "ab_request_id b = subj_request_id (review_subject (dc_review cand))"
      "ab_resource b = subj_resource (review_subject (dc_review cand))"
      "\<exists>aa. ab_authorization b = ApprovalBasis aa \<and> aa_evidence_id aa = ae_id (arec_evidence r)
         \<and> aa_approver aa = ae_approver (arec_evidence r)" .
  from record_granted [OF new v(6,7)] obtain pre x post review issued q approver expires where g:
      "ops = pre @ x # post" "approval_call x review = Some (IssueOp (Some issued) q review approver expires)"
      "fst (issue (Some issued) q review approver expires (approvals_of (authority_run cr (da0, ctl0) pre)))
         = Inr (arec_evidence r)" "ae_id (arec_evidence r) = e"
      "can_satisfy approver (areq_class (ae_requirement (arec_evidence r)))"
      "areq_binding (ae_requirement (arec_evidence r)) = tpr_evaluation review"
      "ae_approver (arec_evidence r) = approver_principal approver"
      "ae_issued_at (arec_evidence r) = issued" "ae_expires_at (arec_evidence r) = expires"
      "unat expires \<le> unat issued + 86400"
      "\<forall>p t revoker r. post = p @ OpRevoke t e revoker # r \<longrightarrow>
         fst (revoke t e revoker (approvals_of (authority_run cr (da0, ctl0) (pre @ x # p)))) \<noteq> Inr ()" .
  have again: "fst (authority_handoff cr env' caller' prepared' da'') = Inl AlreadyHandedOff" for env' caller' da''
    by (simp add: authority_handoff_def handoff_inner_def marked)
  have human: "approver_kind approver = Human" "cl \<in> approver_classes approver"
      "tpr_evaluation review = tpr_evaluation (dc_review cand)"
    using g(5,6) v(8) by (auto simp: can_satisfy_def)
  have "?P e cl reason pre x post review issued q approver expires (arec_evidence r) s b"
    using v cand(1,4-6) g human by auto
  with again v(1-3,12) cand(1-3) show ?thesis by blast
qed

text \<open>At work: the administrator approves, the transaction is prepared, and the owner of the candidate gets a permit.\<close>

definition unit_history :: "durable_authority_candidate \<Rightarrow> authority_op list" where
  "unit_history cand = [OpIssue (Some 1) ''q'' cand unit_approver 60, OpPrepare unit_env cand (Some (evidence_id_text 0))]"

theorem permit_was_authorized_witness:
  "\<exists>cand prepared permit prepared' da'.
     authority_handoff demo_crypto unit_env ''p'' prepared
         (fst (authority_run demo_crypto (unit_start, unit_control) (unit_history cand))) = (Inr permit, prepared', da')
     \<and> plan_status (dc_plan cand) = ChangeProposed \<and> dp_transaction_id permit = demo_id
     \<and> (\<exists>issued q approver expires. OpIssue (Some issued) q cand approver expires \<in> set (unit_history cand)
          \<and> approver_kind approver = Human \<and> issued \<le> 5 \<and> 5 < expires)
     \<and> (\<forall>env' caller' da''. fst (authority_handoff demo_crypto env' caller' prepared' da'') = Inl AlreadyHandedOff)"
proof -
  from unit_candidate_exists obtain cand where cand: "unit_candidate cand" ..
  then obtain ctl b where c: "candidate_inner demo_crypto unit_preview_env ''p'' unit_actor unit_stop None None unit_control
      = (Inr cand, ctl)" and b: "binding_try_new demo_crypto (bound_material cand unit_basis) = Inr b"
    by (auto simp: unit_candidate_def is_ok_iff)
  have run: "fst (authority_run demo_crypto (unit_start, unit_control) (unit_history cand)) = unit_after_prepare cand b"
    using unit_approve [OF cand] unit_prepare [OF cand b] by (simp add: authority_run_def unit_history_def)
  from unit_hand_off [OF cand b] obtain da where h: "authority_handoff demo_crypto unit_env ''p'' (unit_prepared cand b)
      (fst (authority_run demo_crypto (unit_start, unit_control) (unit_history cand)))
      = (Inr (permit_from_commit unit_commit), (unit_prepared cand b)\<lparr> pda_handed_off := True \<rparr>, da)"
    unfolding run by blast
  note permit = permit_was_authorized [OF unit_new c unit_prepare [OF cand b] h]
  have "dp_transaction_id (permit_from_commit unit_commit) = demo_id"
    by (simp add: permit_from_commit_def unit_commit_def)
  moreover have "\<exists>issued q approver expires. OpIssue (Some issued) q cand approver expires \<in> set (unit_history cand)
      \<and> approver_kind approver = Human \<and> issued \<le> 5 \<and> 5 < expires"
  proof -
    from permit obtain pre x post review issued q approver expires s where i: "unit_history cand = pre @ x # post"
        "approval_call x review = Some (IssueOp (Some issued) q review approver expires)" "approver_kind approver = Human"
        "au_approval_clock unit_env 0 = Some s" "issued \<le> s" "s < expires" by blast
    have "x \<in> set (unit_history cand)" using i(1) by simp
    with i(2) have "x = OpIssue (Some issued) q cand approver expires" by (auto simp: unit_history_def)
    with i show ?thesis by (auto simp: unit_env_def)
  qed
  ultimately show ?thesis using permit h by blast
qed

end
