(* ===== verification/Spec2Isabelle.thy ===== *)
theory Spec2Isabelle
  imports
    Lifecycle
    Graph
    Planner
    Session_Identity
    Approval_History
    Store_History
    Update_History
    Preview_History
    Authority_History
begin

text \<open>
  Linura is a control plane for a Linux workstation. A user or an agent states an intent; Control compiles
  it to desired state, observes the system, plans the difference, classifies its risk, reviews it against
  policy, obtains human approval where policy demands it, records the authority for it in a durable
  transaction store, hands it to an executor at most once, and verifies the effect before it commits. A
  second path updates the system itself: a journalled coordinator runs snapshot, package transaction,
  migrations and health checks, each on authenticated evidence. This development models both paths and
  proves what they promise. Paths below are relative to \<open>src/\<close>.

  \<^bold>\<open>Conventions.\<close> A \<open>u64\<close> is a 64-bit word with the checked, saturating and wrapping operations of the
  standard library written out; a \<open>usize\<close> length is a natural number; a \<open>String\<close> is the list of its
  UTF-8 bytes. A struct is a record, an enum a datatype, a \<open>BTreeMap\<close> a key-sorted association list. A
  \<open>Result\<close> is a sum with the error on the left, and every early return of the code is a branch. A method
  on \<open>&mut self\<close> returns its result with the new state, also when the result is an error. SHA-256, HMAC,
  the clock, the file system and the SQL engine are outside the repository: they are arguments of the
  definitions that use them, and what is assumed of them is a hypothesis of the theorem that needs it.

  \<^bold>\<open>Theories, in the order of the code.\<close>
  \<^item> \<open>Linura_Prelude\<close> and \<open>Linura_Text\<close>: the standard library (results, sorted maps, machine integers,
    decimal and hexadecimal text, trimming, UTF-8, lines) with the lemma collections the others share.
  \<^item> \<open>Linura_Core\<close> (\<open>crates/linura-core/src/lib.rs\<close>), \<open>Session_Identity\<close> (\<open>session_epoch.rs\<close>,
    \<open>session_transition.rs\<close>, \<open>sleep_invocation.rs\<close>): identifiers, actors, operation and risk classes,
    semantic reasons; session, lock, transition and sleep identities with their texts. Parsing inverts
    printing and accepts nothing else.
  \<^item> \<open>Lifecycle\<close> (\<open>crates/linura-lifecycle\<close>): the stages of a managed mutation. Whatever is attempted,
    the completed stages are an initial segment of the canonical order.
  \<^item> \<open>Observation\<close> (\<open>crates/linura-observation\<close>), \<open>Graph\<close> (\<open>crates/linura-graph\<close>): evidence envelopes,
    their validity window and identifiers; the system graph, which never has a dangling edge, never
    replaces newer evidence by older, and computes the impact of retiring an origin exactly.
  \<^item> \<open>Observation_Control\<close> (\<open>crates/linura-observation-control\<close>): the coordinator that registers observers,
    probes them and retains their evidence; an observer is a record of what its methods answer at each moment.
    \<open>Observation_Retention\<close> shows over any history that the graph stays within the configured limits and what
    a resource shows after every answered or refused call: a current authoritative answer that supersedes what was
    shown, or what was shown before. Evidence kept in history is not compared again.
  \<^item> \<open>Capability\<close> (\<open>crates/linura-capability-sdk\<close>), \<open>Intent_Model\<close> (\<open>crates/linura-intent/src/model.rs\<close>),
    \<open>Planner\<close> (\<open>crates/linura-planner\<close>): operation descriptors and registry, capability resolution by a
    worklist (total, and equal to the closure it is meant to compute), compilation of intents,
    reconciliation plans (the exact difference, which converges when applied) and the bounded plan store
    (a refinement of a queue).
  \<^item> \<open>Policy\<close> (\<open>crates/linura-policy\<close>), \<open>Risk_Classification\<close> and \<open>Policy_Review\<close>
    (\<open>crates/linura-control/src/operation_registry.rs\<close>, \<open>risk_classification.rs\<close>, \<open>policy_review.rs\<close>,
    \<open>review_projection.rs\<close>): the three policies as instances of one engine interface, classification as the
    highest risk of the covering rules, which only the registered-transient refinement may place below the planner's,
    and for each of Control's reviews when policy alone lets a planned change through.
  \<^item> \<open>Approval\<close>, \<open>Approval_History\<close> (\<open>approval.rs\<close>, \<open>approval_review.rs\<close>): evidence and the bounded store
    of approvals as a step relation; a satisfied validation goes back to a human issue for exactly that
    evaluation, revocation is final, the accounting is exact.
  \<^item> \<open>Transaction\<close>, \<open>Transaction_Contract\<close> (\<open>crates/linura-transaction/src/lib.rs\<close>): digests, authority
    bindings, sealed requests. Encodings are injective, so that a digest names one binding and a seal fits
    one request; freedom from collisions is assumed for the two messages compared, never globally.
  \<^item> \<open>Sqlite_Records\<close>, \<open>Sqlite_Validation\<close>, \<open>Sqlite_Store\<close> (\<open>crates/linura-persistence-sqlite/src\<close>:
    \<open>integrity.rs\<close>, \<open>schema.rs\<close>, \<open>validation_base.rs\<close>, \<open>validation.rs\<close>, \<open>store.rs\<close>): rows, tables with
    their checks and triggers, record integrity, whole-database validation and every operation of the
    store. Any statement may fail, any tag may be wrong, and a commit may fail on either side of the write.
    \<open>Store_Tables\<close>, \<open>Store_Moves\<close> and \<open>Store_Machine\<close> show that a call is a rollback or one step of an
    abstract transaction machine; \<open>Store_Example\<close> is a run from preparation to commit; \<open>Store_History\<close>
    has what follows for any history of calls.
  \<^item> \<open>Session_Safety\<close> (\<open>crates/linura-control/src/session_safety.rs\<close>, \<open>session_transition.rs\<close>,
    \<open>protective_lock_safety.rs\<close>): the reviews of native session, power, transition and protective-lock evidence.
  \<^item> \<open>Plan_Preview\<close> (\<open>plan_preview.rs\<close>, \<open>session_power_plan.rs\<close>, \<open>protective_lock_execution.rs\<close>): request
    normalization, the fresh plan Control derives from observations with its native session prerequisites, and the
    bounded store of previews. \<open>Preview_History\<close> shows that previews are replayed exactly, accounted for exactly
    and served only to the principal that asked.
  \<^item> \<open>Authority_Digests\<close>, \<open>Durable_Authority\<close> (\<open>durable_authority.rs\<close>, and the comparison of two reviews in
    \<open>managed_lifecycle.rs\<close>): the canonical digests and every operation of the control that owns approvals and
    the transaction store: candidates, approval, preparation, handoff, restart, recovery and commit.
    \<open>Authority_Example\<close> is a run from an observation to a permit; \<open>Authority_History\<close> shows over any history of
    the control that a permit for a candidate outside the protective path goes back to a current observation, a plan
    that proposes a change and a live human approval of exactly that review.
  \<^item> \<open>Update_Files\<close>, \<open>Update_Journal\<close>, \<open>Update_Coordinator\<close> (\<open>crates/linura-update/src/lib.rs\<close>): the lock,
    the evidence root and its key, the journal format, receipts, and every operation of the coordinator and
    of the qualification issuer, with the atomic replacement of the journal file step by step.
    \<open>Update_Machine\<close> has coordinators that open, fail, crash and interleave over one journal, and the
    machine they refine; \<open>Update_Example\<close> is an update that succeeds; \<open>Update_History\<close> has the properties.

  \<^bold>\<open>Interfaces.\<close> \<open>policy_engine\<close> (Policy) is interpreted on the three policies; \<open>transaction_store\<close>
  (Store_History) is what a client of the \<open>TransactionStore\<close> trait relies on, interpreted on the SQLite
  store; \<open>machine_refinement\<close> (Machine_Refinement) relates a component with durable state to a machine on
  an abstract view of it and is interpreted twice, on the SQLite store and on the update coordinators, so
  that the argument over histories is made once.

  \<^bold>\<open>Bounds and termination.\<close> No definition uses fuel: loops of the code are structural recursion over the
  list they traverse, and the worklist of capability resolution, the eviction loops and the replacement of
  substrings are functions with their termination proofs. A call that reads the clock or asks the environment
  several times takes the answers as a function of the point where it asks, so that no two need agree.
  Limits of the code (entries, bytes, lengths, retention) are constants with the code's values.

  \<^bold>\<open>Not modelled.\<close> Bus transports, daemons, executors, verifiers, observation providers and the session
  owner are I/O around values that enter the model as arguments. The intent library, the request journal
  and the protective-lock settings are further databases (the answers of the last are an argument); migrations
  and first boot work on directory trees. Of the SQLite crate, schema installation, the schema fingerprint
  and the reserve file are left to the environment of the store model. The update journal is what a running
  system reads: when the directory sync after a completed rename fails, the new journal stays in place, and a power
  failure that would undo the rename is not modelled. Scrubbing of key material in memory
  has no counterpart, and neither have \<open>Debug\<close> renderings that no decision reads.
\<close>

end
